(* ===== verification/Prelude.thy ===== *)
theory Prelude
  imports Main "HOL-Library.List_Lexorder" "HOL-Library.Char_ord"
begin

text \<open>
  The shared vocabulary of the development.

  \<^item> Results. Every Go function that returns an \<open>error\<close> is a function into
    \<open>error + 'a\<close>; \<open>rbind\<close> is the \<open>if err != nil { return err }\<close> chain and
    \<open>for_each\<close> a \<open>for\<close> loop that leaves at the first error.
  \<^item> SQL. A table is the list of its rows in insertion order. \<open>upd_rows\<close> is
    \<open>UPDATE .. SET f WHERE p\<close>, \<open>hits\<close> the \<open>RowsAffected\<close> of that statement and
    \<open>exactlyRows\<close> the projection's own check on it. A nullable column is an
    \<open>option\<close>; \<open>nullable\<close> is the Go helper that binds an empty string as NULL.
  \<^item> Strings are byte strings. Their order is the lexicographic order of
    the bytes, which is both Go's \<open><\<close> and SQLite's BINARY collation.
  \<^item> Generic lemmas on results, rows and lists, collected in \<open>res\<close> (how a
    result chain succeeds) and \<open>rows\<close> (what an UPDATE leaves in a table).
\<close>

named_theorems res \<open>elimination of successful result chains\<close>
named_theorems rows \<open>tables after an UPDATE\<close>
named_theorems tokens \<open>the string constants of the program\<close>

section \<open>Results\<close>

text \<open>The errors of the store. \<open>ESql\<close> is a refusal of the database: the
  constraint kind and its name. \<open>ERows\<close> is \<open>exactlyRows\<close> with the row count it
  found. \<open>ERefused\<close> is a refusal of the Go code, named by its rule, and \<open>EWip\<close> a
  structured error of a verb (\<open>wiperr.New\<close>), by its machine token.\<close>

datatype sql_error =
    SqlUnique string
  | SqlCheck string
  | SqlForeignKey string
  | SqlTrigger string

datatype error =
    EDecode
  | ESql sql_error
  | ERows nat
  | ENoRows
  | ERefused string
  | EWip string

type_synonym 'a result = "error + 'a"

definition rbind :: "'e + 'a \<Rightarrow> ('a \<Rightarrow> 'e + 'b) \<Rightarrow> 'e + 'b" where
  "rbind x f = (case x of Inl e \<Rightarrow> Inl e | Inr a \<Rightarrow> f a)"

primrec for_each :: "('a \<Rightarrow> 's \<Rightarrow> 'e + 's) \<Rightarrow> 'a list \<Rightarrow> 's \<Rightarrow> 'e + 's" where
  "for_each f [] s = Inr s"
| "for_each f (x # xs) s = rbind (f x s) (for_each f xs)"

definition of_option :: "'e \<Rightarrow> 'a option \<Rightarrow> 'e + 'a" where
  "of_option e x = (case x of None \<Rightarrow> Inl e | Some a \<Rightarrow> Inr a)"

definition require :: "bool \<Rightarrow> 'e \<Rightarrow> 'e + unit" where
  "require b e = (if b then Inr () else Inl e)"

lemma rbind_simps [simp]:
  "rbind (Inl e) f = Inl e"
  "rbind (Inr a) f = f a"
  by (simp_all add: rbind_def)

lemma rbind_Inr_iff [res]: "rbind x f = Inr y \<longleftrightarrow> (\<exists>a. x = Inr a \<and> f a = Inr y)"
  by (cases x) simp_all

lemma require_Inr_iff [res]: "require b e = Inr u \<longleftrightarrow> b"
  by (simp add: require_def)

lemma of_option_Inr_iff [res]: "of_option e x = Inr y \<longleftrightarrow> x = Some y"
  by (cases x) (simp_all add: of_option_def)

lemma if_Inl_Inr_iff [res]:
  "(if c then Inl e else k) = Inr y \<longleftrightarrow> \<not> c \<and> k = Inr y"
  "(if c then k else Inl e) = Inr y \<longleftrightarrow> c \<and> k = Inr y"
  by auto

lemma rbind_cong [fundef_cong]:
  "x = x' \<Longrightarrow> (\<And>a. x' = Inr a \<Longrightarrow> f a = f' a) \<Longrightarrow> rbind x f = rbind x' f'"
  by (cases x') simp_all

lemma for_each_append: "for_each f (xs @ ys) s = rbind (for_each f xs s) (for_each f ys)"
proof (induction xs arbitrary: s)
  case (Cons x xs)
  then show ?case by (cases "f x s") simp_all
qed simp

text \<open>A loop keeps what its body keeps.\<close>

lemma for_each_inv:
  assumes "for_each f xs s = Inr s'" "P s"
    and "\<And>x a b. x \<in> set xs \<Longrightarrow> P a \<Longrightarrow> f x a = Inr b \<Longrightarrow> P b"
  shows "P s'"
  using assms
proof (induction xs arbitrary: s)
  case (Cons x xs)
  from Cons.prems(1) obtain a where a: "f x s = Inr a" and rest: "for_each f xs a = Inr s'"
    by (auto simp: res)
  have "P a" using Cons.prems(2,3) a by auto
  then show ?case using Cons.IH[OF rest] Cons.prems(3) by auto
qed simp

text \<open>Two loop bodies that agree on every state the loop reaches agree as loops.\<close>

lemma for_each_Inr_mono:
  assumes "for_each f xs s = Inr s'"
    and "\<And>x a b. x \<in> set xs \<Longrightarrow> f x a = Inr b \<Longrightarrow> g x a = Inr b"
  shows "for_each g xs s = Inr s'"
  using assms
proof (induction xs arbitrary: s)
  case (Cons x xs)
  then obtain a where a: "f x s = Inr a" and rest: "for_each f xs a = Inr s'"
    by (auto simp: res)
  have "g x s = Inr a" using Cons.prems(2) a by auto
  then show ?case using Cons.IH[OF rest] Cons.prems(2) by auto
qed simp

section \<open>Rows\<close>

definition upd_rows :: "('r \<Rightarrow> bool) \<Rightarrow> ('r \<Rightarrow> 'r) \<Rightarrow> 'r list \<Rightarrow> 'r list" where
  "upd_rows p f = map (\<lambda>r. if p r then f r else r)"

definition hits :: "('r \<Rightarrow> bool) \<Rightarrow> 'r list \<Rightarrow> nat" where
  "hits p rs = length (filter p rs)"

text \<open>\<open>exactlyRows(res, want, ev)\<close>.\<close>

definition exactlyRows :: "nat \<Rightarrow> nat \<Rightarrow> unit result" where
  "exactlyRows n want = require (n = want) (ERows n)"

definition nullable :: "string \<Rightarrow> string option" where
  "nullable v = (if v = [] then None else Some v)"

text \<open>\<open>COALESCE(column, '')\<close>.\<close>

definition coalesce :: "string option \<Rightarrow> string" where
  "coalesce v = (case v of None \<Rightarrow> [] | Some s \<Rightarrow> s)"

lemma coalesce_simps [simp]: "coalesce None = []" "coalesce (Some s) = s"
  by (simp_all add: coalesce_def)

lemma coalesce_nullable [simp]: "coalesce (nullable v) = v"
  by (simp add: nullable_def)

lemma nullable_Some_iff: "nullable v = Some s \<longleftrightarrow> v = s \<and> s \<noteq> []"
  by (auto simp: nullable_def)

lemma nullable_None_iff: "nullable v = None \<longleftrightarrow> v = []"
  by (simp add: nullable_def)

lemma nullable_Nil [simp]: "nullable [] = None"
  by (simp add: nullable_def)

lemma exactlyRows_Inr_iff [res]: "exactlyRows n want = Inr u \<longleftrightarrow> n = want"
  by (simp add: exactlyRows_def res)

lemma upd_rows_simps [simp]:
  "upd_rows p f [] = []"
  "upd_rows p f (r # rs) = (if p r then f r else r) # upd_rows p f rs"
  by (simp_all add: upd_rows_def)

lemma length_upd_rows [simp]: "length (upd_rows p f rs) = length rs"
  by (simp add: upd_rows_def)

lemma set_upd_rows [rows]:
  "set (upd_rows p f rs) = {f r | r. r \<in> set rs \<and> p r} \<union> {r \<in> set rs. \<not> p r}"
  by (auto simp: upd_rows_def)

lemma in_upd_rowsE:
  assumes "r \<in> set (upd_rows p f rs)"
  obtains (hit) r0 where "r0 \<in> set rs" "p r0" "r = f r0" | (miss) "r \<in> set rs" "\<not> p r"
  using assms by (auto simp: rows)

text \<open>An UPDATE that leaves a column alone leaves its list of values alone, so
  keys stay as distinct as they were.\<close>

lemma map_upd_rows [rows]:
  "(\<And>r. p r \<Longrightarrow> k (f r) = k r) \<Longrightarrow> map k (upd_rows p f rs) = map k rs"
  by (simp add: upd_rows_def)

lemma upd_rows_keeps:
  assumes "\<And>r. p r \<Longrightarrow> k (f r) = k r"
  shows "k ` set (upd_rows p f rs) = k ` set rs"
  using map_upd_rows[of p k f rs] assms by (metis list.set_map)

lemma upd_rows_idle: "(\<And>r. r \<in> set rs \<Longrightarrow> \<not> p r) \<Longrightarrow> upd_rows p f rs = rs"
  by (induction rs) auto

lemma hits_simps [simp]:
  "hits p [] = 0" "hits p (r # rs) = (if p r then Suc (hits p rs) else hits p rs)"
  by (simp_all add: hits_def)

lemma hits_zero_iff: "hits p rs = 0 \<longleftrightarrow> (\<forall>r \<in> set rs. \<not> p r)"
  by (auto simp: hits_def filter_empty_conv)

lemma hits_positive: "0 < hits p rs \<longleftrightarrow> (\<exists>r \<in> set rs. p r)"
  using hits_zero_iff[of p rs] by auto

lemma hits_oneD: "hits p rs = 1 \<Longrightarrow> \<exists>r \<in> set rs. p r"
  using hits_positive[of p rs] by simp

text \<open>A statement whose WHERE clause holds for one key hits at most one row.\<close>

lemma hits_key_le:
  assumes "distinct (map k rs)" "\<And>r. r \<in> set rs \<Longrightarrow> p r \<Longrightarrow> k r = x"
  shows "hits p rs \<le> 1"
  using assms
proof (induction rs)
  case (Cons r rs)
  show ?case
  proof (cases "p r")
    case True
    then have "\<forall>s \<in> set rs. \<not> p s" using Cons.prems by (auto simp: image_iff)
    then show ?thesis using True hits_zero_iff[of p rs] by simp
  next
    case False
    then show ?thesis using Cons by simp
  qed
qed simp

lemma find_Some_iff_mem:
  "List.find p rs = Some r \<Longrightarrow> r \<in> set rs \<and> p r"
  by (auto simp: find_Some_iff)

lemma find_key:
  assumes "distinct (map k rs)" "r \<in> set rs"
  shows "List.find (\<lambda>s. k s = k r) rs = Some r"
  using assms by (induction rs) (auto simp: image_iff)

lemma find_cong_set:
  assumes "\<And>r. r \<in> set rs \<Longrightarrow> p r = q r"
  shows "List.find p rs = List.find q rs"
  using assms by (induction rs) auto

lemma distinct_map_snoc:
  "distinct (map k (rs @ [r])) \<longleftrightarrow> distinct (map k rs) \<and> (\<forall>s \<in> set rs. k s \<noteq> k r)"
  by (auto simp: image_iff)

section \<open>Strings\<close>

text \<open>\<open>strings.TrimSpace(s) == ""\<close>: the string is a sequence of UTF-8 encodings
  of the white space of \<open>unicode.IsSpace\<close>.\<close>

definition ascii_space :: "char \<Rightarrow> bool" where
  "ascii_space c = (c \<in> {CHR 0x09, CHR 0x0A, CHR 0x0B, CHR 0x0C, CHR 0x0D, CHR 0x20})"

definition space2 :: "char \<Rightarrow> char \<Rightarrow> bool" where
  "space2 a b = (a = CHR 0xC2 \<and> (b = CHR 0x85 \<or> b = CHR 0xA0))"

definition space3 :: "char \<Rightarrow> char \<Rightarrow> char \<Rightarrow> bool" where
  "space3 a b c =
     ((a = CHR 0xE1 \<and> b = CHR 0x9A \<and> c = CHR 0x80)
    \<or> (a = CHR 0xE2 \<and> b = CHR 0x80 \<and> of_char c \<in> {0x80 .. 0x8A :: nat})
    \<or> (a = CHR 0xE2 \<and> b = CHR 0x80 \<and> c \<in> {CHR 0xA8, CHR 0xA9, CHR 0xAF})
    \<or> (a = CHR 0xE2 \<and> b = CHR 0x81 \<and> c = CHR 0x9F)
    \<or> (a = CHR 0xE3 \<and> b = CHR 0x80 \<and> c = CHR 0x80))"

fun blank :: "string \<Rightarrow> bool" where
  "blank [] = True"
| "blank (a # s) =
     (if ascii_space a then blank s
      else case s of
        b # s' \<Rightarrow>
          (if space2 a b then blank s'
           else case s' of c # s'' \<Rightarrow> space3 a b c \<and> blank s'' | [] \<Rightarrow> False)
      | [] \<Rightarrow> False)"

text \<open>\<open>strings.TrimSpace\<close> on the bytes: white space is dropped from the front, and from the
  back of the reversed bytes.\<close>

fun trim_front :: "string \<Rightarrow> string" where
  "trim_front [] = []"
| "trim_front (a # s) =
     (if ascii_space a then trim_front s
      else case s of
        b # s' \<Rightarrow> (if space2 a b then trim_front s'
                  else case s' of c # s'' \<Rightarrow> if space3 a b c then trim_front s'' else a # s | [] \<Rightarrow> a # s)
      | [] \<Rightarrow> a # s)"

fun trim_back :: "string \<Rightarrow> string" where
  "trim_back [] = []"
| "trim_back (c # s) =
     (if ascii_space c then trim_back s
      else case s of
        b # s' \<Rightarrow> (if space2 b c then trim_back s'
                  else case s' of a # s'' \<Rightarrow> if space3 a b c then trim_back s'' else c # s | [] \<Rightarrow> c # s)
      | [] \<Rightarrow> c # s)"

definition trim_space :: "string \<Rightarrow> string" where
  "trim_space s = rev (trim_back (rev (trim_front s)))"

text \<open>SQLite's \<open>length(X)\<close> of a TEXT value: the number of UTF-8 characters
  before the first NUL.\<close>

definition continuation :: "char \<Rightarrow> bool" where
  "continuation c = (of_char c \<in> {0x80 .. 0xBF :: nat})"

lemma continuation_code [code]: "continuation c = (digit7 c \<and> \<not> digit6 c)"
proof (cases c)
  case (Char b0 b1 b2 b3 b4 b5 b6 b7)
  then show ?thesis
    by (cases b0; cases b1; cases b2; cases b3; cases b4; cases b5; cases b6; cases b7)
      (simp_all add: continuation_def of_char_def)
qed

definition sql_length :: "string \<Rightarrow> nat" where
  "sql_length s = length (filter (\<lambda>c. \<not> continuation c) (takeWhile (\<lambda>c. c \<noteq> CHR 0x00) s))"

definition has_prefix :: "string \<Rightarrow> string \<Rightarrow> bool" where
  "has_prefix p s = (take (length p) s = p)"

text \<open>\<open>fmt.Sprintf("%d", n)\<close> and \<open>"%02d"\<close> for a natural number.\<close>

fun digits :: "nat \<Rightarrow> string" where
  "digits n = (if n < 10 then [char_of (48 + n)] else digits (n div 10) @ [char_of (48 + n mod 10)])"

declare digits.simps [simp del]

definition digits2 :: "nat \<Rightarrow> string" where
  "digits2 n = (if n < 10 then CHR ''0'' # digits n else digits n)"

lemma sql_length_le: "sql_length s \<le> length s"
  unfolding sql_length_def by (meson length_filter_le length_takeWhile_le order_trans)

lemma sql_length_ascii:
  assumes "\<And>c. c \<in> set s \<Longrightarrow> c \<noteq> CHR 0x00 \<and> \<not> continuation c"
  shows "sql_length s = length s"
proof -
  have t: "takeWhile (\<lambda>c. c \<noteq> CHR 0x00) s = s" using assms by (simp add: takeWhile_eq_all_conv)
  have f: "filter (\<lambda>c. \<not> continuation c) s = s" using assms by (simp add: filter_id_conv)
  show ?thesis by (simp only: sql_length_def t f)
qed

lemma digits_nonempty [simp]: "digits n \<noteq> []"
  by (subst digits.simps) simp

end
