(* ===== verification/Ulid.thy ===== *)
theory Ulid
  imports Prelude "HOL-Library.Word"
begin

text \<open>
  Identities (\<open>internal/store/ulid.go\<close>, and \<open>Store.NewID\<close> of
  \<open>internal/store/store.go\<close>).

  \<open>encodeCrockford\<close> is the bit loop of the source over sixteen 8-bit words;
  \<open>timeOfID\<close> reads the 48-bit millisecond half back into a 64-bit word. The
  clock and the entropy the source reads are explicit: \<open>id_next\<close> takes one
  reading, and \<open>NewID\<close>, the source's endless loop, takes the list of readings it
  gets and is \<open>None\<close> when they run out. The lemmas relate both sides to the
  128-bit number the bytes denote: identities have a fixed shape, encoding is
  injective and strictly monotone, the time half is recovered exactly, and an
  identity \<open>NewID\<close> returns is strictly above the floor.
\<close>

section \<open>The encoding\<close>

unbundle bit_operations_syntax

type_synonym bytes = "8 word list"

definition IDLen :: nat where
  "IDLen = 26"

definition crockford :: string where
  "crockford = ''0123456789ABCDEFGHJKMNPQRSTVWXYZ''"

definition raw_bit :: "bytes \<Rightarrow> nat \<Rightarrow> 8 word" where
  "raw_bit raw bitPos = drop_bit (7 - bitPos mod 8) (raw ! (bitPos div 8)) AND 1"

text \<open>The inner loop: \<open>n\<close> more bits from \<open>bitPos\<close> on.\<close>

primrec gather :: "bytes \<Rightarrow> nat \<Rightarrow> nat \<Rightarrow> 8 word \<Rightarrow> 8 word" where
  "gather raw bitPos 0 v = v"
| "gather raw bitPos (Suc n) v = gather raw (Suc bitPos) n (push_bit 1 v OR raw_bit raw bitPos)"

text \<open>The outer loop: \<open>n\<close> more characters from \<open>bitPos\<close> on.\<close>

primrec encode_from :: "bytes \<Rightarrow> nat \<Rightarrow> nat \<Rightarrow> string" where
  "encode_from raw bitPos 0 = []"
| "encode_from raw bitPos (Suc n) =
     crockford ! unat (gather raw bitPos 5 0) # encode_from raw (bitPos + 5) n"

definition encodeCrockford :: "bytes \<Rightarrow> string" where
  "encodeCrockford raw =
     crockford ! unat (drop_bit 5 (raw ! 0 AND 0xE0)) # encode_from raw 3 (IDLen - 1)"

text \<open>\<open>crockfordValue\<close>: the index of the first match; \<open>None\<close> is the source's -1.\<close>

primrec value_in :: "string \<Rightarrow> nat \<Rightarrow> char \<Rightarrow> nat option" where
  "value_in [] i c = None"
| "value_in (d # ds) i c = (if d = c then Some i else value_in ds (Suc i) c)"

definition crockfordValue :: "char \<Rightarrow> nat option" where
  "crockfordValue c = value_in crockford 0 c"

definition IsIdentityShaped :: "string \<Rightarrow> bool" where
  "IsIdentityShaped s = (length s = IDLen \<and> list_all (\<lambda>c. crockfordValue c \<noteq> None) s)"

primrec time_loop :: "string \<Rightarrow> 64 word \<Rightarrow> (64 word) result" where
  "time_loop [] ms = Inr ms"
| "time_loop (c # cs) ms =
     (case crockfordValue c of
        None \<Rightarrow> Inl (ERefused ''not a Crockford base32 digit'')
      | Some v \<Rightarrow> time_loop cs (push_bit 5 ms OR of_nat v))"

text \<open>\<open>timeOfID\<close>, as the number of milliseconds since the epoch.\<close>

definition timeOfID :: "string \<Rightarrow> int result" where
  "timeOfID ident =
     (if length ident \<noteq> IDLen then Inl (ERefused ''not a 26-character identity'')
      else rbind (time_loop (take 10 ident) 0) (\<lambda>ms. Inr (sint ms)))"

section \<open>The identity source\<close>

record idSource =
  lastMS :: "64 word"
  lastRand :: bytes

text \<open>One reading of the outside world: the clock and ten fresh random bytes.\<close>

type_synonym reading = "64 word \<times> bytes"

text \<open>Increment a big-endian byte string, from its last byte on; the carry out of
  the first byte is lost, as in the source.\<close>

primrec incr_rev :: "bytes \<Rightarrow> bytes" where
  "incr_rev [] = []"
| "incr_rev (b # bs) = (if b + 1 \<noteq> 0 then (b + 1) # bs else (b + 1) # incr_rev bs)"

definition incr_bytes :: "bytes \<Rightarrow> bytes" where
  "incr_bytes bs = rev (incr_rev (rev bs))"

definition byte_at :: "64 word \<Rightarrow> nat \<Rightarrow> 8 word" where
  "byte_at ms i = ucast (drop_bit (8 * i) ms)"

text \<open>\<open>binary.BigEndian.PutUint64\<close> and the slice \<open>tsBuf[2:8]\<close>.\<close>

definition ts_bytes :: "64 word \<Rightarrow> bytes" where
  "ts_bytes ms = map (byte_at ms) [5, 4, 3, 2, 1, 0]"

definition id_next :: "reading \<Rightarrow> idSource \<Rightarrow> string \<times> idSource" where
  "id_next rd s =
     (let (ms, rnd) = rd;
          s' = (if ms > lastMS s then \<lparr>lastMS = ms, lastRand = rnd\<rparr>
                else s\<lparr>lastRand := incr_bytes (lastRand s)\<rparr>)
      in (encodeCrockford (ts_bytes (lastMS s') @ lastRand s'), s'))"

text \<open>\<open>Store.NewID\<close>: retry until the identity clears the floor. The result is the
  identity (which is also the new floor), the source, and the readings left.\<close>

fun NewID :: "reading list \<Rightarrow> string \<Rightarrow> idSource \<Rightarrow> (string \<times> idSource \<times> reading list) option" where
  "NewID [] floor s = None"
| "NewID (rd # rds) floor s =
     (let (ident, s') = id_next rd s
      in if ident > floor then Some (ident, s', rds) else NewID rds floor s')"

section \<open>Digits and numbers\<close>

definition horner :: "nat \<Rightarrow> nat list \<Rightarrow> nat" where
  "horner b = foldl (\<lambda>a d. a * b + d) 0"

lemma foldl_horner: "foldl (\<lambda>a d. a * b + d) c xs = c * b ^ length xs + horner b xs"
proof (induction xs rule: rev_induct)
  case (snoc x xs)
  then show ?case by (simp add: horner_def algebra_simps)
qed (simp add: horner_def)

lemma horner_simps [simp]:
  "horner b [] = 0"
  "horner b (x # xs) = x * b ^ length xs + horner b xs"
  using foldl_horner[of b x xs] by (simp_all add: horner_def)

lemma horner_append: "horner b (xs @ ys) = horner b xs * b ^ length ys + horner b ys"
  using foldl_horner[of b "horner b xs" ys] by (simp add: horner_def)

lemma horner_bound: "(\<And>x. x \<in> set xs \<Longrightarrow> x < b) \<Longrightarrow> horner b xs < b ^ length xs"
proof (induction xs)
  case (Cons x xs)
  have "horner b xs < b ^ length xs" using Cons by simp
  moreover have "x + 1 \<le> b" using Cons.prems[of x] by simp
  then have "(x + 1) * b ^ length xs \<le> b * b ^ length xs" by (rule mult_right_mono) simp
  ultimately show ?case by (simp add: algebra_simps)
qed simp

text \<open>Lists of digits of one length are ordered as the numbers they denote.\<close>

lemma horner_less_iff:
  assumes "length xs = length ys" "\<And>x. x \<in> set xs \<union> set ys \<Longrightarrow> x < b"
  shows "horner b xs < horner b ys \<longleftrightarrow> xs < ys"
  using assms
proof (induction xs ys rule: list_induct2)
  case (Cons x xs y ys)
  let ?B = "b ^ length ys"
  have hx: "horner b xs < ?B" and hy: "horner b ys < ?B"
    using Cons.hyps Cons.prems horner_bound[of xs b] horner_bound[of ys b] by auto
  have IH: "horner b xs < horner b ys \<longleftrightarrow> xs < ys" using Cons by auto
  consider "x < y" | "x = y" | "y < x" by linarith
  then show ?case
  proof cases
    case 1
    then have "(x + 1) * ?B \<le> y * ?B" by (intro mult_right_mono) simp_all
    then show ?thesis using 1 hx Cons.hyps by simp
  next
    case 2
    then show ?thesis using IH Cons.hyps by simp
  next
    case 3
    then have "(y + 1) * ?B \<le> x * ?B" by (intro mult_right_mono) simp_all
    then show ?thesis using 3 hy Cons.hyps by simp
  qed
qed simp

lemma map_less_iff:
  assumes "length xs = length ys"
    and "\<And>x y. x \<in> set xs \<union> set ys \<Longrightarrow> y \<in> set xs \<union> set ys \<Longrightarrow> f x < f y \<longleftrightarrow> x < y"
  shows "map f xs < map f ys \<longleftrightarrow> xs < (ys :: 'a :: linorder list)"
  using assms
proof (induction xs ys rule: list_induct2)
  case (Cons x xs y ys)
  have "f x = f y \<longleftrightarrow> x = y"
    using Cons.prems(1)[of x y] Cons.prems(1)[of y x] by (cases x y rule: linorder_cases) force+
  then show ?case using Cons by simp
qed simp

definition bits :: "8 word \<Rightarrow> nat list" where
  "bits w = map (\<lambda>n. of_bool (bit w n)) (rev [0..<8])"

definition all_bits :: "bytes \<Rightarrow> nat list" where
  "all_bits raw = concat (map bits raw)"

definition raw_value :: "bytes \<Rightarrow> nat" where
  "raw_value raw = horner 256 (map unat raw)"

lemma horner_rev_bits: "horner 2 (rev (map of_bool bs)) = horner_sum of_bool 2 bs"
  by (induction bs) (simp_all add: horner_append)

lemma horner_bits: "horner 2 (bits w) = unat w"
proof -
  have "unat w < 2 ^ LENGTH(8)" by (rule unsigned_less)
  then have unat_lt: "unat w < 256" by simp
  have "horner 2 (bits w) = horner_sum of_bool 2 (map (bit w) [0..<8])"
    using horner_rev_bits[of "map (bit w) [0..<8]"] by (simp add: bits_def rev_map comp_def)
  also have "map (bit w) [0..<8] = map (bit (unat w)) [0..<8]"
    by (simp add: bit_unsigned_iff)
  also have "horner_sum of_bool 2 (map (bit (unat w)) [0..<8]) = unat w"
    using unat_lt by (simp add: horner_sum_bit_eq_take_bit take_bit_nat_eq_self)
  finally show ?thesis .
qed

lemma length_bits [simp]: "length (bits w) = 8"
  by (simp add: bits_def)

lemma nth_bits: "p < 8 \<Longrightarrow> bits w ! p = of_bool (bit w (7 - p))"
  by (simp add: bits_def rev_nth)

lemma length_all_bits [simp]: "length (all_bits raw) = 8 * length raw"
  by (induction raw) (simp_all add: all_bits_def)

lemma horner_all_bits: "horner 2 (all_bits raw) = raw_value raw"
proof (induction raw)
  case (Cons w raw)
  have "horner 2 (all_bits (w # raw)) = unat w * 2 ^ (8 * length raw) + horner 2 (all_bits raw)"
    using horner_append[of 2 "bits w" "all_bits raw"] length_all_bits[of raw] horner_bits[of w]
    by (simp add: all_bits_def)
  moreover have "(2::nat) ^ (8 * length raw) = 256 ^ length raw" by (simp add: power_mult)
  ultimately show ?case using Cons by (simp add: raw_value_def)
qed (simp add: all_bits_def raw_value_def)

lemma nth_all_bits:
  assumes "p < 8 * length raw"
  shows "all_bits raw ! p = of_bool (bit (raw ! (p div 8)) (7 - p mod 8))"
  using assms
proof (induction raw arbitrary: p)
  case (Cons w raw)
  show ?case
  proof (cases "p < 8")
    case True
    then show ?thesis by (simp add: all_bits_def nth_append nth_bits)
  next
    case False
    then obtain q where q: "p = q + 8" using le_Suc_ex[of 8 p] by (auto simp: add.commute)
    have "all_bits (w # raw) ! p = all_bits raw ! q"
      by (simp add: all_bits_def nth_append q)
    moreover have "p div 8 = Suc (q div 8)" "p mod 8 = q mod 8" by (simp_all add: q)
    ultimately show ?thesis using Cons q by simp
  qed
qed simp

lemma all_bits_binary: "x \<in> set (all_bits raw) \<Longrightarrow> x < 2"
  by (auto simp: all_bits_def bits_def)

lemma raw_bit_nth:
  assumes "p < 8 * length raw"
  shows "raw_bit raw p = of_nat (all_bits raw ! p)"
proof -
  have "raw_bit raw p = of_bool (bit (raw ! (p div 8)) (7 - p mod 8))"
    by (simp only: raw_bit_def and_one_eq mod_2_eq_odd bit_iff_odd_drop_bit)
  then show ?thesis using nth_all_bits[OF assms] by simp
qed

lemma pack5:
  assumes "a < 2" "b < 2" "c < 2" "d < 2" "e < (2::nat)"
  shows "unat (push_bit 1 (push_bit 1 (push_bit 1 (push_bit 1 (push_bit 1 0
      OR of_nat a) OR of_nat b) OR of_nat c) OR of_nat d) OR (of_nat e :: 8 word))
    = horner 2 [a, b, c, d, e]"
proof -
  have "a \<in> {0, 1}" "b \<in> {0, 1}" "c \<in> {0, 1}" "d \<in> {0, 1}" "e \<in> {0, 1}" using assms by auto
  then show ?thesis by (elim insertE emptyE) simp_all
qed

lemma gather_horner:
  assumes "p + 5 \<le> 8 * length raw"
  shows "unat (gather raw p 5 0) = horner 2 (take 5 (drop p (all_bits raw)))"
proof -
  let ?b = "\<lambda>i. all_bits raw ! (p + i)"
  have sl: "take 5 (drop p (all_bits raw)) = [?b 0, ?b 1, ?b 2, ?b 3, ?b 4]"
    using assms by (intro nth_equalityI) (auto simp: less_Suc_eq numeral_eq_Suc)
  have bin: "?b i < 2" if "i < 5" for i
    using assms that all_bits_binary[of "?b i" raw] by (auto intro: nth_mem)
  have r: "raw_bit raw (p + i) = of_nat (?b i)" if "i < 5" for i
    using assms that by (intro raw_bit_nth) simp
  have g: "gather raw p 5 0 = push_bit 1 (push_bit 1 (push_bit 1 (push_bit 1 (push_bit 1 0
      OR of_nat (?b 0)) OR of_nat (?b 1)) OR of_nat (?b 2)) OR of_nat (?b 3)) OR of_nat (?b 4)"
    using r[of 0] r[of 1] r[of 2] r[of 3] r[of 4] by (simp add: numeral_eq_Suc)
  show ?thesis unfolding g sl by (intro pack5 bin) simp_all
qed

text \<open>The first character carries the top three bits.\<close>

lemma top_bits:
  assumes "raw \<noteq> []"
  shows "unat (drop_bit 5 (raw ! 0 AND 0xE0)) = horner 2 (take 3 (all_bits raw))"
proof -
  obtain w ws where raw: "raw = w # ws" using assms by (cases raw) auto
  have eights: "[0..<8] = [0, 1, 2, 3, 4, 5, 6, 7 :: nat]" by code_simp
  have "take 3 (all_bits raw) = take 3 (bits w)" by (simp add: raw all_bits_def)
  also have "\<dots> = [of_bool (bit w 7), of_bool (bit w 6), of_bool (bit w 5)]"
    by (simp add: bits_def eights)
  finally have t: "take 3 (all_bits raw) = [of_bool (bit w 7), of_bool (bit w 6), of_bool (bit w 5)]" .
  have E0: "drop_bit 5 (w AND 0xE0) = (of_bool (bit w 7) * 4 + of_bool (bit w 6) * 2 + of_bool (bit w 5) :: 8 word)"
  proof (rule bit_word_eqI)
    fix n assume "n < LENGTH(8)"
    then have "n \<in> {0, 1, 2, 3, 4, 5, 6, 7}" by auto
    then show "bit (drop_bit 5 (w AND 0xE0)) n
        = bit (of_bool (bit w 7) * 4 + of_bool (bit w 6) * 2 + of_bool (bit w 5) :: 8 word) n"
      by (elim insertE emptyE; cases "bit w 7"; cases "bit w 6"; cases "bit w 5")
        (simp_all add: bit_simps)
  qed
  show ?thesis unfolding t unfolding raw nth_Cons_0 E0
    by (cases "bit w 7"; cases "bit w 6"; cases "bit w 5") simp_all
qed

text \<open>The value of the character at position \<open>i\<close>, and the whole digit list.\<close>

definition id_digit :: "bytes \<Rightarrow> nat \<Rightarrow> nat" where
  "id_digit raw i = horner 2 (take 5 (drop (3 + 5 * i) (all_bits raw)))"

definition groups :: "bytes \<Rightarrow> nat list" where
  "groups raw = horner 2 (take 3 (all_bits raw)) # map (id_digit raw) [0..<25]"

lemma encode_from_groups:
  assumes "length raw = 16" "i + n \<le> 25"
  shows "encode_from raw (3 + 5 * i) n = map (\<lambda>j. crockford ! id_digit raw j) [i..<i + n]"
  using assms(2)
proof (induction n arbitrary: i)
  case (Suc n)
  have "encode_from raw (3 + 5 * Suc i) n = map (\<lambda>j. crockford ! id_digit raw j) [Suc i..<Suc i + n]"
    using Suc by (intro Suc.IH) simp
  moreover have "unat (gather raw (3 + 5 * i) 5 0) = id_digit raw i"
    unfolding id_digit_def using assms(1) Suc.prems by (intro gather_horner) simp
  moreover have "[i..<i + Suc n] = i # [Suc i..<Suc i + n]"
    by (simp add: upt_conv_Cons del: upt_Suc)
  ultimately show ?case by (simp add: algebra_simps del: upt_Suc)
qed simp

lemma encodeCrockford_groups:
  assumes "length raw = 16"
  shows "encodeCrockford raw = map (\<lambda>v. crockford ! v) (groups raw)"
proof -
  have "raw \<noteq> []" using assms by auto
  from top_bits[OF this] encode_from_groups[OF assms, of 0 25]
  show ?thesis by (simp add: encodeCrockford_def groups_def IDLen_def comp_def)
qed

lemma groups_prefix:
  assumes "length raw = 16" "n \<le> 25"
  shows "horner 32 (horner 2 (take 3 (all_bits raw)) # map (id_digit raw) [0..<n])
    = horner 2 (take (3 + 5 * n) (all_bits raw))"
  using assms(2)
proof (induction n)
  case (Suc n)
  let ?B = "all_bits raw" and ?xs = "horner 2 (take 3 (all_bits raw)) # map (id_digit raw) [0..<n]"
  have "take (3 + 5 * Suc n) ?B = take (3 + 5 * n) ?B @ take 5 (drop (3 + 5 * n) ?B)"
    by (simp add: take_add[symmetric] algebra_simps)
  then have "horner 2 (take (3 + 5 * Suc n) ?B) = horner 2 (take (3 + 5 * n) ?B) * 32 + id_digit raw n"
    using assms(1) Suc.prems by (simp add: horner_append id_digit_def)
  moreover have "horner 32 (?xs @ [id_digit raw n]) = horner 32 ?xs * 32 + id_digit raw n"
    by (simp only: horner_append) simp
  ultimately show ?case using Suc by simp
qed simp

lemma groups_bound: "v \<in> set (groups raw) \<Longrightarrow> v < 32"
proof -
  have part: "horner 2 (take k (drop p (all_bits raw))) < 2 ^ k" for k p
  proof -
    have "horner 2 (take k (drop p (all_bits raw))) < 2 ^ length (take k (drop p (all_bits raw)))"
      by (rule horner_bound) (meson all_bits_binary in_set_dropD in_set_takeD)
    also have "\<dots> \<le> 2 ^ k" by (rule power_increasing) simp_all
    finally show ?thesis .
  qed
  assume "v \<in> set (groups raw)"
  then show ?thesis using part[of 3 0] part[of 5] by (auto simp: groups_def id_digit_def)
qed

lemma length_groups [simp]: "length (groups raw) = 26"
  by (simp add: groups_def)

lemma groups_value: "length raw = 16 \<Longrightarrow> horner 32 (groups raw) = raw_value raw"
  using groups_prefix[of raw 25] horner_all_bits[of raw] by (simp add: groups_def)

section \<open>Shape, order and time of an identity\<close>

lemma crockford_length [simp]: "length crockford = 32"
  by (simp add: crockford_def)

lemma crockford_strict: "sorted_wrt (<) crockford"
  by (simp add: crockford_def less_char_def)

lemma crockford_nth_less: "i < 32 \<Longrightarrow> j < 32 \<Longrightarrow> crockford ! i < crockford ! j \<longleftrightarrow> i < j"
  using sorted_wrt_nth_less[OF crockford_strict]
  by (metis crockford_length linorder_cases not_less_iff_gr_or_eq)

lemma value_in_nth:
  "distinct ds \<Longrightarrow> i < length ds \<Longrightarrow> value_in ds k (ds ! i) = Some (k + i)"
proof (induction ds arbitrary: i k)
  case (Cons d ds)
  then show ?case by (cases i) auto
qed simp

lemma crockfordValue_nth: "i < 32 \<Longrightarrow> crockfordValue (crockford ! i) = Some i"
  unfolding crockfordValue_def using value_in_nth[of crockford i 0] crockford_strict
  by (simp add: strict_sorted_iff)

lemma encodeCrockford_length [simp]: "length raw = 16 \<Longrightarrow> length (encodeCrockford raw) = 26"
  by (simp add: encodeCrockford_groups)

lemma encodeCrockford_shaped: "length raw = 16 \<Longrightarrow> IsIdentityShaped (encodeCrockford raw)"
  using groups_bound[of _ raw] crockfordValue_nth
  by (auto simp: IsIdentityShaped_def IDLen_def encodeCrockford_groups list_all_iff)

lemma raw_value_less_iff:
  "length a = length b \<Longrightarrow> raw_value a < raw_value b \<longleftrightarrow> map unat a < map unat b"
proof -
  assume "length a = length b"
  moreover have "unat (w :: 8 word) < 256" for w
    using unsigned_less[of w, where 'a = nat] by simp
  ultimately show ?thesis unfolding raw_value_def by (intro horner_less_iff) auto
qed

lemma encodeCrockford_less_iff:
  assumes "length a = 16" "length b = 16"
  shows "encodeCrockford a < encodeCrockford b \<longleftrightarrow> raw_value a < raw_value b"
proof -
  have "encodeCrockford a < encodeCrockford b \<longleftrightarrow> groups a < groups b"
    unfolding encodeCrockford_groups[OF assms(1)] encodeCrockford_groups[OF assms(2)]
    by (rule map_less_iff) (auto dest!: groups_bound simp: crockford_nth_less)
  also have "\<dots> \<longleftrightarrow> horner 32 (groups a) < horner 32 (groups b)"
    by (subst horner_less_iff) (auto dest: groups_bound)
  finally show ?thesis by (simp add: groups_value assms)
qed

lemma time_loop_horner:
  assumes "\<And>v. v \<in> set vs \<Longrightarrow> v < 32" "5 * (k + length vs) \<le> 50" "unat ms < 2 ^ (5 * k)"
  shows "\<exists>w. time_loop (map (\<lambda>v. crockford ! v) vs) ms = Inr w
    \<and> unat w = unat ms * 32 ^ length vs + horner 32 vs"
  using assms
proof (induction vs arbitrary: ms k)
  case (Cons v vs)
  have v: "v < 32" using Cons.prems(1) by simp
  let ?w = "push_bit 5 ms OR of_nat v :: 64 word"
  have small: "unat ms * 32 + v < 2 ^ (5 * Suc k)"
  proof -
    have "unat ms * 32 + v < (unat ms + 1) * 32" using v by simp
    also have "\<dots> \<le> 2 ^ (5 * k) * 32" using Cons.prems(3) by (intro mult_right_mono) simp_all
    finally show ?thesis by (simp add: power_add)
  qed
  also have "(2::nat) ^ (5 * Suc k) \<le> 2 ^ 50" using Cons.prems(2) by (intro power_increasing) simp_all
  finally have fits: "unat ms * 32 + v < 2 ^ 50" .
  have disj: "push_bit 5 ms AND (of_nat v :: 64 word) = 0"
  proof (rule bit_word_eqI)
    fix n
    have "\<not> bit v n" if "5 \<le> n"
    proof -
      have "v < 2 ^ n" using v power_increasing[OF that, of "2::nat"] by simp
      then show ?thesis by (simp add: bit_iff_odd)
    qed
    then show "bit (push_bit 5 ms AND (of_nat v :: 64 word)) n = bit (0 :: 64 word) n"
      by (auto simp: bit_and_iff bit_push_bit_iff bit_of_nat_iff)
  qed
  have "?w = push_bit 5 ms + of_nat v" using disj by (simp add: disjunctive_add_eq_or)
  also have "\<dots> = of_nat (unat ms * 32 + v)" by (simp add: push_bit_eq_mult)
  finally have weq: "?w = of_nat (unat ms * 32 + v)" .
  have w: "unat ?w = unat ms * 32 + v"
    unfolding weq unsigned_of_nat using fits by (simp add: take_bit_nat_eq_self)
  have "\<exists>w. time_loop (map (\<lambda>v. crockford ! v) vs) ?w = Inr w
    \<and> unat w = unat ?w * 32 ^ length vs + horner 32 vs"
    using Cons.prems small w by (intro Cons.IH[of "Suc k"]) simp_all
  then show ?case using w v by (auto simp: crockfordValue_nth algebra_simps)
qed simp

text \<open>C31: the text form of an identity is a faithful image of its sixteen bytes: it
  has the identity shape, two identities are ordered (and equal) exactly as the
  128-bit numbers they encode, and its first ten characters give back the
  48-bit millisecond half.\<close>

theorem encodeCrockford_faithful:
  assumes "length a = 16" "length b = 16"
  shows "IsIdentityShaped (encodeCrockford a)
    \<and> (encodeCrockford a < encodeCrockford b \<longleftrightarrow> raw_value a < raw_value b)
    \<and> (encodeCrockford a = encodeCrockford b \<longleftrightarrow> a = b)
    \<and> timeOfID (encodeCrockford a) = Inr (int (raw_value (take 6 a)))"
proof (intro conjI)
  show "IsIdentityShaped (encodeCrockford a)" using assms by (simp add: encodeCrockford_shaped)
  show less: "encodeCrockford a < encodeCrockford b \<longleftrightarrow> raw_value a < raw_value b"
    using assms by (rule encodeCrockford_less_iff)
  have "encodeCrockford a = encodeCrockford b \<Longrightarrow> map unat a = map unat b"
    using encodeCrockford_less_iff[of a b] encodeCrockford_less_iff[of b a]
      raw_value_less_iff[of a b] raw_value_less_iff[of b a] assms
    by (metis less_irrefl linorder_neq_iff)
  moreover have "inj (unat :: 8 word \<Rightarrow> nat)" by (simp add: inj_def unsigned_word_eqI)
  ultimately show "encodeCrockford a = encodeCrockford b \<longleftrightarrow> a = b"
    by (metis inj_map_eq_map)
  let ?vs = "take 10 (groups a)"
  have vs: "?vs = horner 2 (take 3 (all_bits a)) # map (id_digit a) [0..<9]"
    by (simp add: groups_def take_map)
  obtain w where w: "time_loop (map (\<lambda>v. crockford ! v) ?vs) 0 = Inr w"
    and val: "unat w = horner 32 ?vs"
    using time_loop_horner[of ?vs 0 0] groups_bound[of _ a] by (auto dest: in_set_takeD)
  have "all_bits a = all_bits (take 6 a) @ all_bits (drop 6 a)"
    by (simp add: all_bits_def flip: map_append concat_append)
  then have "take 48 (all_bits a) = all_bits (take 6 a)" using assms by simp
  then have num: "horner 32 ?vs = raw_value (take 6 a)"
    using groups_prefix[of a 9] assms unfolding vs by (simp add: horner_all_bits)
  have small: "raw_value (take 6 a) < 2 ^ 48"
    using horner_bound[of "all_bits (take 6 a)" 2] all_bits_binary[of _ "take 6 a"] assms
    by (simp add: horner_all_bits)
  have "uint w = int (raw_value (take 6 a))" using val num by (metis of_nat_unat)
  then have "sint w = int (unat w)" using small val num
    by (simp add: sint_uint signed_take_bit_int_eq_self)
  then show "timeOfID (encodeCrockford a) = Inr (int (raw_value (take 6 a)))"
    using w val num assms by (simp add: timeOfID_def IDLen_def encodeCrockford_groups take_map)
qed

theorem encodeCrockford_faithful_witness:
  "timeOfID (encodeCrockford [0, 0, 0, 0, 1, 2, 9, 9, 9, 9, 9, 9, 9, 9, 9, 9]) = Inr 258"
  using encodeCrockford_faithful[of "[0, 0, 0, 0, 1, 2, 9, 9, 9, 9, 9, 9, 9, 9, 9, 9]"
      "[0, 0, 0, 0, 1, 2, 9, 9, 9, 9, 9, 9, 9, 9, 9, 9]"]
  by (simp add: raw_value_def)

section \<open>The source ascends\<close>

text \<open>\<open>wf_src\<close>: the ten-byte array of the struct, and a clock that has not passed
  the 48 bits an identity carries (the year 10889).\<close>

definition wf_src :: "idSource \<Rightarrow> bool" where
  "wf_src s = (length (lastRand s) = 10 \<and> unat (lastMS s) < 2 ^ 48)"

definition wf_reading :: "reading \<Rightarrow> bool" where
  "wf_reading rd = (unat (fst rd) < 2 ^ 48 \<and> length (snd rd) = 10)"

text \<open>The identity a source issued last.\<close>

definition issued :: "idSource \<Rightarrow> string" where
  "issued s = encodeCrockford (ts_bytes (lastMS s) @ lastRand s)"

lemma id_next_issued: "fst (id_next rd s) = issued (snd (id_next rd s))"
  by (simp add: id_next_def issued_def Let_def split: prod.split)

lemma raw_value_append: "raw_value (a @ b) = raw_value a * 256 ^ length b + raw_value b"
  by (simp add: raw_value_def horner_append)

lemma raw_value_bound: "raw_value a < 256 ^ length a"
proof -
  have "unat (w :: 8 word) < 256" for w using unsigned_less[of w, where 'a = nat] by simp
  then show ?thesis using horner_bound[of "map unat a" 256] by (auto simp: raw_value_def)
qed

lemma length_ts_bytes [simp]: "length (ts_bytes ms) = 6"
  by (simp add: ts_bytes_def)

lemma unat_byte_at: "unat (byte_at ms i) = unat ms div 256 ^ i mod 256"
proof -
  have "unat (byte_at ms i) = take_bit 8 (unat (drop_bit (8 * i) ms))"
    by (simp add: byte_at_def unsigned_ucast_eq)
  also have "unat (drop_bit (8 * i) ms) = unat ms div 2 ^ (8 * i)"
    by (simp only: unat_drop_bit_eq) (simp only: drop_bit_eq_div)
  finally show ?thesis by (simp add: power_mult take_bit_eq_mod)
qed

lemma base256_digits:
  assumes "n < (2::nat) ^ 48"
  shows "horner 256 (map (\<lambda>i. n div 256 ^ i mod 256) [5, 4, 3, 2, 1, 0]) = n"
proof -
  define q where "q i = n div 256 ^ i" for i
  have step: "j = Suc i \<Longrightarrow> q i = q j * 256 + q i mod 256" for i j
    unfolding q_def by (simp add: div_mult2_eq mult.commute[of 256])
  have zero: "q 6 = 0" using assms by (simp add: q_def)
  have steps: "q 0 = q 1 * 256 + q 0 mod 256" "q 1 = q 2 * 256 + q 1 mod 256"
    "q 2 = q 3 * 256 + q 2 mod 256" "q 3 = q 4 * 256 + q 3 mod 256"
    "q 4 = q 5 * 256 + q 4 mod 256" "q 5 = q 6 * 256 + q 5 mod 256"
    by (rule step, simp)+
  have "horner 256 (map (\<lambda>i. q i mod 256) [5, 4, 3, 2, 1, 0])
      = q 5 mod 256 * 1099511627776 + (q 4 mod 256 * 4294967296 + (q 3 mod 256 * 16777216
        + (q 2 mod 256 * 65536 + (q 1 mod 256 * 256 + q 0 mod 256))))" by simp
  also have "\<dots> = q 0" using steps zero by linarith
  finally have "horner 256 (map (\<lambda>i. q i mod 256) [5, 4, 3, 2, 1, 0]) = q 0" .
  then show ?thesis by (simp add: q_def)
qed

lemma ts_bytes_value: "unat ms < 2 ^ 48 \<Longrightarrow> raw_value (ts_bytes ms) = unat ms"
  using base256_digits[of "unat ms"] by (simp add: raw_value_def ts_bytes_def unat_byte_at)

lemma incr_rev_value:
  "horner 256 (map unat (rev (incr_rev bs))) = (horner 256 (map unat (rev bs)) + 1) mod 256 ^ length bs"
  and length_incr_rev: "length (incr_rev bs) = length bs"
proof (induction bs)
  case (Cons b bs)
  let ?H = "horner 256 (map unat (rev bs))" and ?B = "256 ^ length bs :: nat"
  have val: "horner 256 (map unat (rev (c # cs))) = horner 256 (map unat (rev cs)) * 256 + unat c"
    for c :: "8 word" and cs by (simp add: horner_append)
  have blt: "unat b < 256" using unsigned_less[of b, where 'a = nat] by simp
  have Hlt: "?H < ?B" using raw_value_bound[of "rev bs"] by (simp add: raw_value_def)
  {
    case 1
    show ?case
    proof (cases "b + 1 = 0")
      case True
      then have "b = -1" by (simp add: eq_neg_iff_add_eq_0)
      then have b: "unat b = 255" by (simp add: unsigned_minus_1_eq_mask mask_eq_exp_minus_1)
      have "horner 256 (map unat (rev (incr_rev (b # bs)))) = (?H + 1) mod ?B * 256"
        using True Cons.IH(1) by (simp add: horner_append)
      also have "\<dots> = (?H + 1) * 256 mod (?B * 256)" by (rule mod_mult_mult2[symmetric])
      finally show ?thesis using b by (simp add: horner_append mult.commute)
    next
      case False
      then have b: "unat (b + 1) = unat b + 1" using unatSuc[of b] by (simp add: add.commute)
      then have "unat b + 1 < 256" using unsigned_less[of "b + 1", where 'a = nat] by simp
      then have "?H * 256 + (unat b + 1) < ?B * 256" 
      proof -
        have "?H * 256 + (unat b + 1) < (?H + 1) * 256" using \<open>unat b + 1 < 256\<close> by simp
        also have "\<dots> \<le> ?B * 256" using Hlt by (intro mult_right_mono) simp_all
        finally show ?thesis .
      qed
      then show ?thesis using False b by (simp add: horner_append mult.commute)
    qed
    case 2
    show ?case using Cons.IH(2) by simp
  }
qed simp_all

lemma incr_bytes_value: "raw_value (incr_bytes bs) = (raw_value bs + 1) mod 256 ^ length bs"
  using incr_rev_value[of "rev bs"] by (simp add: raw_value_def incr_bytes_def)

lemma length_incr_bytes [simp]: "length (incr_bytes bs) = length bs"
  using length_incr_rev[of "rev bs"] by (simp add: incr_bytes_def)

lemma id_next_wf: "wf_src s \<Longrightarrow> wf_reading rd \<Longrightarrow> wf_src (snd (id_next rd s))"
  by (auto simp: wf_src_def wf_reading_def id_next_def Let_def split: prod.split)

lemma issued_shaped: "wf_src s \<Longrightarrow> IsIdentityShaped (issued s)"
  by (simp add: issued_def wf_src_def encodeCrockford_shaped)

text \<open>The number an identity of the source denotes: time above randomness.\<close>

lemma issued_less_iff:
  assumes "wf_src s" "wf_src t"
  shows "issued s < issued t \<longleftrightarrow>
    unat (lastMS s) * 256 ^ 10 + raw_value (lastRand s) < unat (lastMS t) * 256 ^ 10 + raw_value (lastRand t)"
  using assms
  by (simp add: issued_def wf_src_def encodeCrockford_less_iff raw_value_append ts_bytes_value)

lemma raw_value_zeros: "raw_value (replicate n 0) = 0"
  by (induction n) (simp_all add: raw_value_def)

lemma raw_value_ones: "raw_value (replicate n (-1)) + 1 = 256 ^ n"
  by (induction n) (simp_all add: raw_value_def unsigned_minus_1_eq_mask mask_eq_exp_minus_1)

lemma later_ms_above:
  assumes "wf_src s" "length raw = 16" "raw_value (take 6 raw) < unat (lastMS s)"
  shows "encodeCrockford raw < issued s"
proof -
  have split: "raw_value raw = raw_value (take 6 raw) * 256 ^ 10 + raw_value (drop 6 raw)"
    using raw_value_append[of "take 6 raw" "drop 6 raw"] assms(2) by simp
  have "raw_value (drop 6 raw) < 256 ^ 10" using raw_value_bound[of "drop 6 raw"] assms(2) by simp
  moreover have "(raw_value (take 6 raw) + 1) * 256 ^ 10 \<le> unat (lastMS s) * 256 ^ 10"
    using assms(3) by (intro mult_right_mono) simp_all
  ultimately have "raw_value raw < unat (lastMS s) * 256 ^ 10 + raw_value (lastRand s)"
    unfolding split by simp
  then show ?thesis using assms(1,2)
    by (simp add: issued_def wf_src_def encodeCrockford_less_iff raw_value_append ts_bytes_value)
qed

text \<open>Successive identities of one source ascend strictly, in a later millisecond
  and within one, as long as the clock stays within 48 bits and the random half
  of the last identity is not the all-ones string.\<close>

theorem id_next_ascends:
  assumes "wf_src s" "wf_reading rd"
    and "fst rd > lastMS s \<or> raw_value (lastRand s) + 1 < 256 ^ 10"
  shows "issued s < fst (id_next rd s)"
proof (cases "fst rd > lastMS s")
  case True
  then have "lastMS (snd (id_next rd s)) = fst rd"
    by (cases rd) (simp add: id_next_def)
  then have "unat (lastMS s) < unat (lastMS (snd (id_next rd s)))"
    using True by (simp add: word_less_nat_alt)
  then have "raw_value (take 6 (ts_bytes (lastMS s) @ lastRand s)) < unat (lastMS (snd (id_next rd s)))"
    using assms(1) by (simp add: wf_src_def ts_bytes_value)
  then show ?thesis unfolding id_next_issued issued_def[of s]
    using assms by (intro later_ms_above id_next_wf) (simp_all add: wf_src_def)
next
  case False
  then have s': "snd (id_next rd s) = s\<lparr>lastRand := incr_bytes (lastRand s)\<rparr>"
    by (cases rd) (simp add: id_next_def)
  have "raw_value (incr_bytes (lastRand s)) = raw_value (lastRand s) + 1"
    using assms False by (simp add: incr_bytes_value wf_src_def)
  then show ?thesis unfolding id_next_issued
    using assms by (subst issued_less_iff) (simp_all add: s' wf_src_def)
qed

theorem id_next_ascends_witness:
  "issued \<lparr>lastMS = 5, lastRand = replicate 10 0\<rparr>
     < fst (id_next (5, replicate 10 7) \<lparr>lastMS = 5, lastRand = replicate 10 0\<rparr>)"
  by (rule id_next_ascends) (simp_all add: wf_src_def wf_reading_def raw_value_zeros)

text \<open>The exception is real: the comment on \<open>idSource\<close> says that successive ids
  sort strictly ascending even within one millisecond, but the increment of an
  all-ones random half wraps to zero and the next identity sorts first.\<close>

theorem id_next_wraps:
  "fst (id_next (5, replicate 10 7) \<lparr>lastMS = 5, lastRand = replicate 10 (-1)\<rparr>)
     < issued \<lparr>lastMS = 5, lastRand = replicate 10 (-1)\<rparr>"
proof -
  let ?s = "\<lparr>lastMS = 5, lastRand = replicate 10 (-1)\<rparr>"
  have wf: "wf_src ?s" "wf_reading (5, replicate 10 7)" by (simp_all add: wf_src_def wf_reading_def)
  have s': "snd (id_next (5, replicate 10 7) ?s) = ?s\<lparr>lastRand := incr_bytes (replicate 10 (-1))\<rparr>"
    by (simp add: id_next_def)
  have full: "raw_value (replicate 10 (-1)) + 1 = 256 ^ 10" by (rule raw_value_ones)
  have "raw_value (incr_bytes (replicate 10 (-1))) = 0"
    using full by (simp add: incr_bytes_value)
  then show ?thesis unfolding id_next_issued
    using wf full by (subst issued_less_iff) (simp_all add: s' wf_src_def)
qed

lemma NewID_floor:
  assumes "NewID rds floor s = Some (ident, s', rds')"
    and "wf_src s" "\<And>rd. rd \<in> set rds \<Longrightarrow> wf_reading rd"
  shows "floor < ident \<and> ident = issued s' \<and> wf_src s' \<and> set rds' \<subseteq> set rds"
  using assms
proof (induction rds floor s rule: NewID.induct)
  case (2 rd rds floor s)
  obtain i t where step: "id_next rd s = (i, t)" by fastforce
  have i: "i = issued t" using id_next_issued[of rd s] step by simp
  have t: "wf_src t" using id_next_wf[of s rd] 2(3,4) step by simp
  show ?case
  proof (cases "floor < i")
    case True
    then show ?thesis using 2(2) step i t by auto
  next
    case False
    then have "NewID rds floor t = Some (ident, s', rds')" using 2(2) step by simp
    then show ?thesis using "2.IH"[of "(i, t)" i t] step False t 2(4) by auto
  qed
qed simp

text \<open>C32: an identity \<open>Store.NewID\<close> returns is strictly above the floor, whatever the
  clock did and even where the source itself wrapped, and has the identity
  shape; and the loop returns as soon as one clock reading passes the
  millisecond of the floor.\<close>

theorem NewID_above_floor:
  assumes "wf_src s" "\<forall>rd \<in> set rds. wf_reading rd" "length raw = 16"
  shows "(NewID rds floor s = Some (ident, s', rds') \<longrightarrow> floor < ident \<and> IsIdentityShaped ident)
    \<and> ((\<exists>rd \<in> set rds. raw_value (take 6 raw) < unat (fst rd)) \<longrightarrow>
         NewID rds (encodeCrockford raw) s \<noteq> None)"
proof (intro conjI impI)
  assume "NewID rds floor s = Some (ident, s', rds')"
  from NewID_floor[OF this assms(1)] assms(2) show "floor < ident" "IsIdentityShaped ident"
    by (auto simp: issued_shaped)
next
  assume "\<exists>rd \<in> set rds. raw_value (take 6 raw) < unat (fst rd)"
  then show "NewID rds (encodeCrockford raw) s \<noteq> None" using assms(1,2)
  proof (induction rds arbitrary: s)
    case (Cons rd rds)
    obtain i t where step: "id_next rd s = (i, t)" by fastforce
    have i: "i = issued t" using id_next_issued[of rd s] step by simp
    have t: "wf_src t" using id_next_wf[of s rd] Cons.prems step by simp
    show ?case
    proof (cases "raw_value (take 6 raw) < unat (fst rd)")
      case True
      have "unat (fst rd) \<le> unat (lastMS t)"
        using step by (cases rd) (auto simp: id_next_def word_less_nat_alt split: if_splits)
      then have "encodeCrockford raw < i" unfolding i
        using True t assms(3) by (intro later_ms_above) simp_all
      then show ?thesis using step by simp
    next
      case False
      then show ?thesis using Cons step t by (auto simp: Let_def)
    qed
  qed simp
qed

theorem NewID_above_floor_witness:
  "(\<exists>ident s' rds'. NewID [(9, replicate 10 7)] (encodeCrockford (replicate 16 0))
      \<lparr>lastMS = 5, lastRand = replicate 10 0\<rparr> = Some (ident, s', rds')
      \<and> encodeCrockford (replicate 16 0) < ident \<and> IsIdentityShaped ident)"
proof -
  let ?s = "\<lparr>lastMS = 5, lastRand = replicate 10 0\<rparr>" and ?rds = "[(9, replicate 10 7)] :: reading list"
  have wf: "wf_src ?s" "\<forall>rd \<in> set ?rds. wf_reading rd" "length (replicate 16 0 :: bytes) = 16"
    by (simp_all add: wf_src_def wf_reading_def)
  have pass: "\<exists>rd \<in> set ?rds. raw_value (take 6 (replicate 16 0)) < unat (fst rd)"
    by (simp add: raw_value_zeros)
  have "NewID ?rds (encodeCrockford (replicate 16 0)) ?s \<noteq> None"
    using NewID_above_floor[OF wf] pass by blast
  then obtain ident s' rds' where
    some: "NewID ?rds (encodeCrockford (replicate 16 0)) ?s = Some (ident, s', rds')"
    by (metis not_None_eq prod_cases3)
  then show ?thesis using NewID_above_floor[OF wf] by blast
qed

end
