(* ===== verification/Sha256.thy ===== *)
theory Sha256
  imports Ulid
begin

text \<open>
  The SHA-256 digest of Go's \<open>crypto/sha256\<close> (FIPS 180-4), as the store uses it:
  over the bytes of a content object (\<open>insertContent\<close>, \<open>ContentDraft\<close>) and over the
  idempotency key of a tracker candidate (\<open>insertTrackerCandidate\<close>). It is part of
  the language's library and is modelled as the standard defines it; the only
  facts the development uses are the lengths of the digest and of its
  hexadecimal form.
\<close>

type_synonym w32 = "32 word"

definition rotr :: "nat \<Rightarrow> w32 \<Rightarrow> w32" where
  "rotr n x = drop_bit n x OR push_bit (32 - n) x"

definition ch :: "w32 \<Rightarrow> w32 \<Rightarrow> w32 \<Rightarrow> w32" where
  "ch x y z = (x AND y) XOR (NOT x AND z)"

definition maj :: "w32 \<Rightarrow> w32 \<Rightarrow> w32 \<Rightarrow> w32" where
  "maj x y z = (x AND y) XOR (x AND z) XOR (y AND z)"

definition big_sigma0 :: "w32 \<Rightarrow> w32" where
  "big_sigma0 x = rotr 2 x XOR rotr 13 x XOR rotr 22 x"

definition big_sigma1 :: "w32 \<Rightarrow> w32" where
  "big_sigma1 x = rotr 6 x XOR rotr 11 x XOR rotr 25 x"

definition small_sigma0 :: "w32 \<Rightarrow> w32" where
  "small_sigma0 x = rotr 7 x XOR rotr 18 x XOR drop_bit 3 x"

definition small_sigma1 :: "w32 \<Rightarrow> w32" where
  "small_sigma1 x = rotr 17 x XOR rotr 19 x XOR drop_bit 10 x"

definition sha_k :: "w32 list" where
  "sha_k = [
    1116352408, 1899447441, 3049323471, 3921009573, 961987163, 1508970993,
    2453635748, 2870763221, 3624381080, 310598401, 607225278, 1426881987,
    1925078388, 2162078206, 2614888103, 3248222580, 3835390401, 4022224774,
    264347078, 604807628, 770255983, 1249150122, 1555081692, 1996064986,
    2554220882, 2821834349, 2952996808, 3210313671, 3336571891, 3584528711,
    113926993, 338241895, 666307205, 773529912, 1294757372, 1396182291,
    1695183700, 1986661051, 2177026350, 2456956037, 2730485921, 2820302411,
    3259730800, 3345764771, 3516065817, 3600352804, 4094571909, 275423344,
    430227734, 506948616, 659060556, 883997877, 958139571, 1322822218,
    1537002063, 1747873779, 1955562222, 2024104815, 2227730452, 2361852424,
    2428436474, 2756734187, 3204031479, 3329325298]"

definition sha_init :: "w32 list" where
  "sha_init = [
    1779033703, 3144134277, 1013904242, 2773480762, 1359893119, 2600822924,
    528734635, 1541459225]"

definition be_word :: "bytes \<Rightarrow> w32" where
  "be_word bs = foldl (\<lambda>a b. push_bit 8 a OR ucast b) 0 bs"

definition be_bytes :: "w32 \<Rightarrow> bytes" where
  "be_bytes w = map (\<lambda>i. ucast (drop_bit (8 * i) w)) [3, 2, 1, 0]"

definition sha_pad :: "bytes \<Rightarrow> bytes" where
  "sha_pad m = m @ [0x80] @ replicate ((119 - length m mod 64) mod 64) 0
     @ map (\<lambda>i. ucast (drop_bit (8 * i) (of_nat (8 * length m) :: 64 word))) [7, 6, 5, 4, 3, 2, 1, 0]"

text \<open>The message schedule, newest word first.\<close>

primrec extend :: "nat \<Rightarrow> w32 list \<Rightarrow> w32 list" where
  "extend 0 w = w"
| "extend (Suc n) w =
     extend n ((small_sigma1 (w ! 1) + w ! 6 + small_sigma0 (w ! 14) + w ! 15) # w)"

definition schedule :: "bytes \<Rightarrow> w32 list" where
  "schedule block =
     rev (extend 48 (rev (map (\<lambda>i. be_word (take 4 (drop (4 * i) block))) [0..<16])))"

definition round_step :: "w32 list \<Rightarrow> w32 \<times> w32 \<Rightarrow> w32 list" where
  "round_step s kw = (case s of [a, b, c, d, e, f, g, h] \<Rightarrow>
       let t1 = h + big_sigma1 e + ch e f g + fst kw + snd kw;
           t2 = big_sigma0 a + maj a b c
       in [t1 + t2, a, b, c, d + t1, e, f, g]
     | _ \<Rightarrow> s)"

definition compress :: "w32 list \<Rightarrow> bytes \<Rightarrow> w32 list" where
  "compress h block = map2 (+) h (foldl round_step h (zip sha_k (schedule block)))"

fun sha_blocks :: "w32 list \<Rightarrow> bytes \<Rightarrow> w32 list" where
  "sha_blocks h m = (if m = [] then h else sha_blocks (compress h (take 64 m)) (drop 64 m))"

declare sha_blocks.simps [simp del]

definition sha256 :: "bytes \<Rightarrow> bytes" where
  "sha256 m = concat (map be_bytes (sha_blocks sha_init (sha_pad m)))"

definition string_bytes :: "string \<Rightarrow> bytes" where
  "string_bytes s = map of_char s"

definition hex_digit :: "nat \<Rightarrow> char" where
  "hex_digit n = ''0123456789abcdef'' ! n"

text \<open>\<open>hex.EncodeToString\<close>.\<close>

definition hex_encode :: "bytes \<Rightarrow> string" where
  "hex_encode bs = concat (map (\<lambda>b. [hex_digit (unat b div 16), hex_digit (unat b mod 16)]) bs)"

lemma length_round_step [simp]: "length s = 8 \<Longrightarrow> length (round_step s kw) = 8"
  by (auto simp: round_step_def Let_def split: list.splits)

lemma length_compress: "length h = 8 \<Longrightarrow> length (compress h block) = 8"
proof -
  assume h: "length h = 8"
  have "length (foldl round_step s kws) = 8" if "length s = 8" for s kws
    using that by (induction kws arbitrary: s) simp_all
  then show ?thesis using h by (simp add: compress_def)
qed

lemma length_sha_blocks: "length h = 8 \<Longrightarrow> length (sha_blocks h m) = 8"
proof (induction h m rule: sha_blocks.induct)
  case (1 h m)
  then show ?case by (subst sha_blocks.simps) (simp add: length_compress)
qed

lemma length_sha256 [simp]: "length (sha256 m) = 32"
proof -
  have "length (concat (map be_bytes ws)) = 4 * length ws" for ws
    by (induction ws) (simp_all add: be_bytes_def)
  then show ?thesis by (simp add: sha256_def length_sha_blocks sha_init_def)
qed

lemma length_hex_encode [simp]: "length (hex_encode bs) = 2 * length bs"
  by (induction bs) (simp_all add: hex_encode_def)

end
