(* ===== verification/Taxonomy.thy ===== *)
theory Taxonomy
  imports Prelude
begin

text \<open>
  The event taxonomy and the closed vocabularies (\<open>internal/store/taxonomy.go\<close>).

  Every event type is a string token; \<open>EventType\<close> is one row of the taxonomy with
  the tier dimensions the type requires (D56). \<open>taxonomySets\<close> is one slice per
  numbered migration, \<open>taxonomyIndex\<close> the index \<open>requiredDimensions\<close> reads, and
  \<open>verifyTaxonomy\<close> the check \<open>openAt\<close> runs on the \<open>event_types\<close> table. The
  lemmas show that the index is well formed (its construction does not panic),
  that the dimension rule is one of three, that the gate owner and owned gate
  tables are one list from two sides, and what \<open>verifyTaxonomy\<close> does and does
  not establish.
\<close>

section \<open>Event types\<close>

definition TypeMatterCreated :: string where [tokens]: "TypeMatterCreated = ''matter.created''"
definition TypeStageCreated :: string where [tokens]: "TypeStageCreated = ''stage.created''"
definition TypeStepCreated :: string where [tokens]: "TypeStepCreated = ''step.created''"
definition TypeMatterStarted :: string where [tokens]: "TypeMatterStarted = ''matter.started''"
definition TypeStageStarted :: string where [tokens]: "TypeStageStarted = ''stage.started''"
definition TypeStepStarted :: string where [tokens]: "TypeStepStarted = ''step.started''"
definition TypeMatterFinished :: string where [tokens]: "TypeMatterFinished = ''matter.finished''"
definition TypeStageFinished :: string where [tokens]: "TypeStageFinished = ''stage.finished''"
definition TypeStepFinished :: string where [tokens]: "TypeStepFinished = ''step.finished''"
definition TypeMatterCanceled :: string where [tokens]: "TypeMatterCanceled = ''matter.canceled''"
definition TypeStageCanceled :: string where [tokens]: "TypeStageCanceled = ''stage.canceled''"
definition TypeStepCanceled :: string where [tokens]: "TypeStepCanceled = ''step.canceled''"
definition TypeMatterPaused :: string where [tokens]: "TypeMatterPaused = ''matter.paused''"
definition TypeStagePaused :: string where [tokens]: "TypeStagePaused = ''stage.paused''"
definition TypeStepPaused :: string where [tokens]: "TypeStepPaused = ''step.paused''"
definition TypeMatterResumed :: string where [tokens]: "TypeMatterResumed = ''matter.resumed''"
definition TypeStageResumed :: string where [tokens]: "TypeStageResumed = ''stage.resumed''"
definition TypeStepResumed :: string where [tokens]: "TypeStepResumed = ''step.resumed''"
definition TypeContentCreated :: string where [tokens]: "TypeContentCreated = ''content.created''"
definition TypeContentAppended :: string where [tokens]: "TypeContentAppended = ''content.appended''"
definition TypeStepInserted :: string where [tokens]: "TypeStepInserted = ''step.inserted''"
definition TypeStepReordered :: string where [tokens]: "TypeStepReordered = ''step.reordered''"
definition TypeStepReplaced :: string where [tokens]: "TypeStepReplaced = ''step.replaced''"
definition TypeStepRemoved :: string where [tokens]: "TypeStepRemoved = ''step.removed''"
definition TypeDependencyAdded :: string where [tokens]: "TypeDependencyAdded = ''dependency.added''"
definition TypeDependencyRemoved :: string where [tokens]: "TypeDependencyRemoved = ''dependency.removed''"
definition TypeGateClosed :: string where [tokens]: "TypeGateClosed = ''gate.closed''"
definition TypeGateDismissed :: string where [tokens]: "TypeGateDismissed = ''gate.dismissed''"
definition TypeGateDeclared :: string where [tokens]: "TypeGateDeclared = ''gate.declared''"
definition TypeGateExemptionRepaired :: string where [tokens]: "TypeGateExemptionRepaired = ''gate.exemption-repaired''"
definition TypeConfigSet :: string where [tokens]: "TypeConfigSet = ''config.set''"
definition TypeBacklogEntered :: string where [tokens]: "TypeBacklogEntered = ''backlog.entered''"
definition TypeBacklogPlanned :: string where [tokens]: "TypeBacklogPlanned = ''backlog.planned''"
definition TypeBacklogDeclined :: string where [tokens]: "TypeBacklogDeclined = ''backlog.declined''"
definition TypeBacklogDelegated :: string where [tokens]: "TypeBacklogDelegated = ''backlog.delegated''"
definition TypeReferenceBound :: string where [tokens]: "TypeReferenceBound = ''reference.bound''"
definition TypeReferenceAdded :: string where [tokens]: "TypeReferenceAdded = ''reference.added''"
definition TypeReferenceRemoved :: string where [tokens]: "TypeReferenceRemoved = ''reference.removed''"
definition TypeReferenceRebound :: string where [tokens]: "TypeReferenceRebound = ''reference.rebound''"
definition TypeRepoAttached :: string where [tokens]: "TypeRepoAttached = ''repo.attached''"
definition TypeCloneAttached :: string where [tokens]: "TypeCloneAttached = ''clone.attached''"
definition TypeWorktreeAttached :: string where [tokens]: "TypeWorktreeAttached = ''worktree.attached''"
definition TypeRepoKeyAdopted :: string where [tokens]: "TypeRepoKeyAdopted = ''repo.key-adopted''"
definition TypeCloneRelinked :: string where [tokens]: "TypeCloneRelinked = ''clone.relinked''"
definition TypeCloneLabeled :: string where [tokens]: "TypeCloneLabeled = ''clone.labeled''"
definition TypeRenderPerformed :: string where [tokens]: "TypeRenderPerformed = ''render.performed''"
definition TypeCursorMoved :: string where [tokens]: "TypeCursorMoved = ''cursor.moved''"
definition TypeBatchCreated :: string where [tokens]: "TypeBatchCreated = ''batch.created''"
definition TypeBatchJoined :: string where [tokens]: "TypeBatchJoined = ''batch.joined''"
definition TypeBatchLeft :: string where [tokens]: "TypeBatchLeft = ''batch.left''"
definition TypeBatchDismissed :: string where [tokens]: "TypeBatchDismissed = ''batch.dismissed''"
definition TypeBatchSwept :: string where [tokens]: "TypeBatchSwept = ''batch.swept''"
definition TypeDispatchOpened :: string where [tokens]: "TypeDispatchOpened = ''dispatch.opened''"
definition TypeDispatchClosed :: string where [tokens]: "TypeDispatchClosed = ''dispatch.closed''"
definition TypeRunStarted :: string where [tokens]: "TypeRunStarted = ''run.started''"
definition TypeRunSkipped :: string where [tokens]: "TypeRunSkipped = ''run.skipped''"
definition TypeRunResumed :: string where [tokens]: "TypeRunResumed = ''run.resumed''"
definition TypeRunFinished :: string where [tokens]: "TypeRunFinished = ''run.finished''"
definition TypeRunStoodDown :: string where [tokens]: "TypeRunStoodDown = ''run.stood-down''"
definition TypeRoleSpawned :: string where [tokens]: "TypeRoleSpawned = ''role.spawned''"
definition TypeRoleClosed :: string where [tokens]: "TypeRoleClosed = ''role.closed''"
definition TypeTrackerItemCreated :: string where [tokens]: "TypeTrackerItemCreated = ''tracker.item-created''"
definition TypeTrackerStatePushed :: string where [tokens]: "TypeTrackerStatePushed = ''tracker.state-pushed''"
definition TypeTrackerStateObserved :: string where [tokens]: "TypeTrackerStateObserved = ''tracker.state-observed''"
definition TypeTrackerAdhocProposed :: string where [tokens]: "TypeTrackerAdhocProposed = ''tracker.adhoc-proposed''"
definition TypeOutboxApproved :: string where [tokens]: "TypeOutboxApproved = ''outbox.approved''"
definition TypeOutboxDeclined :: string where [tokens]: "TypeOutboxDeclined = ''outbox.declined''"
definition TypeOutboxWithheld :: string where [tokens]: "TypeOutboxWithheld = ''outbox.withheld''"
definition TypeOutboxDeliveryFailed :: string where [tokens]: "TypeOutboxDeliveryFailed = ''outbox.delivery-failed''"
definition TypeOutboxRetried :: string where [tokens]: "TypeOutboxRetried = ''outbox.retried''"
definition TypeOutboxFlushed :: string where [tokens]: "TypeOutboxFlushed = ''outbox.flushed''"

section \<open>Families and the three dimension rules\<close>

type_synonym Family = string

definition FamilyLifecycle :: Family where [tokens]: "FamilyLifecycle = ''lifecycle''"
definition FamilyContent :: Family where [tokens]: "FamilyContent = ''content''"
definition FamilyAmendment :: Family where [tokens]: "FamilyAmendment = ''amendment''"
definition FamilyDependency :: Family where [tokens]: "FamilyDependency = ''dependency''"
definition FamilyGate :: Family where [tokens]: "FamilyGate = ''gate''"
definition FamilyConfig :: Family where [tokens]: "FamilyConfig = ''config''"
definition FamilyBacklog :: Family where [tokens]: "FamilyBacklog = ''backlog''"
definition FamilyReference :: Family where [tokens]: "FamilyReference = ''reference''"
definition FamilyTier :: Family where [tokens]: "FamilyTier = ''tier''"
definition FamilyRender :: Family where [tokens]: "FamilyRender = ''render''"
definition FamilyCursor :: Family where [tokens]: "FamilyCursor = ''cursor''"
definition FamilyBatch :: Family where [tokens]: "FamilyBatch = ''batch''"
definition FamilyDispatch :: Family where [tokens]: "FamilyDispatch = ''dispatch''"
definition FamilyRun :: Family where [tokens]: "FamilyRun = ''run''"
definition FamilyRole :: Family where [tokens]: "FamilyRole = ''role''"
definition FamilyTracker :: Family where [tokens]: "FamilyTracker = ''tracker''"

record EventType =
  et_Type :: string
  et_Family :: Family
  et_Repo :: bool
  et_Clone :: bool
  et_Worktree :: bool

definition durable :: "string \<Rightarrow> Family \<Rightarrow> EventType" where
  "durable t f = \<lparr>et_Type = t, et_Family = f, et_Repo = True, et_Clone = False, et_Worktree = False\<rparr>"

definition execution :: "string \<Rightarrow> Family \<Rightarrow> EventType" where
  "execution t f = \<lparr>et_Type = t, et_Family = f, et_Repo = True, et_Clone = True, et_Worktree = True\<rparr>"

definition batchScoped :: "string \<Rightarrow> EventType" where
  "batchScoped t = \<lparr>et_Type = t, et_Family = FamilyBatch, et_Repo = False, et_Clone = True, et_Worktree = True\<rparr>"

definition P1Taxonomy :: "EventType list" where
  "P1Taxonomy = [
    durable TypeMatterCreated FamilyLifecycle,
    durable TypeStageCreated FamilyLifecycle,
    durable TypeStepCreated FamilyLifecycle,
    durable TypeMatterStarted FamilyLifecycle,
    durable TypeStageStarted FamilyLifecycle,
    durable TypeStepStarted FamilyLifecycle,
    durable TypeMatterFinished FamilyLifecycle,
    durable TypeStageFinished FamilyLifecycle,
    durable TypeStepFinished FamilyLifecycle,
    durable TypeMatterCanceled FamilyLifecycle,
    durable TypeStageCanceled FamilyLifecycle,
    durable TypeStepCanceled FamilyLifecycle,
    durable TypeMatterPaused FamilyLifecycle,
    durable TypeStagePaused FamilyLifecycle,
    durable TypeStepPaused FamilyLifecycle,
    durable TypeMatterResumed FamilyLifecycle,
    durable TypeStageResumed FamilyLifecycle,
    durable TypeStepResumed FamilyLifecycle,
    durable TypeContentCreated FamilyContent,
    durable TypeContentAppended FamilyContent,
    durable TypeStepInserted FamilyAmendment,
    durable TypeStepReordered FamilyAmendment,
    durable TypeStepReplaced FamilyAmendment,
    durable TypeStepRemoved FamilyAmendment,
    durable TypeDependencyAdded FamilyDependency,
    durable TypeDependencyRemoved FamilyDependency,
    durable TypeGateClosed FamilyGate,
    durable TypeBacklogEntered FamilyBacklog,
    durable TypeBacklogPlanned FamilyBacklog,
    durable TypeBacklogDeclined FamilyBacklog,
    durable TypeReferenceBound FamilyReference,
    durable TypeRepoAttached FamilyTier,
    durable TypeCloneAttached FamilyTier,
    durable TypeWorktreeAttached FamilyTier,
    durable TypeRepoKeyAdopted FamilyTier,
    durable TypeCloneRelinked FamilyTier,
    durable TypeCloneLabeled FamilyTier,
    execution TypeRenderPerformed FamilyRender,
    execution TypeCursorMoved FamilyCursor,
    execution TypeDispatchOpened FamilyDispatch,
    execution TypeDispatchClosed FamilyDispatch,
    batchScoped TypeBatchCreated,
    batchScoped TypeBatchJoined,
    batchScoped TypeBatchLeft]"

definition V2Taxonomy :: "EventType list" where
  "V2Taxonomy = [
    execution TypeRunStarted FamilyRun,
    execution TypeRunSkipped FamilyRun,
    execution TypeRunResumed FamilyRun,
    execution TypeRunFinished FamilyRun,
    execution TypeRunStoodDown FamilyRun]"

definition V3Taxonomy :: "EventType list" where
  "V3Taxonomy = [
    batchScoped TypeBatchDismissed,
    batchScoped TypeBatchSwept]"

definition V4Taxonomy :: "EventType list" where
  "V4Taxonomy = [
    execution TypeRoleSpawned FamilyRole,
    execution TypeRoleClosed FamilyRole]"

definition V5Taxonomy :: "EventType list" where
  "V5Taxonomy = [
    durable TypeReferenceAdded FamilyReference,
    durable TypeReferenceRemoved FamilyReference,
    durable TypeReferenceRebound FamilyReference,
    durable TypeBacklogDelegated FamilyBacklog,
    durable TypeTrackerStatePushed FamilyTracker]"

definition V6Taxonomy :: "EventType list" where
  "V6Taxonomy = [
    durable TypeTrackerItemCreated FamilyTracker]"

definition V7Taxonomy :: "EventType list" where
  "V7Taxonomy = [
    durable TypeOutboxApproved FamilyTracker,
    durable TypeOutboxDeclined FamilyTracker,
    durable TypeOutboxWithheld FamilyTracker,
    durable TypeOutboxDeliveryFailed FamilyTracker,
    durable TypeOutboxRetried FamilyTracker,
    durable TypeOutboxFlushed FamilyTracker]"

definition V9Taxonomy :: "EventType list" where
  "V9Taxonomy = [
    durable TypeTrackerStateObserved FamilyTracker]"

definition V11Taxonomy :: "EventType list" where
  "V11Taxonomy = [
    durable TypeGateDismissed FamilyGate]"

definition V13Taxonomy :: "EventType list" where
  "V13Taxonomy = [
    durable TypeConfigSet FamilyConfig,
    durable TypeGateDeclared FamilyGate,
    durable TypeGateExemptionRepaired FamilyGate]"

definition V14Taxonomy :: "EventType list" where
  "V14Taxonomy = [
    durable TypeTrackerAdhocProposed FamilyTracker]"

definition taxonomySets :: "EventType list list" where
  "taxonomySets = [P1Taxonomy, V2Taxonomy, V3Taxonomy, V4Taxonomy, V5Taxonomy, V6Taxonomy, V7Taxonomy, V9Taxonomy, V11Taxonomy, V13Taxonomy, V14Taxonomy]"

definition registeredTypes :: "EventType list" where
  "registeredTypes = concat taxonomySets"

text \<open>The package initialiser panics when a type appears twice; \<open>None\<close> is the
  panic.\<close>

fun build_index :: "EventType list \<Rightarrow> (string \<rightharpoonup> EventType) \<Rightarrow> (string \<rightharpoonup> EventType) option" where
  "build_index [] index = Some index"
| "build_index (t # all) index =
     (if index (et_Type t) \<noteq> None then None
      else build_index all (index(et_Type t \<mapsto> t)))"

definition taxonomyIndex :: "string \<rightharpoonup> EventType" where
  "taxonomyIndex = (case build_index registeredTypes Map.empty of Some index \<Rightarrow> index | None \<Rightarrow> Map.empty)"

definition requiredDimensions :: "string \<Rightarrow> EventType result" where
  "requiredDimensions eventType =
     of_option (ERefused ''not a registered event type'') (taxonomyIndex eventType)"

text \<open>\<open>verifyTaxonomy\<close> at a schema version, against the types the database's
  \<open>event_types\<close> table holds.\<close>

definition verifiedTypes :: "nat \<Rightarrow> EventType list" where
  "verifiedTypes version =
     P1Taxonomy
     @ (if version \<ge> 2 then V2Taxonomy else [])
     @ (if version \<ge> 3 then V3Taxonomy else [])
     @ (if version \<ge> 4 then V4Taxonomy else [])
     @ (if version \<ge> 5 then V5Taxonomy else [])
     @ (if version \<ge> 6 then V6Taxonomy else [])
     @ (if version \<ge> 11 then V11Taxonomy else [])
     @ (if version \<ge> 13 then V13Taxonomy else [])
     @ (if version \<ge> 14 then V14Taxonomy else [])"

definition verifyTaxonomy :: "string list \<Rightarrow> nat \<Rightarrow> unit result" where
  "verifyTaxonomy known version =
     require (\<forall>t \<in> set (verifiedTypes version). et_Type t \<in> set known)
       (ERefused ''the migration that seeds it is missing'')"

section \<open>Closed vocabularies\<close>

text \<open>The Go enumerations are string types: a payload can carry any string, and
  the closed set is enforced where the code or the schema enforces it.\<close>

type_synonym Lifecycle = string
type_synonym Scale = string
type_synonym ContentKind = string
type_synonym RoleName = string
type_synonym Actor = string

definition Planned :: Lifecycle where [tokens]: "Planned = ''planned''"
definition InProgress :: Lifecycle where [tokens]: "InProgress = ''in-progress''"
definition Done :: Lifecycle where [tokens]: "Done = ''done''"
definition Canceled :: Lifecycle where [tokens]: "Canceled = ''canceled''"
definition Paused :: Lifecycle where [tokens]: "Paused = ''paused''"

definition ScaleMatter :: Scale where [tokens]: "ScaleMatter = ''matter''"
definition ScaleStage :: Scale where [tokens]: "ScaleStage = ''stage''"
definition ScaleStep :: Scale where [tokens]: "ScaleStep = ''step''"

definition KindBrief :: ContentKind where [tokens]: "KindBrief = ''brief''"
definition KindWorkplan :: ContentKind where [tokens]: "KindWorkplan = ''workplan''"
definition KindBody :: ContentKind where [tokens]: "KindBody = ''body''"
definition KindFindings :: ContentKind where [tokens]: "KindFindings = ''findings''"

definition AppendOnlyKind :: "ContentKind \<Rightarrow> bool" where
  "AppendOnlyKind k = (k = KindFindings)"

definition ProvenanceIntake :: string where [tokens]: "ProvenanceIntake = ''intake''"
definition ProvenanceFound :: string where [tokens]: "ProvenanceFound = ''found''"
definition ProvenanceDeferred :: string where [tokens]: "ProvenanceDeferred = ''deferred''"

definition RunSkipContention :: string where [tokens]: "RunSkipContention = ''contention''"
definition RunSkipBlocked :: string where [tokens]: "RunSkipBlocked = ''blocked''"
definition RunSkipFailed :: string where [tokens]: "RunSkipFailed = ''failed''"

definition CloseCompleted :: string where [tokens]: "CloseCompleted = ''completed''"
definition CloseSuperseded :: string where [tokens]: "CloseSuperseded = ''superseded''"
definition CloseReaped :: string where [tokens]: "CloseReaped = ''reaped''"

definition RoleOrchestrator :: RoleName where [tokens]: "RoleOrchestrator = ''orchestrator''"
definition RoleCoordinator :: RoleName where [tokens]: "RoleCoordinator = ''coordinator''"
definition RoleResearcher :: RoleName where [tokens]: "RoleResearcher = ''researcher''"
definition RoleBuilder :: RoleName where [tokens]: "RoleBuilder = ''builder''"
definition RoleVerifier :: RoleName where [tokens]: "RoleVerifier = ''verifier''"
definition RoleWarden :: RoleName where [tokens]: "RoleWarden = ''warden''"

definition KnownRole :: "RoleName \<Rightarrow> bool" where
  "KnownRole name \<longleftrightarrow> name \<in> set [RoleOrchestrator, RoleCoordinator, RoleResearcher,
     RoleBuilder, RoleVerifier, RoleWarden]"

definition OuterLoop :: "RoleName \<Rightarrow> bool" where
  "OuterLoop n \<longleftrightarrow> n = RoleVerifier \<or> n = RoleWarden"

definition ActorHuman :: Actor where [tokens]: "ActorHuman = ''human''"

definition RoleActor :: "string \<Rightarrow> Actor" where
  "RoleActor name = ''role:'' @ name"

definition SystemActor :: "string \<Rightarrow> Actor" where
  "SystemActor source = ''system:'' @ source"

definition GateOwner :: "string \<Rightarrow> RoleName option" where
  "GateOwner gate =
     (if gate = ''verified'' then Some RoleVerifier
      else if gate = ''reviewed'' \<or> gate = ''ci-green'' then Some RoleWarden
      else None)"

definition OwnedGates :: "RoleName \<Rightarrow> string list" where
  "OwnedGates n =
     (if n = RoleVerifier then [''verified'']
      else if n = RoleWarden then [''reviewed'', ''ci-green'']
      else [])"

definition RoleCloseCompleted :: string where [tokens]: "RoleCloseCompleted = ''completed''"
definition RoleCloseReaped :: string where [tokens]: "RoleCloseReaped = ''reaped''"

section \<open>The vocabularies are disjoint\<close>

lemma lifecycle_distinct [simp]:
  "Planned \<noteq> InProgress" "Planned \<noteq> Done" "Planned \<noteq> Canceled" "Planned \<noteq> Paused"
  "InProgress \<noteq> Planned" "InProgress \<noteq> Done" "InProgress \<noteq> Canceled" "InProgress \<noteq> Paused"
  "Done \<noteq> Planned" "Done \<noteq> InProgress" "Done \<noteq> Canceled" "Done \<noteq> Paused"
  "Canceled \<noteq> Planned" "Canceled \<noteq> InProgress" "Canceled \<noteq> Done" "Canceled \<noteq> Paused"
  "Paused \<noteq> Planned" "Paused \<noteq> InProgress" "Paused \<noteq> Done" "Paused \<noteq> Canceled"
  by (simp_all add: Planned_def InProgress_def Done_def Canceled_def Paused_def)

lemma scale_distinct [simp]:
  "ScaleMatter \<noteq> ScaleStage" "ScaleMatter \<noteq> ScaleStep" "ScaleStage \<noteq> ScaleMatter"
  "ScaleStage \<noteq> ScaleStep" "ScaleStep \<noteq> ScaleMatter" "ScaleStep \<noteq> ScaleStage"
  by (simp_all add: ScaleMatter_def ScaleStage_def ScaleStep_def)

lemma role_distinct [simp]:
  "RoleVerifier \<noteq> RoleWarden" "RoleWarden \<noteq> RoleVerifier"
  by (simp_all add: tokens)

lemmas taxonomy_defs =
  P1Taxonomy_def V2Taxonomy_def V3Taxonomy_def V4Taxonomy_def V5Taxonomy_def V6Taxonomy_def
  V7Taxonomy_def V9Taxonomy_def V11Taxonomy_def V13Taxonomy_def V14Taxonomy_def

section \<open>The index\<close>

lemma build_index_Some:
  assumes "distinct (map et_Type ts)" "\<And>t. t \<in> set ts \<Longrightarrow> m (et_Type t) = None"
  shows "build_index ts m = Some (m ++ map_of (map (\<lambda>t. (et_Type t, t)) ts))"
  using assms
proof (induction ts arbitrary: m)
  case (Cons t ts)
  have fresh: "m (et_Type t) = None" using Cons.prems(2) by simp
  then have one: "build_index (t # ts) m = build_index ts (m(et_Type t \<mapsto> t))" by simp
  have rest: "build_index ts (m(et_Type t \<mapsto> t))
      = Some (m(et_Type t \<mapsto> t) ++ map_of (map (\<lambda>t. (et_Type t, t)) ts))"
    using Cons.prems by (intro Cons.IH) (auto simp: image_iff)
  have same: "m(et_Type t \<mapsto> t) ++ map_of (map (\<lambda>t. (et_Type t, t)) ts)
      = m ++ map_of (map (\<lambda>t. (et_Type t, t)) (t # ts))"
  proof
    fix x
    have "et_Type t \<notin> et_Type ` set ts" using Cons.prems(1) by simp
    then have "map_of (map (\<lambda>t. (et_Type t, t)) ts) (et_Type t) = None"
      by (auto simp: map_of_eq_None_iff image_iff)
    then show "(m(et_Type t \<mapsto> t) ++ map_of (map (\<lambda>t. (et_Type t, t)) ts)) x
        = (m ++ map_of (map (\<lambda>t. (et_Type t, t)) (t # ts))) x"
      by (cases "x = et_Type t") (auto simp: map_add_def split: option.split)
  qed
  show ?case by (simp only: one rest same)
qed simp

lemma registeredTypes_distinct: "distinct (map et_Type registeredTypes)"
  by (simp add: registeredTypes_def taxonomySets_def taxonomy_defs durable_def execution_def
      batchScoped_def tokens)

lemma taxonomyIndex_map_of:
  "build_index registeredTypes Map.empty = Some taxonomyIndex"
  "taxonomyIndex = map_of (map (\<lambda>t. (et_Type t, t)) registeredTypes)"
  using build_index_Some[OF registeredTypes_distinct, of Map.empty]
  by (simp_all add: taxonomyIndex_def)

lemma taxonomyIndex_Some_iff:
  "taxonomyIndex ty = Some r \<longleftrightarrow> r \<in> set registeredTypes \<and> et_Type r = ty"
proof
  assume "taxonomyIndex ty = Some r"
  then have "(ty, r) \<in> set (map (\<lambda>t. (et_Type t, t)) registeredTypes)"
    unfolding taxonomyIndex_map_of(2) by (rule map_of_SomeD)
  then show "r \<in> set registeredTypes \<and> et_Type r = ty" by auto
next
  assume r: "r \<in> set registeredTypes \<and> et_Type r = ty"
  have "distinct (map fst (map (\<lambda>t. (et_Type t, t)) registeredTypes))"
    using registeredTypes_distinct by (simp add: comp_def)
  moreover have "(ty, r) \<in> set (map (\<lambda>t. (et_Type t, t)) registeredTypes)"
    using r by auto
  ultimately show "taxonomyIndex ty = Some r"
    unfolding taxonomyIndex_map_of(2) by simp
qed

text \<open>The index as a search, which is what the simplifier evaluates.\<close>

lemma requiredDimensions_find [code]:
  "requiredDimensions ty = of_option (ERefused ''not a registered event type'')
     (List.find (\<lambda>t. et_Type t = ty) registeredTypes)"
proof -
  have find: "map_of (map (\<lambda>t. (et_Type t, t)) ts) ty = List.find (\<lambda>t. et_Type t = ty) ts" for ts
    by (induction ts) auto
  show ?thesis by (simp only: requiredDimensions_def taxonomyIndex_map_of(2) find)
qed

text \<open>the dimension rule is a total function of a registered type, and it is
  one of three rules: repo only, all three, or - for the batch family alone -
  clone and worktree without a repo (D56). An unregistered type is refused, and
  building the index never panics.\<close>

theorem requiredDimensions_spec:
  "build_index registeredTypes Map.empty = Some taxonomyIndex
   \<and> (requiredDimensions ty = Inr r \<longleftrightarrow> r \<in> set registeredTypes \<and> et_Type r = ty)
   \<and> (\<forall>t \<in> set registeredTypes.
        (et_Repo t, et_Clone t, et_Worktree t) =
          (if et_Family t = FamilyBatch then (False, True, True)
           else if et_Family t \<in> {FamilyRender, FamilyCursor, FamilyDispatch, FamilyRun, FamilyRole}
           then (True, True, True) else (True, False, False)))"
proof (intro conjI)
  show "build_index registeredTypes Map.empty = Some taxonomyIndex" by (rule taxonomyIndex_map_of)
  show "requiredDimensions ty = Inr r \<longleftrightarrow> r \<in> set registeredTypes \<and> et_Type r = ty"
    by (simp add: requiredDimensions_def res taxonomyIndex_Some_iff)
  show "\<forall>t \<in> set registeredTypes.
        (et_Repo t, et_Clone t, et_Worktree t) =
          (if et_Family t = FamilyBatch then (False, True, True)
           else if et_Family t \<in> {FamilyRender, FamilyCursor, FamilyDispatch, FamilyRun, FamilyRole}
           then (True, True, True) else (True, False, False))"
    by (simp add: registeredTypes_def taxonomySets_def taxonomy_defs durable_def execution_def
        batchScoped_def FamilyLifecycle_def FamilyContent_def FamilyAmendment_def FamilyDependency_def
        FamilyGate_def FamilyConfig_def FamilyBacklog_def FamilyReference_def FamilyTier_def
        FamilyRender_def FamilyCursor_def FamilyBatch_def FamilyDispatch_def FamilyRun_def
        FamilyRole_def FamilyTracker_def)
qed

theorem requiredDimensions_spec_witness:
  "requiredDimensions TypeBatchSwept = Inr (batchScoped TypeBatchSwept) \<and> \<not> et_Repo (batchScoped TypeBatchSwept)"
proof -
  have mem: "batchScoped TypeBatchSwept \<in> set registeredTypes"
    by (simp add: registeredTypes_def taxonomySets_def V3Taxonomy_def)
  then show ?thesis
    using requiredDimensions_spec[of TypeBatchSwept "batchScoped TypeBatchSwept"] by (auto simp: batchScoped_def)
qed

text \<open>the gate list and the outer-loop role list are one list from two sides
  (D14): a role owns a gate exactly when the gate is among the role's owned
  gates, only outer-loop roles own gates, and every owner is a known role.\<close>

theorem GateOwner_OwnedGates:
  "(GateOwner g = Some n \<longleftrightarrow> g \<in> set (OwnedGates n))
   \<and> (OwnedGates n \<noteq> [] \<longleftrightarrow> OuterLoop n) \<and> (OuterLoop n \<longrightarrow> KnownRole n)"
  by (auto simp: GateOwner_def OwnedGates_def OuterLoop_def KnownRole_def)

theorem GateOwner_OwnedGates_witness:
  "GateOwner ''reviewed'' = Some RoleWarden \<and> ''reviewed'' \<in> set (OwnedGates RoleWarden)
   \<and> KnownRole RoleWarden"
  using GateOwner_OwnedGates[of "''reviewed''" RoleWarden] by (simp add: OwnedGates_def OuterLoop_def)

text \<open>\<open>verifyTaxonomy\<close> does not do what its comment says. A version-14 store
  whose \<open>event_types\<close> table lacks the whole outbox family and
  \<open>tracker.state-observed\<close> passes the check, although the binary stamps them.\<close>

theorem verifyTaxonomy_misses:
  "\<exists>known. verifyTaxonomy known 14 = Inr ()
     \<and> (\<forall>t \<in> set (V7Taxonomy @ V9Taxonomy).
          et_Type t \<notin> set known \<and> requiredDimensions (et_Type t) = Inr t)"
proof -
  let ?known = "map et_Type (verifiedTypes 14)"
  have pass: "verifyTaxonomy ?known 14 = Inr ()"
    by (auto simp: verifyTaxonomy_def require_def)
  have miss: "\<forall>t \<in> set (V7Taxonomy @ V9Taxonomy). et_Type t \<notin> set ?known"
    by (simp add: verifiedTypes_def taxonomy_defs durable_def execution_def batchScoped_def tokens)
  have stamped: "\<forall>t \<in> set (V7Taxonomy @ V9Taxonomy). requiredDimensions (et_Type t) = Inr t"
    by (auto simp: requiredDimensions_def res taxonomyIndex_Some_iff registeredTypes_def taxonomySets_def)
  from pass miss stamped show ?thesis by blast
qed

end
