(* ===== verification/Payloads.thy ===== *)
theory Payloads
  imports Sha256 Taxonomy
begin

text \<open>
  Event payloads (\<open>internal/store/payloads.go\<close>, and \<open>decode\<close> and \<open>decodeStrict\<close> of
  \<open>internal/store/project.go\<close>).

  A payload is a JSON object: the list of its keys and values in order. One
  record per Go struct, with \<open>marshal_S\<close> for \<open>json.Marshal\<close> (an \<open>omitempty\<close> field
  that is zero is left out), \<open>decode_S\<close> for \<open>json.Unmarshal\<close> into a zero struct
  (an absent or null key leaves the zero value, the last occurrence of a key
  wins, a value of another type is an error) and \<open>decodeStrict_S\<close> for the decoder
  with \<open>DisallowUnknownFields\<close>, where the program uses it. Keys are matched
  exactly, which is what payloads written by \<open>json.Marshal\<close> need; the base64 text
  of a byte slice is one JSON value. The lemmas are the round trips.
\<close>

named_theorems payload_rt \<open>a marshalled payload decodes to itself\<close>

section \<open>JSON objects\<close>

datatype jval =
    JS string
  | JI int
  | JB bool
  | JL "string list"
  | JY bytes
  | JNull

type_synonym json = "(string \<times> jval) list"

definition int64 :: "int \<Rightarrow> bool" where
  "int64 n = (- (2 ^ 63) \<le> n \<and> n < 2 ^ 63)"

text \<open>One field of a struct: the accumulator is the value the field has so far.\<close>

primrec jstr :: "string \<Rightarrow> json \<Rightarrow> string \<Rightarrow> string result" where
  "jstr k [] acc = Inr acc"
| "jstr k (kv # j) acc =
     (if fst kv \<noteq> k then jstr k j acc
      else case snd kv of JS s \<Rightarrow> jstr k j s | JNull \<Rightarrow> jstr k j acc | _ \<Rightarrow> Inl EDecode)"

primrec jint :: "string \<Rightarrow> json \<Rightarrow> int \<Rightarrow> int result" where
  "jint k [] acc = Inr acc"
| "jint k (kv # j) acc =
     (if fst kv \<noteq> k then jint k j acc
      else case snd kv of
          JI n \<Rightarrow> (if int64 n then jint k j n else Inl EDecode)
        | JNull \<Rightarrow> jint k j acc | _ \<Rightarrow> Inl EDecode)"

primrec jbool :: "string \<Rightarrow> json \<Rightarrow> bool \<Rightarrow> bool result" where
  "jbool k [] acc = Inr acc"
| "jbool k (kv # j) acc =
     (if fst kv \<noteq> k then jbool k j acc
      else case snd kv of JB b \<Rightarrow> jbool k j b | JNull \<Rightarrow> jbool k j acc | _ \<Rightarrow> Inl EDecode)"

primrec jlist :: "string \<Rightarrow> json \<Rightarrow> string list \<Rightarrow> string list result" where
  "jlist k [] acc = Inr acc"
| "jlist k (kv # j) acc =
     (if fst kv \<noteq> k then jlist k j acc
      else case snd kv of JL l \<Rightarrow> jlist k j l | JNull \<Rightarrow> jlist k j [] | _ \<Rightarrow> Inl EDecode)"

primrec jbytes :: "string \<Rightarrow> json \<Rightarrow> bytes option \<Rightarrow> bytes option result" where
  "jbytes k [] acc = Inr acc"
| "jbytes k (kv # j) acc =
     (if fst kv \<noteq> k then jbytes k j acc
      else case snd kv of JY b \<Rightarrow> jbytes k j (Some b) | JNull \<Rightarrow> jbytes k j None | _ \<Rightarrow> Inl EDecode)"

definition jof_bytes :: "bytes option \<Rightarrow> jval" where
  "jof_bytes b = (case b of None \<Rightarrow> JNull | Some bs \<Rightarrow> JY bs)"

definition known_keys :: "string list \<Rightarrow> json \<Rightarrow> unit result" where
  "known_keys ks j = require (\<forall>kv \<in> set j. fst kv \<in> set ks) EDecode"

text \<open>\<open>decodeStrict(ev, &struct{}{})\<close> and the other payloads without a field.\<close>

definition decodeStrict_empty :: "json \<Rightarrow> unit result" where
  "decodeStrict_empty j = known_keys [] j"

text \<open>SQLite's \<open>json_extract(payload, '$.k')\<close> of a string field.\<close>

definition json_extract :: "string \<Rightarrow> json \<Rightarrow> string option" where
  "json_extract k j = (case map_of j k of Some (JS s) \<Rightarrow> Some s | _ \<Rightarrow> None)"

section \<open>The payload structs\<close>

record NodeBirth =
  nb_Title :: string
  nb_Locator :: string
  nb_Parent :: string
  nb_SortKey :: int

definition marshal_NodeBirth :: "NodeBirth \<Rightarrow> json" where
  "marshal_NodeBirth p =
     [(''title'', JS (nb_Title p))]
     @ [(''locator'', JS (nb_Locator p))]
     @ (if nb_Parent p \<noteq> [] then [(''parent'', JS (nb_Parent p))] else [])
     @ [(''sort_key'', JI (nb_SortKey p))]"

definition decode_NodeBirth :: "json \<Rightarrow> NodeBirth result" where
  "decode_NodeBirth j =
     rbind (jstr ''title'' j []) (\<lambda>v0.
     rbind (jstr ''locator'' j []) (\<lambda>v1.
     rbind (jstr ''parent'' j []) (\<lambda>v2.
     rbind (jint ''sort_key'' j 0) (\<lambda>v3.
     Inr \<lparr>nb_Title = v0, nb_Locator = v1, nb_Parent = v2, nb_SortKey = v3\<rparr>))))"

record Transition =
  tr_From :: string
  tr_To :: string
  tr_Cascade :: bool
  tr_TrackerPushLevel :: string
  tr_Reason :: string

definition marshal_Transition :: "Transition \<Rightarrow> json" where
  "marshal_Transition p =
     [(''from'', JS (tr_From p))]
     @ [(''to'', JS (tr_To p))]
     @ (if tr_Cascade p then [(''cascade'', JB (tr_Cascade p))] else [])
     @ (if tr_TrackerPushLevel p \<noteq> [] then [(''tracker_push_level'', JS (tr_TrackerPushLevel p))] else [])
     @ (if tr_Reason p \<noteq> [] then [(''reason'', JS (tr_Reason p))] else [])"

definition decode_Transition :: "json \<Rightarrow> Transition result" where
  "decode_Transition j =
     rbind (jstr ''from'' j []) (\<lambda>v0.
     rbind (jstr ''to'' j []) (\<lambda>v1.
     rbind (jbool ''cascade'' j False) (\<lambda>v2.
     rbind (jstr ''tracker_push_level'' j []) (\<lambda>v3.
     rbind (jstr ''reason'' j []) (\<lambda>v4.
     Inr \<lparr>tr_From = v0, tr_To = v1, tr_Cascade = v2, tr_TrackerPushLevel = v3, tr_Reason = v4\<rparr>)))))"

record ContentWritten =
  cw_Kind :: string
  cw_Content :: string
  cw_Bytes :: "bytes option"
  cw_BlobRef :: string
  cw_ByteLen :: int
  cw_SHA256 :: string

definition marshal_ContentWritten :: "ContentWritten \<Rightarrow> json" where
  "marshal_ContentWritten p =
     [(''kind'', JS (cw_Kind p))]
     @ [(''content'', JS (cw_Content p))]
     @ [(''bytes'', jof_bytes (cw_Bytes p))]
     @ (if cw_BlobRef p \<noteq> [] then [(''blob_ref'', JS (cw_BlobRef p))] else [])
     @ [(''byte_len'', JI (cw_ByteLen p))]
     @ [(''sha256'', JS (cw_SHA256 p))]"

definition decode_ContentWritten :: "json \<Rightarrow> ContentWritten result" where
  "decode_ContentWritten j =
     rbind (jstr ''kind'' j []) (\<lambda>v0.
     rbind (jstr ''content'' j []) (\<lambda>v1.
     rbind (jbytes ''bytes'' j None) (\<lambda>v2.
     rbind (jstr ''blob_ref'' j []) (\<lambda>v3.
     rbind (jint ''byte_len'' j 0) (\<lambda>v4.
     rbind (jstr ''sha256'' j []) (\<lambda>v5.
     Inr \<lparr>cw_Kind = v0, cw_Content = v1, cw_Bytes = v2, cw_BlobRef = v3, cw_ByteLen = v4, cw_SHA256 = v5\<rparr>))))))"

record Reordered =
  ro_Order :: "string list"

definition marshal_Reordered :: "Reordered \<Rightarrow> json" where
  "marshal_Reordered p =
     [(''order'', JL (ro_Order p))]"

definition decode_Reordered :: "json \<Rightarrow> Reordered result" where
  "decode_Reordered j =
     rbind (jlist ''order'' j []) (\<lambda>v0.
     Inr \<lparr>ro_Order = v0\<rparr>)"

record Replaced =
  rp_Replacement :: string
  rp_Title :: string
  rp_Locator :: string

definition marshal_Replaced :: "Replaced \<Rightarrow> json" where
  "marshal_Replaced p =
     [(''replacement'', JS (rp_Replacement p))]
     @ [(''title'', JS (rp_Title p))]
     @ [(''locator'', JS (rp_Locator p))]"

definition decode_Replaced :: "json \<Rightarrow> Replaced result" where
  "decode_Replaced j =
     rbind (jstr ''replacement'' j []) (\<lambda>v0.
     rbind (jstr ''title'' j []) (\<lambda>v1.
     rbind (jstr ''locator'' j []) (\<lambda>v2.
     Inr \<lparr>rp_Replacement = v0, rp_Title = v1, rp_Locator = v2\<rparr>)))"

record Removed =
  rm_Reason :: string

definition marshal_Removed :: "Removed \<Rightarrow> json" where
  "marshal_Removed p =
     (if rm_Reason p \<noteq> [] then [(''reason'', JS (rm_Reason p))] else [])"

definition decode_Removed :: "json \<Rightarrow> Removed result" where
  "decode_Removed j =
     rbind (jstr ''reason'' j []) (\<lambda>v0.
     Inr \<lparr>rm_Reason = v0\<rparr>)"

record DependencyChange =
  dc_Edge :: string
  dc_Blocker :: string

definition marshal_DependencyChange :: "DependencyChange \<Rightarrow> json" where
  "marshal_DependencyChange p =
     [(''edge'', JS (dc_Edge p))]
     @ [(''blocker'', JS (dc_Blocker p))]"

definition decode_DependencyChange :: "json \<Rightarrow> DependencyChange result" where
  "decode_DependencyChange j =
     rbind (jstr ''edge'' j []) (\<lambda>v0.
     rbind (jstr ''blocker'' j []) (\<lambda>v1.
     Inr \<lparr>dc_Edge = v0, dc_Blocker = v1\<rparr>))"

record GateClosed =
  gc_Gate :: string
  gc_Scale :: string
  gc_TrackerPushLevel :: string

definition marshal_GateClosed :: "GateClosed \<Rightarrow> json" where
  "marshal_GateClosed p =
     [(''gate'', JS (gc_Gate p))]
     @ [(''scale'', JS (gc_Scale p))]
     @ (if gc_TrackerPushLevel p \<noteq> [] then [(''tracker_push_level'', JS (gc_TrackerPushLevel p))] else [])"

definition decode_GateClosed :: "json \<Rightarrow> GateClosed result" where
  "decode_GateClosed j =
     rbind (jstr ''gate'' j []) (\<lambda>v0.
     rbind (jstr ''scale'' j []) (\<lambda>v1.
     rbind (jstr ''tracker_push_level'' j []) (\<lambda>v2.
     Inr \<lparr>gc_Gate = v0, gc_Scale = v1, gc_TrackerPushLevel = v2\<rparr>)))"

record GateDismissed =
  gd_Gate :: string
  gd_Scale :: string
  gd_Reason :: string
  gd_TrackerPushLevel :: string

definition marshal_GateDismissed :: "GateDismissed \<Rightarrow> json" where
  "marshal_GateDismissed p =
     [(''gate'', JS (gd_Gate p))]
     @ [(''scale'', JS (gd_Scale p))]
     @ [(''reason'', JS (gd_Reason p))]
     @ (if gd_TrackerPushLevel p \<noteq> [] then [(''tracker_push_level'', JS (gd_TrackerPushLevel p))] else [])"

definition decode_GateDismissed :: "json \<Rightarrow> GateDismissed result" where
  "decode_GateDismissed j =
     rbind (jstr ''gate'' j []) (\<lambda>v0.
     rbind (jstr ''scale'' j []) (\<lambda>v1.
     rbind (jstr ''reason'' j []) (\<lambda>v2.
     rbind (jstr ''tracker_push_level'' j []) (\<lambda>v3.
     Inr \<lparr>gd_Gate = v0, gd_Scale = v1, gd_Reason = v2, gd_TrackerPushLevel = v3\<rparr>))))"

definition decodeStrict_GateDismissed :: "json \<Rightarrow> GateDismissed result" where
  "decodeStrict_GateDismissed j =
     rbind (known_keys [''gate'', ''scale'', ''reason'', ''tracker_push_level''] j) (\<lambda>_. decode_GateDismissed j)"

record GateDeclared =
  gl_Gate :: string
  gl_Scale :: string
  gl_Exempt :: "string list"

definition marshal_GateDeclared :: "GateDeclared \<Rightarrow> json" where
  "marshal_GateDeclared p =
     [(''gate'', JS (gl_Gate p))]
     @ [(''scale'', JS (gl_Scale p))]
     @ (if gl_Exempt p \<noteq> [] then [(''exempt'', JL (gl_Exempt p))] else [])"

definition decode_GateDeclared :: "json \<Rightarrow> GateDeclared result" where
  "decode_GateDeclared j =
     rbind (jstr ''gate'' j []) (\<lambda>v0.
     rbind (jstr ''scale'' j []) (\<lambda>v1.
     rbind (jlist ''exempt'' j []) (\<lambda>v2.
     Inr \<lparr>gl_Gate = v0, gl_Scale = v1, gl_Exempt = v2\<rparr>)))"

definition decodeStrict_GateDeclared :: "json \<Rightarrow> GateDeclared result" where
  "decodeStrict_GateDeclared j =
     rbind (known_keys [''gate'', ''scale'', ''exempt''] j) (\<lambda>_. decode_GateDeclared j)"

record GateExemptionRepaired =
  ge_Gate :: string

definition marshal_GateExemptionRepaired :: "GateExemptionRepaired \<Rightarrow> json" where
  "marshal_GateExemptionRepaired p =
     [(''gate'', JS (ge_Gate p))]"

definition decode_GateExemptionRepaired :: "json \<Rightarrow> GateExemptionRepaired result" where
  "decode_GateExemptionRepaired j =
     rbind (jstr ''gate'' j []) (\<lambda>v0.
     Inr \<lparr>ge_Gate = v0\<rparr>)"

definition decodeStrict_GateExemptionRepaired :: "json \<Rightarrow> GateExemptionRepaired result" where
  "decodeStrict_GateExemptionRepaired j =
     rbind (known_keys [''gate''] j) (\<lambda>_. decode_GateExemptionRepaired j)"

record ConfigSet =
  cs_Key :: string
  cs_Value :: string

definition marshal_ConfigSet :: "ConfigSet \<Rightarrow> json" where
  "marshal_ConfigSet p =
     [(''key'', JS (cs_Key p))]
     @ [(''value'', JS (cs_Value p))]"

definition decode_ConfigSet :: "json \<Rightarrow> ConfigSet result" where
  "decode_ConfigSet j =
     rbind (jstr ''key'' j []) (\<lambda>v0.
     rbind (jstr ''value'' j []) (\<lambda>v1.
     Inr \<lparr>cs_Key = v0, cs_Value = v1\<rparr>))"

definition decodeStrict_ConfigSet :: "json \<Rightarrow> ConfigSet result" where
  "decodeStrict_ConfigSet j =
     rbind (known_keys [''key'', ''value''] j) (\<lambda>_. decode_ConfigSet j)"

record BacklogEntered =
  be_Provenance :: string
  be_Title :: string
  be_Detail :: string
  be_OriginNode :: string

definition marshal_BacklogEntered :: "BacklogEntered \<Rightarrow> json" where
  "marshal_BacklogEntered p =
     [(''provenance'', JS (be_Provenance p))]
     @ [(''title'', JS (be_Title p))]
     @ (if be_Detail p \<noteq> [] then [(''detail'', JS (be_Detail p))] else [])
     @ (if be_OriginNode p \<noteq> [] then [(''origin_node'', JS (be_OriginNode p))] else [])"

definition decode_BacklogEntered :: "json \<Rightarrow> BacklogEntered result" where
  "decode_BacklogEntered j =
     rbind (jstr ''provenance'' j []) (\<lambda>v0.
     rbind (jstr ''title'' j []) (\<lambda>v1.
     rbind (jstr ''detail'' j []) (\<lambda>v2.
     rbind (jstr ''origin_node'' j []) (\<lambda>v3.
     Inr \<lparr>be_Provenance = v0, be_Title = v1, be_Detail = v2, be_OriginNode = v3\<rparr>))))"

record BacklogPlanned =
  bp_Matter :: string

definition marshal_BacklogPlanned :: "BacklogPlanned \<Rightarrow> json" where
  "marshal_BacklogPlanned p =
     [(''matter'', JS (bp_Matter p))]"

definition decode_BacklogPlanned :: "json \<Rightarrow> BacklogPlanned result" where
  "decode_BacklogPlanned j =
     rbind (jstr ''matter'' j []) (\<lambda>v0.
     Inr \<lparr>bp_Matter = v0\<rparr>)"

record BacklogDeclined =
  bd_Reason :: string

definition marshal_BacklogDeclined :: "BacklogDeclined \<Rightarrow> json" where
  "marshal_BacklogDeclined p =
     [(''reason'', JS (bd_Reason p))]"

definition decode_BacklogDeclined :: "json \<Rightarrow> BacklogDeclined result" where
  "decode_BacklogDeclined j =
     rbind (jstr ''reason'' j []) (\<lambda>v0.
     Inr \<lparr>bd_Reason = v0\<rparr>)"

record BacklogDelegated =
  bg_Outbox :: string
  bg_IdempotencyKey :: string

definition marshal_BacklogDelegated :: "BacklogDelegated \<Rightarrow> json" where
  "marshal_BacklogDelegated p =
     [(''outbox'', JS (bg_Outbox p))]
     @ [(''idempotency_key'', JS (bg_IdempotencyKey p))]"

definition decode_BacklogDelegated :: "json \<Rightarrow> BacklogDelegated result" where
  "decode_BacklogDelegated j =
     rbind (jstr ''outbox'' j []) (\<lambda>v0.
     rbind (jstr ''idempotency_key'' j []) (\<lambda>v1.
     Inr \<lparr>bg_Outbox = v0, bg_IdempotencyKey = v1\<rparr>))"

definition decodeStrict_BacklogDelegated :: "json \<Rightarrow> BacklogDelegated result" where
  "decodeStrict_BacklogDelegated j =
     rbind (known_keys [''outbox'', ''idempotency_key''] j) (\<lambda>_. decode_BacklogDelegated j)"

record ReferenceBound =
  rb_Ref :: string

definition marshal_ReferenceBound :: "ReferenceBound \<Rightarrow> json" where
  "marshal_ReferenceBound p =
     [(''ref'', JS (rb_Ref p))]"

definition decode_ReferenceBound :: "json \<Rightarrow> ReferenceBound result" where
  "decode_ReferenceBound j =
     rbind (jstr ''ref'' j []) (\<lambda>v0.
     Inr \<lparr>rb_Ref = v0\<rparr>)"

definition decodeStrict_ReferenceBound :: "json \<Rightarrow> ReferenceBound result" where
  "decodeStrict_ReferenceBound j =
     rbind (known_keys [''ref''] j) (\<lambda>_. decode_ReferenceBound j)"

record ReferenceAdded =
  ra_Ref :: string
  ra_TrackerPushLevel :: string

definition marshal_ReferenceAdded :: "ReferenceAdded \<Rightarrow> json" where
  "marshal_ReferenceAdded p =
     [(''ref'', JS (ra_Ref p))]
     @ (if ra_TrackerPushLevel p \<noteq> [] then [(''tracker_push_level'', JS (ra_TrackerPushLevel p))] else [])"

definition decode_ReferenceAdded :: "json \<Rightarrow> ReferenceAdded result" where
  "decode_ReferenceAdded j =
     rbind (jstr ''ref'' j []) (\<lambda>v0.
     rbind (jstr ''tracker_push_level'' j []) (\<lambda>v1.
     Inr \<lparr>ra_Ref = v0, ra_TrackerPushLevel = v1\<rparr>))"

definition decodeStrict_ReferenceAdded :: "json \<Rightarrow> ReferenceAdded result" where
  "decodeStrict_ReferenceAdded j =
     rbind (known_keys [''ref'', ''tracker_push_level''] j) (\<lambda>_. decode_ReferenceAdded j)"

record ReferenceRemoved =
  rr_Ref :: string
  rr_TrackerPushLevel :: string

definition marshal_ReferenceRemoved :: "ReferenceRemoved \<Rightarrow> json" where
  "marshal_ReferenceRemoved p =
     [(''ref'', JS (rr_Ref p))]
     @ (if rr_TrackerPushLevel p \<noteq> [] then [(''tracker_push_level'', JS (rr_TrackerPushLevel p))] else [])"

definition decode_ReferenceRemoved :: "json \<Rightarrow> ReferenceRemoved result" where
  "decode_ReferenceRemoved j =
     rbind (jstr ''ref'' j []) (\<lambda>v0.
     rbind (jstr ''tracker_push_level'' j []) (\<lambda>v1.
     Inr \<lparr>rr_Ref = v0, rr_TrackerPushLevel = v1\<rparr>))"

definition decodeStrict_ReferenceRemoved :: "json \<Rightarrow> ReferenceRemoved result" where
  "decodeStrict_ReferenceRemoved j =
     rbind (known_keys [''ref'', ''tracker_push_level''] j) (\<lambda>_. decode_ReferenceRemoved j)"

record ReferenceRebound =
  rx_From :: string
  rx_To :: string
  rx_TrackerPushLevel :: string

definition marshal_ReferenceRebound :: "ReferenceRebound \<Rightarrow> json" where
  "marshal_ReferenceRebound p =
     [(''from'', JS (rx_From p))]
     @ [(''to'', JS (rx_To p))]
     @ (if rx_TrackerPushLevel p \<noteq> [] then [(''tracker_push_level'', JS (rx_TrackerPushLevel p))] else [])"

definition decode_ReferenceRebound :: "json \<Rightarrow> ReferenceRebound result" where
  "decode_ReferenceRebound j =
     rbind (jstr ''from'' j []) (\<lambda>v0.
     rbind (jstr ''to'' j []) (\<lambda>v1.
     rbind (jstr ''tracker_push_level'' j []) (\<lambda>v2.
     Inr \<lparr>rx_From = v0, rx_To = v1, rx_TrackerPushLevel = v2\<rparr>)))"

definition decodeStrict_ReferenceRebound :: "json \<Rightarrow> ReferenceRebound result" where
  "decodeStrict_ReferenceRebound j =
     rbind (known_keys [''from'', ''to'', ''tracker_push_level''] j) (\<lambda>_. decode_ReferenceRebound j)"

record TrackerStatePushed =
  tp_Ref :: string
  tp_Disposition :: string
  tp_Lease :: string

definition marshal_TrackerStatePushed :: "TrackerStatePushed \<Rightarrow> json" where
  "marshal_TrackerStatePushed p =
     [(''ref'', JS (tp_Ref p))]
     @ [(''disposition'', JS (tp_Disposition p))]
     @ [(''lease'', JS (tp_Lease p))]"

definition decode_TrackerStatePushed :: "json \<Rightarrow> TrackerStatePushed result" where
  "decode_TrackerStatePushed j =
     rbind (jstr ''ref'' j []) (\<lambda>v0.
     rbind (jstr ''disposition'' j []) (\<lambda>v1.
     rbind (jstr ''lease'' j []) (\<lambda>v2.
     Inr \<lparr>tp_Ref = v0, tp_Disposition = v1, tp_Lease = v2\<rparr>)))"

definition decodeStrict_TrackerStatePushed :: "json \<Rightarrow> TrackerStatePushed result" where
  "decodeStrict_TrackerStatePushed j =
     rbind (known_keys [''ref'', ''disposition'', ''lease''] j) (\<lambda>_. decode_TrackerStatePushed j)"

record TrackerStateObserved =
  to_Ref :: string
  to_Disposition :: string
  to_Lease :: string

definition marshal_TrackerStateObserved :: "TrackerStateObserved \<Rightarrow> json" where
  "marshal_TrackerStateObserved p =
     [(''ref'', JS (to_Ref p))]
     @ [(''disposition'', JS (to_Disposition p))]
     @ [(''lease'', JS (to_Lease p))]"

definition decode_TrackerStateObserved :: "json \<Rightarrow> TrackerStateObserved result" where
  "decode_TrackerStateObserved j =
     rbind (jstr ''ref'' j []) (\<lambda>v0.
     rbind (jstr ''disposition'' j []) (\<lambda>v1.
     rbind (jstr ''lease'' j []) (\<lambda>v2.
     Inr \<lparr>to_Ref = v0, to_Disposition = v1, to_Lease = v2\<rparr>)))"

definition decodeStrict_TrackerStateObserved :: "json \<Rightarrow> TrackerStateObserved result" where
  "decodeStrict_TrackerStateObserved j =
     rbind (known_keys [''ref'', ''disposition'', ''lease''] j) (\<lambda>_. decode_TrackerStateObserved j)"

record TrackerItemCreated =
  ti_Ref :: string

definition marshal_TrackerItemCreated :: "TrackerItemCreated \<Rightarrow> json" where
  "marshal_TrackerItemCreated p =
     [(''ref'', JS (ti_Ref p))]"

definition decode_TrackerItemCreated :: "json \<Rightarrow> TrackerItemCreated result" where
  "decode_TrackerItemCreated j =
     rbind (jstr ''ref'' j []) (\<lambda>v0.
     Inr \<lparr>ti_Ref = v0\<rparr>)"

definition decodeStrict_TrackerItemCreated :: "json \<Rightarrow> TrackerItemCreated result" where
  "decodeStrict_TrackerItemCreated j =
     rbind (known_keys [''ref''] j) (\<lambda>_. decode_TrackerItemCreated j)"

record TrackerAdhocProposed =
  ta_Kind :: string
  ta_Title :: string
  ta_Detail :: string
  ta_Ref :: string
  ta_Body :: string
  ta_Disposition :: string

definition marshal_TrackerAdhocProposed :: "TrackerAdhocProposed \<Rightarrow> json" where
  "marshal_TrackerAdhocProposed p =
     [(''kind'', JS (ta_Kind p))]
     @ (if ta_Title p \<noteq> [] then [(''title'', JS (ta_Title p))] else [])
     @ (if ta_Detail p \<noteq> [] then [(''detail'', JS (ta_Detail p))] else [])
     @ (if ta_Ref p \<noteq> [] then [(''ref'', JS (ta_Ref p))] else [])
     @ (if ta_Body p \<noteq> [] then [(''body'', JS (ta_Body p))] else [])
     @ (if ta_Disposition p \<noteq> [] then [(''disposition'', JS (ta_Disposition p))] else [])"

definition decode_TrackerAdhocProposed :: "json \<Rightarrow> TrackerAdhocProposed result" where
  "decode_TrackerAdhocProposed j =
     rbind (jstr ''kind'' j []) (\<lambda>v0.
     rbind (jstr ''title'' j []) (\<lambda>v1.
     rbind (jstr ''detail'' j []) (\<lambda>v2.
     rbind (jstr ''ref'' j []) (\<lambda>v3.
     rbind (jstr ''body'' j []) (\<lambda>v4.
     rbind (jstr ''disposition'' j []) (\<lambda>v5.
     Inr \<lparr>ta_Kind = v0, ta_Title = v1, ta_Detail = v2, ta_Ref = v3, ta_Body = v4, ta_Disposition = v5\<rparr>))))))"

definition decodeStrict_TrackerAdhocProposed :: "json \<Rightarrow> TrackerAdhocProposed result" where
  "decodeStrict_TrackerAdhocProposed j =
     rbind (known_keys [''kind'', ''title'', ''detail'', ''ref'', ''body'', ''disposition''] j) (\<lambda>_. decode_TrackerAdhocProposed j)"

record OutboxDeclined =
  od_Reason :: string

definition marshal_OutboxDeclined :: "OutboxDeclined \<Rightarrow> json" where
  "marshal_OutboxDeclined p =
     [(''reason'', JS (od_Reason p))]"

definition decode_OutboxDeclined :: "json \<Rightarrow> OutboxDeclined result" where
  "decode_OutboxDeclined j =
     rbind (jstr ''reason'' j []) (\<lambda>v0.
     Inr \<lparr>od_Reason = v0\<rparr>)"

definition decodeStrict_OutboxDeclined :: "json \<Rightarrow> OutboxDeclined result" where
  "decodeStrict_OutboxDeclined j =
     rbind (known_keys [''reason''] j) (\<lambda>_. decode_OutboxDeclined j)"

record OutboxWithheld =
  ow_Reason :: string
  ow_Attempted :: bool
  ow_Cause :: string

definition marshal_OutboxWithheld :: "OutboxWithheld \<Rightarrow> json" where
  "marshal_OutboxWithheld p =
     [(''reason'', JS (ow_Reason p))]
     @ [(''attempted'', JB (ow_Attempted p))]
     @ (if ow_Cause p \<noteq> [] then [(''cause'', JS (ow_Cause p))] else [])"

definition decode_OutboxWithheld :: "json \<Rightarrow> OutboxWithheld result" where
  "decode_OutboxWithheld j =
     rbind (jstr ''reason'' j []) (\<lambda>v0.
     rbind (jbool ''attempted'' j False) (\<lambda>v1.
     rbind (jstr ''cause'' j []) (\<lambda>v2.
     Inr \<lparr>ow_Reason = v0, ow_Attempted = v1, ow_Cause = v2\<rparr>)))"

definition decodeStrict_OutboxWithheld :: "json \<Rightarrow> OutboxWithheld result" where
  "decodeStrict_OutboxWithheld j =
     rbind (known_keys [''reason'', ''attempted'', ''cause''] j) (\<lambda>_. decode_OutboxWithheld j)"

record OutboxDeliveryFailed =
  of_Reason :: string

definition marshal_OutboxDeliveryFailed :: "OutboxDeliveryFailed \<Rightarrow> json" where
  "marshal_OutboxDeliveryFailed p =
     [(''reason'', JS (of_Reason p))]"

definition decode_OutboxDeliveryFailed :: "json \<Rightarrow> OutboxDeliveryFailed result" where
  "decode_OutboxDeliveryFailed j =
     rbind (jstr ''reason'' j []) (\<lambda>v0.
     Inr \<lparr>of_Reason = v0\<rparr>)"

definition decodeStrict_OutboxDeliveryFailed :: "json \<Rightarrow> OutboxDeliveryFailed result" where
  "decodeStrict_OutboxDeliveryFailed j =
     rbind (known_keys [''reason''] j) (\<lambda>_. decode_OutboxDeliveryFailed j)"

record RepoAttached =
  pa_RemoteURL :: string
  pa_IdentityRemote :: string
  pa_Label :: string

definition marshal_RepoAttached :: "RepoAttached \<Rightarrow> json" where
  "marshal_RepoAttached p =
     (if pa_RemoteURL p \<noteq> [] then [(''remote_url'', JS (pa_RemoteURL p))] else [])
     @ (if pa_IdentityRemote p \<noteq> [] then [(''identity_remote'', JS (pa_IdentityRemote p))] else [])
     @ (if pa_Label p \<noteq> [] then [(''label'', JS (pa_Label p))] else [])"

definition decode_RepoAttached :: "json \<Rightarrow> RepoAttached result" where
  "decode_RepoAttached j =
     rbind (jstr ''remote_url'' j []) (\<lambda>v0.
     rbind (jstr ''identity_remote'' j []) (\<lambda>v1.
     rbind (jstr ''label'' j []) (\<lambda>v2.
     Inr \<lparr>pa_RemoteURL = v0, pa_IdentityRemote = v1, pa_Label = v2\<rparr>)))"

record CloneAttached =
  ca_Repo :: string
  ca_GitCommonDir :: string
  ca_Label :: string

definition marshal_CloneAttached :: "CloneAttached \<Rightarrow> json" where
  "marshal_CloneAttached p =
     [(''repo'', JS (ca_Repo p))]
     @ [(''git_common_dir'', JS (ca_GitCommonDir p))]
     @ [(''label'', JS (ca_Label p))]"

definition decode_CloneAttached :: "json \<Rightarrow> CloneAttached result" where
  "decode_CloneAttached j =
     rbind (jstr ''repo'' j []) (\<lambda>v0.
     rbind (jstr ''git_common_dir'' j []) (\<lambda>v1.
     rbind (jstr ''label'' j []) (\<lambda>v2.
     Inr \<lparr>ca_Repo = v0, ca_GitCommonDir = v1, ca_Label = v2\<rparr>)))"

record WorktreeAttached =
  wa_Clone :: string
  wa_Name :: string

definition marshal_WorktreeAttached :: "WorktreeAttached \<Rightarrow> json" where
  "marshal_WorktreeAttached p =
     [(''clone'', JS (wa_Clone p))]
     @ (if wa_Name p \<noteq> [] then [(''name'', JS (wa_Name p))] else [])"

definition decode_WorktreeAttached :: "json \<Rightarrow> WorktreeAttached result" where
  "decode_WorktreeAttached j =
     rbind (jstr ''clone'' j []) (\<lambda>v0.
     rbind (jstr ''name'' j []) (\<lambda>v1.
     Inr \<lparr>wa_Clone = v0, wa_Name = v1\<rparr>))"

record RepoKeyAdopted =
  pk_RemoteURL :: string
  pk_IdentityRemote :: string

definition marshal_RepoKeyAdopted :: "RepoKeyAdopted \<Rightarrow> json" where
  "marshal_RepoKeyAdopted p =
     [(''remote_url'', JS (pk_RemoteURL p))]
     @ (if pk_IdentityRemote p \<noteq> [] then [(''identity_remote'', JS (pk_IdentityRemote p))] else [])"

definition decode_RepoKeyAdopted :: "json \<Rightarrow> RepoKeyAdopted result" where
  "decode_RepoKeyAdopted j =
     rbind (jstr ''remote_url'' j []) (\<lambda>v0.
     rbind (jstr ''identity_remote'' j []) (\<lambda>v1.
     Inr \<lparr>pk_RemoteURL = v0, pk_IdentityRemote = v1\<rparr>))"

record CloneRelinked =
  cr_GitCommonDir :: string

definition marshal_CloneRelinked :: "CloneRelinked \<Rightarrow> json" where
  "marshal_CloneRelinked p =
     [(''git_common_dir'', JS (cr_GitCommonDir p))]"

definition decode_CloneRelinked :: "json \<Rightarrow> CloneRelinked result" where
  "decode_CloneRelinked j =
     rbind (jstr ''git_common_dir'' j []) (\<lambda>v0.
     Inr \<lparr>cr_GitCommonDir = v0\<rparr>)"

record CloneLabeled =
  cl_Label :: string

definition marshal_CloneLabeled :: "CloneLabeled \<Rightarrow> json" where
  "marshal_CloneLabeled p =
     [(''label'', JS (cl_Label p))]"

definition decode_CloneLabeled :: "json \<Rightarrow> CloneLabeled result" where
  "decode_CloneLabeled j =
     rbind (jstr ''label'' j []) (\<lambda>v0.
     Inr \<lparr>cl_Label = v0\<rparr>)"

record CursorMoved =
  cm_Node :: string
  cm_Previous :: string

definition marshal_CursorMoved :: "CursorMoved \<Rightarrow> json" where
  "marshal_CursorMoved p =
     (if cm_Node p \<noteq> [] then [(''node'', JS (cm_Node p))] else [])
     @ (if cm_Previous p \<noteq> [] then [(''previous'', JS (cm_Previous p))] else [])"

definition decode_CursorMoved :: "json \<Rightarrow> CursorMoved result" where
  "decode_CursorMoved j =
     rbind (jstr ''node'' j []) (\<lambda>v0.
     rbind (jstr ''previous'' j []) (\<lambda>v1.
     Inr \<lparr>cm_Node = v0, cm_Previous = v1\<rparr>))"

record BatchCreated =
  bc_Name :: string
  bc_Matter :: string

definition marshal_BatchCreated :: "BatchCreated \<Rightarrow> json" where
  "marshal_BatchCreated p =
     (if bc_Name p \<noteq> [] then [(''name'', JS (bc_Name p))] else [])
     @ (if bc_Matter p \<noteq> [] then [(''matter'', JS (bc_Matter p))] else [])"

definition decode_BatchCreated :: "json \<Rightarrow> BatchCreated result" where
  "decode_BatchCreated j =
     rbind (jstr ''name'' j []) (\<lambda>v0.
     rbind (jstr ''matter'' j []) (\<lambda>v1.
     Inr \<lparr>bc_Name = v0, bc_Matter = v1\<rparr>))"

definition decodeStrict_BatchCreated :: "json \<Rightarrow> BatchCreated result" where
  "decodeStrict_BatchCreated j =
     rbind (known_keys [''name'', ''matter''] j) (\<lambda>_. decode_BatchCreated j)"

record BatchMembership =
  bm_Matter :: string

definition marshal_BatchMembership :: "BatchMembership \<Rightarrow> json" where
  "marshal_BatchMembership p =
     [(''matter'', JS (bm_Matter p))]"

definition decode_BatchMembership :: "json \<Rightarrow> BatchMembership result" where
  "decode_BatchMembership j =
     rbind (jstr ''matter'' j []) (\<lambda>v0.
     Inr \<lparr>bm_Matter = v0\<rparr>)"

definition decodeStrict_BatchMembership :: "json \<Rightarrow> BatchMembership result" where
  "decodeStrict_BatchMembership j =
     rbind (known_keys [''matter''] j) (\<lambda>_. decode_BatchMembership j)"

record DispatchOpened =
  do_Run :: string
  do_Matter :: string

definition marshal_DispatchOpened :: "DispatchOpened \<Rightarrow> json" where
  "marshal_DispatchOpened p =
     (if do_Run p \<noteq> [] then [(''run'', JS (do_Run p))] else [])
     @ (if do_Matter p \<noteq> [] then [(''matter'', JS (do_Matter p))] else [])"

definition decode_DispatchOpened :: "json \<Rightarrow> DispatchOpened result" where
  "decode_DispatchOpened j =
     rbind (jstr ''run'' j []) (\<lambda>v0.
     rbind (jstr ''matter'' j []) (\<lambda>v1.
     Inr \<lparr>do_Run = v0, do_Matter = v1\<rparr>))"

definition decodeStrict_DispatchOpened :: "json \<Rightarrow> DispatchOpened result" where
  "decodeStrict_DispatchOpened j =
     rbind (known_keys [''run'', ''matter''] j) (\<lambda>_. decode_DispatchOpened j)"

record DispatchClosed =
  dx_Reason :: string

definition marshal_DispatchClosed :: "DispatchClosed \<Rightarrow> json" where
  "marshal_DispatchClosed p =
     [(''reason'', JS (dx_Reason p))]"

definition decode_DispatchClosed :: "json \<Rightarrow> DispatchClosed result" where
  "decode_DispatchClosed j =
     rbind (jstr ''reason'' j []) (\<lambda>v0.
     Inr \<lparr>dx_Reason = v0\<rparr>)"

record RunStarted =
  rs_Batch :: string
  rs_Locator :: string
  rs_Matters :: "string list"

definition marshal_RunStarted :: "RunStarted \<Rightarrow> json" where
  "marshal_RunStarted p =
     [(''batch'', JS (rs_Batch p))]
     @ [(''locator'', JS (rs_Locator p))]
     @ [(''matters'', JL (rs_Matters p))]"

definition decode_RunStarted :: "json \<Rightarrow> RunStarted result" where
  "decode_RunStarted j =
     rbind (jstr ''batch'' j []) (\<lambda>v0.
     rbind (jstr ''locator'' j []) (\<lambda>v1.
     rbind (jlist ''matters'' j []) (\<lambda>v2.
     Inr \<lparr>rs_Batch = v0, rs_Locator = v1, rs_Matters = v2\<rparr>)))"

definition decodeStrict_RunStarted :: "json \<Rightarrow> RunStarted result" where
  "decodeStrict_RunStarted j =
     rbind (known_keys [''batch'', ''locator'', ''matters''] j) (\<lambda>_. decode_RunStarted j)"

record RunSkipped =
  rk_Run :: string
  rk_Reason :: string

definition marshal_RunSkipped :: "RunSkipped \<Rightarrow> json" where
  "marshal_RunSkipped p =
     [(''run'', JS (rk_Run p))]
     @ [(''reason'', JS (rk_Reason p))]"

definition decode_RunSkipped :: "json \<Rightarrow> RunSkipped result" where
  "decode_RunSkipped j =
     rbind (jstr ''run'' j []) (\<lambda>v0.
     rbind (jstr ''reason'' j []) (\<lambda>v1.
     Inr \<lparr>rk_Run = v0, rk_Reason = v1\<rparr>))"

definition decodeStrict_RunSkipped :: "json \<Rightarrow> RunSkipped result" where
  "decodeStrict_RunSkipped j =
     rbind (known_keys [''run'', ''reason''] j) (\<lambda>_. decode_RunSkipped j)"

record RunStoodDown =
  rd_ActingClone :: string
  rd_OwningClone :: string

definition marshal_RunStoodDown :: "RunStoodDown \<Rightarrow> json" where
  "marshal_RunStoodDown p =
     [(''acting_clone'', JS (rd_ActingClone p))]
     @ [(''owning_clone'', JS (rd_OwningClone p))]"

definition decode_RunStoodDown :: "json \<Rightarrow> RunStoodDown result" where
  "decode_RunStoodDown j =
     rbind (jstr ''acting_clone'' j []) (\<lambda>v0.
     rbind (jstr ''owning_clone'' j []) (\<lambda>v1.
     Inr \<lparr>rd_ActingClone = v0, rd_OwningClone = v1\<rparr>))"

definition decodeStrict_RunStoodDown :: "json \<Rightarrow> RunStoodDown result" where
  "decodeStrict_RunStoodDown j =
     rbind (known_keys [''acting_clone'', ''owning_clone''] j) (\<lambda>_. decode_RunStoodDown j)"

record RoleSpawned =
  rl_Dispatch :: string
  rl_Name :: string

definition marshal_RoleSpawned :: "RoleSpawned \<Rightarrow> json" where
  "marshal_RoleSpawned p =
     [(''dispatch'', JS (rl_Dispatch p))]
     @ [(''name'', JS (rl_Name p))]"

definition decode_RoleSpawned :: "json \<Rightarrow> RoleSpawned result" where
  "decode_RoleSpawned j =
     rbind (jstr ''dispatch'' j []) (\<lambda>v0.
     rbind (jstr ''name'' j []) (\<lambda>v1.
     Inr \<lparr>rl_Dispatch = v0, rl_Name = v1\<rparr>))"

definition decodeStrict_RoleSpawned :: "json \<Rightarrow> RoleSpawned result" where
  "decodeStrict_RoleSpawned j =
     rbind (known_keys [''dispatch'', ''name''] j) (\<lambda>_. decode_RoleSpawned j)"

record RoleClosed =
  rc_Reason :: string

definition marshal_RoleClosed :: "RoleClosed \<Rightarrow> json" where
  "marshal_RoleClosed p =
     [(''reason'', JS (rc_Reason p))]"

definition decode_RoleClosed :: "json \<Rightarrow> RoleClosed result" where
  "decode_RoleClosed j =
     rbind (jstr ''reason'' j []) (\<lambda>v0.
     Inr \<lparr>rc_Reason = v0\<rparr>)"

definition decodeStrict_RoleClosed :: "json \<Rightarrow> RoleClosed result" where
  "decodeStrict_RoleClosed j =
     rbind (known_keys [''reason''] j) (\<lambda>_. decode_RoleClosed j)"

record RenderPerformed =
  rf_Target :: string

definition marshal_RenderPerformed :: "RenderPerformed \<Rightarrow> json" where
  "marshal_RenderPerformed p =
     (if rf_Target p \<noteq> [] then [(''target'', JS (rf_Target p))] else [])"

definition decode_RenderPerformed :: "json \<Rightarrow> RenderPerformed result" where
  "decode_RenderPerformed j =
     rbind (jstr ''target'' j []) (\<lambda>v0.
     Inr \<lparr>rf_Target = v0\<rparr>)"

section \<open>Vocabularies of the tracker payloads\<close>

definition TrackerActive :: string where [tokens]: "TrackerActive = ''active''"
definition TrackerCompleted :: string where [tokens]: "TrackerCompleted = ''completed''"
definition TrackerCanceled :: string where [tokens]: "TrackerCanceled = ''canceled''"

definition AdhocCreate :: string where [tokens]: "AdhocCreate = ''create''"
definition AdhocComment :: string where [tokens]: "AdhocComment = ''comment''"
definition AdhocState :: string where [tokens]: "AdhocState = ''state''"
definition ProvenanceAdhoc :: string where [tokens]: "ProvenanceAdhoc = ''adhoc''"

definition CauseMalformedCandidate :: string where [tokens]: "CauseMalformedCandidate = ''malformed-candidate''"
definition CauseLocalRegression :: string where [tokens]: "CauseLocalRegression = ''local-regression''"
definition CauseSuperseded :: string where [tokens]: "CauseSuperseded = ''superseded''"
definition CauseLeaseMismatch :: string where [tokens]: "CauseLeaseMismatch = ''lease-mismatch''"
definition CausePermanentRefusal :: string where [tokens]: "CausePermanentRefusal = ''permanent-refusal''"
definition CauseMalformedProviderSuccess :: string where [tokens]: "CauseMalformedProviderSuccess = ''malformed-provider-success''"
definition CauseUnknownOutcome :: string where [tokens]: "CauseUnknownOutcome = ''unknown-outcome''"

section \<open>Round trips\<close>

lemma jof_bytes_simps [simp]: "jof_bytes None = JNull" "jof_bytes (Some b) = JY b"
  by (simp_all add: jof_bytes_def)

lemma decode_marshal_NodeBirth [payload_rt]: "int64 (nb_SortKey p) \<Longrightarrow> decode_NodeBirth (marshal_NodeBirth p) = Inr p"
  by (simp add: decode_NodeBirth_def marshal_NodeBirth_def)

lemma decode_marshal_Transition [payload_rt]: "decode_Transition (marshal_Transition p) = Inr p"
  by (simp add: decode_Transition_def marshal_Transition_def)

lemma decode_marshal_ContentWritten [payload_rt]: "int64 (cw_ByteLen p) \<Longrightarrow> decode_ContentWritten (marshal_ContentWritten p) = Inr p"
  by (cases "cw_Bytes p") (simp_all add: decode_ContentWritten_def marshal_ContentWritten_def)

lemma decode_marshal_Reordered [payload_rt]: "decode_Reordered (marshal_Reordered p) = Inr p"
  by (simp add: decode_Reordered_def marshal_Reordered_def)

lemma decode_marshal_Replaced [payload_rt]: "decode_Replaced (marshal_Replaced p) = Inr p"
  by (simp add: decode_Replaced_def marshal_Replaced_def)

lemma decode_marshal_Removed [payload_rt]: "decode_Removed (marshal_Removed p) = Inr p"
  by (simp add: decode_Removed_def marshal_Removed_def)

lemma decode_marshal_DependencyChange [payload_rt]: "decode_DependencyChange (marshal_DependencyChange p) = Inr p"
  by (simp add: decode_DependencyChange_def marshal_DependencyChange_def)

lemma decode_marshal_GateClosed [payload_rt]: "decode_GateClosed (marshal_GateClosed p) = Inr p"
  by (simp add: decode_GateClosed_def marshal_GateClosed_def)

lemma decode_marshal_GateDismissed [payload_rt]: "decode_GateDismissed (marshal_GateDismissed p) = Inr p"
  by (simp add: decode_GateDismissed_def marshal_GateDismissed_def)

lemma decodeStrict_marshal_GateDismissed [payload_rt]: "decodeStrict_GateDismissed (marshal_GateDismissed p) = Inr p"
  by (simp add: decodeStrict_GateDismissed_def decode_GateDismissed_def known_keys_def require_def marshal_GateDismissed_def)

lemma decode_marshal_GateDeclared [payload_rt]: "decode_GateDeclared (marshal_GateDeclared p) = Inr p"
  by (simp add: decode_GateDeclared_def marshal_GateDeclared_def)

lemma decodeStrict_marshal_GateDeclared [payload_rt]: "decodeStrict_GateDeclared (marshal_GateDeclared p) = Inr p"
  by (simp add: decodeStrict_GateDeclared_def decode_GateDeclared_def known_keys_def require_def marshal_GateDeclared_def)

lemma decode_marshal_GateExemptionRepaired [payload_rt]: "decode_GateExemptionRepaired (marshal_GateExemptionRepaired p) = Inr p"
  by (simp add: decode_GateExemptionRepaired_def marshal_GateExemptionRepaired_def)

lemma decodeStrict_marshal_GateExemptionRepaired [payload_rt]: "decodeStrict_GateExemptionRepaired (marshal_GateExemptionRepaired p) = Inr p"
  by (simp add: decodeStrict_GateExemptionRepaired_def decode_GateExemptionRepaired_def known_keys_def require_def marshal_GateExemptionRepaired_def)

lemma decode_marshal_ConfigSet [payload_rt]: "decode_ConfigSet (marshal_ConfigSet p) = Inr p"
  by (simp add: decode_ConfigSet_def marshal_ConfigSet_def)

lemma decodeStrict_marshal_ConfigSet [payload_rt]: "decodeStrict_ConfigSet (marshal_ConfigSet p) = Inr p"
  by (simp add: decodeStrict_ConfigSet_def decode_ConfigSet_def known_keys_def require_def marshal_ConfigSet_def)

lemma decode_marshal_BacklogEntered [payload_rt]: "decode_BacklogEntered (marshal_BacklogEntered p) = Inr p"
  by (simp add: decode_BacklogEntered_def marshal_BacklogEntered_def)

lemma decode_marshal_BacklogPlanned [payload_rt]: "decode_BacklogPlanned (marshal_BacklogPlanned p) = Inr p"
  by (simp add: decode_BacklogPlanned_def marshal_BacklogPlanned_def)

lemma decode_marshal_BacklogDeclined [payload_rt]: "decode_BacklogDeclined (marshal_BacklogDeclined p) = Inr p"
  by (simp add: decode_BacklogDeclined_def marshal_BacklogDeclined_def)

lemma decode_marshal_BacklogDelegated [payload_rt]: "decode_BacklogDelegated (marshal_BacklogDelegated p) = Inr p"
  by (simp add: decode_BacklogDelegated_def marshal_BacklogDelegated_def)

lemma decodeStrict_marshal_BacklogDelegated [payload_rt]: "decodeStrict_BacklogDelegated (marshal_BacklogDelegated p) = Inr p"
  by (simp add: decodeStrict_BacklogDelegated_def decode_BacklogDelegated_def known_keys_def require_def marshal_BacklogDelegated_def)

lemma decode_marshal_ReferenceBound [payload_rt]: "decode_ReferenceBound (marshal_ReferenceBound p) = Inr p"
  by (simp add: decode_ReferenceBound_def marshal_ReferenceBound_def)

lemma decodeStrict_marshal_ReferenceBound [payload_rt]: "decodeStrict_ReferenceBound (marshal_ReferenceBound p) = Inr p"
  by (simp add: decodeStrict_ReferenceBound_def decode_ReferenceBound_def known_keys_def require_def marshal_ReferenceBound_def)

lemma decode_marshal_ReferenceAdded [payload_rt]: "decode_ReferenceAdded (marshal_ReferenceAdded p) = Inr p"
  by (simp add: decode_ReferenceAdded_def marshal_ReferenceAdded_def)

lemma decodeStrict_marshal_ReferenceAdded [payload_rt]: "decodeStrict_ReferenceAdded (marshal_ReferenceAdded p) = Inr p"
  by (simp add: decodeStrict_ReferenceAdded_def decode_ReferenceAdded_def known_keys_def require_def marshal_ReferenceAdded_def)

lemma decode_marshal_ReferenceRemoved [payload_rt]: "decode_ReferenceRemoved (marshal_ReferenceRemoved p) = Inr p"
  by (simp add: decode_ReferenceRemoved_def marshal_ReferenceRemoved_def)

lemma decodeStrict_marshal_ReferenceRemoved [payload_rt]: "decodeStrict_ReferenceRemoved (marshal_ReferenceRemoved p) = Inr p"
  by (simp add: decodeStrict_ReferenceRemoved_def decode_ReferenceRemoved_def known_keys_def require_def marshal_ReferenceRemoved_def)

lemma decode_marshal_ReferenceRebound [payload_rt]: "decode_ReferenceRebound (marshal_ReferenceRebound p) = Inr p"
  by (simp add: decode_ReferenceRebound_def marshal_ReferenceRebound_def)

lemma decodeStrict_marshal_ReferenceRebound [payload_rt]: "decodeStrict_ReferenceRebound (marshal_ReferenceRebound p) = Inr p"
  by (simp add: decodeStrict_ReferenceRebound_def decode_ReferenceRebound_def known_keys_def require_def marshal_ReferenceRebound_def)

lemma decode_marshal_TrackerStatePushed [payload_rt]: "decode_TrackerStatePushed (marshal_TrackerStatePushed p) = Inr p"
  by (simp add: decode_TrackerStatePushed_def marshal_TrackerStatePushed_def)

lemma decodeStrict_marshal_TrackerStatePushed [payload_rt]: "decodeStrict_TrackerStatePushed (marshal_TrackerStatePushed p) = Inr p"
  by (simp add: decodeStrict_TrackerStatePushed_def decode_TrackerStatePushed_def known_keys_def require_def marshal_TrackerStatePushed_def)

lemma decode_marshal_TrackerStateObserved [payload_rt]: "decode_TrackerStateObserved (marshal_TrackerStateObserved p) = Inr p"
  by (simp add: decode_TrackerStateObserved_def marshal_TrackerStateObserved_def)

lemma decodeStrict_marshal_TrackerStateObserved [payload_rt]: "decodeStrict_TrackerStateObserved (marshal_TrackerStateObserved p) = Inr p"
  by (simp add: decodeStrict_TrackerStateObserved_def decode_TrackerStateObserved_def known_keys_def require_def marshal_TrackerStateObserved_def)

lemma decode_marshal_TrackerItemCreated [payload_rt]: "decode_TrackerItemCreated (marshal_TrackerItemCreated p) = Inr p"
  by (simp add: decode_TrackerItemCreated_def marshal_TrackerItemCreated_def)

lemma decodeStrict_marshal_TrackerItemCreated [payload_rt]: "decodeStrict_TrackerItemCreated (marshal_TrackerItemCreated p) = Inr p"
  by (simp add: decodeStrict_TrackerItemCreated_def decode_TrackerItemCreated_def known_keys_def require_def marshal_TrackerItemCreated_def)

lemma decode_marshal_TrackerAdhocProposed [payload_rt]: "decode_TrackerAdhocProposed (marshal_TrackerAdhocProposed p) = Inr p"
  by (simp add: decode_TrackerAdhocProposed_def marshal_TrackerAdhocProposed_def)

lemma decodeStrict_marshal_TrackerAdhocProposed [payload_rt]: "decodeStrict_TrackerAdhocProposed (marshal_TrackerAdhocProposed p) = Inr p"
  by (simp add: decodeStrict_TrackerAdhocProposed_def decode_TrackerAdhocProposed_def known_keys_def require_def marshal_TrackerAdhocProposed_def)

lemma decode_marshal_OutboxDeclined [payload_rt]: "decode_OutboxDeclined (marshal_OutboxDeclined p) = Inr p"
  by (simp add: decode_OutboxDeclined_def marshal_OutboxDeclined_def)

lemma decodeStrict_marshal_OutboxDeclined [payload_rt]: "decodeStrict_OutboxDeclined (marshal_OutboxDeclined p) = Inr p"
  by (simp add: decodeStrict_OutboxDeclined_def decode_OutboxDeclined_def known_keys_def require_def marshal_OutboxDeclined_def)

lemma decode_marshal_OutboxWithheld [payload_rt]: "decode_OutboxWithheld (marshal_OutboxWithheld p) = Inr p"
  by (simp add: decode_OutboxWithheld_def marshal_OutboxWithheld_def)

lemma decodeStrict_marshal_OutboxWithheld [payload_rt]: "decodeStrict_OutboxWithheld (marshal_OutboxWithheld p) = Inr p"
  by (simp add: decodeStrict_OutboxWithheld_def decode_OutboxWithheld_def known_keys_def require_def marshal_OutboxWithheld_def)

lemma decode_marshal_OutboxDeliveryFailed [payload_rt]: "decode_OutboxDeliveryFailed (marshal_OutboxDeliveryFailed p) = Inr p"
  by (simp add: decode_OutboxDeliveryFailed_def marshal_OutboxDeliveryFailed_def)

lemma decodeStrict_marshal_OutboxDeliveryFailed [payload_rt]: "decodeStrict_OutboxDeliveryFailed (marshal_OutboxDeliveryFailed p) = Inr p"
  by (simp add: decodeStrict_OutboxDeliveryFailed_def decode_OutboxDeliveryFailed_def known_keys_def require_def marshal_OutboxDeliveryFailed_def)

lemma decode_marshal_RepoAttached [payload_rt]: "decode_RepoAttached (marshal_RepoAttached p) = Inr p"
  by (simp add: decode_RepoAttached_def marshal_RepoAttached_def)

lemma decode_marshal_CloneAttached [payload_rt]: "decode_CloneAttached (marshal_CloneAttached p) = Inr p"
  by (simp add: decode_CloneAttached_def marshal_CloneAttached_def)

lemma decode_marshal_WorktreeAttached [payload_rt]: "decode_WorktreeAttached (marshal_WorktreeAttached p) = Inr p"
  by (simp add: decode_WorktreeAttached_def marshal_WorktreeAttached_def)

lemma decode_marshal_RepoKeyAdopted [payload_rt]: "decode_RepoKeyAdopted (marshal_RepoKeyAdopted p) = Inr p"
  by (simp add: decode_RepoKeyAdopted_def marshal_RepoKeyAdopted_def)

lemma decode_marshal_CloneRelinked [payload_rt]: "decode_CloneRelinked (marshal_CloneRelinked p) = Inr p"
  by (simp add: decode_CloneRelinked_def marshal_CloneRelinked_def)

lemma decode_marshal_CloneLabeled [payload_rt]: "decode_CloneLabeled (marshal_CloneLabeled p) = Inr p"
  by (simp add: decode_CloneLabeled_def marshal_CloneLabeled_def)

lemma decode_marshal_CursorMoved [payload_rt]: "decode_CursorMoved (marshal_CursorMoved p) = Inr p"
  by (simp add: decode_CursorMoved_def marshal_CursorMoved_def)

lemma decode_marshal_BatchCreated [payload_rt]: "decode_BatchCreated (marshal_BatchCreated p) = Inr p"
  by (simp add: decode_BatchCreated_def marshal_BatchCreated_def)

lemma decodeStrict_marshal_BatchCreated [payload_rt]: "decodeStrict_BatchCreated (marshal_BatchCreated p) = Inr p"
  by (simp add: decodeStrict_BatchCreated_def decode_BatchCreated_def known_keys_def require_def marshal_BatchCreated_def)

lemma decode_marshal_BatchMembership [payload_rt]: "decode_BatchMembership (marshal_BatchMembership p) = Inr p"
  by (simp add: decode_BatchMembership_def marshal_BatchMembership_def)

lemma decodeStrict_marshal_BatchMembership [payload_rt]: "decodeStrict_BatchMembership (marshal_BatchMembership p) = Inr p"
  by (simp add: decodeStrict_BatchMembership_def decode_BatchMembership_def known_keys_def require_def marshal_BatchMembership_def)

lemma decode_marshal_DispatchOpened [payload_rt]: "decode_DispatchOpened (marshal_DispatchOpened p) = Inr p"
  by (simp add: decode_DispatchOpened_def marshal_DispatchOpened_def)

lemma decodeStrict_marshal_DispatchOpened [payload_rt]: "decodeStrict_DispatchOpened (marshal_DispatchOpened p) = Inr p"
  by (simp add: decodeStrict_DispatchOpened_def decode_DispatchOpened_def known_keys_def require_def marshal_DispatchOpened_def)

lemma decode_marshal_DispatchClosed [payload_rt]: "decode_DispatchClosed (marshal_DispatchClosed p) = Inr p"
  by (simp add: decode_DispatchClosed_def marshal_DispatchClosed_def)

lemma decode_marshal_RunStarted [payload_rt]: "decode_RunStarted (marshal_RunStarted p) = Inr p"
  by (simp add: decode_RunStarted_def marshal_RunStarted_def)

lemma decodeStrict_marshal_RunStarted [payload_rt]: "decodeStrict_RunStarted (marshal_RunStarted p) = Inr p"
  by (simp add: decodeStrict_RunStarted_def decode_RunStarted_def known_keys_def require_def marshal_RunStarted_def)

lemma decode_marshal_RunSkipped [payload_rt]: "decode_RunSkipped (marshal_RunSkipped p) = Inr p"
  by (simp add: decode_RunSkipped_def marshal_RunSkipped_def)

lemma decodeStrict_marshal_RunSkipped [payload_rt]: "decodeStrict_RunSkipped (marshal_RunSkipped p) = Inr p"
  by (simp add: decodeStrict_RunSkipped_def decode_RunSkipped_def known_keys_def require_def marshal_RunSkipped_def)

lemma decode_marshal_RunStoodDown [payload_rt]: "decode_RunStoodDown (marshal_RunStoodDown p) = Inr p"
  by (simp add: decode_RunStoodDown_def marshal_RunStoodDown_def)

lemma decodeStrict_marshal_RunStoodDown [payload_rt]: "decodeStrict_RunStoodDown (marshal_RunStoodDown p) = Inr p"
  by (simp add: decodeStrict_RunStoodDown_def decode_RunStoodDown_def known_keys_def require_def marshal_RunStoodDown_def)

lemma decode_marshal_RoleSpawned [payload_rt]: "decode_RoleSpawned (marshal_RoleSpawned p) = Inr p"
  by (simp add: decode_RoleSpawned_def marshal_RoleSpawned_def)

lemma decodeStrict_marshal_RoleSpawned [payload_rt]: "decodeStrict_RoleSpawned (marshal_RoleSpawned p) = Inr p"
  by (simp add: decodeStrict_RoleSpawned_def decode_RoleSpawned_def known_keys_def require_def marshal_RoleSpawned_def)

lemma decode_marshal_RoleClosed [payload_rt]: "decode_RoleClosed (marshal_RoleClosed p) = Inr p"
  by (simp add: decode_RoleClosed_def marshal_RoleClosed_def)

lemma decodeStrict_marshal_RoleClosed [payload_rt]: "decodeStrict_RoleClosed (marshal_RoleClosed p) = Inr p"
  by (simp add: decodeStrict_RoleClosed_def decode_RoleClosed_def known_keys_def require_def marshal_RoleClosed_def)

lemma decode_marshal_RenderPerformed [payload_rt]: "decode_RenderPerformed (marshal_RenderPerformed p) = Inr p"
  by (simp add: decode_RenderPerformed_def marshal_RenderPerformed_def)

end
