(* ===== verification/Tables.thy ===== *)
theory Tables
  imports Payloads
begin

text \<open>
  The database of a version-14 store: the tables the migrations of
  \<open>internal/store/schema_v1.go\<close> .. \<open>schema_v14.go\<close> leave, and the statements the
  projection runs on them.

  \<open>Open\<close> always migrates to the latest version, so the model fixes version 14 and
  the branches of the Go code for lower versions are not part of it. A row is a
  record, a table the list of its rows in insertion order, \<open>db\<close> the record of all
  projection tables. \<open>insert_T\<close> refuses a row exactly when SQLite does: the born
  trigger, the CHECKs of the table, its primary key, its unique (partial)
  indexes and its foreign keys. \<open>update_T\<close> checks the immutability and advance
  triggers and the CHECKs of every row it hits. A transaction is the log it
  sees and the state of \<open>PRAGMA defer_foreign_keys\<close>, which \<open>Rebuild\<close> turns on.
  Foreign keys into \<open>events(id)\<close> are not checked here: the projection only ever
  writes the identity of the event it folds, which has just been appended, and
  the development proves the reference (\<open>event_refs\<close>) instead. Timestamps are
  milliseconds since the epoch rather than their text.
\<close>

section \<open>Events and transactions\<close>

record event =
  ev_ID :: string
  ev_Type :: string
  ev_OccurredAt :: int
  ev_Actor :: Actor
  ev_Causation :: string
  ev_Correlation :: string
  ev_Repo :: string
  ev_Clone :: string
  ev_Worktree :: string
  ev_Subject :: string
  ev_Payload :: json

definition IsOrigin :: "event \<Rightarrow> bool" where
  "IsOrigin e = (ev_ID e = ev_Causation e \<and> ev_ID e = ev_Correlation e)"

record tx =
  tx_log :: "event list"
  tx_defer :: bool

section \<open>Rows\<close>

record repo_row =
  r_id :: string
  r_remote_url :: "string option"
  r_identity_remote :: "string option"
  r_label :: "string option"
  r_birth :: string
  r_last :: string

record clone_row =
  c_id :: string
  c_repo :: string
  c_git_common_dir :: string
  c_label :: string
  c_birth :: string
  c_last :: string

record worktree_row =
  w_id :: string
  w_clone :: string
  w_name :: "string option"
  w_birth :: string
  w_last :: string

record node_row =
  n_id :: string
  n_kind :: Scale
  n_repo :: string
  n_matter :: string
  n_parent :: "string option"
  n_locator :: string
  n_title :: string
  n_lifecycle :: Lifecycle
  n_sort_key :: int
  n_external_ref :: "string option"
  n_birth :: string
  n_last :: string
  n_tombstone :: "string option"

record content_row =
  ct_id :: string
  ct_node :: string
  ct_kind :: ContentKind
  ct_bytes :: "bytes option"
  ct_blob_ref :: "string option"
  ct_byte_len :: int
  ct_sha256 :: string
  ct_birth :: string
  ct_last :: string
  ct_tombstone :: "string option"

record edge_row =
  e_id :: string
  e_blocked :: string
  e_blocker :: string
  e_birth :: string
  e_last :: string
  e_tombstone :: "string option"

record gate_row =
  g_node :: string
  g_gate :: string
  g_scale :: Scale
  g_closed_at :: int
  g_last :: string

record config_row =
  cf_repo :: string
  cf_key :: string
  cf_value :: string

record declaration_row =
  d_repo :: string
  d_gate :: string
  d_scale :: Scale

record exemption_row =
  x_repo :: string
  x_gate :: string
  x_node :: string

record backlog_row =
  b_id :: string
  b_repo :: string
  b_provenance :: string
  b_state :: string
  b_title :: string
  b_detail :: string
  b_origin_node :: "string option"
  b_matter :: "string option"
  b_outbox :: "string option"
  b_decline_reason :: string
  b_birth :: string
  b_last :: string

record outbox_row =
  o_id :: string
  o_repo :: string
  o_kind :: string
  o_state :: string
  o_subject :: string
  o_ref :: "string option"
  o_key :: string
  o_payload :: json
  o_reason :: string
  o_attempts :: int
  o_birth :: string
  o_last :: string

record reference_row =
  t_matter :: string
  t_ref :: string
  t_removed :: "string option"
  t_birth :: string
  t_last :: string

record push_row =
  p_ref :: string
  p_disposition :: string
  p_lease :: string
  p_outbox :: string
  p_birth :: string
  p_last :: string

record batch_row =
  ba_id :: string
  ba_name :: "string option"
  ba_matter :: "string option"
  ba_state :: string
  ba_close_reason :: "string option"
  ba_closed_at :: "int option"
  ba_birth :: string
  ba_last :: string

record member_row =
  m_batch :: string
  m_matter :: string
  m_left :: "string option"
  m_last :: string

record run_row =
  ru_id :: string
  ru_clone :: string
  ru_batch :: string
  ru_locator :: string
  ru_state :: string
  ru_close_reason :: "string option"
  ru_started_at :: int
  ru_closed_at :: "int option"
  ru_birth :: string
  ru_last :: string

record run_matter_row =
  rmt_run :: string
  rmt_matter :: string
  rmt_ordinal :: nat

record dispatch_row =
  di_id :: string
  di_clone :: string
  di_worktree :: string
  di_run :: "string option"
  di_matter :: "string option"
  di_state :: string
  di_close_reason :: "string option"
  di_opened_at :: int
  di_closed_at :: "int option"
  di_birth :: string
  di_last :: string

record role_row =
  role_id :: string
  role_clone :: string
  role_dispatch :: string
  role_name :: RoleName
  role_state :: string
  role_close_reason :: "string option"
  role_spawned_at :: int
  role_closed_at :: "int option"
  role_birth :: string
  role_last :: string

record cursor_row =
  cu_clone :: string
  cu_worktree :: string
  cu_node :: "string option"
  cu_last :: string

text \<open>The projection tables (\<open>projectionTables\<close>, \<open>project.go\<close>).\<close>

record db =
  repos :: "repo_row list"
  clones :: "clone_row list"
  worktrees :: "worktree_row list"
  nodes :: "node_row list"
  content :: "content_row list"
  edges :: "edge_row list"
  gate_state :: "gate_row list"
  backlog_entries :: "backlog_row list"
  outbox_entries :: "outbox_row list"
  batches :: "batch_row list"
  batch_members :: "member_row list"
  runs :: "run_row list"
  dispatches :: "dispatch_row list"
  cursors :: "cursor_row list"
  run_matters :: "run_matter_row list"
  roles :: "role_row list"
  tracker_references :: "reference_row list"
  tracker_push_records :: "push_row list"
  gate_exemptions :: "exemption_row list"
  gate_declarations :: "declaration_row list"
  config :: "config_row list"

definition empty_db :: db where
  "empty_db = \<lparr>repos = [], clones = [], worktrees = [], nodes = [], content = [], edges = [],
     gate_state = [], backlog_entries = [], outbox_entries = [], batches = [], batch_members = [],
     runs = [], dispatches = [], cursors = [], run_matters = [], roles = [],
     tracker_references = [], tracker_push_records = [], gate_exemptions = [],
     gate_declarations = [], config = []\<rparr>"

section \<open>Constraints\<close>

primrec check_all :: "(bool \<times> sql_error) list \<Rightarrow> unit result" where
  "check_all [] = Inr ()"
| "check_all (c # cs) = (if fst c then check_all cs else Inl (ESql (snd c)))"

lemma check_all_Inr_iff [res]: "check_all cs = Inr u \<longleftrightarrow> (\<forall>c \<in> set cs. fst c)"
  by (induction cs) auto

text \<open>\<open>NOT GLOB '*[^0123456789ABCDEFGHJKMNPQRSTVWXYZ]*'\<close>.\<close>

definition crock_only :: "string \<Rightarrow> bool" where
  "crock_only s = list_all (\<lambda>c. c \<in> set crockford) s"

definition has_id :: "('r \<Rightarrow> string) \<Rightarrow> 'r list \<Rightarrow> string \<Rightarrow> bool" where
  "has_id k rs x = list_ex (\<lambda>r. k r = x) rs"

definition opt_ref :: "(string \<Rightarrow> bool) \<Rightarrow> string option \<Rightarrow> bool" where
  "opt_ref p v = (case v of None \<Rightarrow> True | Some x \<Rightarrow> p x)"

definition no_row :: "('r \<Rightarrow> bool) \<Rightarrow> 'r list \<Rightarrow> bool" where
  "no_row p rs = (\<not> list_ex p rs)"

definition scale_check :: "string \<Rightarrow> bool" where
  "scale_check s = (s \<in> set [ScaleMatter, ScaleStage, ScaleStep])"

definition n_live :: "node_row \<Rightarrow> bool" where
  "n_live r = (n_tombstone r = None)"

definition node_check :: "node_row \<Rightarrow> bool" where
  "node_check r =
     (scale_check (n_kind r)
    \<and> n_lifecycle r \<in> set [Planned, InProgress, Done, Canceled, Paused]
    \<and> sql_length (n_id r) = 26
    \<and> ((n_kind r = ScaleMatter) = (n_parent r = None))
    \<and> ((n_kind r = ScaleMatter) = (n_matter r = n_id r)))"

definition content_check :: "content_row \<Rightarrow> bool" where
  "content_check r =
     (ct_kind r \<in> set [KindBrief, KindWorkplan, KindBody, KindFindings]
    \<and> ct_byte_len r \<ge> 0 \<and> sql_length (ct_sha256 r) = 64
    \<and> sql_length (ct_id r) = 26 \<and> crock_only (ct_id r)
    \<and> sql_length (ct_node r) = 26 \<and> crock_only (ct_node r)
    \<and> ((ct_bytes r = None) \<noteq> (ct_blob_ref r = None)))"

definition edge_check :: "edge_row \<Rightarrow> bool" where
  "edge_check r = (sql_length (e_id r) = 26 \<and> e_blocked r \<noteq> e_blocker r)"

definition backlog_check :: "backlog_row \<Rightarrow> bool" where
  "backlog_check r =
     (b_provenance r \<in> set [ProvenanceIntake, ProvenanceFound, ProvenanceDeferred]
    \<and> b_state r \<in> set [''entered'', ''planned'', ''declined'', ''delegated'']
    \<and> sql_length (b_id r) = 26
    \<and> ((b_state r = ''planned'') = (b_matter r \<noteq> None))
    \<and> ((b_state r = ''delegated'') = (b_outbox r \<noteq> None))
    \<and> opt_ref (\<lambda>x. sql_length x = 26 \<and> crock_only x) (b_outbox r))"

definition outbox_check :: "outbox_row \<Rightarrow> bool" where
  "outbox_check r =
     (o_kind r \<in> set [''create'', ''state'', ''comment'']
    \<and> o_state r \<in> set [''queued'', ''approved'', ''declined'', ''withheld'', ''flushed'']
    \<and> o_attempts r \<ge> 0
    \<and> sql_length (o_id r) = 26 \<and> sql_length (o_subject r) = 26
    \<and> crock_only (o_id r) \<and> crock_only (o_subject r)
    \<and> ((o_kind r = ''create'') = (o_ref r = None))
    \<and> (o_state r \<notin> set [''declined'', ''withheld''] \<or> sql_length (o_reason r) > 0))"

definition push_check :: "push_row \<Rightarrow> bool" where
  "push_check r =
     (p_disposition r \<in> set [TrackerActive, TrackerCompleted, TrackerCanceled]
    \<and> sql_length (p_ref r) > 0 \<and> sql_length (p_lease r) > 0
    \<and> sql_length (p_outbox r) = 26 \<and> crock_only (p_outbox r))"

definition batch_check :: "batch_row \<Rightarrow> bool" where
  "batch_check r =
     (ba_state r \<in> set [''live'', ''closed'']
    \<and> opt_ref (\<lambda>x. x \<in> set [''dismissed'', ''swept'']) (ba_close_reason r)
    \<and> sql_length (ba_id r) = 26
    \<and> (((ba_name r = None) = (ba_matter r \<noteq> None))
       \<or> (ba_name r = None \<and> ba_matter r = None \<and> ba_state r = ''closed'' \<and> ba_close_reason r = Some ''swept''))
    \<and> opt_ref (\<lambda>x. sql_length x > 0) (ba_name r)
    \<and> ((ba_state r = ''closed'') = (ba_close_reason r \<noteq> None))
    \<and> ((ba_state r = ''closed'') = (ba_closed_at r \<noteq> None)))"

definition run_check :: "run_row \<Rightarrow> bool" where
  "run_check r =
     (ru_state r \<in> set [''open'', ''closed'']
    \<and> opt_ref (\<lambda>x. x \<in> set [''completed'', ''stood-down'', ''reaped'']) (ru_close_reason r)
    \<and> sql_length (ru_id r) = 26
    \<and> ((ru_state r = ''closed'') = (ru_close_reason r \<noteq> None))
    \<and> ((ru_state r = ''closed'') = (ru_closed_at r \<noteq> None)))"

definition dispatch_check :: "dispatch_row \<Rightarrow> bool" where
  "dispatch_check r =
     (di_state r \<in> set [''open'', ''closed'']
    \<and> opt_ref (\<lambda>x. x \<in> set [CloseCompleted, CloseSuperseded, CloseReaped]) (di_close_reason r)
    \<and> sql_length (di_id r) = 26
    \<and> ((di_state r = ''closed'') = (di_close_reason r \<noteq> None))
    \<and> ((di_state r = ''closed'') = (di_closed_at r \<noteq> None))
    \<and> ((di_run r = None) = (di_matter r = None)))"

definition role_check :: "role_row \<Rightarrow> bool" where
  "role_check r =
     (KnownRole (role_name r)
    \<and> role_state r \<in> set [''open'', ''closed'']
    \<and> opt_ref (\<lambda>x. x \<in> set [RoleCloseCompleted, RoleCloseReaped]) (role_close_reason r)
    \<and> sql_length (role_id r) = 26
    \<and> ((role_state r = ''closed'') = (role_close_reason r \<noteq> None))
    \<and> ((role_state r = ''closed'') = (role_closed_at r \<noteq> None)))"

end
