(* ===== verification/Statements.thy ===== *)
theory Statements
  imports Tables
begin

text \<open>
  The INSERT and UPDATE statements of the projection, one function per table and
  kind of statement, with the constraints the schema (\<open>schema_v1.go\<close> ..
  \<open>schema_v13.go\<close>) puts on the table. An insert returns the new database; an
  update also returns the number of rows it hit. An upsert
  (\<open>INSERT .. ON CONFLICT .. DO UPDATE\<close>) is written out by its caller as the
  update of the conflicting row or the insert of a new one.
\<close>

definition fk :: "tx \<Rightarrow> bool \<Rightarrow> bool" where
  "fk t b = (tx_defer t \<or> b)"

text \<open>\<open>exactlyRows(res, 1, ev)\<close> after an update.\<close>

definition one_row :: "(nat \<times> db) result \<Rightarrow> db result" where
  "one_row u = rbind u (\<lambda>(n, db'). rbind (exactlyRows n 1) (\<lambda>_. Inr db'))"

section \<open>Tiers\<close>

definition insert_repos :: "repo_row \<Rightarrow> db \<Rightarrow> db result" where
  "insert_repos r s = rbind (check_all [
      (r_birth r = r_last r, SqlTrigger ''repos_born_by_event''),
      (sql_length (r_id r) = 26, SqlCheck ''repos''),
      (no_row (\<lambda>q. r_id q = r_id r) (repos s), SqlUnique ''repos.id''),
      (no_row (\<lambda>q. r_remote_url r \<noteq> None \<and> r_remote_url q = r_remote_url r) (repos s), SqlUnique ''repos.remote_url'')])
    (\<lambda>_. Inr (s\<lparr>repos := repos s @ [r]\<rparr>))"

definition update_repos :: "(repo_row \<Rightarrow> bool) \<Rightarrow> (repo_row \<Rightarrow> repo_row) \<Rightarrow> db \<Rightarrow> (nat \<times> db) result" where
  "update_repos p f s = rbind (check_all [
      (list_all (\<lambda>r. p r \<longrightarrow> r_birth (f r) = r_birth r) (repos s), SqlTrigger ''repos_immutable_birth''),
      (list_all (\<lambda>r. p r \<longrightarrow> r_last (f r) > r_last r) (repos s), SqlTrigger ''repos_advance''),
      (list_all (\<lambda>r. p r \<longrightarrow> r_remote_url (f r) = None \<or> no_row (\<lambda>q. r_id q \<noteq> r_id r \<and> r_remote_url q = r_remote_url (f r)) (repos s)) (repos s), SqlUnique ''repos.remote_url'')])
    (\<lambda>_. Inr (hits p (repos s), s\<lparr>repos := upd_rows p f (repos s)\<rparr>))"

definition insert_clones :: "tx \<Rightarrow> clone_row \<Rightarrow> db \<Rightarrow> db result" where
  "insert_clones t r s = rbind (check_all [
      (c_birth r = c_last r, SqlTrigger ''clones_born_by_event''),
      (sql_length (c_id r) = 26, SqlCheck ''clones''),
      (no_row (\<lambda>q. c_id q = c_id r) (clones s), SqlUnique ''clones.id''),
      (no_row (\<lambda>q. c_git_common_dir q = c_git_common_dir r) (clones s), SqlUnique ''clones.git_common_dir''),
      (no_row (\<lambda>q. c_repo q = c_repo r \<and> c_label q = c_label r) (clones s), SqlUnique ''clones.repo, clones.label''),
      (fk t (has_id r_id (repos s) (c_repo r)), SqlForeignKey ''clones.repo'')])
    (\<lambda>_. Inr (s\<lparr>clones := clones s @ [r]\<rparr>))"

definition update_clones :: "(clone_row \<Rightarrow> bool) \<Rightarrow> (clone_row \<Rightarrow> clone_row) \<Rightarrow> db \<Rightarrow> (nat \<times> db) result" where
  "update_clones p f s = rbind (check_all [
      (list_all (\<lambda>r. p r \<longrightarrow> c_birth (f r) = c_birth r) (clones s), SqlTrigger ''clones_immutable_birth''),
      (list_all (\<lambda>r. p r \<longrightarrow> c_last (f r) > c_last r) (clones s), SqlTrigger ''clones_advance''),
      (list_all (\<lambda>r. p r \<longrightarrow> no_row (\<lambda>q. c_id q \<noteq> c_id r \<and> c_git_common_dir q = c_git_common_dir (f r)) (clones s)) (clones s), SqlUnique ''clones.git_common_dir''),
      (list_all (\<lambda>r. p r \<longrightarrow> no_row (\<lambda>q. c_id q \<noteq> c_id r \<and> c_repo q = c_repo (f r) \<and> c_label q = c_label (f r)) (clones s)) (clones s), SqlUnique ''clones.repo, clones.label'')])
    (\<lambda>_. Inr (hits p (clones s), s\<lparr>clones := upd_rows p f (clones s)\<rparr>))"

definition insert_worktrees :: "tx \<Rightarrow> worktree_row \<Rightarrow> db \<Rightarrow> db result" where
  "insert_worktrees t r s = rbind (check_all [
      (w_birth r = w_last r, SqlTrigger ''worktrees_born_by_event''),
      (sql_length (w_id r) = 26, SqlCheck ''worktrees''),
      (no_row (\<lambda>q. w_id q = w_id r) (worktrees s), SqlUnique ''worktrees.id''),
      (no_row (\<lambda>q. w_clone q = w_clone r \<and> coalesce (w_name q) = coalesce (w_name r)) (worktrees s), SqlUnique ''worktrees_name''),
      (fk t (has_id c_id (clones s) (w_clone r)), SqlForeignKey ''worktrees.clone'')])
    (\<lambda>_. Inr (s\<lparr>worktrees := worktrees s @ [r]\<rparr>))"

section \<open>Nodes, content, edges\<close>

text \<open>The \<open>nodes_depth\<close> trigger: a comparison with the kind of a parent that is not
  there is NULL, and does not fire.\<close>

definition parent_kind :: "db \<Rightarrow> node_row \<Rightarrow> Scale option" where
  "parent_kind s r = (case n_parent r of None \<Rightarrow> None
     | Some p \<Rightarrow> map_option n_kind (List.find (\<lambda>q. n_id q = p) (nodes s)))"

definition depth_ok :: "db \<Rightarrow> node_row \<Rightarrow> bool" where
  "depth_ok s r =
     ((n_kind r = ScaleStage \<longrightarrow> opt_ref (\<lambda>k. k = ScaleMatter) (parent_kind s r))
    \<and> (n_kind r = ScaleStep \<longrightarrow> opt_ref (\<lambda>k. k = ScaleMatter \<or> k = ScaleStage) (parent_kind s r)))"

definition insert_nodes :: "tx \<Rightarrow> node_row \<Rightarrow> db \<Rightarrow> db result" where
  "insert_nodes t r s = rbind (check_all [
      (depth_ok s r, SqlTrigger ''nodes_depth''),
      (n_birth r = n_last r, SqlTrigger ''nodes_born_by_event''),
      (node_check r, SqlCheck ''nodes''),
      (no_row (\<lambda>q. n_id q = n_id r) (nodes s), SqlUnique ''nodes.id''),
      (no_row (\<lambda>q. n_live q \<and> n_live r \<and> n_matter q = n_matter r \<and> n_locator q = n_locator r) (nodes s), SqlUnique ''nodes.matter, nodes.locator''),
      (fk t (has_id r_id (repos s) (n_repo r)), SqlForeignKey ''nodes.repo''),
      (fk t (n_matter r = n_id r \<or> has_id n_id (nodes s) (n_matter r)), SqlForeignKey ''nodes.matter''),
      (fk t (opt_ref (\<lambda>x. x = n_id r \<or> has_id n_id (nodes s) x) (n_parent r)), SqlForeignKey ''nodes.parent'')])
    (\<lambda>_. Inr (s\<lparr>nodes := nodes s @ [r]\<rparr>))"

definition update_nodes :: "(node_row \<Rightarrow> bool) \<Rightarrow> (node_row \<Rightarrow> node_row) \<Rightarrow> db \<Rightarrow> (nat \<times> db) result" where
  "update_nodes p f s = rbind (check_all [
      (list_all (\<lambda>r. p r \<longrightarrow> n_birth (f r) = n_birth r) (nodes s), SqlTrigger ''nodes_immutable_birth''),
      (list_all (\<lambda>r. p r \<longrightarrow> n_kind (f r) = n_kind r \<and> n_repo (f r) = n_repo r
          \<and> n_matter (f r) = n_matter r \<and> coalesce (n_parent (f r)) = coalesce (n_parent r)) (nodes s), SqlTrigger ''nodes_immutable_identity''),
      (list_all (\<lambda>r. p r \<longrightarrow> n_last (f r) > n_last r) (nodes s), SqlTrigger ''nodes_advance''),
      (list_all (\<lambda>r. p r \<longrightarrow> node_check (f r)) (nodes s), SqlCheck ''nodes'')])
    (\<lambda>_. Inr (hits p (nodes s), s\<lparr>nodes := upd_rows p f (nodes s)\<rparr>))"

definition create_once :: "content_row \<Rightarrow> bool" where
  "create_once r = (ct_kind r \<in> set [KindBrief, KindWorkplan, KindBody] \<and> ct_tombstone r = None)"

definition insert_content :: "content_row \<Rightarrow> db \<Rightarrow> db result" where
  "insert_content r s = rbind (check_all [
      (ct_birth r = ct_last r, SqlTrigger ''content_born_by_event''),
      (content_check r, SqlCheck ''content''),
      (no_row (\<lambda>q. ct_id q = ct_id r) (content s), SqlUnique ''content.id''),
      (no_row (\<lambda>q. create_once q \<and> create_once r \<and> ct_node q = ct_node r \<and> ct_kind q = ct_kind r) (content s), SqlUnique ''content.node, content.kind'')])
    (\<lambda>_. Inr (s\<lparr>content := content s @ [r]\<rparr>))"

definition insert_edges :: "tx \<Rightarrow> edge_row \<Rightarrow> db \<Rightarrow> db result" where
  "insert_edges t r s = rbind (check_all [
      (e_birth r = e_last r, SqlTrigger ''edges_born_by_event''),
      (edge_check r, SqlCheck ''edges''),
      (no_row (\<lambda>q. e_id q = e_id r) (edges s), SqlUnique ''edges.id''),
      (no_row (\<lambda>q. e_tombstone q = None \<and> e_tombstone r = None \<and> e_blocked q = e_blocked r \<and> e_blocker q = e_blocker r) (edges s), SqlUnique ''edges.blocked, edges.blocker''),
      (fk t (has_id n_id (nodes s) (e_blocked r)), SqlForeignKey ''edges.blocked''),
      (fk t (has_id n_id (nodes s) (e_blocker r)), SqlForeignKey ''edges.blocker'')])
    (\<lambda>_. Inr (s\<lparr>edges := edges s @ [r]\<rparr>))"

definition update_edges :: "(edge_row \<Rightarrow> bool) \<Rightarrow> (edge_row \<Rightarrow> edge_row) \<Rightarrow> db \<Rightarrow> (nat \<times> db) result" where
  "update_edges p f s = rbind (check_all [
      (list_all (\<lambda>r. p r \<longrightarrow> e_birth (f r) = e_birth r) (edges s), SqlTrigger ''edges_immutable_birth''),
      (list_all (\<lambda>r. p r \<longrightarrow> e_last (f r) > e_last r) (edges s), SqlTrigger ''edges_advance''),
      (list_all (\<lambda>r. p r \<longrightarrow> edge_check (f r)) (edges s), SqlCheck ''edges'')])
    (\<lambda>_. Inr (hits p (edges s), s\<lparr>edges := upd_rows p f (edges s)\<rparr>))"

section \<open>Gates and config\<close>

definition insert_gate_state :: "tx \<Rightarrow> gate_row \<Rightarrow> db \<Rightarrow> db result" where
  "insert_gate_state t r s = rbind (check_all [
      (scale_check (g_scale r), SqlCheck ''gate_state''),
      (no_row (\<lambda>q. g_node q = g_node r \<and> g_gate q = g_gate r) (gate_state s), SqlUnique ''gate_state.node, gate_state.gate''),
      (fk t (has_id n_id (nodes s) (g_node r)), SqlForeignKey ''gate_state.node'')])
    (\<lambda>_. Inr (s\<lparr>gate_state := gate_state s @ [r]\<rparr>))"

definition insert_gate_declarations :: "tx \<Rightarrow> declaration_row \<Rightarrow> db \<Rightarrow> db result" where
  "insert_gate_declarations t r s = rbind (check_all [
      (scale_check (d_scale r), SqlCheck ''gate_declarations''),
      (no_row (\<lambda>q. d_repo q = d_repo r \<and> d_gate q = d_gate r) (gate_declarations s), SqlUnique ''gate_declarations.repo, gate_declarations.gate''),
      (fk t (has_id r_id (repos s) (d_repo r)), SqlForeignKey ''gate_declarations.repo'')])
    (\<lambda>_. Inr (s\<lparr>gate_declarations := gate_declarations s @ [r]\<rparr>))"

definition insert_gate_exemptions :: "tx \<Rightarrow> exemption_row \<Rightarrow> db \<Rightarrow> db result" where
  "insert_gate_exemptions t r s = rbind (check_all [
      (no_row (\<lambda>q. q = r) (gate_exemptions s), SqlUnique ''gate_exemptions.repo, gate_exemptions.gate, gate_exemptions.node''),
      (fk t (has_id r_id (repos s) (x_repo r)), SqlForeignKey ''gate_exemptions.repo''),
      (fk t (has_id n_id (nodes s) (x_node r)), SqlForeignKey ''gate_exemptions.node''),
      (fk t (list_ex (\<lambda>d. d_repo d = x_repo r \<and> d_gate d = x_gate r) (gate_declarations s)), SqlForeignKey ''gate_exemptions.gate'')])
    (\<lambda>_. Inr (s\<lparr>gate_exemptions := gate_exemptions s @ [r]\<rparr>))"

text \<open>\<open>INSERT INTO config .. ON CONFLICT (repo, key) DO UPDATE\<close>: one row either way.\<close>

definition upsert_config :: "tx \<Rightarrow> config_row \<Rightarrow> db \<Rightarrow> (nat \<times> db) result" where
  "upsert_config t r s =
     (let same = (\<lambda>q. cf_repo q = cf_repo r \<and> cf_key q = cf_key r)
      in if list_ex same (config s)
         then Inr (hits same (config s), s\<lparr>config := upd_rows same (\<lambda>q. q\<lparr>cf_value := cf_value r\<rparr>) (config s)\<rparr>)
         else rbind (check_all [(fk t (has_id r_id (repos s) (cf_repo r)), SqlForeignKey ''config.repo'')])
                (\<lambda>_. Inr (1, s\<lparr>config := config s @ [r]\<rparr>)))"

section \<open>Backlog and outbox\<close>

definition insert_backlog :: "tx \<Rightarrow> backlog_row \<Rightarrow> db \<Rightarrow> db result" where
  "insert_backlog t r s = rbind (check_all [
      (b_birth r = b_last r, SqlTrigger ''backlog_entries_born_by_event''),
      (backlog_check r, SqlCheck ''backlog_entries''),
      (no_row (\<lambda>q. b_id q = b_id r) (backlog_entries s), SqlUnique ''backlog_entries.id''),
      (fk t (has_id r_id (repos s) (b_repo r)), SqlForeignKey ''backlog_entries.repo''),
      (fk t (opt_ref (has_id n_id (nodes s)) (b_origin_node r)), SqlForeignKey ''backlog_entries.origin_node''),
      (fk t (opt_ref (has_id n_id (nodes s)) (b_matter r)), SqlForeignKey ''backlog_entries.matter'')])
    (\<lambda>_. Inr (s\<lparr>backlog_entries := backlog_entries s @ [r]\<rparr>))"

definition update_backlog :: "tx \<Rightarrow> (backlog_row \<Rightarrow> bool) \<Rightarrow> (backlog_row \<Rightarrow> backlog_row) \<Rightarrow> db \<Rightarrow> (nat \<times> db) result" where
  "update_backlog t p f s = rbind (check_all [
      (list_all (\<lambda>r. p r \<longrightarrow> b_birth (f r) = b_birth r) (backlog_entries s), SqlTrigger ''backlog_entries_immutable_birth''),
      (list_all (\<lambda>r. p r \<longrightarrow> b_last (f r) > b_last r) (backlog_entries s), SqlTrigger ''backlog_entries_advance''),
      (list_all (\<lambda>r. p r \<longrightarrow> backlog_check (f r)) (backlog_entries s), SqlCheck ''backlog_entries''),
      (fk t (list_all (\<lambda>r. p r \<longrightarrow> opt_ref (has_id n_id (nodes s)) (b_matter (f r))) (backlog_entries s)), SqlForeignKey ''backlog_entries.matter'')])
    (\<lambda>_. Inr (hits p (backlog_entries s), s\<lparr>backlog_entries := upd_rows p f (backlog_entries s)\<rparr>))"

definition insert_outbox :: "tx \<Rightarrow> outbox_row \<Rightarrow> db \<Rightarrow> db result" where
  "insert_outbox t r s = rbind (check_all [
      (o_birth r = o_last r, SqlTrigger ''outbox_entries_born_by_event''),
      (outbox_check r, SqlCheck ''outbox_entries''),
      (no_row (\<lambda>q. o_id q = o_id r) (outbox_entries s), SqlUnique ''outbox_entries.id''),
      (no_row (\<lambda>q. o_key q = o_key r) (outbox_entries s), SqlUnique ''outbox_entries.idempotency_key''),
      (fk t (has_id r_id (repos s) (o_repo r)), SqlForeignKey ''outbox_entries.repo'')])
    (\<lambda>_. Inr (s\<lparr>outbox_entries := outbox_entries s @ [r]\<rparr>))"

definition update_outbox :: "(outbox_row \<Rightarrow> bool) \<Rightarrow> (outbox_row \<Rightarrow> outbox_row) \<Rightarrow> db \<Rightarrow> (nat \<times> db) result" where
  "update_outbox p f s = rbind (check_all [
      (list_all (\<lambda>r. p r \<longrightarrow> o_birth (f r) = o_birth r) (outbox_entries s), SqlTrigger ''outbox_entries_immutable_birth''),
      (list_all (\<lambda>r. p r \<longrightarrow> o_last (f r) > o_last r) (outbox_entries s), SqlTrigger ''outbox_entries_advance''),
      (list_all (\<lambda>r. p r \<longrightarrow> outbox_check (f r)) (outbox_entries s), SqlCheck ''outbox_entries'')])
    (\<lambda>_. Inr (hits p (outbox_entries s), s\<lparr>outbox_entries := upd_rows p f (outbox_entries s)\<rparr>))"

section \<open>Tracker references and push records\<close>

definition insert_reference :: "tx \<Rightarrow> reference_row \<Rightarrow> db \<Rightarrow> db result" where
  "insert_reference t r s = rbind (check_all [
      (sql_length (t_ref r) > 0, SqlCheck ''tracker_references''),
      (no_row (\<lambda>q. t_matter q = t_matter r \<and> t_ref q = t_ref r) (tracker_references s), SqlUnique ''tracker_references.matter, tracker_references.ref''),
      (fk t (has_id n_id (nodes s) (t_matter r)), SqlForeignKey ''tracker_references.matter'')])
    (\<lambda>_. Inr (s\<lparr>tracker_references := tracker_references s @ [r]\<rparr>))"

definition update_references :: "(reference_row \<Rightarrow> bool) \<Rightarrow> (reference_row \<Rightarrow> reference_row) \<Rightarrow> db \<Rightarrow> (nat \<times> db) result" where
  "update_references p f s = rbind (check_all [
      (list_all (\<lambda>r. p r \<longrightarrow> t_birth (f r) = t_birth r) (tracker_references s), SqlTrigger ''tracker_references_immutable_birth''),
      (list_all (\<lambda>r. p r \<longrightarrow> t_last (f r) > t_last r) (tracker_references s), SqlTrigger ''tracker_references_advance'')])
    (\<lambda>_. Inr (hits p (tracker_references s), s\<lparr>tracker_references := upd_rows p f (tracker_references s)\<rparr>))"

definition insert_push :: "push_row \<Rightarrow> db \<Rightarrow> db result" where
  "insert_push r s = rbind (check_all [
      (push_check r, SqlCheck ''tracker_push_records''),
      (no_row (\<lambda>q. p_ref q = p_ref r) (tracker_push_records s), SqlUnique ''tracker_push_records.ref'')])
    (\<lambda>_. Inr (s\<lparr>tracker_push_records := tracker_push_records s @ [r]\<rparr>))"

definition update_push :: "(push_row \<Rightarrow> bool) \<Rightarrow> (push_row \<Rightarrow> push_row) \<Rightarrow> db \<Rightarrow> (nat \<times> db) result" where
  "update_push p f s = rbind (check_all [
      (list_all (\<lambda>r. p r \<longrightarrow> p_birth (f r) = p_birth r) (tracker_push_records s), SqlTrigger ''tracker_push_records_immutable_birth''),
      (list_all (\<lambda>r. p r \<longrightarrow> p_last (f r) > p_last r) (tracker_push_records s), SqlTrigger ''tracker_push_records_advance''),
      (list_all (\<lambda>r. p r \<longrightarrow> push_check (f r)) (tracker_push_records s), SqlCheck ''tracker_push_records'')])
    (\<lambda>_. Inr (hits p (tracker_push_records s), s\<lparr>tracker_push_records := upd_rows p f (tracker_push_records s)\<rparr>))"

section \<open>Batches, runs, dispatches, roles, cursors\<close>

definition insert_batch_row :: "tx \<Rightarrow> batch_row \<Rightarrow> db \<Rightarrow> db result" where
  "insert_batch_row t r s = rbind (check_all [
      (ba_birth r = ba_last r, SqlTrigger ''batches_born_by_event''),
      (batch_check r, SqlCheck ''batches''),
      (no_row (\<lambda>q. ba_id q = ba_id r) (batches s), SqlUnique ''batches.id''),
      (no_row (\<lambda>q. ba_name r \<noteq> None \<and> ba_name q = ba_name r) (batches s), SqlUnique ''batches.name''),
      (no_row (\<lambda>q. ba_matter r \<noteq> None \<and> ba_matter q = ba_matter r) (batches s), SqlUnique ''batches.matter''),
      (fk t (opt_ref (has_id n_id (nodes s)) (ba_matter r)), SqlForeignKey ''batches.matter'')])
    (\<lambda>_. Inr (s\<lparr>batches := batches s @ [r]\<rparr>))"

definition update_batches :: "(batch_row \<Rightarrow> bool) \<Rightarrow> (batch_row \<Rightarrow> batch_row) \<Rightarrow> db \<Rightarrow> (nat \<times> db) result" where
  "update_batches p f s = rbind (check_all [
      (list_all (\<lambda>r. p r \<longrightarrow> ba_birth (f r) = ba_birth r) (batches s), SqlTrigger ''batches_immutable_birth''),
      (list_all (\<lambda>r. p r \<longrightarrow> ba_last (f r) > ba_last r) (batches s), SqlTrigger ''batches_advance''),
      (list_all (\<lambda>r. p r \<longrightarrow> batch_check (f r)) (batches s), SqlCheck ''batches'')])
    (\<lambda>_. Inr (hits p (batches s), s\<lparr>batches := upd_rows p f (batches s)\<rparr>))"

definition insert_member :: "tx \<Rightarrow> member_row \<Rightarrow> db \<Rightarrow> db result" where
  "insert_member t r s = rbind (check_all [
      (no_row (\<lambda>q. m_batch q = m_batch r \<and> m_matter q = m_matter r) (batch_members s), SqlUnique ''batch_members.batch, batch_members.matter''),
      (fk t (has_id ba_id (batches s) (m_batch r)), SqlForeignKey ''batch_members.batch''),
      (fk t (has_id n_id (nodes s) (m_matter r)), SqlForeignKey ''batch_members.matter'')])
    (\<lambda>_. Inr (s\<lparr>batch_members := batch_members s @ [r]\<rparr>))"

definition update_members :: "(member_row \<Rightarrow> bool) \<Rightarrow> (member_row \<Rightarrow> member_row) \<Rightarrow> db \<Rightarrow> (nat \<times> db) result" where
  "update_members p f s = rbind (check_all [
      (list_all (\<lambda>r. p r \<longrightarrow> m_last (f r) > m_last r) (batch_members s), SqlTrigger ''batch_members_advance'')])
    (\<lambda>_. Inr (hits p (batch_members s), s\<lparr>batch_members := upd_rows p f (batch_members s)\<rparr>))"

definition insert_run_row :: "tx \<Rightarrow> run_row \<Rightarrow> db \<Rightarrow> db result" where
  "insert_run_row t r s = rbind (check_all [
      (ru_birth r = ru_last r, SqlTrigger ''runs_born_by_event''),
      (run_check r, SqlCheck ''runs''),
      (no_row (\<lambda>q. ru_id q = ru_id r) (runs s), SqlUnique ''runs.id''),
      (no_row (\<lambda>q. ru_batch q = ru_batch r \<and> ru_locator q = ru_locator r) (runs s), SqlUnique ''runs.batch, runs.locator''),
      (fk t (has_id c_id (clones s) (ru_clone r)), SqlForeignKey ''runs.clone''),
      (fk t (has_id ba_id (batches s) (ru_batch r)), SqlForeignKey ''runs.batch'')])
    (\<lambda>_. Inr (s\<lparr>runs := runs s @ [r]\<rparr>))"

definition update_runs :: "(run_row \<Rightarrow> bool) \<Rightarrow> (run_row \<Rightarrow> run_row) \<Rightarrow> db \<Rightarrow> (nat \<times> db) result" where
  "update_runs p f s = rbind (check_all [
      (list_all (\<lambda>r. p r \<longrightarrow> ru_birth (f r) = ru_birth r) (runs s), SqlTrigger ''runs_immutable_birth''),
      (list_all (\<lambda>r. p r \<longrightarrow> ru_last (f r) > ru_last r) (runs s), SqlTrigger ''runs_advance''),
      (list_all (\<lambda>r. p r \<longrightarrow> run_check (f r)) (runs s), SqlCheck ''runs'')])
    (\<lambda>_. Inr (hits p (runs s), s\<lparr>runs := upd_rows p f (runs s)\<rparr>))"

definition insert_run_matter :: "tx \<Rightarrow> run_matter_row \<Rightarrow> db \<Rightarrow> db result" where
  "insert_run_matter t r s = rbind (check_all [
      (no_row (\<lambda>q. rmt_run q = rmt_run r \<and> rmt_matter q = rmt_matter r) (run_matters s), SqlUnique ''run_matters.run, run_matters.matter''),
      (no_row (\<lambda>q. rmt_run q = rmt_run r \<and> rmt_ordinal q = rmt_ordinal r) (run_matters s), SqlUnique ''run_matters.run, run_matters.ordinal''),
      (fk t (has_id ru_id (runs s) (rmt_run r)), SqlForeignKey ''run_matters.run''),
      (fk t (has_id n_id (nodes s) (rmt_matter r)), SqlForeignKey ''run_matters.matter'')])
    (\<lambda>_. Inr (s\<lparr>run_matters := run_matters s @ [r]\<rparr>))"

definition di_claim :: "dispatch_row \<Rightarrow> bool" where
  "di_claim r = (di_state r = ''open'' \<and> di_matter r \<noteq> None)"

definition insert_dispatch :: "tx \<Rightarrow> dispatch_row \<Rightarrow> db \<Rightarrow> db result" where
  "insert_dispatch t r s = rbind (check_all [
      (di_birth r = di_last r, SqlTrigger ''dispatches_born_by_event''),
      (dispatch_check r, SqlCheck ''dispatches''),
      (no_row (\<lambda>q. di_id q = di_id r) (dispatches s), SqlUnique ''dispatches.id''),
      (no_row (\<lambda>q. di_claim q \<and> di_claim r \<and> di_matter q = di_matter r) (dispatches s), SqlUnique ''dispatches.matter''),
      (fk t (has_id c_id (clones s) (di_clone r)), SqlForeignKey ''dispatches.clone''),
      (fk t (has_id w_id (worktrees s) (di_worktree r)), SqlForeignKey ''dispatches.worktree''),
      (fk t (opt_ref (has_id ru_id (runs s)) (di_run r)), SqlForeignKey ''dispatches.run''),
      (fk t (opt_ref (has_id n_id (nodes s)) (di_matter r)), SqlForeignKey ''dispatches.matter'')])
    (\<lambda>_. Inr (s\<lparr>dispatches := dispatches s @ [r]\<rparr>))"

definition update_dispatches :: "(dispatch_row \<Rightarrow> bool) \<Rightarrow> (dispatch_row \<Rightarrow> dispatch_row) \<Rightarrow> db \<Rightarrow> (nat \<times> db) result" where
  "update_dispatches p f s = rbind (check_all [
      (list_all (\<lambda>r. p r \<longrightarrow> di_birth (f r) = di_birth r) (dispatches s), SqlTrigger ''dispatches_immutable_birth''),
      (list_all (\<lambda>r. p r \<longrightarrow> di_last (f r) > di_last r) (dispatches s), SqlTrigger ''dispatches_advance''),
      (list_all (\<lambda>r. p r \<longrightarrow> dispatch_check (f r)) (dispatches s), SqlCheck ''dispatches'')])
    (\<lambda>_. Inr (hits p (dispatches s), s\<lparr>dispatches := upd_rows p f (dispatches s)\<rparr>))"

definition insert_role :: "tx \<Rightarrow> role_row \<Rightarrow> db \<Rightarrow> db result" where
  "insert_role t r s = rbind (check_all [
      (role_birth r = role_last r, SqlTrigger ''roles_born_by_event''),
      (role_check r, SqlCheck ''roles''),
      (no_row (\<lambda>q. role_id q = role_id r) (roles s), SqlUnique ''roles.id''),
      (no_row (\<lambda>q. role_state q = ''open'' \<and> role_state r = ''open'' \<and> role_dispatch q = role_dispatch r \<and> role_name q = role_name r) (roles s), SqlUnique ''roles.dispatch, roles.name''),
      (fk t (has_id c_id (clones s) (role_clone r)), SqlForeignKey ''roles.clone''),
      (fk t (has_id di_id (dispatches s) (role_dispatch r)), SqlForeignKey ''roles.dispatch'')])
    (\<lambda>_. Inr (s\<lparr>roles := roles s @ [r]\<rparr>))"

definition update_roles :: "(role_row \<Rightarrow> bool) \<Rightarrow> (role_row \<Rightarrow> role_row) \<Rightarrow> db \<Rightarrow> (nat \<times> db) result" where
  "update_roles p f s = rbind (check_all [
      (list_all (\<lambda>r. p r \<longrightarrow> role_birth (f r) = role_birth r) (roles s), SqlTrigger ''roles_immutable_birth''),
      (list_all (\<lambda>r. p r \<longrightarrow> role_last (f r) > role_last r) (roles s), SqlTrigger ''roles_advance''),
      (list_all (\<lambda>r. p r \<longrightarrow> role_check (f r)) (roles s), SqlCheck ''roles'')])
    (\<lambda>_. Inr (hits p (roles s), s\<lparr>roles := upd_rows p f (roles s)\<rparr>))"

text \<open>\<open>INSERT INTO cursors .. ON CONFLICT (clone, worktree) DO UPDATE\<close>.\<close>

definition upsert_cursor :: "tx \<Rightarrow> cursor_row \<Rightarrow> db \<Rightarrow> db result" where
  "upsert_cursor t r s =
     (let same = (\<lambda>q. cu_clone q = cu_clone r \<and> cu_worktree q = cu_worktree r)
      in rbind (check_all [
           (list_all (\<lambda>q. same q \<longrightarrow> cu_last r > cu_last q) (cursors s), SqlTrigger ''cursors_advance''),
           (fk t (has_id c_id (clones s) (cu_clone r)), SqlForeignKey ''cursors.clone''),
           (fk t (has_id w_id (worktrees s) (cu_worktree r)), SqlForeignKey ''cursors.worktree''),
           (fk t (opt_ref (has_id n_id (nodes s)) (cu_node r)), SqlForeignKey ''cursors.node'')])
         (\<lambda>_. Inr (if list_ex same (cursors s)
                then s\<lparr>cursors := upd_rows same (\<lambda>q. q\<lparr>cu_node := cu_node r, cu_last := cu_last r\<rparr>) (cursors s)\<rparr>
                else s\<lparr>cursors := cursors s @ [r]\<rparr>)))"

section \<open>How a statement succeeds\<close>

lemma one_row_Inr_iff [res]: "one_row u = Inr s' \<longleftrightarrow> u = Inr (1, s')"
  by (cases u) (auto simp: one_row_def res split: prod.splits)

text \<open>Deferring the foreign keys only lets more rows in.\<close>

lemma fk_deferD [simp]: "fk t True" "tx_defer t \<Longrightarrow> fk t b"
  by (simp_all add: fk_def)

end
