(* ===== verification/View.thy ===== *)
theory View
  imports Statements
begin

text \<open>
  The read surface of the store (\<open>internal/store/view.go\<close>, \<open>gates.go\<close>, and the
  reads of \<open>config.go\<close>). A query is a function of the database; a query that
  joins \<open>events\<close> also takes the transaction, whose log it reads. \<open>ORDER BY\<close> is
  \<open>sort_key\<close>.

  \<open>EffectiveGateRequirements\<close> walks the parent chain of a node. The schema bounds
  its depth (Matter, Stage, Step), so the model's walk has fuel 3; the lemmas of
  \<open>Schema\<close> show that the fuel never runs out.
\<close>

section \<open>Nodes\<close>

record Node =
  N_ID :: string
  N_Kind :: Scale
  N_Repo :: string
  N_Matter :: string
  N_Parent :: string
  N_Locator :: string
  N_Title :: string
  N_Lifecycle :: Lifecycle
  N_SortKey :: int
  N_ExternalRef :: string

definition scanNode :: "node_row \<Rightarrow> Node" where
  "scanNode r = \<lparr>N_ID = n_id r, N_Kind = n_kind r, N_Repo = n_repo r, N_Matter = n_matter r,
     N_Parent = coalesce (n_parent r), N_Locator = n_locator r, N_Title = n_title r,
     N_Lifecycle = n_lifecycle r, N_SortKey = n_sort_key r,
     N_ExternalRef = coalesce (n_external_ref r)\<rparr>"

lemma scanNode_simps [simp]:
  "N_ID (scanNode r) = n_id r" "N_Kind (scanNode r) = n_kind r" "N_Repo (scanNode r) = n_repo r"
  "N_Matter (scanNode r) = n_matter r" "N_Parent (scanNode r) = coalesce (n_parent r)"
  "N_Locator (scanNode r) = n_locator r" "N_Title (scanNode r) = n_title r"
  "N_Lifecycle (scanNode r) = n_lifecycle r" "N_SortKey (scanNode r) = n_sort_key r"
  "N_ExternalRef (scanNode r) = coalesce (n_external_ref r)"
  by (simp_all add: scanNode_def)

definition live_row :: "db \<Rightarrow> string \<Rightarrow> node_row option" where
  "live_row s ident = List.find (\<lambda>r. n_id r = ident \<and> n_live r) (nodes s)"

definition view_Node :: "db \<Rightarrow> string \<Rightarrow> Node result" where
  "view_Node s ident = of_option (ERefused ''no live node'') (map_option scanNode (live_row s ident))"

definition NodeByLocator :: "db \<Rightarrow> string \<Rightarrow> string \<Rightarrow> Node result" where
  "NodeByLocator s matter locator = of_option (ERefused ''addresses no live node'')
     (map_option scanNode
       (List.find (\<lambda>r. n_matter r = matter \<and> n_locator r = locator \<and> n_live r) (nodes s)))"

definition MatterByLocator :: "db \<Rightarrow> string \<Rightarrow> string \<Rightarrow> Node result" where
  "MatterByLocator s repo locator = of_option (ERefused ''addresses no live matter'')
     (map_option scanNode
       (List.find (\<lambda>r. n_repo r = repo \<and> n_kind r = ScaleMatter \<and> n_locator r = locator \<and> n_live r)
         (nodes s)))"

definition Tombstoned :: "db \<Rightarrow> string \<Rightarrow> bool result" where
  "Tombstoned s ident = of_option (ERefused ''no node has ever existed'')
     (map_option (\<lambda>r. n_tombstone r \<noteq> None) (List.find (\<lambda>r. n_id r = ident) (nodes s)))"

definition by_sibling_order :: "node_row list \<Rightarrow> node_row list" where
  "by_sibling_order rs = sort_key n_sort_key (sort_key n_birth rs)"

definition Children :: "db \<Rightarrow> string \<Rightarrow> Node list" where
  "Children s parent =
     map scanNode (by_sibling_order (filter (\<lambda>r. n_parent r = Some parent \<and> n_live r) (nodes s)))"

definition MatterNodes :: "db \<Rightarrow> string \<Rightarrow> Node list" where
  "MatterNodes s matter =
     map scanNode (by_sibling_order (filter (\<lambda>r. n_matter r = matter \<and> n_live r) (nodes s)))"

definition Matters :: "db \<Rightarrow> string \<Rightarrow> Node list" where
  "Matters s repo = map scanNode (sort_key n_birth
     (filter (\<lambda>r. n_repo r = repo \<and> n_kind r = ScaleMatter \<and> n_live r) (nodes s)))"

definition nodes_in :: "db \<Rightarrow> Lifecycle \<Rightarrow> Node list" where
  "nodes_in s l = map scanNode (sort_key n_birth (filter (\<lambda>r. n_lifecycle r = l \<and> n_live r) (nodes s)))"

definition view_InProgress :: "db \<Rightarrow> Node list" where
  "view_InProgress s = nodes_in s InProgress"

definition view_Planned :: "db \<Rightarrow> Node list" where
  "view_Planned s = nodes_in s Planned"

definition view_Done :: "db \<Rightarrow> Node list" where
  "view_Done s = nodes_in s Done"

section \<open>Sort keys and locators\<close>

definition sortKeyGap :: int where
  "sortKeyGap = 1000"

text \<open>Go's \<open>int64\<close> arithmetic wraps.\<close>

definition wrap64 :: "int \<Rightarrow> int" where
  "wrap64 n = (n + 2 ^ 63) mod 2 ^ 64 - 2 ^ 63"

definition NextSortKey :: "db \<Rightarrow> string \<Rightarrow> int" where
  "NextSortKey s parent =
     (case filter (\<lambda>r. n_parent r = Some parent \<and> n_live r) (nodes s) of
        [] \<Rightarrow> sortKeyGap
      | r # rs \<Rightarrow> wrap64 (fold max (map n_sort_key rs) (n_sort_key r) + sortKeyGap))"

definition SortKeyBetween :: "int \<Rightarrow> int \<Rightarrow> int option" where
  "SortKeyBetween before after =
     (if wrap64 (after - before) < 2 then None
      else Some (wrap64 (before + wrap64 (after - before) div 2)))"

definition NextStepLocator :: "db \<Rightarrow> string \<Rightarrow> string" where
  "NextStepLocator s matter =
     ''step-'' @ digits2 (hits (\<lambda>r. n_matter r = matter \<and> n_kind r = ScaleStep) (nodes s) + 1)"

section \<open>Edges\<close>

record Edge =
  E_ID :: string
  E_Blocked :: string
  E_Blocker :: string

definition scanEdge :: "edge_row \<Rightarrow> Edge" where
  "scanEdge r = \<lparr>E_ID = e_id r, E_Blocked = e_blocked r, E_Blocker = e_blocker r\<rparr>"

text \<open>The view \<open>edges_in_force\<close>: a live edge with both its ends live.\<close>

definition is_live :: "db \<Rightarrow> string \<Rightarrow> bool" where
  "is_live s ident = list_ex (\<lambda>r. n_id r = ident \<and> n_live r) (nodes s)"

definition edges_in_force :: "db \<Rightarrow> edge_row list" where
  "edges_in_force s =
     filter (\<lambda>e. e_tombstone e = None \<and> is_live s (e_blocked e) \<and> is_live s (e_blocker e)) (edges s)"

definition LiveEdges :: "db \<Rightarrow> Edge list" where
  "LiveEdges s = map scanEdge (sort_key e_id (edges_in_force s))"

definition BlockedBy :: "db \<Rightarrow> string \<Rightarrow> Edge list" where
  "BlockedBy s node = map scanEdge (sort_key e_id (filter (\<lambda>e. e_blocked e = node) (edges_in_force s)))"

definition EdgeBetween :: "db \<Rightarrow> string \<Rightarrow> string \<Rightarrow> Edge option" where
  "EdgeBetween s blocked blocker =
     map_option scanEdge (List.find (\<lambda>e. e_blocked e = blocked \<and> e_blocker e = blocker) (edges_in_force s))"

section \<open>Config\<close>

definition view_Config :: "db \<Rightarrow> string \<Rightarrow> string \<Rightarrow> string option" where
  "view_Config s repo key =
     map_option cf_value (List.find (\<lambda>r. cf_repo r = repo \<and> cf_key r = key) (config s))"

definition TrackerPushOff :: string where [tokens]: "TrackerPushOff = ''off''"
definition TrackerPushBoundary :: string where [tokens]: "TrackerPushBoundary = ''boundary''"
definition TrackerPushNarrated :: string where [tokens]: "TrackerPushNarrated = ''narrated''"

definition TrackerPushLevelKey :: string where [tokens]: "TrackerPushLevelKey = ''tracker.push-level''"
definition TrackerBackendKey :: string where [tokens]: "TrackerBackendKey = ''tracker.backend''"
definition TrackerBacklogPushKey :: string where [tokens]: "TrackerBacklogPushKey = ''tracker.backlog-push''"

definition ParseTrackerPushLevel :: "string \<Rightarrow> string result" where
  "ParseTrackerPushLevel v =
     (if v \<in> set [TrackerPushOff, TrackerPushBoundary, TrackerPushNarrated] then Inr v
      else Inl (ERefused ''not a tracker push level''))"

definition EffectiveTrackerPushLevel :: "db \<Rightarrow> string \<Rightarrow> string result" where
  "EffectiveTrackerPushLevel s repo =
     (case view_Config s repo TrackerPushLevelKey of
        Some v \<Rightarrow> ParseTrackerPushLevel v
      | None \<Rightarrow> (case view_Config s repo TrackerBackendKey of
          Some backend \<Rightarrow> Inr (if backend \<noteq> [] then TrackerPushBoundary else TrackerPushOff)
        | None \<Rightarrow> Inr TrackerPushOff))"

definition TrackerBacklogPushManual :: string where [tokens]: "TrackerBacklogPushManual = ''manual''"
definition TrackerBacklogPushAuto :: string where [tokens]: "TrackerBacklogPushAuto = ''auto''"

definition ParseTrackerBacklogPush :: "string \<Rightarrow> string result" where
  "ParseTrackerBacklogPush v =
     (if v \<in> set [TrackerBacklogPushManual, TrackerBacklogPushAuto] then Inr v
      else Inl (ERefused ''not a tracker backlog-push mode''))"

definition EffectiveTrackerBacklogPush :: "db \<Rightarrow> string \<Rightarrow> string result" where
  "EffectiveTrackerBacklogPush s repo =
     (case view_Config s repo TrackerBacklogPushKey of
        Some v \<Rightarrow> ParseTrackerBacklogPush v
      | None \<Rightarrow> Inr TrackerBacklogPushManual)"

section \<open>Gates\<close>

definition GateRequirementOpen :: string where [tokens]: "GateRequirementOpen = ''open''"
definition GateRequirementClosed :: string where [tokens]: "GateRequirementClosed = ''closed''"
definition GateRequirementDismissed :: string where [tokens]: "GateRequirementDismissed = ''dismissed''"
definition GateRequirementExempt :: string where [tokens]: "GateRequirementExempt = ''exempt''"

definition GateOwn :: string where [tokens]: "GateOwn = ''own''"
definition GateEnclosing :: string where [tokens]: "GateEnclosing = ''enclosing''"

definition GateDeclarations :: "db \<Rightarrow> string \<Rightarrow> declaration_row list" where
  "GateDeclarations s repo = sort_key d_gate (filter (\<lambda>d. d_repo d = repo) (gate_declarations s))"

definition GateExempt :: "db \<Rightarrow> string \<Rightarrow> string \<Rightarrow> string \<Rightarrow> bool" where
  "GateExempt s repo node gate =
     list_ex (\<lambda>x. x_repo x = repo \<and> x_node x = node \<and> x_gate x = gate) (gate_exemptions s)"

definition gate_row_exists :: "db \<Rightarrow> string \<Rightarrow> string \<Rightarrow> bool" where
  "gate_row_exists s node gate = list_ex (\<lambda>g. g_node g = node \<and> g_gate g = gate) (gate_state s)"

definition GateSatisfied :: "db \<Rightarrow> string \<Rightarrow> string \<Rightarrow> string \<Rightarrow> bool" where
  "GateSatisfied s repo node gate = (gate_row_exists s node gate \<or> GateExempt s repo node gate)"

record gate_metadata =
  gm_scale :: Scale
  gm_state :: string
  gm_actor :: Actor
  gm_at :: int
  gm_reason :: string

text \<open>One row of \<open>gate_state s JOIN events e ON e.id = s.last_event\<close>.\<close>

definition gate_metadata_of :: "gate_row \<Rightarrow> event \<Rightarrow> gate_metadata result" where
  "gate_metadata_of g e =
     (if ev_Type e = TypeGateClosed then
        Inr \<lparr>gm_scale = g_scale g, gm_state = GateRequirementClosed, gm_actor = ev_Actor e,
             gm_at = ev_OccurredAt e, gm_reason = []\<rparr>
      else if ev_Type e = TypeGateDismissed then
        rbind (decodeStrict_GateDismissed (ev_Payload e)) (\<lambda>p.
        if gd_Gate p \<noteq> g_gate g \<or> gd_Scale p \<noteq> g_scale g
        then Inl (ERefused ''inconsistent dismissal metadata'')
        else Inr \<lparr>gm_scale = g_scale g, gm_state = GateRequirementDismissed, gm_actor = ev_Actor e,
                  gm_at = ev_OccurredAt e, gm_reason = gd_Reason p\<rparr>)
      else Inl (ERefused ''points at non-gate event''))"

primrec gate_metadata_loop :: "event list \<Rightarrow> gate_row list \<Rightarrow> (string \<times> gate_metadata) list result" where
  "gate_metadata_loop evs [] = Inr []"
| "gate_metadata_loop evs (g # gs) =
     (case List.find (\<lambda>e. ev_ID e = g_last g) evs of
        None \<Rightarrow> gate_metadata_loop evs gs
      | Some e \<Rightarrow> rbind (gate_metadata_of g e) (\<lambda>m.
                  rbind (gate_metadata_loop evs gs) (\<lambda>ms. Inr ((g_gate g, m) # ms))))"

definition closedGateMetadata :: "tx \<Rightarrow> db \<Rightarrow> string \<Rightarrow> (string \<times> gate_metadata) list result" where
  "closedGateMetadata t s node =
     gate_metadata_loop (tx_log t) (filter (\<lambda>g. g_node g = node) (gate_state s))"

record GateRequirement =
  gr_Gate :: string
  gr_Scale :: Scale
  gr_Owner :: Actor
  gr_Subject :: Node
  gr_Relationship :: string
  gr_State :: string
  gr_ClosedBy :: Actor
  gr_ClosedAt :: "int option"
  gr_DismissedBy :: Actor
  gr_DismissedAt :: "int option"
  gr_DismissalReason :: string

definition gate_requirement ::
  "db \<Rightarrow> Node \<Rightarrow> Node \<Rightarrow> (string \<times> gate_metadata) list \<Rightarrow> declaration_row \<Rightarrow> GateRequirement" where
  "gate_requirement s target current closed d =
     (let base = \<lparr>gr_Gate = d_gate d, gr_Scale = d_scale d,
            gr_Owner = (case GateOwner (d_gate d) of Some n \<Rightarrow> RoleActor n | None \<Rightarrow> ActorHuman),
            gr_Subject = current,
            gr_Relationship = (if N_ID current = N_ID target then GateOwn else GateEnclosing),
            gr_State = GateRequirementOpen, gr_ClosedBy = [], gr_ClosedAt = None,
            gr_DismissedBy = [], gr_DismissedAt = None, gr_DismissalReason = []\<rparr>
      in case map_of closed (d_gate d) of
           Some m \<Rightarrow>
             (if gm_state m = GateRequirementDismissed
              then base\<lparr>gr_State := gm_state m, gr_DismissedBy := gm_actor m,
                        gr_DismissedAt := Some (gm_at m), gr_DismissalReason := gm_reason m\<rparr>
              else base\<lparr>gr_State := gm_state m, gr_ClosedBy := gm_actor m, gr_ClosedAt := Some (gm_at m)\<rparr>)
         | None \<Rightarrow>
             (if GateExempt s (N_Repo target) (N_ID current) (d_gate d)
              then base\<lparr>gr_State := GateRequirementExempt\<rparr> else base))"

text \<open>The loop over the parent chain, with fuel for the depth of the tree.\<close>

primrec gate_walk :: "tx \<Rightarrow> db \<Rightarrow> Node \<Rightarrow> nat \<Rightarrow> Node \<Rightarrow> GateRequirement list result" where
  "gate_walk t s target 0 current = Inl (ERefused ''the parent chain does not end'')"
| "gate_walk t s target (Suc n) current =
     rbind (closedGateMetadata t s (N_ID current)) (\<lambda>closed.
     let here = map (gate_requirement s target current closed)
                  (filter (\<lambda>d. d_scale d = N_Kind current) (GateDeclarations s (N_Repo target)))
     in if N_Parent current = [] then Inr here
        else rbind (view_Node s (N_Parent current)) (\<lambda>parent.
             rbind (gate_walk t s target n parent) (\<lambda>rest. Inr (here @ rest))))"

definition EffectiveGateRequirements :: "tx \<Rightarrow> db \<Rightarrow> Node \<Rightarrow> GateRequirement list result" where
  "EffectiveGateRequirements t s target = gate_walk t s target 3 target"

record CompletionOverlay =
  ov_FinishingNode :: string
  ov_ClosingNode :: string
  ov_ClosingGate :: string

definition no_overlay :: CompletionOverlay where
  "no_overlay = \<lparr>ov_FinishingNode = [], ov_ClosingNode = [], ov_ClosingGate = []\<rparr>"

record NodeCompletion =
  nc_LocallyComplete :: bool
  nc_Sealed :: bool
  nc_Requirements :: "GateRequirement list"
  nc_Pending :: "GateRequirement list"

definition requirement_satisfied :: "CompletionOverlay \<Rightarrow> GateRequirement \<Rightarrow> bool" where
  "requirement_satisfied ov r =
     (gr_State r \<in> set [GateRequirementClosed, GateRequirementDismissed, GateRequirementExempt]
    \<or> (ov_ClosingNode ov \<noteq> [] \<and> ov_ClosingGate ov \<noteq> []
       \<and> N_ID (gr_Subject r) = ov_ClosingNode ov \<and> gr_Gate r = ov_ClosingGate ov))"

text \<open>The loop over the requirements; the state is \<open>ownComplete\<close>, \<open>sealed\<close>, \<open>pending\<close>.\<close>

primrec completion_loop ::
  "CompletionOverlay \<Rightarrow> bool \<Rightarrow> GateRequirement list \<Rightarrow> bool \<times> bool \<times> GateRequirement list
     \<Rightarrow> bool \<times> bool \<times> GateRequirement list" where
  "completion_loop ov fin [] st = st"
| "completion_loop ov fin (r # rs) st =
     (case st of (own, sealed, pending) \<Rightarrow>
       let sat = requirement_satisfied ov r
       in completion_loop ov fin rs
            (own \<and> \<not> (gr_Relationship r = GateOwn \<and> \<not> sat),
             sealed \<and> sat,
             if \<not> sat \<and> fin then pending @ [r] else pending))"

definition NodeCompletionWithOverlay :: "tx \<Rightarrow> db \<Rightarrow> Node \<Rightarrow> CompletionOverlay \<Rightarrow> NodeCompletion result" where
  "NodeCompletionWithOverlay t s target ov =
     rbind (EffectiveGateRequirements t s target) (\<lambda>reqs.
     let fin = (N_Lifecycle target = Done \<or> ov_FinishingNode ov = N_ID target);
         (own, sealed, pending) = completion_loop ov fin reqs (fin, fin, [])
     in Inr \<lparr>nc_LocallyComplete = own, nc_Sealed = (sealed \<and> own), nc_Requirements = reqs,
             nc_Pending = pending\<rparr>)"

definition view_NodeCompletion :: "tx \<Rightarrow> db \<Rightarrow> Node \<Rightarrow> NodeCompletion result" where
  "view_NodeCompletion t s target = NodeCompletionWithOverlay t s target no_overlay"

section \<open>Tracker reads\<close>

definition TrackerReferences :: "db \<Rightarrow> string \<Rightarrow> string list" where
  "TrackerReferences s matter = map t_ref (sort_key t_birth (sort_key t_ref
     (filter (\<lambda>r. t_matter r = matter \<and> t_removed r = None) (tracker_references s))))"

primrec aggregate_loop :: "tx \<Rightarrow> db \<Rightarrow> Node list \<Rightarrow> nat \<Rightarrow> string result" where
  "aggregate_loop t s [] sealedCount =
     Inr (if sealedCount > 0 then TrackerCompleted else TrackerCanceled)"
| "aggregate_loop t s (m # ms) sealedCount =
     (if N_Lifecycle m = Canceled then aggregate_loop t s ms sealedCount
      else rbind (view_NodeCompletion t s m) (\<lambda>c.
           if nc_Sealed c then aggregate_loop t s ms (Suc sealedCount) else Inr TrackerActive))"

text \<open>\<open>TrackerAggregate\<close>: \<open>None\<close> is the source's \<open>false\<close>, an empty string its empty
  disposition of an all-Planned reference.\<close>

definition bound_matters :: "db \<Rightarrow> string \<Rightarrow> Node list" where
  "bound_matters s ref = map scanNode (sort_key n_birth
     (filter (\<lambda>r. list_ex (\<lambda>q. t_matter q = n_id r \<and> t_ref q = ref \<and> t_removed q = None) (tracker_references s)
        \<and> n_kind r = ScaleMatter \<and> n_live r) (nodes s)))"

definition TrackerAggregate :: "tx \<Rightarrow> db \<Rightarrow> string \<Rightarrow> string option result" where
  "TrackerAggregate t s ref =
     (let ms = bound_matters s ref
      in if ms = [] then Inr None
         else if list_all (\<lambda>m. N_Lifecycle m = Planned) ms then Inr (Some [])
         else rbind (aggregate_loop t s ms 0) (\<lambda>d. Inr (Some d)))"

definition FindTrackerPushRecord :: "db \<Rightarrow> string \<Rightarrow> push_row option" where
  "FindTrackerPushRecord s ref = List.find (\<lambda>r. p_ref r = ref) (tracker_push_records s)"

primrec archived_loop :: "tx \<Rightarrow> db \<Rightarrow> Node list \<Rightarrow> Node list result" where
  "archived_loop t s [] = Inr []"
| "archived_loop t s (m # ms) =
     rbind (view_NodeCompletion t s m) (\<lambda>c.
     rbind (archived_loop t s ms) (\<lambda>rest. Inr (if nc_Sealed c then m # rest else rest)))"

definition ArchivedMatters :: "tx \<Rightarrow> db \<Rightarrow> string \<Rightarrow> Node list result" where
  "ArchivedMatters t s repo = archived_loop t s (Matters s repo)"

text \<open>\<open>sealedNodesAtScale\<close> of \<open>config.go\<close>.\<close>

definition sealedNodesAtScale :: "tx \<Rightarrow> db \<Rightarrow> string \<Rightarrow> Scale \<Rightarrow> string list result" where
  "sealedNodesAtScale t s repo scale =
     rbind (archived_loop t s (map scanNode (sort_key n_id
       (filter (\<lambda>r. n_repo r = repo \<and> n_kind r = scale \<and> n_lifecycle r = Done \<and> n_live r) (nodes s)))))
       (\<lambda>ns. Inr (map N_ID ns))"

section \<open>Execution reads\<close>

definition Cursor :: "db \<Rightarrow> string \<Rightarrow> string \<Rightarrow> string option" where
  "Cursor s clone worktree =
     (case List.find (\<lambda>r. cu_clone r = clone \<and> cu_worktree r = worktree) (cursors s) of
        None \<Rightarrow> None | Some r \<Rightarrow> cu_node r)"

definition view_Batch :: "db \<Rightarrow> string \<Rightarrow> batch_row result" where
  "view_Batch s ident = of_option (ERefused ''no Batch'') (List.find (\<lambda>r. ba_id r = ident) (batches s))"

definition BatchNameExists :: "db \<Rightarrow> string \<Rightarrow> bool" where
  "BatchNameExists s name = (hits (\<lambda>r. ba_name r = Some name) (batches s) = 1)"

definition BatchByName :: "db \<Rightarrow> string \<Rightarrow> batch_row result" where
  "BatchByName s name = of_option (ERefused ''no live Batch named'')
     (List.find (\<lambda>r. ba_name r = Some name \<and> ba_state r = ''live'') (batches s))"

definition AnonymousBatchForMatter :: "db \<Rightarrow> string \<Rightarrow> batch_row option" where
  "AnonymousBatchForMatter s matter = List.find (\<lambda>r. ba_matter r = Some matter) (batches s)"

definition BatchMember :: "db \<Rightarrow> string \<Rightarrow> string \<Rightarrow> bool" where
  "BatchMember s batch matter =
     (hits (\<lambda>r. m_batch r = batch \<and> m_matter r = matter \<and> m_left r = None) (batch_members s) = 1)"

definition BatchMembers :: "db \<Rightarrow> string \<Rightarrow> string list" where
  "BatchMembers s batch =
     sort (map m_matter (filter (\<lambda>r. m_batch r = batch \<and> m_left r = None) (batch_members s)))"

definition view_Run :: "db \<Rightarrow> string \<Rightarrow> run_row result" where
  "view_Run s ident = of_option (ERefused ''no Run'') (List.find (\<lambda>r. ru_id r = ident) (runs s))"

definition RunMatters :: "db \<Rightarrow> string \<Rightarrow> string list" where
  "RunMatters s ident =
     map rmt_matter (sort_key rmt_ordinal (filter (\<lambda>r. rmt_run r = ident) (run_matters s)))"

definition OpenDispatchesForRun :: "db \<Rightarrow> string \<Rightarrow> dispatch_row list" where
  "OpenDispatchesForRun s run =
     sort_key di_birth (filter (\<lambda>r. di_run r = Some run \<and> di_state r = ''open'') (dispatches s))"

definition view_OpenDispatch :: "db \<Rightarrow> string \<Rightarrow> dispatch_row option" where
  "view_OpenDispatch s worktree =
     List.find (\<lambda>r. di_worktree r = worktree \<and> di_state r = ''open'' \<and> di_run r = None) (dispatches s)"

definition RolesForDispatch :: "db \<Rightarrow> string \<Rightarrow> role_row list" where
  "RolesForDispatch s dispatch = sort_key role_birth (filter (\<lambda>r. role_dispatch r = dispatch) (roles s))"

definition OpenRole :: "db \<Rightarrow> string \<Rightarrow> RoleName \<Rightarrow> role_row option" where
  "OpenRole s dispatch name =
     List.find (\<lambda>r. role_dispatch r = dispatch \<and> role_name r = name \<and> role_state r = ''open'') (roles s)"

section \<open>Backlog and outbox reads\<close>

definition Backlog :: "db \<Rightarrow> string \<Rightarrow> backlog_row list" where
  "Backlog s repo = sort_key b_id (filter (\<lambda>r. b_repo r = repo) (backlog_entries s))"

definition view_BacklogEntry :: "db \<Rightarrow> string \<Rightarrow> string \<Rightarrow> backlog_row option" where
  "view_BacklogEntry s repo ident =
     List.find (\<lambda>r. b_repo r = repo \<and> b_id r = ident) (backlog_entries s)"

text \<open>The left join's \<open>o.state <> 'flushed'\<close> is NULL, hence false, where there is no
  outbox row.\<close>

definition ActiveBacklog :: "db \<Rightarrow> string \<Rightarrow> backlog_row list" where
  "ActiveBacklog s repo = sort_key b_id (filter (\<lambda>r. b_repo r = repo \<and>
     (b_state r = ''entered'' \<or> (b_state r = ''delegated''
        \<and> list_ex (\<lambda>q. b_outbox r = Some (o_id q) \<and> o_state q \<noteq> ''flushed'') (outbox_entries s))))
     (backlog_entries s))"

definition Outbox :: "db \<Rightarrow> string \<Rightarrow> outbox_row list" where
  "Outbox s repo = sort_key o_birth (filter (\<lambda>r. o_repo r = repo) (outbox_entries s))"

definition view_OutboxEntry :: "db \<Rightarrow> string \<Rightarrow> string \<Rightarrow> outbox_row result" where
  "view_OutboxEntry s repo ident = of_option (ERefused ''no outbox entry'')
     (List.find (\<lambda>r. o_repo r = repo \<and> o_id r = ident) (outbox_entries s))"

end
