(* ===== verification/ProjectNodes.thy ===== *)
theory ProjectNodes
  imports View
begin

text \<open>
  The projection rules for nodes, content, edges, gates and config
  (\<open>internal/store/project.go\<close>, \<open>edges.go\<close>, \<open>content.go\<close>). Each rule decodes the
  payload of one event, checks what the source checks in its order, and runs
  its statements; any refusal is the error of the rule, and the caller rolls the
  transaction back.
\<close>

section \<open>Nodes\<close>

definition matterOf :: "db \<Rightarrow> Scale \<Rightarrow> string \<Rightarrow> string \<Rightarrow> string result" where
  "matterOf s scale ident parent =
     (if scale = ScaleMatter then
        (if parent \<noteq> [] then Inl (ERefused ''a Matter has no parent'') else Inr ident)
      else if parent = [] then Inl (ERefused ''needs a parent'')
      else case List.find (\<lambda>r. n_id r = parent) (nodes s) of
          None \<Rightarrow> Inl (ERefused ''names parent which is not a node'')
        | Some r \<Rightarrow> if \<not> n_live r then Inl (ERefused ''names parent which was removed'')
                    else Inr (n_matter r))"

definition insertNode :: "tx \<Rightarrow> event \<Rightarrow> Scale \<Rightarrow> db \<Rightarrow> db result" where
  "insertNode t ev scale s =
     rbind (decode_NodeBirth (ev_Payload ev)) (\<lambda>p.
     rbind (matterOf s scale (ev_Subject ev) (nb_Parent p)) (\<lambda>matter.
     insert_nodes t \<lparr>n_id = ev_Subject ev, n_kind = scale, n_repo = ev_Repo ev, n_matter = matter,
       n_parent = nullable (nb_Parent p), n_locator = nb_Locator p, n_title = nb_Title p,
       n_lifecycle = Planned, n_sort_key = nb_SortKey p, n_external_ref = None,
       n_birth = ev_ID ev, n_last = ev_ID ev, n_tombstone = None\<rparr> s))"

definition applyTransition :: "event \<Rightarrow> db \<Rightarrow> db result" where
  "applyTransition ev s =
     rbind (decode_Transition (ev_Payload ev)) (\<lambda>p.
     if tr_From p = [] \<or> tr_To p = [] then Inl (ERefused ''must record both ends of the transition'')
     else one_row (update_nodes
       (\<lambda>r. n_id r = ev_Subject ev \<and> n_lifecycle r = tr_From p \<and> n_live r)
       (\<lambda>r. r\<lparr>n_lifecycle := tr_To p, n_last := ev_ID ev\<rparr>) s))"

definition reorder_one :: "event \<Rightarrow> nat \<times> string \<Rightarrow> db \<Rightarrow> db result" where
  "reorder_one ev ic s =
     one_row (update_nodes
       (\<lambda>r. n_id r = snd ic \<and> n_parent r = Some (ev_Subject ev) \<and> n_kind r = ScaleStep \<and> n_live r)
       (\<lambda>r. r\<lparr>n_sort_key := wrap64 (int (fst ic + 1) * sortKeyGap), n_last := ev_ID ev\<rparr>) s)"

definition applyReorder :: "event \<Rightarrow> db \<Rightarrow> db result" where
  "applyReorder ev s =
     rbind (decode_Reordered (ev_Payload ev)) (\<lambda>p.
     if ro_Order p = [] then Inl (ERefused ''names no order'')
     else for_each (reorder_one ev) (enumerate 0 (ro_Order p)) s)"

definition tombstone_node :: "string \<Rightarrow> event \<Rightarrow> db \<Rightarrow> db result" where
  "tombstone_node ident ev s =
     one_row (update_nodes (\<lambda>r. n_id r = ident \<and> n_live r)
       (\<lambda>r. r\<lparr>n_tombstone := Some (ev_ID ev), n_last := ev_ID ev\<rparr>) s)"

definition applyReplace :: "tx \<Rightarrow> event \<Rightarrow> db \<Rightarrow> db result" where
  "applyReplace t ev s =
     rbind (decode_Replaced (ev_Payload ev)) (\<lambda>p.
     if length (rp_Replacement p) \<noteq> IDLen then Inl (ERefused ''names replacement which is not an identity'')
     else rbind (of_option (ERefused ''is not a live node'') (live_row s (ev_Subject ev))) (\<lambda>old.
     if n_kind old \<noteq> ScaleStep then Inl (ERefused ''replacement is step-scoped'')
     else rbind (tombstone_node (ev_Subject ev) ev s) (\<lambda>s1.
     insert_nodes t \<lparr>n_id = rp_Replacement p, n_kind = ScaleStep, n_repo = n_repo old, n_matter = n_matter old,
       n_parent = nullable (coalesce (n_parent old)), n_locator = rp_Locator p, n_title = rp_Title p,
       n_lifecycle = Planned, n_sort_key = n_sort_key old, n_external_ref = None,
       n_birth = ev_ID ev, n_last = ev_ID ev, n_tombstone = None\<rparr> s1)))"

definition tombstoneNode :: "event \<Rightarrow> db \<Rightarrow> db result" where
  "tombstoneNode ev s =
     rbind (decode_Removed (ev_Payload ev)) (\<lambda>p. tombstone_node (ev_Subject ev) ev s)"

definition bindReference :: "event \<Rightarrow> db \<Rightarrow> db result" where
  "bindReference ev s =
     rbind (decode_ReferenceBound (ev_Payload ev)) (\<lambda>p.
     one_row (update_nodes (\<lambda>r. n_id r = ev_Subject ev \<and> n_live r)
       (\<lambda>r. r\<lparr>n_external_ref := Some (rb_Ref p), n_last := ev_ID ev\<rparr>) s))"

section \<open>Content\<close>

definition contentSubjectExists :: "db \<Rightarrow> event \<Rightarrow> ContentKind \<Rightarrow> unit result" where
  "contentSubjectExists s ev kind =
     (if has_id n_id (nodes s) (ev_Subject ev) then Inr ()
      else if \<not> AppendOnlyKind kind then Inl (ERefused ''content is written on nodes only'')
      else if has_id b_id (backlog_entries s) (ev_Subject ev) then Inr ()
      else Inl (ERefused ''neither a node nor a backlog entry''))"

definition insertContent :: "event \<Rightarrow> db \<Rightarrow> db result" where
  "insertContent ev s =
     rbind (decode_ContentWritten (ev_Payload ev)) (\<lambda>p.
     if length (cw_Content p) \<noteq> IDLen then Inl (ERefused ''names content which is not an identity'')
     else if (cw_Bytes p = None) = (cw_BlobRef p = []) then Inl (ERefused ''either its bytes or a blob reference'')
     else if AppendOnlyKind (cw_Kind p) \<noteq> (ev_Type ev = TypeContentAppended)
       then Inl (ERefused ''kind does not belong on this event'')
     else case cw_Bytes p of
        Some bs \<Rightarrow>
          (if int (length bs) \<noteq> cw_ByteLen p then Inl (ERefused ''byte length mismatch'')
           else if hex_encode (sha256 bs) \<noteq> cw_SHA256 p then Inl (ERefused ''digest mismatch'')
           else rbind (contentSubjectExists s ev (cw_Kind p)) (\<lambda>_.
             insert_content \<lparr>ct_id = cw_Content p, ct_node = ev_Subject ev, ct_kind = cw_Kind p,
               ct_bytes = Some bs, ct_blob_ref = nullable (cw_BlobRef p), ct_byte_len = cw_ByteLen p,
               ct_sha256 = cw_SHA256 p, ct_birth = ev_ID ev, ct_last = ev_ID ev, ct_tombstone = None\<rparr> s))
      | None \<Rightarrow>
           rbind (contentSubjectExists s ev (cw_Kind p)) (\<lambda>_.
             insert_content \<lparr>ct_id = cw_Content p, ct_node = ev_Subject ev, ct_kind = cw_Kind p,
               ct_bytes = None, ct_blob_ref = nullable (cw_BlobRef p), ct_byte_len = cw_ByteLen p,
               ct_sha256 = cw_SHA256 p, ct_birth = ev_ID ev, ct_last = ev_ID ev, ct_tombstone = None\<rparr> s))"

section \<open>Edges\<close>

definition insertEdge :: "tx \<Rightarrow> event \<Rightarrow> db \<Rightarrow> db result" where
  "insertEdge t ev s =
     rbind (decode_DependencyChange (ev_Payload ev)) (\<lambda>p.
     if length (dc_Edge p) \<noteq> IDLen then Inl (ERefused ''names edge which is not an identity'')
     else insert_edges t \<lparr>e_id = dc_Edge p, e_blocked = ev_Subject ev, e_blocker = dc_Blocker p,
       e_birth = ev_ID ev, e_last = ev_ID ev, e_tombstone = None\<rparr> s)"

definition tombstone_edge :: "string \<Rightarrow> event \<Rightarrow> db \<Rightarrow> db result" where
  "tombstone_edge ident ev s =
     one_row (update_edges (\<lambda>r. e_id r = ident \<and> e_tombstone r = None)
       (\<lambda>r. r\<lparr>e_tombstone := Some (ev_ID ev), e_last := ev_ID ev\<rparr>) s)"

definition tombstoneEdge :: "event \<Rightarrow> db \<Rightarrow> db result" where
  "tombstoneEdge ev s =
     rbind (decode_DependencyChange (ev_Payload ev)) (\<lambda>p.
     rbind (of_option (ERefused ''which is not an edge'') (List.find (\<lambda>r. e_id r = dc_Edge p) (edges s))) (\<lambda>e.
     if e_blocked e \<noteq> ev_Subject ev \<or> e_blocker e \<noteq> dc_Blocker p
     then Inl (ERefused ''the edge is of another pair'')
     else tombstone_edge (dc_Edge p) ev s))"

section \<open>Gates\<close>

definition closeGate :: "tx \<Rightarrow> event \<Rightarrow> db \<Rightarrow> db result" where
  "closeGate t ev s =
     rbind (decode_GateClosed (ev_Payload ev)) (\<lambda>p.
     if gc_Gate p = [] \<or> gc_Scale p = [] then Inl (ERefused ''must name a gate and a scale'')
     else rbind (of_option (ERefused ''names no node as its subject'')
         (List.find (\<lambda>r. n_id r = ev_Subject ev) (nodes s))) (\<lambda>n.
     if gc_Scale p \<noteq> n_kind n then Inl (ERefused ''a gate closes at the scale of its subject'')
     else insert_gate_state t \<lparr>g_node = ev_Subject ev, g_gate = gc_Gate p, g_scale = gc_Scale p,
       g_closed_at = ev_OccurredAt ev, g_last = ev_ID ev\<rparr> s))"

definition dismissalActorAllowed :: "Actor \<Rightarrow> string \<Rightarrow> bool" where
  "dismissalActorAllowed actor gate =
     (if actor = ActorHuman then True
      else case GateOwner gate of Some owner \<Rightarrow> actor = RoleActor owner | None \<Rightarrow> False)"

text \<open>\<open>SELECT scale FROM gate_declarations WHERE repo=? AND gate=?\<close>.\<close>

definition declared_scale :: "db \<Rightarrow> string \<Rightarrow> string \<Rightarrow> Scale option" where
  "declared_scale s repo gate =
     map_option d_scale (List.find (\<lambda>d. d_repo d = repo \<and> d_gate d = gate) (gate_declarations s))"

text \<open>\<open>SELECT e.type FROM gate_state s JOIN events e ON e.id=s.last_event WHERE ..\<close> finds a
  row.\<close>

definition satisfied_by_event :: "tx \<Rightarrow> db \<Rightarrow> string \<Rightarrow> string \<Rightarrow> bool" where
  "satisfied_by_event t s node gate =
     list_ex (\<lambda>g. g_node g = node \<and> g_gate g = gate \<and> list_ex (\<lambda>e. ev_ID e = g_last g) (tx_log t))
       (gate_state s)"

definition dismissGate :: "tx \<Rightarrow> event \<Rightarrow> db \<Rightarrow> db result" where
  "dismissGate t ev s =
     rbind (decodeStrict_GateDismissed (ev_Payload ev)) (\<lambda>p.
     if gd_Gate p = [] \<or> gd_Scale p = [] then Inl (ERefused ''must name a gate and a scale'')
     else if \<not> scale_check (gd_Scale p) then Inl (ERefused ''names invalid scale'')
     else if blank (gd_Reason p) then Inl (ERefused ''must carry a non-empty reason'')
     else if \<not> dismissalActorAllowed (ev_Actor ev) (gd_Gate p)
       then Inl (ERefused ''not authorized to dismiss gate'')
     else rbind (of_option (ERefused ''names no node as its subject'')
         (List.find (\<lambda>r. n_id r = ev_Subject ev) (nodes s))) (\<lambda>n.
     if \<not> n_live n then Inl (ERefused ''names a removed node'')
     else if n_lifecycle n \<noteq> Done then Inl (ERefused ''requires a Done node'')
     else if n_kind n \<noteq> gd_Scale p then Inl (ERefused ''dismisses at another scale than its subject'')
     else if ev_Repo ev \<noteq> n_repo n then Inl (ERefused ''targets another Repo'')
     else rbind (of_option (ERefused ''gate is not declared'') (declared_scale s (n_repo n) (gd_Gate p))) (\<lambda>sc.
     if sc \<noteq> gd_Scale p then Inl (ERefused ''the declared gate is bound to another scale'')
     else if satisfied_by_event t s (ev_Subject ev) (gd_Gate p) then Inl (ERefused ''already satisfied'')
     else if GateExempt s (n_repo n) (ev_Subject ev) (gd_Gate p) then Inl (ERefused ''already satisfied by an exemption'')
     else insert_gate_state t \<lparr>g_node = ev_Subject ev, g_gate = gd_Gate p, g_scale = gd_Scale p,
       g_closed_at = ev_OccurredAt ev, g_last = ev_ID ev\<rparr> s)))"

definition requireExemptNode :: "db \<Rightarrow> event \<Rightarrow> string \<Rightarrow> Scale \<Rightarrow> unit result" where
  "requireExemptNode s ev node scale =
     (if \<not> IsIdentityShaped node then Inl (ERefused ''exempt is not an identity'')
      else rbind (of_option (ERefused ''exempts which is not a node'')
         (List.find (\<lambda>r. n_id r = node) (nodes s))) (\<lambda>n.
      if n_repo n \<noteq> ev_Repo ev then Inl (ERefused ''exempts a node of another Repo'')
      else if \<not> n_live n then Inl (ERefused ''exempts a removed node'')
      else if n_kind n \<noteq> scale then Inl (ERefused ''exempts a node of another scale'')
      else Inr ()))"

definition exempt_one :: "tx \<Rightarrow> event \<Rightarrow> string \<Rightarrow> Scale \<Rightarrow> string \<Rightarrow> db \<Rightarrow> db result" where
  "exempt_one t ev gate scale node s =
     rbind (requireExemptNode s ev node scale) (\<lambda>_.
     insert_gate_exemptions t \<lparr>x_repo = ev_Repo ev, x_gate = gate, x_node = node\<rparr> s)"

definition declareGateProjection :: "tx \<Rightarrow> event \<Rightarrow> db \<Rightarrow> db result" where
  "declareGateProjection t ev s =
     rbind (decodeStrict_GateDeclared (ev_Payload ev)) (\<lambda>p.
     if gl_Gate p = [] then Inl (ERefused ''must name a gate'')
     else if \<not> scale_check (gl_Scale p) then Inl (ERefused ''not a scale a gate can bind to'')
     else if ev_Subject ev \<noteq> ev_Repo ev then Inl (ERefused ''a gate declaration keys at its Repo'')
     else if declared_scale s (ev_Repo ev) (gl_Gate p) \<noteq> None then Inl (ERefused ''re-declares gate'')
     else rbind (insert_gate_declarations t \<lparr>d_repo = ev_Repo ev, d_gate = gl_Gate p, d_scale = gl_Scale p\<rparr> s) (\<lambda>s1.
     for_each (exempt_one t ev (gl_Gate p) (gl_Scale p)) (gl_Exempt p) s1))"

definition repairGateExemptionProjection :: "tx \<Rightarrow> event \<Rightarrow> db \<Rightarrow> db result" where
  "repairGateExemptionProjection t ev s =
     rbind (decodeStrict_GateExemptionRepaired (ev_Payload ev)) (\<lambda>p.
     if ge_Gate p = [] then Inl (ERefused ''must name a gate'')
     else rbind (of_option (ERefused ''gate is not declared'') (declared_scale s (ev_Repo ev) (ge_Gate p))) (\<lambda>sc.
     rbind (requireExemptNode s ev (ev_Subject ev) sc) (\<lambda>_.
     let x = \<lparr>x_repo = ev_Repo ev, x_gate = ge_Gate p, x_node = ev_Subject ev\<rparr>
     in if list_ex (\<lambda>q. q = x) (gate_exemptions s) then Inr s else insert_gate_exemptions t x s)))"

definition setConfigProjection :: "tx \<Rightarrow> event \<Rightarrow> db \<Rightarrow> db result" where
  "setConfigProjection t ev s =
     rbind (decodeStrict_ConfigSet (ev_Payload ev)) (\<lambda>p.
     if cs_Key p = [] then Inl (ERefused ''must name a config key'')
     else if ev_Subject ev \<noteq> ev_Repo ev then Inl (ERefused ''config keys at its Repo'')
     else one_row (upsert_config t \<lparr>cf_repo = ev_Repo ev, cf_key = cs_Key p, cf_value = cs_Value p\<rparr> s))"

end
