(* ===== verification/ProjectTracker.thy ===== *)
theory ProjectTracker
  imports ProjectNodes
begin

text \<open>
  The projection rules for the backlog, the tracker references, the outbox and
  the push records (\<open>internal/store/project.go\<close>). A tracker candidate is a
  projection of the domain event that made it relevant: its idempotency key is
  built from the event and its identity is the first half of the key's SHA-256.
\<close>

section \<open>Backlog\<close>

definition insertBacklogEntry :: "tx \<Rightarrow> event \<Rightarrow> db \<Rightarrow> db result" where
  "insertBacklogEntry t ev s =
     rbind (decode_BacklogEntered (ev_Payload ev)) (\<lambda>p.
     insert_backlog t \<lparr>b_id = ev_Subject ev, b_repo = ev_Repo ev, b_provenance = be_Provenance p,
       b_state = ''entered'', b_title = be_Title p, b_detail = be_Detail p,
       b_origin_node = nullable (be_OriginNode p), b_matter = None, b_outbox = None,
       b_decline_reason = [], b_birth = ev_ID ev, b_last = ev_ID ev\<rparr> s)"

definition planBacklogEntry :: "tx \<Rightarrow> event \<Rightarrow> db \<Rightarrow> db result" where
  "planBacklogEntry t ev s =
     rbind (decode_BacklogPlanned (ev_Payload ev)) (\<lambda>p.
     one_row (update_backlog t (\<lambda>r. b_id r = ev_Subject ev \<and> b_state r = ''entered'')
       (\<lambda>r. r\<lparr>b_state := ''planned'', b_matter := Some (bp_Matter p), b_last := ev_ID ev\<rparr>) s))"

definition declineBacklogEntry :: "tx \<Rightarrow> event \<Rightarrow> db \<Rightarrow> db result" where
  "declineBacklogEntry t ev s =
     rbind (decode_BacklogDeclined (ev_Payload ev)) (\<lambda>p.
     if bd_Reason p = [] then Inl (ERefused ''must carry a reason'')
     else one_row (update_backlog t (\<lambda>r. b_id r = ev_Subject ev \<and> b_state r = ''entered'')
       (\<lambda>r. r\<lparr>b_state := ''declined'', b_decline_reason := bd_Reason p, b_last := ev_ID ev\<rparr>) s))"

definition jopt :: "string \<Rightarrow> string \<Rightarrow> json" where
  "jopt k v = (if v \<noteq> [] then [(k, JS v)] else [])"

definition delegateBacklogEntry :: "tx \<Rightarrow> event \<Rightarrow> db \<Rightarrow> db result" where
  "delegateBacklogEntry t ev s =
     rbind (decodeStrict_BacklogDelegated (ev_Payload ev)) (\<lambda>p.
     if \<not> IsIdentityShaped (bg_Outbox p) \<or> bg_IdempotencyKey p = []
     then Inl (ERefused ''requires an Outbox identity and idempotency key'')
     else rbind (of_option (ERows 0)
         (List.find (\<lambda>r. b_id r = ev_Subject ev \<and> b_state r = ''entered'') (backlog_entries s))) (\<lambda>b.
     if b_repo b \<noteq> ev_Repo ev then Inl (ERefused ''backlog entry belongs to another Repo'')
     else rbind (insert_outbox t \<lparr>o_id = bg_Outbox p, o_repo = ev_Repo ev, o_kind = ''create'',
         o_state = ''queued'', o_subject = ev_Subject ev, o_ref = None, o_key = bg_IdempotencyKey p,
         o_payload = [(''kind'', JS ''create''), (''backlog'', JS (ev_Subject ev)),
            (''provenance'', JS (b_provenance b)), (''title'', JS (b_title b))]
            @ jopt ''detail'' (b_detail b) @ jopt ''origin_node'' (coalesce (b_origin_node b)),
         o_reason = [], o_attempts = 0, o_birth = ev_ID ev, o_last = ev_ID ev\<rparr> s) (\<lambda>s1.
     one_row (update_backlog t
       (\<lambda>r. b_id r = ev_Subject ev \<and> b_repo r = ev_Repo ev \<and> b_state r = ''entered'')
       (\<lambda>r. r\<lparr>b_state := ''delegated'', b_outbox := Some (bg_Outbox p), b_last := ev_ID ev\<rparr>) s1))))"

section \<open>Tracker references\<close>

definition requireMatterSubject :: "db \<Rightarrow> event \<Rightarrow> unit result" where
  "requireMatterSubject s ev =
     rbind (of_option (ERefused ''subject is not a live Matter'') (live_row s (ev_Subject ev))) (\<lambda>n.
     require (n_kind n = ScaleMatter) (ERefused ''subject is not a Matter''))"

text \<open>\<open>INSERT INTO tracker_references .. ON CONFLICT (matter,ref) DO UPDATE SET
  removed_event=NULL, .. WHERE removed_event IS NOT NULL\<close>.\<close>

definition upsert_reference :: "tx \<Rightarrow> event \<Rightarrow> string \<Rightarrow> bool \<Rightarrow> db \<Rightarrow> (nat \<times> db) result" where
  "upsert_reference t ev ref guarded s =
     (let same = (\<lambda>q. t_matter q = ev_Subject ev \<and> t_ref q = ref)
      in if list_ex same (tracker_references s)
         then update_references (\<lambda>q. same q \<and> (guarded \<longrightarrow> t_removed q \<noteq> None))
                (\<lambda>q. q\<lparr>t_removed := None, t_last := ev_ID ev\<rparr>) s
         else rbind (insert_reference t \<lparr>t_matter = ev_Subject ev, t_ref = ref, t_removed = None,
                t_birth = ev_ID ev, t_last = ev_ID ev\<rparr> s) (\<lambda>s1. Inr (1, s1)))"

definition remove_reference :: "event \<Rightarrow> string \<Rightarrow> db \<Rightarrow> (nat \<times> db) result" where
  "remove_reference ev ref s =
     update_references (\<lambda>q. t_matter q = ev_Subject ev \<and> t_ref q = ref \<and> t_removed q = None)
       (\<lambda>q. q\<lparr>t_removed := Some (ev_ID ev), t_last := ev_ID ev\<rparr>) s"

definition addTrackerReference :: "tx \<Rightarrow> event \<Rightarrow> db \<Rightarrow> db result" where
  "addTrackerReference t ev s =
     rbind (decodeStrict_ReferenceAdded (ev_Payload ev)) (\<lambda>p.
     if ra_Ref p = [] then Inl (ERefused ''must carry a non-empty reference'')
     else rbind (requireMatterSubject s ev) (\<lambda>_.
     one_row (upsert_reference t ev (ra_Ref p) True s)))"

definition removeTrackerReference :: "event \<Rightarrow> db \<Rightarrow> db result" where
  "removeTrackerReference ev s =
     rbind (decodeStrict_ReferenceRemoved (ev_Payload ev)) (\<lambda>p.
     rbind (requireMatterSubject s ev) (\<lambda>_.
     one_row (remove_reference ev (rr_Ref p) s)))"

definition reboundTrackerReference :: "tx \<Rightarrow> event \<Rightarrow> db \<Rightarrow> db result" where
  "reboundTrackerReference t ev s =
     rbind (decodeStrict_ReferenceRebound (ev_Payload ev)) (\<lambda>p.
     if rx_From p = [] \<or> rx_To p = [] \<or> rx_From p = rx_To p
     then Inl (ERefused ''needs two different non-empty references'')
     else rbind (requireMatterSubject s ev) (\<lambda>_.
     rbind (one_row (remove_reference ev (rx_From p) s)) (\<lambda>s1.
     one_row (upsert_reference t ev (rx_To p) True s1))))"

definition projectLegacyMatterReference :: "tx \<Rightarrow> event \<Rightarrow> db \<Rightarrow> db result" where
  "projectLegacyMatterReference t ev s =
     rbind (of_option ENoRows (List.find (\<lambda>r. n_id r = ev_Subject ev) (nodes s))) (\<lambda>n.
     if n_kind n \<noteq> ScaleMatter then Inr s
     else rbind (decodeStrict_ReferenceBound (ev_Payload ev)) (\<lambda>p.
     rbind (update_references
         (\<lambda>q. t_matter q = ev_Subject ev \<and> t_ref q \<noteq> rb_Ref p \<and> t_removed q = None)
         (\<lambda>q. q\<lparr>t_removed := Some (ev_ID ev), t_last := ev_ID ev\<rparr>) s) (\<lambda>(_, s1).
     rbind (upsert_reference t ev (rb_Ref p) False s1) (\<lambda>(_, s2). Inr s2))))"

section \<open>Candidates\<close>

definition candidate_key :: "event \<Rightarrow> string \<Rightarrow> string \<Rightarrow> string \<Rightarrow> string" where
  "candidate_key ev kind ref discriminator =
     ''tracker:'' @ ev_ID ev @ '':'' @ kind @ '':'' @ ref
     @ (if discriminator \<noteq> [] then '':'' @ discriminator else [])"

definition candidate_id :: "string \<Rightarrow> string" where
  "candidate_id key = encodeCrockford (take 16 (sha256 (string_bytes key)))"

definition insertTrackerCandidate ::
  "tx \<Rightarrow> event \<Rightarrow> string \<Rightarrow> string \<Rightarrow> string \<Rightarrow> json \<Rightarrow> string \<Rightarrow> db \<Rightarrow> db result" where
  "insertTrackerCandidate t ev kind subject ref payload discriminator s =
     (let key = candidate_key ev kind ref discriminator
      in insert_outbox t \<lparr>o_id = candidate_id key, o_repo = ev_Repo ev, o_kind = kind,
           o_state = ''queued'', o_subject = subject, o_ref = nullable ref, o_key = key,
           o_payload = payload, o_reason = [], o_attempts = 0, o_birth = ev_ID ev, o_last = ev_ID ev\<rparr> s)"

definition state_candidate :: "tx \<Rightarrow> event \<Rightarrow> string \<Rightarrow> string \<Rightarrow> db \<Rightarrow> db result" where
  "state_candidate t ev subject ref s =
     rbind (TrackerAggregate t s ref) (\<lambda>a.
     case a of
       None \<Rightarrow> Inr s
     | Some d \<Rightarrow> if d = [] then Inr s
                 else insertTrackerCandidate t ev ''state'' subject ref [(''disposition'', JS d)] [] s)"

text \<open>\<open>onlyRefs\<close> is \<open>None\<close> for the source's nil; the \<open>seen\<close> map is the first
  occurrence of each reference.\<close>

definition queueMatterStateCandidates :: "tx \<Rightarrow> event \<Rightarrow> string \<Rightarrow> string list option \<Rightarrow> db \<Rightarrow> db result" where
  "queueMatterStateCandidates t ev subject onlyRefs s =
     (let refs = (case onlyRefs of Some rs \<Rightarrow> rs | None \<Rightarrow> TrackerReferences s subject)
      in for_each (state_candidate t ev subject) (rev (remdups (rev refs))) s)"

definition queueStageComments :: "tx \<Rightarrow> event \<Rightarrow> Node \<Rightarrow> db \<Rightarrow> db result" where
  "queueStageComments t ev stage s =
     (if list_ex (\<lambda>r. o_kind r = ''comment'' \<and> o_subject r = N_Matter stage
          \<and> json_extract ''stage'' (o_payload r) = Some (N_ID stage)) (outbox_entries s)
      then Inr s
      else for_each (\<lambda>ref. insertTrackerCandidate t ev ''comment'' (N_Matter stage) ref
             [(''stage'', JS (N_ID stage)), (''title'', JS (N_Title stage)), (''action'', JS ''closed'')]
             (N_ID stage)) (TrackerReferences s (N_Matter stage)) s)"

definition when_sealed :: "tx \<Rightarrow> Node \<Rightarrow> (db \<Rightarrow> db result) \<Rightarrow> db \<Rightarrow> db result" where
  "when_sealed t n act s =
     rbind (view_NodeCompletion t s n) (\<lambda>c. if nc_Sealed c then act s else Inr s)"

definition projectTransitionCandidates :: "tx \<Rightarrow> event \<Rightarrow> db \<Rightarrow> db result" where
  "projectTransitionCandidates t ev s =
     rbind (decode_Transition (ev_Payload ev)) (\<lambda>p.
     if tr_TrackerPushLevel p = [] \<or> tr_TrackerPushLevel p = TrackerPushOff then Inr s
     else rbind (ParseTrackerPushLevel (tr_TrackerPushLevel p)) (\<lambda>_.
     rbind (view_Node s (ev_Subject ev)) (\<lambda>n.
     if N_Kind n = ScaleMatter then
       (if ev_Type ev = TypeMatterStarted \<or> ev_Type ev = TypeMatterCanceled
        then queueMatterStateCandidates t ev (N_ID n) None s
        else if ev_Type ev = TypeMatterFinished
        then when_sealed t n (queueMatterStateCandidates t ev (N_ID n) None) s
        else Inr s)
     else if N_Kind n = ScaleStage then
       (if ev_Type ev = TypeStageFinished \<and> tr_TrackerPushLevel p = TrackerPushNarrated
        then when_sealed t n (queueStageComments t ev n) s
        else Inr s)
     else Inr s)))"

definition gate_event_level :: "event \<Rightarrow> string result" where
  "gate_event_level ev =
     (if ev_Type ev = TypeGateClosed
      then rbind (decode_GateClosed (ev_Payload ev)) (\<lambda>p. Inr (gc_TrackerPushLevel p))
      else if ev_Type ev = TypeGateDismissed
      then rbind (decodeStrict_GateDismissed (ev_Payload ev)) (\<lambda>p. Inr (gd_TrackerPushLevel p))
      else Inl (ERefused ''is not a gate event''))"

definition done_stages :: "db \<Rightarrow> string \<Rightarrow> Node list" where
  "done_stages s matter = map scanNode (sort_key n_birth (filter (\<lambda>r. n_matter r = matter
     \<and> n_kind r = ScaleStage \<and> n_lifecycle r = Done \<and> n_live r) (nodes s)))"

definition projectGateCandidates :: "tx \<Rightarrow> event \<Rightarrow> db \<Rightarrow> db result" where
  "projectGateCandidates t ev s =
     rbind (gate_event_level ev) (\<lambda>level.
     if level = [] \<or> level = TrackerPushOff then Inr s
     else rbind (ParseTrackerPushLevel level) (\<lambda>_.
     rbind (view_Node s (ev_Subject ev)) (\<lambda>n.
     rbind (if N_Kind n = ScaleMatter
            then when_sealed t n (queueMatterStateCandidates t ev (N_ID n) None) s else Inr s) (\<lambda>s1.
     if level \<noteq> TrackerPushNarrated then Inr s1
     else let stages = (if N_Kind n = ScaleMatter then done_stages s1 (N_ID n)
                        else if N_Kind n = ScaleStage then [n] else [])
          in for_each (\<lambda>st. when_sealed t st (queueStageComments t ev st)) stages s1))))"

definition reference_event :: "event \<Rightarrow> (string \<times> string list) result" where
  "reference_event ev =
     (if ev_Type ev = TypeReferenceAdded
      then rbind (decodeStrict_ReferenceAdded (ev_Payload ev)) (\<lambda>p. Inr (ra_TrackerPushLevel p, [ra_Ref p]))
      else if ev_Type ev = TypeReferenceRemoved
      then rbind (decodeStrict_ReferenceRemoved (ev_Payload ev)) (\<lambda>p. Inr (rr_TrackerPushLevel p, [rr_Ref p]))
      else if ev_Type ev = TypeReferenceRebound
      then rbind (decodeStrict_ReferenceRebound (ev_Payload ev)) (\<lambda>p. Inr (rx_TrackerPushLevel p, [rx_From p, rx_To p]))
      else Inr ([], []))"

definition projectReferenceCandidates :: "tx \<Rightarrow> event \<Rightarrow> db \<Rightarrow> db result" where
  "projectReferenceCandidates t ev s =
     rbind (reference_event ev) (\<lambda>(level, refs).
     if level = [] \<or> level = TrackerPushOff then Inr s
     else rbind (ParseTrackerPushLevel level) (\<lambda>_.
     queueMatterStateCandidates t ev (ev_Subject ev) (Some refs) s))"

definition disposition_ok :: "string \<Rightarrow> bool" where
  "disposition_ok d = (d \<in> set [TrackerActive, TrackerCompleted, TrackerCanceled])"

definition adhoc_payload :: "TrackerAdhocProposed \<Rightarrow> json result" where
  "adhoc_payload p =
     (if ta_Kind p = AdhocCreate then
        (if blank (ta_Title p) then Inl (ERefused ''create must carry a title'')
         else if ta_Ref p \<noteq> [] then Inl (ERefused ''create must not name a reference'')
         else if ta_Body p \<noteq> [] \<or> ta_Disposition p \<noteq> [] then Inl (ERefused ''create carries a body or a disposition'')
         else Inr ([(''kind'', JS ''create''), (''provenance'', JS ProvenanceAdhoc), (''title'', JS (ta_Title p))]
                   @ jopt ''detail'' (ta_Detail p)))
      else if ta_Kind p = AdhocComment then
        (if ta_Ref p = [] then Inl (ERefused ''comment must name the reference'')
         else if blank (ta_Body p) then Inl (ERefused ''comment must carry a body'')
         else if ta_Title p \<noteq> [] \<or> ta_Detail p \<noteq> [] \<or> ta_Disposition p \<noteq> []
         then Inl (ERefused ''comment carries a title, a detail or a disposition'')
         else Inr [(''body'', JS (ta_Body p))])
      else if ta_Kind p = AdhocState then
        (if ta_Ref p = [] then Inl (ERefused ''state must name the reference'')
         else if \<not> disposition_ok (ta_Disposition p) then Inl (ERefused ''not a provider-neutral disposition'')
         else if ta_Title p \<noteq> [] \<or> ta_Detail p \<noteq> [] \<or> ta_Body p \<noteq> []
         then Inl (ERefused ''state carries a title, a detail or a body'')
         else Inr [(''disposition'', JS (ta_Disposition p))])
      else Inl (ERefused ''not create, comment or state''))"

definition projectAdhocCandidate :: "tx \<Rightarrow> event \<Rightarrow> db \<Rightarrow> db result" where
  "projectAdhocCandidate t ev s =
     rbind (decodeStrict_TrackerAdhocProposed (ev_Payload ev)) (\<lambda>p.
     if ev_Subject ev \<noteq> ev_Repo ev then Inl (ERefused ''an ad-hoc proposal keys at its Repo'')
     else rbind (adhoc_payload p) (\<lambda>payload.
     insertTrackerCandidate t ev (ta_Kind p) (ev_Subject ev) (ta_Ref p) payload [] s))"

section \<open>The outbox state machine\<close>

definition flush_state_entry :: "event \<Rightarrow> string \<Rightarrow> db \<Rightarrow> db result" where
  "flush_state_entry ev ref s =
     one_row (update_outbox (\<lambda>r. o_id r = ev_Subject ev \<and> o_repo r = ev_Repo ev \<and> o_kind r = ''state''
         \<and> o_state r = ''approved'' \<and> o_ref r = Some ref)
       (\<lambda>r. r\<lparr>o_state := ''flushed'', o_reason := [], o_attempts := o_attempts r + 1, o_last := ev_ID ev\<rparr>) s)"

definition push_fact_ok :: "string \<Rightarrow> string \<Rightarrow> string \<Rightarrow> bool" where
  "push_fact_ok ref lease disposition = (ref \<noteq> [] \<and> lease \<noteq> [] \<and> disposition_ok disposition)"

definition upsert_push :: "event \<Rightarrow> TrackerStatePushed \<Rightarrow> db \<Rightarrow> (nat \<times> db) result" where
  "upsert_push ev p s =
     (if list_ex (\<lambda>q. p_ref q = tp_Ref p) (tracker_push_records s)
      then update_push (\<lambda>q. p_ref q = tp_Ref p
             \<and> (p_disposition q = TrackerActive \<or> p_disposition q = tp_Disposition p))
           (\<lambda>q. q\<lparr>p_disposition := tp_Disposition p, p_lease := tp_Lease p, p_outbox := ev_Subject ev,
                  p_last := ev_ID ev\<rparr>) s
      else rbind (insert_push \<lparr>p_ref = tp_Ref p, p_disposition = tp_Disposition p, p_lease = tp_Lease p,
             p_outbox = ev_Subject ev, p_birth = ev_ID ev, p_last = ev_ID ev\<rparr> s) (\<lambda>s1. Inr (1, s1)))"

definition recordTrackerStatePush :: "event \<Rightarrow> db \<Rightarrow> db result" where
  "recordTrackerStatePush ev s =
     rbind (decodeStrict_TrackerStatePushed (ev_Payload ev)) (\<lambda>p.
     if \<not> push_fact_ok (tp_Ref p) (tp_Lease p) (tp_Disposition p)
     then Inl (ERefused ''invalid reference, disposition, or lease'')
     else rbind (flush_state_entry ev (tp_Ref p) s) (\<lambda>s1.
     one_row (upsert_push ev p s1)))"

definition recordTrackerStateObserved :: "event \<Rightarrow> db \<Rightarrow> db result" where
  "recordTrackerStateObserved ev s =
     rbind (decodeStrict_TrackerStateObserved (ev_Payload ev)) (\<lambda>p.
     if \<not> push_fact_ok (to_Ref p) (to_Lease p) (to_Disposition p)
     then Inl (ERefused ''invalid reference, disposition, or lease'')
     else flush_state_entry ev (to_Ref p) s)"

definition creatable :: "event \<Rightarrow> outbox_row \<Rightarrow> bool" where
  "creatable ev r = (o_id r = ev_Subject ev \<and> o_repo r = ev_Repo ev \<and> o_kind r = ''create''
     \<and> o_state r \<in> set [''queued'', ''approved''])"

definition recordTrackerItemCreated :: "tx \<Rightarrow> event \<Rightarrow> db \<Rightarrow> db result" where
  "recordTrackerItemCreated t ev s =
     rbind (decodeStrict_TrackerItemCreated (ev_Payload ev)) (\<lambda>p.
     if ti_Ref p = [] then Inl (ERefused ''requires a non-empty reference'')
     else rbind (of_option (ERows 0) (List.find (creatable ev) (outbox_entries s))) (\<lambda>e.
     rbind (one_row (update_outbox (creatable ev)
       (\<lambda>r. r\<lparr>o_state := ''flushed'', o_reason := [], o_attempts := o_attempts r + 1, o_last := ev_ID ev\<rparr>) s)) (\<lambda>s1.
     case json_extract ''backlog'' (o_payload e) of
       None \<Rightarrow> Inr s1
     | Some backlog \<Rightarrow> one_row (update_backlog t
         (\<lambda>r. b_id r = backlog \<and> b_repo r = ev_Repo ev \<and> b_state r = ''delegated'' \<and> b_outbox r = Some (ev_Subject ev))
         (\<lambda>r. r\<lparr>b_last := ev_ID ev\<rparr>) s1))))"

definition approveOutbox :: "event \<Rightarrow> db \<Rightarrow> db result" where
  "approveOutbox ev s =
     rbind (decodeStrict_empty (ev_Payload ev)) (\<lambda>_.
     one_row (update_outbox (\<lambda>r. o_id r = ev_Subject ev \<and> o_repo r = ev_Repo ev \<and> o_state r = ''queued''
         \<and> o_attempts r = 0 \<and> o_reason r = [])
       (\<lambda>r. r\<lparr>o_state := ''approved'', o_reason := [], o_last := ev_ID ev\<rparr>) s))"

definition declineOutbox :: "event \<Rightarrow> db \<Rightarrow> db result" where
  "declineOutbox ev s =
     rbind (decodeStrict_OutboxDeclined (ev_Payload ev)) (\<lambda>p.
     if blank (od_Reason p) then Inl (ERefused ''requires a reason'')
     else one_row (update_outbox (\<lambda>r. o_id r = ev_Subject ev \<and> o_repo r = ev_Repo ev
         \<and> o_state r \<in> set [''queued'', ''approved'', ''withheld''])
       (\<lambda>r. r\<lparr>o_state := ''declined'', o_reason := od_Reason p, o_last := ev_ID ev\<rparr>) s))"

definition validWithholdCause :: "string \<Rightarrow> bool" where
  "validWithholdCause cause = (cause \<in> set [CauseMalformedCandidate, CauseLocalRegression, CauseSuperseded,
     CauseLeaseMismatch, CausePermanentRefusal, CauseMalformedProviderSuccess, CauseUnknownOutcome])"

definition withholdOutbox :: "event \<Rightarrow> db \<Rightarrow> db result" where
  "withholdOutbox ev s =
     rbind (decodeStrict_OutboxWithheld (ev_Payload ev)) (\<lambda>p.
     if blank (ow_Reason p) then Inl (ERefused ''requires a reason'')
     else if ow_Cause p \<noteq> [] \<and> \<not> validWithholdCause (ow_Cause p) then Inl (ERefused ''has invalid cause'')
     else one_row (update_outbox (\<lambda>r. o_id r = ev_Subject ev \<and> o_repo r = ev_Repo ev \<and> o_state r = ''approved'')
       (\<lambda>r. r\<lparr>o_state := ''withheld'', o_reason := ow_Reason p,
              o_attempts := o_attempts r + (if ow_Attempted p then 1 else 0), o_last := ev_ID ev\<rparr>) s))"

definition failOutbox :: "event \<Rightarrow> db \<Rightarrow> db result" where
  "failOutbox ev s =
     rbind (decodeStrict_OutboxDeliveryFailed (ev_Payload ev)) (\<lambda>p.
     if blank (of_Reason p) then Inl (ERefused ''requires a reason'')
     else one_row (update_outbox (\<lambda>r. o_id r = ev_Subject ev \<and> o_repo r = ev_Repo ev \<and> o_state r = ''approved'')
       (\<lambda>r. r\<lparr>o_state := ''queued'', o_reason := of_Reason p, o_attempts := o_attempts r + 1, o_last := ev_ID ev\<rparr>) s))"

definition retryOutbox :: "event \<Rightarrow> db \<Rightarrow> db result" where
  "retryOutbox ev s =
     rbind (decodeStrict_empty (ev_Payload ev)) (\<lambda>_.
     one_row (update_outbox (\<lambda>r. o_id r = ev_Subject ev \<and> o_repo r = ev_Repo ev
         \<and> (o_state r = ''withheld'' \<or> (o_state r = ''queued'' \<and> o_attempts r > 0 \<and> o_reason r \<noteq> [])))
       (\<lambda>r. r\<lparr>o_state := ''approved'', o_reason := [], o_last := ev_ID ev\<rparr>) s))"

definition flushOutboxComment :: "event \<Rightarrow> db \<Rightarrow> db result" where
  "flushOutboxComment ev s =
     rbind (decodeStrict_empty (ev_Payload ev)) (\<lambda>_.
     one_row (update_outbox (\<lambda>r. o_id r = ev_Subject ev \<and> o_repo r = ev_Repo ev \<and> o_kind r = ''comment''
         \<and> o_state r = ''approved'')
       (\<lambda>r. r\<lparr>o_state := ''flushed'', o_reason := [], o_attempts := o_attempts r + 1, o_last := ev_ID ev\<rparr>) s))"

end
