(* ===== verification/ProjectExec.thy ===== *)
theory ProjectExec
  imports ProjectTracker
begin

text \<open>
  The projection rules for tiers, cursors, batches, runs, dispatches and roles,
  and \<open>applyEvent\<close>, the whole projection (\<open>internal/store/project.go\<close>).
\<close>

section \<open>Tiers and the cursor\<close>

definition insertRepo :: "event \<Rightarrow> db \<Rightarrow> db result" where
  "insertRepo ev s =
     rbind (decode_RepoAttached (ev_Payload ev)) (\<lambda>p.
     if ev_Repo ev \<noteq> ev_Subject ev then Inl (ERefused ''must carry its own Repo'')
     else insert_repos \<lparr>r_id = ev_Subject ev, r_remote_url = nullable (pa_RemoteURL p),
       r_identity_remote = nullable (pa_IdentityRemote p), r_label = nullable (pa_Label p),
       r_birth = ev_ID ev, r_last = ev_ID ev\<rparr> s)"

definition insertClone :: "tx \<Rightarrow> event \<Rightarrow> db \<Rightarrow> db result" where
  "insertClone t ev s =
     rbind (decode_CloneAttached (ev_Payload ev)) (\<lambda>p.
     insert_clones t \<lparr>c_id = ev_Subject ev, c_repo = ca_Repo p, c_git_common_dir = ca_GitCommonDir p,
       c_label = ca_Label p, c_birth = ev_ID ev, c_last = ev_ID ev\<rparr> s)"

definition insertWorktree :: "tx \<Rightarrow> event \<Rightarrow> db \<Rightarrow> db result" where
  "insertWorktree t ev s =
     rbind (decode_WorktreeAttached (ev_Payload ev)) (\<lambda>p.
     insert_worktrees t \<lparr>w_id = ev_Subject ev, w_clone = wa_Clone p, w_name = nullable (wa_Name p),
       w_birth = ev_ID ev, w_last = ev_ID ev\<rparr> s)"

definition adoptRepoKey :: "event \<Rightarrow> db \<Rightarrow> db result" where
  "adoptRepoKey ev s =
     rbind (decode_RepoKeyAdopted (ev_Payload ev)) (\<lambda>p.
     if pk_RemoteURL p = [] then Inl (ERefused ''must name the remote being adopted'')
     else one_row (update_repos (\<lambda>r. r_id r = ev_Subject ev \<and> r_remote_url r = None)
       (\<lambda>r. r\<lparr>r_remote_url := Some (pk_RemoteURL p), r_identity_remote := nullable (pk_IdentityRemote p),
              r_last := ev_ID ev\<rparr>) s))"

definition relinkClone :: "event \<Rightarrow> db \<Rightarrow> db result" where
  "relinkClone ev s =
     rbind (decode_CloneRelinked (ev_Payload ev)) (\<lambda>p.
     one_row (update_clones (\<lambda>r. c_id r = ev_Subject ev)
       (\<lambda>r. r\<lparr>c_git_common_dir := cr_GitCommonDir p, c_last := ev_ID ev\<rparr>) s))"

definition labelClone :: "event \<Rightarrow> db \<Rightarrow> db result" where
  "labelClone ev s =
     rbind (decode_CloneLabeled (ev_Payload ev)) (\<lambda>p.
     one_row (update_clones (\<lambda>r. c_id r = ev_Subject ev)
       (\<lambda>r. r\<lparr>c_label := cl_Label p, c_last := ev_ID ev\<rparr>) s))"

definition moveCursor :: "tx \<Rightarrow> event \<Rightarrow> db \<Rightarrow> db result" where
  "moveCursor t ev s =
     rbind (decode_CursorMoved (ev_Payload ev)) (\<lambda>p.
     if ev_Subject ev \<noteq> ev_Worktree ev then Inl (ERefused ''must have the Worktree as its subject'')
     else upsert_cursor t \<lparr>cu_clone = ev_Clone ev, cu_worktree = ev_Worktree ev,
       cu_node = nullable (cm_Node p), cu_last = ev_ID ev\<rparr> s)"

section \<open>Batches\<close>

definition validateLiveMatter :: "db \<Rightarrow> string \<Rightarrow> unit result" where
  "validateLiveMatter s matter =
     rbind (of_option (ERefused ''unknown or tombstoned Matter'') (live_row s matter)) (\<lambda>n.
     require (n_kind n = ScaleMatter) (ERefused ''is not a Matter''))"

definition insertBatch :: "tx \<Rightarrow> event \<Rightarrow> db \<Rightarrow> db result" where
  "insertBatch t ev s =
     rbind (decodeStrict_BatchCreated (ev_Payload ev)) (\<lambda>p.
     if bc_Name p = [] \<and> bc_Matter p = [] then
       insert_batch_row t \<lparr>ba_id = ev_Subject ev, ba_name = None, ba_matter = None, ba_state = ''closed'',
         ba_close_reason = Some ''swept'', ba_closed_at = Some (ev_OccurredAt ev),
         ba_birth = ev_ID ev, ba_last = ev_ID ev\<rparr> s
     else if bc_Name p \<noteq> [] \<and> bc_Matter p \<noteq> []
       then Inl (ERefused ''either a non-empty name or one Matter'')
     else rbind (if bc_Matter p \<noteq> [] then validateLiveMatter s (bc_Matter p) else Inr ()) (\<lambda>_.
     rbind (insert_batch_row t \<lparr>ba_id = ev_Subject ev, ba_name = nullable (bc_Name p),
         ba_matter = nullable (bc_Matter p), ba_state = ''live'', ba_close_reason = None, ba_closed_at = None,
         ba_birth = ev_ID ev, ba_last = ev_ID ev\<rparr> s) (\<lambda>s1.
     if bc_Matter p \<noteq> []
     then insert_member t \<lparr>m_batch = ev_Subject ev, m_matter = bc_Matter p, m_left = None, m_last = ev_ID ev\<rparr> s1
     else Inr s1)))"

definition find_batch :: "db \<Rightarrow> string \<Rightarrow> batch_row result" where
  "find_batch s ident = of_option (ERefused ''names an unknown Batch'')
     (List.find (\<lambda>r. ba_id r = ident) (batches s))"

definition joinBatch :: "tx \<Rightarrow> event \<Rightarrow> db \<Rightarrow> db result" where
  "joinBatch t ev s =
     rbind (decodeStrict_BatchMembership (ev_Payload ev)) (\<lambda>p.
     rbind (find_batch s (ev_Subject ev)) (\<lambda>b.
     if ba_state b \<noteq> ''live'' then Inl (ERefused ''names a closed Batch'')
     else if \<not> opt_ref (\<lambda>owner. owner = bm_Matter p) (ba_matter b)
       then Inl (ERefused ''cannot add membership to an anonymous Batch'')
     else rbind (validateLiveMatter s (bm_Matter p)) (\<lambda>_.
     if list_ex (\<lambda>q. m_batch q = ev_Subject ev \<and> m_matter q = bm_Matter p) (batch_members s)
     then rbind (update_members (\<lambda>q. m_batch q = ev_Subject ev \<and> m_matter q = bm_Matter p)
            (\<lambda>q. q\<lparr>m_left := None, m_last := ev_ID ev\<rparr>) s) (\<lambda>(_, s1). Inr s1)
     else insert_member t \<lparr>m_batch = ev_Subject ev, m_matter = bm_Matter p, m_left = None, m_last = ev_ID ev\<rparr> s)))"

definition leaveBatch :: "event \<Rightarrow> db \<Rightarrow> db result" where
  "leaveBatch ev s =
     rbind (decodeStrict_BatchMembership (ev_Payload ev)) (\<lambda>p.
     rbind (find_batch s (ev_Subject ev)) (\<lambda>b.
     if ba_state b \<noteq> ''live'' then Inl (ERefused ''names a closed Batch'')
     else if ba_matter b \<noteq> None then Inl (ERefused ''cannot remove the membership of an anonymous Batch'')
     else rbind (validateLiveMatter s (bm_Matter p)) (\<lambda>_.
     one_row (update_members (\<lambda>q. m_batch q = ev_Subject ev \<and> m_matter q = bm_Matter p \<and> m_left q = None)
       (\<lambda>q. q\<lparr>m_left := Some (ev_ID ev), m_last := ev_ID ev\<rparr>) s))))"

definition close_batch :: "event \<Rightarrow> string \<Rightarrow> db \<Rightarrow> db result" where
  "close_batch ev reason s =
     one_row (update_batches (\<lambda>r. ba_id r = ev_Subject ev \<and> ba_state r = ''live'')
       (\<lambda>r. r\<lparr>ba_state := ''closed'', ba_close_reason := Some reason,
              ba_closed_at := Some (ev_OccurredAt ev), ba_last := ev_ID ev\<rparr>) s)"

definition dismissBatch :: "event \<Rightarrow> db \<Rightarrow> db result" where
  "dismissBatch ev s =
     rbind (decodeStrict_empty (ev_Payload ev)) (\<lambda>_.
     rbind (find_batch s (ev_Subject ev)) (\<lambda>b.
     if ba_matter b \<noteq> None then Inl (ERefused ''can dismiss only a named Batch'')
     else if ba_state b \<noteq> ''live'' then Inl (ERefused ''names a closed Batch'')
     else close_batch ev ''dismissed'' s))"

text \<open>\<open>run IN (SELECT id FROM runs WHERE batch=?)\<close> for the run column of a dispatch.\<close>

definition run_of_batch :: "db \<Rightarrow> string \<Rightarrow> string option \<Rightarrow> bool" where
  "run_of_batch s batch run =
     (case run of None \<Rightarrow> False | Some r \<Rightarrow> list_ex (\<lambda>q. ru_id q = r \<and> ru_batch q = batch) (runs s))"

definition reap_role :: "event \<Rightarrow> role_row \<Rightarrow> role_row" where
  "reap_role ev r = r\<lparr>role_state := ''closed'', role_close_reason := Some ''reaped'',
     role_closed_at := Some (ev_OccurredAt ev), role_last := ev_ID ev\<rparr>"

definition sweepBatch :: "event \<Rightarrow> db \<Rightarrow> db result" where
  "sweepBatch ev s =
     rbind (decodeStrict_empty (ev_Payload ev)) (\<lambda>_.
     rbind (find_batch s (ev_Subject ev)) (\<lambda>b.
     if ba_matter b = None then Inl (ERefused ''can sweep only an anonymous Batch'')
     else if ba_state b \<noteq> ''live'' then Inl (ERefused ''names a closed Batch'')
     else rbind (update_roles (\<lambda>r. role_state r = ''open'' \<and>
            list_ex (\<lambda>d. di_id d = role_dispatch r \<and> di_state d = ''open'' \<and> run_of_batch s (ev_Subject ev) (di_run d)) (dispatches s))
          (reap_role ev) s) (\<lambda>(_, s1).
     rbind (update_dispatches (\<lambda>d. di_state d = ''open'' \<and> run_of_batch s1 (ev_Subject ev) (di_run d))
          (\<lambda>d. d\<lparr>di_state := ''closed'', di_close_reason := Some ''reaped'',
                 di_closed_at := Some (ev_OccurredAt ev), di_last := ev_ID ev\<rparr>) s1) (\<lambda>(_, s2).
     rbind (update_runs (\<lambda>r. ru_state r = ''open'' \<and> ru_batch r = ev_Subject ev)
          (\<lambda>r. r\<lparr>ru_state := ''closed'', ru_close_reason := Some ''reaped'',
                 ru_closed_at := Some (ev_OccurredAt ev), ru_last := ev_ID ev\<rparr>) s2) (\<lambda>(_, s3).
     close_batch ev ''swept'' s3)))))"

section \<open>Runs and dispatches\<close>

definition validateExecutionContext :: "db \<Rightarrow> event \<Rightarrow> string \<Rightarrow> unit result" where
  "validateExecutionContext s ev clone =
     (case (List.find (\<lambda>c. c_id c = clone) (clones s), List.find (\<lambda>w. w_id w = ev_Worktree ev) (worktrees s)) of
        (Some c, Some w) \<Rightarrow>
          require (ev_Clone ev = clone \<and> w_clone w = clone \<and> ev_Repo ev = c_repo c)
            (ERefused ''tier dimensions disagree with Clone'')
      | _ \<Rightarrow> Inl (ERefused ''names an unknown Clone or Worktree''))"

definition find_run :: "db \<Rightarrow> string \<Rightarrow> run_row result" where
  "find_run s ident = of_option (ERefused ''names an unknown Run'') (List.find (\<lambda>r. ru_id r = ident) (runs s))"

definition validateRunContext :: "db \<Rightarrow> event \<Rightarrow> string \<Rightarrow> bool \<Rightarrow> unit result" where
  "validateRunContext s ev run requireOpen =
     rbind (find_run s run) (\<lambda>r.
     if requireOpen \<and> ru_state r \<noteq> ''open'' then Inl (ERefused ''names a closed Run'')
     else validateExecutionContext s ev (ru_clone r))"

text \<open>\<open>SELECT COUNT(*) FROM run_matters WHERE run=? AND matter=?\<close> is one.\<close>

definition in_frozen_set :: "db \<Rightarrow> string \<Rightarrow> string \<Rightarrow> bool" where
  "in_frozen_set s run matter = (hits (\<lambda>r. rmt_run r = run \<and> rmt_matter r = matter) (run_matters s) = 1)"

text \<open>A UNIQUE failure on the open Matter claim is the domain refusal.\<close>

definition contention :: "string \<Rightarrow> db result \<Rightarrow> db result" where
  "contention index u = (case u of
       Inl (ESql (SqlUnique i)) \<Rightarrow> if i = index then Inl (ERefused ''refusal.dispatch-contention'') else Inl (ESql (SqlUnique i))
     | _ \<Rightarrow> u)"

definition openDispatch :: "tx \<Rightarrow> event \<Rightarrow> db \<Rightarrow> db result" where
  "openDispatch t ev s =
     rbind (decodeStrict_DispatchOpened (ev_Payload ev)) (\<lambda>p.
     if (do_Run p = []) \<noteq> (do_Matter p = []) then Inl (ERefused ''requires both Run and Matter or neither'')
     else rbind (if do_Run p = [] then Inr () else
         rbind (validateRunContext s ev (do_Run p) True) (\<lambda>_.
         if \<not> in_frozen_set s (do_Run p) (do_Matter p) then Inl (ERefused ''Matter is outside the Run frozen set'')
         else validateLiveMatter s (do_Matter p))) (\<lambda>_.
     contention ''dispatches.matter'' (insert_dispatch t \<lparr>di_id = ev_Subject ev, di_clone = ev_Clone ev,
       di_worktree = ev_Worktree ev, di_run = nullable (do_Run p), di_matter = nullable (do_Matter p),
       di_state = ''open'', di_close_reason = None, di_opened_at = ev_OccurredAt ev, di_closed_at = None,
       di_birth = ev_ID ev, di_last = ev_ID ev\<rparr> s)))"

definition closeDispatch :: "event \<Rightarrow> db \<Rightarrow> db result" where
  "closeDispatch ev s =
     rbind (decode_DispatchClosed (ev_Payload ev)) (\<lambda>p.
     if dx_Reason p = [] then Inl (ERefused ''must carry a reason'')
     else rbind (of_option (ERows 0)
         (List.find (\<lambda>d. di_id d = ev_Subject ev \<and> di_state d = ''open'') (dispatches s))) (\<lambda>d.
     if di_clone d \<noteq> ev_Clone ev \<or> di_worktree d \<noteq> ev_Worktree ev
     then Inl (ERefused ''dimensions disagree with the Dispatch'')
     else rbind (update_roles (\<lambda>r. role_state r = ''open'' \<and> role_dispatch r = ev_Subject ev)
          (reap_role ev) s) (\<lambda>(_, s1).
     one_row (update_dispatches (\<lambda>q. di_id q = ev_Subject ev \<and> di_state q = ''open'')
          (\<lambda>q. q\<lparr>di_state := ''closed'', di_close_reason := Some (dx_Reason p),
                 di_closed_at := Some (ev_OccurredAt ev), di_last := ev_ID ev\<rparr>) s1))))"

definition is_digit :: "char \<Rightarrow> bool" where
  "is_digit c = (CHR ''0'' \<le> c \<and> c \<le> CHR ''9'')"

definition validRunLocator :: "string \<Rightarrow> bool" where
  "validRunLocator locator =
     (has_prefix ''run-'' locator
    \<and> (let ds = drop 4 locator
       in \<not> (length ds < 2 \<or> (length ds > 2 \<and> hd ds = CHR ''0''))
        \<and> list_all is_digit ds \<and> list_ex (\<lambda>c. c \<noteq> CHR ''0'') ds))"

definition freeze_matter :: "tx \<Rightarrow> event \<Rightarrow> nat \<times> string \<Rightarrow> db \<Rightarrow> db result" where
  "freeze_matter t ev im s =
     insert_run_matter t \<lparr>rmt_run = ev_Subject ev, rmt_matter = snd im, rmt_ordinal = fst im\<rparr> s"

fun check_matters :: "db \<Rightarrow> string list \<Rightarrow> string list \<Rightarrow> unit result" where
  "check_matters s seen [] = Inr ()"
| "check_matters s seen (m # ms) =
     (if m \<in> set seen then Inl (ERefused ''repeats Matter'')
      else rbind (validateLiveMatter s m) (\<lambda>_. check_matters s (m # seen) ms))"

definition startRun :: "tx \<Rightarrow> event \<Rightarrow> db \<Rightarrow> db result" where
  "startRun t ev s =
     rbind (decodeStrict_RunStarted (ev_Payload ev)) (\<lambda>p.
     if rs_Batch p = [] \<or> rs_Matters p = [] then Inl (ERefused ''requires a Batch and non-empty frozen set'')
     else rbind (validateExecutionContext s ev (ev_Clone ev)) (\<lambda>_.
     if \<not> validRunLocator (rs_Locator p) then Inl (ERefused ''malformed Run locator'')
     else rbind (find_batch s (rs_Batch p)) (\<lambda>b.
     if ba_state b \<noteq> ''live'' then Inl (ERefused ''names a closed Batch'')
     else rbind (check_matters s [] (rs_Matters p)) (\<lambda>_.
     rbind (insert_run_row t \<lparr>ru_id = ev_Subject ev, ru_clone = ev_Clone ev, ru_batch = rs_Batch p,
         ru_locator = rs_Locator p, ru_state = ''open'', ru_close_reason = None,
         ru_started_at = ev_OccurredAt ev, ru_closed_at = None, ru_birth = ev_ID ev, ru_last = ev_ID ev\<rparr> s) (\<lambda>s1.
     for_each (freeze_matter t ev) (enumerate 0 (rs_Matters p)) s1)))))"

definition close_run :: "event \<Rightarrow> string \<Rightarrow> db \<Rightarrow> db result" where
  "close_run ev reason s =
     one_row (update_runs (\<lambda>r. ru_id r = ev_Subject ev \<and> ru_state r = ''open'')
       (\<lambda>r. r\<lparr>ru_state := ''closed'', ru_close_reason := Some reason,
              ru_closed_at := Some (ev_OccurredAt ev), ru_last := ev_ID ev\<rparr>) s)"

definition finishRun :: "event \<Rightarrow> string \<Rightarrow> db \<Rightarrow> db result" where
  "finishRun ev reason s =
     rbind (decodeStrict_empty (ev_Payload ev)) (\<lambda>_.
     rbind (validateRunContext s ev (ev_Subject ev) True) (\<lambda>_.
     close_run ev reason s))"

definition standDownRun :: "event \<Rightarrow> db \<Rightarrow> db result" where
  "standDownRun ev s =
     rbind (decodeStrict_RunStoodDown (ev_Payload ev)) (\<lambda>p.
     rbind (find_run s (ev_Subject ev)) (\<lambda>r.
     if ru_state r \<noteq> ''open'' then Inl (ERefused ''names a closed Run'')
     else if rd_ActingClone p = [] \<or> rd_OwningClone p = [] \<or> rd_OwningClone p \<noteq> ru_clone r
         \<or> rd_ActingClone p \<noteq> ev_Clone ev
     then Inl (ERefused ''invalid acting or owning Clone'')
     else rbind (validateExecutionContext s ev (rd_ActingClone p)) (\<lambda>_.
     if hits (\<lambda>c. c_id c = rd_OwningClone p) (clones s) \<noteq> 1
     then Inl (ERefused ''names an unknown owning Clone'')
     else close_run ev ''stood-down'' s)))"

definition validateRunSkipped :: "event \<Rightarrow> db \<Rightarrow> db result" where
  "validateRunSkipped ev s =
     rbind (decodeStrict_RunSkipped (ev_Payload ev)) (\<lambda>p.
     if rk_Run p = [] \<or> rk_Reason p \<notin> set [RunSkipContention, RunSkipBlocked, RunSkipFailed]
     then Inl (ERefused ''invalid Run or reason'')
     else rbind (validateRunContext s ev (rk_Run p) True) (\<lambda>_.
     if \<not> in_frozen_set s (rk_Run p) (ev_Subject ev) then Inl (ERefused ''Matter is not in the Run frozen set'')
     else rbind (of_option ENoRows (live_row s (ev_Subject ev))) (\<lambda>n.
     if n_kind n \<noteq> ScaleMatter then Inl (ERefused ''subject is not a live Matter'') else Inr s)))"

definition resumeRun :: "event \<Rightarrow> db \<Rightarrow> db result" where
  "resumeRun ev s =
     rbind (decodeStrict_empty (ev_Payload ev)) (\<lambda>_.
     rbind (validateRunContext s ev (ev_Subject ev) True) (\<lambda>_. Inr s))"

section \<open>Roles\<close>

definition role_contention :: "db result \<Rightarrow> db result" where
  "role_contention u = (case u of
       Inl (ESql (SqlUnique i)) \<Rightarrow> Inl (ERefused ''refusal.role-contention'')
     | _ \<Rightarrow> u)"

definition spawnRole :: "tx \<Rightarrow> event \<Rightarrow> db \<Rightarrow> db result" where
  "spawnRole t ev s =
     rbind (decodeStrict_RoleSpawned (ev_Payload ev)) (\<lambda>p.
     if \<not> KnownRole (rl_Name p) then Inl (ERefused ''not one of the six roles'')
     else rbind (of_option (ERefused ''names an unknown Dispatch'')
         (List.find (\<lambda>d. di_id d = rl_Dispatch p) (dispatches s))) (\<lambda>d.
     if di_state d \<noteq> ''open'' then Inl (ERefused ''names a closed Dispatch'')
     else if di_clone d \<noteq> ev_Clone ev \<or> di_worktree d \<noteq> ev_Worktree ev
     then Inl (ERefused ''dimensions disagree with Dispatch'')
     else rbind (validateExecutionContext s ev (di_clone d)) (\<lambda>_.
     role_contention (insert_role t \<lparr>role_id = ev_Subject ev, role_clone = di_clone d,
       role_dispatch = rl_Dispatch p, role_name = rl_Name p, role_state = ''open'',
       role_close_reason = None, role_spawned_at = ev_OccurredAt ev, role_closed_at = None,
       role_birth = ev_ID ev, role_last = ev_ID ev\<rparr> s))))"

text \<open>\<open>roles r JOIN dispatches d ON d.id = r.dispatch WHERE r.id=? AND r.state='open'\<close>.\<close>

definition open_role_dispatch :: "db \<Rightarrow> string \<Rightarrow> (role_row \<times> dispatch_row) option" where
  "open_role_dispatch s ident =
     (case List.find (\<lambda>r. role_id r = ident \<and> role_state r = ''open'') (roles s) of
        None \<Rightarrow> None
      | Some r \<Rightarrow> (case List.find (\<lambda>d. di_id d = role_dispatch r) (dispatches s) of
          None \<Rightarrow> None | Some d \<Rightarrow> Some (r, d)))"

definition closeRole :: "event \<Rightarrow> db \<Rightarrow> db result" where
  "closeRole ev s =
     rbind (decodeStrict_RoleClosed (ev_Payload ev)) (\<lambda>p.
     if rc_Reason p \<noteq> RoleCloseCompleted \<and> rc_Reason p \<noteq> RoleCloseReaped
     then Inl (ERefused ''must carry reason completed or reaped'')
     else rbind (of_option (ERows 0) (open_role_dispatch s (ev_Subject ev))) (\<lambda>(r, d).
     if role_clone r \<noteq> ev_Clone ev \<or> di_worktree d \<noteq> ev_Worktree ev
     then Inl (ERefused ''dimensions disagree with the role's Dispatch'')
     else one_row (update_roles (\<lambda>q. role_id q = ev_Subject ev \<and> role_state q = ''open'')
       (\<lambda>q. q\<lparr>role_state := ''closed'', role_close_reason := Some (rc_Reason p),
              role_closed_at := Some (ev_OccurredAt ev), role_last := ev_ID ev\<rparr>) s)))"

section \<open>The whole projection\<close>

definition transition_types :: "string list" where
  "transition_types = [TypeMatterStarted, TypeStageStarted, TypeStepStarted,
     TypeMatterFinished, TypeStageFinished, TypeStepFinished,
     TypeMatterCanceled, TypeStageCanceled, TypeStepCanceled,
     TypeMatterPaused, TypeStagePaused, TypeStepPaused,
     TypeMatterResumed, TypeStageResumed, TypeStepResumed]"

definition applyEvent :: "tx \<Rightarrow> event \<Rightarrow> db \<Rightarrow> db result" where
  "applyEvent t ev s =
     (let ty = ev_Type ev in
      if ty = TypeMatterCreated then insertNode t ev ScaleMatter s
      else if ty = TypeStageCreated then insertNode t ev ScaleStage s
      else if ty = TypeStepCreated \<or> ty = TypeStepInserted then insertNode t ev ScaleStep s
      else if ty \<in> set transition_types
        then rbind (applyTransition ev s) (projectTransitionCandidates t ev)
      else if ty = TypeContentCreated \<or> ty = TypeContentAppended then insertContent ev s
      else if ty = TypeStepReordered then applyReorder ev s
      else if ty = TypeStepReplaced then applyReplace t ev s
      else if ty = TypeStepRemoved then tombstoneNode ev s
      else if ty = TypeDependencyAdded then insertEdge t ev s
      else if ty = TypeDependencyRemoved then tombstoneEdge ev s
      else if ty = TypeGateClosed then rbind (closeGate t ev s) (projectGateCandidates t ev)
      else if ty = TypeGateDismissed then rbind (dismissGate t ev s) (projectGateCandidates t ev)
      else if ty = TypeGateDeclared then declareGateProjection t ev s
      else if ty = TypeGateExemptionRepaired then repairGateExemptionProjection t ev s
      else if ty = TypeConfigSet then setConfigProjection t ev s
      else if ty = TypeBacklogEntered then insertBacklogEntry t ev s
      else if ty = TypeBacklogPlanned then planBacklogEntry t ev s
      else if ty = TypeBacklogDeclined then declineBacklogEntry t ev s
      else if ty = TypeBacklogDelegated then delegateBacklogEntry t ev s
      else if ty = TypeReferenceBound then rbind (bindReference ev s) (projectLegacyMatterReference t ev)
      else if ty = TypeReferenceAdded then rbind (addTrackerReference t ev s) (projectReferenceCandidates t ev)
      else if ty = TypeReferenceRemoved then rbind (removeTrackerReference ev s) (projectReferenceCandidates t ev)
      else if ty = TypeReferenceRebound then rbind (reboundTrackerReference t ev s) (projectReferenceCandidates t ev)
      else if ty = TypeTrackerAdhocProposed then projectAdhocCandidate t ev s
      else if ty = TypeTrackerItemCreated then recordTrackerItemCreated t ev s
      else if ty = TypeTrackerStatePushed then recordTrackerStatePush ev s
      else if ty = TypeTrackerStateObserved then recordTrackerStateObserved ev s
      else if ty = TypeOutboxApproved then approveOutbox ev s
      else if ty = TypeOutboxDeclined then declineOutbox ev s
      else if ty = TypeOutboxWithheld then withholdOutbox ev s
      else if ty = TypeOutboxDeliveryFailed then failOutbox ev s
      else if ty = TypeOutboxRetried then retryOutbox ev s
      else if ty = TypeOutboxFlushed then flushOutboxComment ev s
      else if ty = TypeRepoAttached then insertRepo ev s
      else if ty = TypeCloneAttached then insertClone t ev s
      else if ty = TypeWorktreeAttached then insertWorktree t ev s
      else if ty = TypeRepoKeyAdopted then adoptRepoKey ev s
      else if ty = TypeCloneRelinked then relinkClone ev s
      else if ty = TypeCloneLabeled then labelClone ev s
      else if ty = TypeCursorMoved then moveCursor t ev s
      else if ty = TypeBatchCreated then insertBatch t ev s
      else if ty = TypeBatchJoined then joinBatch t ev s
      else if ty = TypeBatchLeft then leaveBatch ev s
      else if ty = TypeBatchDismissed then dismissBatch ev s
      else if ty = TypeBatchSwept then sweepBatch ev s
      else if ty = TypeDispatchOpened then openDispatch t ev s
      else if ty = TypeDispatchClosed then closeDispatch ev s
      else if ty = TypeRunStarted then startRun t ev s
      else if ty = TypeRunFinished then finishRun ev ''completed'' s
      else if ty = TypeRunStoodDown then standDownRun ev s
      else if ty = TypeRunResumed then resumeRun ev s
      else if ty = TypeRunSkipped then validateRunSkipped ev s
      else if ty = TypeRoleSpawned then spawnRole t ev s
      else if ty = TypeRoleClosed then closeRole ev s
      else if ty = TypeRenderPerformed then Inr s
      else Inl (ERefused ''no projection rule for event type''))"

end
