(* ===== verification/Steps.thy ===== *)
theory Steps
  imports ProjectExec
begin

text \<open>
  The projection as a transition system. \<open>stmt t ev\<close> is the step relation of one
  SQL statement run on behalf of an event: one rule per table and kind of
  statement, with what every rule of the projection guarantees about the rows it
  writes. \<open>move\<close> predicates say how an UPDATE may change a row of the table; they
  are the state machines of nodes, backlog entries, outbox entries, push
  records, batches, runs, dispatches and roles.

  \<open>applyEvent_steps\<close> shows that folding an event is a sequence of such steps, so
  that a property of the store is proved once, by rule induction over the
  statements, instead of once per event type.
\<close>

section \<open>How a row may move\<close>

definition repo_move :: "event \<Rightarrow> repo_row \<Rightarrow> repo_row \<Rightarrow> bool" where
  "repo_move ev r r' \<longleftrightarrow> r_id r' = r_id r \<and> r_birth r' = r_birth r \<and> r_last r' = ev_ID ev
     \<and> r_remote_url r = None \<and> r_remote_url r' \<noteq> None"

definition clone_move :: "event \<Rightarrow> clone_row \<Rightarrow> clone_row \<Rightarrow> bool" where
  "clone_move ev r r' \<longleftrightarrow> c_id r' = c_id r \<and> c_repo r' = c_repo r \<and> c_birth r' = c_birth r
     \<and> c_last r' = ev_ID ev"

definition node_move :: "event \<Rightarrow> node_row \<Rightarrow> node_row \<Rightarrow> bool" where
  "node_move ev r r' \<longleftrightarrow> n_live r \<and> n_id r' = n_id r \<and> n_kind r' = n_kind r \<and> n_repo r' = n_repo r
     \<and> n_matter r' = n_matter r \<and> n_parent r' = n_parent r \<and> n_locator r' = n_locator r
     \<and> n_title r' = n_title r \<and> n_birth r' = n_birth r \<and> n_last r' = ev_ID ev
     \<and> n_tombstone r' \<in> {None, Some (ev_ID ev)}
     \<and> (n_live r' \<or> ev_Type ev = TypeStepRemoved \<or> ev_Type ev = TypeStepReplaced)"

definition edge_move :: "event \<Rightarrow> edge_row \<Rightarrow> edge_row \<Rightarrow> bool" where
  "edge_move ev r r' \<longleftrightarrow> e_tombstone r = None \<and> e_id r' = e_id r \<and> e_blocked r' = e_blocked r
     \<and> e_blocker r' = e_blocker r \<and> e_birth r' = e_birth r \<and> e_last r' = ev_ID ev
     \<and> e_tombstone r' = Some (ev_ID ev)"

definition backlog_move :: "event \<Rightarrow> backlog_row \<Rightarrow> backlog_row \<Rightarrow> bool" where
  "backlog_move ev r r' \<longleftrightarrow> b_id r' = b_id r \<and> b_repo r' = b_repo r \<and> b_provenance r' = b_provenance r
     \<and> b_title r' = b_title r \<and> b_detail r' = b_detail r \<and> b_origin_node r' = b_origin_node r
     \<and> b_birth r' = b_birth r \<and> b_last r' = ev_ID ev
     \<and> (b_state r = ''entered'' \<and> b_state r' \<in> {''planned'', ''declined'', ''delegated''}
        \<or> b_state r = ''delegated'' \<and> b_state r' = ''delegated'' \<and> b_outbox r' = b_outbox r
          \<and> b_matter r' = b_matter r)"

text \<open>The edges of the outbox state machine, by the kind of entry.\<close>

definition outbox_edge :: "string \<Rightarrow> string \<Rightarrow> string \<Rightarrow> bool" where
  "outbox_edge kind a b \<longleftrightarrow>
     (a = ''queued'' \<and> b = ''approved'')
   \<or> (a = ''queued'' \<and> b = ''flushed'' \<and> kind = ''create'')
   \<or> (a = ''approved'' \<and> b \<in> {''flushed'', ''queued'', ''withheld''})
   \<or> (a \<in> {''queued'', ''approved'', ''withheld''} \<and> b = ''declined'')
   \<or> (a = ''withheld'' \<and> b = ''approved'')"

definition outbox_move :: "event \<Rightarrow> outbox_row \<Rightarrow> outbox_row \<Rightarrow> bool" where
  "outbox_move ev r r' \<longleftrightarrow> o_id r' = o_id r \<and> o_repo r' = o_repo r \<and> o_kind r' = o_kind r
     \<and> o_subject r' = o_subject r \<and> o_ref r' = o_ref r \<and> o_key r' = o_key r \<and> o_payload r' = o_payload r
     \<and> o_birth r' = o_birth r \<and> o_last r' = ev_ID ev \<and> o_repo r = ev_Repo ev
     \<and> outbox_edge (o_kind r) (o_state r) (o_state r') \<and> o_attempts r \<le> o_attempts r'"

definition reference_move :: "event \<Rightarrow> reference_row \<Rightarrow> reference_row \<Rightarrow> bool" where
  "reference_move ev r r' \<longleftrightarrow> t_matter r' = t_matter r \<and> t_ref r' = t_ref r \<and> t_birth r' = t_birth r
     \<and> t_last r' = ev_ID ev \<and> t_removed r' \<in> {None, Some (ev_ID ev)}"

definition push_move :: "event \<Rightarrow> push_row \<Rightarrow> push_row \<Rightarrow> bool" where
  "push_move ev r r' \<longleftrightarrow> p_ref r' = p_ref r \<and> p_birth r' = p_birth r \<and> p_last r' = ev_ID ev
     \<and> (p_disposition r = TrackerActive \<or> p_disposition r' = p_disposition r)"

definition batch_move :: "event \<Rightarrow> batch_row \<Rightarrow> batch_row \<Rightarrow> bool" where
  "batch_move ev r r' \<longleftrightarrow> ba_id r' = ba_id r \<and> ba_name r' = ba_name r \<and> ba_matter r' = ba_matter r
     \<and> ba_birth r' = ba_birth r \<and> ba_last r' = ev_ID ev \<and> ba_state r = ''live'' \<and> ba_state r' = ''closed''"

definition member_move :: "event \<Rightarrow> member_row \<Rightarrow> member_row \<Rightarrow> bool" where
  "member_move ev r r' \<longleftrightarrow> m_batch r' = m_batch r \<and> m_matter r' = m_matter r \<and> m_last r' = ev_ID ev
     \<and> m_left r' \<in> {None, Some (ev_ID ev)}"

definition run_move :: "event \<Rightarrow> run_row \<Rightarrow> run_row \<Rightarrow> bool" where
  "run_move ev r r' \<longleftrightarrow> ru_id r' = ru_id r \<and> ru_clone r' = ru_clone r \<and> ru_batch r' = ru_batch r
     \<and> ru_locator r' = ru_locator r \<and> ru_started_at r' = ru_started_at r \<and> ru_birth r' = ru_birth r
     \<and> ru_last r' = ev_ID ev \<and> ru_state r = ''open'' \<and> ru_state r' = ''closed''"

definition dispatch_move :: "event \<Rightarrow> dispatch_row \<Rightarrow> dispatch_row \<Rightarrow> bool" where
  "dispatch_move ev r r' \<longleftrightarrow> di_id r' = di_id r \<and> di_clone r' = di_clone r \<and> di_worktree r' = di_worktree r
     \<and> di_run r' = di_run r \<and> di_matter r' = di_matter r \<and> di_opened_at r' = di_opened_at r
     \<and> di_birth r' = di_birth r \<and> di_last r' = ev_ID ev \<and> di_state r = ''open'' \<and> di_state r' = ''closed''"

definition role_move :: "event \<Rightarrow> role_row \<Rightarrow> role_row \<Rightarrow> bool" where
  "role_move ev r r' \<longleftrightarrow> role_id r' = role_id r \<and> role_clone r' = role_clone r
     \<and> role_dispatch r' = role_dispatch r \<and> role_name r' = role_name r
     \<and> role_spawned_at r' = role_spawned_at r \<and> role_birth r' = role_birth r \<and> role_last r' = ev_ID ev
     \<and> role_state r = ''open'' \<and> role_state r' = ''closed''"

lemmas moves = repo_move_def clone_move_def node_move_def edge_move_def backlog_move_def
  outbox_move_def reference_move_def push_move_def batch_move_def member_move_def run_move_def
  dispatch_move_def role_move_def

section \<open>The step relation\<close>

definition open_dispatch :: "db \<Rightarrow> string \<Rightarrow> bool" where
  "open_dispatch s ident = list_ex (\<lambda>d. di_id d = ident \<and> di_state d = ''open'') (dispatches s)"

definition open_role_on :: "db \<Rightarrow> string \<Rightarrow> bool" where
  "open_role_on s ident = list_ex (\<lambda>r. role_dispatch r = ident \<and> role_state r = ''open'') (roles s)"

text \<open>A new node takes its Matter from its parent, or from a sibling it replaces.\<close>

definition inherits :: "db \<Rightarrow> node_row \<Rightarrow> bool" where
  "inherits s r \<longleftrightarrow> n_parent r = None \<and> n_matter r = n_id r
     \<or> (\<exists>q \<in> set (nodes s). n_parent r = Some (n_id q) \<and> n_matter r = n_matter q)
     \<or> (\<exists>q \<in> set (nodes s). n_parent r = n_parent q \<and> n_matter r = n_matter q)"

inductive stmt :: "tx \<Rightarrow> event \<Rightarrow> db \<Rightarrow> db \<Rightarrow> bool" for t ev where
  ins_repos: "insert_repos r s = Inr s' \<Longrightarrow> r_last r = ev_ID ev \<Longrightarrow> stmt t ev s s'"
| upd_repos: "update_repos p f s = Inr (n, s') \<Longrightarrow> (\<And>r. p r \<Longrightarrow> repo_move ev r (f r)) \<Longrightarrow> stmt t ev s s'"
| ins_clones: "insert_clones t r s = Inr s' \<Longrightarrow> c_last r = ev_ID ev \<Longrightarrow> stmt t ev s s'"
| upd_clones: "update_clones p f s = Inr (n, s') \<Longrightarrow> (\<And>r. p r \<Longrightarrow> clone_move ev r (f r)) \<Longrightarrow> stmt t ev s s'"
| ins_worktrees: "insert_worktrees t r s = Inr s' \<Longrightarrow> w_last r = ev_ID ev \<Longrightarrow> stmt t ev s s'"
| ins_nodes: "insert_nodes t r s = Inr s' \<Longrightarrow> n_last r = ev_ID ev \<Longrightarrow> n_live r \<Longrightarrow>
    n_lifecycle r = Planned \<Longrightarrow> inherits s r \<Longrightarrow> stmt t ev s s'"
| upd_nodes: "update_nodes p f s = Inr (n, s') \<Longrightarrow> (\<And>r. p r \<Longrightarrow> node_move ev r (f r)) \<Longrightarrow> stmt t ev s s'"
| ins_content: "insert_content r s = Inr s' \<Longrightarrow> ct_last r = ev_ID ev \<Longrightarrow> ct_tombstone r = None \<Longrightarrow> stmt t ev s s'"
| ins_edges: "insert_edges t r s = Inr s' \<Longrightarrow> e_last r = ev_ID ev \<Longrightarrow> e_tombstone r = None \<Longrightarrow>
    ev_Type ev = TypeDependencyAdded \<Longrightarrow> stmt t ev s s'"
| upd_edges: "update_edges p f s = Inr (n, s') \<Longrightarrow> (\<And>r. p r \<Longrightarrow> edge_move ev r (f r)) \<Longrightarrow> stmt t ev s s'"
| ins_gate: "insert_gate_state t r s = Inr s' \<Longrightarrow> g_last r = ev_ID ev \<Longrightarrow>
    gate_metadata_of r ev = Inr m \<Longrightarrow> stmt t ev s s'"
| ins_declaration: "insert_gate_declarations t d s = Inr s' \<Longrightarrow> stmt t ev s s'"
| ins_exemption: "insert_gate_exemptions t x s = Inr s' \<Longrightarrow> stmt t ev s s'"
| ups_config: "upsert_config t c s = Inr (n, s') \<Longrightarrow> stmt t ev s s'"
| ins_backlog: "insert_backlog t b s = Inr s' \<Longrightarrow> b_last b = ev_ID ev \<Longrightarrow> b_state b = ''entered'' \<Longrightarrow> stmt t ev s s'"
| upd_backlog: "update_backlog t p f s = Inr (n, s') \<Longrightarrow> (\<And>r. p r \<Longrightarrow> backlog_move ev r (f r)) \<Longrightarrow> stmt t ev s s'"
| ins_outbox: "insert_outbox t b s = Inr s' \<Longrightarrow> o_last b = ev_ID ev \<Longrightarrow> o_state b = ''queued'' \<Longrightarrow>
    o_attempts b = 0 \<Longrightarrow> stmt t ev s s'"
| upd_outbox: "update_outbox p f s = Inr (n, s') \<Longrightarrow> (\<And>r. p r \<Longrightarrow> outbox_move ev r (f r)) \<Longrightarrow> stmt t ev s s'"
| ins_reference: "insert_reference t b s = Inr s' \<Longrightarrow> t_last b = ev_ID ev \<Longrightarrow> t_birth b = ev_ID ev \<Longrightarrow>
    t_removed b = None \<Longrightarrow> stmt t ev s s'"
| upd_references: "update_references p f s = Inr (n, s') \<Longrightarrow> (\<And>r. p r \<Longrightarrow> reference_move ev r (f r)) \<Longrightarrow> stmt t ev s s'"
| ins_push: "insert_push b s = Inr s' \<Longrightarrow> p_last b = ev_ID ev \<Longrightarrow> p_birth b = ev_ID ev \<Longrightarrow> stmt t ev s s'"
| upd_push: "update_push p f s = Inr (n, s') \<Longrightarrow> (\<And>r. p r \<Longrightarrow> push_move ev r (f r)) \<Longrightarrow> stmt t ev s s'"
| ins_batch: "insert_batch_row t b s = Inr s' \<Longrightarrow> ba_last b = ev_ID ev \<Longrightarrow> stmt t ev s s'"
| upd_batches: "update_batches p f s = Inr (n, s') \<Longrightarrow> (\<And>r. p r \<Longrightarrow> batch_move ev r (f r)) \<Longrightarrow> stmt t ev s s'"
| ins_member: "insert_member t b s = Inr s' \<Longrightarrow> m_last b = ev_ID ev \<Longrightarrow> m_left b = None \<Longrightarrow> stmt t ev s s'"
| upd_members: "update_members p f s = Inr (n, s') \<Longrightarrow> (\<And>r. p r \<Longrightarrow> member_move ev r (f r)) \<Longrightarrow> stmt t ev s s'"
| ins_run: "insert_run_row t b s = Inr s' \<Longrightarrow> ru_last b = ev_ID ev \<Longrightarrow> ru_state b = ''open'' \<Longrightarrow> stmt t ev s s'"
| upd_runs: "update_runs p f s = Inr (n, s') \<Longrightarrow> (\<And>r. p r \<Longrightarrow> run_move ev r (f r)) \<Longrightarrow> stmt t ev s s'"
| ins_run_matter: "insert_run_matter t b s = Inr s' \<Longrightarrow> stmt t ev s s'"
| ins_dispatch: "insert_dispatch t b s = Inr s' \<Longrightarrow> di_last b = ev_ID ev \<Longrightarrow> di_state b = ''open'' \<Longrightarrow> stmt t ev s s'"
| upd_dispatches: "update_dispatches p f s = Inr (n, s') \<Longrightarrow>
    (\<And>r. p r \<Longrightarrow> dispatch_move ev r (f r) \<and> \<not> open_role_on s (di_id r)) \<Longrightarrow> stmt t ev s s'"
| ins_role: "insert_role t b s = Inr s' \<Longrightarrow> role_last b = ev_ID ev \<Longrightarrow> role_state b = ''open'' \<Longrightarrow>
    open_dispatch s (role_dispatch b) \<Longrightarrow> stmt t ev s s'"
| upd_roles: "update_roles p f s = Inr (n, s') \<Longrightarrow> (\<And>r. p r \<Longrightarrow> role_move ev r (f r)) \<Longrightarrow> stmt t ev s s'"
| ups_cursor: "upsert_cursor t c s = Inr s' \<Longrightarrow> cu_last c = ev_ID ev \<Longrightarrow> stmt t ev s s'"

abbreviation steps :: "tx \<Rightarrow> event \<Rightarrow> db \<Rightarrow> db \<Rightarrow> bool" where
  "steps t ev \<equiv> (stmt t ev)\<^sup>*\<^sup>*"

named_theorems to_steps \<open>the rules of the projection are sequences of statements\<close>

lemma steps_trans: "steps t ev a b \<Longrightarrow> steps t ev b c \<Longrightarrow> steps t ev a c"
  by (rule rtranclp_trans)

lemma step_cons: "stmt t ev a b \<Longrightarrow> steps t ev b c \<Longrightarrow> steps t ev a c"
  by (rule converse_rtranclp_into_rtranclp)

lemma step_one: "stmt t ev a b \<Longrightarrow> steps t ev a b"
  by (rule r_into_rtranclp)

lemma steps_for_each:
  assumes "for_each f xs a = Inr b"
    and "\<And>x s s'. x \<in> set xs \<Longrightarrow> f x s = Inr s' \<Longrightarrow> steps t ev s s'"
  shows "steps t ev a b"
  by (rule for_each_inv[OF assms(1), where P = "steps t ev a"]) (use assms(2) in \<open>blast intro: rtranclp_trans\<close>)+

section \<open>Nodes, content, edges, gates, config\<close>

lemma matterOf_inherits:
  assumes "matterOf s scale ident parent = Inr m" "n_parent r = nullable parent" "n_matter r = m"
    "n_id r = ident"
  shows "inherits s r"
  using assms
  by (auto simp: matterOf_def nullable_def inherits_def split: if_splits option.splits
      dest!: find_Some_iff_mem)

lemma insertNode_steps [to_steps]: "insertNode t ev scale s = Inr s' \<Longrightarrow> steps t ev s s'"
  unfolding insertNode_def
  by (auto simp: res n_live_def intro!: r_into_rtranclp elim!: ins_nodes elim: matterOf_inherits)

lemma applyTransition_steps [to_steps]: "applyTransition ev s = Inr s' \<Longrightarrow> steps t ev s s'"
  unfolding applyTransition_def
  by (auto simp: res node_move_def n_live_def intro!: r_into_rtranclp elim!: upd_nodes)

lemma reorder_one_steps: "reorder_one ev ic s = Inr s' \<Longrightarrow> steps t ev s s'"
  unfolding reorder_one_def
  by (auto simp: res node_move_def n_live_def intro!: r_into_rtranclp elim!: upd_nodes)

lemma applyReorder_steps [to_steps]: "applyReorder ev s = Inr s' \<Longrightarrow> steps t ev s s'"
  unfolding applyReorder_def by (auto simp: res intro: steps_for_each reorder_one_steps)

lemma tombstone_node_steps:
  "tombstone_node i ev s = Inr s' \<Longrightarrow> ev_Type ev = TypeStepRemoved \<or> ev_Type ev = TypeStepReplaced \<Longrightarrow> steps t ev s s'"
  unfolding tombstone_node_def
  by (auto simp: res node_move_def intro!: r_into_rtranclp elim!: upd_nodes)

lemma applyReplace_steps [to_steps]:
  assumes "applyReplace t ev s = Inr s'" "ev_Type ev = TypeStepReplaced"
  shows "steps t ev s s'"
proof -
  from assms(1) obtain p :: Replaced and old s1 where old: "live_row s (ev_Subject ev) = Some old"
    and s1: "tombstone_node (ev_Subject ev) ev s = Inr s1"
    and ins: "insert_nodes t \<lparr>n_id = rp_Replacement p, n_kind = ScaleStep, n_repo = n_repo old,
       n_matter = n_matter old, n_parent = nullable (coalesce (n_parent old)), n_locator = rp_Locator p,
       n_title = rp_Title p, n_lifecycle = Planned, n_sort_key = n_sort_key old, n_external_ref = None,
       n_birth = ev_ID ev, n_last = ev_ID ev, n_tombstone = None\<rparr> s1 = Inr s'"
    by (simp only: applyReplace_def res) (elim exE conjE, rule that, assumption+)
  from old have mem: "old \<in> set (nodes s)" by (auto simp: live_row_def dest: find_Some_iff_mem)
  from ins have "nullable (coalesce (n_parent old)) \<noteq> None"
    by (auto simp: insert_nodes_def res node_check_def)
  then have par: "nullable (coalesce (n_parent old)) = n_parent old"
    by (cases "n_parent old") (auto simp: nullable_def)
  have "nodes s1 = upd_rows (\<lambda>r. n_id r = ev_Subject ev \<and> n_live r)
      (\<lambda>r. r\<lparr>n_tombstone := Some (ev_ID ev), n_last := ev_ID ev\<rparr>) (nodes s)"
    using s1 by (auto simp: tombstone_node_def res update_nodes_def)
  then have "(\<lambda>r. (n_parent r, n_matter r)) ` set (nodes s1) = (\<lambda>r. (n_parent r, n_matter r)) ` set (nodes s)"
    by (simp only:) (rule upd_rows_keeps, simp)
  then have "\<exists>q \<in> set (nodes s1). n_parent q = n_parent old \<and> n_matter q = n_matter old"
    using mem by (auto simp: set_eq_iff image_iff) metis
  then have "inherits s1 \<lparr>n_id = rp_Replacement p, n_kind = ScaleStep, n_repo = n_repo old,
       n_matter = n_matter old, n_parent = nullable (coalesce (n_parent old)), n_locator = rp_Locator p,
       n_title = rp_Title p, n_lifecycle = Planned, n_sort_key = n_sort_key old, n_external_ref = None,
       n_birth = ev_ID ev, n_last = ev_ID ev, n_tombstone = None\<rparr>"
    by (simp only: inherits_def par node_row.simps) metis
  with ins have "stmt t ev s1 s'" by (rule_tac ins_nodes) (simp_all add: n_live_def)
  then show ?thesis using tombstone_node_steps[OF s1, of t] assms(2) by simp
qed

lemma tombstoneNode_steps [to_steps]:
  "tombstoneNode ev s = Inr s' \<Longrightarrow> ev_Type ev = TypeStepRemoved \<Longrightarrow> steps t ev s s'"
  unfolding tombstoneNode_def by (auto simp: res intro: tombstone_node_steps)

lemma bindReference_steps [to_steps]: "bindReference ev s = Inr s' \<Longrightarrow> steps t ev s s'"
  unfolding bindReference_def
  by (auto simp: res node_move_def n_live_def intro!: r_into_rtranclp elim!: upd_nodes)

lemma insertContent_steps [to_steps]: "insertContent ev s = Inr s' \<Longrightarrow> steps t ev s s'"
  unfolding insertContent_def
  by (auto simp: res split: option.splits intro!: r_into_rtranclp elim!: ins_content)

lemma insertEdge_steps [to_steps]:
  "insertEdge t ev s = Inr s' \<Longrightarrow> ev_Type ev = TypeDependencyAdded \<Longrightarrow> steps t ev s s'"
  unfolding insertEdge_def by (auto simp: res intro!: r_into_rtranclp elim!: ins_edges)

lemma tombstoneEdge_steps [to_steps]: "tombstoneEdge ev s = Inr s' \<Longrightarrow> steps t ev s s'"
  unfolding tombstoneEdge_def tombstone_edge_def
  by (auto simp: res edge_move_def intro!: r_into_rtranclp elim!: upd_edges)

lemma closeGate_steps [to_steps]:
  "closeGate t ev s = Inr s' \<Longrightarrow> ev_Type ev = TypeGateClosed \<Longrightarrow> steps t ev s s'"
  unfolding closeGate_def by (auto simp: res gate_metadata_of_def intro!: r_into_rtranclp elim!: ins_gate)

lemma dismissGate_steps [to_steps]:
  "dismissGate t ev s = Inr s' \<Longrightarrow> ev_Type ev = TypeGateDismissed \<Longrightarrow> steps t ev s s'"
  unfolding dismissGate_def
  by (auto simp: res gate_metadata_of_def TypeGateClosed_def TypeGateDismissed_def
      intro!: r_into_rtranclp elim!: ins_gate)

lemma exempt_one_steps: "exempt_one t ev g sc n s = Inr s' \<Longrightarrow> steps t ev s s'"
  unfolding exempt_one_def by (auto simp: res intro!: r_into_rtranclp elim!: ins_exemption)

lemma declareGateProjection_steps [to_steps]: "declareGateProjection t ev s = Inr s' \<Longrightarrow> steps t ev s s'"
  unfolding declareGateProjection_def
  by (auto simp: res dest!: steps_for_each[OF _ exempt_one_steps] intro: ins_declaration converse_rtranclp_into_rtranclp)

lemma repairGateExemptionProjection_steps [to_steps]:
  "repairGateExemptionProjection t ev s = Inr s' \<Longrightarrow> steps t ev s s'"
  unfolding repairGateExemptionProjection_def
  by (auto simp: res Let_def split: if_splits intro: ins_exemption)

lemma setConfigProjection_steps [to_steps]: "setConfigProjection t ev s = Inr s' \<Longrightarrow> steps t ev s s'"
  unfolding setConfigProjection_def by (auto simp: res intro!: r_into_rtranclp elim!: ups_config)

section \<open>Backlog, references, outbox\<close>

lemma insertBacklogEntry_steps [to_steps]: "insertBacklogEntry t ev s = Inr s' \<Longrightarrow> steps t ev s s'"
  unfolding insertBacklogEntry_def by (auto simp: res intro!: r_into_rtranclp elim!: ins_backlog)

lemma planBacklogEntry_steps [to_steps]: "planBacklogEntry t ev s = Inr s' \<Longrightarrow> steps t ev s s'"
  unfolding planBacklogEntry_def
  by (auto simp: res backlog_move_def intro!: r_into_rtranclp elim!: upd_backlog)

lemma declineBacklogEntry_steps [to_steps]: "declineBacklogEntry t ev s = Inr s' \<Longrightarrow> steps t ev s s'"
  unfolding declineBacklogEntry_def
  by (auto simp: res backlog_move_def intro!: r_into_rtranclp elim!: upd_backlog)

lemma delegateBacklogEntry_steps [to_steps]:
  assumes "delegateBacklogEntry t ev s = Inr s'"
  shows "steps t ev s s'"
proof -
  from assms obtain p :: BacklogDelegated and b s1 n where "insert_outbox t b s = Inr s1"
    "o_last b = ev_ID ev" "o_state b = ''queued''" "o_attempts b = 0"
    and upd: "update_backlog t (\<lambda>r. b_id r = ev_Subject ev \<and> b_repo r = ev_Repo ev \<and> b_state r = ''entered'')
       (\<lambda>r. r\<lparr>b_state := ''delegated'', b_outbox := Some (bg_Outbox p), b_last := ev_ID ev\<rparr>) s1 = Inr (n, s')"
    by (simp only: delegateBacklogEntry_def res)
      (elim exE conjE, rule that, assumption, simp, simp, simp, simp)
  then have "stmt t ev s s1" by (auto intro: ins_outbox)
  moreover have "stmt t ev s1 s'" using upd by (rule upd_backlog) (simp add: backlog_move_def)
  ultimately show ?thesis by (metis step_cons step_one)
qed

lemma upsert_reference_steps:
  "upsert_reference t ev ref g s = Inr (n, s') \<Longrightarrow> steps t ev s s'"
  unfolding upsert_reference_def Let_def
  by (auto simp: res reference_move_def split: if_splits intro!: r_into_rtranclp
      elim!: upd_references ins_reference)

lemma remove_reference_steps: "remove_reference ev ref s = Inr (n, s') \<Longrightarrow> steps t ev s s'"
  unfolding remove_reference_def
  by (auto simp: reference_move_def intro!: r_into_rtranclp elim!: upd_references)

lemma addTrackerReference_steps [to_steps]: "addTrackerReference t ev s = Inr s' \<Longrightarrow> steps t ev s s'"
  unfolding addTrackerReference_def by (auto simp: res intro: upsert_reference_steps)

lemma removeTrackerReference_steps [to_steps]: "removeTrackerReference ev s = Inr s' \<Longrightarrow> steps t ev s s'"
  unfolding removeTrackerReference_def by (auto simp: res intro: remove_reference_steps)

lemma reboundTrackerReference_steps [to_steps]:
  "reboundTrackerReference t ev s = Inr s' \<Longrightarrow> steps t ev s s'"
  unfolding reboundTrackerReference_def
  by (auto simp: res dest!: upsert_reference_steps remove_reference_steps[of ev _ _ _ _ t] intro: steps_trans)

lemma projectLegacyMatterReference_steps [to_steps]:
  assumes "projectLegacyMatterReference t ev s = Inr s'"
  shows "steps t ev s s'"
proof (cases "s' = s")
  case False
  with assms obtain p :: ReferenceBound and n s1 m where
    upd: "update_references (\<lambda>q. t_matter q = ev_Subject ev \<and> t_ref q \<noteq> rb_Ref p \<and> t_removed q = None)
         (\<lambda>q. q\<lparr>t_removed := Some (ev_ID ev), t_last := ev_ID ev\<rparr>) s = Inr (n, s1)"
    and ups: "upsert_reference t ev (rb_Ref p) False s1 = Inr (m, s')"
    by (auto simp: projectLegacyMatterReference_def res split: if_splits)
  from upd have "stmt t ev s s1" by (rule upd_references) (simp add: reference_move_def)
  then show ?thesis using upsert_reference_steps[OF ups] by (rule converse_rtranclp_into_rtranclp)
qed simp

lemma insertTrackerCandidate_steps:
  "insertTrackerCandidate t ev kind subject ref payload d s = Inr s' \<Longrightarrow> steps t ev s s'"
  unfolding insertTrackerCandidate_def Let_def by (auto intro!: r_into_rtranclp elim!: ins_outbox)

lemma state_candidate_steps: "state_candidate t ev subject ref s = Inr s' \<Longrightarrow> steps t ev s s'"
  unfolding state_candidate_def
  by (auto simp: res split: option.splits if_splits intro: insertTrackerCandidate_steps)

lemma queueMatterStateCandidates_steps:
  "queueMatterStateCandidates t ev subject refs s = Inr s' \<Longrightarrow> steps t ev s s'"
  unfolding queueMatterStateCandidates_def Let_def
  by (auto intro: steps_for_each state_candidate_steps)

lemma queueStageComments_steps: "queueStageComments t ev stage s = Inr s' \<Longrightarrow> steps t ev s s'"
  unfolding queueStageComments_def
  by (auto split: if_splits intro: steps_for_each insertTrackerCandidate_steps)

lemma when_sealed_steps:
  "when_sealed t n act s = Inr s' \<Longrightarrow> (\<And>a b. act a = Inr b \<Longrightarrow> steps t ev a b) \<Longrightarrow> steps t ev s s'"
  unfolding when_sealed_def by (auto simp: res split: if_splits)

lemmas candidate_steps = queueMatterStateCandidates_steps queueStageComments_steps
  insertTrackerCandidate_steps

lemma projectTransitionCandidates_steps [to_steps]:
  "projectTransitionCandidates t ev s = Inr s' \<Longrightarrow> steps t ev s s'"
  unfolding projectTransitionCandidates_def
  by (auto simp: res split: if_splits intro: candidate_steps elim!: when_sealed_steps)

lemma projectGateCandidates_steps [to_steps]:
  assumes "projectGateCandidates t ev s = Inr s'"
  shows "steps t ev s s'"
proof (cases "s' = s")
  case False
  from assms obtain level where
    "(if level = [] \<or> level = TrackerPushOff then Inr s
      else rbind (ParseTrackerPushLevel level) (\<lambda>_. rbind (view_Node s (ev_Subject ev)) (\<lambda>n.
        rbind (if N_Kind n = ScaleMatter
               then when_sealed t n (queueMatterStateCandidates t ev (N_ID n) None) s else Inr s) (\<lambda>s1.
        if level \<noteq> TrackerPushNarrated then Inr s1
        else for_each (\<lambda>st. when_sealed t st (queueStageComments t ev st))
          (if N_Kind n = ScaleMatter then done_stages s1 (N_ID n)
           else if N_Kind n = ScaleStage then [n] else []) s1)))) = Inr s'"
    by (simp only: projectGateCandidates_def rbind_Inr_iff Let_def) blast
  with False obtain n s1 where
    first: "(if N_Kind n = ScaleMatter then when_sealed t n (queueMatterStateCandidates t ev (N_ID n) None) s
       else Inr s) = Inr s1"
    and rest: "(if level \<noteq> TrackerPushNarrated then Inr s1
       else for_each (\<lambda>st. when_sealed t st (queueStageComments t ev st))
         (if N_Kind n = ScaleMatter then done_stages s1 (N_ID n)
          else if N_Kind n = ScaleStage then [n] else []) s1) = Inr s'"
    by (cases "level = [] \<or> level = TrackerPushOff") (auto simp only: rbind_Inr_iff if_True if_False sum.inject)
  from first have "steps t ev s s1"
    by (auto split: if_splits intro: candidate_steps elim!: when_sealed_steps)
  moreover have "for_each (\<lambda>st. when_sealed t st (queueStageComments t ev st)) xs s1 = Inr s'
      \<Longrightarrow> steps t ev s1 s'" for xs
    by (erule steps_for_each) (auto intro: candidate_steps elim!: when_sealed_steps)
  with rest have "steps t ev s1 s'" by (auto simp del: for_each.simps split: if_splits)
  ultimately show ?thesis by (rule steps_trans)
qed simp

lemma projectReferenceCandidates_steps [to_steps]:
  "projectReferenceCandidates t ev s = Inr s' \<Longrightarrow> steps t ev s s'"
  unfolding projectReferenceCandidates_def
  by (auto simp: res split: if_splits prod.splits intro: candidate_steps)

lemma projectAdhocCandidate_steps [to_steps]: "projectAdhocCandidate t ev s = Inr s' \<Longrightarrow> steps t ev s s'"
  unfolding projectAdhocCandidate_def by (auto simp: res intro: candidate_steps)

lemma flush_state_entry_steps: "flush_state_entry ev ref s = Inr s' \<Longrightarrow> steps t ev s s'"
  unfolding flush_state_entry_def
  by (auto simp: res outbox_move_def outbox_edge_def intro!: r_into_rtranclp elim!: upd_outbox)

lemma upsert_push_steps: "upsert_push ev p s = Inr (n, s') \<Longrightarrow> steps t ev s s'"
  unfolding upsert_push_def
  by (auto simp: res push_move_def split: if_splits intro!: r_into_rtranclp elim!: upd_push ins_push)

lemma recordTrackerStatePush_steps [to_steps]: "recordTrackerStatePush ev s = Inr s' \<Longrightarrow> steps t ev s s'"
  unfolding recordTrackerStatePush_def
  by (auto simp: res dest!: upsert_push_steps[of ev _ _ _ _ t] flush_state_entry_steps[of ev _ _ _ t]
      intro: steps_trans)

lemma recordTrackerStateObserved_steps [to_steps]:
  "recordTrackerStateObserved ev s = Inr s' \<Longrightarrow> steps t ev s s'"
  unfolding recordTrackerStateObserved_def by (auto simp: res intro: flush_state_entry_steps)

lemma recordTrackerItemCreated_steps [to_steps]:
  assumes "recordTrackerItemCreated t ev s = Inr s'"
  shows "steps t ev s s'"
proof -
  from assms obtain e :: outbox_row and s1 n where
    upd: "update_outbox (creatable ev) (\<lambda>r. r\<lparr>o_state := ''flushed'', o_reason := [],
       o_attempts := o_attempts r + 1, o_last := ev_ID ev\<rparr>) s = Inr (n, s1)"
    and rest: "(case json_extract ''backlog'' (o_payload e) of None \<Rightarrow> Inr s1
       | Some backlog \<Rightarrow> one_row (update_backlog t
         (\<lambda>r. b_id r = backlog \<and> b_repo r = ev_Repo ev \<and> b_state r = ''delegated'' \<and> b_outbox r = Some (ev_Subject ev))
         (\<lambda>r. r\<lparr>b_last := ev_ID ev\<rparr>) s1)) = Inr s'"
    by (simp only: recordTrackerItemCreated_def res) blast
  from upd have "stmt t ev s s1"
    by (rule upd_outbox) (auto simp: outbox_move_def outbox_edge_def creatable_def)
  moreover from rest have "steps t ev s1 s'"
    by (auto simp: res backlog_move_def split: option.splits intro!: r_into_rtranclp elim!: upd_backlog)
  ultimately show ?thesis by (rule converse_rtranclp_into_rtranclp)
qed

lemma outbox_rules_steps [to_steps]:
  "approveOutbox ev s = Inr s' \<Longrightarrow> steps t ev s s'"
  "declineOutbox ev s = Inr s' \<Longrightarrow> steps t ev s s'"
  "withholdOutbox ev s = Inr s' \<Longrightarrow> steps t ev s s'"
  "failOutbox ev s = Inr s' \<Longrightarrow> steps t ev s s'"
  "retryOutbox ev s = Inr s' \<Longrightarrow> steps t ev s s'"
  "flushOutboxComment ev s = Inr s' \<Longrightarrow> steps t ev s s'"
  unfolding approveOutbox_def declineOutbox_def withholdOutbox_def failOutbox_def retryOutbox_def
    flushOutboxComment_def
  by (auto simp: res outbox_move_def outbox_edge_def intro!: r_into_rtranclp elim!: upd_outbox)

section \<open>Tiers, batches, runs, dispatches, roles\<close>

lemma tier_rules_steps [to_steps]:
  "insertRepo ev s = Inr s' \<Longrightarrow> steps t ev s s'"
  "insertClone t ev s = Inr s' \<Longrightarrow> steps t ev s s'"
  "insertWorktree t ev s = Inr s' \<Longrightarrow> steps t ev s s'"
  "adoptRepoKey ev s = Inr s' \<Longrightarrow> steps t ev s s'"
  "relinkClone ev s = Inr s' \<Longrightarrow> steps t ev s s'"
  "labelClone ev s = Inr s' \<Longrightarrow> steps t ev s s'"
  "moveCursor t ev s = Inr s' \<Longrightarrow> steps t ev s s'"
  unfolding insertRepo_def insertClone_def insertWorktree_def adoptRepoKey_def relinkClone_def
    labelClone_def moveCursor_def
  by (auto simp: res repo_move_def clone_move_def intro!: r_into_rtranclp
      elim!: ins_repos ins_clones ins_worktrees upd_repos upd_clones ups_cursor)

lemma insertBatch_steps [to_steps]:
  assumes "insertBatch t ev s = Inr s'"
  shows "steps t ev s s'"
proof -
  from assms obtain b s1 where ins: "insert_batch_row t b s = Inr s1" "ba_last b = ev_ID ev"
    and rest: "s' = s1 \<or> (\<exists>m. insert_member t m s1 = Inr s' \<and> m_last m = ev_ID ev \<and> m_left m = None)"
    by (fastforce simp: insertBatch_def res split: if_splits)
  from ins have "stmt t ev s s1" by (rule ins_batch)
  moreover from rest have "steps t ev s1 s'" by (auto intro: ins_member)
  ultimately show ?thesis by (rule converse_rtranclp_into_rtranclp)
qed

lemma batch_rules_steps [to_steps]:
  "joinBatch t ev s = Inr s' \<Longrightarrow> steps t ev s s'"
  "leaveBatch ev s = Inr s' \<Longrightarrow> steps t ev s s'"
  unfolding joinBatch_def leaveBatch_def
  by (auto simp: res member_move_def split: if_splits prod.splits intro!: r_into_rtranclp
      elim!: ins_member upd_members)

lemma close_batch_step: "close_batch ev reason s = Inr s' \<Longrightarrow> stmt t ev s s'"
  unfolding close_batch_def by (auto simp: res batch_move_def elim!: upd_batches)

lemma dismissBatch_steps [to_steps]: "dismissBatch ev s = Inr s' \<Longrightarrow> steps t ev s s'"
  unfolding dismissBatch_def by (auto simp: res intro: close_batch_step)

lemma reap_role_move: "role_state r = ''open'' \<Longrightarrow> role_move ev r (reap_role ev r)"
  by (simp add: role_move_def reap_role_def)

text \<open>Reaping every open role bound to a set of dispatches leaves none open there.\<close>

lemma reaped_none_open:
  assumes "update_roles p (reap_role ev) s = Inr (n, s1)"
    and "\<And>r. role_dispatch r = d \<Longrightarrow> role_state r = ''open'' \<Longrightarrow> p r"
  shows "\<not> open_role_on s1 d"
  using assms by (auto simp: update_roles_def res open_role_on_def list_ex_iff rows reap_role_def)

lemma sweepBatch_steps [to_steps]:
  assumes "sweepBatch ev s = Inr s'"
  shows "steps t ev s s'"
proof -
  let ?b = "ev_Subject ev"
  from assms obtain n1 s1 n2 s2 n3 s3 where
    roles: "update_roles (\<lambda>r. role_state r = ''open'' \<and> list_ex (\<lambda>d. di_id d = role_dispatch r
        \<and> di_state d = ''open'' \<and> run_of_batch s ?b (di_run d)) (dispatches s)) (reap_role ev) s = Inr (n1, s1)"
    and disp: "update_dispatches (\<lambda>d. di_state d = ''open'' \<and> run_of_batch s1 ?b (di_run d))
        (\<lambda>d. d\<lparr>di_state := ''closed'', di_close_reason := Some ''reaped'',
               di_closed_at := Some (ev_OccurredAt ev), di_last := ev_ID ev\<rparr>) s1 = Inr (n2, s2)"
    and runs: "update_runs (\<lambda>r. ru_state r = ''open'' \<and> ru_batch r = ?b)
        (\<lambda>r. r\<lparr>ru_state := ''closed'', ru_close_reason := Some ''reaped'',
               ru_closed_at := Some (ev_OccurredAt ev), ru_last := ev_ID ev\<rparr>) s2 = Inr (n3, s3)"
    and close: "close_batch ev ''swept'' s3 = Inr s'"
    by (auto simp: sweepBatch_def res)
  have a: "stmt t ev s s1" using roles by (rule upd_roles) (auto intro: reap_role_move)
  have same: "dispatches s1 = dispatches s" "runs s1 = runs s"
    using roles by (auto simp: update_roles_def res)
  have none: "\<not> open_role_on s1 (di_id d)"
    if "d \<in> set (dispatches s)" "di_state d = ''open''" "run_of_batch s1 ?b (di_run d)" for d
  proof (rule reaped_none_open[OF roles])
    fix r assume "role_dispatch r = di_id d" "role_state r = ''open''"
    moreover have "run_of_batch s ?b (di_run d)" using that same by (simp add: run_of_batch_def split: option.splits)
    ultimately show "role_state r = ''open'' \<and> list_ex (\<lambda>d. di_id d = role_dispatch r
        \<and> di_state d = ''open'' \<and> run_of_batch s ?b (di_run d)) (dispatches s)"
      using that by (auto simp: list_ex_iff intro!: bexI[of _ d])
  qed
  have b: "stmt t ev s1 s2"
  proof (rule upd_dispatches)
    let ?p = "\<lambda>d. d \<in> set (dispatches s1) \<and> di_state d = ''open'' \<and> run_of_batch s1 ?b (di_run d)"
    let ?f = "\<lambda>d. d\<lparr>di_state := ''closed'', di_close_reason := Some ''reaped'',
               di_closed_at := Some (ev_OccurredAt ev), di_last := ev_ID ev\<rparr>"
    have cong: "upd_rows ?p ?f (dispatches s1)
        = upd_rows (\<lambda>d. di_state d = ''open'' \<and> run_of_batch s1 ?b (di_run d)) ?f (dispatches s1)"
      by (simp add: upd_rows_def)
    show "update_dispatches ?p ?f s1 = Inr (hits ?p (dispatches s1), s2)"
      using disp cong by (auto simp: update_dispatches_def res list_all_iff)
    show "dispatch_move ev d (?f d) \<and> \<not> open_role_on s1 (di_id d)" if "?p d" for d
      using that none same by (simp add: dispatch_move_def)
  qed
  have c: "stmt t ev s2 s3" using runs by (rule upd_runs) (simp add: run_move_def)
  have d: "stmt t ev s3 s'" using close by (rule close_batch_step)
  show ?thesis by (rule step_cons, rule a, rule step_cons, rule b, rule step_cons, rule c, rule step_one, rule d)
qed

lemma contention_Inr: "contention i u = Inr s \<longleftrightarrow> u = Inr s"
  by (auto simp: contention_def split: sum.splits error.splits sql_error.splits)

lemma role_contention_Inr: "role_contention u = Inr s \<longleftrightarrow> u = Inr s"
  by (auto simp: role_contention_def split: sum.splits error.splits sql_error.splits)

lemma openDispatch_steps [to_steps]: "openDispatch t ev s = Inr s' \<Longrightarrow> steps t ev s s'"
  unfolding openDispatch_def
  by (auto simp: res contention_Inr intro!: r_into_rtranclp elim!: ins_dispatch)

lemma closeDispatch_steps [to_steps]:
  assumes "closeDispatch ev s = Inr s'"
  shows "steps t ev s s'"
proof -
  from assms obtain p :: DispatchClosed and n1 s1 n2 where
    roles: "update_roles (\<lambda>r. role_state r = ''open'' \<and> role_dispatch r = ev_Subject ev)
        (reap_role ev) s = Inr (n1, s1)"
    and disp: "update_dispatches (\<lambda>q. di_id q = ev_Subject ev \<and> di_state q = ''open'')
          (\<lambda>q. q\<lparr>di_state := ''closed'', di_close_reason := Some (dx_Reason p),
                 di_closed_at := Some (ev_OccurredAt ev), di_last := ev_ID ev\<rparr>) s1 = Inr (n2, s')"
    by (auto simp: closeDispatch_def res)
  have "stmt t ev s s1" using roles by (rule upd_roles) (auto intro: reap_role_move)
  moreover have "stmt t ev s1 s'"
    using disp by (rule upd_dispatches)
      (use reaped_none_open[OF roles] in \<open>auto simp: dispatch_move_def\<close>)
  ultimately show ?thesis by (metis step_cons step_one)
qed

lemma startRun_steps [to_steps]:
  assumes "startRun t ev s = Inr s'"
  shows "steps t ev s s'"
proof -
  from assms obtain p :: RunStarted and r s1 where ins: "insert_run_row t r s = Inr s1" "ru_last r = ev_ID ev"
      "ru_state r = ''open''"
    and rest: "for_each (freeze_matter t ev) (enumerate 0 (rs_Matters p)) s1 = Inr s'"
    by (fastforce simp: startRun_def res)
  from ins have "stmt t ev s s1" by (rule ins_run)
  moreover from rest have "steps t ev s1 s'"
    by (rule steps_for_each) (auto simp: freeze_matter_def intro: ins_run_matter)
  ultimately show ?thesis by (rule converse_rtranclp_into_rtranclp)
qed

lemma close_run_steps: "close_run ev reason s = Inr s' \<Longrightarrow> steps t ev s s'"
  unfolding close_run_def by (auto simp: res run_move_def intro!: r_into_rtranclp elim!: upd_runs)

lemma run_rules_steps [to_steps]:
  "finishRun ev reason s = Inr s' \<Longrightarrow> steps t ev s s'"
  "standDownRun ev s = Inr s' \<Longrightarrow> steps t ev s s'"
  "validateRunSkipped ev s = Inr s' \<Longrightarrow> steps t ev s s'"
  "resumeRun ev s = Inr s' \<Longrightarrow> steps t ev s s'"
  unfolding finishRun_def standDownRun_def validateRunSkipped_def resumeRun_def
  by (auto simp: res intro: close_run_steps)

lemma spawnRole_steps [to_steps]: "spawnRole t ev s = Inr s' \<Longrightarrow> steps t ev s s'"
  unfolding spawnRole_def
  by (auto simp: res role_contention_Inr open_dispatch_def list_ex_iff dest!: find_Some_iff_mem
      intro!: r_into_rtranclp elim!: ins_role)

lemma closeRole_steps [to_steps]: "closeRole ev s = Inr s' \<Longrightarrow> steps t ev s s'"
  unfolding closeRole_def
  by (auto simp: res role_move_def split: prod.splits intro!: r_into_rtranclp elim!: upd_roles)

section \<open>The whole projection\<close>

theorem applyEvent_steps: "applyEvent t ev s = Inr s' \<Longrightarrow> steps t ev s s'"
  unfolding applyEvent_def Let_def
  by (simp only: rbind_Inr_iff split: if_splits)
    ((elim exE conjE)?, (erule to_steps | (rule steps_trans, erule to_steps, assumption?, erule to_steps) | simp))+

end
