(* ===== verification/Schema.thy ===== *)
theory Schema
  imports Steps
begin

text \<open>
  What the store's tables satisfy at every point of its life. \<open>refs_ok\<close> are the
  foreign keys between projection tables, \<open>keys_ok\<close> the primary keys and unique
  indexes, \<open>checks_ok\<close> the CHECK constraints, \<open>tree_ok\<close> the shape of the node tree.
  Each is a statement invariant: it holds of the empty database and every
  statement of the projection keeps it, hence so does every event
  (\<open>statement_invariant\<close>). The order-like facts (nothing is ever deleted, a
  tombstone is for ever) are reflexive and transitive relations that every
  statement satisfies (\<open>statement_order\<close>).
\<close>

section \<open>Invariants and orders of the projection\<close>

locale statement_invariant =
  fixes I :: "db \<Rightarrow> bool"
  assumes init: "I empty_db"
    and step: "stmt t ev s s' \<Longrightarrow> \<not> tx_defer t \<Longrightarrow> I s \<Longrightarrow> I s'"
begin

lemma steps_keep: "steps t ev s s' \<Longrightarrow> \<not> tx_defer t \<Longrightarrow> I s \<Longrightarrow> I s'"
  by (induction rule: rtranclp_induct) (auto dest: step)

lemma event_keeps: "applyEvent t ev s = Inr s' \<Longrightarrow> \<not> tx_defer t \<Longrightarrow> I s \<Longrightarrow> I s'"
  by (blast intro: steps_keep applyEvent_steps)

end

locale statement_order =
  fixes R :: "db \<Rightarrow> db \<Rightarrow> bool"
  assumes refl: "R s s"
    and trans: "R a b \<Longrightarrow> R b c \<Longrightarrow> R a c"
    and step: "stmt t ev s s' \<Longrightarrow> R s s'"
begin

lemma steps_order: "steps t ev s s' \<Longrightarrow> R s s'"
  by (induction rule: rtranclp_induct) (auto intro: refl trans step)

lemma event_order: "applyEvent t ev s = Inr s' \<Longrightarrow> R s s'"
  by (blast intro: steps_order applyEvent_steps)

end

section \<open>Identities are never lost\<close>

lemmas statements = insert_repos_def update_repos_def insert_clones_def update_clones_def
  insert_worktrees_def insert_nodes_def update_nodes_def insert_content_def insert_edges_def
  update_edges_def insert_gate_state_def insert_gate_declarations_def insert_gate_exemptions_def
  upsert_config_def insert_backlog_def update_backlog_def insert_outbox_def update_outbox_def
  insert_reference_def update_references_def insert_push_def update_push_def insert_batch_row_def
  update_batches_def insert_member_def update_members_def insert_run_row_def update_runs_def
  insert_run_matter_def insert_dispatch_def update_dispatches_def insert_role_def update_roles_def
  upsert_cursor_def

text \<open>An upsert is an update of the conflicting row or an insert.\<close>

lemma upsert_config_cases:
  assumes "upsert_config t c s = Inr (n, s')"
  obtains (upd) "s' = s\<lparr>config := upd_rows (\<lambda>q. cf_repo q = cf_repo c \<and> cf_key q = cf_key c)
      (\<lambda>q. q\<lparr>cf_value := cf_value c\<rparr>) (config s)\<rparr>"
  | (ins) "s' = s\<lparr>config := config s @ [c]\<rparr>" "fk t (has_id r_id (repos s) (cf_repo c))"
      "no_row (\<lambda>q. cf_repo q = cf_repo c \<and> cf_key q = cf_key c) (config s)"
proof (cases "list_ex (\<lambda>q. cf_repo q = cf_repo c \<and> cf_key q = cf_key c) (config s)")
  case True
  then show thesis by (intro upd) (use assms in \<open>simp add: upsert_config_def Let_def\<close>)
next
  case False
  then show thesis by (intro ins) (use assms in \<open>simp_all add: upsert_config_def res no_row_def\<close>)
qed

lemma upsert_cursor_cases:
  assumes "upsert_cursor t c s = Inr s'"
  obtains (upd) "s' = s\<lparr>cursors := upd_rows (\<lambda>q. cu_clone q = cu_clone c \<and> cu_worktree q = cu_worktree c)
      (\<lambda>q. q\<lparr>cu_node := cu_node c, cu_last := cu_last c\<rparr>) (cursors s)\<rparr>"
      "fk t (has_id c_id (clones s) (cu_clone c))" "fk t (has_id w_id (worktrees s) (cu_worktree c))"
      "fk t (opt_ref (has_id n_id (nodes s)) (cu_node c))"
  | (ins) "s' = s\<lparr>cursors := cursors s @ [c]\<rparr>"
      "fk t (has_id c_id (clones s) (cu_clone c))" "fk t (has_id w_id (worktrees s) (cu_worktree c))"
      "fk t (opt_ref (has_id n_id (nodes s)) (cu_node c))"
      "no_row (\<lambda>q. cu_clone q = cu_clone c \<and> cu_worktree q = cu_worktree c) (cursors s)"
proof (cases "list_ex (\<lambda>q. cu_clone q = cu_clone c \<and> cu_worktree q = cu_worktree c) (cursors s)")
  case True
  then show thesis by (intro upd) (use assms in \<open>simp_all add: upsert_cursor_def res\<close>)
next
  case False
  then show thesis by (intro ins) (use assms in \<open>simp_all add: upsert_cursor_def res no_row_def\<close>)
qed

definition grows :: "db \<Rightarrow> db \<Rightarrow> bool" where
  "grows s s' \<longleftrightarrow>
     r_id ` set (repos s) \<subseteq> r_id ` set (repos s')
   \<and> c_id ` set (clones s) \<subseteq> c_id ` set (clones s')
   \<and> w_id ` set (worktrees s) \<subseteq> w_id ` set (worktrees s')
   \<and> n_id ` set (nodes s) \<subseteq> n_id ` set (nodes s')
   \<and> ba_id ` set (batches s) \<subseteq> ba_id ` set (batches s')
   \<and> ru_id ` set (runs s) \<subseteq> ru_id ` set (runs s')
   \<and> di_id ` set (dispatches s) \<subseteq> di_id ` set (dispatches s')
   \<and> set (gate_declarations s) \<subseteq> set (gate_declarations s')"

lemma stmt_grows: "stmt t ev s s' \<Longrightarrow> grows s s'"
  by (erule stmt.cases) (auto simp: statements grows_def res upd_rows_keeps moves Let_def split: if_splits)

interpretation growth: statement_order grows
proof unfold_locales
  show "grows a c" if "grows a b" "grows b c" for a b c
    using that unfolding grows_def by (elim conjE, intro conjI) (erule (1) order_trans)+
  show "grows s s" for s by (simp add: grows_def)
qed (rule stmt_grows)

section \<open>Foreign keys\<close>

text \<open>The foreign keys of every table, read in the database \<open>d\<close>.\<close>

definition node_refs :: "db \<Rightarrow> node_row \<Rightarrow> bool" where
  "node_refs d r = (has_id r_id (repos d) (n_repo r) \<and> has_id n_id (nodes d) (n_matter r)
     \<and> opt_ref (has_id n_id (nodes d)) (n_parent r))"

definition exemption_refs :: "db \<Rightarrow> exemption_row \<Rightarrow> bool" where
  "exemption_refs d x = (has_id r_id (repos d) (x_repo x) \<and> has_id n_id (nodes d) (x_node x)
     \<and> list_ex (\<lambda>e. d_repo e = x_repo x \<and> d_gate e = x_gate x) (gate_declarations d))"

definition backlog_refs :: "db \<Rightarrow> backlog_row \<Rightarrow> bool" where
  "backlog_refs d b = (has_id r_id (repos d) (b_repo b) \<and> opt_ref (has_id n_id (nodes d)) (b_origin_node b)
     \<and> opt_ref (has_id n_id (nodes d)) (b_matter b))"

definition dispatch_refs :: "db \<Rightarrow> dispatch_row \<Rightarrow> bool" where
  "dispatch_refs d r = (has_id c_id (clones d) (di_clone r) \<and> has_id w_id (worktrees d) (di_worktree r)
     \<and> opt_ref (has_id ru_id (runs d)) (di_run r) \<and> opt_ref (has_id n_id (nodes d)) (di_matter r))"

definition cursor_refs :: "db \<Rightarrow> cursor_row \<Rightarrow> bool" where
  "cursor_refs d r = (has_id c_id (clones d) (cu_clone r) \<and> has_id w_id (worktrees d) (cu_worktree r)
     \<and> opt_ref (has_id n_id (nodes d)) (cu_node r))"

definition refs_in :: "db \<Rightarrow> db \<Rightarrow> bool" where
  "refs_in d s \<longleftrightarrow>
     list_all (\<lambda>r. has_id r_id (repos d) (c_repo r)) (clones s)
   \<and> list_all (\<lambda>r. has_id c_id (clones d) (w_clone r)) (worktrees s)
   \<and> list_all (node_refs d) (nodes s)
   \<and> list_all (\<lambda>r. has_id n_id (nodes d) (e_blocked r) \<and> has_id n_id (nodes d) (e_blocker r)) (edges s)
   \<and> list_all (\<lambda>r. has_id n_id (nodes d) (g_node r)) (gate_state s)
   \<and> list_all (\<lambda>r. has_id r_id (repos d) (d_repo r)) (gate_declarations s)
   \<and> list_all (exemption_refs d) (gate_exemptions s)
   \<and> list_all (\<lambda>r. has_id r_id (repos d) (cf_repo r)) (config s)
   \<and> list_all (backlog_refs d) (backlog_entries s)
   \<and> list_all (\<lambda>r. has_id r_id (repos d) (o_repo r)) (outbox_entries s)
   \<and> list_all (\<lambda>r. has_id n_id (nodes d) (t_matter r)) (tracker_references s)
   \<and> list_all (\<lambda>r. opt_ref (has_id n_id (nodes d)) (ba_matter r)) (batches s)
   \<and> list_all (\<lambda>r. has_id ba_id (batches d) (m_batch r) \<and> has_id n_id (nodes d) (m_matter r)) (batch_members s)
   \<and> list_all (\<lambda>r. has_id c_id (clones d) (ru_clone r) \<and> has_id ba_id (batches d) (ru_batch r)) (runs s)
   \<and> list_all (\<lambda>r. has_id ru_id (runs d) (rmt_run r) \<and> has_id n_id (nodes d) (rmt_matter r)) (run_matters s)
   \<and> list_all (dispatch_refs d) (dispatches s)
   \<and> list_all (\<lambda>r. has_id c_id (clones d) (role_clone r) \<and> has_id di_id (dispatches d) (role_dispatch r)) (roles s)
   \<and> list_all (cursor_refs d) (cursors s)"

definition refs_ok :: "db \<Rightarrow> bool" where
  "refs_ok s = refs_in s s"

lemmas ref_defs = node_refs_def exemption_refs_def backlog_refs_def dispatch_refs_def cursor_refs_def

lemma has_id_iff: "has_id k rs x \<longleftrightarrow> x \<in> k ` set rs"
  by (auto simp: has_id_def list_ex_iff)

lemma has_id_snoc [simp]: "has_id k (rs @ [r]) x \<longleftrightarrow> x = k r \<or> has_id k rs x"
  by (auto simp: has_id_def)

lemma opt_ref_mono: "(\<And>x. p x \<Longrightarrow> q x) \<Longrightarrow> opt_ref p v \<Longrightarrow> opt_ref q v"
  by (auto simp: opt_ref_def split: option.splits)

lemma has_id_grows:
  assumes "grows d d'"
  shows "has_id r_id (repos d) x \<Longrightarrow> has_id r_id (repos d') x"
    "has_id c_id (clones d) x \<Longrightarrow> has_id c_id (clones d') x"
    "has_id w_id (worktrees d) x \<Longrightarrow> has_id w_id (worktrees d') x"
    "has_id n_id (nodes d) x \<Longrightarrow> has_id n_id (nodes d') x"
    "has_id ba_id (batches d) x \<Longrightarrow> has_id ba_id (batches d') x"
    "has_id ru_id (runs d) x \<Longrightarrow> has_id ru_id (runs d') x"
    "has_id di_id (dispatches d) x \<Longrightarrow> has_id di_id (dispatches d') x"
    "list_ex P (gate_declarations d) \<Longrightarrow> list_ex P (gate_declarations d')"
  using assms unfolding grows_def has_id_iff list_ex_iff
  by - ((elim conjE, erule (1) subsetD)+, elim conjE bexE, rule bexI, assumption, erule (1) subsetD)

lemma row_refs_grow:
  assumes "grows d d'"
  shows "node_refs d n \<Longrightarrow> node_refs d' n" "exemption_refs d x \<Longrightarrow> exemption_refs d' x"
    "backlog_refs d b \<Longrightarrow> backlog_refs d' b" "dispatch_refs d r \<Longrightarrow> dispatch_refs d' r"
    "cursor_refs d c \<Longrightarrow> cursor_refs d' c"
  unfolding ref_defs
  by (simp_all add: has_id_grows[OF assms] opt_ref_mono[OF has_id_grows(4)[OF assms]]
      opt_ref_mono[OF has_id_grows(6)[OF assms]])

lemma refs_in_grows:
  assumes g: "grows d d'" and "refs_in d s"
  shows "refs_in d' s"
  using assms(2) unfolding refs_in_def list_all_iff
  by (elim conjE, intro conjI)
    (simp add: has_id_grows[OF g] row_refs_grow[OF g] opt_ref_mono[OF has_id_grows(4)[OF g]])+

lemma list_all_upd_rows:
  "list_all P rs \<Longrightarrow> (\<And>r. r \<in> set rs \<Longrightarrow> p r \<Longrightarrow> P r \<Longrightarrow> P (f r)) \<Longrightarrow> list_all P (upd_rows p f rs)"
  by (auto simp: list_all_iff rows)

lemma refs_in_set:
  assumes "refs_in d s"
  shows "list_all (node_refs d) ns \<Longrightarrow> refs_in d (s\<lparr>nodes := ns\<rparr>)"
    "list_all (\<lambda>r. has_id r_id (repos d) (cf_repo r)) cs \<Longrightarrow> refs_in d (s\<lparr>config := cs\<rparr>)"
    "list_all (backlog_refs d) bs \<Longrightarrow> refs_in d (s\<lparr>backlog_entries := bs\<rparr>)"
    "list_all (\<lambda>r. has_id r_id (repos d) (o_repo r)) os \<Longrightarrow> refs_in d (s\<lparr>outbox_entries := os\<rparr>)"
    "list_all (dispatch_refs d) ds \<Longrightarrow> refs_in d (s\<lparr>dispatches := ds\<rparr>)"
    "list_all (cursor_refs d) us \<Longrightarrow> refs_in d (s\<lparr>cursors := us\<rparr>)"
  using assms by (simp_all add: refs_in_def)

lemma refs_in_rows:
  assumes "refs_in d s"
  shows "list_all (node_refs d) (nodes s)" "list_all (\<lambda>r. has_id r_id (repos d) (cf_repo r)) (config s)"
    "list_all (backlog_refs d) (backlog_entries s)"
    "list_all (\<lambda>r. has_id r_id (repos d) (o_repo r)) (outbox_entries s)"
    "list_all (dispatch_refs d) (dispatches s)" "list_all (cursor_refs d) (cursors s)"
  using assms by (simp_all add: refs_in_def)

lemma refs_ok_step:
  assumes "stmt t ev s s'" "\<not> tx_defer t" "refs_ok s"
  shows "refs_ok s'"
proof -
  have old: "refs_in s' s"
    using assms(3) refs_in_grows[OF stmt_grows[OF assms(1)]] by (simp add: refs_ok_def)
  note tables = refs_in_rows[OF old] and set = refs_in_set[OF old]
  have "refs_in s' s'" using assms(1)
  proof cases
    case (ins_nodes r)
    then have "s' = s\<lparr>nodes := nodes s @ [r]\<rparr>" "node_refs s' r"
      using assms(2) by (auto simp: insert_nodes_def res fk_def node_refs_def opt_ref_def split: option.splits)
    then show ?thesis using set(1)[of "nodes s @ [r]"] tables(1) by simp
  next
    case (upd_nodes p f n)
    then have "s' = s\<lparr>nodes := upd_rows p f (nodes s)\<rparr>" by (simp add: update_nodes_def res)
    moreover have "list_all (node_refs s') (upd_rows p f (nodes s))"
      using tables(1) upd_nodes(2) by (intro list_all_upd_rows) (auto simp: node_refs_def node_move_def)
    ultimately show ?thesis using set(1) by simp
  next
    case (ups_config c n)
    then show ?thesis using old tables(2) assms(2)
      by (elim upsert_config_cases) (auto simp: fk_def intro!: refs_in_set(2) list_all_upd_rows)
  next
    case (upd_backlog p f n)
    then have "s' = s\<lparr>backlog_entries := upd_rows p f (backlog_entries s)\<rparr>"
      and "list_all (\<lambda>r. p r \<longrightarrow> opt_ref (has_id n_id (nodes s)) (b_matter (f r))) (backlog_entries s)"
      using assms(2) by (simp_all add: update_backlog_def res fk_def)
    moreover from this have "list_all (backlog_refs s') (upd_rows p f (backlog_entries s))"
      using tables(3) upd_backlog(2)
      by (intro list_all_upd_rows) (auto simp: backlog_refs_def backlog_move_def list_all_iff)
    ultimately show ?thesis using set(3) by simp
  next
    case (upd_outbox p f n)
    then have "s' = s\<lparr>outbox_entries := upd_rows p f (outbox_entries s)\<rparr>" by (simp add: update_outbox_def res)
    moreover have "list_all (\<lambda>r. has_id r_id (repos s') (o_repo r)) (upd_rows p f (outbox_entries s))"
      using tables(4) upd_outbox(2) by (intro list_all_upd_rows) (auto simp: outbox_move_def)
    ultimately show ?thesis using set(4) by simp
  next
    case (upd_dispatches p f n)
    then have "s' = s\<lparr>dispatches := upd_rows p f (dispatches s)\<rparr>" by (simp add: update_dispatches_def res)
    moreover have "list_all (dispatch_refs s') (upd_rows p f (dispatches s))"
      using tables(5) upd_dispatches(2) by (intro list_all_upd_rows) (auto simp: dispatch_refs_def dispatch_move_def)
    ultimately show ?thesis using set(5) by simp
  next
    case (ups_cursor c)
    then show ?thesis using old tables(6) assms(2)
      by (elim upsert_cursor_cases) (auto simp: fk_def cursor_refs_def intro!: refs_in_set(6) list_all_upd_rows)
  qed (use old assms(2) in \<open>simp add: statements res fk_def; clarify?;
      simp add: refs_in_def ref_defs list_all_upd_rows moves\<close>)+
  then show ?thesis by (simp add: refs_ok_def)
qed

interpretation references: statement_invariant refs_ok
proof unfold_locales
  show "refs_ok empty_db" by (simp add: refs_ok_def refs_in_def empty_db_def)
qed (rule refs_ok_step)

section \<open>Primary keys and unique indexes\<close>

text \<open>A unique index over the rows that satisfy \<open>on\<close>.\<close>

definition unique_on :: "('r \<Rightarrow> bool) \<Rightarrow> ('r \<Rightarrow> 'k) \<Rightarrow> 'r list \<Rightarrow> bool" where
  "unique_on on k rs = distinct (map k (filter on rs))"

definition keys_ok :: "db \<Rightarrow> bool" where
  "keys_ok s \<longleftrightarrow>
     distinct (map r_id (repos s)) \<and> distinct (map c_id (clones s)) \<and> distinct (map w_id (worktrees s))
   \<and> distinct (map n_id (nodes s))
   \<and> unique_on n_live (\<lambda>r. (n_matter r, n_locator r)) (nodes s)
   \<and> distinct (map ct_id (content s)) \<and> unique_on create_once (\<lambda>r. (ct_node r, ct_kind r)) (content s)
   \<and> distinct (map e_id (edges s))
   \<and> unique_on (\<lambda>r. e_tombstone r = None) (\<lambda>r. (e_blocked r, e_blocker r)) (edges s)
   \<and> distinct (map (\<lambda>r. (g_node r, g_gate r)) (gate_state s))
   \<and> distinct (map (\<lambda>r. (d_repo r, d_gate r)) (gate_declarations s)) \<and> distinct (gate_exemptions s)
   \<and> distinct (map (\<lambda>r. (cf_repo r, cf_key r)) (config s))
   \<and> distinct (map b_id (backlog_entries s)) \<and> distinct (map o_id (outbox_entries s))
   \<and> distinct (map o_key (outbox_entries s))
   \<and> distinct (map (\<lambda>r. (t_matter r, t_ref r)) (tracker_references s))
   \<and> distinct (map p_ref (tracker_push_records s))
   \<and> distinct (map ba_id (batches s)) \<and> distinct (map (\<lambda>r. (m_batch r, m_matter r)) (batch_members s))
   \<and> distinct (map ru_id (runs s)) \<and> distinct (map (\<lambda>r. (ru_batch r, ru_locator r)) (runs s))
   \<and> distinct (map (\<lambda>r. (rmt_run r, rmt_matter r)) (run_matters s))
   \<and> distinct (map di_id (dispatches s)) \<and> unique_on di_claim di_matter (dispatches s)
   \<and> distinct (map role_id (roles s))
   \<and> unique_on (\<lambda>r. role_state r = ''open'') (\<lambda>r. (role_dispatch r, role_name r)) (roles s)
   \<and> distinct (map (\<lambda>r. (cu_clone r, cu_worktree r)) (cursors s))"

lemma unique_on_snoc:
  "unique_on on k rs \<Longrightarrow> no_row (\<lambda>q. on q \<and> on r \<and> k q = k r) rs \<Longrightarrow> unique_on on k (rs @ [r])"
  by (auto simp: unique_on_def no_row_def list_ex_iff)

lemma distinct_snoc:
  "distinct (map k rs) \<Longrightarrow> no_row (\<lambda>q. k q = k r) rs \<Longrightarrow> distinct (map k (rs @ [r]))"
  by (auto simp: no_row_def list_ex_iff)

lemma unique_on_upd_rows:
  assumes "unique_on on k rs" "\<And>r. p r \<Longrightarrow> on (f r) \<Longrightarrow> on r \<and> k (f r) = k r"
  shows "unique_on on k (upd_rows p f rs)"
proof -
  have sub: "k ` set (filter on (upd_rows p f rs)) \<subseteq> k ` set (filter on rs)" for rs
    using assms(2) by (auto simp: rows)
  show ?thesis using assms(1) unfolding unique_on_def
  proof (induction rs)
    case (Cons r rs)
    then show ?case using sub[of rs] assms(2)[of r] by (auto split: if_splits)
  qed simp
qed

lemma unique_onD:
  "unique_on on k rs \<Longrightarrow> a \<in> set rs \<Longrightarrow> b \<in> set rs \<Longrightarrow> on a \<Longrightarrow> on b \<Longrightarrow> k a = k b \<Longrightarrow> a = b"
  by (auto simp: unique_on_def distinct_map inj_on_def)

lemma distinct_mapD: "distinct (map k rs) \<Longrightarrow> a \<in> set rs \<Longrightarrow> b \<in> set rs \<Longrightarrow> k a = k b \<Longrightarrow> a = b"
  by (auto simp: distinct_map inj_on_def)

lemma upd_rows_distinct:
  "distinct (map k rs) \<Longrightarrow> (\<And>r. p r \<Longrightarrow> k (f r) = k r) \<Longrightarrow> distinct (map k (upd_rows p f rs))"
  by (simp add: map_upd_rows)

lemmas key_rules = unique_on_snoc distinct_snoc unique_on_upd_rows upd_rows_distinct

lemma keys_ok_step:
  assumes "stmt t ev s s'" and keys: "keys_ok s"
  shows "keys_ok s'"
  using assms(1)
proof cases
  case (ins_exemption x)
  then have "s' = s\<lparr>gate_exemptions := gate_exemptions s @ [x]\<rparr>" "no_row (\<lambda>q. q = x) (gate_exemptions s)"
    by (simp_all add: insert_gate_exemptions_def res)
  then show ?thesis using keys by (simp add: keys_ok_def no_row_def list_ex_iff)
next
  case (ups_config c n)
  then show ?thesis using keys
    by (elim upsert_config_cases) (simp_all add: keys_ok_def key_rules del: map_append)
next
  case (upd_dispatches p f n)
  then have "s' = s\<lparr>dispatches := upd_rows p f (dispatches s)\<rparr>" by (simp add: update_dispatches_def res)
  moreover have "di_id (f r) = di_id r \<and> \<not> di_claim (f r)" if "p r" for r
    using upd_dispatches(2)[OF that] by (simp add: dispatch_move_def di_claim_def)
  moreover from this have "unique_on di_claim di_matter (upd_rows p f (dispatches s))"
    using keys by (intro unique_on_upd_rows) (auto simp: keys_ok_def)
  ultimately show ?thesis using keys by (simp add: keys_ok_def key_rules)
next
  case (ups_cursor c)
  then show ?thesis using keys
    by (elim upsert_cursor_cases) (simp_all add: keys_ok_def key_rules del: map_append)
qed (simp add: statements res; clarify?; use keys in \<open>simp add: keys_ok_def key_rules moves del: map_append\<close>)+

interpretation keys: statement_invariant keys_ok
proof unfold_locales
  show "keys_ok empty_db" by (simp add: keys_ok_def empty_db_def unique_on_def)
qed (rule keys_ok_step)

section \<open>CHECK constraints\<close>

definition checks_ok :: "db \<Rightarrow> bool" where
  "checks_ok s \<longleftrightarrow> list_all node_check (nodes s) \<and> list_all content_check (content s)
     \<and> list_all edge_check (edges s) \<and> list_all backlog_check (backlog_entries s)
     \<and> list_all outbox_check (outbox_entries s) \<and> list_all push_check (tracker_push_records s)
     \<and> list_all batch_check (batches s) \<and> list_all run_check (runs s)
     \<and> list_all dispatch_check (dispatches s) \<and> list_all role_check (roles s)"

lemma list_all_upd_checked:
  "list_all P rs \<Longrightarrow> list_all (\<lambda>r. p r \<longrightarrow> P (f r)) rs \<Longrightarrow> list_all P (upd_rows p f rs)"
  by (auto simp: list_all_iff rows)

lemma checks_ok_step:
  assumes "stmt t ev s s'" and "checks_ok s"
  shows "checks_ok s'"
  using assms(1)
proof cases
  case (ups_config c n)
  then show ?thesis using assms(2) by (elim upsert_config_cases) (simp_all add: checks_ok_def)
next
  case (ups_cursor c)
  then show ?thesis using assms(2) by (elim upsert_cursor_cases) (simp_all add: checks_ok_def)
qed (simp add: statements res; clarify?; use assms(2) in \<open>simp add: checks_ok_def list_all_upd_checked\<close>)+

interpretation checks: statement_invariant checks_ok
proof unfold_locales
  show "checks_ok empty_db" by (simp add: checks_ok_def empty_db_def)
qed (rule checks_ok_step)

section \<open>The node tree\<close>

text \<open>A Matter is a root and its own Matter; any other node hangs under a node of the
  same Matter, a Stage directly under the Matter, a Step under the Matter or a Stage.\<close>

definition under :: "node_row \<Rightarrow> node_row \<Rightarrow> bool" where
  "under r q \<longleftrightarrow> n_parent r = Some (n_id q) \<and> n_matter r = n_matter q
     \<and> (n_kind r = ScaleStage \<and> n_kind q = ScaleMatter
        \<or> n_kind r = ScaleStep \<and> (n_kind q = ScaleMatter \<or> n_kind q = ScaleStage))"

definition placed :: "node_row list \<Rightarrow> node_row \<Rightarrow> bool" where
  "placed ns r \<longleftrightarrow> (n_kind r = ScaleMatter \<and> n_parent r = None \<and> n_matter r = n_id r) \<or> list_ex (under r) ns"

definition tree_ok :: "db \<Rightarrow> bool" where
  "tree_ok s \<longleftrightarrow> list_all (placed (nodes s)) (nodes s)"

lemma placed_snoc: "placed ns r \<Longrightarrow> placed (ns @ [q]) r"
  by (auto simp: placed_def)

lemma placed_upd_rows:
  assumes "placed ns r" "\<And>q. p q \<Longrightarrow> node_move ev q (f q)"
  shows "placed (upd_rows p f ns) r"
proof -
  have "list_ex (under r) (upd_rows p f ns)" if "q \<in> set ns" "under r q" for q
  proof (cases "p q")
    case True
    then have "under r (f q)" using that(2) assms(2)[of q] by (simp add: under_def node_move_def)
    then show ?thesis using True that(1) by (auto simp: list_ex_iff rows)
  qed (use that in \<open>auto simp: list_ex_iff rows\<close>)
  then show ?thesis using assms(1) by (auto simp: placed_def list_ex_iff)
qed

lemma placed_move:
  assumes "node_move ev r r'"
  shows "placed ns r' = placed ns r"
proof -
  have "under r' = under r" using assms by (simp add: fun_eq_iff under_def node_move_def)
  then show ?thesis using assms by (simp add: placed_def node_move_def)
qed

lemma inserted_under:
  assumes "n_parent r = Some (n_id q)" "n_matter r = n_matter q" "q \<in> set (nodes s)"
    "depth_ok s r" "node_check r" "keys_ok s"
  shows "under r q"
proof -
  have "List.find (\<lambda>x. n_id x = n_id q) (nodes s) = Some q"
    using assms(3,6) by (intro find_key) (auto simp: keys_ok_def)
  then have kind: "parent_kind s r = Some (n_kind q)" using assms(1) by (simp add: parent_kind_def)
  have "n_kind r = ScaleStage \<or> n_kind r = ScaleStep"
    using assms(1,5) by (auto simp: node_check_def scale_check_def)
  then show ?thesis using assms(1,2,4) kind by (auto simp: under_def depth_ok_def opt_ref_def)
qed

lemma inserted_placed:
  assumes "inherits s r" "depth_ok s r" "node_check r" "keys_ok s" "tree_ok s"
  shows "placed (nodes s) r"
proof (cases "n_parent r")
  case None
  then show ?thesis using assms(3) by (auto simp: placed_def node_check_def)
next
  case (Some p)
  then have "\<exists>q \<in> set (nodes s). n_parent r = Some (n_id q) \<and> n_matter r = n_matter q"
  proof (cases "\<exists>q \<in> set (nodes s). n_parent r = Some (n_id q) \<and> n_matter r = n_matter q")
    case False
    then obtain q where q: "q \<in> set (nodes s)" "n_parent r = n_parent q" "n_matter r = n_matter q"
      using assms(1) Some by (auto simp: inherits_def)
    then have "placed (nodes s) q" using assms(5) by (simp add: tree_ok_def list_all_iff)
    then show ?thesis using q Some by (auto simp: placed_def list_ex_iff under_def)
  qed
  then show ?thesis using inserted_under[OF _ _ _ assms(2-4)] by (auto simp: placed_def list_ex_iff)
qed

lemma tree_ok_step:
  assumes "stmt t ev s s'" "keys_ok s" and tree: "tree_ok s"
  shows "tree_ok s'"
  using assms(1)
proof cases
  case (ins_nodes r)
  then have "s' = s\<lparr>nodes := nodes s @ [r]\<rparr>" "placed (nodes s) r"
    using inserted_placed assms(2,3) by (auto simp: insert_nodes_def res)
  then show ?thesis using tree by (simp add: tree_ok_def list_all_iff placed_snoc)
next
  case (upd_nodes p f n)
  then have "s' = s\<lparr>nodes := upd_rows p f (nodes s)\<rparr>" by (simp add: update_nodes_def res)
  moreover have "list_all (placed (upd_rows p f (nodes s))) (upd_rows p f (nodes s))"
  proof (rule list_all_upd_rows)
    show "list_all (placed (upd_rows p f (nodes s))) (nodes s)"
      using tree placed_upd_rows[where p = p and f = f, OF _ upd_nodes(2)]
      by (simp add: tree_ok_def list_all_iff)
  qed (simp add: placed_move[OF upd_nodes(2)])
  ultimately show ?thesis by (simp add: tree_ok_def)
next
  case (ups_config c n)
  then show ?thesis using tree by (elim upsert_config_cases) (simp_all add: tree_ok_def)
next
  case (ups_cursor c)
  then show ?thesis using tree by (elim upsert_cursor_cases) (simp_all add: tree_ok_def)
qed (simp add: statements res; clarify?; use tree in \<open>simp add: tree_ok_def\<close>)+

section \<open>Roles and their dispatches\<close>

text \<open>A role never outlives the dispatch it was spawned on.\<close>

definition roles_ok :: "db \<Rightarrow> bool" where
  "roles_ok s \<longleftrightarrow> list_all (\<lambda>r. role_state r = ''open'' \<longrightarrow> open_dispatch s (role_dispatch r)) (roles s)"

lemma roles_ok_step:
  assumes "stmt t ev s s'" and ok: "roles_ok s"
  shows "roles_ok s'"
  using assms(1)
proof cases
  case (ins_dispatch b)
  then show ?thesis using ok
    by (auto simp: insert_dispatch_def res roles_ok_def open_dispatch_def list_all_iff)
next
  case (upd_dispatches p f n)
  then have s': "s' = s\<lparr>dispatches := upd_rows p f (dispatches s)\<rparr>" by (simp add: update_dispatches_def res)
  have "open_dispatch s' (role_dispatch r)" if r: "r \<in> set (roles s)" "role_state r = ''open''" for r
  proof -
    from ok r obtain d where d: "d \<in> set (dispatches s)" "di_id d = role_dispatch r" "di_state d = ''open''"
      by (auto simp: roles_ok_def list_all_iff open_dispatch_def list_ex_iff)
    then have "\<not> p d" using upd_dispatches(2)[of d] r by (auto simp: open_role_on_def list_ex_iff)
    then show ?thesis using d s' by (auto simp: open_dispatch_def list_ex_iff rows)
  qed
  then show ?thesis using s' by (simp add: roles_ok_def list_all_iff)
next
  case (ins_role b)
  then show ?thesis using ok
    by (auto simp: insert_role_def res roles_ok_def open_dispatch_def list_all_iff)
next
  case (upd_roles p f n)
  then have s': "s' = s\<lparr>roles := upd_rows p f (roles s)\<rparr>" by (simp add: update_roles_def res)
  have "role_state (f r) \<noteq> ''open''" if "p r" for r using upd_roles(2)[OF that] by (simp add: role_move_def)
  then show ?thesis using ok s' by (auto simp: roles_ok_def list_all_iff rows open_dispatch_def)
next
  case (ups_config c n)
  then show ?thesis using ok by (elim upsert_config_cases) (simp_all add: roles_ok_def open_dispatch_def)
next
  case (ups_cursor c)
  then show ?thesis using ok by (elim upsert_cursor_cases) (simp_all add: roles_ok_def open_dispatch_def)
qed (simp add: statements res; clarify?; use ok in \<open>simp add: roles_ok_def open_dispatch_def\<close>)+

section \<open>The schema invariant\<close>

definition schema_ok :: "db \<Rightarrow> bool" where
  "schema_ok s \<longleftrightarrow> refs_ok s \<and> keys_ok s \<and> checks_ok s \<and> tree_ok s \<and> roles_ok s"

interpretation schema: statement_invariant schema_ok
proof unfold_locales
  show "schema_ok empty_db"
    using references.init keys.init checks.init
    by (simp add: schema_ok_def) (simp add: tree_ok_def roles_ok_def empty_db_def)
qed (auto simp: schema_ok_def intro: refs_ok_step keys_ok_step checks_ok_step tree_ok_step roles_ok_step)

section \<open>Gate walks end\<close>

text \<open>The number of nodes from a node to its Matter.\<close>

definition rank :: "Scale \<Rightarrow> nat" where
  "rank k = (if k = ScaleMatter then 1 else if k = ScaleStage then 2 else 3)"

lemma live_row_Some: "live_row s x = Some r \<Longrightarrow> r \<in> set (nodes s) \<and> n_id r = x \<and> n_live r"
  by (auto simp: live_row_def dest: find_Some_iff_mem)

lemma rank_parent: "under r q \<Longrightarrow> Suc (rank (n_kind q)) \<le> rank (n_kind r)"
  by (auto simp: under_def rank_def)

text \<open>The fuel of \<open>EffectiveGateRequirements\<close> is enough: from a node of the store no larger
  amount gives another answer.\<close>

lemma gate_walk_fuel:
  assumes "keys_ok s" "tree_ok s" "r \<in> set (nodes s)" "rank (n_kind r) \<le> n"
  shows "gate_walk t s target n (scanNode r) = gate_walk t s target (n + k) (scanNode r)"
  using assms(3,4)
proof (induction n arbitrary: r)
  case 0
  then show ?case by (simp add: rank_def split: if_splits)
next
  case (Suc n)
  have step: "gate_walk t s target n parent = gate_walk t s target (n + k) parent"
    if v: "view_Node s (coalesce (n_parent r)) = Inr parent" and ne: "coalesce (n_parent r) \<noteq> []" for parent
  proof -
    from v obtain q where q: "live_row s (coalesce (n_parent r)) = Some q" "parent = scanNode q"
      by (auto simp: view_Node_def res)
    have "placed (nodes s) r" using assms(2) Suc.prems by (simp add: tree_ok_def list_all_iff)
    then obtain q' where q': "q' \<in> set (nodes s)" "under r q'"
      using ne by (auto simp: placed_def list_ex_iff)
    have "q' = q"
      using q(1) q' assms(1) by (auto simp: under_def keys_ok_def dest!: live_row_Some intro: distinct_mapD)
    then show ?thesis using Suc.IH[of q'] q q' rank_parent Suc.prems(2) by fastforce
  qed
  show ?case by (auto simp: step Let_def intro!: rbind_cong)
qed

theorem EffectiveGateRequirements_fuel:
  assumes "schema_ok s" "view_Node s x = Inr target"
  shows "EffectiveGateRequirements t s target = gate_walk t s target (3 + k) target"
proof -
  from assms(2) obtain r where "target = scanNode r" "r \<in> set (nodes s)"
    by (auto simp: view_Node_def res dest!: live_row_Some)
  moreover have "rank (n_kind r) \<le> 3" for r by (simp add: rank_def)
  ultimately show ?thesis
    using assms(1) gate_walk_fuel unfolding EffectiveGateRequirements_def schema_ok_def by blast
qed

end
