(* ===== verification/History.thy ===== *)
theory History
  imports Schema
begin

text \<open>
  What the projection never takes back. Each relation below holds between any two
  points of a store's life, earlier to later; each is a \<open>statement_order\<close>.

  \<^item> \<open>nodes_kept\<close>: a node keeps its identity, kind, Repo, Matter, parent, locator,
    title and birth; a tombstoned node never changes again.
  \<^item> \<open>edges_kept\<close>: an edge keeps its ends; a removed edge stays removed.
  \<^item> \<open>records_kept\<close>: content, gate closures, gate declarations and exemptions are
    never changed.
  \<^item> \<open>outbox_kept\<close>, \<open>backlog_kept\<close>, \<open>pushes_kept\<close>, \<open>work_kept\<close>: the state machines of
    outbox entries, backlog entries, tracker push records, and of batches, runs,
    dispatches and roles.
\<close>

text \<open>Every row of a table has a successor among the later rows.\<close>

definition carried :: "('r \<Rightarrow> 'r \<Rightarrow> bool) \<Rightarrow> 'r list \<Rightarrow> 'r list \<Rightarrow> bool" where
  "carried R rs rs' \<longleftrightarrow> list_all (\<lambda>r. list_ex (R r) rs') rs"

lemma carried_refl: "(\<And>r. R r r) \<Longrightarrow> carried R rs rs"
  by (auto simp: carried_def list_all_iff list_ex_iff)

lemma carried_trans:
  assumes "carried R a b" "carried R b c" "\<And>x y z. R x y \<Longrightarrow> R y z \<Longrightarrow> R x z"
  shows "carried R a c"
  using assms unfolding carried_def list_all_iff list_ex_iff by meson

lemma carried_snoc: "(\<And>r. R r r) \<Longrightarrow> carried R rs (rs @ [q])"
  by (auto simp: carried_def list_all_iff list_ex_iff)

lemma carried_upd_rows:
  assumes "\<And>r. R r r" "\<And>r. p r \<Longrightarrow> R r (f r)"
  shows "carried R rs (upd_rows p f rs)"
proof -
  have "(if p r then f r else r) \<in> set (upd_rows p f rs)" if "r \<in> set rs" for r
    using that by (auto simp: upd_rows_def)
  then show ?thesis using assms unfolding carried_def list_all_iff list_ex_iff by metis
qed

lemma carried_final:
  "carried (\<lambda>r r'. k r' = k r \<and> (over r \<longrightarrow> r' = r)) rs rs' \<Longrightarrow> \<forall>r \<in> set rs. over r \<longrightarrow> r \<in> set rs'"
  by (fastforce simp: carried_def list_all_iff list_ex_iff)

lemmas carried_rules = carried_refl carried_snoc carried_upd_rows

section \<open>Nodes and edges\<close>

definition node_kept :: "node_row \<Rightarrow> node_row \<Rightarrow> bool" where
  "node_kept r r' \<longleftrightarrow> n_id r' = n_id r \<and> n_kind r' = n_kind r \<and> n_repo r' = n_repo r
     \<and> n_matter r' = n_matter r \<and> n_parent r' = n_parent r \<and> n_locator r' = n_locator r
     \<and> n_title r' = n_title r \<and> n_birth r' = n_birth r \<and> (\<not> n_live r \<longrightarrow> r' = r)"

definition edge_kept :: "edge_row \<Rightarrow> edge_row \<Rightarrow> bool" where
  "edge_kept r r' \<longleftrightarrow> e_id r' = e_id r \<and> e_blocked r' = e_blocked r \<and> e_blocker r' = e_blocker r
     \<and> e_birth r' = e_birth r \<and> (e_tombstone r \<noteq> None \<longrightarrow> r' = r)"

definition nodes_kept :: "db \<Rightarrow> db \<Rightarrow> bool" where
  "nodes_kept s s' \<longleftrightarrow> carried node_kept (nodes s) (nodes s')"

definition edges_kept :: "db \<Rightarrow> db \<Rightarrow> bool" where
  "edges_kept s s' \<longleftrightarrow> carried edge_kept (edges s) (edges s')"

lemma nodes_kept_step: "stmt t ev s s' \<Longrightarrow> nodes_kept s s'"
  unfolding nodes_kept_def
  by (erule stmt.cases; (erule upsert_config_cases upsert_cursor_cases)?; simp add: statements res; clarify?;
      simp add: carried_rules node_kept_def node_move_def)

interpretation node_history: statement_order nodes_kept
proof unfold_locales
  show "nodes_kept a c" if "nodes_kept a b" "nodes_kept b c" for a b c
    using that unfolding nodes_kept_def by (rule carried_trans) (auto simp: node_kept_def)
qed (auto simp: nodes_kept_def node_kept_def intro: carried_refl nodes_kept_step[unfolded nodes_kept_def])

lemma edges_kept_step: "stmt t ev s s' \<Longrightarrow> edges_kept s s'"
  unfolding edges_kept_def
  by (erule stmt.cases; (erule upsert_config_cases upsert_cursor_cases)?; simp add: statements res; clarify?;
      simp add: carried_rules edge_kept_def edge_move_def)

interpretation edge_history: statement_order edges_kept
proof unfold_locales
  show "edges_kept a c" if "edges_kept a b" "edges_kept b c" for a b c
    using that unfolding edges_kept_def by (rule carried_trans) (auto simp: edge_kept_def)
qed (auto simp: edges_kept_def edge_kept_def intro: carried_refl edges_kept_step[unfolded edges_kept_def])

section \<open>Records that are only ever added\<close>

definition records_kept :: "db \<Rightarrow> db \<Rightarrow> bool" where
  "records_kept s s' \<longleftrightarrow> set (content s) \<subseteq> set (content s') \<and> set (gate_state s) \<subseteq> set (gate_state s')
     \<and> set (gate_declarations s) \<subseteq> set (gate_declarations s')
     \<and> set (gate_exemptions s) \<subseteq> set (gate_exemptions s')
     \<and> set (worktrees s) \<subseteq> set (worktrees s') \<and> set (run_matters s) \<subseteq> set (run_matters s')"

lemma records_kept_step: "stmt t ev s s' \<Longrightarrow> records_kept s s'"
  unfolding records_kept_def
  by (erule stmt.cases; (erule upsert_config_cases upsert_cursor_cases)?; simp add: statements res; clarify?; auto)

interpretation record_history: statement_order records_kept
proof unfold_locales
  show "records_kept a c" if "records_kept a b" "records_kept b c" for a b c
    using that unfolding records_kept_def by (elim conjE, intro conjI) (erule (1) order_trans)+
  show "records_kept s s" for s by (simp add: records_kept_def)
qed (rule records_kept_step)

section \<open>The outbox machine\<close>

definition outbox_kept1 :: "outbox_row \<Rightarrow> outbox_row \<Rightarrow> bool" where
  "outbox_kept1 r r' \<longleftrightarrow> o_id r' = o_id r \<and> o_repo r' = o_repo r \<and> o_kind r' = o_kind r
     \<and> o_subject r' = o_subject r \<and> o_ref r' = o_ref r \<and> o_key r' = o_key r \<and> o_payload r' = o_payload r
     \<and> o_birth r' = o_birth r \<and> o_attempts r \<le> o_attempts r'
     \<and> (outbox_edge (o_kind r))\<^sup>*\<^sup>* (o_state r) (o_state r')
     \<and> (o_state r \<in> {''flushed'', ''declined''} \<longrightarrow> r' = r)"

definition outbox_kept :: "db \<Rightarrow> db \<Rightarrow> bool" where
  "outbox_kept s s' \<longleftrightarrow> (\<forall>r \<in> set (outbox_entries s). \<exists>r' \<in> set (outbox_entries s'). outbox_kept1 r r')"

lemma outbox_kept_carried: "outbox_kept s s' \<longleftrightarrow> carried outbox_kept1 (outbox_entries s) (outbox_entries s')"
  by (simp add: outbox_kept_def carried_def list_all_iff list_ex_iff)

lemma outbox_kept1_refl: "outbox_kept1 r r"
  by (simp add: outbox_kept1_def)

lemma outbox_kept1_trans: "outbox_kept1 a b \<Longrightarrow> outbox_kept1 b c \<Longrightarrow> outbox_kept1 a c"
  by (auto simp: outbox_kept1_def)

text \<open>Flushed and declined are final.\<close>

lemma outbox_edge_final: "outbox_edge k a b \<Longrightarrow> a \<notin> {''flushed'', ''declined''}"
  by (auto simp: outbox_edge_def)

lemma outbox_move_kept: "outbox_move ev r r' \<Longrightarrow> outbox_kept1 r r'"
  using outbox_edge_final[of "o_kind r" "o_state r" "o_state r'"]
  by (auto simp: outbox_move_def outbox_kept1_def)

lemma outbox_kept_step:
  assumes "stmt t ev s s'"
  shows "outbox_kept s s'"
  using assms unfolding outbox_kept_carried
proof cases
  case (upd_outbox p f n)
  then have "outbox_entries s' = upd_rows p f (outbox_entries s)" by (auto simp: update_outbox_def res)
  then show "carried outbox_kept1 (outbox_entries s) (outbox_entries s')"
    using carried_upd_rows[where R = outbox_kept1 and p = p and f = f, OF outbox_kept1_refl outbox_move_kept[OF upd_outbox(2)]] by simp
qed ((erule upsert_config_cases upsert_cursor_cases)?; simp add: statements res; clarify?;
  simp add: carried_rules outbox_kept1_refl)+

interpretation outbox_history: statement_order outbox_kept
proof unfold_locales
  show "outbox_kept a c" if "outbox_kept a b" "outbox_kept b c" for a b c
    using that unfolding outbox_kept_carried by (rule carried_trans) (rule outbox_kept1_trans)
  show "outbox_kept s s" for s by (simp add: outbox_kept_carried carried_refl outbox_kept1_refl)
qed (rule outbox_kept_step)

section \<open>Backlog exits and push records\<close>

text \<open>An entry leaves the backlog at most once, by one of its three exits.\<close>

definition backlog_kept1 :: "backlog_row \<Rightarrow> backlog_row \<Rightarrow> bool" where
  "backlog_kept1 r r' \<longleftrightarrow> b_id r' = b_id r \<and> b_repo r' = b_repo r \<and> b_provenance r' = b_provenance r
     \<and> b_title r' = b_title r \<and> b_detail r' = b_detail r \<and> b_origin_node r' = b_origin_node r
     \<and> b_birth r' = b_birth r
     \<and> (b_state r \<noteq> ''entered'' \<longrightarrow> b_state r' = b_state r \<and> b_matter r' = b_matter r \<and> b_outbox r' = b_outbox r)"

definition backlog_kept :: "db \<Rightarrow> db \<Rightarrow> bool" where
  "backlog_kept s s' \<longleftrightarrow> carried backlog_kept1 (backlog_entries s) (backlog_entries s')"

lemma backlog_move_kept: "backlog_move ev r r' \<Longrightarrow> backlog_kept1 r r'"
  by (auto simp: backlog_move_def backlog_kept1_def)

lemma backlog_kept1_refl: "backlog_kept1 r r"
  by (simp add: backlog_kept1_def)

lemma backlog_kept_step:
  assumes "stmt t ev s s'"
  shows "backlog_kept s s'"
  using assms unfolding backlog_kept_def
proof cases
  case (upd_backlog p f n)
  then have "backlog_entries s' = upd_rows p f (backlog_entries s)" by (auto simp: update_backlog_def res)
  then show "carried backlog_kept1 (backlog_entries s) (backlog_entries s')"
    using carried_upd_rows[where R = backlog_kept1 and p = p and f = f, OF backlog_kept1_refl backlog_move_kept[OF upd_backlog(2)]] by simp
qed ((erule upsert_config_cases upsert_cursor_cases)?; simp add: statements res; clarify?;
  simp add: carried_rules backlog_kept1_refl)+

interpretation backlog_history: statement_order backlog_kept
proof unfold_locales
  show "backlog_kept a c" if "backlog_kept a b" "backlog_kept b c" for a b c
    using that unfolding backlog_kept_def by (rule carried_trans) (auto simp: backlog_kept1_def)
  show "backlog_kept s s" for s by (simp add: backlog_kept_def backlog_kept1_def carried_refl)
qed (rule backlog_kept_step)

text \<open>A push record that says completed or canceled says so for ever.\<close>

definition push_kept1 :: "push_row \<Rightarrow> push_row \<Rightarrow> bool" where
  "push_kept1 r r' \<longleftrightarrow> p_ref r' = p_ref r \<and> p_birth r' = p_birth r
     \<and> (p_disposition r \<noteq> TrackerActive \<longrightarrow> p_disposition r' = p_disposition r)"

definition pushes_kept :: "db \<Rightarrow> db \<Rightarrow> bool" where
  "pushes_kept s s' \<longleftrightarrow> carried push_kept1 (tracker_push_records s) (tracker_push_records s')"

lemma pushes_kept_step: "stmt t ev s s' \<Longrightarrow> pushes_kept s s'"
  unfolding pushes_kept_def
  by (erule stmt.cases; (erule upsert_config_cases upsert_cursor_cases)?; simp add: statements res; clarify?;
      (simp add: carried_rules push_kept1_def; fail)?; rule carried_upd_rows; auto simp: push_kept1_def push_move_def)

interpretation push_history: statement_order pushes_kept
proof unfold_locales
  show "pushes_kept a c" if "pushes_kept a b" "pushes_kept b c" for a b c
    using that unfolding pushes_kept_def by (rule carried_trans) (auto simp: push_kept1_def)
  show "pushes_kept s s" for s by (simp add: pushes_kept_def push_kept1_def carried_refl)
qed (rule pushes_kept_step)

section \<open>Batches, runs, dispatches, roles\<close>

text \<open>Closed work is never reopened or rewritten.\<close>

definition work_kept :: "db \<Rightarrow> db \<Rightarrow> bool" where
  "work_kept s s' \<longleftrightarrow>
     carried (\<lambda>r r'. ba_id r' = ba_id r \<and> (ba_state r \<noteq> ''live'' \<longrightarrow> r' = r)) (batches s) (batches s')
   \<and> carried (\<lambda>r r'. ru_id r' = ru_id r \<and> (ru_state r \<noteq> ''open'' \<longrightarrow> r' = r)) (runs s) (runs s')
   \<and> carried (\<lambda>r r'. di_id r' = di_id r \<and> (di_state r \<noteq> ''open'' \<longrightarrow> r' = r)) (dispatches s) (dispatches s')
   \<and> carried (\<lambda>r r'. role_id r' = role_id r \<and> (role_state r \<noteq> ''open'' \<longrightarrow> r' = r)) (roles s) (roles s')"

lemma work_kept_step: "stmt t ev s s' \<Longrightarrow> work_kept s s'"
  unfolding work_kept_def
  by (erule stmt.cases; (erule upsert_config_cases upsert_cursor_cases)?; simp add: statements res; clarify?;
      simp add: carried_rules moves)

interpretation work_history: statement_order work_kept
proof unfold_locales
  show "work_kept a c" if "work_kept a b" "work_kept b c" for a b c
    using that unfolding work_kept_def by (elim conjE, intro conjI) (erule (1) carried_trans, auto)+
  show "work_kept s s" for s by (simp add: work_kept_def carried_refl)
qed (rule work_kept_step)

end
