(* ===== verification/Replay.thy ===== *)
theory Replay
  imports History
begin

text \<open>
  The projection does not depend on when it runs. An event folded while it is
  committed sees the log up to itself and immediate foreign keys; the same event
  folded by \<open>Rebuild\<close> sees the whole log and deferred foreign keys. \<open>tx_le\<close> relates
  the two transactions, and \<open>applyEvent_tx_le\<close> shows that what the first accepts
  the second accepts with the same result. This is the lemma behind the
  equality of a rebuilt and a live projection.
\<close>

section \<open>Transactions that agree\<close>

definition find_event :: "tx \<Rightarrow> string \<Rightarrow> event option" where
  "find_event t x = List.find (\<lambda>e. ev_ID e = x) (tx_log t)"

definition tx_le :: "string set \<Rightarrow> tx \<Rightarrow> tx \<Rightarrow> bool" where
  "tx_le I t t' \<longleftrightarrow> (tx_defer t \<longrightarrow> tx_defer t') \<and> (\<forall>x \<in> I. find_event t' x = find_event t x)"

text \<open>The rows through which the projection reads the log.\<close>

definition gate_refs :: "string set \<Rightarrow> db \<Rightarrow> bool" where
  "gate_refs I s \<longleftrightarrow> (\<forall>g \<in> set (gate_state s). g_last g \<in> I)"

lemma gate_refs_step: "stmt t ev s s' \<Longrightarrow> ev_ID ev \<in> I \<Longrightarrow> gate_refs I s \<Longrightarrow> gate_refs I s'"
  unfolding gate_refs_def
  by (erule stmt.cases; (erule upsert_config_cases upsert_cursor_cases)?; simp add: statements res; clarify?; auto)

lemma gate_refs_steps: "steps t ev s s' \<Longrightarrow> ev_ID ev \<in> I \<Longrightarrow> gate_refs I s \<Longrightarrow> gate_refs I s'"
  by (induction rule: rtranclp_induct) (auto dest: gate_refs_step)

section \<open>Reads\<close>

lemma gate_metadata_loop_cong:
  assumes "\<And>g. g \<in> set gs \<Longrightarrow> List.find (\<lambda>e. ev_ID e = g_last g) evs' = List.find (\<lambda>e. ev_ID e = g_last g) evs"
  shows "gate_metadata_loop evs' gs = gate_metadata_loop evs gs"
  using assms by (induction gs) (auto split: option.splits intro!: rbind_cong)

lemma closedGateMetadata_tx:
  "tx_le I t t' \<Longrightarrow> gate_refs I s \<Longrightarrow> closedGateMetadata t' s n = closedGateMetadata t s n"
  unfolding closedGateMetadata_def
  by (rule gate_metadata_loop_cong) (auto simp: tx_le_def gate_refs_def find_event_def)

lemma gate_walk_tx:
  "tx_le I t t' \<Longrightarrow> gate_refs I s \<Longrightarrow> gate_walk t' s target n c = gate_walk t s target n c"
  by (induction n arbitrary: c) (simp_all add: closedGateMetadata_tx Let_def cong: if_cong)

lemma view_NodeCompletion_tx:
  "tx_le I t t' \<Longrightarrow> gate_refs I s \<Longrightarrow> view_NodeCompletion t' s n = view_NodeCompletion t s n"
  by (simp add: view_NodeCompletion_def NodeCompletionWithOverlay_def EffectiveGateRequirements_def gate_walk_tx)

lemma aggregate_loop_tx:
  "tx_le I t t' \<Longrightarrow> gate_refs I s \<Longrightarrow> aggregate_loop t' s ms k = aggregate_loop t s ms k"
  by (induction ms arbitrary: k) (simp_all add: view_NodeCompletion_tx cong: if_cong)

lemma TrackerAggregate_tx:
  "tx_le I t t' \<Longrightarrow> gate_refs I s \<Longrightarrow> TrackerAggregate t' s ref = TrackerAggregate t s ref"
  by (simp add: TrackerAggregate_def aggregate_loop_tx Let_def cong: if_cong)

lemma satisfied_by_event_tx:
  assumes "tx_le I t t'" "gate_refs I s"
  shows "satisfied_by_event t' s n g = satisfied_by_event t s n g"
proof -
  have "list_ex (\<lambda>e. ev_ID e = g_last r) (tx_log t') = list_ex (\<lambda>e. ev_ID e = g_last r) (tx_log t)"
    if "r \<in> set (gate_state s)" for r
  proof -
    have "(find_event t' (g_last r) = None) = (find_event t (g_last r) = None)"
      using that assms by (simp add: tx_le_def gate_refs_def)
    then show ?thesis by (auto simp: find_event_def find_None_iff list_ex_iff)
  qed
  then show ?thesis by (auto simp: satisfied_by_event_def list_ex_iff)
qed

section \<open>Statements\<close>

named_theorems tx_mono \<open>what an earlier transaction accepts, a later one accepts\<close>

lemma fk_mono: "fk t b \<Longrightarrow> tx_le I t t' \<Longrightarrow> fk t' b"
  by (auto simp: fk_def tx_le_def)

text \<open>The same chain with later steps that accept what the earlier ones accept.\<close>

named_theorems chain_mono \<open>monotonicity of result chains\<close>

lemma rbind_le [chain_mono]:
  "rbind x f = Inr y \<Longrightarrow> (\<And>a. x = Inr a \<Longrightarrow> x' = Inr a) \<Longrightarrow> (\<And>a. x = Inr a \<Longrightarrow> f a = Inr y \<Longrightarrow> f' a = Inr y)
   \<Longrightarrow> rbind x' f' = Inr y"
  by (cases x) auto

lemma if_le [chain_mono]:
  "(if c then a else b) = Inr y \<Longrightarrow> (c \<Longrightarrow> a = Inr y \<Longrightarrow> a' = Inr y) \<Longrightarrow> (\<not> c \<Longrightarrow> b = Inr y \<Longrightarrow> b' = Inr y)
   \<Longrightarrow> (if c then a' else b') = Inr y"
  by auto

lemma option_le [chain_mono]:
  "(case v of None \<Rightarrow> a | Some x \<Rightarrow> f x) = Inr y \<Longrightarrow> (a = Inr y \<Longrightarrow> a' = Inr y) \<Longrightarrow>
   (\<And>x. v = Some x \<Longrightarrow> f x = Inr y \<Longrightarrow> f' x = Inr y) \<Longrightarrow> (case v of None \<Rightarrow> a' | Some x \<Rightarrow> f' x) = Inr y"
  by (cases v) auto

lemma one_row_le [chain_mono]:
  "one_row u = Inr y \<Longrightarrow> (\<And>q. u = Inr q \<Longrightarrow> u' = Inr q) \<Longrightarrow> one_row u' = Inr y"
  by (auto simp: res)

lemma insert_mono [tx_mono]:
  assumes "tx_le I t t'"
  shows "insert_clones t c s = Inr s' \<Longrightarrow> insert_clones t' c s = Inr s'"
    "insert_worktrees t w s = Inr s' \<Longrightarrow> insert_worktrees t' w s = Inr s'"
    "insert_nodes t n s = Inr s' \<Longrightarrow> insert_nodes t' n s = Inr s'"
    "insert_edges t e s = Inr s' \<Longrightarrow> insert_edges t' e s = Inr s'"
    "insert_gate_state t g s = Inr s' \<Longrightarrow> insert_gate_state t' g s = Inr s'"
    "insert_gate_declarations t d s = Inr s' \<Longrightarrow> insert_gate_declarations t' d s = Inr s'"
    "insert_gate_exemptions t x s = Inr s' \<Longrightarrow> insert_gate_exemptions t' x s = Inr s'"
    "insert_backlog t b s = Inr s' \<Longrightarrow> insert_backlog t' b s = Inr s'"
    "insert_outbox t ob s = Inr s' \<Longrightarrow> insert_outbox t' ob s = Inr s'"
    "insert_reference t rf s = Inr s' \<Longrightarrow> insert_reference t' rf s = Inr s'"
    "insert_batch_row t ba s = Inr s' \<Longrightarrow> insert_batch_row t' ba s = Inr s'"
    "insert_member t m s = Inr s' \<Longrightarrow> insert_member t' m s = Inr s'"
    "insert_run_row t ru s = Inr s' \<Longrightarrow> insert_run_row t' ru s = Inr s'"
    "insert_run_matter t rm s = Inr s' \<Longrightarrow> insert_run_matter t' rm s = Inr s'"
    "insert_dispatch t di s = Inr s' \<Longrightarrow> insert_dispatch t' di s = Inr s'"
    "insert_role t ro s = Inr s' \<Longrightarrow> insert_role t' ro s = Inr s'"
    "upsert_cursor t cu s = Inr s' \<Longrightarrow> upsert_cursor t' cu s = Inr s'"
  using assms by (simp_all add: statements res fk_mono[OF _ assms] Let_def)

lemma update_mono [tx_mono]:
  assumes "tx_le I t t'"
  shows "update_backlog t p f s = Inr q \<Longrightarrow> update_backlog t' p f s = Inr q"
    "upsert_config t c s = Inr q \<Longrightarrow> upsert_config t' c s = Inr q"
  using assms by (simp_all add: statements res fk_mono[OF _ assms] Let_def split: if_splits)

section \<open>Rules\<close>

lemma for_each_tx:
  assumes "for_each f xs s = Inr s'" "gate_refs I s" "ev_ID ev \<in> I"
    and step: "\<And>x a b. f x a = Inr b \<Longrightarrow> steps t ev a b"
    and mono: "\<And>x a b. f x a = Inr b \<Longrightarrow> gate_refs I a \<Longrightarrow> g x a = Inr b"
  shows "for_each g xs s = Inr s'"
  using assms(1,2)
proof (induction xs arbitrary: s)
  case (Cons x xs)
  then obtain a where a: "f x s = Inr a" and rest: "for_each f xs a = Inr s'" by (auto simp: res)
  have "gate_refs I a" using gate_refs_steps[OF step[OF a] assms(3) Cons.prems(2)] .
  then show ?case using Cons.IH[OF rest] mono[OF a Cons.prems(2)] by simp
qed simp

lemma node_rules_tx [tx_mono]:
  assumes "tx_le I t t'"
  shows "insertNode t ev scale s = Inr s' \<Longrightarrow> insertNode t' ev scale s = Inr s'"
    "applyReplace t ev s = Inr s' \<Longrightarrow> applyReplace t' ev s = Inr s'"
    "insertEdge t ev s = Inr s' \<Longrightarrow> insertEdge t' ev s = Inr s'"
    "closeGate t ev s = Inr s' \<Longrightarrow> closeGate t' ev s = Inr s'"
    "exempt_one t ev g sc n s = Inr s' \<Longrightarrow> exempt_one t' ev g sc n s = Inr s'"
    "setConfigProjection t ev s = Inr s' \<Longrightarrow> setConfigProjection t' ev s = Inr s'"
  unfolding insertNode_def applyReplace_def insertEdge_def closeGate_def exempt_one_def setConfigProjection_def
  by (auto simp only: res intro: tx_mono[OF assms])

lemma dismissGate_tx:
  "tx_le I t t' \<Longrightarrow> gate_refs I s \<Longrightarrow> dismissGate t ev s = Inr s' \<Longrightarrow> dismissGate t' ev s = Inr s'"
  unfolding dismissGate_def by (auto simp: res satisfied_by_event_tx intro: tx_mono)

lemma exemptions_tx [tx_mono]:
  "tx_le I t t' \<Longrightarrow> for_each (exempt_one t ev g sc) xs s = Inr s' \<Longrightarrow> for_each (exempt_one t' ev g sc) xs s = Inr s'"
  by (erule for_each_Inr_mono) (rule tx_mono)

lemma declareGateProjection_tx [tx_mono]:
  "tx_le I t t' \<Longrightarrow> declareGateProjection t ev s = Inr s' \<Longrightarrow> declareGateProjection t' ev s = Inr s'"
  unfolding declareGateProjection_def by (auto simp only: res intro: tx_mono)

lemma repairGateExemptionProjection_tx [tx_mono]:
  "tx_le I t t' \<Longrightarrow> repairGateExemptionProjection t ev s = Inr s' \<Longrightarrow> repairGateExemptionProjection t' ev s = Inr s'"
  unfolding repairGateExemptionProjection_def
  by (auto simp: res Let_def split: if_splits intro: tx_mono)

lemma backlog_rules_tx [tx_mono]:
  assumes "tx_le I t t'"
  shows "insertBacklogEntry t ev s = Inr s' \<Longrightarrow> insertBacklogEntry t' ev s = Inr s'"
    "planBacklogEntry t ev s = Inr s' \<Longrightarrow> planBacklogEntry t' ev s = Inr s'"
    "declineBacklogEntry t ev s = Inr s' \<Longrightarrow> declineBacklogEntry t' ev s = Inr s'"
    "delegateBacklogEntry t ev s = Inr s' \<Longrightarrow> delegateBacklogEntry t' ev s = Inr s'"
  unfolding insertBacklogEntry_def planBacklogEntry_def declineBacklogEntry_def delegateBacklogEntry_def
  by (auto simp only: res intro: tx_mono[OF assms])

lemma upsert_reference_tx [tx_mono]:
  "tx_le I t t' \<Longrightarrow> upsert_reference t ev ref g s = Inr q \<Longrightarrow> upsert_reference t' ev ref g s = Inr q"
  unfolding upsert_reference_def Let_def by (auto simp: res split: if_splits intro: tx_mono)

lemma reference_rules_tx [tx_mono]:
  assumes "tx_le I t t'"
  shows "addTrackerReference t ev s = Inr s' \<Longrightarrow> addTrackerReference t' ev s = Inr s'"
    "reboundTrackerReference t ev s = Inr s' \<Longrightarrow> reboundTrackerReference t' ev s = Inr s'"
    "recordTrackerItemCreated t ev s = Inr s' \<Longrightarrow> recordTrackerItemCreated t' ev s = Inr s'"
    "insertTrackerCandidate t ev kind subject ref payload d s = Inr s' \<Longrightarrow>
     insertTrackerCandidate t' ev kind subject ref payload d s = Inr s'"
    "projectLegacyMatterReference t ev s = Inr s' \<Longrightarrow> projectLegacyMatterReference t' ev s = Inr s'"
  unfolding addTrackerReference_def reboundTrackerReference_def recordTrackerItemCreated_def
    projectLegacyMatterReference_def insertTrackerCandidate_def Let_def case_prod_unfold
  by (assumption | erule chain_mono | erule tx_mono[OF assms])+

lemma projectAdhocCandidate_tx [tx_mono]:
  assumes "tx_le I t t'"
  shows "projectAdhocCandidate t ev s = Inr s' \<Longrightarrow> projectAdhocCandidate t' ev s = Inr s'"
  unfolding projectAdhocCandidate_def by (assumption | erule chain_mono | erule tx_mono[OF assms])+

section \<open>Candidates\<close>

lemma state_candidate_tx:
  assumes "tx_le I t t'"
  shows "state_candidate t ev subject ref s = Inr s' \<Longrightarrow> gate_refs I s \<Longrightarrow>
   state_candidate t' ev subject ref s = Inr s'"
  unfolding state_candidate_def
  by (simp only: TrackerAggregate_tx[OF assms]) (assumption | erule chain_mono tx_mono[OF assms])+

lemma queueMatterStateCandidates_tx:
  assumes "tx_le I t t'" "ev_ID ev \<in> I" "gate_refs I s" "queueMatterStateCandidates t ev subject refs s = Inr s'"
  shows "queueMatterStateCandidates t' ev subject refs s = Inr s'"
  using assms(4) unfolding queueMatterStateCandidates_def Let_def
  by (rule for_each_tx[OF _ assms(3,2) state_candidate_steps state_candidate_tx[OF assms(1)]])

lemma queueStageComments_tx [tx_mono]:
  "tx_le I t t' \<Longrightarrow> queueStageComments t ev stage s = Inr s' \<Longrightarrow> queueStageComments t' ev stage s = Inr s'"
  unfolding queueStageComments_def
  by (auto split: if_splits elim!: for_each_Inr_mono intro: tx_mono)

lemma when_sealed_tx:
  "tx_le I t t' \<Longrightarrow> gate_refs I s \<Longrightarrow> when_sealed t n act s = Inr s' \<Longrightarrow>
   (act s = Inr s' \<Longrightarrow> act' s = Inr s') \<Longrightarrow> when_sealed t' n act' s = Inr s'"
  unfolding when_sealed_def by (auto simp: res view_NodeCompletion_tx split: if_splits)

lemma projectTransitionCandidates_tx:
  assumes "tx_le I t t'" "ev_ID ev \<in> I" "gate_refs I s" "projectTransitionCandidates t ev s = Inr s'"
  shows "projectTransitionCandidates t' ev s = Inr s'"
  using assms(4) unfolding projectTransitionCandidates_def
  by - (assumption | erule chain_mono queueMatterStateCandidates_tx[OF assms(1-3)] tx_mono[OF assms(1)]
      when_sealed_tx[OF assms(1,3)])+

lemma stage_comments_tx:
  assumes "tx_le I t t'" "ev_ID ev \<in> I" "gate_refs I s"
    "for_each (\<lambda>st. when_sealed t st (queueStageComments t ev st)) xs s = Inr s'"
  shows "for_each (\<lambda>st. when_sealed t' st (queueStageComments t' ev st)) xs s = Inr s'"
  using assms(4)
proof (rule for_each_tx[OF _ assms(3,2)])
  show "steps t ev a b" if "when_sealed t x (queueStageComments t ev x) a = Inr b" for x a b
    using that by (rule when_sealed_steps) (rule queueStageComments_steps)
  show "when_sealed t' x (queueStageComments t' ev x) a = Inr b"
    if "when_sealed t x (queueStageComments t ev x) a = Inr b" "gate_refs I a" for x a b
    using when_sealed_tx[OF assms(1) that(2,1)] queueStageComments_tx[OF assms(1)] by blast
qed

lemma projectGateCandidates_tx:
  assumes "tx_le I t t'" "ev_ID ev \<in> I" "gate_refs I s" "projectGateCandidates t ev s = Inr s'"
  shows "projectGateCandidates t' ev s = Inr s'"
proof -
  have matter: "when_sealed t' n (queueMatterStateCandidates t' ev m None) s = Inr s1"
    if "when_sealed t n (queueMatterStateCandidates t ev m None) s = Inr s1" for n m s1
    using that by (rule when_sealed_tx[OF assms(1,3)]) (rule queueMatterStateCandidates_tx[OF assms(1-3)])
  have stages: "for_each (\<lambda>st. when_sealed t' st (queueStageComments t' ev st)) xs s1 = Inr s'"
    if "for_each (\<lambda>st. when_sealed t st (queueStageComments t ev st)) xs s1 = Inr s'" "gate_refs I s1" for xs s1
    using stage_comments_tx[OF assms(1,2) that(2,1)] .
  have kept: "gate_refs I s1"
    if "(if c then when_sealed t n (queueMatterStateCandidates t ev m None) s else Inr s) = Inr s1" for c n m s1
    using that assms(3)
    by (auto split: if_splits intro: gate_refs_steps[OF when_sealed_steps[OF _ candidate_steps(1)] assms(2,3)])
  show ?thesis using assms(4) unfolding projectGateCandidates_def Let_def
    by - (assumption | erule chain_mono | erule matter | erule stages | erule kept)+
qed

section \<open>Execution rules\<close>

lemma contention_le [chain_mono]:
  "contention i u = Inr y \<Longrightarrow> (u = Inr y \<Longrightarrow> u' = Inr y) \<Longrightarrow> contention j u' = Inr y"
  by (simp add: contention_Inr)

lemma role_contention_le [chain_mono]:
  "role_contention u = Inr y \<Longrightarrow> (u = Inr y \<Longrightarrow> u' = Inr y) \<Longrightarrow> role_contention u' = Inr y"
  by (simp add: role_contention_Inr)

lemma freeze_matters_tx [tx_mono]:
  "tx_le I t t' \<Longrightarrow> for_each (freeze_matter t ev) xs s = Inr s' \<Longrightarrow> for_each (freeze_matter t' ev) xs s = Inr s'"
  by (erule for_each_Inr_mono) (auto simp: freeze_matter_def split: prod.splits intro: tx_mono)

lemma execution_rules_tx [tx_mono]:
  assumes "tx_le I t t'"
  shows "insertClone t ev s = Inr s' \<Longrightarrow> insertClone t' ev s = Inr s'"
    "insertWorktree t ev s = Inr s' \<Longrightarrow> insertWorktree t' ev s = Inr s'"
    "moveCursor t ev s = Inr s' \<Longrightarrow> moveCursor t' ev s = Inr s'"
    "insertBatch t ev s = Inr s' \<Longrightarrow> insertBatch t' ev s = Inr s'"
    "joinBatch t ev s = Inr s' \<Longrightarrow> joinBatch t' ev s = Inr s'"
    "openDispatch t ev s = Inr s' \<Longrightarrow> openDispatch t' ev s = Inr s'"
    "startRun t ev s = Inr s' \<Longrightarrow> startRun t' ev s = Inr s'"
    "spawnRole t ev s = Inr s' \<Longrightarrow> spawnRole t' ev s = Inr s'"
  unfolding insertClone_def insertWorktree_def moveCursor_def insertBatch_def joinBatch_def openDispatch_def
    startRun_def spawnRole_def Let_def case_prod_unfold
  by (assumption | erule chain_mono | erule tx_mono[OF assms])+

section \<open>The projection\<close>

lemma projectReferenceCandidates_tx:
  assumes "tx_le I t t'" "ev_ID ev \<in> I" "gate_refs I s" "projectReferenceCandidates t ev s = Inr s'"
  shows "projectReferenceCandidates t' ev s = Inr s'"
  using assms(4) unfolding projectReferenceCandidates_def case_prod_unfold
  by - (assumption | erule chain_mono queueMatterStateCandidates_tx[OF assms(1-3)])+

theorem applyEvent_tx_le:
  assumes le: "tx_le I t t'" "ev_ID ev \<in> I" "gate_refs I s" and run: "applyEvent t ev s = Inr s'"
  shows "applyEvent t' ev s = Inr s'"
proof -
  have kept: "gate_refs I a" if "steps t ev s a" for a using that le(2,3) by (rule gate_refs_steps)
  have gate: "rbind (f t') (projectGateCandidates t' ev) = Inr s'"
    if "rbind (f t) (projectGateCandidates t ev) = Inr s'" "\<And>a. f t = Inr a \<Longrightarrow> f t' = Inr a"
      "\<And>a. f t = Inr a \<Longrightarrow> steps t ev s a" for f :: "tx \<Rightarrow> db result"
    using that(1) by - (erule rbind_le, erule that(2), erule projectGateCandidates_tx[OF le(1,2) kept[OF that(3)]])
  have ref: "rbind (f t') (projectReferenceCandidates t' ev) = Inr s'"
    if "rbind (f t) (projectReferenceCandidates t ev) = Inr s'" "\<And>a. f t = Inr a \<Longrightarrow> f t' = Inr a"
      "\<And>a. f t = Inr a \<Longrightarrow> steps t ev s a" for f :: "tx \<Rightarrow> db result"
    using that(1) by - (erule rbind_le, erule that(2), erule projectReferenceCandidates_tx[OF le(1,2) kept[OF that(3)]])
  have trans: "rbind (applyTransition ev s) (projectTransitionCandidates t' ev) = Inr s'"
    if "rbind (applyTransition ev s) (projectTransitionCandidates t ev) = Inr s'"
    using that by - (erule rbind_le, assumption, erule projectTransitionCandidates_tx[OF le(1,2) kept[OF applyTransition_steps]])
  show ?thesis using run unfolding applyEvent_def Let_def
    by - (assumption | erule if_le | erule gate[of "\<lambda>t. closeGate t ev s"] | erule gate[of "\<lambda>t. dismissGate t ev s"]
      | erule ref[of "\<lambda>t. addTrackerReference t ev s"] | erule ref[of "\<lambda>t. removeTrackerReference ev s"]
      | erule ref[of "\<lambda>t. reboundTrackerReference t ev s"] | erule trans | erule tx_mono[OF le(1)]
      | erule dismissGate_tx[OF le(1,3)] | erule to_steps | erule rbind_le)+
qed

end
