(* ===== verification/Store.thy ===== *)
theory Store
  imports Replay
begin

text \<open>
  The write path of the store (\<open>internal/store/store.go\<close>) and its recovery
  operation (\<open>Rebuild\<close>, \<open>ensureProjectionVersion\<close>).

  A \<open>store\<close> is the log, the projection, the recorded projection version and the
  identity minter of the process that has it open. \<open>Commit\<close> runs a decide
  function on the state inside the transaction, stamps, appends and folds its
  drafts one by one, and keeps the result only if all of them succeed: an
  error rolls the transaction back, but not the minter, which lives in memory.
  The decide function is a parameter; what it may do to the store is mint
  identities (\<open>minting\<close>). The readings of the clock and of the entropy source are
  a list in the minter; when \<open>NewID\<close> has used them up it is still waiting and the
  transaction does not commit.
\<close>

section \<open>Actors\<close>

definition Actor_Role :: "Actor \<Rightarrow> RoleName option" where
  "Actor_Role a = (if length a > length ''role:'' \<and> has_prefix ''role:'' a then Some (drop 5 a) else None)"

definition Actor_valid :: "Actor \<Rightarrow> bool" where
  "Actor_valid a =
     (a = ActorHuman
    \<or> (length a > length ''role:'' \<and> has_prefix ''role:'' a)
    \<or> (length a > length ''system:'' \<and> has_prefix ''system:'' a))"

definition ActorFor :: "string \<Rightarrow> Actor" where
  "ActorFor asRole = (if asRole = [] then ActorHuman else RoleActor asRole)"

section \<open>Requests, drafts, stores\<close>

record Env =
  env_Repo :: string
  env_Clone :: string
  env_Worktree :: string

record Request =
  rq_Actor :: Actor
  rq_Env :: Env

text \<open>The payload of a draft is its marshalled object (nil marshals as the empty one).\<close>

record Draft =
  dr_Type :: string
  dr_Subject :: string
  dr_Payload :: json
  dr_Env :: "Env option"
  dr_Cause :: int

record minter =
  mi_ids :: idSource
  mi_floor :: string
  mi_readings :: "reading list"

record store =
  st_log :: "event list"
  st_db :: db
  st_version :: "string option"
  st_mint :: minter

type_synonym decision = "tx \<Rightarrow> db \<Rightarrow> minter \<Rightarrow> minter \<times> Draft list result"

definition store_NewID :: "minter \<Rightarrow> minter \<times> string result" where
  "store_NewID m =
     (case NewID (mi_readings m) (mi_floor m) (mi_ids m) of
        None \<Rightarrow> (m, Inl (ERefused ''waiting for the clock''))
      | Some (ident, src, rds) \<Rightarrow> (\<lparr>mi_ids = src, mi_floor = ident, mi_readings = rds\<rparr>, Inr ident))"

text \<open>\<open>SELECT MAX(id) FROM events\<close>, read when the store is opened.\<close>

definition loadFloor :: "event list \<Rightarrow> string" where
  "loadFloor evs = fold max (map ev_ID evs) []"

section \<open>The envelope\<close>

definition stamp_dimensions :: "EventType \<Rightarrow> Env \<Rightarrow> event \<Rightarrow> event result" where
  "stamp_dimensions rule env ev =
     (if et_Repo rule \<and> env_Repo env = [] then Inl (ERefused ''requires a repo dimension'')
      else if et_Clone rule \<and> env_Clone env = [] then Inl (ERefused ''no Clone in its tier context'')
      else if et_Worktree rule \<and> env_Worktree env = [] then Inl (ERefused ''no Worktree in its tier context'')
      else Inr (ev\<lparr>ev_Repo := if et_Repo rule then env_Repo env else [],
                   ev_Clone := if et_Clone rule then env_Clone env else [],
                   ev_Worktree := if et_Worktree rule then env_Worktree env else []\<rparr>))"

definition stamped :: "Request \<Rightarrow> Draft \<Rightarrow> EventType \<Rightarrow> string \<Rightarrow> event result" where
  "stamped req d rule ident =
     rbind (timeOfID ident) (\<lambda>at.
     let ev = \<lparr>ev_ID = ident, ev_Type = dr_Type d, ev_OccurredAt = at, ev_Actor = rq_Actor req,
               ev_Causation = [], ev_Correlation = [], ev_Repo = [], ev_Clone = [], ev_Worktree = [],
               ev_Subject = dr_Subject d, ev_Payload = dr_Payload d\<rparr>
     in rbind (if dr_Type d = TypeGateDismissed
               then rbind (decodeStrict_GateDismissed (dr_Payload d)) (\<lambda>_. Inr ()) else Inr ()) (\<lambda>_.
        stamp_dimensions rule (case dr_Env d of Some e \<Rightarrow> e | None \<Rightarrow> rq_Env req) ev))"

definition stamp :: "Request \<Rightarrow> Draft \<Rightarrow> minter \<Rightarrow> minter \<times> event result" where
  "stamp req d m =
     (case requiredDimensions (dr_Type d) of
        Inl e \<Rightarrow> (m, Inl e)
      | Inr rule \<Rightarrow>
          if length (dr_Subject d) \<noteq> IDLen then (m, Inl (ERefused ''names a subject which is not an identity''))
          else case store_NewID m of
                 (m', Inl e) \<Rightarrow> (m', Inl e)
               | (m', Inr ident) \<Rightarrow> (m', stamped req d rule ident))"

text \<open>Causation and correlation, from the events the command has written so far.\<close>

definition chain :: "event list \<Rightarrow> Draft \<Rightarrow> event \<Rightarrow> event result" where
  "chain events d ev =
     (if events = [] then Inr (ev\<lparr>ev_Causation := ev_ID ev, ev_Correlation := ev_ID ev\<rparr>)
      else if dr_Cause d < 0 \<or> dr_Cause d \<ge> int (length events)
      then Inl (ERefused ''names a cause which is not an earlier event in this command'')
      else Inr (ev\<lparr>ev_Causation := ev_ID (events ! nat (dr_Cause d)), ev_Correlation := ev_ID (hd events)\<rparr>))"

section \<open>The log\<close>

definition opt_dim :: "string \<Rightarrow> bool" where
  "opt_dim v = (v = [] \<or> (sql_length v = 26 \<and> crock_only v))"

text \<open>\<open>occurred_at GLOB '[0-9][0-9][0-9][0-9]-..'\<close>: the year has four digits.\<close>

definition four_digit_year :: "int \<Rightarrow> bool" where
  "four_digit_year ms = (- 62167219200000 \<le> ms \<and> ms < 253402300800000)"

definition dimensions_match :: "event \<Rightarrow> bool" where
  "dimensions_match ev =
     (case requiredDimensions (ev_Type ev) of
        Inl _ \<Rightarrow> False
      | Inr r \<Rightarrow> et_Repo r = (ev_Repo ev \<noteq> []) \<and> et_Clone r = (ev_Clone ev \<noteq> [])
                 \<and> et_Worktree r = (ev_Worktree ev \<noteq> []))"

text \<open>The single INSERT into \<open>events\<close>, with the triggers, CHECKs and keys of the table.\<close>

definition appendEvent :: "event list \<Rightarrow> event \<Rightarrow> event list result" where
  "appendEvent evs ev = rbind (check_all [
      (list_all (\<lambda>e. ev_ID e < ev_ID ev) evs \<and> ev_ID ev \<noteq> [], SqlTrigger ''events_monotonic''),
      (ev_Causation ev \<le> ev_ID ev \<and> ev_Correlation ev \<le> ev_ID ev, SqlTrigger ''events_cause_never_forward''),
      (dimensions_match ev, SqlTrigger ''events_dimensions''),
      (sql_length (ev_ID ev) = 26 \<and> sql_length (ev_Subject ev) = 26
        \<and> sql_length (ev_Causation ev) = 26 \<and> sql_length (ev_Correlation ev) = 26
        \<and> crock_only (ev_ID ev) \<and> crock_only (ev_Subject ev)
        \<and> opt_dim (ev_Repo ev) \<and> opt_dim (ev_Clone ev) \<and> opt_dim (ev_Worktree ev)
        \<and> four_digit_year (ev_OccurredAt ev) \<and> Actor_valid (ev_Actor ev), SqlCheck ''events''),
      (list_ex (\<lambda>e. ev_ID e = ev_Causation ev) (evs @ [ev]), SqlForeignKey ''events.causation''),
      (list_ex (\<lambda>e. ev_ID e = ev_Correlation ev) (evs @ [ev]), SqlForeignKey ''events.correlation'')])
    (\<lambda>_. Inr (evs @ [ev]))"

section \<open>Commit\<close>

definition verifyRoleActor :: "db \<Rightarrow> Env \<Rightarrow> RoleName \<Rightarrow> unit result" where
  "verifyRoleActor s env name =
     require (list_ex (\<lambda>r. role_state r = ''open'' \<and> role_name r = name
         \<and> list_ex (\<lambda>d. di_id d = role_dispatch r
              \<and> (env_Worktree env \<noteq> [] \<longrightarrow> di_worktree d = env_Worktree env)) (dispatches s)
         \<and> (env_Worktree env = [] \<and> env_Clone env \<noteq> [] \<longrightarrow> role_clone r = env_Clone env)) (roles s))
       (ERefused ''claims a role with no open spawn behind it'')"

definition check_actor :: "Request \<Rightarrow> db \<Rightarrow> unit result" where
  "check_actor req s = (case Actor_Role (rq_Actor req) of
     Some name \<Rightarrow> verifyRoleActor s (rq_Env req) name | None \<Rightarrow> Inr ())"

text \<open>One iteration of the loop over the drafts, after the stamp.\<close>

definition record_event :: "event list \<Rightarrow> Draft \<Rightarrow> event \<Rightarrow> event list \<times> db \<Rightarrow> (event \<times> event list \<times> db) result" where
  "record_event events d ev = (\<lambda>(evs, s).
     rbind (chain events d ev) (\<lambda>ev1.
     rbind (appendEvent evs ev1) (\<lambda>evs1.
     rbind (applyEvent \<lparr>tx_log = evs1, tx_defer = False\<rparr> ev1 s) (\<lambda>s1. Inr (ev1, evs1, s1)))))"

primrec commit_loop ::
  "Request \<Rightarrow> Draft list \<Rightarrow> event list \<Rightarrow> minter \<Rightarrow> event list \<times> db
     \<Rightarrow> minter \<times> (event list \<times> event list \<times> db) result" where
  "commit_loop req [] events m st = (m, Inr (events, st))"
| "commit_loop req (d # ds) events m st =
     (case stamp req d m of
        (m', Inl e) \<Rightarrow> (m', Inl e)
      | (m', Inr ev) \<Rightarrow>
          (case record_event events d ev st of
             Inl e \<Rightarrow> (m', Inl e)
           | Inr (ev', st') \<Rightarrow> commit_loop req ds (events @ [ev']) m' st'))"

definition Commit :: "Request \<Rightarrow> decision \<Rightarrow> store \<Rightarrow> store \<times> event list result" where
  "Commit req decide st =
     (if \<not> Actor_valid (rq_Actor req) then (st, Inl (ERefused ''is not an actor''))
      else case check_actor req (st_db st) of
        Inl e \<Rightarrow> (st, Inl e)
      | Inr _ \<Rightarrow>
        (case decide \<lparr>tx_log = st_log st, tx_defer = False\<rparr> (st_db st) (st_mint st) of
           (m, Inl e) \<Rightarrow> (st\<lparr>st_mint := m\<rparr>, Inl e)
         | (m, Inr drafts) \<Rightarrow>
             if drafts = [] then (st\<lparr>st_mint := m\<rparr>, Inl (ERefused ''the command produced no event''))
             else (case commit_loop req drafts [] m (st_log st, st_db st) of
                     (m', Inl e) \<Rightarrow> (st\<lparr>st_mint := m'\<rparr>, Inl e)
                   | (m', Inr (events, evs, s)) \<Rightarrow>
                       (st\<lparr>st_log := evs, st_db := s, st_mint := m'\<rparr>, Inr events))))"

section \<open>Rebuild and open\<close>

definition view_Events :: "event list \<Rightarrow> event list" where
  "view_Events evs = sort_key ev_ID evs"

text \<open>The deferred foreign keys are checked when the rebuild commits.\<close>

definition rebuilt :: "event list \<Rightarrow> db result" where
  "rebuilt evs =
     rbind (for_each (applyEvent \<lparr>tx_log = evs, tx_defer = True\<rparr>) (view_Events evs) empty_db) (\<lambda>s.
     if refs_ok s then Inr s else Inl (ESql (SqlForeignKey ''commit'')))"

definition Rebuild :: "store \<Rightarrow> store \<times> unit result" where
  "Rebuild st = (case rebuilt (st_log st) of Inl e \<Rightarrow> (st, Inl e) | Inr s \<Rightarrow> (st\<lparr>st_db := s\<rparr>, Inr ()))"

text \<open>\<open>strconv.Atoi\<close>.\<close>

definition digit_value :: "char \<Rightarrow> int option" where
  "digit_value c = (if CHR ''0'' \<le> c \<and> c \<le> CHR ''9'' then Some (of_char c - 48) else None)"

primrec atoi_loop :: "string \<Rightarrow> int \<Rightarrow> int option" where
  "atoi_loop [] n = Some n"
| "atoi_loop (c # cs) n = (case digit_value c of None \<Rightarrow> None | Some d \<Rightarrow> atoi_loop cs (10 * n + d))"

definition atoi :: "string \<Rightarrow> int option" where
  "atoi v =
     (let body = (if v \<noteq> [] \<and> hd v \<in> {CHR ''+'', CHR ''-''} then tl v else v);
          sign = (if v \<noteq> [] \<and> hd v = CHR ''-'' then -1 else 1)
      in if body = [] then None
         else case atoi_loop body 0 of
                None \<Rightarrow> None
              | Some n \<Rightarrow> if - (2 ^ 63) \<le> sign * n \<and> sign * n < 2 ^ 63 then Some (sign * n) else None)"

definition projectionVersion :: int where
  "projectionVersion = 11"

definition ensureProjectionVersion :: "store \<Rightarrow> store \<times> unit result" where
  "ensureProjectionVersion st =
     (case st_version st of
        None \<Rightarrow> (st\<lparr>st_version := Some ''11''\<rparr>, Inr ())
      | Some recorded \<Rightarrow>
          (case atoi recorded of
             None \<Rightarrow> (st, Inl (ERefused ''records an unreadable projection version''))
           | Some have \<Rightarrow>
               if have = projectionVersion then (st, Inr ())
               else if have > projectionVersion then (st, Inl (ERefused ''built by a newer wip''))
               else case Rebuild st of
                      (st', Inl e) \<Rightarrow> (st', Inl e)
                    | (st', Inr _) \<Rightarrow> (st'\<lparr>st_version := Some ''11''\<rparr>, Inr ())))"

text \<open>\<open>openAt\<close> on a database already at version 14, past \<open>verifyTaxonomy\<close>: a new identity
  source, the floor of the log, and a projection of this binary's rules.\<close>

definition Reopen :: "reading list \<Rightarrow> store \<Rightarrow> store \<times> unit result" where
  "Reopen rds st = ensureProjectionVersion (st\<lparr>st_mint :=
     \<lparr>mi_ids = \<lparr>lastMS = 0, lastRand = replicate 10 0\<rparr>, mi_floor = loadFloor (st_log st), mi_readings = rds\<rparr>\<rparr>)"

definition new_store :: "reading list \<Rightarrow> store" where
  "new_store rds = \<lparr>st_log = [], st_db = empty_db, st_version = Some ''11'',
     st_mint = \<lparr>mi_ids = \<lparr>lastMS = 0, lastRand = replicate 10 0\<rparr>, mi_floor = [], mi_readings = rds\<rparr>\<rparr>"

end
