(* ===== verification/StoreLaws.thy ===== *)
theory StoreLaws
  imports Store
begin

text \<open>
  What \<open>Commit\<close> and \<open>Rebuild\<close> promise. \<open>reachable\<close> is the life of a store: created,
  then any sequence of commits (successful or not), rebuilds, reopenings and
  clock ticks. \<open>store_ok\<close> is its invariant: the projection is the fold of the log,
  the log was appended event by event under the checks of its table, and the
  floor of the minter is above every identity of the log.

  The facts of the library about statements (\<open>statement_invariant\<close>,
  \<open>statement_order\<close>) reach the store through the locales of this theory: an
  invariant of statements holds of every reachable projection, an order of
  statements relates the projections before and after any part of a store's life.
\<close>

section \<open>Minting\<close>

inductive mints :: "minter \<Rightarrow> minter \<Rightarrow> bool" for m where
  mints_refl: "mints m m"
| mints_new: "mints m m' \<Longrightarrow> mints m (fst (store_NewID m'))"

definition minting :: "decision \<Rightarrow> bool" where
  "minting decide \<longleftrightarrow> (\<forall>t s m. mints m (fst (decide t s m)))"

definition wf_minter :: "minter \<Rightarrow> bool" where
  "wf_minter m \<longleftrightarrow> wf_src (mi_ids m) \<and> (\<forall>rd \<in> set (mi_readings m). wf_reading rd)"

lemma store_NewID_Inr:
  assumes "wf_minter m" "store_NewID m = (m', Inr ident)"
  shows "mi_floor m < ident \<and> mi_floor m' = ident \<and> wf_minter m' \<and> IsIdentityShaped ident"
proof -
  from assms(2) obtain src rds where
    new: "NewID (mi_readings m) (mi_floor m) (mi_ids m) = Some (ident, src, rds)"
    and m': "m' = \<lparr>mi_ids = src, mi_floor = ident, mi_readings = rds\<rparr>"
    by (auto simp: store_NewID_def split: option.splits)
  from NewID_floor[OF new] assms(1) show ?thesis
    by (auto simp: wf_minter_def m' issued_shaped)
qed

lemma store_NewID_keeps:
  assumes "wf_minter m" "store_NewID m = (m', r)"
  shows "wf_minter m' \<and> mi_floor m \<le> mi_floor m'"
proof (cases r)
  case (Inl e)
  then show ?thesis using assms by (auto simp: store_NewID_def split: option.splits)
next
  case (Inr ident)
  then show ?thesis using store_NewID_Inr[OF assms(1), of m' ident] assms(2) by (auto intro: less_imp_le)
qed

lemma mints_keeps: "mints m m' \<Longrightarrow> wf_minter m \<Longrightarrow> wf_minter m' \<and> mi_floor m \<le> mi_floor m'"
proof (induction rule: mints.induct)
  case (mints_new m')
  then show ?case using store_NewID_keeps[of m'] by (metis order_trans prod.collapse)
qed simp

section \<open>The fold of a log\<close>

inductive folds :: "event list \<Rightarrow> db \<Rightarrow> bool" where
  folds_Nil: "folds [] empty_db"
| folds_snoc: "folds evs s \<Longrightarrow> applyEvent \<lparr>tx_log = evs @ [ev], tx_defer = False\<rparr> ev s = Inr s'
    \<Longrightarrow> folds (evs @ [ev]) s'"

lemma folds_gate_refs: "folds evs s \<Longrightarrow> gate_refs (ev_ID ` set evs) s"
proof (induction rule: folds.induct)
  case folds_Nil
  then show ?case by (simp add: gate_refs_def empty_db_def)
next
  case (folds_snoc evs s ev s')
  then have "gate_refs (ev_ID ` set (evs @ [ev])) s" by (auto simp: gate_refs_def)
  then show ?case using gate_refs_steps[OF applyEvent_steps[OF folds_snoc(2)]] by simp
qed

lemma find_event_prefix:
  assumes "x \<in> ev_ID ` set evs"
  shows "find_event \<lparr>tx_log = evs @ rest, tx_defer = b\<rparr> x = find_event \<lparr>tx_log = evs, tx_defer = c\<rparr> x"
proof -
  have "List.find p (evs @ rest) = List.find p evs" if "\<exists>e \<in> set evs. p e" for p
    using that by (induction evs) auto
  from this[of "\<lambda>e. ev_ID e = x"] assms show ?thesis by (auto simp: find_event_def)
qed

lemma tx_le_prefix:
  "tx_le (ev_ID ` set evs) \<lparr>tx_log = evs, tx_defer = False\<rparr> \<lparr>tx_log = evs @ rest, tx_defer = b\<rparr>"
  by (simp add: tx_le_def find_event_prefix[where c = False])

text \<open>Folding the whole log at once, under a transaction that sees more of it, gives
  what the commits folded event by event.\<close>

lemma folds_refold:
  assumes "folds evs s"
  shows "for_each (applyEvent \<lparr>tx_log = evs @ rest, tx_defer = b\<rparr>) evs empty_db = Inr s"
  using assms
proof (induction arbitrary: rest rule: folds.induct)
  case (folds_snoc evs s ev s')
  have "gate_refs (ev_ID ` set (evs @ [ev])) s"
    using folds_gate_refs[OF folds_snoc(1)] by (auto simp: gate_refs_def)
  then have "applyEvent \<lparr>tx_log = (evs @ [ev]) @ rest, tx_defer = b\<rparr> ev s = Inr s'"
    by (intro applyEvent_tx_le[OF tx_le_prefix _ _ folds_snoc(2)]) simp_all
  then show ?case using folds_snoc.IH[of "ev # rest"] by (simp add: for_each_append)
qed simp

context statement_invariant
begin

lemma folds_keep: "folds evs s \<Longrightarrow> I s"
  by (induction rule: folds.induct) (auto intro: init event_keeps)

end

section \<open>A log that was appended\<close>

definition log_ok :: "event list \<Rightarrow> bool" where
  "log_ok evs \<longleftrightarrow> (\<forall>i < length evs. appendEvent (take i evs) (evs ! i) = Inr (take (Suc i) evs))"

lemma appendEvent_Inr: "appendEvent evs ev = Inr evs' \<Longrightarrow> evs' = evs @ [ev]"
  by (auto simp: appendEvent_def res)

lemma log_ok_Nil [simp]: "log_ok []"
  by (simp add: log_ok_def)

lemma log_ok_append:
  assumes "log_ok evs" "appendEvent evs ev = Inr evs'"
  shows "log_ok evs'"
  using assms appendEvent_Inr[OF assms(2)]
  by (auto simp: log_ok_def nth_append less_Suc_eq)

lemma log_ok_nth:
  assumes "log_ok evs" "i < length evs"
  shows "list_all (\<lambda>e. ev_ID e < ev_ID (evs ! i)) (take i evs)" "dimensions_match (evs ! i)"
    "Actor_valid (ev_Actor (evs ! i))"
    "\<exists>j \<le> i. ev_ID (evs ! j) = ev_Causation (evs ! i)" "\<exists>j \<le> i. ev_ID (evs ! j) = ev_Correlation (evs ! i)"
proof -
  have app: "appendEvent (take i evs) (evs ! i) = Inr (take (Suc i) evs)" using assms by (simp add: log_ok_def)
  then show "list_all (\<lambda>e. ev_ID e < ev_ID (evs ! i)) (take i evs)" "dimensions_match (evs ! i)"
    "Actor_valid (ev_Actor (evs ! i))" by (simp_all add: appendEvent_def res)
  have hit: "\<exists>j \<le> i. ev_ID (evs ! j) = x"
    if "list_ex (\<lambda>e. ev_ID e = x) (take i evs) \<or> ev_ID (evs ! i) = x" for x
    using that assms(2) by (auto simp: list_ex_iff in_set_conv_nth intro: exI[of _ i]) (metis less_imp_le)
  from app have "list_ex (\<lambda>e. ev_ID e = ev_Causation (evs ! i)) (take i evs) \<or> ev_ID (evs ! i) = ev_Causation (evs ! i)"
    "list_ex (\<lambda>e. ev_ID e = ev_Correlation (evs ! i)) (take i evs) \<or> ev_ID (evs ! i) = ev_Correlation (evs ! i)"
    by (simp_all add: appendEvent_def res)
  then show "\<exists>j \<le> i. ev_ID (evs ! j) = ev_Causation (evs ! i)" "\<exists>j \<le> i. ev_ID (evs ! j) = ev_Correlation (evs ! i)"
    by (auto intro: hit)
qed

lemma log_ok_ascending: "log_ok evs \<Longrightarrow> sorted_wrt (<) (map ev_ID evs)"
  unfolding sorted_wrt_iff_nth_less
  by (auto dest!: log_ok_nth(1) simp: list_all_iff) (metis in_set_conv_nth length_take min.absorb2 nth_take order_less_imp_le)

lemma view_Events_ascending: "log_ok evs \<Longrightarrow> view_Events evs = evs"
  unfolding view_Events_def
  by (rule sort_key_id_if_sorted) (simp add: log_ok_ascending strict_sorted_imp_sorted)

section \<open>Stamping and recording\<close>

lemma stamp_keeps:
  assumes "stamp req d m = (m', r)" "wf_minter m"
  shows "wf_minter m' \<and> mi_floor m \<le> mi_floor m'"
  using assms store_NewID_keeps[OF assms(2)]
  by (auto simp: stamp_def split: sum.splits if_splits prod.splits)

lemma stamp_Inr:
  assumes "stamp req d m = (m', Inr ev)" "wf_minter m"
  shows "mi_floor m < ev_ID ev \<and> mi_floor m' = ev_ID ev \<and> ev_Actor ev = rq_Actor req
     \<and> ev_Type ev = dr_Type d \<and> ev_Subject ev = dr_Subject d \<and> ev_Payload ev = dr_Payload d"
proof -
  from assms(1) obtain rule ident where new: "store_NewID m = (m', Inr ident)"
    and st: "stamped req d rule ident = Inr ev"
    by (auto simp: stamp_def split: sum.splits if_splits prod.splits)
  from st have "ev_ID ev = ident \<and> ev_Actor ev = rq_Actor req \<and> ev_Type ev = dr_Type d
      \<and> ev_Subject ev = dr_Subject d \<and> ev_Payload ev = dr_Payload d"
    by (auto simp: stamped_def stamp_dimensions_def res Let_def split: if_splits)
  then show ?thesis using store_NewID_Inr[OF assms(2) new] by simp
qed

text \<open>The chain of a command: an origin, every event correlated to it, every later
  event caused by an earlier one.\<close>

definition chain_ok :: "event list \<Rightarrow> bool" where
  "chain_ok events \<longleftrightarrow> (\<forall>i < length events.
     ev_Correlation (events ! i) = ev_ID (events ! 0)
   \<and> (if i = 0 then IsOrigin (events ! 0)
      else \<exists>j < i. ev_Causation (events ! i) = ev_ID (events ! j)))"

lemma chain_ok_snoc:
  assumes "chain_ok events" "chain events d ev = Inr ev'"
  shows "chain_ok (events @ [ev'])"
proof (cases "events = []")
  case True
  then show ?thesis using assms(2) by (auto simp: chain_ok_def chain_def IsOrigin_def)
next
  case False
  let ?c = "nat (dr_Cause d)"
  from assms(2) False have ev': "ev_Causation ev' = ev_ID (events ! ?c)" "ev_Correlation ev' = ev_ID (events ! 0)"
    and c: "?c < length events" by (auto simp: chain_def hd_conv_nth split: if_splits)
  show ?thesis unfolding chain_ok_def
  proof (intro allI impI)
    fix i assume i: "i < length (events @ [ev'])"
    show "ev_Correlation ((events @ [ev']) ! i) = ev_ID ((events @ [ev']) ! 0)
      \<and> (if i = 0 then IsOrigin ((events @ [ev']) ! 0)
         else \<exists>j < i. ev_Causation ((events @ [ev']) ! i) = ev_ID ((events @ [ev']) ! j))"
    proof (cases "i < length events")
      case True
      have same: "(events @ [ev']) ! j = events ! j" if "j \<le> i" for j
        using that True by (simp add: nth_append)
      have "ev_Correlation (events ! i) = ev_ID (events ! 0) \<and> (if i = 0 then IsOrigin (events ! 0)
          else \<exists>j < i. ev_Causation (events ! i) = ev_ID (events ! j))"
        using assms(1) True unfolding chain_ok_def by blast
      then show ?thesis by (simp add: same cong: conj_cong)
    next
      case last: False
      then have "i = length events" using i by simp
      then show ?thesis using False ev' c by (auto simp: nth_append)
    qed
  qed
qed

lemma chain_keeps:
  "chain events d ev = Inr ev' \<Longrightarrow> ev_ID ev' = ev_ID ev \<and> ev_Actor ev' = ev_Actor ev
     \<and> ev_Type ev' = ev_Type ev \<and> ev_Subject ev' = ev_Subject ev \<and> ev_Payload ev' = ev_Payload ev"
  by (auto simp: chain_def split: if_splits)

definition floor_ok :: "event list \<Rightarrow> minter \<Rightarrow> bool" where
  "floor_ok evs m \<longleftrightarrow> (\<forall>e \<in> set evs. ev_ID e \<le> mi_floor m)"

lemma record_event_Inr:
  assumes "record_event events d ev (evs, s) = Inr (ev', evs', s')"
  shows "chain events d ev = Inr ev'" "appendEvent evs ev' = Inr evs'" "evs' = evs @ [ev']"
    "applyEvent \<lparr>tx_log = evs @ [ev'], tx_defer = False\<rparr> ev' s = Inr s'"
  using assms by (auto simp: record_event_def res dest: appendEvent_Inr)

lemma commit_loop_keeps:
  assumes "commit_loop req ds events m st = (m', r)" "wf_minter m"
  shows "wf_minter m' \<and> mi_floor m \<le> mi_floor m'"
  using assms
proof (induction ds arbitrary: events m st)
  case (Cons d ds)
  obtain m1 r1 where st: "stamp req d m = (m1, r1)" by fastforce
  then have m1: "wf_minter m1" "mi_floor m \<le> mi_floor m1" using stamp_keeps Cons.prems(2) by auto
  have "m' = m1 \<or> (\<exists>events' st'. commit_loop req ds events' m1 st' = (m', r))"
    using Cons.prems(1) st by (auto split: sum.splits prod.splits)
  then show ?case using m1 Cons.IH[OF _ m1(1)] by (auto intro: order_trans)
qed simp

text \<open>What a committed command has done: it appended its events, folded each of them,
  and every one of them is above the floor it started from.\<close>

lemma commit_loop_Inr:
  assumes "commit_loop req ds events m (base @ events, s) = (m', Inr (events', evs', s'))"
    and "wf_minter m" "folds (base @ events) s" "log_ok (base @ events)" "floor_ok (base @ events) m"
    "chain_ok events" "\<forall>e \<in> set events. ev_Actor e = rq_Actor req"
  shows "evs' = base @ events' \<and> folds evs' s' \<and> log_ok evs' \<and> floor_ok evs' m' \<and> chain_ok events'
    \<and> (\<forall>e \<in> set events'. ev_Actor e = rq_Actor req)
    \<and> map ev_Type events' = map ev_Type events @ map dr_Type ds
    \<and> map ev_Subject events' = map ev_Subject events @ map dr_Subject ds
    \<and> map ev_Payload events' = map ev_Payload events @ map dr_Payload ds"
  using assms
proof (induction ds arbitrary: events m s)
  case (Cons d ds)
  from Cons.prems(1) obtain m1 ev ev' evs1 s1 where
    st: "stamp req d m = (m1, Inr ev)"
    and rec: "record_event events d ev (base @ events, s) = Inr (ev', evs1, s1)"
    and rest: "commit_loop req ds (events @ [ev']) m1 (evs1, s1) = (m', Inr (events', evs', s'))"
    by (auto split: sum.splits prod.splits)
  note r = record_event_Inr[OF rec]
  have m1: "wf_minter m1" using stamp_keeps[OF st Cons.prems(2)] by simp
  have ev: "mi_floor m < ev_ID ev" "mi_floor m1 = ev_ID ev" "ev_Actor ev = rq_Actor req"
    "ev_Type ev = dr_Type d" "ev_Subject ev = dr_Subject d" "ev_Payload ev = dr_Payload d"
    using stamp_Inr[OF st Cons.prems(2)] by auto
  have floor: "floor_ok (base @ events @ [ev']) m1"
    using Cons.prems(5) ev(1,2) chain_keeps[OF r(1)] by (auto simp: floor_ok_def intro: order_trans less_imp_le)
  have "folds ((base @ events) @ [ev']) s1" using Cons.prems(3) r(4) by (rule folds_snoc)
  moreover have "log_ok ((base @ events) @ [ev'])" using log_ok_append[OF Cons.prems(4) r(2)] r(3) by simp
  ultimately show ?case
    using Cons.IH[of "events @ [ev']" m1 s1] rest r(3) m1 floor chain_ok_snoc[OF Cons.prems(6) r(1)]
      Cons.prems(7) chain_keeps[OF r(1)] ev by auto
qed simp

section \<open>The life of a store\<close>

inductive op :: "store \<Rightarrow> store \<Rightarrow> bool" where
  op_commit: "minting decide \<Longrightarrow> op st (fst (Commit req decide st))"
| op_rebuild: "op st (fst (Rebuild st))"
| op_reopen: "(\<And>rd. rd \<in> set rds \<Longrightarrow> wf_reading rd) \<Longrightarrow> op st (fst (Reopen rds st))"
| op_tick: "(\<And>rd. rd \<in> set rds \<Longrightarrow> wf_reading rd) \<Longrightarrow>
    op st (st\<lparr>st_mint := (st_mint st)\<lparr>mi_readings := rds\<rparr>\<rparr>)"

inductive reachable :: "store \<Rightarrow> bool" where
  born: "(\<And>rd. rd \<in> set rds \<Longrightarrow> wf_reading rd) \<Longrightarrow> reachable (new_store rds)"
| lived: "reachable st \<Longrightarrow> op st st' \<Longrightarrow> reachable st'"

definition store_ok :: "store \<Rightarrow> bool" where
  "store_ok st \<longleftrightarrow> folds (st_log st) (st_db st) \<and> log_ok (st_log st) \<and> wf_minter (st_mint st)
     \<and> floor_ok (st_log st) (st_mint st)"

lemma folds_rebuilt:
  assumes "folds evs s" "log_ok evs"
  shows "rebuilt evs = Inr s"
  using folds_refold[OF assms(1), of "[]" True] view_Events_ascending[OF assms(2)]
    references.folds_keep[OF assms(1)]
  by (simp add: rebuilt_def)

lemma Rebuild_ok: "store_ok st \<Longrightarrow> Rebuild st = (st, Inr ())"
  using folds_rebuilt[of "st_log st" "st_db st"] by (simp add: Rebuild_def store_ok_def)

text \<open>The three ways a commit ends.\<close>

lemma Commit_cases:
  assumes "store_ok st" "minting decide"
  obtains (error) m e where "Commit req decide st = (st\<lparr>st_mint := m\<rparr>, Inl e)" "wf_minter m"
      "mi_floor (st_mint st) \<le> mi_floor m"
  | (written) m drafts m' events s where
      "Commit req decide st = (st\<lparr>st_log := st_log st @ events, st_db := s, st_mint := m'\<rparr>, Inr events)"
      "decide \<lparr>tx_log = st_log st, tx_defer = False\<rparr> (st_db st) (st_mint st) = (m, Inr drafts)" "drafts \<noteq> []" "wf_minter m'"
      "check_actor req (st_db st) = Inr ()" "Actor_valid (rq_Actor req)"
      "folds (st_log st @ events) s" "log_ok (st_log st @ events)" "floor_ok (st_log st @ events) m'"
      "chain_ok events" "\<forall>e \<in> set events. ev_Actor e = rq_Actor req"
      "map ev_Type events = map dr_Type drafts" "map ev_Subject events = map dr_Subject drafts"
      "map ev_Payload events = map dr_Payload drafts"
proof -
  let ?t = "\<lparr>tx_log = st_log st, tx_defer = False\<rparr>"
  have wf: "wf_minter (st_mint st)" using assms(1) by (simp add: store_ok_def)
  obtain m r where dec: "decide ?t (st_db st) (st_mint st) = (m, r)" by fastforce
  have m: "wf_minter m" "mi_floor (st_mint st) \<le> mi_floor m"
    using assms(2) dec mints_keeps[OF _ wf, of m] unfolding minting_def by (metis fst_conv)+
  obtain u where act: "check_actor req (st_db st) = u" by simp
  consider "\<not> Actor_valid (rq_Actor req)" | e where "Actor_valid (rq_Actor req)" "u = Inl e"
    | e where "Actor_valid (rq_Actor req)" "u = Inr ()" "r = Inl e"
    | "Actor_valid (rq_Actor req)" "u = Inr ()" "r = Inr []"
    | drafts where "Actor_valid (rq_Actor req)" "u = Inr ()" "r = Inr drafts" "drafts \<noteq> []"
    by (metis old.unit.exhaust sum.exhaust)
  then show thesis
  proof cases
    case 1
    then show thesis using wf by (intro error[of "st_mint st"]) (auto simp: Commit_def)
  next
    case (2 e)
    then show thesis using wf act by (intro error[of "st_mint st"]) (auto simp: Commit_def)
  next
    case (3 e)
    then show thesis using m act dec by (intro error[of m]) (auto simp: Commit_def)
  next
    case 4
    then show thesis using m act dec by (intro error[of m]) (auto simp: Commit_def)
  next
    case (5 drafts)
    obtain m' q where loop: "commit_loop req drafts [] m (st_log st, st_db st) = (m', q)" by fastforce
    have m': "wf_minter m'" "mi_floor m \<le> mi_floor m'" using commit_loop_keeps[OF loop m(1)] by auto
    show thesis
    proof (cases q)
      case (Inl e)
      then show thesis using 5 m m' act dec loop
        by (intro error[of m']) (auto simp: Commit_def intro: order_trans)
    next
      case (Inr x)
      obtain events evs s where x: "x = (events, evs, s)" by (cases x)
      have floor: "floor_ok (st_log st) m" using assms(1) m(2) by (auto simp: store_ok_def floor_ok_def)
      have loop': "commit_loop req drafts [] m (st_log st @ [], st_db st) = (m', Inr (events, evs, s))"
        using loop Inr x by simp
      have "evs = st_log st @ events \<and> folds evs s \<and> log_ok evs \<and> floor_ok evs m' \<and> chain_ok events
        \<and> (\<forall>e \<in> set events. ev_Actor e = rq_Actor req) \<and> map ev_Type events = map dr_Type drafts
        \<and> map ev_Subject events = map dr_Subject drafts \<and> map ev_Payload events = map dr_Payload drafts"
        using commit_loop_Inr[OF loop' m(1)] assms(1) floor by (auto simp: store_ok_def chain_ok_def)
      moreover from this have "Commit req decide st
          = (st\<lparr>st_log := st_log st @ events, st_db := s, st_mint := m'\<rparr>, Inr events)"
        using 5 act dec loop Inr x by (simp add: Commit_def)
      ultimately show thesis using 5 act dec m' 
        by (intro written[where events = events and s = s and m' = m' and m = m and drafts = drafts]) auto
    qed
  qed
qed

lemma loadFloor_above: "e \<in> set evs \<Longrightarrow> ev_ID e \<le> loadFloor evs"
proof -
  have "x \<in> set xs \<or> x \<le> b \<Longrightarrow> x \<le> fold max xs b" for x b :: string and xs
    by (induction xs arbitrary: b) (auto simp: le_max_iff_disj)
  then show "e \<in> set evs \<Longrightarrow> ev_ID e \<le> loadFloor evs" by (simp add: loadFloor_def)
qed

lemma Reopen_ok:
  assumes "store_ok st" "\<And>rd. rd \<in> set rds \<Longrightarrow> wf_reading rd" "Reopen rds st = (st', r)"
  shows "store_ok st' \<and> st_log st' = st_log st \<and> st_db st' = st_db st"
proof -
  let ?st = "st\<lparr>st_mint := \<lparr>mi_ids = \<lparr>lastMS = 0, lastRand = replicate 10 0\<rparr>,
    mi_floor = loadFloor (st_log st), mi_readings = rds\<rparr>\<rparr>"
  have ok: "store_ok ?st"
    using assms(1,2) by (simp add: store_ok_def wf_minter_def wf_src_def floor_ok_def loadFloor_above)
  have "st' = ?st \<or> st' = ?st\<lparr>st_version := Some ''11''\<rparr>"
    using assms(3) Rebuild_ok[OF ok]
    by (auto simp: Reopen_def ensureProjectionVersion_def split: option.splits if_splits)
  then show ?thesis using ok by (auto simp: store_ok_def)
qed

lemma op_ok:
  assumes "op st st'" "store_ok st"
  shows "store_ok st' \<and> (\<exists>new. st_log st' = st_log st @ new)"
  using assms(1)
proof cases
  case (op_commit decide req)
  show ?thesis
    by (rule Commit_cases[OF assms(2) op_commit(2), of req])
      (use assms(2) op_commit(1) in \<open>auto simp: store_ok_def floor_ok_def\<close>)
next
  case op_rebuild
  then show ?thesis using Rebuild_ok[OF assms(2)] assms(2) by simp
next
  case (op_reopen rds)
  then show ?thesis using Reopen_ok[OF assms(2), of rds] by (metis append_Nil2 prod.collapse)
next
  case (op_tick rds)
  then show ?thesis using assms(2) by (simp add: store_ok_def wf_minter_def floor_ok_def)
qed

lemma reachable_ok: "reachable st \<Longrightarrow> store_ok st"
proof (induction rule: reachable.induct)
  case (born rds)
  then show ?case
    by (simp add: store_ok_def new_store_def folds_Nil wf_minter_def wf_src_def floor_ok_def)
next
  case (lived st st')
  then show ?case using op_ok by simp
qed

lemma ops_ok: "op\<^sup>*\<^sup>* st st' \<Longrightarrow> store_ok st \<Longrightarrow> store_ok st' \<and> (\<exists>new. st_log st' = st_log st @ new)"
proof (induction rule: rtranclp_induct)
  case (step b c)
  then show ?case using op_ok[OF step(2)] by fastforce
qed simp

lemma reachable_ops: "op\<^sup>*\<^sup>* st st' \<Longrightarrow> reachable st \<Longrightarrow> reachable st'"
  by (induction rule: rtranclp_induct) (auto intro: lived)

section \<open>Invariants and orders of statements, on stores\<close>

lemma folds_unique: "folds evs s \<Longrightarrow> folds evs s' \<Longrightarrow> s = s'"
  using folds_refold[of evs s "[]" True] folds_refold[of evs s' "[]" True] by simp

lemma folds_snocE:
  assumes "folds (evs @ [ev]) s'" "folds evs s"
  shows "applyEvent \<lparr>tx_log = evs @ [ev], tx_defer = False\<rparr> ev s = Inr s'"
proof -
  from assms(1) obtain s1 where "folds evs s1" "applyEvent \<lparr>tx_log = evs @ [ev], tx_defer = False\<rparr> ev s1 = Inr s'"
    by (cases rule: folds.cases) auto
  then show ?thesis using folds_unique[OF assms(2)] by simp
qed

lemma folds_prefix: "folds (evs @ new) s \<Longrightarrow> \<exists>s'. folds evs s'"
proof (induction new arbitrary: s rule: rev_induct)
  case (snoc ev new)
  from snoc.prems obtain s1 where "folds (evs @ new) s1" by (cases rule: folds.cases) auto
  then show ?case by (rule snoc.IH)
qed auto

context statement_invariant
begin

lemma reachable_keep: "reachable st \<Longrightarrow> I (st_db st)"
  using reachable_ok folds_keep by (auto simp: store_ok_def)

end

context statement_order
begin

lemma folds_order: "folds (evs @ new) s' \<Longrightarrow> folds evs s \<Longrightarrow> R s s'"
proof (induction new arbitrary: s' rule: rev_induct)
  case Nil
  then show ?case using folds_unique refl by auto
next
  case (snoc ev new)
  from snoc.prems(1) obtain s1 where "folds (evs @ new) s1"
    "applyEvent \<lparr>tx_log = evs @ new @ [ev], tx_defer = False\<rparr> ev s1 = Inr s'"
    by (cases rule: folds.cases) auto
  then show ?case using snoc.IH snoc.prems(2) event_order trans by blast
qed

lemma life_order:
  assumes "reachable st" "op\<^sup>*\<^sup>* st st'"
  shows "R (st_db st) (st_db st')"
proof -
  have "store_ok st" using assms(1) by (rule reachable_ok)
  moreover from ops_ok[OF assms(2) this] obtain new where
    "store_ok st'" "st_log st' = st_log st @ new" by auto
  ultimately show ?thesis using folds_order[of "st_log st" new] by (simp add: store_ok_def)
qed

end

end
