(* ===== verification/Demo.thy ===== *)
theory Demo
  imports StoreLaws
begin

text \<open>
  A concrete life of a store, for the witnesses: one command of thirteen drafts on
  a new store that attaches a Repo, a Clone and a Worktree, declares a gate,
  creates two Matters and two Steps, removes a Step, adds a dependency, enters
  a backlog item, opens a dispatch and spawns a role on it. Every stamp and
  every fold is evaluated by the simplifier, so \<open>demo_commit\<close> is a fact about
  \<open>Commit\<close> itself and \<open>demo_store\<close> is a reachable store with rows in most tables.
\<close>

definition id_R :: string where "id_R = ''000000000000000000000001A0''"
definition id_A :: string where "id_A = ''000000000000000000000001A1''"
definition id_B :: string where "id_B = ''000000000000000000000001A2''"
definition id_S :: string where "id_S = ''000000000000000000000001A3''"
definition id_E :: string where "id_E = ''000000000000000000000001A4''"
definition id_K :: string where "id_K = ''000000000000000000000001A5''"
definition id_C :: string where "id_C = ''000000000000000000000001A6''"
definition id_W :: string where "id_W = ''000000000000000000000001A7''"
definition id_D :: string where "id_D = ''000000000000000000000001A8''"
definition id_L :: string where "id_L = ''000000000000000000000001A9''"
definition id_T :: string where "id_T = ''000000000000000000000001AA''"

definition demo_env :: Env where
  "demo_env = \<lparr>env_Repo = id_R, env_Clone = id_C, env_Worktree = id_W\<rparr>"

definition demo_request :: Request where
  "demo_request = \<lparr>rq_Actor = ActorHuman, rq_Env = demo_env\<rparr>"

definition demo_draft1 :: Draft where
  "demo_draft1 = \<lparr>dr_Type = TypeRepoAttached, dr_Subject = id_R,
     dr_Payload = marshal_RepoAttached \<lparr>pa_RemoteURL = ''git@h:r'', pa_IdentityRemote = [], pa_Label = []\<rparr>,
     dr_Env = None, dr_Cause = 0\<rparr>"

definition demo_draft2 :: Draft where
  "demo_draft2 = \<lparr>dr_Type = TypeCloneAttached, dr_Subject = id_C,
     dr_Payload = marshal_CloneAttached \<lparr>ca_Repo = id_R, ca_GitCommonDir = ''/r/.git'', ca_Label = ''r''\<rparr>,
     dr_Env = None, dr_Cause = 0\<rparr>"

definition demo_draft3 :: Draft where
  "demo_draft3 = \<lparr>dr_Type = TypeWorktreeAttached, dr_Subject = id_W,
     dr_Payload = marshal_WorktreeAttached \<lparr>wa_Clone = id_C, wa_Name = []\<rparr>,
     dr_Env = None, dr_Cause = 0\<rparr>"

definition demo_draft4 :: Draft where
  "demo_draft4 = \<lparr>dr_Type = TypeGateDeclared, dr_Subject = id_R,
     dr_Payload = marshal_GateDeclared \<lparr>gl_Gate = ''reviewed'', gl_Scale = ScaleMatter, gl_Exempt = []\<rparr>,
     dr_Env = None, dr_Cause = 0\<rparr>"

definition demo_draft5 :: Draft where
  "demo_draft5 = \<lparr>dr_Type = TypeMatterCreated, dr_Subject = id_A,
     dr_Payload = marshal_NodeBirth \<lparr>nb_Title = ''a'', nb_Locator = ''a'', nb_Parent = [], nb_SortKey = 0\<rparr>,
     dr_Env = None, dr_Cause = 0\<rparr>"

definition demo_draft6 :: Draft where
  "demo_draft6 = \<lparr>dr_Type = TypeMatterCreated, dr_Subject = id_B,
     dr_Payload = marshal_NodeBirth \<lparr>nb_Title = ''b'', nb_Locator = ''b'', nb_Parent = [], nb_SortKey = 0\<rparr>,
     dr_Env = None, dr_Cause = 0\<rparr>"

definition demo_draft7 :: Draft where
  "demo_draft7 = \<lparr>dr_Type = TypeStepCreated, dr_Subject = id_S,
     dr_Payload = marshal_NodeBirth \<lparr>nb_Title = ''s'', nb_Locator = ''step-01'', nb_Parent = id_A, nb_SortKey = 1000\<rparr>,
     dr_Env = None, dr_Cause = 0\<rparr>"

definition demo_draft8 :: Draft where
  "demo_draft8 = \<lparr>dr_Type = TypeStepCreated, dr_Subject = id_T,
     dr_Payload = marshal_NodeBirth \<lparr>nb_Title = ''t'', nb_Locator = ''step-02'', nb_Parent = id_A, nb_SortKey = 2000\<rparr>,
     dr_Env = None, dr_Cause = 0\<rparr>"

definition demo_draft9 :: Draft where
  "demo_draft9 = \<lparr>dr_Type = TypeStepRemoved, dr_Subject = id_T,
     dr_Payload = marshal_Removed \<lparr>rm_Reason = []\<rparr>,
     dr_Env = None, dr_Cause = 0\<rparr>"

definition demo_draft10 :: Draft where
  "demo_draft10 = \<lparr>dr_Type = TypeDependencyAdded, dr_Subject = id_A,
     dr_Payload = marshal_DependencyChange \<lparr>dc_Edge = id_E, dc_Blocker = id_B\<rparr>,
     dr_Env = None, dr_Cause = 0\<rparr>"

definition demo_draft11 :: Draft where
  "demo_draft11 = \<lparr>dr_Type = TypeBacklogEntered, dr_Subject = id_K,
     dr_Payload = marshal_BacklogEntered \<lparr>be_Provenance = ProvenanceIntake, be_Title = ''k'', be_Detail = [], be_OriginNode = []\<rparr>,
     dr_Env = None, dr_Cause = 0\<rparr>"

definition demo_draft12 :: Draft where
  "demo_draft12 = \<lparr>dr_Type = TypeDispatchOpened, dr_Subject = id_D,
     dr_Payload = marshal_DispatchOpened \<lparr>do_Run = [], do_Matter = []\<rparr>,
     dr_Env = None, dr_Cause = 0\<rparr>"

definition demo_draft13 :: Draft where
  "demo_draft13 = \<lparr>dr_Type = TypeRoleSpawned, dr_Subject = id_L,
     dr_Payload = marshal_RoleSpawned \<lparr>rl_Dispatch = id_D, rl_Name = RoleBuilder\<rparr>,
     dr_Env = None, dr_Cause = 0\<rparr>"

definition demo_readings :: "reading list" where
  "demo_readings = [(1000, replicate 10 0),
     (1001, replicate 10 1),
     (1002, replicate 10 2),
     (1003, replicate 10 3),
     (1004, replicate 10 4),
     (1005, replicate 10 5),
     (1006, replicate 10 6),
     (1007, replicate 10 7),
     (1008, replicate 10 8),
     (1009, replicate 10 9),
     (1010, replicate 10 10),
     (1011, replicate 10 11),
     (1012, replicate 10 12)]"

definition demo_mint0 :: minter where
  "demo_mint0 = \<lparr>mi_ids = \<lparr>lastMS = 0, lastRand = replicate 10 0\<rparr>, mi_floor = [], mi_readings = demo_readings\<rparr>"

definition demo_mint1 :: minter where
  "demo_mint1 = \<lparr>mi_ids = \<lparr>lastMS = 1000, lastRand = replicate 10 0\<rparr>, mi_floor = ''00000000Z80000000000000000'',
     mi_readings = [(1001, replicate 10 1), (1002, replicate 10 2), (1003, replicate 10 3), (1004, replicate 10 4), (1005, replicate 10 5), (1006, replicate 10 6), (1007, replicate 10 7), (1008, replicate 10 8), (1009, replicate 10 9), (1010, replicate 10 10), (1011, replicate 10 11), (1012, replicate 10 12)]\<rparr>"

definition demo_mint2 :: minter where
  "demo_mint2 = \<lparr>mi_ids = \<lparr>lastMS = 1001, lastRand = replicate 10 1\<rparr>, mi_floor = ''00000000Z9040G2081040G2081'',
     mi_readings = [(1002, replicate 10 2), (1003, replicate 10 3), (1004, replicate 10 4), (1005, replicate 10 5), (1006, replicate 10 6), (1007, replicate 10 7), (1008, replicate 10 8), (1009, replicate 10 9), (1010, replicate 10 10), (1011, replicate 10 11), (1012, replicate 10 12)]\<rparr>"

definition demo_mint3 :: minter where
  "demo_mint3 = \<lparr>mi_ids = \<lparr>lastMS = 1002, lastRand = replicate 10 2\<rparr>, mi_floor = ''00000000ZA081040G2081040G2'',
     mi_readings = [(1003, replicate 10 3), (1004, replicate 10 4), (1005, replicate 10 5), (1006, replicate 10 6), (1007, replicate 10 7), (1008, replicate 10 8), (1009, replicate 10 9), (1010, replicate 10 10), (1011, replicate 10 11), (1012, replicate 10 12)]\<rparr>"

definition demo_mint4 :: minter where
  "demo_mint4 = \<lparr>mi_ids = \<lparr>lastMS = 1003, lastRand = replicate 10 3\<rparr>, mi_floor = ''00000000ZB0C1G60R30C1G60R3'',
     mi_readings = [(1004, replicate 10 4), (1005, replicate 10 5), (1006, replicate 10 6), (1007, replicate 10 7), (1008, replicate 10 8), (1009, replicate 10 9), (1010, replicate 10 10), (1011, replicate 10 11), (1012, replicate 10 12)]\<rparr>"

definition demo_mint5 :: minter where
  "demo_mint5 = \<lparr>mi_ids = \<lparr>lastMS = 1004, lastRand = replicate 10 4\<rparr>, mi_floor = ''00000000ZC0G2081040G208104'',
     mi_readings = [(1005, replicate 10 5), (1006, replicate 10 6), (1007, replicate 10 7), (1008, replicate 10 8), (1009, replicate 10 9), (1010, replicate 10 10), (1011, replicate 10 11), (1012, replicate 10 12)]\<rparr>"

definition demo_mint6 :: minter where
  "demo_mint6 = \<lparr>mi_ids = \<lparr>lastMS = 1005, lastRand = replicate 10 5\<rparr>, mi_floor = ''00000000ZD0M2GA1850M2GA185'',
     mi_readings = [(1006, replicate 10 6), (1007, replicate 10 7), (1008, replicate 10 8), (1009, replicate 10 9), (1010, replicate 10 10), (1011, replicate 10 11), (1012, replicate 10 12)]\<rparr>"

definition demo_mint7 :: minter where
  "demo_mint7 = \<lparr>mi_ids = \<lparr>lastMS = 1006, lastRand = replicate 10 6\<rparr>, mi_floor = ''00000000ZE0R30C1G60R30C1G6'',
     mi_readings = [(1007, replicate 10 7), (1008, replicate 10 8), (1009, replicate 10 9), (1010, replicate 10 10), (1011, replicate 10 11), (1012, replicate 10 12)]\<rparr>"

definition demo_mint8 :: minter where
  "demo_mint8 = \<lparr>mi_ids = \<lparr>lastMS = 1007, lastRand = replicate 10 7\<rparr>, mi_floor = ''00000000ZF0W3GE1R70W3GE1R7'',
     mi_readings = [(1008, replicate 10 8), (1009, replicate 10 9), (1010, replicate 10 10), (1011, replicate 10 11), (1012, replicate 10 12)]\<rparr>"

definition demo_mint9 :: minter where
  "demo_mint9 = \<lparr>mi_ids = \<lparr>lastMS = 1008, lastRand = replicate 10 8\<rparr>, mi_floor = ''00000000ZG1040G2081040G208'',
     mi_readings = [(1009, replicate 10 9), (1010, replicate 10 10), (1011, replicate 10 11), (1012, replicate 10 12)]\<rparr>"

definition demo_mint10 :: minter where
  "demo_mint10 = \<lparr>mi_ids = \<lparr>lastMS = 1009, lastRand = replicate 10 9\<rparr>, mi_floor = ''00000000ZH144GJ289144GJ289'',
     mi_readings = [(1010, replicate 10 10), (1011, replicate 10 11), (1012, replicate 10 12)]\<rparr>"

definition demo_mint11 :: minter where
  "demo_mint11 = \<lparr>mi_ids = \<lparr>lastMS = 1010, lastRand = replicate 10 10\<rparr>, mi_floor = ''00000000ZJ1850M2GA1850M2GA'',
     mi_readings = [(1011, replicate 10 11), (1012, replicate 10 12)]\<rparr>"

definition demo_mint12 :: minter where
  "demo_mint12 = \<lparr>mi_ids = \<lparr>lastMS = 1011, lastRand = replicate 10 11\<rparr>, mi_floor = ''00000000ZK1C5GP2RB1C5GP2RB'',
     mi_readings = [(1012, replicate 10 12)]\<rparr>"

definition demo_mint13 :: minter where
  "demo_mint13 = \<lparr>mi_ids = \<lparr>lastMS = 1012, lastRand = replicate 10 12\<rparr>, mi_floor = ''00000000ZM1G60R30C1G60R30C'',
     mi_readings = []\<rparr>"

definition demo_event1 :: event where
  "demo_event1 = \<lparr>ev_ID = ''00000000Z80000000000000000'', ev_Type = TypeRepoAttached, ev_OccurredAt = 1000,
     ev_Actor = ActorHuman, ev_Causation = ''00000000Z80000000000000000'', ev_Correlation = ''00000000Z80000000000000000'',
     ev_Repo = id_R, ev_Clone = [], ev_Worktree = [], ev_Subject = id_R,
     ev_Payload = dr_Payload demo_draft1\<rparr>"

definition demo_event2 :: event where
  "demo_event2 = \<lparr>ev_ID = ''00000000Z9040G2081040G2081'', ev_Type = TypeCloneAttached, ev_OccurredAt = 1001,
     ev_Actor = ActorHuman, ev_Causation = ''00000000Z80000000000000000'', ev_Correlation = ''00000000Z80000000000000000'',
     ev_Repo = id_R, ev_Clone = [], ev_Worktree = [], ev_Subject = id_C,
     ev_Payload = dr_Payload demo_draft2\<rparr>"

definition demo_event3 :: event where
  "demo_event3 = \<lparr>ev_ID = ''00000000ZA081040G2081040G2'', ev_Type = TypeWorktreeAttached, ev_OccurredAt = 1002,
     ev_Actor = ActorHuman, ev_Causation = ''00000000Z80000000000000000'', ev_Correlation = ''00000000Z80000000000000000'',
     ev_Repo = id_R, ev_Clone = [], ev_Worktree = [], ev_Subject = id_W,
     ev_Payload = dr_Payload demo_draft3\<rparr>"

definition demo_event4 :: event where
  "demo_event4 = \<lparr>ev_ID = ''00000000ZB0C1G60R30C1G60R3'', ev_Type = TypeGateDeclared, ev_OccurredAt = 1003,
     ev_Actor = ActorHuman, ev_Causation = ''00000000Z80000000000000000'', ev_Correlation = ''00000000Z80000000000000000'',
     ev_Repo = id_R, ev_Clone = [], ev_Worktree = [], ev_Subject = id_R,
     ev_Payload = dr_Payload demo_draft4\<rparr>"

definition demo_event5 :: event where
  "demo_event5 = \<lparr>ev_ID = ''00000000ZC0G2081040G208104'', ev_Type = TypeMatterCreated, ev_OccurredAt = 1004,
     ev_Actor = ActorHuman, ev_Causation = ''00000000Z80000000000000000'', ev_Correlation = ''00000000Z80000000000000000'',
     ev_Repo = id_R, ev_Clone = [], ev_Worktree = [], ev_Subject = id_A,
     ev_Payload = dr_Payload demo_draft5\<rparr>"

definition demo_event6 :: event where
  "demo_event6 = \<lparr>ev_ID = ''00000000ZD0M2GA1850M2GA185'', ev_Type = TypeMatterCreated, ev_OccurredAt = 1005,
     ev_Actor = ActorHuman, ev_Causation = ''00000000Z80000000000000000'', ev_Correlation = ''00000000Z80000000000000000'',
     ev_Repo = id_R, ev_Clone = [], ev_Worktree = [], ev_Subject = id_B,
     ev_Payload = dr_Payload demo_draft6\<rparr>"

definition demo_event7 :: event where
  "demo_event7 = \<lparr>ev_ID = ''00000000ZE0R30C1G60R30C1G6'', ev_Type = TypeStepCreated, ev_OccurredAt = 1006,
     ev_Actor = ActorHuman, ev_Causation = ''00000000Z80000000000000000'', ev_Correlation = ''00000000Z80000000000000000'',
     ev_Repo = id_R, ev_Clone = [], ev_Worktree = [], ev_Subject = id_S,
     ev_Payload = dr_Payload demo_draft7\<rparr>"

definition demo_event8 :: event where
  "demo_event8 = \<lparr>ev_ID = ''00000000ZF0W3GE1R70W3GE1R7'', ev_Type = TypeStepCreated, ev_OccurredAt = 1007,
     ev_Actor = ActorHuman, ev_Causation = ''00000000Z80000000000000000'', ev_Correlation = ''00000000Z80000000000000000'',
     ev_Repo = id_R, ev_Clone = [], ev_Worktree = [], ev_Subject = id_T,
     ev_Payload = dr_Payload demo_draft8\<rparr>"

definition demo_event9 :: event where
  "demo_event9 = \<lparr>ev_ID = ''00000000ZG1040G2081040G208'', ev_Type = TypeStepRemoved, ev_OccurredAt = 1008,
     ev_Actor = ActorHuman, ev_Causation = ''00000000Z80000000000000000'', ev_Correlation = ''00000000Z80000000000000000'',
     ev_Repo = id_R, ev_Clone = [], ev_Worktree = [], ev_Subject = id_T,
     ev_Payload = dr_Payload demo_draft9\<rparr>"

definition demo_event10 :: event where
  "demo_event10 = \<lparr>ev_ID = ''00000000ZH144GJ289144GJ289'', ev_Type = TypeDependencyAdded, ev_OccurredAt = 1009,
     ev_Actor = ActorHuman, ev_Causation = ''00000000Z80000000000000000'', ev_Correlation = ''00000000Z80000000000000000'',
     ev_Repo = id_R, ev_Clone = [], ev_Worktree = [], ev_Subject = id_A,
     ev_Payload = dr_Payload demo_draft10\<rparr>"

definition demo_event11 :: event where
  "demo_event11 = \<lparr>ev_ID = ''00000000ZJ1850M2GA1850M2GA'', ev_Type = TypeBacklogEntered, ev_OccurredAt = 1010,
     ev_Actor = ActorHuman, ev_Causation = ''00000000Z80000000000000000'', ev_Correlation = ''00000000Z80000000000000000'',
     ev_Repo = id_R, ev_Clone = [], ev_Worktree = [], ev_Subject = id_K,
     ev_Payload = dr_Payload demo_draft11\<rparr>"

definition demo_event12 :: event where
  "demo_event12 = \<lparr>ev_ID = ''00000000ZK1C5GP2RB1C5GP2RB'', ev_Type = TypeDispatchOpened, ev_OccurredAt = 1011,
     ev_Actor = ActorHuman, ev_Causation = ''00000000Z80000000000000000'', ev_Correlation = ''00000000Z80000000000000000'',
     ev_Repo = id_R, ev_Clone = id_C, ev_Worktree = id_W, ev_Subject = id_D,
     ev_Payload = dr_Payload demo_draft12\<rparr>"

definition demo_event13 :: event where
  "demo_event13 = \<lparr>ev_ID = ''00000000ZM1G60R30C1G60R30C'', ev_Type = TypeRoleSpawned, ev_OccurredAt = 1012,
     ev_Actor = ActorHuman, ev_Causation = ''00000000Z80000000000000000'', ev_Correlation = ''00000000Z80000000000000000'',
     ev_Repo = id_R, ev_Clone = id_C, ev_Worktree = id_W, ev_Subject = id_L,
     ev_Payload = dr_Payload demo_draft13\<rparr>"

definition demo_row1 where
  "demo_row1 = \<lparr>r_id = id_R, r_remote_url = Some ''git@h:r'', r_identity_remote = None, r_label = None,
        r_birth = ''00000000Z80000000000000000'', r_last = ''00000000Z80000000000000000''\<rparr>"

definition demo_row2 where
  "demo_row2 = \<lparr>c_id = id_C, c_repo = id_R, c_git_common_dir = ''/r/.git'', c_label = ''r'',
        c_birth = ''00000000Z9040G2081040G2081'', c_last = ''00000000Z9040G2081040G2081''\<rparr>"

definition demo_row3 where
  "demo_row3 = \<lparr>w_id = id_W, w_clone = id_C, w_name = None, w_birth = ''00000000ZA081040G2081040G2'', w_last = ''00000000ZA081040G2081040G2''\<rparr>"

definition demo_row4 where
  "demo_row4 = \<lparr>d_repo = id_R, d_gate = ''reviewed'', d_scale = ScaleMatter\<rparr>"

definition demo_row5 where
  "demo_row5 = \<lparr>n_id = id_A, n_kind = ScaleMatter, n_repo = id_R, n_matter = id_A, n_parent = None,
        n_locator = ''a'', n_title = ''a'', n_lifecycle = Planned, n_sort_key = 0, n_external_ref = None,
        n_birth = ''00000000ZC0G2081040G208104'', n_last = ''00000000ZC0G2081040G208104'', n_tombstone = None\<rparr>"

definition demo_row6 where
  "demo_row6 = \<lparr>n_id = id_B, n_kind = ScaleMatter, n_repo = id_R, n_matter = id_B, n_parent = None,
        n_locator = ''b'', n_title = ''b'', n_lifecycle = Planned, n_sort_key = 0, n_external_ref = None,
        n_birth = ''00000000ZD0M2GA1850M2GA185'', n_last = ''00000000ZD0M2GA1850M2GA185'', n_tombstone = None\<rparr>"

definition demo_row7 where
  "demo_row7 = \<lparr>n_id = id_S, n_kind = ScaleStep, n_repo = id_R, n_matter = id_A, n_parent = Some id_A,
        n_locator = ''step-01'', n_title = ''s'', n_lifecycle = Planned, n_sort_key = 1000, n_external_ref = None,
        n_birth = ''00000000ZE0R30C1G60R30C1G6'', n_last = ''00000000ZE0R30C1G60R30C1G6'', n_tombstone = None\<rparr>"

definition demo_row8 where
  "demo_row8 = \<lparr>n_id = id_T, n_kind = ScaleStep, n_repo = id_R, n_matter = id_A, n_parent = Some id_A,
        n_locator = ''step-02'', n_title = ''t'', n_lifecycle = Planned, n_sort_key = 2000, n_external_ref = None,
        n_birth = ''00000000ZF0W3GE1R70W3GE1R7'', n_last = ''00000000ZF0W3GE1R70W3GE1R7'', n_tombstone = None\<rparr>"

definition demo_row10 where
  "demo_row10 = \<lparr>e_id = id_E, e_blocked = id_A, e_blocker = id_B, e_birth = ''00000000ZH144GJ289144GJ289'', e_last = ''00000000ZH144GJ289144GJ289'', e_tombstone = None\<rparr>"

definition demo_row11 where
  "demo_row11 = \<lparr>b_id = id_K, b_repo = id_R, b_provenance = ProvenanceIntake, b_state = ''entered'', b_title = ''k'',
        b_detail = [], b_origin_node = None, b_matter = None, b_outbox = None, b_decline_reason = [],
        b_birth = ''00000000ZJ1850M2GA1850M2GA'', b_last = ''00000000ZJ1850M2GA1850M2GA''\<rparr>"

definition demo_row12 where
  "demo_row12 = \<lparr>di_id = id_D, di_clone = id_C, di_worktree = id_W, di_run = None, di_matter = None,
        di_state = ''open'', di_close_reason = None, di_opened_at = 1011, di_closed_at = None,
        di_birth = ''00000000ZK1C5GP2RB1C5GP2RB'', di_last = ''00000000ZK1C5GP2RB1C5GP2RB''\<rparr>"

definition demo_row13 where
  "demo_row13 = \<lparr>role_id = id_L, role_clone = id_C, role_dispatch = id_D, role_name = RoleBuilder, role_state = ''open'',
        role_close_reason = None, role_spawned_at = 1012, role_closed_at = None,
        role_birth = ''00000000ZM1G60R30C1G60R30C'', role_last = ''00000000ZM1G60R30C1G60R30C''\<rparr>"

definition demo_row9 :: node_row where
  "demo_row9 = demo_row8\<lparr>n_tombstone := Some ''00000000ZG1040G2081040G208'', n_last := ''00000000ZG1040G2081040G208''\<rparr>"

definition demo_db0 :: db where
  "demo_db0 = empty_db"

definition demo_db1 :: db where
  "demo_db1 = empty_db\<lparr>repos := [demo_row1]\<rparr>"

definition demo_db2 :: db where
  "demo_db2 = empty_db\<lparr>repos := [demo_row1], clones := [demo_row2]\<rparr>"

definition demo_db3 :: db where
  "demo_db3 = empty_db\<lparr>repos := [demo_row1], clones := [demo_row2], worktrees := [demo_row3]\<rparr>"

definition demo_db4 :: db where
  "demo_db4 = empty_db\<lparr>repos := [demo_row1], clones := [demo_row2], worktrees := [demo_row3], gate_declarations := [demo_row4]\<rparr>"

definition demo_db5 :: db where
  "demo_db5 = empty_db\<lparr>repos := [demo_row1], clones := [demo_row2], worktrees := [demo_row3], gate_declarations := [demo_row4], nodes := [demo_row5]\<rparr>"

definition demo_db6 :: db where
  "demo_db6 = empty_db\<lparr>repos := [demo_row1], clones := [demo_row2], worktrees := [demo_row3], gate_declarations := [demo_row4], nodes := [demo_row5, demo_row6]\<rparr>"

definition demo_db7 :: db where
  "demo_db7 = empty_db\<lparr>repos := [demo_row1], clones := [demo_row2], worktrees := [demo_row3], gate_declarations := [demo_row4], nodes := [demo_row5, demo_row6, demo_row7]\<rparr>"

definition demo_db8 :: db where
  "demo_db8 = empty_db\<lparr>repos := [demo_row1], clones := [demo_row2], worktrees := [demo_row3], gate_declarations := [demo_row4], nodes := [demo_row5, demo_row6, demo_row7, demo_row8]\<rparr>"

definition demo_db9 :: db where
  "demo_db9 = empty_db\<lparr>repos := [demo_row1], clones := [demo_row2], worktrees := [demo_row3], gate_declarations := [demo_row4], nodes := [demo_row5, demo_row6, demo_row7, demo_row9]\<rparr>"

definition demo_db10 :: db where
  "demo_db10 = empty_db\<lparr>repos := [demo_row1], clones := [demo_row2], worktrees := [demo_row3], gate_declarations := [demo_row4], nodes := [demo_row5, demo_row6, demo_row7, demo_row9], edges := [demo_row10]\<rparr>"

definition demo_db11 :: db where
  "demo_db11 = empty_db\<lparr>repos := [demo_row1], clones := [demo_row2], worktrees := [demo_row3], gate_declarations := [demo_row4], nodes := [demo_row5, demo_row6, demo_row7, demo_row9], edges := [demo_row10], backlog_entries := [demo_row11]\<rparr>"

definition demo_db12 :: db where
  "demo_db12 = empty_db\<lparr>repos := [demo_row1], clones := [demo_row2], worktrees := [demo_row3], gate_declarations := [demo_row4], nodes := [demo_row5, demo_row6, demo_row7, demo_row9], edges := [demo_row10], backlog_entries := [demo_row11], dispatches := [demo_row12]\<rparr>"

definition demo_db13 :: db where
  "demo_db13 = empty_db\<lparr>repos := [demo_row1], clones := [demo_row2], worktrees := [demo_row3], gate_declarations := [demo_row4], nodes := [demo_row5, demo_row6, demo_row7, demo_row9], edges := [demo_row10], backlog_entries := [demo_row11], dispatches := [demo_row12], roles := [demo_row13]\<rparr>"

definition demo_log0 :: "event list" where "demo_log0 = []"
definition demo_log1 :: "event list" where "demo_log1 = [demo_event1]"
definition demo_log2 :: "event list" where "demo_log2 = [demo_event1, demo_event2]"
definition demo_log3 :: "event list" where "demo_log3 = [demo_event1, demo_event2, demo_event3]"
definition demo_log4 :: "event list" where "demo_log4 = [demo_event1, demo_event2, demo_event3, demo_event4]"
definition demo_log5 :: "event list" where "demo_log5 = [demo_event1, demo_event2, demo_event3, demo_event4, demo_event5]"
definition demo_log6 :: "event list" where "demo_log6 = [demo_event1, demo_event2, demo_event3, demo_event4, demo_event5, demo_event6]"
definition demo_log7 :: "event list" where "demo_log7 = [demo_event1, demo_event2, demo_event3, demo_event4, demo_event5, demo_event6, demo_event7]"
definition demo_log8 :: "event list" where "demo_log8 = [demo_event1, demo_event2, demo_event3, demo_event4, demo_event5, demo_event6, demo_event7, demo_event8]"
definition demo_log9 :: "event list" where "demo_log9 = [demo_event1, demo_event2, demo_event3, demo_event4, demo_event5, demo_event6, demo_event7, demo_event8, demo_event9]"
definition demo_log10 :: "event list" where "demo_log10 = [demo_event1, demo_event2, demo_event3, demo_event4, demo_event5, demo_event6, demo_event7, demo_event8, demo_event9, demo_event10]"
definition demo_log11 :: "event list" where "demo_log11 = [demo_event1, demo_event2, demo_event3, demo_event4, demo_event5, demo_event6, demo_event7, demo_event8, demo_event9, demo_event10, demo_event11]"
definition demo_log12 :: "event list" where "demo_log12 = [demo_event1, demo_event2, demo_event3, demo_event4, demo_event5, demo_event6, demo_event7, demo_event8, demo_event9, demo_event10, demo_event11, demo_event12]"
definition demo_log13 :: "event list" where "demo_log13 = [demo_event1, demo_event2, demo_event3, demo_event4, demo_event5, demo_event6, demo_event7, demo_event8, demo_event9, demo_event10, demo_event11, demo_event12, demo_event13]"

lemma demo_dimensions:
  "requiredDimensions TypeRepoAttached = Inr (durable TypeRepoAttached FamilyTier)"
  "requiredDimensions TypeCloneAttached = Inr (durable TypeCloneAttached FamilyTier)"
  "requiredDimensions TypeWorktreeAttached = Inr (durable TypeWorktreeAttached FamilyTier)"
  "requiredDimensions TypeGateDeclared = Inr (durable TypeGateDeclared FamilyGate)"
  "requiredDimensions TypeMatterCreated = Inr (durable TypeMatterCreated FamilyLifecycle)"
  "requiredDimensions TypeStepCreated = Inr (durable TypeStepCreated FamilyLifecycle)"
  "requiredDimensions TypeStepRemoved = Inr (durable TypeStepRemoved FamilyAmendment)"
  "requiredDimensions TypeDependencyAdded = Inr (durable TypeDependencyAdded FamilyDependency)"
  "requiredDimensions TypeBacklogEntered = Inr (durable TypeBacklogEntered FamilyBacklog)"
  "requiredDimensions TypeDispatchOpened = Inr (execution TypeDispatchOpened FamilyDispatch)"
  "requiredDimensions TypeRoleSpawned = Inr (execution TypeRoleSpawned FamilyRole)"
  by code_simp+

lemma demo_types:
  "TypeRepoAttached \<noteq> TypeGateDismissed" "TypeCloneAttached \<noteq> TypeGateDismissed" "TypeWorktreeAttached \<noteq> TypeGateDismissed" "TypeGateDeclared \<noteq> TypeGateDismissed" "TypeMatterCreated \<noteq> TypeGateDismissed" "TypeStepCreated \<noteq> TypeGateDismissed" "TypeStepRemoved \<noteq> TypeGateDismissed" "TypeDependencyAdded \<noteq> TypeGateDismissed" "TypeBacklogEntered \<noteq> TypeGateDismissed" "TypeDispatchOpened \<noteq> TypeGateDismissed" "TypeRoleSpawned \<noteq> TypeGateDismissed"
  by (simp_all add: tokens)

lemmas demo_ids = id_R_def id_A_def id_B_def id_S_def id_E_def id_K_def id_C_def id_W_def id_D_def id_L_def id_T_def

lemmas demo_stamping = stamp_def stamped_def stamp_dimensions_def demo_dimensions demo_types demo_request_def demo_env_def durable_def execution_def IDLen_def

lemma demo_event1_type: "ev_Type demo_event1 = TypeRepoAttached" by (simp add: demo_event1_def)

lemma demo_event2_type: "ev_Type demo_event2 = TypeCloneAttached" by (simp add: demo_event2_def)

lemma demo_event3_type: "ev_Type demo_event3 = TypeWorktreeAttached" by (simp add: demo_event3_def)

lemma demo_event4_type: "ev_Type demo_event4 = TypeGateDeclared" by (simp add: demo_event4_def)

lemma demo_event5_type: "ev_Type demo_event5 = TypeMatterCreated" by (simp add: demo_event5_def)

lemma demo_event6_type: "ev_Type demo_event6 = TypeMatterCreated" by (simp add: demo_event6_def)

lemma demo_event7_type: "ev_Type demo_event7 = TypeStepCreated" by (simp add: demo_event7_def)

lemma demo_event8_type: "ev_Type demo_event8 = TypeStepCreated" by (simp add: demo_event8_def)

lemma demo_event9_type: "ev_Type demo_event9 = TypeStepRemoved" by (simp add: demo_event9_def)

lemma demo_event10_type: "ev_Type demo_event10 = TypeDependencyAdded" by (simp add: demo_event10_def)

lemma demo_event11_type: "ev_Type demo_event11 = TypeBacklogEntered" by (simp add: demo_event11_def)

lemma demo_event12_type: "ev_Type demo_event12 = TypeDispatchOpened" by (simp add: demo_event12_def)

lemma demo_event13_type: "ev_Type demo_event13 = TypeRoleSpawned" by (simp add: demo_event13_def)

lemma demo_encode1: "encodeCrockford (ts_bytes 1000 @ replicate 10 0) = ''00000000Z80000000000000000''"
  by code_simp

lemma demo_clock1: "[] < ''00000000Z80000000000000000''" "timeOfID ''00000000Z80000000000000000'' = Inr 1000"
  by code_simp+

lemma demo_new1: "store_NewID demo_mint0 = (demo_mint1, Inr ''00000000Z80000000000000000'')"
  using demo_encode1 demo_clock1
  by (simp add: store_NewID_def demo_mint0_def demo_mint1_def demo_readings_def id_next_def)

lemma demo_stamp1:
  "stamp demo_request demo_draft1 demo_mint0 = (demo_mint1,
     Inr (demo_event1\<lparr>ev_Causation := [], ev_Correlation := []\<rparr>))"
  using demo_new1 demo_clock1 by (simp add: demo_stamping demo_event1_def demo_draft1_def demo_ids)

lemma demo_append1: "appendEvent demo_log0 demo_event1 = Inr demo_log1"
  by code_simp

lemma demo_handler1: "insertRepo demo_event1 demo_db0 = Inr demo_db1"
  by code_simp

lemma demo_apply1: "applyEvent \<lparr>tx_log = demo_log1, tx_defer = False\<rparr> demo_event1 demo_db0 = Inr demo_db1"
  using demo_handler1 by (simp add: applyEvent_def demo_event1_type transition_types_def tokens)

lemma demo_record1:
  "record_event demo_log0 demo_draft1 (demo_event1\<lparr>ev_Causation := [], ev_Correlation := []\<rparr>)
     (demo_log0, demo_db0) = Inr (demo_event1, demo_log1, demo_db1)"
proof -
  have "chain demo_log0 demo_draft1 (demo_event1\<lparr>ev_Causation := [], ev_Correlation := []\<rparr>) = Inr demo_event1"
    by (simp add: chain_def demo_log0_def demo_draft1_def demo_event1_def demo_event1_def)
  then show ?thesis using demo_append1 demo_apply1 by (simp add: record_event_def)
qed

lemma demo_encode2: "encodeCrockford (ts_bytes 1001 @ replicate 10 1) = ''00000000Z9040G2081040G2081''"
  by code_simp

lemma demo_clock2: "''00000000Z80000000000000000'' < ''00000000Z9040G2081040G2081''" "timeOfID ''00000000Z9040G2081040G2081'' = Inr 1001"
  by code_simp+

lemma demo_new2: "store_NewID demo_mint1 = (demo_mint2, Inr ''00000000Z9040G2081040G2081'')"
  using demo_encode2 demo_clock2
  by (simp add: store_NewID_def demo_mint1_def demo_mint2_def demo_readings_def id_next_def)

lemma demo_stamp2:
  "stamp demo_request demo_draft2 demo_mint1 = (demo_mint2,
     Inr (demo_event2\<lparr>ev_Causation := [], ev_Correlation := []\<rparr>))"
  using demo_new2 demo_clock2 by (simp add: demo_stamping demo_event2_def demo_draft2_def demo_ids)

lemma demo_append2: "appendEvent demo_log1 demo_event2 = Inr demo_log2"
  by code_simp

lemma demo_handler2: "insertClone \<lparr>tx_log = demo_log2, tx_defer = False\<rparr> demo_event2 demo_db1 = Inr demo_db2"
  by code_simp

lemma demo_apply2: "applyEvent \<lparr>tx_log = demo_log2, tx_defer = False\<rparr> demo_event2 demo_db1 = Inr demo_db2"
  using demo_handler2 by (simp add: applyEvent_def demo_event2_type transition_types_def tokens)

lemma demo_record2:
  "record_event demo_log1 demo_draft2 (demo_event2\<lparr>ev_Causation := [], ev_Correlation := []\<rparr>)
     (demo_log1, demo_db1) = Inr (demo_event2, demo_log2, demo_db2)"
proof -
  have "chain demo_log1 demo_draft2 (demo_event2\<lparr>ev_Causation := [], ev_Correlation := []\<rparr>) = Inr demo_event2"
    by (simp add: chain_def demo_log1_def demo_draft2_def demo_event2_def demo_event1_def)
  then show ?thesis using demo_append2 demo_apply2 by (simp add: record_event_def)
qed

lemma demo_encode3: "encodeCrockford (ts_bytes 1002 @ replicate 10 2) = ''00000000ZA081040G2081040G2''"
  by code_simp

lemma demo_clock3: "''00000000Z9040G2081040G2081'' < ''00000000ZA081040G2081040G2''" "timeOfID ''00000000ZA081040G2081040G2'' = Inr 1002"
  by code_simp+

lemma demo_new3: "store_NewID demo_mint2 = (demo_mint3, Inr ''00000000ZA081040G2081040G2'')"
  using demo_encode3 demo_clock3
  by (simp add: store_NewID_def demo_mint2_def demo_mint3_def demo_readings_def id_next_def)

lemma demo_stamp3:
  "stamp demo_request demo_draft3 demo_mint2 = (demo_mint3,
     Inr (demo_event3\<lparr>ev_Causation := [], ev_Correlation := []\<rparr>))"
  using demo_new3 demo_clock3 by (simp add: demo_stamping demo_event3_def demo_draft3_def demo_ids)

lemma demo_append3: "appendEvent demo_log2 demo_event3 = Inr demo_log3"
  by code_simp

lemma demo_handler3: "insertWorktree \<lparr>tx_log = demo_log3, tx_defer = False\<rparr> demo_event3 demo_db2 = Inr demo_db3"
  by code_simp

lemma demo_apply3: "applyEvent \<lparr>tx_log = demo_log3, tx_defer = False\<rparr> demo_event3 demo_db2 = Inr demo_db3"
  using demo_handler3 by (simp add: applyEvent_def demo_event3_type transition_types_def tokens)

lemma demo_record3:
  "record_event demo_log2 demo_draft3 (demo_event3\<lparr>ev_Causation := [], ev_Correlation := []\<rparr>)
     (demo_log2, demo_db2) = Inr (demo_event3, demo_log3, demo_db3)"
proof -
  have "chain demo_log2 demo_draft3 (demo_event3\<lparr>ev_Causation := [], ev_Correlation := []\<rparr>) = Inr demo_event3"
    by (simp add: chain_def demo_log2_def demo_draft3_def demo_event3_def demo_event1_def)
  then show ?thesis using demo_append3 demo_apply3 by (simp add: record_event_def)
qed

lemma demo_encode4: "encodeCrockford (ts_bytes 1003 @ replicate 10 3) = ''00000000ZB0C1G60R30C1G60R3''"
  by code_simp

lemma demo_clock4: "''00000000ZA081040G2081040G2'' < ''00000000ZB0C1G60R30C1G60R3''" "timeOfID ''00000000ZB0C1G60R30C1G60R3'' = Inr 1003"
  by code_simp+

lemma demo_new4: "store_NewID demo_mint3 = (demo_mint4, Inr ''00000000ZB0C1G60R30C1G60R3'')"
  using demo_encode4 demo_clock4
  by (simp add: store_NewID_def demo_mint3_def demo_mint4_def demo_readings_def id_next_def)

lemma demo_stamp4:
  "stamp demo_request demo_draft4 demo_mint3 = (demo_mint4,
     Inr (demo_event4\<lparr>ev_Causation := [], ev_Correlation := []\<rparr>))"
  using demo_new4 demo_clock4 by (simp add: demo_stamping demo_event4_def demo_draft4_def demo_ids)

lemma demo_append4: "appendEvent demo_log3 demo_event4 = Inr demo_log4"
  by code_simp

lemma demo_handler4: "declareGateProjection \<lparr>tx_log = demo_log4, tx_defer = False\<rparr> demo_event4 demo_db3 = Inr demo_db4"
  by code_simp

lemma demo_apply4: "applyEvent \<lparr>tx_log = demo_log4, tx_defer = False\<rparr> demo_event4 demo_db3 = Inr demo_db4"
  using demo_handler4 by (simp add: applyEvent_def demo_event4_type transition_types_def tokens)

lemma demo_record4:
  "record_event demo_log3 demo_draft4 (demo_event4\<lparr>ev_Causation := [], ev_Correlation := []\<rparr>)
     (demo_log3, demo_db3) = Inr (demo_event4, demo_log4, demo_db4)"
proof -
  have "chain demo_log3 demo_draft4 (demo_event4\<lparr>ev_Causation := [], ev_Correlation := []\<rparr>) = Inr demo_event4"
    by (simp add: chain_def demo_log3_def demo_draft4_def demo_event4_def demo_event1_def)
  then show ?thesis using demo_append4 demo_apply4 by (simp add: record_event_def)
qed

lemma demo_encode5: "encodeCrockford (ts_bytes 1004 @ replicate 10 4) = ''00000000ZC0G2081040G208104''"
  by code_simp

lemma demo_clock5: "''00000000ZB0C1G60R30C1G60R3'' < ''00000000ZC0G2081040G208104''" "timeOfID ''00000000ZC0G2081040G208104'' = Inr 1004"
  by code_simp+

lemma demo_new5: "store_NewID demo_mint4 = (demo_mint5, Inr ''00000000ZC0G2081040G208104'')"
  using demo_encode5 demo_clock5
  by (simp add: store_NewID_def demo_mint4_def demo_mint5_def demo_readings_def id_next_def)

lemma demo_stamp5:
  "stamp demo_request demo_draft5 demo_mint4 = (demo_mint5,
     Inr (demo_event5\<lparr>ev_Causation := [], ev_Correlation := []\<rparr>))"
  using demo_new5 demo_clock5 by (simp add: demo_stamping demo_event5_def demo_draft5_def demo_ids)

lemma demo_append5: "appendEvent demo_log4 demo_event5 = Inr demo_log5"
  by code_simp

lemma demo_handler5: "insertNode \<lparr>tx_log = demo_log5, tx_defer = False\<rparr> demo_event5 ScaleMatter demo_db4 = Inr demo_db5"
  by code_simp

lemma demo_apply5: "applyEvent \<lparr>tx_log = demo_log5, tx_defer = False\<rparr> demo_event5 demo_db4 = Inr demo_db5"
  using demo_handler5 by (simp add: applyEvent_def demo_event5_type transition_types_def tokens)

lemma demo_record5:
  "record_event demo_log4 demo_draft5 (demo_event5\<lparr>ev_Causation := [], ev_Correlation := []\<rparr>)
     (demo_log4, demo_db4) = Inr (demo_event5, demo_log5, demo_db5)"
proof -
  have "chain demo_log4 demo_draft5 (demo_event5\<lparr>ev_Causation := [], ev_Correlation := []\<rparr>) = Inr demo_event5"
    by (simp add: chain_def demo_log4_def demo_draft5_def demo_event5_def demo_event1_def)
  then show ?thesis using demo_append5 demo_apply5 by (simp add: record_event_def)
qed

lemma demo_encode6: "encodeCrockford (ts_bytes 1005 @ replicate 10 5) = ''00000000ZD0M2GA1850M2GA185''"
  by code_simp

lemma demo_clock6: "''00000000ZC0G2081040G208104'' < ''00000000ZD0M2GA1850M2GA185''" "timeOfID ''00000000ZD0M2GA1850M2GA185'' = Inr 1005"
  by code_simp+

lemma demo_new6: "store_NewID demo_mint5 = (demo_mint6, Inr ''00000000ZD0M2GA1850M2GA185'')"
  using demo_encode6 demo_clock6
  by (simp add: store_NewID_def demo_mint5_def demo_mint6_def demo_readings_def id_next_def)

lemma demo_stamp6:
  "stamp demo_request demo_draft6 demo_mint5 = (demo_mint6,
     Inr (demo_event6\<lparr>ev_Causation := [], ev_Correlation := []\<rparr>))"
  using demo_new6 demo_clock6 by (simp add: demo_stamping demo_event6_def demo_draft6_def demo_ids)

lemma demo_append6: "appendEvent demo_log5 demo_event6 = Inr demo_log6"
  by code_simp

lemma demo_handler6: "insertNode \<lparr>tx_log = demo_log6, tx_defer = False\<rparr> demo_event6 ScaleMatter demo_db5 = Inr demo_db6"
  by code_simp

lemma demo_apply6: "applyEvent \<lparr>tx_log = demo_log6, tx_defer = False\<rparr> demo_event6 demo_db5 = Inr demo_db6"
  using demo_handler6 by (simp add: applyEvent_def demo_event6_type transition_types_def tokens)

lemma demo_record6:
  "record_event demo_log5 demo_draft6 (demo_event6\<lparr>ev_Causation := [], ev_Correlation := []\<rparr>)
     (demo_log5, demo_db5) = Inr (demo_event6, demo_log6, demo_db6)"
proof -
  have "chain demo_log5 demo_draft6 (demo_event6\<lparr>ev_Causation := [], ev_Correlation := []\<rparr>) = Inr demo_event6"
    by (simp add: chain_def demo_log5_def demo_draft6_def demo_event6_def demo_event1_def)
  then show ?thesis using demo_append6 demo_apply6 by (simp add: record_event_def)
qed

lemma demo_encode7: "encodeCrockford (ts_bytes 1006 @ replicate 10 6) = ''00000000ZE0R30C1G60R30C1G6''"
  by code_simp

lemma demo_clock7: "''00000000ZD0M2GA1850M2GA185'' < ''00000000ZE0R30C1G60R30C1G6''" "timeOfID ''00000000ZE0R30C1G60R30C1G6'' = Inr 1006"
  by code_simp+

lemma demo_new7: "store_NewID demo_mint6 = (demo_mint7, Inr ''00000000ZE0R30C1G60R30C1G6'')"
  using demo_encode7 demo_clock7
  by (simp add: store_NewID_def demo_mint6_def demo_mint7_def demo_readings_def id_next_def)

lemma demo_stamp7:
  "stamp demo_request demo_draft7 demo_mint6 = (demo_mint7,
     Inr (demo_event7\<lparr>ev_Causation := [], ev_Correlation := []\<rparr>))"
  using demo_new7 demo_clock7 by (simp add: demo_stamping demo_event7_def demo_draft7_def demo_ids)

lemma demo_append7: "appendEvent demo_log6 demo_event7 = Inr demo_log7"
  by code_simp

lemma demo_handler7: "insertNode \<lparr>tx_log = demo_log7, tx_defer = False\<rparr> demo_event7 ScaleStep demo_db6 = Inr demo_db7"
  by code_simp

lemma demo_apply7: "applyEvent \<lparr>tx_log = demo_log7, tx_defer = False\<rparr> demo_event7 demo_db6 = Inr demo_db7"
  using demo_handler7 by (simp add: applyEvent_def demo_event7_type transition_types_def tokens)

lemma demo_record7:
  "record_event demo_log6 demo_draft7 (demo_event7\<lparr>ev_Causation := [], ev_Correlation := []\<rparr>)
     (demo_log6, demo_db6) = Inr (demo_event7, demo_log7, demo_db7)"
proof -
  have "chain demo_log6 demo_draft7 (demo_event7\<lparr>ev_Causation := [], ev_Correlation := []\<rparr>) = Inr demo_event7"
    by (simp add: chain_def demo_log6_def demo_draft7_def demo_event7_def demo_event1_def)
  then show ?thesis using demo_append7 demo_apply7 by (simp add: record_event_def)
qed

lemma demo_encode8: "encodeCrockford (ts_bytes 1007 @ replicate 10 7) = ''00000000ZF0W3GE1R70W3GE1R7''"
  by code_simp

lemma demo_clock8: "''00000000ZE0R30C1G60R30C1G6'' < ''00000000ZF0W3GE1R70W3GE1R7''" "timeOfID ''00000000ZF0W3GE1R70W3GE1R7'' = Inr 1007"
  by code_simp+

lemma demo_new8: "store_NewID demo_mint7 = (demo_mint8, Inr ''00000000ZF0W3GE1R70W3GE1R7'')"
  using demo_encode8 demo_clock8
  by (simp add: store_NewID_def demo_mint7_def demo_mint8_def demo_readings_def id_next_def)

lemma demo_stamp8:
  "stamp demo_request demo_draft8 demo_mint7 = (demo_mint8,
     Inr (demo_event8\<lparr>ev_Causation := [], ev_Correlation := []\<rparr>))"
  using demo_new8 demo_clock8 by (simp add: demo_stamping demo_event8_def demo_draft8_def demo_ids)

lemma demo_append8: "appendEvent demo_log7 demo_event8 = Inr demo_log8"
  by code_simp

lemma demo_handler8: "insertNode \<lparr>tx_log = demo_log8, tx_defer = False\<rparr> demo_event8 ScaleStep demo_db7 = Inr demo_db8"
  by code_simp

lemma demo_apply8: "applyEvent \<lparr>tx_log = demo_log8, tx_defer = False\<rparr> demo_event8 demo_db7 = Inr demo_db8"
  using demo_handler8 by (simp add: applyEvent_def demo_event8_type transition_types_def tokens)

lemma demo_record8:
  "record_event demo_log7 demo_draft8 (demo_event8\<lparr>ev_Causation := [], ev_Correlation := []\<rparr>)
     (demo_log7, demo_db7) = Inr (demo_event8, demo_log8, demo_db8)"
proof -
  have "chain demo_log7 demo_draft8 (demo_event8\<lparr>ev_Causation := [], ev_Correlation := []\<rparr>) = Inr demo_event8"
    by (simp add: chain_def demo_log7_def demo_draft8_def demo_event8_def demo_event1_def)
  then show ?thesis using demo_append8 demo_apply8 by (simp add: record_event_def)
qed

lemma demo_encode9: "encodeCrockford (ts_bytes 1008 @ replicate 10 8) = ''00000000ZG1040G2081040G208''"
  by code_simp

lemma demo_clock9: "''00000000ZF0W3GE1R70W3GE1R7'' < ''00000000ZG1040G2081040G208''" "timeOfID ''00000000ZG1040G2081040G208'' = Inr 1008"
  by code_simp+

lemma demo_new9: "store_NewID demo_mint8 = (demo_mint9, Inr ''00000000ZG1040G2081040G208'')"
  using demo_encode9 demo_clock9
  by (simp add: store_NewID_def demo_mint8_def demo_mint9_def demo_readings_def id_next_def)

lemma demo_stamp9:
  "stamp demo_request demo_draft9 demo_mint8 = (demo_mint9,
     Inr (demo_event9\<lparr>ev_Causation := [], ev_Correlation := []\<rparr>))"
  using demo_new9 demo_clock9 by (simp add: demo_stamping demo_event9_def demo_draft9_def demo_ids)

lemma demo_append9: "appendEvent demo_log8 demo_event9 = Inr demo_log9"
  by code_simp

lemma demo_handler9: "tombstoneNode demo_event9 demo_db8 = Inr demo_db9"
  by code_simp

lemma demo_apply9: "applyEvent \<lparr>tx_log = demo_log9, tx_defer = False\<rparr> demo_event9 demo_db8 = Inr demo_db9"
  using demo_handler9 by (simp add: applyEvent_def demo_event9_type transition_types_def tokens)

lemma demo_record9:
  "record_event demo_log8 demo_draft9 (demo_event9\<lparr>ev_Causation := [], ev_Correlation := []\<rparr>)
     (demo_log8, demo_db8) = Inr (demo_event9, demo_log9, demo_db9)"
proof -
  have "chain demo_log8 demo_draft9 (demo_event9\<lparr>ev_Causation := [], ev_Correlation := []\<rparr>) = Inr demo_event9"
    by (simp add: chain_def demo_log8_def demo_draft9_def demo_event9_def demo_event1_def)
  then show ?thesis using demo_append9 demo_apply9 by (simp add: record_event_def)
qed

lemma demo_encode10: "encodeCrockford (ts_bytes 1009 @ replicate 10 9) = ''00000000ZH144GJ289144GJ289''"
  by code_simp

lemma demo_clock10: "''00000000ZG1040G2081040G208'' < ''00000000ZH144GJ289144GJ289''" "timeOfID ''00000000ZH144GJ289144GJ289'' = Inr 1009"
  by code_simp+

lemma demo_new10: "store_NewID demo_mint9 = (demo_mint10, Inr ''00000000ZH144GJ289144GJ289'')"
  using demo_encode10 demo_clock10
  by (simp add: store_NewID_def demo_mint9_def demo_mint10_def demo_readings_def id_next_def)

lemma demo_stamp10:
  "stamp demo_request demo_draft10 demo_mint9 = (demo_mint10,
     Inr (demo_event10\<lparr>ev_Causation := [], ev_Correlation := []\<rparr>))"
  using demo_new10 demo_clock10 by (simp add: demo_stamping demo_event10_def demo_draft10_def demo_ids)

lemma demo_append10: "appendEvent demo_log9 demo_event10 = Inr demo_log10"
  by code_simp

lemma demo_handler10: "insertEdge \<lparr>tx_log = demo_log10, tx_defer = False\<rparr> demo_event10 demo_db9 = Inr demo_db10"
  by code_simp

lemma demo_apply10: "applyEvent \<lparr>tx_log = demo_log10, tx_defer = False\<rparr> demo_event10 demo_db9 = Inr demo_db10"
  using demo_handler10 by (simp add: applyEvent_def demo_event10_type transition_types_def tokens)

lemma demo_record10:
  "record_event demo_log9 demo_draft10 (demo_event10\<lparr>ev_Causation := [], ev_Correlation := []\<rparr>)
     (demo_log9, demo_db9) = Inr (demo_event10, demo_log10, demo_db10)"
proof -
  have "chain demo_log9 demo_draft10 (demo_event10\<lparr>ev_Causation := [], ev_Correlation := []\<rparr>) = Inr demo_event10"
    by (simp add: chain_def demo_log9_def demo_draft10_def demo_event10_def demo_event1_def)
  then show ?thesis using demo_append10 demo_apply10 by (simp add: record_event_def)
qed

lemma demo_encode11: "encodeCrockford (ts_bytes 1010 @ replicate 10 10) = ''00000000ZJ1850M2GA1850M2GA''"
  by code_simp

lemma demo_clock11: "''00000000ZH144GJ289144GJ289'' < ''00000000ZJ1850M2GA1850M2GA''" "timeOfID ''00000000ZJ1850M2GA1850M2GA'' = Inr 1010"
  by code_simp+

lemma demo_new11: "store_NewID demo_mint10 = (demo_mint11, Inr ''00000000ZJ1850M2GA1850M2GA'')"
  using demo_encode11 demo_clock11
  by (simp add: store_NewID_def demo_mint10_def demo_mint11_def demo_readings_def id_next_def)

lemma demo_stamp11:
  "stamp demo_request demo_draft11 demo_mint10 = (demo_mint11,
     Inr (demo_event11\<lparr>ev_Causation := [], ev_Correlation := []\<rparr>))"
  using demo_new11 demo_clock11 by (simp add: demo_stamping demo_event11_def demo_draft11_def demo_ids)

lemma demo_append11: "appendEvent demo_log10 demo_event11 = Inr demo_log11"
  by code_simp

lemma demo_handler11: "insertBacklogEntry \<lparr>tx_log = demo_log11, tx_defer = False\<rparr> demo_event11 demo_db10 = Inr demo_db11"
  by code_simp

lemma demo_apply11: "applyEvent \<lparr>tx_log = demo_log11, tx_defer = False\<rparr> demo_event11 demo_db10 = Inr demo_db11"
  using demo_handler11 by (simp add: applyEvent_def demo_event11_type transition_types_def tokens)

lemma demo_record11:
  "record_event demo_log10 demo_draft11 (demo_event11\<lparr>ev_Causation := [], ev_Correlation := []\<rparr>)
     (demo_log10, demo_db10) = Inr (demo_event11, demo_log11, demo_db11)"
proof -
  have "chain demo_log10 demo_draft11 (demo_event11\<lparr>ev_Causation := [], ev_Correlation := []\<rparr>) = Inr demo_event11"
    by (simp add: chain_def demo_log10_def demo_draft11_def demo_event11_def demo_event1_def)
  then show ?thesis using demo_append11 demo_apply11 by (simp add: record_event_def)
qed

lemma demo_encode12: "encodeCrockford (ts_bytes 1011 @ replicate 10 11) = ''00000000ZK1C5GP2RB1C5GP2RB''"
  by code_simp

lemma demo_clock12: "''00000000ZJ1850M2GA1850M2GA'' < ''00000000ZK1C5GP2RB1C5GP2RB''" "timeOfID ''00000000ZK1C5GP2RB1C5GP2RB'' = Inr 1011"
  by code_simp+

lemma demo_new12: "store_NewID demo_mint11 = (demo_mint12, Inr ''00000000ZK1C5GP2RB1C5GP2RB'')"
  using demo_encode12 demo_clock12
  by (simp add: store_NewID_def demo_mint11_def demo_mint12_def demo_readings_def id_next_def)

lemma demo_stamp12:
  "stamp demo_request demo_draft12 demo_mint11 = (demo_mint12,
     Inr (demo_event12\<lparr>ev_Causation := [], ev_Correlation := []\<rparr>))"
  using demo_new12 demo_clock12 by (simp add: demo_stamping demo_event12_def demo_draft12_def demo_ids)

lemma demo_append12: "appendEvent demo_log11 demo_event12 = Inr demo_log12"
  by code_simp

lemma demo_handler12: "openDispatch \<lparr>tx_log = demo_log12, tx_defer = False\<rparr> demo_event12 demo_db11 = Inr demo_db12"
  by code_simp

lemma demo_apply12: "applyEvent \<lparr>tx_log = demo_log12, tx_defer = False\<rparr> demo_event12 demo_db11 = Inr demo_db12"
  using demo_handler12 by (simp add: applyEvent_def demo_event12_type transition_types_def tokens)

lemma demo_record12:
  "record_event demo_log11 demo_draft12 (demo_event12\<lparr>ev_Causation := [], ev_Correlation := []\<rparr>)
     (demo_log11, demo_db11) = Inr (demo_event12, demo_log12, demo_db12)"
proof -
  have "chain demo_log11 demo_draft12 (demo_event12\<lparr>ev_Causation := [], ev_Correlation := []\<rparr>) = Inr demo_event12"
    by (simp add: chain_def demo_log11_def demo_draft12_def demo_event12_def demo_event1_def)
  then show ?thesis using demo_append12 demo_apply12 by (simp add: record_event_def)
qed

lemma demo_encode13: "encodeCrockford (ts_bytes 1012 @ replicate 10 12) = ''00000000ZM1G60R30C1G60R30C''"
  by code_simp

lemma demo_clock13: "''00000000ZK1C5GP2RB1C5GP2RB'' < ''00000000ZM1G60R30C1G60R30C''" "timeOfID ''00000000ZM1G60R30C1G60R30C'' = Inr 1012"
  by code_simp+

lemma demo_new13: "store_NewID demo_mint12 = (demo_mint13, Inr ''00000000ZM1G60R30C1G60R30C'')"
  using demo_encode13 demo_clock13
  by (simp add: store_NewID_def demo_mint12_def demo_mint13_def demo_readings_def id_next_def)

lemma demo_stamp13:
  "stamp demo_request demo_draft13 demo_mint12 = (demo_mint13,
     Inr (demo_event13\<lparr>ev_Causation := [], ev_Correlation := []\<rparr>))"
  using demo_new13 demo_clock13 by (simp add: demo_stamping demo_event13_def demo_draft13_def demo_ids)

lemma demo_append13: "appendEvent demo_log12 demo_event13 = Inr demo_log13"
  by code_simp

lemma demo_handler13: "spawnRole \<lparr>tx_log = demo_log13, tx_defer = False\<rparr> demo_event13 demo_db12 = Inr demo_db13"
  by code_simp

lemma demo_apply13: "applyEvent \<lparr>tx_log = demo_log13, tx_defer = False\<rparr> demo_event13 demo_db12 = Inr demo_db13"
  using demo_handler13 by (simp add: applyEvent_def demo_event13_type transition_types_def tokens)

lemma demo_record13:
  "record_event demo_log12 demo_draft13 (demo_event13\<lparr>ev_Causation := [], ev_Correlation := []\<rparr>)
     (demo_log12, demo_db12) = Inr (demo_event13, demo_log13, demo_db13)"
proof -
  have "chain demo_log12 demo_draft13 (demo_event13\<lparr>ev_Causation := [], ev_Correlation := []\<rparr>) = Inr demo_event13"
    by (simp add: chain_def demo_log12_def demo_draft13_def demo_event13_def demo_event1_def)
  then show ?thesis using demo_append13 demo_apply13 by (simp add: record_event_def)
qed

lemma demo_loop1:
  "commit_loop demo_request (demo_draft1 # ds) demo_log0 demo_mint0 (demo_log0, demo_db0)
   = commit_loop demo_request ds demo_log1 demo_mint1 (demo_log1, demo_db1)"
  by (simp add: demo_stamp1 demo_record1 del: One_nat_def) (simp add: demo_log0_def demo_log1_def)

lemma demo_loop2:
  "commit_loop demo_request (demo_draft2 # ds) demo_log1 demo_mint1 (demo_log1, demo_db1)
   = commit_loop demo_request ds demo_log2 demo_mint2 (demo_log2, demo_db2)"
  by (simp add: demo_stamp2 demo_record2 del: One_nat_def) (simp add: demo_log1_def demo_log2_def)

lemma demo_loop3:
  "commit_loop demo_request (demo_draft3 # ds) demo_log2 demo_mint2 (demo_log2, demo_db2)
   = commit_loop demo_request ds demo_log3 demo_mint3 (demo_log3, demo_db3)"
  by (simp add: demo_stamp3 demo_record3 del: One_nat_def) (simp add: demo_log2_def demo_log3_def)

lemma demo_loop4:
  "commit_loop demo_request (demo_draft4 # ds) demo_log3 demo_mint3 (demo_log3, demo_db3)
   = commit_loop demo_request ds demo_log4 demo_mint4 (demo_log4, demo_db4)"
  by (simp add: demo_stamp4 demo_record4 del: One_nat_def) (simp add: demo_log3_def demo_log4_def)

lemma demo_loop5:
  "commit_loop demo_request (demo_draft5 # ds) demo_log4 demo_mint4 (demo_log4, demo_db4)
   = commit_loop demo_request ds demo_log5 demo_mint5 (demo_log5, demo_db5)"
  by (simp add: demo_stamp5 demo_record5 del: One_nat_def) (simp add: demo_log4_def demo_log5_def)

lemma demo_loop6:
  "commit_loop demo_request (demo_draft6 # ds) demo_log5 demo_mint5 (demo_log5, demo_db5)
   = commit_loop demo_request ds demo_log6 demo_mint6 (demo_log6, demo_db6)"
  by (simp add: demo_stamp6 demo_record6 del: One_nat_def) (simp add: demo_log5_def demo_log6_def)

lemma demo_loop7:
  "commit_loop demo_request (demo_draft7 # ds) demo_log6 demo_mint6 (demo_log6, demo_db6)
   = commit_loop demo_request ds demo_log7 demo_mint7 (demo_log7, demo_db7)"
  by (simp add: demo_stamp7 demo_record7 del: One_nat_def) (simp add: demo_log6_def demo_log7_def)

lemma demo_loop8:
  "commit_loop demo_request (demo_draft8 # ds) demo_log7 demo_mint7 (demo_log7, demo_db7)
   = commit_loop demo_request ds demo_log8 demo_mint8 (demo_log8, demo_db8)"
  by (simp add: demo_stamp8 demo_record8 del: One_nat_def) (simp add: demo_log7_def demo_log8_def)

lemma demo_loop9:
  "commit_loop demo_request (demo_draft9 # ds) demo_log8 demo_mint8 (demo_log8, demo_db8)
   = commit_loop demo_request ds demo_log9 demo_mint9 (demo_log9, demo_db9)"
  by (simp add: demo_stamp9 demo_record9 del: One_nat_def) (simp add: demo_log8_def demo_log9_def)

lemma demo_loop10:
  "commit_loop demo_request (demo_draft10 # ds) demo_log9 demo_mint9 (demo_log9, demo_db9)
   = commit_loop demo_request ds demo_log10 demo_mint10 (demo_log10, demo_db10)"
  by (simp add: demo_stamp10 demo_record10 del: One_nat_def) (simp add: demo_log9_def demo_log10_def)

lemma demo_loop11:
  "commit_loop demo_request (demo_draft11 # ds) demo_log10 demo_mint10 (demo_log10, demo_db10)
   = commit_loop demo_request ds demo_log11 demo_mint11 (demo_log11, demo_db11)"
  by (simp add: demo_stamp11 demo_record11 del: One_nat_def) (simp add: demo_log10_def demo_log11_def)

lemma demo_loop12:
  "commit_loop demo_request (demo_draft12 # ds) demo_log11 demo_mint11 (demo_log11, demo_db11)
   = commit_loop demo_request ds demo_log12 demo_mint12 (demo_log12, demo_db12)"
  by (simp add: demo_stamp12 demo_record12 del: One_nat_def) (simp add: demo_log11_def demo_log12_def)

lemma demo_loop13:
  "commit_loop demo_request (demo_draft13 # ds) demo_log12 demo_mint12 (demo_log12, demo_db12)
   = commit_loop demo_request ds demo_log13 demo_mint13 (demo_log13, demo_db13)"
  by (simp add: demo_stamp13 demo_record13 del: One_nat_def) (simp add: demo_log12_def demo_log13_def)

definition demo_drafts :: "Draft list" where
  "demo_drafts = [demo_draft1, demo_draft2, demo_draft3, demo_draft4, demo_draft5, demo_draft6, demo_draft7, demo_draft8, demo_draft9, demo_draft10, demo_draft11, demo_draft12, demo_draft13]"

definition demo_decide :: decision where
  "demo_decide t s m = (m, Inr demo_drafts)"

definition demo_store :: store where
  "demo_store = \<lparr>st_log = demo_log13, st_db = demo_db13, st_version = Some ''11'', st_mint = demo_mint13\<rparr>"

lemma demo_human: "Actor_valid (rq_Actor demo_request)" "check_actor demo_request s = Inr ()"
  by (simp_all add: demo_request_def Actor_valid_def check_actor_def Actor_Role_def ActorHuman_def has_prefix_def)

theorem demo_commit: "Commit demo_request demo_decide (new_store demo_readings) = (demo_store, Inr demo_log13)"
proof -
  have new: "st_mint (new_store demo_readings) = demo_mint0" "st_log (new_store demo_readings) = demo_log0"
    "st_db (new_store demo_readings) = demo_db0"
    by (simp_all add: new_store_def demo_mint0_def demo_log0_def demo_db0_def)
  have loop: "commit_loop demo_request demo_drafts demo_log0 demo_mint0 (demo_log0, demo_db0)
    = (demo_mint13, Inr (demo_log13, demo_log13, demo_db13))"
    unfolding demo_drafts_def
    by (simp only: demo_loop1 demo_loop2 demo_loop3 demo_loop4 demo_loop5 demo_loop6 demo_loop7 demo_loop8 demo_loop9 demo_loop10 demo_loop11 demo_loop12 demo_loop13 commit_loop.simps(1))
  have "demo_drafts \<noteq> []" by (simp add: demo_drafts_def)
  moreover have "commit_loop demo_request demo_drafts [] demo_mint0 (demo_log0, demo_db0)
    = (demo_mint13, Inr (demo_log13, demo_log13, demo_db13))"
    using loop unfolding demo_log0_def[symmetric] .
  ultimately show ?thesis using demo_human
    by (simp add: Commit_def new demo_decide_def) (simp add: new_store_def demo_store_def)
qed

lemma demo_minting: "minting demo_decide"
  by (simp add: minting_def demo_decide_def mints_refl)

lemma demo_readings_wf: "rd \<in> set demo_readings \<Longrightarrow> wf_reading rd"
  by (auto simp: demo_readings_def wf_reading_def)

theorem demo_reachable: "reachable demo_store"
  using lived[OF born op_commit[OF demo_minting], of demo_readings demo_request] demo_readings_wf
  by (simp add: demo_commit)

text \<open>A second command, by the role that was spawned: it starts the Matter \<open>B\<close>.\<close>

definition builder_request :: Request where
  "builder_request = \<lparr>rq_Actor = RoleActor RoleBuilder, rq_Env = demo_env\<rparr>"

definition demo_draft14 :: Draft where
  "demo_draft14 = \<lparr>dr_Type = TypeMatterStarted, dr_Subject = id_B,
     dr_Payload = marshal_Transition \<lparr>tr_From = Planned, tr_To = InProgress, tr_Cascade = False,
       tr_TrackerPushLevel = [], tr_Reason = []\<rparr>, dr_Env = None, dr_Cause = 0\<rparr>"

definition builder_decide :: decision where
  "builder_decide t s m = (m, Inr [demo_draft14])"

definition demo_ticked :: store where
  "demo_ticked = demo_store\<lparr>st_mint := demo_mint13\<lparr>mi_readings := [(1013, replicate 10 13)]\<rparr>\<rparr>"

definition demo_mint14 :: minter where
  "demo_mint14 = \<lparr>mi_ids = \<lparr>lastMS = 1013, lastRand = replicate 10 13\<rparr>,
     mi_floor = ''00000000ZN1M6GT38D1M6GT38D'', mi_readings = []\<rparr>"

definition demo_event14 :: event where
  "demo_event14 = \<lparr>ev_ID = ''00000000ZN1M6GT38D1M6GT38D'', ev_Type = TypeMatterStarted, ev_OccurredAt = 1013,
     ev_Actor = RoleActor RoleBuilder, ev_Causation = ''00000000ZN1M6GT38D1M6GT38D'',
     ev_Correlation = ''00000000ZN1M6GT38D1M6GT38D'', ev_Repo = id_R, ev_Clone = [], ev_Worktree = [],
     ev_Subject = id_B, ev_Payload = dr_Payload demo_draft14\<rparr>"

definition demo_db14 :: db where
  "demo_db14 = demo_db13\<lparr>nodes := upd_rows (\<lambda>r. n_id r = id_B)
     (\<lambda>r. r\<lparr>n_lifecycle := InProgress, n_last := ev_ID demo_event14\<rparr>) (nodes demo_db13)\<rparr>"

definition demo_later :: store where
  "demo_later = \<lparr>st_log = demo_log13 @ [demo_event14], st_db = demo_db14, st_version = Some ''11'',
     st_mint = demo_mint14\<rparr>"

lemma demo_stamp14:
  "stamp builder_request demo_draft14 (st_mint demo_ticked) = (demo_mint14,
     Inr (demo_event14\<lparr>ev_Causation := [], ev_Correlation := []\<rparr>))"
  by code_simp

lemma demo_record14:
  "record_event [] demo_draft14 (demo_event14\<lparr>ev_Causation := [], ev_Correlation := []\<rparr>)
     (demo_log13, demo_db13) = Inr (demo_event14, demo_log13 @ [demo_event14], demo_db14)"
proof -
  let ?t = "\<lparr>tx_log = demo_log13 @ [demo_event14], tx_defer = False\<rparr>"
  have "rbind (applyTransition demo_event14 demo_db13) (projectTransitionCandidates ?t demo_event14) = Inr demo_db14"
    by code_simp
  moreover have "ev_Type demo_event14 = TypeMatterStarted" by (simp add: demo_event14_def)
  ultimately have "applyEvent ?t demo_event14 demo_db13 = Inr demo_db14"
    by (simp add: applyEvent_def transition_types_def tokens)
  moreover have "chain [] demo_draft14 (demo_event14\<lparr>ev_Causation := [], ev_Correlation := []\<rparr>) = Inr demo_event14"
    by (simp add: chain_def demo_event14_def)
  moreover have "appendEvent demo_log13 demo_event14 = Inr (demo_log13 @ [demo_event14])"
    by code_simp
  ultimately show ?thesis by (simp add: record_event_def)
qed

lemma demo_builder:
  "Actor_valid (rq_Actor builder_request)" "check_actor builder_request demo_db13 = Inr ()"
  by code_simp+

theorem builder_commit: "Commit builder_request builder_decide demo_ticked = (demo_later, Inr [demo_event14])"
proof -
  have ticked: "st_log demo_ticked = demo_log13" "st_db demo_ticked = demo_db13"
    by (simp_all add: demo_ticked_def demo_store_def)
  show ?thesis using demo_builder demo_stamp14 demo_record14
    by (simp add: Commit_def builder_decide_def ticked)
      (simp add: demo_ticked_def demo_store_def demo_later_def)
qed

lemma builder_minting: "minting builder_decide"
  by (simp add: minting_def builder_decide_def mints_refl)

theorem demo_life: "op\<^sup>*\<^sup>* demo_store demo_later"
proof -
  have "op demo_store demo_ticked"
    using op_tick[of "[(1013, replicate 10 13)]" demo_store]
    by (simp add: demo_ticked_def demo_store_def wf_reading_def)
  moreover have "op demo_ticked demo_later"
    using op_commit[OF builder_minting, of demo_ticked builder_request] by (simp add: builder_commit)
  ultimately show ?thesis by (metis rtranclp.simps)
qed

lemma demo_later_reachable: "reachable demo_later" "reachable demo_ticked"
proof -
  have "op demo_store demo_ticked"
    using op_tick[of "[(1013, replicate 10 13)]" demo_store]
    by (simp add: demo_ticked_def demo_store_def wf_reading_def)
  then show "reachable demo_ticked" by (rule lived[OF demo_reachable])
  show "reachable demo_later" using demo_life demo_reachable by (rule reachable_ops)
qed

end
