(* ===== verification/DemoTracker.thy ===== *)
theory DemoTracker
  imports Demo
begin

text \<open>
  The life of \<open>Demo\<close> continued by a third command, of a human: a state push proposed by
  hand, approved, and recorded as pushed. The identity of an outbox entry is a
  SHA-256 digest; it stays symbolic (\<open>demo_out\<close>), since only its shape matters.
\<close>

lemma encodeCrockford_crock_only: "length raw = 16 \<Longrightarrow> crock_only (encodeCrockford raw)"
  using groups_bound[of _ raw]
  by (auto simp: crock_only_def encodeCrockford_groups list_all_iff)

lemma sql_length_crock: "crock_only x \<Longrightarrow> sql_length x = length x"
proof (rule sql_length_ascii)
  fix c assume "crock_only x" "c \<in> set x"
  then have "c \<in> set crockford" by (simp add: crock_only_def list_all_iff)
  moreover have "list_all (\<lambda>c. c \<noteq> CHR 0x00 \<and> \<not> continuation c) crockford" by code_simp
  ultimately show "c \<noteq> CHR 0x00 \<and> \<not> continuation c" by (simp add: list_all_iff)
qed

lemma candidate_id_shape [simp]:
  "length (candidate_id key) = 26" "crock_only (candidate_id key)" "sql_length (candidate_id key) = 26"
  using encodeCrockford_crock_only[of "take 16 (sha256 (string_bytes key))"]
  by (simp_all add: candidate_id_def sql_length_crock)

definition demo_key :: string where
  "demo_key = ''tracker:00000000ZP1R70W3GE1R70W3GE:state:o/r#1''"

definition demo_out :: string where
  "demo_out = candidate_id demo_key"

definition demo_draft15 :: Draft where
  "demo_draft15 = \<lparr>dr_Type = TypeTrackerAdhocProposed, dr_Subject = id_R,
     dr_Payload = marshal_TrackerAdhocProposed \<lparr>ta_Kind = AdhocState, ta_Title = [], ta_Detail = [],
       ta_Ref = ''o/r#1'', ta_Body = [], ta_Disposition = TrackerActive\<rparr>, dr_Env = None, dr_Cause = 0\<rparr>"

definition demo_draft16 :: Draft where
  "demo_draft16 = \<lparr>dr_Type = TypeOutboxApproved, dr_Subject = demo_out, dr_Payload = [], dr_Env = None, dr_Cause = 0\<rparr>"

definition demo_draft17 :: Draft where
  "demo_draft17 = \<lparr>dr_Type = TypeTrackerStatePushed, dr_Subject = demo_out,
     dr_Payload = marshal_TrackerStatePushed \<lparr>tp_Ref = ''o/r#1'', tp_Disposition = TrackerActive, tp_Lease = ''v1''\<rparr>,
     dr_Env = None, dr_Cause = 1\<rparr>"

definition demo_entry15 :: outbox_row where
  "demo_entry15 = \<lparr>o_id = demo_out, o_repo = id_R, o_kind = ''state'', o_state = ''queued'', o_subject = id_R,
     o_ref = Some ''o/r#1'', o_key = demo_key, o_payload = [(''disposition'', JS TrackerActive)], o_reason = [],
     o_attempts = 0, o_birth = ''00000000ZP1R70W3GE1R70W3GE'', o_last = ''00000000ZP1R70W3GE1R70W3GE''\<rparr>"

definition demo_entry16 :: outbox_row where
  "demo_entry16 = demo_entry15\<lparr>o_state := ''approved'', o_last := ''00000000ZQ1W7GY3RF1W7GY3RF''\<rparr>"

definition demo_entry17 :: outbox_row where
  "demo_entry17 = demo_entry16\<lparr>o_state := ''flushed'', o_attempts := 1, o_last := ''00000000ZR2081040G2081040G''\<rparr>"

definition demo_push :: push_row where
  "demo_push = \<lparr>p_ref = ''o/r#1'', p_disposition = TrackerActive, p_lease = ''v1'', p_outbox = demo_out,
     p_birth = ''00000000ZR2081040G2081040G'', p_last = ''00000000ZR2081040G2081040G''\<rparr>"

definition demo_event15 :: event where
  "demo_event15 = \<lparr>ev_ID = ''00000000ZP1R70W3GE1R70W3GE'', ev_Type = TypeTrackerAdhocProposed, ev_OccurredAt = 1014,
     ev_Actor = ActorHuman, ev_Causation = ''00000000ZP1R70W3GE1R70W3GE'', ev_Correlation = ''00000000ZP1R70W3GE1R70W3GE'',
     ev_Repo = id_R, ev_Clone = [], ev_Worktree = [], ev_Subject = id_R, ev_Payload = dr_Payload demo_draft15\<rparr>"

definition demo_event16 :: event where
  "demo_event16 = \<lparr>ev_ID = ''00000000ZQ1W7GY3RF1W7GY3RF'', ev_Type = TypeOutboxApproved, ev_OccurredAt = 1015,
     ev_Actor = ActorHuman, ev_Causation = ''00000000ZP1R70W3GE1R70W3GE'', ev_Correlation = ''00000000ZP1R70W3GE1R70W3GE'',
     ev_Repo = id_R, ev_Clone = [], ev_Worktree = [], ev_Subject = demo_out, ev_Payload = dr_Payload demo_draft16\<rparr>"

definition demo_event17 :: event where
  "demo_event17 = \<lparr>ev_ID = ''00000000ZR2081040G2081040G'', ev_Type = TypeTrackerStatePushed, ev_OccurredAt = 1016,
     ev_Actor = ActorHuman, ev_Causation = ''00000000ZQ1W7GY3RF1W7GY3RF'', ev_Correlation = ''00000000ZP1R70W3GE1R70W3GE'',
     ev_Repo = id_R, ev_Clone = [], ev_Worktree = [], ev_Subject = demo_out, ev_Payload = dr_Payload demo_draft17\<rparr>"

definition demo_watch :: store where
  "demo_watch = demo_later\<lparr>st_mint := demo_mint14\<lparr>mi_readings := [(1014, replicate 10 14), (1015, replicate 10 15), (1016, replicate 10 16)]\<rparr>\<rparr>"

definition demo_mint15 :: minter where
  "demo_mint15 = \<lparr>mi_ids = \<lparr>lastMS = 1014, lastRand = replicate 10 14\<rparr>, mi_floor = ''00000000ZP1R70W3GE1R70W3GE'', mi_readings = [(1015, replicate 10 15), (1016, replicate 10 16)]\<rparr>"

definition demo_mint16 :: minter where
  "demo_mint16 = \<lparr>mi_ids = \<lparr>lastMS = 1015, lastRand = replicate 10 15\<rparr>, mi_floor = ''00000000ZQ1W7GY3RF1W7GY3RF'', mi_readings = [(1016, replicate 10 16)]\<rparr>"

definition demo_mint17 :: minter where
  "demo_mint17 = \<lparr>mi_ids = \<lparr>lastMS = 1016, lastRand = replicate 10 16\<rparr>, mi_floor = ''00000000ZR2081040G2081040G'', mi_readings = []\<rparr>"

definition demo_log14 :: "event list" where "demo_log14 = demo_log13 @ [demo_event14]"
definition demo_log15 :: "event list" where "demo_log15 = demo_log14 @ [demo_event15]"
definition demo_log16 :: "event list" where "demo_log16 = demo_log15 @ [demo_event16]"
definition demo_log17 :: "event list" where "demo_log17 = demo_log16 @ [demo_event17]"

definition demo_db15 :: db where "demo_db15 = demo_db14\<lparr>outbox_entries := [demo_entry15]\<rparr>"
definition demo_db16 :: db where "demo_db16 = demo_db14\<lparr>outbox_entries := [demo_entry16]\<rparr>"
definition demo_db17 :: db where
  "demo_db17 = demo_db14\<lparr>outbox_entries := [demo_entry17], tracker_push_records := [demo_push]\<rparr>"

lemma demo_dimensions_tracker:
  "requiredDimensions TypeTrackerAdhocProposed = Inr (durable TypeTrackerAdhocProposed FamilyTracker)"
  "requiredDimensions TypeOutboxApproved = Inr (durable TypeOutboxApproved FamilyTracker)"
  "requiredDimensions TypeTrackerStatePushed = Inr (durable TypeTrackerStatePushed FamilyTracker)"
  by code_simp+

lemma demo_types_tracker:
  "TypeTrackerAdhocProposed \<noteq> TypeGateDismissed" "TypeOutboxApproved \<noteq> TypeGateDismissed"
  "TypeTrackerStatePushed \<noteq> TypeGateDismissed"
  by (simp_all add: tokens)

lemma demo_out_shape [simp]: "length demo_out = 26" "crock_only demo_out" "sql_length demo_out = 26"
  by (simp_all add: demo_out_def)

lemma id_R_shape: "length id_R = 26" "crock_only id_R" "sql_length id_R = 26" "opt_dim id_R" "id_R \<noteq> []"
  by code_simp+

lemma demo_no_outbox: "outbox_entries demo_db14 = []" "tracker_push_records demo_db14 = []"
  "has_id r_id (repos demo_db14) id_R"
  by (simp_all add: demo_db14_def demo_db13_def empty_db_def has_id_def demo_row1_def)

lemma human_valid: "Actor_valid ActorHuman" by code_simp

lemma demo_encode15: "encodeCrockford (ts_bytes 1014 @ replicate 10 14) = ''00000000ZP1R70W3GE1R70W3GE''"
  by code_simp

lemma demo_clock15: "''00000000ZN1M6GT38D1M6GT38D'' < ''00000000ZP1R70W3GE1R70W3GE''" "timeOfID ''00000000ZP1R70W3GE1R70W3GE'' = Inr 1014"
  "crock_only ''00000000ZP1R70W3GE1R70W3GE''" "sql_length ''00000000ZP1R70W3GE1R70W3GE'' = 26" "four_digit_year 1014"
  by code_simp+

lemma demo_new15: "store_NewID (st_mint demo_watch) = (demo_mint15, Inr ''00000000ZP1R70W3GE1R70W3GE'')"
  using demo_encode15 demo_clock15
  by (simp add: store_NewID_def demo_watch_def demo_mint14_def demo_mint15_def id_next_def)

lemma demo_stamp15:
  "stamp demo_request demo_draft15 (st_mint demo_watch) = (demo_mint15,
     Inr (demo_event15\<lparr>ev_Causation := [], ev_Correlation := []\<rparr>))"
  using demo_new15 demo_clock15 id_R_shape
  by (simp add: demo_stamping demo_dimensions_tracker demo_types_tracker demo_event15_def demo_draft15_def)

lemma demo_encode16: "encodeCrockford (ts_bytes 1015 @ replicate 10 15) = ''00000000ZQ1W7GY3RF1W7GY3RF''"
  by code_simp

lemma demo_clock16: "''00000000ZP1R70W3GE1R70W3GE'' < ''00000000ZQ1W7GY3RF1W7GY3RF''" "timeOfID ''00000000ZQ1W7GY3RF1W7GY3RF'' = Inr 1015"
  "crock_only ''00000000ZQ1W7GY3RF1W7GY3RF''" "sql_length ''00000000ZQ1W7GY3RF1W7GY3RF'' = 26" "four_digit_year 1015"
  by code_simp+

lemma demo_new16: "store_NewID demo_mint15 = (demo_mint16, Inr ''00000000ZQ1W7GY3RF1W7GY3RF'')"
  using demo_encode16 demo_clock16
  by (simp add: store_NewID_def demo_mint15_def demo_mint16_def id_next_def)

lemma demo_stamp16:
  "stamp demo_request demo_draft16 demo_mint15 = (demo_mint16,
     Inr (demo_event16\<lparr>ev_Causation := [], ev_Correlation := []\<rparr>))"
  using demo_new16 demo_clock16 id_R_shape
  by (simp add: demo_stamping demo_dimensions_tracker demo_types_tracker demo_event16_def demo_draft16_def)

lemma demo_encode17: "encodeCrockford (ts_bytes 1016 @ replicate 10 16) = ''00000000ZR2081040G2081040G''"
  by code_simp

lemma demo_clock17: "''00000000ZQ1W7GY3RF1W7GY3RF'' < ''00000000ZR2081040G2081040G''" "timeOfID ''00000000ZR2081040G2081040G'' = Inr 1016"
  "crock_only ''00000000ZR2081040G2081040G''" "sql_length ''00000000ZR2081040G2081040G'' = 26" "four_digit_year 1016"
  by code_simp+

lemma demo_new17: "store_NewID demo_mint16 = (demo_mint17, Inr ''00000000ZR2081040G2081040G'')"
  using demo_encode17 demo_clock17
  by (simp add: store_NewID_def demo_mint16_def demo_mint17_def id_next_def)

lemma demo_stamp17:
  "stamp demo_request demo_draft17 demo_mint16 = (demo_mint17,
     Inr (demo_event17\<lparr>ev_Causation := [], ev_Correlation := []\<rparr>))"
  using demo_new17 demo_clock17 id_R_shape
  by (simp add: demo_stamping demo_dimensions_tracker demo_types_tracker demo_event17_def demo_draft17_def)

lemma demo_below15: "list_all (\<lambda>e. ev_ID e < ''00000000ZP1R70W3GE1R70W3GE'') demo_log14"
  by code_simp

lemma demo_below16: "list_all (\<lambda>e. ev_ID e < ''00000000ZQ1W7GY3RF1W7GY3RF'') demo_log15"
  using demo_below15 demo_clock16(1)
  by (auto simp: demo_log15_def demo_event15_def list_all_iff intro: less_trans)

lemma demo_below17: "list_all (\<lambda>e. ev_ID e < ''00000000ZR2081040G2081040G'') demo_log16"
  using demo_below16 demo_clock17(1)
  by (auto simp: demo_log16_def demo_event16_def list_all_iff intro: less_trans)

lemma demo_causes:
  "''00000000ZP1R70W3GE1R70W3GE'' \<le> ''00000000ZQ1W7GY3RF1W7GY3RF''"
  "''00000000ZQ1W7GY3RF1W7GY3RF'' \<le> ''00000000ZR2081040G2081040G''"
  "''00000000ZP1R70W3GE1R70W3GE'' \<le> ''00000000ZR2081040G2081040G''"
  by code_simp+

lemma demo_append15: "appendEvent demo_log14 demo_event15 = Inr demo_log15"
  using demo_below15 demo_clock15 demo_clock16 demo_clock17 demo_causes id_R_shape human_valid
  by (simp add: appendEvent_def dimensions_match_def demo_dimensions_tracker durable_def opt_dim_def
      demo_event15_def demo_log15_def demo_log16_def demo_log17_def demo_event15_def demo_event16_def)

lemma demo_append16: "appendEvent demo_log15 demo_event16 = Inr demo_log16"
  using demo_below16 demo_clock15 demo_clock16 demo_clock17 demo_causes id_R_shape human_valid
  by (simp add: appendEvent_def dimensions_match_def demo_dimensions_tracker durable_def opt_dim_def
      demo_event16_def demo_log15_def demo_log16_def demo_log17_def demo_event15_def demo_event16_def)

lemma demo_append17: "appendEvent demo_log16 demo_event17 = Inr demo_log17"
  using demo_below17 demo_clock15 demo_clock16 demo_clock17 demo_causes id_R_shape human_valid
  by (simp add: appendEvent_def dimensions_match_def demo_dimensions_tracker durable_def opt_dim_def
      demo_event17_def demo_log15_def demo_log16_def demo_log17_def demo_event15_def demo_event16_def)

lemma demo_event15_fields:
  "ev_ID demo_event15 = ''00000000ZP1R70W3GE1R70W3GE''" "ev_Repo demo_event15 = id_R" "ev_Subject demo_event15 = id_R"
  "ev_Type demo_event15 = TypeTrackerAdhocProposed"
  by (simp_all add: demo_event15_def)

lemma demo_event16_fields:
  "ev_ID demo_event16 = ''00000000ZQ1W7GY3RF1W7GY3RF''" "ev_Repo demo_event16 = id_R" "ev_Subject demo_event16 = demo_out"
  "ev_Type demo_event16 = TypeOutboxApproved"
  by (simp_all add: demo_event16_def)

lemma demo_event17_fields:
  "ev_ID demo_event17 = ''00000000ZR2081040G2081040G''" "ev_Repo demo_event17 = id_R" "ev_Subject demo_event17 = demo_out"
  "ev_Type demo_event17 = TypeTrackerStatePushed"
  by (simp_all add: demo_event17_def)

lemma demo_apply15:
  "applyEvent \<lparr>tx_log = demo_log15, tx_defer = False\<rparr> demo_event15 demo_db14 = Inr demo_db15"
proof -
  have key: "candidate_key demo_event15 ''state'' ''o/r#1'' [] = demo_key"
    by (simp add: candidate_key_def demo_event15_def demo_key_def)
  have p: "decodeStrict_TrackerAdhocProposed (ev_Payload demo_event15)
      = Inr \<lparr>ta_Kind = AdhocState, ta_Title = [], ta_Detail = [], ta_Ref = ''o/r#1'', ta_Body = [], ta_Disposition = TrackerActive\<rparr>"
    by (simp add: demo_event15_def demo_draft15_def payload_rt)
  have "projectAdhocCandidate \<lparr>tx_log = demo_log15, tx_defer = False\<rparr> demo_event15 demo_db14 = Inr demo_db15"
    using demo_no_outbox id_R_shape
    by (simp add: projectAdhocCandidate_def p insertTrackerCandidate_def key adhoc_payload_def disposition_ok_def
        insert_outbox_def outbox_check_def demo_out_def[symmetric] demo_db15_def demo_entry15_def
        fk_def no_row_def nullable_def demo_event15_fields tokens Let_def)
  then show ?thesis by (simp add: applyEvent_def demo_event15_fields transition_types_def tokens)
qed

lemma demo_apply16:
  "applyEvent \<lparr>tx_log = demo_log16, tx_defer = False\<rparr> demo_event16 demo_db15 = Inr demo_db16"
proof -
  have "approveOutbox demo_event16 demo_db15 = Inr demo_db16"
    using id_R_shape demo_clock16(1)
    by (simp add: approveOutbox_def decodeStrict_empty_def known_keys_def one_row_def update_outbox_def outbox_check_def
        demo_event16_def demo_draft16_def demo_db15_def demo_db16_def demo_entry16_def demo_entry15_def exactlyRows_def require_def)
  then show ?thesis by (simp add: applyEvent_def demo_event16_fields transition_types_def tokens)
qed

lemma demo_apply17:
  "applyEvent \<lparr>tx_log = demo_log17, tx_defer = False\<rparr> demo_event17 demo_db16 = Inr demo_db17"
proof -
  have p: "decodeStrict_TrackerStatePushed (ev_Payload demo_event17)
      = Inr \<lparr>tp_Ref = ''o/r#1'', tp_Disposition = TrackerActive, tp_Lease = ''v1''\<rparr>"
    by (simp add: demo_event17_def demo_draft17_def payload_rt)
  have lens: "sql_length ''o/r#1'' > 0" "sql_length ''v1'' > 0" by code_simp+
  have "recordTrackerStatePush demo_event17 demo_db16 = Inr demo_db17"
    using id_R_shape demo_clock17(1) demo_no_outbox lens
    by (simp add: recordTrackerStatePush_def p push_fact_ok_def disposition_ok_def flush_state_entry_def one_row_def
        update_outbox_def outbox_check_def upsert_push_def insert_push_def push_check_def no_row_def demo_push_def
        demo_event17_fields demo_db16_def demo_db17_def demo_entry17_def demo_entry16_def demo_entry15_def
        exactlyRows_def require_def tokens)
  then show ?thesis by (simp add: applyEvent_def demo_event17_fields transition_types_def tokens)
qed

definition demo_push_decide :: decision where
  "demo_push_decide t s m = (m, Inr [demo_draft15, demo_draft16, demo_draft17])"

definition demo_pushed :: store where
  "demo_pushed = \<lparr>st_log = demo_log17, st_db = demo_db17, st_version = Some ''11'', st_mint = demo_mint17\<rparr>"

lemma demo_record15:
  "record_event [] demo_draft15 (demo_event15\<lparr>ev_Causation := [], ev_Correlation := []\<rparr>) (demo_log14, demo_db14)
     = Inr (demo_event15, demo_log15, demo_db15)"
  using demo_append15 demo_apply15 by (simp add: record_event_def chain_def) (simp add: demo_event15_def)

lemma demo_record16:
  "record_event [demo_event15] demo_draft16 (demo_event16\<lparr>ev_Causation := [], ev_Correlation := []\<rparr>) (demo_log15, demo_db15)
     = Inr (demo_event16, demo_log16, demo_db16)"
proof -
  have "chain [demo_event15] demo_draft16 (demo_event16\<lparr>ev_Causation := [], ev_Correlation := []\<rparr>) = Inr demo_event16"
    by (simp add: chain_def demo_draft16_def demo_event15_def demo_event16_def)
  then show ?thesis using demo_append16 demo_apply16 by (simp add: record_event_def)
qed

lemma demo_record17:
  "record_event [demo_event15, demo_event16] demo_draft17 (demo_event17\<lparr>ev_Causation := [], ev_Correlation := []\<rparr>)
     (demo_log16, demo_db16) = Inr (demo_event17, demo_log17, demo_db17)"
proof -
  have "chain [demo_event15, demo_event16] demo_draft17 (demo_event17\<lparr>ev_Causation := [], ev_Correlation := []\<rparr>) = Inr demo_event17"
    by (simp add: chain_def demo_draft17_def demo_event15_def demo_event16_def demo_event17_def)
  then show ?thesis using demo_append17 demo_apply17 by (simp add: record_event_def)
qed

theorem demo_push_commit:
  "Commit demo_request demo_push_decide demo_watch = (demo_pushed, Inr [demo_event15, demo_event16, demo_event17])"
proof -
  have w: "st_log demo_watch = demo_log14" "st_db demo_watch = demo_db14"
    by (simp_all add: demo_watch_def demo_later_def demo_log14_def)
  show ?thesis using demo_human demo_stamp15 demo_stamp16 demo_stamp17 demo_record15 demo_record16 demo_record17
    by (simp add: Commit_def demo_push_decide_def w) (simp add: demo_watch_def demo_later_def demo_pushed_def)
qed

lemma demo_push_minting: "minting demo_push_decide"
  by (simp add: minting_def demo_push_decide_def mints_refl)

theorem demo_push_life: "op\<^sup>*\<^sup>* demo_later demo_pushed"
proof -
  let ?rds = "[(1014, replicate 10 14), (1015, replicate 10 15), (1016, replicate 10 16)] :: reading list"
  have "wf_reading rd" if "rd \<in> set ?rds" for rd
    using that by (auto simp: wf_reading_def)
  then have "op demo_later demo_watch"
    using op_tick[of ?rds demo_later] by (simp add: demo_watch_def demo_later_def)
  moreover have "op demo_watch demo_pushed"
    using op_commit[OF demo_push_minting, of demo_watch demo_request] by (simp add: demo_push_commit)
  ultimately show ?thesis by (metis rtranclp.simps)
qed

lemma demo_pushed_reachable: "reachable demo_pushed"
  using demo_push_life demo_later_reachable(1) by (rule reachable_ops)

end
