(* ===== verification/DemoClose.thy ===== *)
theory DemoClose
  imports DemoTracker
begin

text \<open>
  Another continuation of the life of \<open>Demo\<close>: the dispatch is closed, which reaps the
  role that was open on it.
\<close>

definition demo_draft_close :: Draft where
  "demo_draft_close = \<lparr>dr_Type = TypeDispatchClosed, dr_Subject = id_D,
     dr_Payload = marshal_DispatchClosed \<lparr>dx_Reason = CloseReaped\<rparr>, dr_Env = None, dr_Cause = 0\<rparr>"

definition demo_event_close :: event where
  "demo_event_close = \<lparr>ev_ID = ''00000000ZP1R70W3GE1R70W3GE'', ev_Type = TypeDispatchClosed, ev_OccurredAt = 1014,
     ev_Actor = ActorHuman, ev_Causation = ''00000000ZP1R70W3GE1R70W3GE'', ev_Correlation = ''00000000ZP1R70W3GE1R70W3GE'',
     ev_Repo = id_R, ev_Clone = id_C, ev_Worktree = id_W, ev_Subject = id_D, ev_Payload = dr_Payload demo_draft_close\<rparr>"

definition demo_dispatch_closed :: dispatch_row where
  "demo_dispatch_closed = demo_row12\<lparr>di_state := ''closed'', di_close_reason := Some CloseReaped,
     di_closed_at := Some 1014, di_last := ''00000000ZP1R70W3GE1R70W3GE''\<rparr>"

definition demo_role_reaped :: role_row where
  "demo_role_reaped = reap_role demo_event_close demo_row13"

definition demo_db_close :: db where
  "demo_db_close = demo_db14\<lparr>dispatches := [demo_dispatch_closed], roles := [demo_role_reaped]\<rparr>"

definition demo_closed :: store where
  "demo_closed = \<lparr>st_log = demo_log14 @ [demo_event_close], st_db = demo_db_close, st_version = Some ''11'', st_mint = demo_mint15\<rparr>"

definition demo_close_decide :: decision where
  "demo_close_decide t s m = (m, Inr [demo_draft_close])"

lemma demo_dimensions_close: "requiredDimensions TypeDispatchClosed = Inr (execution TypeDispatchClosed FamilyDispatch)"
  "TypeDispatchClosed \<noteq> TypeGateDismissed"
  by code_simp+

lemma demo_stamp_close:
  "stamp demo_request demo_draft_close (st_mint demo_watch) = (demo_mint15,
     Inr (demo_event_close\<lparr>ev_Causation := [], ev_Correlation := []\<rparr>))"
  using demo_new15 demo_clock15 id_R_shape
  by (simp add: demo_stamping demo_dimensions_close demo_event_close_def demo_draft_close_def demo_ids)

lemma demo_append_close: "appendEvent demo_log14 demo_event_close = Inr (demo_log14 @ [demo_event_close])"
  by code_simp

lemma demo_handler_close: "closeDispatch demo_event_close demo_db14 = Inr demo_db_close"
  by code_simp

lemma demo_record_close:
  "record_event [] demo_draft_close (demo_event_close\<lparr>ev_Causation := [], ev_Correlation := []\<rparr>) (demo_log14, demo_db14)
     = Inr (demo_event_close, demo_log14 @ [demo_event_close], demo_db_close)"
proof -
  have "ev_Type demo_event_close = TypeDispatchClosed" by (simp add: demo_event_close_def)
  then have "applyEvent \<lparr>tx_log = demo_log14 @ [demo_event_close], tx_defer = False\<rparr> demo_event_close demo_db14 = Inr demo_db_close"
    using demo_handler_close by (simp add: applyEvent_def transition_types_def tokens)
  then show ?thesis using demo_append_close by (simp add: record_event_def chain_def) (simp add: demo_event_close_def)
qed

lemma demo_watch_facts: "st_log demo_watch = demo_log14" "st_db demo_watch = demo_db14"
  by (simp_all add: demo_watch_def demo_later_def demo_log14_def)

lemma demo_close_commit: "Commit demo_request demo_close_decide demo_watch = (demo_closed, Inr [demo_event_close])"
  using demo_human demo_stamp_close demo_record_close
  by (simp add: Commit_def demo_close_decide_def demo_watch_facts) (simp add: demo_watch_def demo_later_def demo_closed_def)

lemma demo_close_minting: "minting demo_close_decide"
  by (simp add: minting_def demo_close_decide_def mints_refl)

lemma demo_close_life: "op demo_watch demo_closed"
  using op_commit[OF demo_close_minting, of demo_watch demo_request] by (simp add: demo_close_commit)

lemma demo_watch_reachable: "reachable demo_watch" "reachable demo_closed"
proof -
  let ?rds = "[(1014, replicate 10 14), (1015, replicate 10 15), (1016, replicate 10 16)] :: reading list"
  have "wf_reading rd" if "rd \<in> set ?rds" for rd
    using that by (auto simp: wf_reading_def)
  then have "op demo_later demo_watch"
    using op_tick[of ?rds demo_later] by (simp add: demo_watch_def demo_later_def)
  then show "reachable demo_watch" using reachable_ops[OF r_into_rtranclp demo_later_reachable(1)] by blast
  then show "reachable demo_closed" using reachable_ops[OF r_into_rtranclp] demo_close_life by blast
qed

end
