(* ===== verification/DemoRun.thy ===== *)
theory DemoRun
  imports DemoClose
begin

text \<open>
  A third continuation of the life of \<open>Demo\<close>: a named batch is created and a Run over the
  two Matters started. The first Matter is planned and depends on the second, which is
  in progress.
\<close>

definition id_Q :: string where "id_Q = ''000000000000000000000001AB''"
definition id_U :: string where "id_U = ''000000000000000000000001AC''"

definition demo_draft_batch :: Draft where
  "demo_draft_batch = \<lparr>dr_Type = TypeBatchCreated, dr_Subject = id_Q,
     dr_Payload = marshal_BatchCreated \<lparr>bc_Name = ''q'', bc_Matter = []\<rparr>, dr_Env = None, dr_Cause = 0\<rparr>"

definition demo_draft_run :: Draft where
  "demo_draft_run = \<lparr>dr_Type = TypeRunStarted, dr_Subject = id_U,
     dr_Payload = marshal_RunStarted \<lparr>rs_Batch = id_Q, rs_Locator = ''run-01'', rs_Matters = [id_A, id_B]\<rparr>,
     dr_Env = None, dr_Cause = 0\<rparr>"

definition demo_event_batch :: event where
  "demo_event_batch = \<lparr>ev_ID = ''00000000ZP1R70W3GE1R70W3GE'', ev_Type = TypeBatchCreated, ev_OccurredAt = 1014,
     ev_Actor = ActorHuman, ev_Causation = ''00000000ZP1R70W3GE1R70W3GE'', ev_Correlation = ''00000000ZP1R70W3GE1R70W3GE'',
     ev_Repo = [], ev_Clone = id_C, ev_Worktree = id_W, ev_Subject = id_Q, ev_Payload = dr_Payload demo_draft_batch\<rparr>"

definition demo_event_run :: event where
  "demo_event_run = \<lparr>ev_ID = ''00000000ZQ1W7GY3RF1W7GY3RF'', ev_Type = TypeRunStarted, ev_OccurredAt = 1015,
     ev_Actor = ActorHuman, ev_Causation = ''00000000ZP1R70W3GE1R70W3GE'', ev_Correlation = ''00000000ZP1R70W3GE1R70W3GE'',
     ev_Repo = id_R, ev_Clone = id_C, ev_Worktree = id_W, ev_Subject = id_U, ev_Payload = dr_Payload demo_draft_run\<rparr>"

definition demo_batch :: batch_row where
  "demo_batch = \<lparr>ba_id = id_Q, ba_name = Some ''q'', ba_matter = None, ba_state = ''live'', ba_close_reason = None,
     ba_closed_at = None, ba_birth = ''00000000ZP1R70W3GE1R70W3GE'', ba_last = ''00000000ZP1R70W3GE1R70W3GE''\<rparr>"

definition demo_run :: run_row where
  "demo_run = \<lparr>ru_id = id_U, ru_clone = id_C, ru_batch = id_Q, ru_locator = ''run-01'', ru_state = ''open'',
     ru_close_reason = None, ru_started_at = 1015, ru_closed_at = None,
     ru_birth = ''00000000ZQ1W7GY3RF1W7GY3RF'', ru_last = ''00000000ZQ1W7GY3RF1W7GY3RF''\<rparr>"

definition demo_db_batch :: db where
  "demo_db_batch = demo_db14\<lparr>batches := [demo_batch]\<rparr>"

definition demo_db_run :: db where
  "demo_db_run = demo_db14\<lparr>batches := [demo_batch], runs := [demo_run],
     run_matters := [\<lparr>rmt_run = id_U, rmt_matter = id_A, rmt_ordinal = 0\<rparr>,
       \<lparr>rmt_run = id_U, rmt_matter = id_B, rmt_ordinal = 1\<rparr>]\<rparr>"

definition demo_running :: store where
  "demo_running = \<lparr>st_log = (demo_log14 @ [demo_event_batch]) @ [demo_event_run], st_db = demo_db_run,
     st_version = Some ''11'', st_mint = demo_mint16\<rparr>"

definition demo_run_decide :: decision where
  "demo_run_decide t s m = (m, Inr [demo_draft_batch, demo_draft_run])"

lemma demo_dimensions_run:
  "requiredDimensions TypeBatchCreated = Inr (batchScoped TypeBatchCreated)"
  "requiredDimensions TypeRunStarted = Inr (execution TypeRunStarted FamilyRun)"
  "TypeBatchCreated \<noteq> TypeGateDismissed" "TypeRunStarted \<noteq> TypeGateDismissed"
  by code_simp+

lemma demo_stamp_batch:
  "stamp demo_request demo_draft_batch (st_mint demo_watch) = (demo_mint15,
     Inr (demo_event_batch\<lparr>ev_Causation := [], ev_Correlation := []\<rparr>))"
  using demo_new15 demo_clock15 id_R_shape
  by (simp add: demo_stamping batchScoped_def demo_dimensions_run demo_event_batch_def demo_draft_batch_def demo_ids id_Q_def)

lemma demo_stamp_run:
  "stamp demo_request demo_draft_run demo_mint15 = (demo_mint16,
     Inr (demo_event_run\<lparr>ev_Causation := [], ev_Correlation := []\<rparr>))"
  using demo_new16 demo_clock16 id_R_shape
  by (simp add: demo_stamping demo_dimensions_run demo_event_run_def demo_draft_run_def demo_ids id_U_def)

lemma demo_append_run:
  "appendEvent demo_log14 demo_event_batch = Inr (demo_log14 @ [demo_event_batch])"
  "appendEvent (demo_log14 @ [demo_event_batch]) demo_event_run = Inr ((demo_log14 @ [demo_event_batch]) @ [demo_event_run])"
  by code_simp+

lemma demo_handler_run:
  "insertBatch \<lparr>tx_log = demo_log14 @ [demo_event_batch], tx_defer = False\<rparr> demo_event_batch demo_db14 = Inr demo_db_batch"
  "startRun \<lparr>tx_log = (demo_log14 @ [demo_event_batch]) @ [demo_event_run], tx_defer = False\<rparr> demo_event_run demo_db_batch
     = Inr demo_db_run"
  by code_simp+

lemma demo_record_batch:
  "record_event [] demo_draft_batch (demo_event_batch\<lparr>ev_Causation := [], ev_Correlation := []\<rparr>) (demo_log14, demo_db14)
     = Inr (demo_event_batch, demo_log14 @ [demo_event_batch], demo_db_batch)"
proof -
  have "ev_Type demo_event_batch = TypeBatchCreated" by (simp add: demo_event_batch_def)
  then have "applyEvent \<lparr>tx_log = demo_log14 @ [demo_event_batch], tx_defer = False\<rparr> demo_event_batch demo_db14 = Inr demo_db_batch"
    using demo_handler_run(1) by (simp add: applyEvent_def transition_types_def tokens)
  then show ?thesis using demo_append_run(1) by (simp add: record_event_def chain_def) (simp add: demo_event_batch_def)
qed

lemma demo_record_run:
  "record_event [demo_event_batch] demo_draft_run (demo_event_run\<lparr>ev_Causation := [], ev_Correlation := []\<rparr>)
     (demo_log14 @ [demo_event_batch], demo_db_batch)
     = Inr (demo_event_run, (demo_log14 @ [demo_event_batch]) @ [demo_event_run], demo_db_run)"
proof -
  have "ev_Type demo_event_run = TypeRunStarted" by (simp add: demo_event_run_def)
  then have "applyEvent \<lparr>tx_log = (demo_log14 @ [demo_event_batch]) @ [demo_event_run], tx_defer = False\<rparr> demo_event_run demo_db_batch
      = Inr demo_db_run"
    using demo_handler_run(2) by (simp add: applyEvent_def transition_types_def tokens)
  moreover have "chain [demo_event_batch] demo_draft_run (demo_event_run\<lparr>ev_Causation := [], ev_Correlation := []\<rparr>) = Inr demo_event_run"
    by (simp add: chain_def demo_draft_run_def demo_event_batch_def demo_event_run_def)
  ultimately show ?thesis using demo_append_run(2) by (simp add: record_event_def)
qed

lemma demo_run_commit: "Commit demo_request demo_run_decide demo_watch = (demo_running, Inr [demo_event_batch, demo_event_run])"
  using demo_human demo_stamp_batch demo_stamp_run demo_record_batch demo_record_run
  by (simp add: Commit_def demo_run_decide_def demo_watch_facts) (simp add: demo_watch_def demo_later_def demo_running_def)

lemma demo_running_reachable: "reachable demo_running"
proof -
  have "minting demo_run_decide" by (simp add: minting_def demo_run_decide_def mints_refl)
  from op_commit[OF this, of demo_watch demo_request] have "op demo_watch demo_running" by (simp add: demo_run_commit)
  then show ?thesis by (intro reachable_ops[OF r_into_rtranclp demo_watch_reachable(1)])
qed

end
