(* ===== verification/Cycle.thy ===== *)
theory Cycle
  imports Schema
begin

text \<open>
  Cycles of the dependency graph (\<open>internal/store/cycle.go\<close>).

  The graph is the list of the edges in force, in the order of their identities;
  \<open>waits\<close> is the adjacency map \<open>waitsFor\<close>. \<open>reaches\<close> is the worklist search behind
  the add-time check \<open>WouldCycle\<close>, \<open>Cycles\<close> the store-wide audit. A stack and a path
  are lists; the top of the stack is the head of the list.

  The lemmas show that \<open>reaches\<close> is reachability, that an edge \<open>WouldCycle\<close> lets pass
  keeps an acyclic graph acyclic, and that \<open>Cycles\<close> lists every simple cycle,
  rotated to its smallest node, exactly once.
\<close>

type_synonym waitsFor = "(string \<times> string) list"

definition waits :: "waitsFor \<Rightarrow> string \<Rightarrow> string list" where
  "waits g x = map snd (filter (\<lambda>e. fst e = x) g)"

definition liveEdgeGraph :: "db \<Rightarrow> waitsFor" where
  "liveEdgeGraph s = map (\<lambda>e. (e_blocked e, e_blocker e)) (sort_key e_id (edges_in_force s))"

lemma in_waits_iff [simp]: "y \<in> set (waits g x) \<longleftrightarrow> (x, y) \<in> set g"
  by (force simp: waits_def)

section \<open>Reachability\<close>

text \<open>The inner loop: \<open>None\<close> is \<open>return true\<close>.\<close>

primrec visit :: "string \<Rightarrow> string list \<Rightarrow> string list \<times> string list \<Rightarrow> (string list \<times> string list) option" where
  "visit to [] st = Some st"
| "visit to (next # nexts) st =
     (if next = to then None
      else case st of (seen, stack) \<Rightarrow>
        if next \<in> set seen then visit to nexts (seen, stack)
        else visit to nexts (next # seen, next # stack))"

definition unseen :: "waitsFor \<Rightarrow> string list \<Rightarrow> string set" where
  "unseen g seen = snd ` set g - set seen"

lemma visit_measure:
  assumes "visit to nexts (seen, stack) = Some (seen', stack')" "set nexts \<subseteq> snd ` set g"
  shows "card (unseen g seen') + length stack' \<le> card (unseen g seen) + length stack"
  using assms
proof (induction nexts arbitrary: seen stack)
  case (Cons x nexts)
  have "card (unseen g (x # seen)) < card (unseen g seen)" if "x \<notin> set seen"
    using that Cons.prems(2) by (intro psubset_card_mono) (auto simp: unseen_def)
  then show ?case using Cons.IH[of seen stack] Cons.IH[of "x # seen" "x # stack"] Cons.prems
    by (fastforce split: if_splits)
qed simp

function reach_loop :: "waitsFor \<Rightarrow> string \<Rightarrow> string list \<Rightarrow> string list \<Rightarrow> bool" where
  "reach_loop g to seen [] = False"
| "reach_loop g to seen (cur # stack) =
     (case visit to (waits g cur) (seen, stack) of
        None \<Rightarrow> True
      | Some (seen', stack') \<Rightarrow> reach_loop g to seen' stack')"
  by pat_completeness auto
termination
proof (relation "measure (\<lambda>(g, to, seen, stack). card (unseen g seen) + length stack)", goal_cases)
  case (2 g to seen cur stack x seen' stack')
  then have "visit to (waits g cur) (seen, stack) = Some (seen', stack')" by simp
  moreover have "set (waits g cur) \<subseteq> snd ` set g" by force
  ultimately show ?case using visit_measure by fastforce
qed simp

definition reaches :: "waitsFor \<Rightarrow> string \<Rightarrow> string \<Rightarrow> bool" where
  "reaches g from to = reach_loop g to [from] [from]"

definition WouldCycle :: "db \<Rightarrow> string \<Rightarrow> string \<Rightarrow> bool" where
  "WouldCycle s blocked blocker = (blocked = blocker \<or> reaches (liveEdgeGraph s) blocker blocked)"

lemma visit_None_iff: "visit to nexts st = None \<longleftrightarrow> to \<in> set nexts"
  by (induction nexts arbitrary: st) (auto split: prod.splits)

lemma visit_Some:
  "visit to nexts (seen, stack) = Some (seen', stack') \<Longrightarrow>
     set seen' = set seen \<union> set nexts \<and> set stack \<subseteq> set stack' \<and> set stack' \<subseteq> set stack \<union> set nexts
   \<and> set nexts - set seen \<subseteq> set stack'"
proof (induction nexts arbitrary: seen stack)
  case (Cons x nexts)
  show ?case
  proof (cases "x \<in> set seen")
    case True
    then show ?thesis using Cons.IH[of seen stack] Cons.prems by (auto split: if_splits)
  next
    case False
    then have "visit to nexts (x # seen, x # stack) = Some (seen', stack')" using Cons.prems by (auto split: if_splits)
    from Cons.IH[OF this] show ?thesis by auto
  qed
qed simp

text \<open>The search: every seen node that is no longer on the stack has all its successors seen,
  and \<open>to\<close> is none of them.\<close>

lemma reach_loop_sound:
  assumes "reach_loop g to seen stack" "\<And>x. x \<in> set stack \<Longrightarrow> (a, x) \<in> (set g)\<^sup>*"
  shows "(a, to) \<in> (set g)\<^sup>+"
  using assms
proof (induction g to seen stack rule: reach_loop.induct)
  case (2 g to seen cur stack)
  have cur: "(a, cur) \<in> (set g)\<^sup>*" using 2(3) by simp
  show ?case
  proof (cases "visit to (waits g cur) (seen, stack)")
    case None
    then have "(cur, to) \<in> set g" by (simp add: visit_None_iff)
    with cur show ?thesis by (rule rtrancl_into_trancl1)
  next
    case (Some p)
    obtain seen' stack' where p: "p = (seen', stack')" by fastforce
    have "(a, x) \<in> (set g)\<^sup>*" if "x \<in> set stack'" for x
    proof -
      have "x \<in> set stack \<or> (cur, x) \<in> set g" using visit_Some[OF Some[unfolded p]] that by auto
      then show ?thesis using 2(3) cur by (auto intro: rtrancl_into_rtrancl)
    qed
    then show ?thesis using 2(1)[OF Some p[symmetric]] 2(2) Some p by auto
  qed
qed simp

lemma reach_loop_complete:
  assumes "\<not> reach_loop g to seen stack" "set stack \<subseteq> set seen"
    and "\<And>x y. x \<in> set seen - set stack \<Longrightarrow> (x, y) \<in> set g \<Longrightarrow> y \<in> set seen \<and> y \<noteq> to"
    and "(x, to) \<in> (set g)\<^sup>+" "x \<in> set seen"
  shows False
  using assms
proof (induction g to seen stack arbitrary: x rule: reach_loop.induct)
  case (1 g to seen)
  from 1(4,5) show False
  proof (induction rule: converse_trancl_induct)
    case (base y)
    then show False using 1(3)[of y to] by simp
  next
    case (step y z)
    then show False using 1(3)[of y z] by simp
  qed
next
  case (2 g to seen cur stack)
  from 2(2) obtain seen' stack' where v: "visit to (waits g cur) (seen, stack) = Some (seen', stack')"
    and rest: "\<not> reach_loop g to seen' stack'" by (auto split: option.splits)
  have to: "(cur, to) \<notin> set g" using v visit_None_iff[of to "waits g cur" "(seen, stack)"] by auto
  note vs = visit_Some[OF v]
  show False
  proof (rule 2(1)[OF v refl rest])
    show "set stack' \<subseteq> set seen'" using vs 2(3) by auto
    show "y \<in> set seen' \<and> y \<noteq> to" if "u \<in> set seen' - set stack'" "(u, y) \<in> set g" for u y
    proof (cases "u = cur")
      case True
      then show ?thesis using that(2) vs to by auto
    next
      case False
      then have "u \<in> set seen - set (cur # stack)" using that(1) vs by auto
      then show ?thesis using 2(4)[of u y] that(2) vs by auto
    qed
    show "(x, to) \<in> (set g)\<^sup>+" by (rule 2(5))
    show "x \<in> set seen'" using 2(6) vs by auto
  qed
qed

theorem reaches_iff: "reaches g from to \<longleftrightarrow> (from, to) \<in> (set g)\<^sup>+"
proof
  show "reaches g from to \<Longrightarrow> (from, to) \<in> (set g)\<^sup>+"
    unfolding reaches_def by (erule reach_loop_sound) simp
  show "(from, to) \<in> (set g)\<^sup>+ \<Longrightarrow> reaches g from to"
    unfolding reaches_def using reach_loop_complete[of g to "[from]" "[from]" "from"] by (auto simp del: reach_loop.simps)
qed

text \<open>Adding an edge that passes the check keeps the graph acyclic, and one that does not
  would close a cycle.\<close>

lemma WouldCycle_iff:
  assumes "acyclic (set (liveEdgeGraph s))"
  shows "WouldCycle s blocked blocker \<longleftrightarrow> \<not> acyclic (insert (blocked, blocker) (set (liveEdgeGraph s)))"
  using assms by (auto simp: WouldCycle_def reaches_iff acyclic_insert rtrancl_eq_or_trancl)

section \<open>The audit\<close>

function walk :: "waitsFor \<Rightarrow> string \<Rightarrow> string list \<Rightarrow> string \<Rightarrow> string list list" where
  "walk g start path node =
     concat (map (\<lambda>target.
        if target = start then [path]
        else if target < start \<or> target \<in> set path then []
        else walk g start (path @ [target]) target) (sort (waits g node)))"
  by pat_completeness auto
termination
proof (relation "measure (\<lambda>(g, start, path, node). card (unseen g path))", goal_cases)
  case (2 g start path node target)
  then have "target \<in> snd ` set g" by force
  then have "unseen g (path @ [target]) \<subset> unseen g path" using 2 by (auto simp: unseen_def)
  then show ?case by (auto simp: unseen_def intro: psubset_card_mono)
qed simp

declare walk.simps [simp del]

definition Cycles_of :: "waitsFor \<Rightarrow> string list list" where
  "Cycles_of g = concat (map (\<lambda>start. walk g start [start] start) (sort (remdups (map fst g))))"

definition Cycles :: "db \<Rightarrow> string list list" where
  "Cycles s = Cycles_of (liveEdgeGraph s)"

text \<open>A simple cycle, as the list of its nodes, starting at the smallest of them.\<close>

definition edge_of :: "waitsFor \<Rightarrow> string \<Rightarrow> string \<Rightarrow> bool" where
  "edge_of g a b \<longleftrightarrow> (a, b) \<in> set g"

definition is_cycle :: "waitsFor \<Rightarrow> string list \<Rightarrow> bool" where
  "is_cycle g c \<longleftrightarrow> c \<noteq> [] \<and> distinct c \<and> successively (edge_of g) c \<and> edge_of g (last c) (hd c)
     \<and> (\<forall>x \<in> set c. hd c \<le> x)"

definition extends :: "waitsFor \<Rightarrow> string \<Rightarrow> string list \<Rightarrow> string \<Rightarrow> string list \<Rightarrow> bool" where
  "extends g start path node ext \<longleftrightarrow> (\<forall>x \<in> set ext. start < x \<and> x \<notin> set path) \<and> distinct ext
     \<and> successively (edge_of g) (node # ext) \<and> edge_of g (last (node # ext)) start"

lemma extends_Nil: "extends g start path node [] \<longleftrightarrow> (node, start) \<in> set g"
  by (simp add: extends_def edge_of_def)

lemma extends_Cons: "extends g start path node (x # ext) \<longleftrightarrow>
   (node, x) \<in> set g \<and> start < x \<and> x \<notin> set path \<and> extends g start (path @ [x]) x ext"
  by (auto simp: extends_def edge_of_def)

lemma walk_iff: "c \<in> set (walk g start path node) \<longleftrightarrow> (\<exists>ext. c = path @ ext \<and> extends g start path node ext)"
proof (induction g start path node rule: walk.induct)
  case (1 g start path node)
  have "c \<in> set (walk g start path node) \<longleftrightarrow>
      ((node, start) \<in> set g \<and> c = path)
    \<or> (\<exists>x. (node, x) \<in> set g \<and> start < x \<and> x \<notin> set path \<and> c \<in> set (walk g start (path @ [x]) x))"
    by (subst walk.simps) (auto split: if_splits)
  also have "\<dots> \<longleftrightarrow> ((node, start) \<in> set g \<and> c = path)
    \<or> (\<exists>x ext. c = path @ x # ext \<and> extends g start path node (x # ext))"
    unfolding extends_Cons using 1 by (auto simp: not_less_iff_gr_or_eq)
  also have "\<dots> \<longleftrightarrow> (\<exists>ext. c = path @ ext \<and> extends g start path node ext)"
    unfolding extends_Nil[of g start path node, symmetric] by (metis append_Nil2 neq_Nil_conv)
  finally show ?case .
qed

lemma Cycles_of_iff: "c \<in> set (Cycles_of g) \<longleftrightarrow> is_cycle g c"
proof
  assume "c \<in> set (Cycles_of g)"
  then obtain st ext where "c = st # ext" "extends g st [st] st ext"
    by (auto simp: Cycles_of_def walk_iff)
  then show "is_cycle g c" by (auto simp: is_cycle_def extends_def less_imp_le)
next
  assume c: "is_cycle g c"
  then obtain st ext where e: "c = st # ext" by (cases c) (auto simp: is_cycle_def)
  then have "extends g st [st] st ext"
    using c by (fastforce simp: is_cycle_def extends_def order_le_less)
  moreover from this have "st \<in> fst ` set g"
    by (cases ext) (force simp: extends_def edge_of_def)+
  ultimately show "c \<in> set (Cycles_of g)" using e by (auto simp: Cycles_of_def walk_iff)
qed

lemma distinct_concat_map:
  assumes "distinct xs" "\<And>x. x \<in> set xs \<Longrightarrow> distinct (f x)"
    and "\<And>x y. x \<in> set xs \<Longrightarrow> y \<in> set xs \<Longrightarrow> x \<noteq> y \<Longrightarrow> set (f x) \<inter> set (f y) = {}"
  shows "distinct (concat (map f xs))"
  using assms
proof (induction xs)
  case (Cons x xs)
  have "set (f x) \<inter> set (f y) = {}" if "y \<in> set xs" for y
    using Cons.prems(1,3) that by (metis distinct.simps(2) list.set_intros)
  then show ?case using Cons by fastforce
qed simp

lemma distinct_walk:
  assumes "\<And>x. distinct (waits g x)"
  shows "distinct (walk g start path node)"
  using assms
proof (induction g start path node rule: walk.induct)
  case (1 g start path node)
  let ?f = "\<lambda>target. if target = start then [path] else if target < start \<or> target \<in> set path then []
    else walk g start (path @ [target]) target"
  have shape: "if t = start then c = path else \<exists>ext. c = path @ t # ext" if "c \<in> set (?f t)" for t c
    using that by (auto simp: walk_iff split: if_splits)
  have "distinct (concat (map ?f (sort (waits g node))))"
  proof (rule distinct_concat_map)
    show "distinct (sort (waits g node))" using 1(2) by simp
    show "distinct (?f t)" if "t \<in> set (sort (waits g node))" for t using 1 that by auto
    show "set (?f t) \<inter> set (?f u) = {}" if "t \<noteq> u" for t u
    proof (rule equals0I)
      fix c assume "c \<in> set (?f t) \<inter> set (?f u)"
      then have "if t = start then c = path else \<exists>ext. c = path @ t # ext"
        and "if u = start then c = path else \<exists>ext. c = path @ u # ext" using shape by blast+
      then show False using that by (auto split: if_splits)
    qed
  qed
  then show ?case by (subst walk.simps)
qed

theorem distinct_Cycles_of:
  assumes "\<And>x. distinct (waits g x)"
  shows "distinct (Cycles_of g)"
  unfolding Cycles_of_def
proof (rule distinct_concat_map)
  show "distinct (walk g x [x] x)" for x by (rule distinct_walk[OF assms])
  show "set (walk g x [x] x) \<inter> set (walk g y [y] y) = {}" if "x \<noteq> y" for x y
    using that by (auto simp: walk_iff)
qed simp

text \<open>There is a loop exactly where the audit reports one.\<close>

lemma successively_reach:
  "successively (edge_of g) (a # p) \<Longrightarrow> x \<in> set (a # p) \<Longrightarrow> (a, x) \<in> (set g)\<^sup>*"
proof (induction p arbitrary: a)
  case (Cons b p)
  then show ?case by (auto simp: edge_of_def intro: converse_rtrancl_into_rtrancl)
qed simp

lemma is_cycle_trancl:
  assumes "is_cycle g c"
  shows "(hd c, hd c) \<in> (set g)\<^sup>+"
proof -
  have "(hd c, last c) \<in> (set g)\<^sup>*"
    using assms successively_reach[of g "hd c" "tl c" "last c"] by (auto simp: is_cycle_def)
  moreover have "(last c, hd c) \<in> set g" using assms by (simp add: is_cycle_def edge_of_def)
  ultimately show ?thesis by (rule rtrancl_into_trancl1)
qed

definition closed :: "waitsFor \<Rightarrow> string list \<Rightarrow> bool" where
  "closed g c \<longleftrightarrow> c \<noteq> [] \<and> successively (edge_of g) c \<and> edge_of g (last c) (hd c)"

lemma trancl_path:
  "(x, y) \<in> (set g)\<^sup>+ \<Longrightarrow> \<exists>p. p \<noteq> [] \<and> hd p = x \<and> successively (edge_of g) p \<and> edge_of g (last p) y"
proof (induction rule: trancl_induct)
  case (base y)
  then show ?case by (intro exI[of _ "[x]"]) (simp add: edge_of_def)
next
  case (step y z)
  then obtain p where "p \<noteq> []" "hd p = x" "successively (edge_of g) p" "edge_of g (last p) y" by blast
  then show ?case using step(2)
    by (intro exI[of _ "p @ [y]"]) (auto simp: edge_of_def successively_append_iff)
qed

lemma closed_rotate: "closed g c \<Longrightarrow> closed g (rotate n c)"
proof (induction n)
  case (Suc n)
  moreover have "closed g (rotate1 d)" if "closed g d" for d
    using that by (cases d) (auto simp: closed_def successively_append_iff successively_Cons hd_append split: if_splits)
  ultimately show ?case by simp
qed simp

lemma shortest_closed_distinct:
  assumes "closed g c" "\<And>d. closed g d \<Longrightarrow> length c \<le> length d"
  shows "distinct c"
proof (rule ccontr)
  assume "\<not> distinct c"
  then obtain xs ys zs a where c: "c = xs @ [a] @ ys @ [a] @ zs" using not_distinct_decomp by blast
  then have "closed g (a # ys)"
    using assms(1) by (cases ys rule: rev_cases)
      (auto simp: closed_def successively_append_iff successively_Cons hd_append split: if_splits)
  from assms(2)[OF this] c show False by simp
qed

lemma cycle_exists:
  assumes "(x, x) \<in> (set g)\<^sup>+"
  shows "\<exists>c. is_cycle g c"
proof -
  obtain p where "closed g p" using trancl_path[OF assms] by (auto simp: closed_def)
  then obtain c where c: "closed g c" and least: "\<And>d. closed g d \<Longrightarrow> length c \<le> length d"
    using ex_has_least_nat[of "closed g" p length] by auto
  have "c \<noteq> []" using c by (simp add: closed_def)
  then have "Min (set c) \<in> set c" by simp
  then obtain n where n: "n < length c" "c ! n = Min (set c)" by (auto simp: in_set_conv_nth)
  then have "hd (rotate n c) = Min (set c)" using \<open>c \<noteq> []\<close> by (simp add: hd_rotate_conv_nth)
  then have "is_cycle g (rotate n c)"
    using closed_rotate[OF c, of n] shortest_closed_distinct[OF c least] by (auto simp: is_cycle_def closed_def)
  then show ?thesis by blast
qed

theorem Cycles_of_empty_iff: "Cycles_of g = [] \<longleftrightarrow> acyclic (set g)"
proof
  assume none: "Cycles_of g = []"
  show "acyclic (set g)"
  proof (rule acyclicI, intro allI notI)
    fix x assume "(x, x) \<in> (set g)\<^sup>+"
    from cycle_exists[OF this] Cycles_of_iff[of _ g] none show False by auto
  qed
next
  assume "acyclic (set g)"
  then have "\<not> is_cycle g c" for c using is_cycle_trancl[of g c] by (auto simp: acyclic_def)
  then show "Cycles_of g = []" using Cycles_of_iff[of "hd (Cycles_of g)" g] by (cases "Cycles_of g") auto
qed

section \<open>The graph of a store\<close>

lemma liveEdgeGraph_distinct:
  assumes "keys_ok s"
  shows "distinct (waits (liveEdgeGraph s) x)"
proof -
  have "distinct (map (\<lambda>e. (e_blocked e, e_blocker e)) (edges_in_force s))"
  proof -
    have "unique_on (\<lambda>r. e_tombstone r = None) (\<lambda>r. (e_blocked r, e_blocker r)) (edges s)"
      using assms by (simp add: keys_ok_def)
    then have "inj_on (\<lambda>e. (e_blocked e, e_blocker e)) (set (edges_in_force s))" and "distinct (edges_in_force s)"
      using assms by (auto simp: unique_on_def edges_in_force_def distinct_map keys_ok_def inj_on_def intro: distinct_filter)
    then show ?thesis by (simp add: distinct_map)
  qed
  then have "distinct (liveEdgeGraph s)"
    unfolding liveEdgeGraph_def by (simp add: distinct_map)
  then show ?thesis by (auto simp: waits_def distinct_map inj_on_def prod_eq_iff)
qed

theorem Cycles_spec:
  assumes "keys_ok s"
  shows "set (Cycles s) = {c. is_cycle (liveEdgeGraph s) c} \<and> distinct (Cycles s)
    \<and> (Cycles s = [] \<longleftrightarrow> acyclic (set (liveEdgeGraph s)))"
  using distinct_Cycles_of[OF liveEdgeGraph_distinct[OF assms]] Cycles_of_iff[of _ "liveEdgeGraph s"]
    Cycles_of_empty_iff[of "liveEdgeGraph s"] by (auto simp: Cycles_def)

end
