(* ===== verification/Verbs.thy ===== *)
theory Verbs
  imports Cycle Store
begin

text \<open>
  The write surface (\<open>internal/writesurface\<close>): what the verbs that build and move a plan
  do, on top of \<open>Commit\<close>.

  A verb reads the projection, refuses, and then commits. The closure it hands to
  \<open>Commit\<close> reads the transaction, mints identities and returns drafts; the variables
  the closure assigns for the code after the commit (\<open>id\<close>, \<open>becameSealed\<close>) are the
  second component of its \<open>plan\<close>. \<open>commit_plan\<close> runs a plan: \<open>decides\<close> is the closure,
  \<open>captured\<close> the variables. A verb returns the new store with its result or its
  refusal; a refusal is \<open>EWip\<close> with the code's machine token.

  The \<open>Env\<close> of a verb that has only a Repo is \<open>repo_env\<close>.
\<close>

section \<open>Running a plan\<close>

type_synonym 'c plan = "tx \<Rightarrow> db \<Rightarrow> minter \<Rightarrow> minter \<times> (Draft list \<times> 'c) result"

definition decides :: "'c plan \<Rightarrow> decision" where
  "decides plan t s m = (case plan t s m of
     (m', Inl e) \<Rightarrow> (m', Inl e) | (m', Inr (drafts, c)) \<Rightarrow> (m', Inr drafts))"

definition tx_of :: "store \<Rightarrow> tx" where
  "tx_of st = \<lparr>tx_log = st_log st, tx_defer = False\<rparr>"

definition captured :: "'c plan \<Rightarrow> store \<Rightarrow> 'c result" where
  "captured plan st = rbind (snd (plan (tx_of st) (st_db st) (st_mint st))) (\<lambda>(drafts, c). Inr c)"

definition commit_plan :: "Request \<Rightarrow> 'c plan \<Rightarrow> ('c \<Rightarrow> db \<Rightarrow> 'a result) \<Rightarrow> store \<Rightarrow> store \<times> 'a result" where
  "commit_plan req plan k st = (case Commit req (decides plan) st of
     (st', Inl e) \<Rightarrow> (st', Inl e)
   | (st', Inr events) \<Rightarrow> (st', rbind (captured plan st) (\<lambda>c. k c (st_db st'))))"

text \<open>A plan that only reads, and a plan that mints one identity first.\<close>

definition from_db :: "(tx \<Rightarrow> db \<Rightarrow> (Draft list \<times> 'c) result) \<Rightarrow> 'c plan" where
  "from_db f t s m = (m, f t s)"

definition from_id :: "(tx \<Rightarrow> db \<Rightarrow> string \<Rightarrow> (Draft list \<times> 'c) result) \<Rightarrow> 'c plan" where
  "from_id f t s m = (case store_NewID m of (m', Inl e) \<Rightarrow> (m', Inl e) | (m', Inr ident) \<Rightarrow> (m', f t s ident))"

definition draft :: "string \<Rightarrow> string \<Rightarrow> json \<Rightarrow> Draft" where
  "draft ty subject payload = \<lparr>dr_Type = ty, dr_Subject = subject, dr_Payload = payload, dr_Env = None, dr_Cause = 0\<rparr>"

definition repo_env :: "string \<Rightarrow> Env" where
  "repo_env repo = \<lparr>env_Repo = repo, env_Clone = [], env_Worktree = []\<rparr>"

definition request :: "Actor \<Rightarrow> Env \<Rightarrow> Request" where
  "request actor env = \<lparr>rq_Actor = actor, rq_Env = env\<rparr>"

section \<open>Locators\<close>

text \<open>\<open>strings.ToLower\<close> on the bytes, as far as it can make an ASCII letter: of the letters
  outside ASCII only U+0130 and U+212A have an ASCII lower case.\<close>

fun slug_chars :: "string \<Rightarrow> char option list" where
  "slug_chars [] = []"
| "slug_chars (a # s) =
     (if CHR ''A'' \<le> a \<and> a \<le> CHR ''Z'' then Some (char_of (of_char a + 32 :: nat)) # slug_chars s
      else if (CHR ''a'' \<le> a \<and> a \<le> CHR ''z'') \<or> (CHR ''0'' \<le> a \<and> a \<le> CHR ''9'') then Some a # slug_chars s
      else case s of
        b # s' \<Rightarrow>
          (if a = CHR 0xC4 \<and> b = CHR 0xB0 then Some (CHR ''i'') # slug_chars s'
           else case s' of
             c # s'' \<Rightarrow>
               (if a = CHR 0xE2 \<and> b = CHR 0x84 \<and> c = CHR 0xAA then Some (CHR ''k'') # slug_chars s''
                else None # slug_chars s)
           | [] \<Rightarrow> None # slug_chars s)
      | [] \<Rightarrow> None # slug_chars s)"

primrec slug_loop :: "char option list \<Rightarrow> bool \<Rightarrow> string" where
  "slug_loop [] prevDash = []"
| "slug_loop (x # xs) prevDash =
     (case x of
        Some c \<Rightarrow> c # slug_loop xs False
      | None \<Rightarrow> if prevDash then slug_loop xs True else CHR ''-'' # slug_loop xs True)"

text \<open>\<open>strings.TrimSuffix(.., "-")\<close>.\<close>

definition trim_dash :: "string \<Rightarrow> string" where
  "trim_dash s = (if s \<noteq> [] \<and> last s = CHR ''-'' then butlast s else s)"

definition slugify :: "string \<Rightarrow> string" where
  "slugify title = trim_dash (slug_loop (slug_chars title) True)"

text \<open>\<open>strings.Split(locator, "/")\<close>.\<close>

fun split_slash :: "string \<Rightarrow> string list" where
  "split_slash [] = [[]]"
| "split_slash (c # cs) =
     (if c = CHR ''/'' then [] # split_slash cs
      else case split_slash cs of [] \<Rightarrow> [[c]] | seg # segs \<Rightarrow> (c # seg) # segs)"

definition wip_error :: "string \<Rightarrow> 'a result \<Rightarrow> 'a result" where
  "wip_error code r = (case r of Inl _ \<Rightarrow> Inl (EWip code) | Inr x \<Rightarrow> Inr x)"

definition ResolveNode :: "db \<Rightarrow> string \<Rightarrow> string \<Rightarrow> Node result" where
  "ResolveNode s repo locator =
     (if IsIdentityShaped locator then wip_error ''validation.unknown-locator'' (view_Node s locator)
      else let segs = split_slash locator in
        rbind (wip_error ''validation.unknown-locator'' (MatterByLocator s repo (hd segs))) (\<lambda>matter.
        if length segs = 1 then Inr matter
        else wip_error ''validation.unknown-locator'' (NodeByLocator s (N_ID matter) (last segs))))"

definition ResolveMatter :: "db \<Rightarrow> string \<Rightarrow> string \<Rightarrow> Node result" where
  "ResolveMatter s repo locator =
     rbind (ResolveNode s repo locator) (\<lambda>n.
     if N_Kind n \<noteq> ScaleMatter then Inl (EWip ''validation.not-a-matter'') else Inr n)"

text \<open>\<open>FindingSubject\<close>: the identity, and whether it is a backlog entry's.\<close>

definition ResolveFindingSubject :: "db \<Rightarrow> string \<Rightarrow> string \<Rightarrow> (string \<times> bool) result" where
  "ResolveFindingSubject s repo locator =
     (if IsIdentityShaped locator then
        (case view_Node s locator of
           Inr n \<Rightarrow> Inr (N_ID n, False)
         | Inl _ \<Rightarrow> (case view_BacklogEntry s repo locator of
             Some e \<Rightarrow> Inr (b_id e, True)
           | None \<Rightarrow> Inl (EWip ''validation.unknown-locator'')))
      else rbind (ResolveNode s repo locator) (\<lambda>n. Inr (N_ID n, False)))"

section \<open>Birth\<close>

definition is_ok :: "'a result \<Rightarrow> bool" where
  "is_ok r = (case r of Inl _ \<Rightarrow> False | Inr _ \<Rightarrow> True)"

definition birth_plan :: "string \<Rightarrow> NodeBirth \<Rightarrow> string plan" where
  "birth_plan ty p = from_id (\<lambda>t s ident. Inr ([draft ty ident (marshal_NodeBirth p)], ident))"

definition matter_locator :: "string \<Rightarrow> string \<Rightarrow> string result" where
  "matter_locator title locator =
     (if locator = [] then
        (if slugify title = [] then Inl (EWip ''validation.invalid-title'') else Inr (slugify title))
      else if slugify locator \<noteq> locator then Inl (EWip ''validation.invalid-locator'')
      else Inr locator)"

definition CreateMatter :: "Actor \<Rightarrow> string \<Rightarrow> string \<Rightarrow> string \<Rightarrow> store \<Rightarrow> store \<times> Node result" where
  "CreateMatter actor repo title loc st =
     (case matter_locator title loc of
        Inl e \<Rightarrow> (st, Inl e)
      | Inr locator \<Rightarrow>
          if is_ok (MatterByLocator (st_db st) repo locator) then (st, Inl (EWip ''validation.locator-collision''))
          else commit_plan (request actor (repo_env repo))
            (birth_plan TypeMatterCreated \<lparr>nb_Title = title, nb_Locator = locator, nb_Parent = [], nb_SortKey = 0\<rparr>)
            (\<lambda>ident s. view_Node s ident) st)"

definition CreateStage :: "Actor \<Rightarrow> string \<Rightarrow> string \<Rightarrow> string \<Rightarrow> store \<Rightarrow> store \<times> Node result" where
  "CreateStage actor repo parentLocator title st =
     (case ResolveNode (st_db st) repo parentLocator of
        Inl e \<Rightarrow> (st, Inl e)
      | Inr parent \<Rightarrow>
          if N_Kind parent \<noteq> ScaleMatter then (st, Inl (EWip ''validation.not-a-matter''))
          else let locator = slugify title in
            if locator = [] then (st, Inl (EWip ''validation.invalid-title''))
            else if is_ok (NodeByLocator (st_db st) (N_ID parent) locator)
            then (st, Inl (EWip ''validation.locator-collision''))
            else commit_plan (request actor (repo_env repo))
              (birth_plan TypeStageCreated \<lparr>nb_Title = title, nb_Locator = locator, nb_Parent = N_ID parent,
                 nb_SortKey = NextSortKey (st_db st) (N_ID parent)\<rparr>)
              (\<lambda>ident s. view_Node s ident) st)"

definition CreateStep :: "Actor \<Rightarrow> string \<Rightarrow> string \<Rightarrow> string \<Rightarrow> store \<Rightarrow> store \<times> Node result" where
  "CreateStep actor repo parentLocator title st =
     (case ResolveNode (st_db st) repo parentLocator of
        Inl e \<Rightarrow> (st, Inl e)
      | Inr parent \<Rightarrow>
          if N_Kind parent = ScaleStep then (st, Inl (EWip ''validation.invalid-parent''))
          else commit_plan (request actor (repo_env repo))
            (birth_plan TypeStepCreated \<lparr>nb_Title = title, nb_Locator = NextStepLocator (st_db st) (N_Matter parent),
               nb_Parent = N_ID parent, nb_SortKey = NextSortKey (st_db st) (N_ID parent)\<rparr>)
            (\<lambda>ident s. view_Node s ident) st)"

section \<open>Lifecycle\<close>

definition lifecycleEvents :: "string \<Rightarrow> Scale \<Rightarrow> string" where
  "lifecycleEvents action scale =
     (if action = ''started'' then
        (if scale = ScaleMatter then TypeMatterStarted else if scale = ScaleStage then TypeStageStarted
         else if scale = ScaleStep then TypeStepStarted else [])
      else if action = ''finished'' then
        (if scale = ScaleMatter then TypeMatterFinished else if scale = ScaleStage then TypeStageFinished
         else if scale = ScaleStep then TypeStepFinished else [])
      else if action = ''canceled'' then
        (if scale = ScaleMatter then TypeMatterCanceled else if scale = ScaleStage then TypeStageCanceled
         else if scale = ScaleStep then TypeStepCanceled else [])
      else if action = ''paused'' then
        (if scale = ScaleMatter then TypeMatterPaused else if scale = ScaleStage then TypeStagePaused
         else if scale = ScaleStep then TypeStepPaused else [])
      else if action = ''resumed'' then
        (if scale = ScaleMatter then TypeMatterResumed else if scale = ScaleStage then TypeStageResumed
         else if scale = ScaleStep then TypeStepResumed else [])
      else [])"

text \<open>The loop over the parents, nearest first, with fuel for the depth of the tree.\<close>

primrec ancestor_loop :: "db \<Rightarrow> nat \<Rightarrow> Node \<Rightarrow> Node list result" where
  "ancestor_loop s 0 cur = Inl (ERefused ''the parent chain does not end'')"
| "ancestor_loop s (Suc n) cur =
     (if N_Parent cur = [] then Inr []
      else rbind (view_Node s (N_Parent cur)) (\<lambda>p.
           rbind (ancestor_loop s n p) (\<lambda>ps. Inr (p # ps))))"

definition ancestorsRootFirst :: "db \<Rightarrow> Node \<Rightarrow> Node list result" where
  "ancestorsRootFirst s n = rbind (ancestor_loop s 3 n) (\<lambda>ps. Inr (rev ps))"

primrec start_loop :: "db \<Rightarrow> string \<Rightarrow> string \<Rightarrow> Node list \<Rightarrow> Draft list \<Rightarrow> Draft list result" where
  "start_loop s target level [] drafts = Inr drafts"
| "start_loop s target level (node # ns) drafts =
     rbind (view_Node s (N_ID node)) (\<lambda>fresh.
     if N_Lifecycle fresh \<noteq> Planned then
       (if N_ID node = target then Inl (EWip ''refusal.invalid-transition'')
        else start_loop s target level ns drafts)
     else start_loop s target level ns (drafts @
       [(draft (lifecycleEvents ''started'' (N_Kind fresh)) (N_ID fresh)
          (marshal_Transition \<lparr>tr_From = Planned, tr_To = InProgress, tr_Cascade = (N_ID node \<noteq> target),
             tr_TrackerPushLevel = level, tr_Reason = []\<rparr>))
        \<lparr>dr_Cause := if drafts = [] then 0 else int (length drafts) - 1\<rparr>]))"

definition start_plan :: "string \<Rightarrow> Node \<Rightarrow> Node list \<Rightarrow> unit plan" where
  "start_plan repo target ns = from_db (\<lambda>t s.
     rbind (EffectiveTrackerPushLevel s repo) (\<lambda>level.
     rbind (start_loop s (N_ID target) level ns []) (\<lambda>drafts.
     if drafts = [] then Inl (ERefused ''the command produced no event'') else Inr (drafts, ()))))"

definition Start :: "Actor \<Rightarrow> string \<Rightarrow> string \<Rightarrow> store \<Rightarrow> store \<times> unit result" where
  "Start actor repo locator st =
     (case ResolveNode (st_db st) repo locator of
        Inl e \<Rightarrow> (st, Inl e)
      | Inr target \<Rightarrow>
          (case ancestorsRootFirst (st_db st) target of
             Inl e \<Rightarrow> (st, Inl e)
           | Inr ancestors \<Rightarrow> commit_plan (request actor (repo_env repo))
               (start_plan repo target (ancestors @ [target])) (\<lambda>_ _. Inr ()) st))"

text \<open>\<open>sealSweepDraft\<close>.\<close>

definition sealSweepDraft :: "db \<Rightarrow> string \<Rightarrow> Draft option" where
  "sealSweepDraft s matter =
     (case AnonymousBatchForMatter s matter of
        Some b \<Rightarrow> if ba_state b = ''live'' then Some (draft TypeBatchSwept (ba_id b) []) else None
      | None \<Rightarrow> None)"

text \<open>The tail the finishing, closing and dismissing closures share: a Matter that seals with
  this command sweeps its anonymous Batch in it. The flag is \<open>becameSealed\<close>.\<close>

definition sealing :: "tx \<Rightarrow> db \<Rightarrow> Node \<Rightarrow> CompletionOverlay \<Rightarrow> Draft \<Rightarrow> (Draft list \<times> bool) result" where
  "sealing t s fresh ov d =
     rbind (view_NodeCompletion t s fresh) (\<lambda>before.
     rbind (NodeCompletionWithOverlay t s fresh ov) (\<lambda>after.
     if nc_Sealed before \<or> \<not> nc_Sealed after then Inr ([d], False)
     else Inr (case sealSweepDraft s (N_ID fresh) of Some sweep \<Rightarrow> ([d, sweep], True) | None \<Rightarrow> ([d], True))))"

definition transition_plan ::
  "string \<Rightarrow> Node \<Rightarrow> string \<Rightarrow> Lifecycle \<Rightarrow> Lifecycle \<Rightarrow> string \<Rightarrow> bool plan" where
  "transition_plan repo n action from to reason = from_db (\<lambda>t s.
     rbind (EffectiveTrackerPushLevel s repo) (\<lambda>level.
     rbind (view_Node s (N_ID n)) (\<lambda>fresh.
     if N_Lifecycle fresh \<noteq> from then Inl (EWip ''refusal.invalid-transition'')
     else let d = draft (lifecycleEvents action (N_Kind fresh)) (N_ID fresh)
                (marshal_Transition \<lparr>tr_From = from, tr_To = to, tr_Cascade = False,
                   tr_TrackerPushLevel = level, tr_Reason = reason\<rparr>)
          in if action = ''finished'' \<and> N_Kind fresh = ScaleMatter
             then sealing t s fresh (no_overlay\<lparr>ov_FinishingNode := N_ID fresh\<rparr>) d
             else Inr ([d], False))))"

definition sealed_result :: "string \<Rightarrow> bool \<Rightarrow> db \<Rightarrow> (Node \<times> bool) result" where
  "sealed_result ident becameSealed s = rbind (view_Node s ident) (\<lambda>fresh. Inr (fresh, becameSealed))"

definition simpleTransitionEnvResult ::
  "Actor \<Rightarrow> Env \<Rightarrow> string \<Rightarrow> string \<Rightarrow> Lifecycle \<Rightarrow> Lifecycle \<Rightarrow> string \<Rightarrow> store \<Rightarrow> store \<times> (Node \<times> bool) result" where
  "simpleTransitionEnvResult actor env locator action from to reason st =
     (case ResolveNode (st_db st) (env_Repo env) locator of
        Inl e \<Rightarrow> (st, Inl e)
      | Inr n \<Rightarrow>
          if N_Lifecycle n \<noteq> from then (st, Inl (EWip ''refusal.invalid-transition''))
          else commit_plan (request actor env) (transition_plan (env_Repo env) n action from to reason)
            (sealed_result (N_ID n)) st)"

definition Finish :: "Actor \<Rightarrow> Env \<Rightarrow> string \<Rightarrow> store \<Rightarrow> store \<times> (Node \<times> bool) result" where
  "Finish actor env locator = simpleTransitionEnvResult actor env locator ''finished'' InProgress Done []"

definition Cancel :: "Actor \<Rightarrow> string \<Rightarrow> string \<Rightarrow> string \<Rightarrow> store \<Rightarrow> store \<times> (Node \<times> bool) result" where
  "Cancel actor repo locator reason =
     simpleTransitionEnvResult actor (repo_env repo) locator ''canceled'' InProgress Canceled reason"

definition Pause :: "Actor \<Rightarrow> string \<Rightarrow> string \<Rightarrow> store \<Rightarrow> store \<times> (Node \<times> bool) result" where
  "Pause actor repo locator =
     simpleTransitionEnvResult actor (repo_env repo) locator ''paused'' InProgress Paused []"

definition Resume :: "Actor \<Rightarrow> string \<Rightarrow> string \<Rightarrow> store \<Rightarrow> store \<times> (Node \<times> bool) result" where
  "Resume actor repo locator =
     simpleTransitionEnvResult actor (repo_env repo) locator ''resumed'' Paused InProgress []"

section \<open>Amendment\<close>

definition liveSteps :: "db \<Rightarrow> string \<Rightarrow> Node list" where
  "liveSteps s parent = filter (\<lambda>c. N_Kind c = ScaleStep) (Children s parent)"

primrec index_of :: "string \<Rightarrow> Node list \<Rightarrow> nat option" where
  "index_of ident [] = None"
| "index_of ident (n # ns) = (if N_ID n = ident then Some 0 else map_option Suc (index_of ident ns))"

definition siblingIndex :: "db \<Rightarrow> string \<Rightarrow> Node list \<Rightarrow> string \<Rightarrow> nat result" where
  "siblingIndex s repo siblings locator =
     rbind (ResolveNode s repo locator) (\<lambda>n.
     of_option (EWip ''validation.not-a-sibling'') (index_of (N_ID n) siblings))"

definition insert_position :: "db \<Rightarrow> string \<Rightarrow> Node list \<Rightarrow> string \<Rightarrow> string \<Rightarrow> nat result" where
  "insert_position s repo siblings after before =
     (if after \<noteq> [] then rbind (siblingIndex s repo siblings after) (\<lambda>i. Inr (Suc i))
      else if before \<noteq> [] then siblingIndex s repo siblings before
      else Inr (length siblings))"

text \<open>The sort key of a step inserted at a position, \<open>None\<close> where there is no room left.\<close>

definition insert_key :: "db \<Rightarrow> string \<Rightarrow> Node list \<Rightarrow> nat \<Rightarrow> int option" where
  "insert_key s parent siblings position =
     (if siblings = [] \<or> position = length siblings then Some (NextSortKey s parent)
      else if position = 0 then SortKeyBetween 0 (N_SortKey (hd siblings))
      else SortKeyBetween (N_SortKey (siblings ! (position - 1))) (N_SortKey (siblings ! position)))"

definition insert_plan :: "Node \<Rightarrow> string \<Rightarrow> string \<Rightarrow> Node list \<Rightarrow> nat \<Rightarrow> int option \<Rightarrow> string plan" where
  "insert_plan parent title locator siblings position key = from_id (\<lambda>t s ident.
     let birth = (\<lambda>k. draft TypeStepInserted ident (marshal_NodeBirth
           \<lparr>nb_Title = title, nb_Locator = locator, nb_Parent = N_ID parent, nb_SortKey = k\<rparr>))
     in Inr (case key of
          Some k \<Rightarrow> ([birth k], ident)
        | None \<Rightarrow> ([draft TypeStepReordered (N_ID parent) (marshal_Reordered \<lparr>ro_Order = map N_ID siblings\<rparr>),
                   birth (wrap64 (wrap64 (int position * 1000) + 500))], ident)))"

definition InsertStep ::
  "Actor \<Rightarrow> string \<Rightarrow> string \<Rightarrow> string \<Rightarrow> string \<Rightarrow> string \<Rightarrow> store \<Rightarrow> store \<times> Node result" where
  "InsertStep actor repo parentLocator title after before st =
     (let s = st_db st in
      if after \<noteq> [] \<and> before \<noteq> [] then (st, Inl (EWip ''validation.conflicting-flags''))
      else case ResolveNode s repo parentLocator of
        Inl e \<Rightarrow> (st, Inl e)
      | Inr parent \<Rightarrow>
          if N_Kind parent = ScaleStep then (st, Inl (EWip ''validation.invalid-parent''))
          else let siblings = liveSteps s (N_ID parent) in
            case insert_position s repo siblings after before of
              Inl e \<Rightarrow> (st, Inl e)
            | Inr position \<Rightarrow> commit_plan (request actor (repo_env repo))
                (insert_plan parent title (NextStepLocator s (N_Matter parent)) siblings position
                  (insert_key s (N_ID parent) siblings position))
                (\<lambda>ident s'. view_Node s' ident) st)"

primrec resolve_order :: "db \<Rightarrow> string \<Rightarrow> Node list \<Rightarrow> string list \<Rightarrow> string list result" where
  "resolve_order s repo siblings [] = Inr []"
| "resolve_order s repo siblings (locator # ls) =
     rbind (ResolveNode s repo locator) (\<lambda>n.
     if N_ID n \<notin> set (map N_ID siblings) then Inl (EWip ''validation.not-a-sibling'')
     else rbind (resolve_order s repo siblings ls) (\<lambda>rest. Inr (N_ID n # rest)))"

definition ReorderStep :: "Actor \<Rightarrow> string \<Rightarrow> string \<Rightarrow> string list \<Rightarrow> store \<Rightarrow> store \<times> Node result" where
  "ReorderStep actor repo parentLocator order st =
     (let s = st_db st in
      case ResolveNode s repo parentLocator of
        Inl e \<Rightarrow> (st, Inl e)
      | Inr parent \<Rightarrow>
          let siblings = liveSteps s (N_ID parent) in
          if length order \<noteq> length siblings then (st, Inl (EWip ''validation.incomplete-order''))
          else case resolve_order s repo siblings order of
            Inl e \<Rightarrow> (st, Inl e)
          | Inr resolved \<Rightarrow> commit_plan (request actor (repo_env repo))
              (from_db (\<lambda>t s. Inr ([draft TypeStepReordered (N_ID parent) (marshal_Reordered \<lparr>ro_Order = resolved\<rparr>)], ())))
              (\<lambda>_ s'. view_Node s' (N_ID parent)) st)"

definition ReplaceStep :: "Actor \<Rightarrow> string \<Rightarrow> string \<Rightarrow> string \<Rightarrow> store \<Rightarrow> store \<times> Node result" where
  "ReplaceStep actor repo stepLocator title st =
     (let s = st_db st in
      case ResolveNode s repo stepLocator of
        Inl e \<Rightarrow> (st, Inl e)
      | Inr n \<Rightarrow>
          if N_Kind n \<noteq> ScaleStep then (st, Inl (EWip ''validation.not-a-step''))
          else commit_plan (request actor (repo_env repo))
            (from_id (\<lambda>t s' ident. Inr ([draft TypeStepReplaced (N_ID n) (marshal_Replaced
               \<lparr>rp_Replacement = ident, rp_Title = title, rp_Locator = NextStepLocator s (N_Matter n)\<rparr>)], ident)))
            (\<lambda>ident s'. view_Node s' ident) st)"

definition RemoveStep :: "Actor \<Rightarrow> string \<Rightarrow> string \<Rightarrow> string \<Rightarrow> store \<Rightarrow> store \<times> unit result" where
  "RemoveStep actor repo stepLocator reason st =
     (case ResolveNode (st_db st) repo stepLocator of
        Inl e \<Rightarrow> (st, Inl e)
      | Inr n \<Rightarrow>
          if N_Kind n \<noteq> ScaleStep then (st, Inl (EWip ''validation.not-a-step''))
          else commit_plan (request actor (repo_env repo))
            (from_db (\<lambda>t s. Inr ([draft TypeStepRemoved (N_ID n) (marshal_Removed \<lparr>rm_Reason = reason\<rparr>)], ())))
            (\<lambda>_ _. Inr ()) st)"

section \<open>Dependencies\<close>

definition DependAdd :: "Actor \<Rightarrow> string \<Rightarrow> string \<Rightarrow> string \<Rightarrow> store \<Rightarrow> store \<times> Edge result" where
  "DependAdd actor repo blockedLocator blockerLocator st =
     (let s = st_db st in
      case ResolveNode s repo blockedLocator of
        Inl e \<Rightarrow> (st, Inl e)
      | Inr blocked \<Rightarrow>
          (case ResolveNode s repo blockerLocator of
             Inl e \<Rightarrow> (st, Inl e)
           | Inr blocker \<Rightarrow>
               if WouldCycle s (N_ID blocked) (N_ID blocker) then (st, Inl (EWip ''refusal.blocked-by-cycle''))
               else commit_plan (request actor (repo_env repo))
                 (from_id (\<lambda>t s ident. Inr ([draft TypeDependencyAdded (N_ID blocked)
                    (marshal_DependencyChange \<lparr>dc_Edge = ident, dc_Blocker = N_ID blocker\<rparr>)], ident)))
                 (\<lambda>ident _. Inr \<lparr>E_ID = ident, E_Blocked = N_ID blocked, E_Blocker = N_ID blocker\<rparr>) st))"

definition DependRemove :: "Actor \<Rightarrow> string \<Rightarrow> string \<Rightarrow> string \<Rightarrow> store \<Rightarrow> store \<times> unit result" where
  "DependRemove actor repo blockedLocator blockerLocator st =
     (let s = st_db st in
      case ResolveNode s repo blockedLocator of
        Inl e \<Rightarrow> (st, Inl e)
      | Inr blocked \<Rightarrow>
          (case ResolveNode s repo blockerLocator of
             Inl e \<Rightarrow> (st, Inl e)
           | Inr blocker \<Rightarrow>
               (case EdgeBetween s (N_ID blocked) (N_ID blocker) of
                  None \<Rightarrow> (st, Inl (EWip ''validation.no-such-edge''))
                | Some edge \<Rightarrow> commit_plan (request actor (repo_env repo))
                    (from_db (\<lambda>t s. Inr ([draft TypeDependencyRemoved (N_ID blocked)
                       (marshal_DependencyChange \<lparr>dc_Edge = E_ID edge, dc_Blocker = N_ID blocker\<rparr>)], ())))
                    (\<lambda>_ _. Inr ()) st)))"

section \<open>Tracker references\<close>

definition reference_plan :: "string \<Rightarrow> string \<Rightarrow> Node \<Rightarrow> (string \<Rightarrow> json) \<Rightarrow> unit plan" where
  "reference_plan repo ty n payload = from_db (\<lambda>t s.
     rbind (EffectiveTrackerPushLevel s repo) (\<lambda>level. Inr ([draft ty (N_ID n) (payload level)], ())))"

definition bind_verb :: "Actor \<Rightarrow> string \<Rightarrow> string \<Rightarrow> string \<Rightarrow> (string \<Rightarrow> json) \<Rightarrow> store \<Rightarrow> store \<times> Node result" where
  "bind_verb actor repo locator ty payload st =
     (case ResolveMatter (st_db st) repo locator of
        Inl e \<Rightarrow> (st, Inl e)
      | Inr n \<Rightarrow> commit_plan (request actor (repo_env repo)) (reference_plan repo ty n payload)
          (\<lambda>_ s. view_Node s (N_ID n)) st)"

definition Bind :: "Actor \<Rightarrow> string \<Rightarrow> string \<Rightarrow> string \<Rightarrow> store \<Rightarrow> store \<times> Node result" where
  "Bind actor repo locator ref = bind_verb actor repo locator TypeReferenceAdded
     (\<lambda>level. marshal_ReferenceAdded \<lparr>ra_Ref = ref, ra_TrackerPushLevel = level\<rparr>)"

definition Unbind :: "Actor \<Rightarrow> string \<Rightarrow> string \<Rightarrow> string \<Rightarrow> store \<Rightarrow> store \<times> Node result" where
  "Unbind actor repo locator ref = bind_verb actor repo locator TypeReferenceRemoved
     (\<lambda>level. marshal_ReferenceRemoved \<lparr>rr_Ref = ref, rr_TrackerPushLevel = level\<rparr>)"

definition Rebind :: "Actor \<Rightarrow> string \<Rightarrow> string \<Rightarrow> string \<Rightarrow> string \<Rightarrow> store \<Rightarrow> store \<times> Node result" where
  "Rebind actor repo locator from to = bind_verb actor repo locator TypeReferenceRebound
     (\<lambda>level. marshal_ReferenceRebound \<lparr>rx_From = from, rx_To = to, rx_TrackerPushLevel = level\<rparr>)"

end
