(* ===== verification/Completion.thy ===== *)
theory Completion
  imports StoreLaws
begin

text \<open>
  What completion means (\<open>internal/store/gates.go\<close>, \<open>view.go\<close>), as reference
  definitions over the rows, and that the queries compute them.

  \<^item> \<open>encloses\<close>: the node itself and the nodes above it.
  \<^item> \<open>gates_met\<close>: every gate the Repo declares at the node's scale is closed,
    dismissed or exempt there (or is the one the overlay is closing).
  \<^item> \<open>locally_complete\<close> and \<open>sealed\<close>: Done with its own gates met, and with the
    gates of everything that encloses it met too.

  \<open>gate_walk_spec\<close> reads the walk up the parent chain as a set of requirements;
  \<open>completion_total\<close> shows that on a reachable store the query returns, and
  returns these two predicates, for every node whose enclosing nodes are live.
  The gate rows of a reachable store each name a gate event of the log that
  describes them (\<open>gate_rows_ok\<close>), so that reading them back cannot fail.
\<close>

section \<open>Gate rows and the log\<close>

definition gate_rows_ok :: "event list \<Rightarrow> db \<Rightarrow> bool" where
  "gate_rows_ok evs s \<longleftrightarrow> (\<forall>g \<in> set (gate_state s).
     \<exists>e \<in> set evs. ev_ID e = g_last g \<and> (\<exists>m. gate_metadata_of g e = Inr m))"

lemma gate_rows_ok_step: "stmt t ev s s' \<Longrightarrow> ev \<in> set evs \<Longrightarrow> gate_rows_ok evs s \<Longrightarrow> gate_rows_ok evs s'"
  unfolding gate_rows_ok_def
  by (erule stmt.cases; (erule upsert_config_cases upsert_cursor_cases)?; simp add: statements res; clarify?; auto)

lemma gate_rows_ok_steps: "steps t ev s s' \<Longrightarrow> ev \<in> set evs \<Longrightarrow> gate_rows_ok evs s \<Longrightarrow> gate_rows_ok evs s'"
  by (induction rule: rtranclp_induct) (auto dest: gate_rows_ok_step)

lemma folds_gate_rows_ok: "folds evs s \<Longrightarrow> gate_rows_ok evs s"
proof (induction rule: folds.induct)
  case folds_Nil
  then show ?case by (simp add: gate_rows_ok_def empty_db_def)
next
  case (folds_snoc evs s ev s')
  then have "gate_rows_ok (evs @ [ev]) s" by (auto simp: gate_rows_ok_def)
  then show ?case using gate_rows_ok_steps[OF applyEvent_steps[OF folds_snoc(2)]] by simp
qed

lemma gate_metadata_of_state:
  "gate_metadata_of g e = Inr m \<Longrightarrow> gm_state m = GateRequirementClosed \<or> gm_state m = GateRequirementDismissed"
  by (auto simp: gate_metadata_of_def res split: if_splits)

definition metadata_ok :: "gate_row list \<Rightarrow> (string \<times> gate_metadata) list \<Rightarrow> bool" where
  "metadata_ok gs ms \<longleftrightarrow> fst ` set ms = g_gate ` set gs
     \<and> (\<forall>m \<in> snd ` set ms. gm_state m = GateRequirementClosed \<or> gm_state m = GateRequirementDismissed)"

lemma gate_metadata_loop_total:
  assumes "\<And>g. g \<in> set gs \<Longrightarrow> \<exists>e m. List.find (\<lambda>e. ev_ID e = g_last g) evs = Some e \<and> gate_metadata_of g e = Inr m"
  shows "\<exists>ms. gate_metadata_loop evs gs = Inr ms \<and> metadata_ok gs ms"
  using assms
proof (induction gs)
  case (Cons g gs)
  from Cons.prems[of g] obtain e m where e: "List.find (\<lambda>e. ev_ID e = g_last g) evs = Some e"
    "gate_metadata_of g e = Inr m" by auto
  from Cons obtain ms where "gate_metadata_loop evs gs = Inr ms" "metadata_ok gs ms" by auto
  with e show ?case by (auto simp: metadata_ok_def dest: gate_metadata_of_state)
qed (simp add: metadata_ok_def)

lemma find_by_id:
  assumes "sorted_wrt (<) (map ev_ID evs)" "e \<in> set evs"
  shows "List.find (\<lambda>x. ev_ID x = ev_ID e) evs = Some e"
proof -
  have "distinct (map ev_ID evs)" using assms(1) strict_sorted_iff by blast
  moreover have "List.find (\<lambda>x. ev_ID x = ev_ID e) evs \<noteq> None" using assms(2) by (auto simp: find_None_iff)
  then obtain x where x: "List.find (\<lambda>x. ev_ID x = ev_ID e) evs = Some x" by auto
  ultimately have "x = e" using assms(2) find_Some_iff_mem[OF x] by (auto intro: distinct_mapD)
  with x show ?thesis by simp
qed

definition metadata :: "tx \<Rightarrow> db \<Rightarrow> string \<Rightarrow> (string \<times> gate_metadata) list" where
  "metadata t s x = (case closedGateMetadata t s x of Inr ms \<Rightarrow> ms | Inl _ \<Rightarrow> [])"

lemma closedGateMetadata_total:
  assumes "gate_rows_ok (tx_log t) s" "sorted_wrt (<) (map ev_ID (tx_log t))"
  shows "closedGateMetadata t s x = Inr (metadata t s x)"
    and "metadata_ok (filter (\<lambda>g. g_node g = x) (gate_state s)) (metadata t s x)"
proof -
  have "\<exists>ms. closedGateMetadata t s x = Inr ms \<and> metadata_ok (filter (\<lambda>g. g_node g = x) (gate_state s)) ms"
    unfolding closedGateMetadata_def
  proof (rule gate_metadata_loop_total)
    fix g assume "g \<in> set (filter (\<lambda>g. g_node g = x) (gate_state s))"
    then obtain e m where "e \<in> set (tx_log t)" "ev_ID e = g_last g" "gate_metadata_of g e = Inr m"
      using assms(1) by (auto simp: gate_rows_ok_def)
    then show "\<exists>e m. List.find (\<lambda>e. ev_ID e = g_last g) (tx_log t) = Some e \<and> gate_metadata_of g e = Inr m"
      using find_by_id[OF assms(2)] by metis
  qed
  then show "closedGateMetadata t s x = Inr (metadata t s x)"
    and "metadata_ok (filter (\<lambda>g. g_node g = x) (gate_state s)) (metadata t s x)"
    by (auto simp: metadata_def)
qed

section \<open>The reference\<close>

inductive encloses :: "db \<Rightarrow> node_row \<Rightarrow> node_row \<Rightarrow> bool" for s where
  encloses_self: "encloses s r r"
| encloses_parent: "q \<in> set (nodes s) \<Longrightarrow> n_parent r = Some (n_id q) \<Longrightarrow> encloses s q a \<Longrightarrow> encloses s r a"

definition gates_met :: "CompletionOverlay \<Rightarrow> db \<Rightarrow> string \<Rightarrow> node_row \<Rightarrow> bool" where
  "gates_met ov s repo a \<longleftrightarrow> (\<forall>d \<in> set (gate_declarations s).
     d_repo d = repo \<and> d_scale d = n_kind a \<longrightarrow>
       GateSatisfied s repo (n_id a) (d_gate d)
     \<or> (ov_ClosingNode ov \<noteq> [] \<and> ov_ClosingGate ov \<noteq> [] \<and> n_id a = ov_ClosingNode ov \<and> d_gate d = ov_ClosingGate ov))"

definition finished :: "CompletionOverlay \<Rightarrow> node_row \<Rightarrow> bool" where
  "finished ov r \<longleftrightarrow> n_lifecycle r = Done \<or> ov_FinishingNode ov = n_id r"

definition locally_complete :: "CompletionOverlay \<Rightarrow> db \<Rightarrow> node_row \<Rightarrow> bool" where
  "locally_complete ov s r \<longleftrightarrow> finished ov r \<and> gates_met ov s (n_repo r) r"

definition sealed :: "CompletionOverlay \<Rightarrow> db \<Rightarrow> node_row \<Rightarrow> bool" where
  "sealed ov s r \<longleftrightarrow> finished ov r \<and> (\<forall>a. encloses s r a \<longrightarrow> gates_met ov s (n_repo r) a)"

lemma sealed_locally_complete: "sealed ov s r \<Longrightarrow> locally_complete ov s r"
  by (simp add: sealed_def locally_complete_def encloses_self)

lemma encloses_rank:
  assumes "encloses s r a" "keys_ok s" "tree_ok s" "r \<in> set (nodes s)"
  shows "a \<in> set (nodes s) \<and> (a = r \<or> rank (n_kind a) < rank (n_kind r))"
  using assms
proof (induction rule: encloses.induct)
  case (encloses_parent q r a)
  have "placed (nodes s) r" using encloses_parent.prems by (simp add: tree_ok_def list_all_iff)
  then obtain q' where q': "q' \<in> set (nodes s)" "under r q'"
    using encloses_parent.hyps(2) by (auto simp: placed_def list_ex_iff)
  then have "q' = q"
    using encloses_parent.hyps encloses_parent.prems(1) by (auto simp: under_def keys_ok_def intro: distinct_mapD)
  then show ?case using encloses_parent q' rank_parent[of r q] by fastforce
qed simp

section \<open>The walk\<close>

definition requirements :: "tx \<Rightarrow> db \<Rightarrow> Node \<Rightarrow> node_row \<Rightarrow> GateRequirement set" where
  "requirements t s target r = {gate_requirement s target (scanNode a) (metadata t s (n_id a)) d | a d.
     encloses s r a \<and> d \<in> set (gate_declarations s) \<and> d_repo d = N_Repo target \<and> d_scale d = n_kind a}"

lemma ball_requirements:
  "(\<forall>q \<in> requirements t s target r. P q) \<longleftrightarrow> (\<forall>a. encloses s r a \<longrightarrow> (\<forall>d \<in> set (gate_declarations s).
     d_repo d = N_Repo target \<and> d_scale d = n_kind a \<longrightarrow>
       P (gate_requirement s target (scanNode a) (metadata t s (n_id a)) d)))"
  unfolding requirements_def by blast

lemma requirements_step:
  assumes "keys_ok s" "q \<in> set (nodes s)" "n_parent r = Some (n_id q)"
  shows "requirements t s target r =
    gate_requirement s target (scanNode r) (metadata t s (n_id r))
      ` set (filter (\<lambda>d. d_scale d = n_kind r) (GateDeclarations s (N_Repo target))) \<union> requirements t s target q"
proof -
  have "encloses s r a \<longleftrightarrow> a = r \<or> encloses s q a" for a
  proof
    assume "encloses s r a"
    then show "a = r \<or> encloses s q a"
      using assms by cases (auto simp: keys_ok_def dest: distinct_mapD)
  qed (use assms encloses.intros in blast)
  then show ?thesis by (auto simp: requirements_def GateDeclarations_def)
qed

lemma requirements_root:
  assumes "n_parent r = None"
  shows "requirements t s target r = gate_requirement s target (scanNode r) (metadata t s (n_id r))
    ` set (filter (\<lambda>d. d_scale d = n_kind r) (GateDeclarations s (N_Repo target)))"
proof -
  have "encloses s r a \<longleftrightarrow> a = r" for a using assms by (auto elim: encloses.cases intro: encloses_self)
  then show ?thesis by (auto simp: requirements_def GateDeclarations_def)
qed

lemma view_Node_row:
  assumes "keys_ok s" "q \<in> set (nodes s)" "n_live q"
  shows "view_Node s (n_id q) = Inr (scanNode q)"
proof -
  have "live_row s (n_id q) \<noteq> None" using assms(2,3) by (auto simp: live_row_def find_None_iff)
  then obtain q' where "live_row s (n_id q) = Some q'" by auto
  moreover from live_row_Some[OF this] have "q' = q"
    using assms by (auto simp: keys_ok_def intro: distinct_mapD)
  ultimately show ?thesis by (simp add: view_Node_def of_option_def)
qed

lemma gate_walk_spec:
  assumes "keys_ok s" "tree_ok s" "checks_ok s"
    and meta: "\<And>x. closedGateMetadata t s x = Inr (metadata t s x)"
    and "r \<in> set (nodes s)" "rank (n_kind r) \<le> n" "\<And>a. encloses s r a \<Longrightarrow> n_live a"
  shows "\<exists>reqs. gate_walk t s target n (scanNode r) = Inr reqs \<and> set reqs = requirements t s target r"
  using assms(5-7)
proof (induction n arbitrary: r)
  case 0
  then show ?case by (simp add: rank_def split: if_splits)
next
  case (Suc n)
  show ?case
  proof (cases "n_parent r")
    case None
    then show ?thesis by (simp add: meta requirements_root)
  next
    case (Some p)
    have "placed (nodes s) r" using assms(2) Suc.prems(1) by (simp add: tree_ok_def list_all_iff)
    then obtain q where q: "q \<in> set (nodes s)" "under r q" using Some by (auto simp: placed_def list_ex_iff)
    then have p: "p = n_id q" using Some by (simp add: under_def)
    have "n_id q \<noteq> []"
      using assms(3) q(1) by (auto simp: checks_ok_def node_check_def list_all_iff sql_length_def)
    moreover have "view_Node s p = Inr (scanNode q)"
      unfolding p using assms(1) q(1) Suc.prems(3) Some p encloses.intros by (intro view_Node_row) blast+
    moreover have "\<exists>reqs. gate_walk t s target n (scanNode q) = Inr reqs \<and> set reqs = requirements t s target q"
      using Suc.IH[of q] q rank_parent[OF q(2)] Suc.prems Some p encloses_parent by fastforce
    ultimately show ?thesis
      using Some p requirements_step[OF assms(1) q(1), of r t target] by (auto simp: meta)
  qed
qed

section \<open>Completion\<close>

lemma completion_loop_spec:
  "completion_loop ov fin reqs (own, seal, pending) =
     (own \<and> (\<forall>r \<in> set reqs. gr_Relationship r = GateOwn \<longrightarrow> requirement_satisfied ov r),
      seal \<and> (\<forall>r \<in> set reqs. requirement_satisfied ov r),
      pending @ filter (\<lambda>r. \<not> requirement_satisfied ov r \<and> fin) reqs)"
  by (induction reqs arbitrary: own seal pending) (auto simp: Let_def)

lemma requirement_satisfied_iff:
  assumes "metadata_ok (filter (\<lambda>g. g_node g = n_id a) (gate_state s)) ms"
  shows "requirement_satisfied ov (gate_requirement s target (scanNode a) ms d) \<longleftrightarrow>
     GateSatisfied s (N_Repo target) (n_id a) (d_gate d)
   \<or> (ov_ClosingNode ov \<noteq> [] \<and> ov_ClosingGate ov \<noteq> [] \<and> n_id a = ov_ClosingNode ov \<and> d_gate d = ov_ClosingGate ov)"
proof (cases "map_of ms (d_gate d)")
  case None
  then have "\<not> gate_row_exists s (n_id a) (d_gate d)"
    using assms by (force simp: metadata_ok_def gate_row_exists_def list_ex_iff map_of_eq_None_iff)
  then show ?thesis using None
    by (auto simp: gate_requirement_def requirement_satisfied_def GateSatisfied_def Let_def tokens)
next
  case (Some m)
  then have mem: "(d_gate d, m) \<in> set ms" by (rule map_of_SomeD)
  then have "d_gate d \<in> fst ` set ms" by force
  then have "d_gate d \<in> g_gate ` set (filter (\<lambda>g. g_node g = n_id a) (gate_state s))"
    using assms by (simp add: metadata_ok_def)
  then have "gate_row_exists s (n_id a) (d_gate d)"
    by (auto simp: gate_row_exists_def list_ex_iff)
  moreover have "gm_state m = GateRequirementClosed \<or> gm_state m = GateRequirementDismissed"
    using assms mem by (force simp: metadata_ok_def)
  ultimately show ?thesis using Some
    by (auto simp: gate_requirement_def requirement_satisfied_def GateSatisfied_def Let_def tokens)
qed

lemma gate_requirement_simps:
  "gr_Relationship (gate_requirement s target current ms d) = (if N_ID current = N_ID target then GateOwn else GateEnclosing)"
  by (simp add: gate_requirement_def Let_def split: option.splits)

text \<open>The facts of a reachable store that reading the gates back rests on.\<close>

definition readable :: "tx \<Rightarrow> db \<Rightarrow> bool" where
  "readable t s \<longleftrightarrow> schema_ok s \<and> gate_rows_ok (tx_log t) s \<and> sorted_wrt (<) (map ev_ID (tx_log t))"

lemma readable_reachable:
  assumes "reachable st"
  shows "readable \<lparr>tx_log = st_log st, tx_defer = False\<rparr> (st_db st)"
  using reachable_ok[OF assms] schema.reachable_keep[OF assms] log_ok_ascending folds_gate_rows_ok
  by (auto simp: readable_def store_ok_def)

theorem completion_total:
  assumes "readable t s" "r \<in> set (nodes s)" "\<And>a. encloses s r a \<Longrightarrow> n_live a"
  shows "\<exists>c. NodeCompletionWithOverlay t s (scanNode r) ov = Inr c
    \<and> nc_Sealed c = sealed ov s r \<and> nc_LocallyComplete c = locally_complete ov s r"
proof -
  have ok: "keys_ok s" "tree_ok s" "checks_ok s" using assms(1) by (simp_all add: readable_def schema_ok_def)
  have meta: "closedGateMetadata t s x = Inr (metadata t s x)"
    "metadata_ok (filter (\<lambda>g. g_node g = x) (gate_state s)) (metadata t s x)" for x
    using assms(1) closedGateMetadata_total by (simp_all add: readable_def)
  have "rank (n_kind r) \<le> 3" by (simp add: rank_def)
  then obtain reqs where reqs: "EffectiveGateRequirements t s (scanNode r) = Inr reqs"
      "set reqs = requirements t s (scanNode r) r"
    unfolding EffectiveGateRequirements_def using gate_walk_spec[OF ok meta(1) assms(2) _ assms(3)] by blast
  have own: "n_id a = n_id r \<longleftrightarrow> a = r" if "encloses s r a" for a
    using encloses_rank[OF that ok(1,2) assms(2)] assms(2) ok(1) by (auto simp: keys_ok_def intro: distinct_mapD)
  have seal: "(\<forall>q \<in> set reqs. requirement_satisfied ov q) \<longleftrightarrow> (\<forall>a. encloses s r a \<longrightarrow> gates_met ov s (n_repo r) a)"
    unfolding reqs(2) ball_requirements gates_met_def by (simp add: requirement_satisfied_iff[OF meta(2)])
  have loc: "(\<forall>q \<in> set reqs. gr_Relationship q = GateOwn \<longrightarrow> requirement_satisfied ov q) \<longleftrightarrow> gates_met ov s (n_repo r) r"
    unfolding reqs(2) ball_requirements gates_met_def
    using own encloses_self[of s r]
    by (auto simp: requirement_satisfied_iff[OF meta(2)] gate_requirement_simps GateOwn_def GateEnclosing_def)
  show ?thesis
    unfolding NodeCompletionWithOverlay_def reqs(1)
    by (auto simp: completion_loop_spec seal loc sealed_def locally_complete_def finished_def Let_def intro: encloses_self)
qed

section \<open>Archived Matters and the tracker aggregate\<close>

lemma matter_alone:
  assumes "schema_ok s" "m \<in> set (nodes s)" "n_kind m = ScaleMatter"
  shows "encloses s m a \<longleftrightarrow> a = m"
proof -
  have "n_parent m = None"
    using assms by (auto simp: schema_ok_def checks_ok_def node_check_def list_all_iff)
  then show ?thesis by (auto elim: encloses.cases intro: encloses_self)
qed

lemma matter_completion:
  assumes "readable t s" "m \<in> set (nodes s)" "n_kind m = ScaleMatter" "n_live m"
  shows "\<exists>c. view_NodeCompletion t s (scanNode m) = Inr c \<and> nc_Sealed c = sealed no_overlay s m"
proof -
  have "n_live a" if "encloses s m a" for a
    using that matter_alone[OF _ assms(2,3)] assms(1,4) by (simp add: readable_def)
  then show ?thesis unfolding view_NodeCompletion_def
    using completion_total[OF assms(1,2), of no_overlay] by blast
qed

lemma archived_loop_spec:
  assumes "readable t s" "\<And>m. m \<in> set ms \<Longrightarrow> m \<in> set (nodes s) \<and> n_kind m = ScaleMatter \<and> n_live m"
  shows "archived_loop t s (map scanNode ms) = Inr (map scanNode (filter (sealed no_overlay s) ms))"
  using assms(2)
proof (induction ms)
  case (Cons m ms)
  obtain c where "view_NodeCompletion t s (scanNode m) = Inr c" "nc_Sealed c = sealed no_overlay s m"
    using matter_completion[OF assms(1)] Cons.prems by (meson list.set_intros(1))
  with Cons show ?case by simp
qed simp

definition matter_rows :: "db \<Rightarrow> string \<Rightarrow> node_row list" where
  "matter_rows s repo = sort_key n_birth (filter (\<lambda>r. n_repo r = repo \<and> n_kind r = ScaleMatter \<and> n_live r) (nodes s))"

theorem ArchivedMatters_spec:
  assumes "readable t s"
  shows "ArchivedMatters t s repo = Inr (map scanNode (filter (sealed no_overlay s) (matter_rows s repo)))"
  unfolding ArchivedMatters_def Matters_def matter_rows_def[symmetric]
  by (rule archived_loop_spec[OF assms]) (auto simp: matter_rows_def)

text \<open>The disposition of a set of Matters bound to one tracker item: active while one that
  is not canceled is not sealed, then completed if any is sealed, else canceled.\<close>

definition disposition :: "db \<Rightarrow> node_row list \<Rightarrow> string" where
  "disposition s ms =
     (if \<exists>m \<in> set ms. n_lifecycle m \<noteq> Canceled \<and> \<not> sealed no_overlay s m then TrackerActive
      else if \<exists>m \<in> set ms. n_lifecycle m \<noteq> Canceled then TrackerCompleted else TrackerCanceled)"

lemma aggregate_loop_spec:
  assumes "readable t s" "\<And>m. m \<in> set ms \<Longrightarrow> m \<in> set (nodes s) \<and> n_kind m = ScaleMatter \<and> n_live m"
  shows "aggregate_loop t s (map scanNode ms) k =
    Inr (if k > 0 \<and> disposition s ms = TrackerCanceled then TrackerCompleted else disposition s ms)"
  using assms(2)
proof (induction ms arbitrary: k)
  case (Cons m ms)
  obtain c where "view_NodeCompletion t s (scanNode m) = Inr c" "nc_Sealed c = sealed no_overlay s m"
    using matter_completion[OF assms(1)] Cons.prems by (meson list.set_intros(1))
  with Cons show ?case by (auto simp: disposition_def TrackerActive_def TrackerCompleted_def TrackerCanceled_def)
qed (simp add: disposition_def TrackerActive_def TrackerCompleted_def TrackerCanceled_def)

definition bound_rows :: "db \<Rightarrow> string \<Rightarrow> node_row list" where
  "bound_rows s ref = sort_key n_birth
     (filter (\<lambda>r. list_ex (\<lambda>q. t_matter q = n_id r \<and> t_ref q = ref \<and> t_removed q = None) (tracker_references s)
        \<and> n_kind r = ScaleMatter \<and> n_live r) (nodes s))"

theorem TrackerAggregate_spec:
  assumes "readable t s"
  shows "TrackerAggregate t s ref = Inr
    (if bound_rows s ref = [] then None
     else if \<forall>m \<in> set (bound_rows s ref). n_lifecycle m = Planned then Some []
     else Some (disposition s (bound_rows s ref)))"
proof -
  have "aggregate_loop t s (map scanNode (bound_rows s ref)) 0 = Inr (disposition s (bound_rows s ref))"
    using aggregate_loop_spec[OF assms, of "bound_rows s ref" 0] by (auto simp: bound_rows_def)
  then show ?thesis
    by (auto simp: TrackerAggregate_def bound_matters_def bound_rows_def[symmetric] list_all_iff Let_def)
qed

end
