(* ===== verification/VerbsGate.thy ===== *)
theory VerbsGate
  imports Verbs Completion
begin

text \<open>
  Gates, on the write side: the order of gates (\<open>internal/guards/gateorder.go\<close>), the gate
  and config writes of the store (\<open>internal/store/config.go\<close>) and the gate verbs
  (\<open>internal/writesurface/gate.go\<close>).
\<close>

section \<open>The order of gates\<close>

definition gateOrder :: "string \<Rightarrow> nat option" where
  "gateOrder gate =
     (if gate = ''verified'' then Some 0
      else if gate = ''reviewed-local'' then Some 1
      else if gate = ''reviewed'' then Some 2
      else if gate = ''ci-green'' then Some 3
      else None)"

text \<open>A scale that is not in the map reads as zero.\<close>

definition scaleRank :: "Scale \<Rightarrow> nat" where
  "scaleRank scale = (if scale = ScaleStage then 1 else if scale = ScaleMatter then 2 else 0)"

record Violation =
  vi_Earlier :: declaration_row
  vi_Later :: declaration_row

definition violates :: "declaration_row \<Rightarrow> declaration_row \<Rightarrow> bool" where
  "violates a b = (case (gateOrder (d_gate a), gateOrder (d_gate b)) of
     (Some ai, Some bi) \<Rightarrow> ai < bi \<and> scaleRank (d_scale a) > scaleRank (d_scale b) | _ \<Rightarrow> False)"

definition Violations :: "declaration_row list \<Rightarrow> Violation list" where
  "Violations declared = concat (map (\<lambda>(i, a). concat (map (\<lambda>(j, b).
     if i \<noteq> j \<and> violates a b then [\<lparr>vi_Earlier = a, vi_Later = b\<rparr>] else [])
     (enumerate 0 declared))) (enumerate 0 declared))"

primrec offending :: "string \<Rightarrow> Violation list \<Rightarrow> declaration_row option" where
  "offending gate [] = None"
| "offending gate (v # vs) =
     (if d_gate (vi_Earlier v) = gate then Some (vi_Later v)
      else if d_gate (vi_Later v) = gate then Some (vi_Earlier v)
      else offending gate vs)"

text \<open>The repo of the merged row is not read by \<open>Violations\<close>.\<close>

definition WouldViolate :: "declaration_row list \<Rightarrow> string \<Rightarrow> Scale \<Rightarrow> declaration_row option" where
  "WouldViolate declared gate scale = offending gate (Violations
     (filter (\<lambda>d. d_gate d \<noteq> gate) declared @ [\<lparr>d_repo = [], d_gate = gate, d_scale = scale\<rparr>]))"

section \<open>Config and declarations of the store\<close>

definition SetConfig :: "string \<Rightarrow> string \<Rightarrow> string \<Rightarrow> store \<Rightarrow> store \<times> unit result" where
  "SetConfig repo key value st = commit_plan (request ActorHuman (repo_env repo))
     (from_db (\<lambda>t s. Inr ([draft TypeConfigSet repo (marshal_ConfigSet \<lparr>cs_Key = key, cs_Value = value\<rparr>)], ())))
     (\<lambda>_ _. Inr ()) st"

definition SetTrackerPushLevel :: "string \<Rightarrow> string \<Rightarrow> store \<Rightarrow> store \<times> string result" where
  "SetTrackerPushLevel repo value st =
     (case ParseTrackerPushLevel value of
        Inl e \<Rightarrow> (st, Inl e)
      | Inr level \<Rightarrow> (case SetConfig repo TrackerPushLevelKey level st of
          (st', Inl e) \<Rightarrow> (st', Inl e) | (st', Inr _) \<Rightarrow> (st', Inr level)))"

definition SetTrackerBacklogPush :: "string \<Rightarrow> string \<Rightarrow> store \<Rightarrow> store \<times> string result" where
  "SetTrackerBacklogPush repo value st =
     (case ParseTrackerBacklogPush value of
        Inl e \<Rightarrow> (st, Inl e)
      | Inr mode \<Rightarrow> (case SetConfig repo TrackerBacklogPushKey mode st of
          (st', Inl e) \<Rightarrow> (st', Inl e) | (st', Inr _) \<Rightarrow> (st', Inr mode)))"

definition declare_plan :: "string \<Rightarrow> string \<Rightarrow> Scale \<Rightarrow> unit plan" where
  "declare_plan repo gate scale = from_db (\<lambda>t s.
     rbind (sealedNodesAtScale t s repo scale) (\<lambda>exempt.
     Inr ([draft TypeGateDeclared repo (marshal_GateDeclared \<lparr>gl_Gate = gate, gl_Scale = scale, gl_Exempt = exempt\<rparr>)], ())))"

definition store_DeclareGate :: "string \<Rightarrow> string \<Rightarrow> Scale \<Rightarrow> store \<Rightarrow> store \<times> unit result" where
  "store_DeclareGate repo gate scale st =
     (if \<not> scale_check scale then (st, Inl (ERefused ''not a scale a gate can bind to''))
      else if gate = [] then (st, Inl (ERefused ''a gate declaration needs a gate name''))
      else case List.find (\<lambda>d. d_gate d = gate) (GateDeclarations (st_db st) repo) of
        Some d \<Rightarrow> (if d_scale d = scale then (st, Inr ())
                   else (st, Inl (ERefused ''already binds to another scale'')))
      | None \<Rightarrow> commit_plan (request ActorHuman (repo_env repo)) (declare_plan repo gate scale) (\<lambda>_ _. Inr ()) st)"

definition store_RepairGateExemption :: "string \<Rightarrow> string \<Rightarrow> string \<Rightarrow> store \<Rightarrow> store \<times> unit result" where
  "store_RepairGateExemption repo gate node st = commit_plan (request ActorHuman (repo_env repo))
     (from_db (\<lambda>t s. Inr ([draft TypeGateExemptionRepaired node
        (marshal_GateExemptionRepaired \<lparr>ge_Gate = gate\<rparr>)], ())))
     (\<lambda>_ _. Inr ()) st"

section \<open>The verbs\<close>

definition DeclareGate :: "string \<Rightarrow> string \<Rightarrow> Scale \<Rightarrow> store \<Rightarrow> store \<times> unit result" where
  "DeclareGate repo gate scale st =
     (let declared = GateDeclarations (st_db st) repo in
      if \<not> scale_check scale then (st, Inl (EWip ''validation.invalid-scale''))
      else if gate = [] then (st, Inl (EWip ''validation.missing-gate-name''))
      else if list_ex (\<lambda>d. d_gate d = gate \<and> d_scale d \<noteq> scale) declared
      then (st, Inl (EWip ''refusal.gate-scale-change''))
      else if WouldViolate declared gate scale \<noteq> None then (st, Inl (EWip ''refusal.gate-order-violation''))
      else store_DeclareGate repo gate scale st)"

text \<open>The loop that looks a declaration up; \<open>bound == ""\<close> where there is none.\<close>

definition bound_scale :: "db \<Rightarrow> string \<Rightarrow> string \<Rightarrow> Scale option" where
  "bound_scale s repo gate =
     (case List.find (\<lambda>d. d_gate d = gate) (GateDeclarations s repo) of
        Some d \<Rightarrow> if d_scale d = [] then None else Some (d_scale d) | None \<Rightarrow> None)"

definition RepairGateExemption :: "string \<Rightarrow> string \<Rightarrow> string \<Rightarrow> store \<Rightarrow> store \<times> Node result" where
  "RepairGateExemption repo gate locator st =
     (let s = st_db st in
      case ResolveNode s repo locator of
        Inl e \<Rightarrow> (st, Inl e)
      | Inr n \<Rightarrow>
          if N_Repo n \<noteq> repo then (st, Inl (EWip ''validation.unknown-locator''))
          else (case bound_scale s repo gate of
            None \<Rightarrow> (st, Inl (EWip ''validation.gate-not-declared''))
          | Some bound \<Rightarrow>
              if N_Kind n \<noteq> bound then (st, Inl (EWip ''refusal.gate-repair-scale''))
              else if N_Lifecycle n \<noteq> Done then (st, Inl (EWip ''refusal.gate-repair-lifecycle''))
              else if GateExempt s repo (N_ID n) gate then (st, Inr n)
              else if GateSatisfied s repo (N_ID n) gate then (st, Inl (EWip ''refusal.gate-already-satisfied''))
              else (case EffectiveGateRequirements (tx_of st) s n of
                Inl e \<Rightarrow> (st, Inl e)
              | Inr reqs \<Rightarrow>
                  if list_ex (\<lambda>r. \<not> (N_ID (gr_Subject r) = N_ID n \<and> gr_Gate r = gate)
                       \<and> gr_State r = GateRequirementOpen) reqs
                  then (st, Inl (EWip ''refusal.gate-repair-prerequisite''))
                  else (case store_RepairGateExemption repo gate (N_ID n) st of
                          (st', Inl e) \<Rightarrow> (st', Inl e) | (st', Inr _) \<Rightarrow> (st', Inr n)))))"

text \<open>Who may close a gate: its owning role, or a human where no role owns it.\<close>

definition may_close :: "Actor \<Rightarrow> string \<Rightarrow> bool" where
  "may_close actor gate = (case GateOwner gate of Some owner \<Rightarrow> actor = RoleActor owner | None \<Rightarrow> actor = ActorHuman)"

text \<open>Who may dismiss one: a human, or its owning role.\<close>

definition may_dismiss :: "Actor \<Rightarrow> string \<Rightarrow> bool" where
  "may_dismiss actor gate =
     (actor = ActorHuman \<or> (case GateOwner gate of Some owner \<Rightarrow> actor = RoleActor owner | None \<Rightarrow> False))"

definition gate_sealing :: "tx \<Rightarrow> db \<Rightarrow> Node \<Rightarrow> string \<Rightarrow> Draft \<Rightarrow> (Draft list \<times> bool) result" where
  "gate_sealing t s fresh gate d =
     (if N_Kind fresh = ScaleMatter
      then sealing t s fresh (no_overlay\<lparr>ov_ClosingNode := N_ID fresh, ov_ClosingGate := gate\<rparr>) d
      else Inr ([d], False))"

definition close_plan :: "string \<Rightarrow> string \<Rightarrow> Node \<Rightarrow> bool plan" where
  "close_plan repo gate n = from_db (\<lambda>t s.
     rbind (EffectiveTrackerPushLevel s repo) (\<lambda>level.
     rbind (view_Node s (N_ID n)) (\<lambda>fresh.
     case bound_scale s repo gate of
       None \<Rightarrow> Inl (EWip ''validation.gate-not-declared'')
     | Some bound \<Rightarrow>
         if N_Kind fresh \<noteq> bound then Inl (EWip ''refusal.gate-scale'')
         else gate_sealing t s fresh gate (draft TypeGateClosed (N_ID fresh)
           (marshal_GateClosed \<lparr>gc_Gate = gate, gc_Scale = N_Kind fresh, gc_TrackerPushLevel = level\<rparr>)))))"

definition closeGateEnv :: "Actor \<Rightarrow> Env \<Rightarrow> string \<Rightarrow> string \<Rightarrow> store \<Rightarrow> store \<times> (Node \<times> bool) result" where
  "closeGateEnv actor env gate locator st =
     (let s = st_db st; repo = env_Repo env in
      case ResolveNode s repo locator of
        Inl e \<Rightarrow> (st, Inl e)
      | Inr n \<Rightarrow>
          (case bound_scale s repo gate of
             None \<Rightarrow> (st, Inl (EWip ''validation.gate-not-declared''))
           | Some bound \<Rightarrow>
               if N_Kind n \<noteq> bound then (st, Inl (EWip ''refusal.gate-scale''))
               else if GateSatisfied s repo (N_ID n) gate then (st, Inl (EWip ''refusal.gate-already-satisfied''))
               else if \<not> may_close actor gate then (st, Inl (EWip ''refusal.gate-owner''))
               else commit_plan (request actor env) (close_plan repo gate n) (sealed_result (N_ID n)) st))"

definition dismiss_plan :: "string \<Rightarrow> string \<Rightarrow> string \<Rightarrow> Node \<Rightarrow> bool plan" where
  "dismiss_plan repo gate reason n = from_db (\<lambda>t s.
     rbind (EffectiveTrackerPushLevel s repo) (\<lambda>level.
     rbind (view_Node s (N_ID n)) (\<lambda>fresh.
     if N_Repo fresh \<noteq> repo then Inl (EWip ''validation.unknown-locator'')
     else if N_Lifecycle fresh \<noteq> Done then Inl (EWip ''refusal.gate-dismissal-lifecycle'')
     else case bound_scale s repo gate of
       None \<Rightarrow> Inl (EWip ''validation.gate-not-declared'')
     | Some bound \<Rightarrow>
         if N_Kind fresh \<noteq> bound then Inl (EWip ''refusal.gate-scale'')
         else if GateSatisfied s repo (N_ID fresh) gate then Inl (EWip ''refusal.gate-already-satisfied'')
         else gate_sealing t s fresh gate (draft TypeGateDismissed (N_ID fresh)
           (marshal_GateDismissed \<lparr>gd_Gate = gate, gd_Scale = N_Kind fresh, gd_Reason = reason,
              gd_TrackerPushLevel = level\<rparr>)))))"

definition dismissGateEnv :: "Actor \<Rightarrow> Env \<Rightarrow> string \<Rightarrow> string \<Rightarrow> string \<Rightarrow> store \<Rightarrow> store \<times> (Node \<times> bool) result" where
  "dismissGateEnv actor env gate locator reason st =
     (let s = st_db st; repo = env_Repo env in
      if blank reason then (st, Inl (EWip ''validation.missing-reason''))
      else case ResolveNode s repo locator of
        Inl e \<Rightarrow> (st, Inl e)
      | Inr n \<Rightarrow>
          if N_Repo n \<noteq> repo then (st, Inl (EWip ''validation.unknown-locator''))
          else (case bound_scale s repo gate of
             None \<Rightarrow> (st, Inl (EWip ''validation.gate-not-declared''))
           | Some bound \<Rightarrow>
               if N_Kind n \<noteq> bound then (st, Inl (EWip ''refusal.gate-scale''))
               else if N_Lifecycle n \<noteq> Done then (st, Inl (EWip ''refusal.gate-dismissal-lifecycle''))
               else if GateSatisfied s repo (N_ID n) gate then (st, Inl (EWip ''refusal.gate-already-satisfied''))
               else if \<not> may_dismiss actor gate then (st, Inl (EWip ''refusal.gate-owner''))
               else commit_plan (request actor env) (dismiss_plan repo gate reason n) (sealed_result (N_ID n)) st))"

end
