(* ===== verification/VerbsExec.thy ===== *)
theory VerbsExec
  imports Verbs
begin

text \<open>
  The verbs of batches, roles, runs, the backlog, the outbox and hand-written tracker
  proposals (\<open>batch.go\<close>, \<open>role.go\<close>, \<open>run.go\<close>, \<open>backlog.go\<close>, \<open>outbox.go\<close>, \<open>tracker.go\<close> of
  \<open>internal/writesurface\<close>).

  \<open>StandDownRun\<close> asks the operating system for the lock of the run
  (\<open>internal/runlock\<close>); the answer is its parameter.
\<close>

section \<open>Batches\<close>

definition ResolveBatch :: "db \<Rightarrow> string \<Rightarrow> batch_row result" where
  "ResolveBatch s locator = wip_error ''validation.unknown-batch''
     (if IsIdentityShaped locator then view_Batch s locator else BatchByName s locator)"

definition create_batch_plan :: "string \<Rightarrow> string plan" where
  "create_batch_plan name t s m =
     (if BatchNameExists s name then (m, Inl (EWip ''refusal.batch-name-collision''))
      else from_id (\<lambda>t s ident. Inr ([draft TypeBatchCreated ident
        (marshal_BatchCreated \<lparr>bc_Name = name, bc_Matter = []\<rparr>)], ident)) t s m)"

definition CreateBatch :: "Actor \<Rightarrow> Env \<Rightarrow> string \<Rightarrow> store \<Rightarrow> store \<times> batch_row result" where
  "CreateBatch actor env name st =
     (if blank name then (st, Inl (EWip ''validation.empty-batch-name''))
      else commit_plan (request actor env) (create_batch_plan name) (\<lambda>ident s. view_Batch s ident) st)"

definition anonymous_batch_plan :: "string \<Rightarrow> string plan" where
  "anonymous_batch_plan matter t s m =
     (case view_Node s matter of
        Inl _ \<Rightarrow> (m, Inl (EWip ''validation.not-a-matter''))
      | Inr n \<Rightarrow>
          if N_Kind n \<noteq> ScaleMatter then (m, Inl (EWip ''validation.not-a-matter''))
          else if AnonymousBatchForMatter s matter \<noteq> None then (m, Inl (EWip ''refusal.anonymous-batch-exists''))
          else from_id (\<lambda>t s ident. Inr ([draft TypeBatchCreated ident
            (marshal_BatchCreated \<lparr>bc_Name = [], bc_Matter = matter\<rparr>)], ident)) t s m)"

definition CreateAnonymousBatch :: "Actor \<Rightarrow> Env \<Rightarrow> string \<Rightarrow> store \<Rightarrow> store \<times> batch_row result" where
  "CreateAnonymousBatch actor env matter st =
     commit_plan (request actor env) (anonymous_batch_plan matter) (\<lambda>ident s. view_Batch s ident) st"

definition membership_plan :: "string \<Rightarrow> string \<Rightarrow> (db \<Rightarrow> string \<Rightarrow> bool) \<Rightarrow> string \<Rightarrow> unit plan" where
  "membership_plan ty batch allowed matter = from_db (\<lambda>t s.
     rbind (view_Batch s batch) (\<lambda>fresh.
     if ba_state fresh \<noteq> ''live'' then Inl (EWip ''refusal.batch-closed'')
     else if ba_matter fresh \<noteq> None then Inl (EWip ''refusal.anonymous-batch-membership'')
     else if \<not> allowed s (ba_id fresh) then Inl (EWip ''refusal.batch-not-member'')
     else Inr ([draft ty (ba_id fresh) (marshal_BatchMembership \<lparr>bm_Matter = matter\<rparr>)], ())))"

definition membership_verb ::
  "string \<Rightarrow> (db \<Rightarrow> string \<Rightarrow> string \<Rightarrow> bool) \<Rightarrow> Actor \<Rightarrow> Env \<Rightarrow> string \<Rightarrow> string \<Rightarrow> store \<Rightarrow> store \<times> (batch_row \<times> string) result" where
  "membership_verb ty allowed actor env batchLocator matterLocator st =
     (case ResolveBatch (st_db st) batchLocator of
        Inl e \<Rightarrow> (st, Inl e)
      | Inr batch \<Rightarrow>
          (case ResolveMatter (st_db st) (env_Repo env) matterLocator of
             Inl e \<Rightarrow> (st, Inl e)
           | Inr matter \<Rightarrow> commit_plan (request actor env)
               (membership_plan ty (ba_id batch) (\<lambda>s b. allowed s b (N_ID matter)) (N_ID matter))
               (\<lambda>_ s. rbind (view_Batch s (ba_id batch)) (\<lambda>b. Inr (b, N_ID matter))) st))"

definition JoinBatch :: "Actor \<Rightarrow> Env \<Rightarrow> string \<Rightarrow> string \<Rightarrow> store \<Rightarrow> store \<times> (batch_row \<times> string) result" where
  "JoinBatch = membership_verb TypeBatchJoined (\<lambda>_ _ _. True)"

definition LeaveBatch :: "Actor \<Rightarrow> Env \<Rightarrow> string \<Rightarrow> string \<Rightarrow> store \<Rightarrow> store \<times> (batch_row \<times> string) result" where
  "LeaveBatch = membership_verb TypeBatchLeft BatchMember"

definition dismiss_batch_plan :: "string \<Rightarrow> unit plan" where
  "dismiss_batch_plan batch = from_db (\<lambda>t s.
     rbind (view_Batch s batch) (\<lambda>fresh.
     if ba_state fresh \<noteq> ''live'' then Inl (EWip ''refusal.batch-closed'')
     else if ba_matter fresh \<noteq> None then Inl (EWip ''refusal.anonymous-batch-dismissal'')
     else Inr ([draft TypeBatchDismissed (ba_id fresh) []], ())))"

definition DismissBatch :: "Actor \<Rightarrow> Env \<Rightarrow> string \<Rightarrow> store \<Rightarrow> store \<times> batch_row result" where
  "DismissBatch actor env locator st =
     (case ResolveBatch (st_db st) locator of
        Inl e \<Rightarrow> (st, Inl e)
      | Inr batch \<Rightarrow>
          if ba_matter batch \<noteq> None then (st, Inl (EWip ''refusal.anonymous-batch-dismissal''))
          else commit_plan (request actor env) (dismiss_batch_plan (ba_id batch)) (\<lambda>_ s. view_Batch s (ba_id batch)) st)"

section \<open>Roles\<close>

definition roleActive :: "RoleName \<Rightarrow> declaration_row list \<Rightarrow> bool" where
  "roleActive name declared = list_ex (\<lambda>d. GateOwner (d_gate d) = Some name) declared"

record RoleActivation =
  act_Role :: RoleName
  act_Owns :: "string list"
  act_Declared :: "string list"
  act_Active :: bool
  act_Inert :: bool

definition Activation :: "declaration_row list \<Rightarrow> RoleActivation list" where
  "Activation declared = map (\<lambda>name.
     let ds = map d_gate (filter (\<lambda>d. GateOwner (d_gate d) = Some name) declared)
     in \<lparr>act_Role = name, act_Owns = OwnedGates name, act_Declared = ds,
         act_Active = (ds \<noteq> [] \<and> name \<noteq> RoleWarden), act_Inert = (name = RoleWarden)\<rparr>)
     [RoleVerifier, RoleWarden]"

definition view_Role :: "db \<Rightarrow> string \<Rightarrow> role_row result" where
  "view_Role s ident = of_option (ERefused ''no role'') (List.find (\<lambda>r. role_id r = ident) (roles s))"

definition spawn_plan :: "string \<Rightarrow> RoleName \<Rightarrow> string plan" where
  "spawn_plan dispatch name t s m =
     (if OpenRole s dispatch name \<noteq> None then (m, Inl (EWip ''refusal.role-contention''))
      else from_id (\<lambda>t s ident. Inr ([draft TypeRoleSpawned ident
        (marshal_RoleSpawned \<lparr>rl_Dispatch = dispatch, rl_Name = name\<rparr>)], ident)) t s m)"

definition SpawnRole :: "Actor \<Rightarrow> Env \<Rightarrow> RoleName \<Rightarrow> store \<Rightarrow> store \<times> role_row result" where
  "SpawnRole actor env name st =
     (let s = st_db st in
      if \<not> KnownRole name then (st, Inl (EWip ''validation.unknown-role''))
      else if OuterLoop name \<and> \<not> roleActive name (GateDeclarations s (env_Repo env))
      then (st, Inl (EWip ''refusal.role-dormant''))
      else if OuterLoop name \<and> name = RoleWarden then (st, Inl (EWip ''refusal.role-inert''))
      else case view_OpenDispatch s (env_Worktree env) of
        None \<Rightarrow> (st, Inl (EWip ''validation.no-open-dispatch''))
      | Some d \<Rightarrow> commit_plan (request actor env) (spawn_plan (di_id d) name) (\<lambda>ident s'. view_Role s' ident) st)"

definition close_role_plan :: "string \<Rightarrow> RoleName \<Rightarrow> string plan" where
  "close_role_plan dispatch name = from_db (\<lambda>t s.
     case OpenRole s dispatch name of
       None \<Rightarrow> Inl (EWip ''validation.no-open-role'')
     | Some r \<Rightarrow> Inr ([draft TypeRoleClosed (role_id r) (marshal_RoleClosed \<lparr>rc_Reason = RoleCloseCompleted\<rparr>)], role_id r))"

definition CloseRole :: "Env \<Rightarrow> RoleName \<Rightarrow> store \<Rightarrow> store \<times> role_row result" where
  "CloseRole env name st =
     (let s = st_db st in
      if \<not> KnownRole name then (st, Inl (EWip ''validation.unknown-role''))
      else case view_OpenDispatch s (env_Worktree env) of
        None \<Rightarrow> (st, Inl (EWip ''validation.no-open-dispatch''))
      | Some d \<Rightarrow>
          if OpenRole s (di_id d) name = None then (st, Inl (EWip ''validation.no-open-role''))
          else commit_plan (request (RoleActor name) env) (close_role_plan (di_id d) name) (\<lambda>ident s'. view_Role s' ident) st)"

section \<open>Runs\<close>

datatype lock_answer = LockAcquired | LockHeld | LockUnknown

definition view_Clone :: "db \<Rightarrow> string \<Rightarrow> clone_row result" where
  "view_Clone s ident = of_option (ERefused ''no clone'') (List.find (\<lambda>r. c_id r = ident) (clones s))"

primrec stand_down_drafts :: "db \<Rightarrow> dispatch_row list \<Rightarrow> Draft list result" where
  "stand_down_drafts s [] = Inr []"
| "stand_down_drafts s (d # ds) =
     rbind (view_Clone s (di_clone d)) (\<lambda>c.
     rbind (stand_down_drafts s ds) (\<lambda>rest.
     Inr ((draft TypeDispatchClosed (di_id d) (marshal_DispatchClosed \<lparr>dx_Reason = CloseReaped\<rparr>))
            \<lparr>dr_Env := Some \<lparr>env_Repo = c_repo c, env_Clone = di_clone d, env_Worktree = di_worktree d\<rparr>\<rparr> # rest)))"

definition stand_down_plan :: "Env \<Rightarrow> string \<Rightarrow> unit plan" where
  "stand_down_plan env run = from_db (\<lambda>t s.
     rbind (wip_error ''validation.unknown-run'' (view_Run s run)) (\<lambda>fresh.
     if ru_state fresh \<noteq> ''open'' then Inl (EWip ''refusal.run-closed'')
     else rbind (stand_down_drafts s (OpenDispatchesForRun s run)) (\<lambda>rest.
       Inr (draft TypeRunStoodDown run
              (marshal_RunStoodDown \<lparr>rd_ActingClone = env_Clone env, rd_OwningClone = ru_clone fresh\<rparr>) # rest, ()))))"

definition StandDownRun :: "lock_answer \<Rightarrow> Actor \<Rightarrow> Env \<Rightarrow> string \<Rightarrow> store \<Rightarrow> store \<times> run_row result" where
  "StandDownRun lock actor env run st =
     (if \<not> IsIdentityShaped run then (st, Inl (EWip ''validation.invalid-run-identity''))
      else case view_Run (st_db st) run of
        Inl _ \<Rightarrow> (st, Inl (EWip ''validation.unknown-run''))
      | Inr r \<Rightarrow>
          if ru_state r \<noteq> ''open'' then (st, Inl (EWip ''refusal.run-closed''))
          else (case lock of
            LockHeld \<Rightarrow> (st, Inl (EWip ''refusal.run-live''))
          | LockUnknown \<Rightarrow> (st, Inl (EWip ''refusal.run-liveness-unknown''))
          | LockAcquired \<Rightarrow> commit_plan (request actor env) (stand_down_plan env run) (\<lambda>_ s. view_Run s run) st))"

section \<open>The backlog\<close>

definition backlogEntryByID :: "string \<Rightarrow> string \<Rightarrow> db \<Rightarrow> backlog_row result" where
  "backlogEntryByID repo ident s = of_option (ERefused ''no backlog entry'') (view_BacklogEntry s repo ident)"

definition autoDelegateOnAdd :: "db \<Rightarrow> string \<Rightarrow> bool result" where
  "autoDelegateOnAdd s repo =
     rbind (EffectiveTrackerBacklogPush s repo) (\<lambda>mode.
     Inr (mode = TrackerBacklogPushAuto \<and> coalesce (view_Config s repo TrackerBackendKey) \<noteq> []))"

definition delegation :: "string \<Rightarrow> string \<Rightarrow> Draft" where
  "delegation entry outbox = draft TypeBacklogDelegated entry
     (marshal_BacklogDelegated \<lparr>bg_Outbox = outbox, bg_IdempotencyKey = ''backlog:'' @ entry\<rparr>)"

definition backlog_add_plan :: "string \<Rightarrow> BacklogEntered \<Rightarrow> string plan" where
  "backlog_add_plan repo p t s m =
     (case store_NewID m of
        (m1, Inl e) \<Rightarrow> (m1, Inl e)
      | (m1, Inr ident) \<Rightarrow>
          let d = draft TypeBacklogEntered ident (marshal_BacklogEntered p) in
          (case autoDelegateOnAdd s repo of
             Inl e \<Rightarrow> (m1, Inl e)
           | Inr push \<Rightarrow>
               if \<not> push then (m1, Inr ([d], ident))
               else (case store_NewID m1 of
                       (m2, Inl e) \<Rightarrow> (m2, Inl e)
                     | (m2, Inr outbox) \<Rightarrow> (m2, Inr ([d, delegation ident outbox], ident)))))"

definition BacklogAdd ::
  "Actor \<Rightarrow> string \<Rightarrow> string \<Rightarrow> string \<Rightarrow> string \<Rightarrow> string \<Rightarrow> store \<Rightarrow> store \<times> backlog_row result" where
  "BacklogAdd actor repo provenance title detail originLocator st =
     (if provenance \<notin> set [ProvenanceIntake, ProvenanceFound, ProvenanceDeferred]
      then (st, Inl (EWip ''validation.invalid-provenance''))
      else if title = [] then (st, Inl (EWip ''validation.missing-title''))
      else case (if originLocator \<noteq> [] then rbind (ResolveNode (st_db st) repo originLocator) (\<lambda>n. Inr (N_ID n))
                 else if provenance = ProvenanceDeferred then Inl (EWip ''validation.missing-origin'')
                 else Inr []) of
        Inl e \<Rightarrow> (st, Inl e)
      | Inr origin \<Rightarrow> commit_plan (request actor (repo_env repo))
          (backlog_add_plan repo \<lparr>be_Provenance = provenance, be_Title = title, be_Detail = detail, be_OriginNode = origin\<rparr>)
          (backlogEntryByID repo) st)"

definition requireEnteredBacklogEntry :: "db \<Rightarrow> string \<Rightarrow> string \<Rightarrow> unit result" where
  "requireEnteredBacklogEntry s repo entry =
     (case List.find (\<lambda>e. b_id e = entry) (Backlog s repo) of
        None \<Rightarrow> Inl (EWip ''validation.unknown-backlog-entry'')
      | Some e \<Rightarrow> require (b_state e = ''entered'') (EWip ''validation.backlog-not-entered''))"

definition exit_plan :: "string \<Rightarrow> string \<Rightarrow> string \<Rightarrow> json \<Rightarrow> unit plan" where
  "exit_plan repo entry ty payload = from_db (\<lambda>t s.
     rbind (requireEnteredBacklogEntry s repo entry) (\<lambda>_. Inr ([draft ty entry payload], ())))"

definition BacklogPlan :: "Actor \<Rightarrow> string \<Rightarrow> string \<Rightarrow> string \<Rightarrow> store \<Rightarrow> store \<times> backlog_row result" where
  "BacklogPlan actor repo entry matterLocator st =
     (case ResolveMatter (st_db st) repo matterLocator of
        Inl e \<Rightarrow> (st, Inl e)
      | Inr matter \<Rightarrow> commit_plan (request actor (repo_env repo))
          (exit_plan repo entry TypeBacklogPlanned (marshal_BacklogPlanned \<lparr>bp_Matter = N_ID matter\<rparr>))
          (\<lambda>_. backlogEntryByID repo entry) st)"

definition BacklogDecline :: "Actor \<Rightarrow> string \<Rightarrow> string \<Rightarrow> string \<Rightarrow> store \<Rightarrow> store \<times> backlog_row result" where
  "BacklogDecline actor repo entry reason st =
     (if reason = [] then (st, Inl (EWip ''validation.missing-reason''))
      else commit_plan (request actor (repo_env repo))
        (exit_plan repo entry TypeBacklogDeclined (marshal_BacklogDeclined \<lparr>bd_Reason = reason\<rparr>))
        (\<lambda>_. backlogEntryByID repo entry) st)"

definition delegate_plan :: "string \<Rightarrow> string \<Rightarrow> unit plan" where
  "delegate_plan repo entry t s m =
     (case requireEnteredBacklogEntry s repo entry of
        Inl e \<Rightarrow> (m, Inl e)
      | Inr _ \<Rightarrow> from_id (\<lambda>t s outbox. Inr ([delegation entry outbox], ())) t s m)"

definition BacklogDelegate :: "Actor \<Rightarrow> string \<Rightarrow> string \<Rightarrow> store \<Rightarrow> store \<times> backlog_row result" where
  "BacklogDelegate actor repo entry st =
     commit_plan (request actor (repo_env repo)) (delegate_plan repo entry) (\<lambda>_. backlogEntryByID repo entry) st"

section \<open>The outbox\<close>

definition one_draft :: "Draft \<Rightarrow> unit plan" where
  "one_draft d = from_db (\<lambda>t s. Inr ([d], ()))"

definition ConfirmBacklogDelegation :: "Actor \<Rightarrow> string \<Rightarrow> string \<Rightarrow> string \<Rightarrow> store \<Rightarrow> store \<times> unit result" where
  "ConfirmBacklogDelegation actor repo outbox ref st =
     (if ref = [] then (st, Inl (EWip ''validation.missing-reference''))
      else case view_OutboxEntry (st_db st) repo outbox of
        Inl e \<Rightarrow> (st, Inl e)
      | Inr e \<Rightarrow>
          if o_kind e \<noteq> ''create'' \<or> o_state e \<noteq> ''approved'' then (st, Inl (EWip ''refusal.outbox-not-approved''))
          else commit_plan (request actor (repo_env repo))
            (one_draft (draft TypeTrackerItemCreated outbox (marshal_TrackerItemCreated \<lparr>ti_Ref = ref\<rparr>))) (\<lambda>_ _. Inr ()) st)"

definition mutateOutbox :: "Actor \<Rightarrow> string \<Rightarrow> string \<Rightarrow> string \<Rightarrow> json \<Rightarrow> store \<Rightarrow> store \<times> outbox_row result" where
  "mutateOutbox actor repo ident ty payload st =
     (if \<not> IsIdentityShaped ident then (st, Inl (EWip ''validation.invalid-outbox-identity''))
      else commit_plan (request actor (repo_env repo)) (one_draft (draft ty ident payload))
        (\<lambda>_ s. view_OutboxEntry s repo ident) st)"

definition only_error :: "store \<times> 'a result \<Rightarrow> store \<times> unit result" where
  "only_error r = (fst r, rbind (snd r) (\<lambda>_. Inr ()))"

definition OutboxApprove :: "Actor \<Rightarrow> string \<Rightarrow> string \<Rightarrow> store \<Rightarrow> store \<times> outbox_row result" where
  "OutboxApprove actor repo ident = mutateOutbox actor repo ident TypeOutboxApproved []"

definition OutboxDecline :: "Actor \<Rightarrow> string \<Rightarrow> string \<Rightarrow> string \<Rightarrow> store \<Rightarrow> store \<times> outbox_row result" where
  "OutboxDecline actor repo ident reason st =
     (if blank reason then (st, Inl (EWip ''validation.missing-reason''))
      else mutateOutbox actor repo ident TypeOutboxDeclined (marshal_OutboxDeclined \<lparr>od_Reason = reason\<rparr>) st)"

definition OutboxRetry :: "Actor \<Rightarrow> string \<Rightarrow> string \<Rightarrow> store \<Rightarrow> store \<times> outbox_row result" where
  "OutboxRetry actor repo ident = mutateOutbox actor repo ident TypeOutboxRetried []"

definition WithholdOutbox ::
  "Actor \<Rightarrow> string \<Rightarrow> string \<Rightarrow> string \<Rightarrow> bool \<Rightarrow> string \<Rightarrow> store \<Rightarrow> store \<times> unit result" where
  "WithholdOutbox actor repo ident reason attempted cause st =
     (if blank reason then (st, Inl (EWip ''validation.missing-reason''))
      else if cause = [] then (st, Inl (EWip ''validation.missing-withhold-cause''))
      else only_error (mutateOutbox actor repo ident TypeOutboxWithheld
        (marshal_OutboxWithheld \<lparr>ow_Reason = reason, ow_Attempted = attempted, ow_Cause = cause\<rparr>) st))"

definition FailOutbox :: "Actor \<Rightarrow> string \<Rightarrow> string \<Rightarrow> string \<Rightarrow> store \<Rightarrow> store \<times> unit result" where
  "FailOutbox actor repo ident reason st =
     (if blank reason then (st, Inl (EWip ''validation.missing-reason''))
      else only_error (mutateOutbox actor repo ident TypeOutboxDeliveryFailed (marshal_OutboxDeliveryFailed \<lparr>of_Reason = reason\<rparr>) st))"

definition FlushOutboxComment :: "Actor \<Rightarrow> string \<Rightarrow> string \<Rightarrow> store \<Rightarrow> store \<times> unit result" where
  "FlushOutboxComment actor repo ident st = only_error (mutateOutbox actor repo ident TypeOutboxFlushed [] st)"

definition PushTrackerState ::
  "Actor \<Rightarrow> string \<Rightarrow> string \<Rightarrow> string \<Rightarrow> string \<Rightarrow> string \<Rightarrow> store \<Rightarrow> store \<times> unit result" where
  "PushTrackerState actor repo ident ref disp lease st =
     (if ref = [] \<or> lease = [] then (st, Inl (EWip ''validation.invalid-tracker-result''))
      else commit_plan (request actor (repo_env repo)) (one_draft (draft TypeTrackerStatePushed ident
        (marshal_TrackerStatePushed \<lparr>tp_Ref = ref, tp_Disposition = disp, tp_Lease = lease\<rparr>))) (\<lambda>_ _. Inr ()) st)"

definition ObserveTrackerState ::
  "Actor \<Rightarrow> string \<Rightarrow> string \<Rightarrow> string \<Rightarrow> string \<Rightarrow> string \<Rightarrow> store \<Rightarrow> store \<times> unit result" where
  "ObserveTrackerState actor repo ident ref disp lease st =
     (if ref = [] \<or> lease = [] then (st, Inl (EWip ''validation.invalid-tracker-result''))
      else commit_plan (request actor (repo_env repo)) (one_draft (draft TypeTrackerStateObserved ident
        (marshal_TrackerStateObserved \<lparr>to_Ref = ref, to_Disposition = disp, to_Lease = lease\<rparr>))) (\<lambda>_ _. Inr ()) st)"

section \<open>Hand-written proposals\<close>

text \<open>\<open>View.OutboxEntryByBirth\<close>.\<close>

definition OutboxEntryByBirth :: "db \<Rightarrow> string \<Rightarrow> string \<Rightarrow> outbox_row result" where
  "OutboxEntryByBirth s repo event =
     (case filter (\<lambda>r. o_repo r = repo \<and> o_birth r = event) (outbox_entries s) of
        [r] \<Rightarrow> Inr r
      | _ \<Rightarrow> Inl (ERefused ''bore not exactly one outbox entry''))"

definition proposeTracker :: "Actor \<Rightarrow> string \<Rightarrow> TrackerAdhocProposed \<Rightarrow> store \<Rightarrow> store \<times> outbox_row result" where
  "proposeTracker actor repo p st =
     (case Commit (request actor (repo_env repo))
         (decides (one_draft (draft TypeTrackerAdhocProposed repo (marshal_TrackerAdhocProposed p)))) st of
        (st', Inl e) \<Rightarrow> (st', Inl e)
      | (st', Inr events) \<Rightarrow> (st', OutboxEntryByBirth (st_db st') repo (ev_ID (hd events))))"

definition ProposeTrackerCreate :: "Actor \<Rightarrow> string \<Rightarrow> string \<Rightarrow> string \<Rightarrow> store \<Rightarrow> store \<times> outbox_row result" where
  "ProposeTrackerCreate actor repo title detail st =
     (if trim_space title = [] then (st, Inl (EWip ''validation.missing-title''))
      else proposeTracker actor repo \<lparr>ta_Kind = AdhocCreate, ta_Title = trim_space title, ta_Detail = detail,
        ta_Ref = [], ta_Body = [], ta_Disposition = []\<rparr> st)"

definition ProposeTrackerComment :: "Actor \<Rightarrow> string \<Rightarrow> string \<Rightarrow> string \<Rightarrow> store \<Rightarrow> store \<times> outbox_row result" where
  "ProposeTrackerComment actor repo ref body st =
     (if ref = [] then (st, Inl (EWip ''validation.missing-reference''))
      else if trim_space body = [] then (st, Inl (EWip ''validation.missing-body''))
      else proposeTracker actor repo \<lparr>ta_Kind = AdhocComment, ta_Title = [], ta_Detail = [],
        ta_Ref = ref, ta_Body = trim_space body, ta_Disposition = []\<rparr> st)"

definition ProposeTrackerState :: "Actor \<Rightarrow> string \<Rightarrow> string \<Rightarrow> string \<Rightarrow> store \<Rightarrow> store \<times> outbox_row result" where
  "ProposeTrackerState actor repo ref disp st =
     (if ref = [] then (st, Inl (EWip ''validation.missing-reference''))
      else if disp \<notin> set [TrackerActive, TrackerCompleted, TrackerCanceled]
      then (st, Inl (EWip ''validation.invalid-disposition''))
      else proposeTracker actor repo \<lparr>ta_Kind = AdhocState, ta_Title = [], ta_Detail = [],
        ta_Ref = ref, ta_Body = [], ta_Disposition = disp\<rparr> st)"

end
