(* ===== verification/VerbLaws.thy ===== *)
theory VerbLaws
  imports VerbsGate VerbsExec
begin

text \<open>
  What the verbs of the write surface share.

  \<^item> \<open>verb\<close> is the contract of a verb: it is an operation on the store (so every law of
    the store holds across it), and one that is refused with a token writes nothing.
    Every verb of \<open>Verbs\<close>, \<open>VerbsGate\<close> and \<open>VerbsExec\<close> is an interpretation.
  \<^item> \<open>guarded\<close> is a step of a store whose dependencies are only added by \<open>DependAdd\<close>;
    the graph of the edges in force stays acyclic along such steps.
\<close>

section \<open>Plans\<close>

named_theorems plan_laws \<open>what a plan may do\<close>

text \<open>A plan mints and does nothing else; \<open>no_dependency\<close>: it drafts neither a dependency nor a
  removal, which have verbs of their own below.\<close>

definition sound_plan :: "'c plan \<Rightarrow> bool" where
  "sound_plan p \<longleftrightarrow> (\<forall>t s m. mints m (fst (p t s m)))"

definition plain :: "string \<Rightarrow> bool" where
  "plain ty \<longleftrightarrow> ty \<noteq> TypeDependencyAdded \<and> ty \<noteq> TypeStepRemoved"

definition quiet :: "Draft list \<Rightarrow> bool" where
  "quiet ds \<longleftrightarrow> list_all (\<lambda>d. plain (dr_Type d)) ds"

definition no_dependency :: "decision \<Rightarrow> bool" where
  "no_dependency decide \<longleftrightarrow> (\<forall>t s m m' ds. decide t s m = (m', Inr ds) \<longrightarrow> quiet ds)"

definition quiet_plan :: "'c plan \<Rightarrow> bool" where
  "quiet_plan p \<longleftrightarrow> (\<forall>t s m m' ds c. p t s m = (m', Inr (ds, c)) \<longrightarrow> quiet ds)"

lemma quiet_simps [simp]:
  "quiet []" "quiet (d # ds) \<longleftrightarrow> plain (dr_Type d) \<and> quiet ds" "quiet (ds @ es) \<longleftrightarrow> quiet ds \<and> quiet es"
  by (simp_all add: quiet_def)

lemma minting_decides: "sound_plan p \<Longrightarrow> minting (decides p)"
proof -
  have "fst (decides p t s m) = fst (p t s m)" for t s m
    by (auto simp: decides_def split: prod.splits sum.splits)
  then show "sound_plan p \<Longrightarrow> minting (decides p)" by (simp add: sound_plan_def minting_def)
qed

lemma no_dependency_decides: "quiet_plan p \<Longrightarrow> no_dependency (decides p)"
  by (auto simp: quiet_plan_def no_dependency_def decides_def split: prod.splits sum.splits)

lemma sound_from_db [plan_laws]: "sound_plan (from_db f)"
  by (simp add: sound_plan_def from_db_def mints_refl)

lemma sound_from_id [plan_laws]: "sound_plan (from_id f)"
  using mints_new[OF mints_refl] unfolding sound_plan_def from_id_def
  by (auto split: prod.splits sum.splits) (metis fst_conv)+

lemma quiet_from_db:
  "(\<And>t s ds c. f t s = Inr (ds, c) \<Longrightarrow> quiet ds) \<Longrightarrow> quiet_plan (from_db f)"
  by (auto simp: quiet_plan_def from_db_def)

lemma quiet_from_id:
  "(\<And>t s i ds c. f t s i = Inr (ds, c) \<Longrightarrow> quiet ds) \<Longrightarrow> quiet_plan (from_id f)"
  by (auto simp: quiet_plan_def from_id_def split: prod.splits sum.splits)

lemma draft_type [simp]: "dr_Type (draft ty x p) = ty"
  by (simp add: draft_def)

section \<open>Tokens\<close>

text \<open>A result that is not a refusal with a token.\<close>

definition tokenless :: "'a result \<Rightarrow> bool" where
  "tokenless r \<longleftrightarrow> (\<forall>code. r \<noteq> Inl (EWip code))"

lemma Commit_error_db: "Commit req decide st = (st', Inl e) \<Longrightarrow> st_log st' = st_log st \<and> st_db st' = st_db st"
  by (auto simp: Commit_def split: if_splits sum.splits prod.splits)

lemma tokenless_Inr [simp]: "tokenless (Inr x)"
  by (simp add: tokenless_def)

section \<open>The dependency graph\<close>

lemma set_liveEdgeGraph: "set (liveEdgeGraph s) = (\<lambda>e. (e_blocked e, e_blocker e)) ` set (edges_in_force s)"
  by (simp add: liveEdgeGraph_def)

text \<open>No statement brings an edge into force but the insertion of one.\<close>

lemma is_live_insert:
  assumes "insert_nodes t r s = Inr s'" "has_id n_id (nodes s) x"
  shows "is_live s' x \<longleftrightarrow> is_live s x"
proof -
  have n: "nodes s' = nodes s @ [r]" "\<forall>q \<in> set (nodes s). n_id q \<noteq> n_id r"
    using assms(1) by (auto simp: insert_nodes_def res no_row_def list_ex_iff)
  moreover from assms(2) obtain q where "q \<in> set (nodes s)" "n_id q = x" by (auto simp: has_id_def list_ex_iff)
  ultimately have "n_id r \<noteq> x" by metis
  then show ?thesis by (simp add: is_live_def n(1))
qed

lemma is_live_update:
  assumes "update_nodes p f s = Inr (n, s')" "\<And>r. p r \<Longrightarrow> node_move ev r (f r)" "is_live s' x"
  shows "is_live s x"
proof -
  have "nodes s' = upd_rows p f (nodes s)" using assms(1) by (auto simp: update_nodes_def res)
  then obtain r' where "r' \<in> set (upd_rows p f (nodes s))" "n_id r' = x" "n_live r'"
    using assms(3) by (auto simp: is_live_def list_ex_iff)
  then show ?thesis
    using assms(2) by (auto simp: is_live_def list_ex_iff node_move_def elim!: in_upd_rowsE)
qed

lemma graph_same:
  assumes "edges s' = edges s" "\<And>e. e \<in> set (edges s) \<Longrightarrow> is_live s' (e_blocked e) \<Longrightarrow> is_live s (e_blocked e)"
    "\<And>e. e \<in> set (edges s) \<Longrightarrow> is_live s' (e_blocker e) \<Longrightarrow> is_live s (e_blocker e)"
  shows "set (liveEdgeGraph s') \<subseteq> set (liveEdgeGraph s)"
  using assms by (auto simp: set_liveEdgeGraph edges_in_force_def)

lemma graph_step:
  assumes "stmt t ev s s'" "ev_Type ev \<noteq> TypeDependencyAdded" "refs_ok s"
  shows "set (liveEdgeGraph s') \<subseteq> set (liveEdgeGraph s)"
  using assms(1)
proof cases
  case (ins_nodes r)
  have ends: "has_id n_id (nodes s) (e_blocked e)" "has_id n_id (nodes s) (e_blocker e)" if "e \<in> set (edges s)" for e
    using assms(3) that by (simp_all add: refs_ok_def refs_in_def list_all_iff)
  have "edges s' = edges s" using ins_nodes(1) by (auto simp: insert_nodes_def res)
  then show ?thesis by (rule graph_same) (simp_all add: is_live_insert[OF ins_nodes(1)] ends)
next
  case (upd_nodes p f n)
  have "edges s' = edges s" using upd_nodes(1) by (auto simp: update_nodes_def res)
  then show ?thesis by (rule graph_same) (auto intro: is_live_update[OF upd_nodes(1,2)])
next
  case (upd_edges p f n)
  then show ?thesis
    by (auto simp: set_liveEdgeGraph edges_in_force_def is_live_def update_edges_def res edge_move_def elim!: in_upd_rowsE)
next
  case (ins_edges r)
  then show ?thesis using assms(2) by simp
qed ((erule upsert_config_cases upsert_cursor_cases)?; simp add: statements res; clarify?;
  simp add: liveEdgeGraph_def edges_in_force_def is_live_def)+


lemma graph_steps:
  assumes "steps t ev s s'" "ev_Type ev \<noteq> TypeDependencyAdded" "\<not> tx_defer t" "refs_ok s"
  shows "set (liveEdgeGraph s') \<subseteq> set (liveEdgeGraph s)"
  using assms(1)
proof (induction rule: rtranclp_induct)
  case (step y z)
  then show ?case
    using graph_step[OF step(2) assms(2)] references.steps_keep[OF step(1) assms(3,4)] by blast
qed simp

lemma graph_folds:
  assumes "folds (evs @ new) s'" "folds evs s" "\<forall>e \<in> set new. ev_Type e \<noteq> TypeDependencyAdded"
  shows "set (liveEdgeGraph s') \<subseteq> set (liveEdgeGraph s)"
  using assms
proof (induction new arbitrary: s' rule: rev_induct)
  case Nil
  then show ?case using folds_unique by auto
next
  case (snoc ev new)
  obtain s1 where s1: "folds (evs @ new) s1" using folds_prefix[of "evs @ new" "[ev]" s'] snoc.prems(1) by auto
  have "applyEvent \<lparr>tx_log = (evs @ new) @ [ev], tx_defer = False\<rparr> ev s1 = Inr s'"
    using folds_snocE[OF _ s1] snoc.prems(1) by simp
  then have "set (liveEdgeGraph s') \<subseteq> set (liveEdgeGraph s1)"
    using graph_steps[OF applyEvent_steps] snoc.prems(3) references.folds_keep[OF s1] by fastforce
  then show ?case using snoc.IH[OF s1 snoc.prems(2)] snoc.prems(3) by auto
qed

lemma graph_Commit:
  assumes "store_ok st" "minting decide"
    and "\<And>t s m m' ds. decide t s m = (m', Inr ds) \<Longrightarrow> TypeDependencyAdded \<notin> dr_Type ` set ds"
  shows "set (liveEdgeGraph (st_db (fst (Commit req decide st)))) \<subseteq> set (liveEdgeGraph (st_db st))"
  using assms(1,2)
proof (cases rule: Commit_cases[where req = req])
  case (written m drafts m' events s)
  have "TypeDependencyAdded \<notin> set (map ev_Type events)"
    using assms(3)[OF written(2)] unfolding written(12) by auto
  then show ?thesis
    using graph_folds[OF written(7)] assms(1) written(1) by (force simp: store_ok_def)
qed simp

text \<open>What a successful command of one draft does to the projection.\<close>

lemma Commit_single:
  assumes "store_ok st" "minting decide" "Commit req decide st = (st', Inr events)"
    and "\<And>m ds. decide (tx_of st) (st_db st) (st_mint st) = (m, Inr ds) \<Longrightarrow> ds = [d]"
  shows "\<exists>e. events = [e] \<and> st_log st' = st_log st @ [e] \<and> ev_Type e = dr_Type d \<and> ev_Subject e = dr_Subject d
    \<and> ev_Payload e = dr_Payload d \<and> ev_Actor e = rq_Actor req
    \<and> applyEvent \<lparr>tx_log = st_log st @ [e], tx_defer = False\<rparr> e (st_db st) = Inr (st_db st')"
  using assms(1,2)
proof (cases rule: Commit_cases[where req = req])
  case (written m drafts m' events' s)
  have "drafts = [d]" using assms(4) written(2) by (simp add: tx_of_def)
  then obtain e where e: "events' = [e]" "ev_Type e = dr_Type d" "ev_Subject e = dr_Subject d" "ev_Payload e = dr_Payload d"
    using written(12-14) by auto
  then show ?thesis
    using written assms(1,3) folds_snocE[of "st_log st" e s "st_db st"] by (auto simp: store_ok_def)
qed (use assms(3) in auto)

section \<open>Guarded stores\<close>

inductive guarded :: "store \<Rightarrow> store \<Rightarrow> bool" where
  guarded_depend: "guarded st (fst (DependAdd actor repo blocked blocker st))"
| guarded_remove: "guarded st (fst (RemoveStep actor repo locator reason st))"
| guarded_commit: "minting decide \<Longrightarrow> no_dependency decide \<Longrightarrow> guarded st (fst (Commit req decide st))"
| guarded_rebuild: "guarded st (fst (Rebuild st))"
| guarded_reopen: "(\<And>rd. rd \<in> set rds \<Longrightarrow> wf_reading rd) \<Longrightarrow> guarded st (fst (Reopen rds st))"
| guarded_tick: "(\<And>rd. rd \<in> set rds \<Longrightarrow> wf_reading rd) \<Longrightarrow>
    guarded st (st\<lparr>st_mint := (st_mint st)\<lparr>mi_readings := rds\<rparr>\<rparr>)"

definition depend_plan :: "Node \<Rightarrow> Node \<Rightarrow> string plan" where
  "depend_plan blocked blocker = from_id (\<lambda>t s ident. Inr ([draft TypeDependencyAdded (N_ID blocked)
     (marshal_DependencyChange \<lparr>dc_Edge = ident, dc_Blocker = N_ID blocker\<rparr>)], ident))"

lemma DependAdd_cases:
  obtains (refused) e where "DependAdd actor repo a b st = (st, Inl e)"
  | (added) blocked blocker k where "\<not> WouldCycle (st_db st) (N_ID blocked) (N_ID blocker)"
      "DependAdd actor repo a b st = commit_plan (request actor (repo_env repo)) (depend_plan blocked blocker) k st"
      "\<And>c s. tokenless (k c s)"
  by (cases "ResolveNode (st_db st) repo a"; cases "ResolveNode (st_db st) repo b")
    (fastforce simp: DependAdd_def Let_def depend_plan_def split: if_splits)+

definition remove_plan :: "Node \<Rightarrow> string \<Rightarrow> unit plan" where
  "remove_plan n reason = from_db (\<lambda>t s. Inr ([draft TypeStepRemoved (N_ID n) (marshal_Removed \<lparr>rm_Reason = reason\<rparr>)], ()))"

lemma RemoveStep_cases:
  obtains (refused) e where "RemoveStep actor repo locator reason st = (st, Inl e)"
  | (removed) n where "ResolveNode (st_db st) repo locator = Inr n" "N_Kind n = ScaleStep"
      "RemoveStep actor repo locator reason st
        = commit_plan (request actor (repo_env repo)) (remove_plan n reason) (\<lambda>_ _. Inr ()) st"
proof (cases "ResolveNode (st_db st) repo locator")
  case (Inr n)
  then show ?thesis using that by (cases "N_Kind n = ScaleStep") (auto simp: RemoveStep_def remove_plan_def)
qed (use that in \<open>auto simp: RemoveStep_def\<close>)

lemma sound_remove_plan: "sound_plan (remove_plan n reason)"
  by (simp add: remove_plan_def sound_from_db)

lemma no_dependency_edge: "no_dependency decide \<Longrightarrow> decide t s m = (m', Inr ds) \<Longrightarrow> TypeDependencyAdded \<notin> dr_Type ` set ds"
  by (force simp: no_dependency_def quiet_def plain_def list_all_iff)

lemma remove_plan_edge: "decides (remove_plan n reason) t s m = (m', Inr ds) \<Longrightarrow> TypeDependencyAdded \<notin> dr_Type ` set ds"
  by (auto simp: decides_def remove_plan_def from_db_def draft_def tokens)

lemma fst_commit_plan: "fst (commit_plan req p k st) = fst (Commit req (decides p) st)"
  by (auto simp: commit_plan_def split: prod.splits sum.splits)

lemma guarded_op: "guarded st st' \<Longrightarrow> op\<^sup>*\<^sup>* st st'"
proof (induction rule: guarded.induct)
  case (guarded_depend st actor repo blocked blocker)
  show ?case
    by (rule DependAdd_cases[of actor repo blocked blocker st])
      (auto simp: fst_commit_plan depend_plan_def intro!: r_into_rtranclp op_commit minting_decides sound_from_id)
next
  case (guarded_remove st actor repo locator reason)
  show ?case
    by (rule RemoveStep_cases[of actor repo locator reason st])
      (auto simp: fst_commit_plan intro!: r_into_rtranclp op_commit minting_decides sound_remove_plan)
next
  case (guarded_reopen rds st)
  then have "op st (fst (Reopen rds st))" by (rule op_reopen)
  then show ?case by (rule r_into_rtranclp)
next
  case (guarded_tick rds st)
  then have "op st (st\<lparr>st_mint := (st_mint st)\<lparr>mi_readings := rds\<rparr>\<rparr>)" by (rule op_tick)
  then show ?case by (rule r_into_rtranclp)
qed (rule r_into_rtranclp, rule op.intros, assumption?)+

lemma guarded_ops: "guarded\<^sup>*\<^sup>* st st' \<Longrightarrow> op\<^sup>*\<^sup>* st st'"
  by (induction rule: rtranclp_induct) (auto dest: guarded_op)

lemma depend_graph:
  assumes "store_ok st" "Commit req (decides (depend_plan blocked blocker)) st = (st', r)"
  shows "set (liveEdgeGraph (st_db st')) \<subseteq> insert (N_ID blocked, N_ID blocker) (set (liveEdgeGraph (st_db st)))"
proof (cases r)
  case (Inl e)
  then show ?thesis using Commit_error_db assms(2) by auto
next
  case (Inr events)
  let ?d = "draft TypeDependencyAdded (N_ID blocked) (marshal_DependencyChange
      \<lparr>dc_Edge = projr (snd (store_NewID (st_mint st))), dc_Blocker = N_ID blocker\<rparr>)"
  have one: "ds = [?d]"
    if "decides (depend_plan blocked blocker) (tx_of st) (st_db st) (st_mint st) = (m, Inr ds)" for m ds
    using that by (auto simp: decides_def depend_plan_def from_id_def split: prod.splits sum.splits)
  have sound: "sound_plan (depend_plan blocked blocker)" by (simp add: depend_plan_def sound_from_id)
  obtain e where e: "ev_Type e = dr_Type ?d" "ev_Subject e = dr_Subject ?d" "ev_Payload e = dr_Payload ?d"
      "applyEvent \<lparr>tx_log = st_log st @ [e], tx_defer = False\<rparr> e (st_db st) = Inr (st_db st')"
    using Commit_single[where d = ?d, OF assms(1) minting_decides[OF sound] assms(2)[unfolded Inr]] one by blast
  then have "insertEdge \<lparr>tx_log = st_log st @ [e], tx_defer = False\<rparr> e (st_db st) = Inr (st_db st')"
    by (simp add: applyEvent_def transition_types_def tokens)
  then obtain r where "st_db st' = (st_db st)\<lparr>edges := edges (st_db st) @ [r]\<rparr>"
      "e_blocked r = N_ID blocked" "e_blocker r = N_ID blocker"
    by (auto simp: insertEdge_def insert_edges_def e(1-3) draft_def payload_rt res dest: sym)
  then show ?thesis by (auto simp: set_liveEdgeGraph edges_in_force_def is_live_def)
qed

lemma guarded_acyclic:
  assumes "guarded st st'" "store_ok st" "acyclic (set (liveEdgeGraph (st_db st)))"
  shows "acyclic (set (liveEdgeGraph (st_db st')))"
  using assms(1)
proof cases
  case (guarded_depend actor repo a b)
  show ?thesis
  proof (rule DependAdd_cases[of actor repo a b st])
    fix blocked blocker k
    assume "\<not> WouldCycle (st_db st) (N_ID blocked) (N_ID blocker)"
      and eq: "DependAdd actor repo a b st = commit_plan (request actor (repo_env repo)) (depend_plan blocked blocker) k st"
    then have "acyclic (insert (N_ID blocked, N_ID blocker) (set (liveEdgeGraph (st_db st))))"
      using WouldCycle_iff[OF assms(3)] by blast
    moreover have "st' = fst (Commit (request actor (repo_env repo)) (decides (depend_plan blocked blocker)) st)"
      using guarded_depend eq by (simp add: fst_commit_plan)
    then have "set (liveEdgeGraph (st_db st')) \<subseteq> insert (N_ID blocked, N_ID blocker) (set (liveEdgeGraph (st_db st)))"
      using depend_graph[OF assms(2)] by (metis prod.collapse)
    ultimately show ?thesis by (rule acyclic_subset)
  qed (use guarded_depend assms(3) in simp)
next
  case (guarded_remove actor repo locator reason)
  show ?thesis
  proof (rule RemoveStep_cases[of actor repo locator reason st])
    fix n assume "RemoveStep actor repo locator reason st
        = commit_plan (request actor (repo_env repo)) (remove_plan n reason) (\<lambda>_ _. Inr ()) st"
    then show ?thesis
      using graph_Commit[OF assms(2) minting_decides[OF sound_remove_plan] remove_plan_edge] acyclic_subset[OF assms(3)]
        guarded_remove by (simp add: fst_commit_plan)
  qed (use guarded_remove assms(3) in simp)
next
  case (guarded_commit decide req)
  have "set (liveEdgeGraph (st_db st')) \<subseteq> set (liveEdgeGraph (st_db st))"
    unfolding guarded_commit(1)
    by (rule graph_Commit[OF assms(2) guarded_commit(2)]) (rule no_dependency_edge[OF guarded_commit(3)])
  then show ?thesis using assms(3) acyclic_subset by blast
next
  case guarded_rebuild
  then show ?thesis using Rebuild_ok[OF assms(2)] assms(3) by simp
next
  case (guarded_reopen rds)
  then show ?thesis using Reopen_ok[OF assms(2), of rds] assms(3) by (metis prod.collapse)
next
  case (guarded_tick rds)
  then show ?thesis using assms(3) by simp
qed

section \<open>The contract of a verb\<close>

locale verb =
  fixes run :: "store \<Rightarrow> store \<times> 'a result"
  assumes guards: "guarded\<^sup>*\<^sup>* st (fst (run st))"
    and refusal: "run st = (st', Inl (EWip code)) \<Longrightarrow> st_log st' = st_log st \<and> st_db st' = st_db st"
begin

lemma operates: "op\<^sup>*\<^sup>* st (fst (run st))"
  using guards by (rule guarded_ops)

lemma keeps_reachable: "reachable st \<Longrightarrow> reachable (fst (run st))"
  using operates by (rule reachable_ops)

lemma appends: "reachable st \<Longrightarrow> \<exists>new. st_log (fst (run st)) = st_log st @ new"
  using ops_ok[OF operates] reachable_ok by blast

lemma keeps_schema: "reachable st \<Longrightarrow> schema_ok (st_db (fst (run st)))"
  by (intro schema.reachable_keep keeps_reachable)

end

definition lawful :: "store \<Rightarrow> store \<times> 'a result \<Rightarrow> bool" where
  "lawful st x \<longleftrightarrow> guarded\<^sup>*\<^sup>* st (fst x)
     \<and> (\<forall>code. snd x = Inl (EWip code) \<longrightarrow> st_log (fst x) = st_log st \<and> st_db (fst x) = st_db st)"

lemma lawful_return [simp]: "lawful st (st, r)"
  by (simp add: lawful_def)

lemma captured_tokenless:
  assumes "Commit req (decides p) st = (st', Inr events)"
  shows "tokenless (captured p st)"
proof -
  obtain m ds where "decides p \<lparr>tx_log = st_log st, tx_defer = False\<rparr> (st_db st) (st_mint st) = (m, Inr ds)"
    using assms by (auto simp: Commit_def split: if_splits sum.splits prod.splits)
  then show ?thesis
    by (auto simp: tokenless_def captured_def decides_def tx_of_def split: prod.splits sum.splits)
qed

lemma commit_plan_refusal:
  assumes "\<And>c s. tokenless (k c s)" "snd (commit_plan req p k st) = Inl (EWip code)"
  shows "st_log (fst (commit_plan req p k st)) = st_log st \<and> st_db (fst (commit_plan req p k st)) = st_db st"
proof -
  obtain st1 r where c: "Commit req (decides p) st = (st1, r)" by fastforce
  show ?thesis
  proof (cases r)
    case (Inl e)
    then show ?thesis using c Commit_error_db[of req "decides p" st st1 e] by (simp add: commit_plan_def)
  next
    case (Inr events)
    then have "tokenless (rbind (captured p st) (\<lambda>c. k c (st_db st1)))"
      using captured_tokenless[of req p st st1 events] c assms(1) by (cases "captured p st") (auto simp: tokenless_def)
    then show ?thesis using assms(2) c Inr by (simp add: commit_plan_def tokenless_def)
  qed
qed

lemma lawful_commit_plan [simp]:
  assumes "sound_plan p" "quiet_plan p" "\<And>c s. tokenless (k c s)"
  shows "lawful st (commit_plan req p k st)"
proof -
  have "guarded st (fst (commit_plan req p k st))"
    using guarded_commit[OF minting_decides no_dependency_decides, OF assms(1,2)] by (simp add: fst_commit_plan)
  then show ?thesis using commit_plan_refusal[of k req p st] assms(3) unfolding lawful_def by blast
qed

lemma verbI: "(\<And>st. lawful st (run st)) \<Longrightarrow> verb run"
  unfolding verb_def lawful_def by (metis fst_conv snd_conv)

text \<open>A verb that goes on after another keeps what the other keeps.\<close>

lemma lawful_map [simp]:
  assumes "lawful st x" "\<And>y. tokenless (f y)"
  shows "lawful st (case x of (st', Inl e) \<Rightarrow> (st', Inl e) | (st', Inr y) \<Rightarrow> (st', f y))"
  using assms by (cases x; cases "snd x") (auto simp: lawful_def tokenless_def)

lemma lawful_Commit [simp]:
  assumes "minting decide" "no_dependency decide" "\<And>st' events. tokenless (f st' events)"
  shows "lawful st (case Commit req decide st of (st', Inl e) \<Rightarrow> (st', Inl e) | (st', Inr events) \<Rightarrow> (st', f st' events))"
proof -
  obtain st1 r where c: "Commit req decide st = (st1, r)" by fastforce
  have "guarded\<^sup>*\<^sup>* st st1" using guarded_commit[OF assms(1,2), of st req] c by (simp add: r_into_rtranclp)
  then show ?thesis
    using c assms(3) Commit_error_db[of req decide st st1] by (cases r) (auto simp: lawful_def tokenless_def)
qed

lemma lawful_only_error [simp]: "lawful st x \<Longrightarrow> lawful st (only_error x)"
  by (cases x; cases "snd x") (auto simp: lawful_def only_error_def)

lemma view_tokenless [simp]:
  "tokenless (Inr x)" "tokenless (view_Node s i)" "tokenless (view_Batch s i)" "tokenless (view_Run s i)"
  "tokenless (view_Role s i)" "tokenless (backlogEntryByID repo i s)" "tokenless (view_OutboxEntry s repo i)"
  "tokenless (OutboxEntryByBirth s repo i)"
  by (auto simp: tokenless_def view_Node_def view_Batch_def view_Run_def view_Role_def backlogEntryByID_def
      view_OutboxEntry_def OutboxEntryByBirth_def of_option_def split: option.splits list.splits)

lemma rbind_tokenless [simp]: "tokenless r \<Longrightarrow> (\<And>x. tokenless (f x)) \<Longrightarrow> tokenless (rbind r f)"
  by (cases r) (auto simp: tokenless_def)

lemma sealed_result_tokenless [simp]: "tokenless (sealed_result i b s)"
  by (simp add: sealed_result_def)

text \<open>The plans of the verbs.\<close>

lemma sound_create_batch [plan_laws]: "sound_plan (create_batch_plan name)"
  using sound_from_id by (auto simp: sound_plan_def create_batch_plan_def mints_refl)

lemma sound_anonymous_batch [plan_laws]: "sound_plan (anonymous_batch_plan matter)"
  using sound_from_id by (auto simp: sound_plan_def anonymous_batch_plan_def mints_refl split: sum.splits)

lemma sound_spawn [plan_laws]: "sound_plan (spawn_plan d name)"
  using sound_from_id by (auto simp: sound_plan_def spawn_plan_def mints_refl)

lemma sound_delegate [plan_laws]: "sound_plan (delegate_plan repo entry)"
  using sound_from_id by (auto simp: sound_plan_def delegate_plan_def mints_refl split: sum.splits)

lemma sound_backlog_add [plan_laws]: "sound_plan (backlog_add_plan repo p)"
  unfolding sound_plan_def
proof (intro allI)
  fix t s m
  obtain m1 r1 where n1: "store_NewID m = (m1, r1)" by fastforce
  obtain m2 r2 where n2: "store_NewID m1 = (m2, r2)" by fastforce
  have "mints m m1" using mints_new[OF mints_refl, of m] n1 by simp
  moreover from this have "mints m m2" using mints_new[of m m1] n2 by simp
  ultimately show "mints m (fst (backlog_add_plan repo p t s m))"
    by (simp add: backlog_add_plan_def n1 n2 Let_def split: sum.splits)
qed

lemma sound_defs [plan_laws]:
  "sound_plan (birth_plan ty p)" "sound_plan (start_plan repo target ns)"
  "sound_plan (transition_plan repo n action a b reason)" "sound_plan (insert_plan parent title l sib pos key)"
  "sound_plan (reference_plan repo ty n g)" "sound_plan (declare_plan repo gate scale)"
  "sound_plan (close_plan repo gate n)" "sound_plan (dismiss_plan repo gate reason n)"
  "sound_plan (membership_plan ty b allowed m)" "sound_plan (dismiss_batch_plan b)"
  "sound_plan (close_role_plan d name)" "sound_plan (stand_down_plan env run)"
  "sound_plan (exit_plan repo entry ty payload)" "sound_plan (one_draft dr)"
  by (simp_all add: birth_plan_def start_plan_def transition_plan_def insert_plan_def reference_plan_def
      declare_plan_def close_plan_def dismiss_plan_def membership_plan_def dismiss_batch_plan_def
      close_role_plan_def stand_down_plan_def exit_plan_def one_draft_def plan_laws)

text \<open>No plan but those of \<open>DependAdd\<close> and \<open>RemoveStep\<close> drafts a dependency or a removal.\<close>

lemma lifecycleEvents_quiet [simp]: "plain (lifecycleEvents action scale)"
  by (auto simp: lifecycleEvents_def plain_def tokens)

lemma quiet_start_loop: "start_loop s target level ns drafts = Inr ds \<Longrightarrow> quiet drafts \<Longrightarrow> quiet ds"
proof (induction ns arbitrary: drafts)
  case (Cons n ns)
  then show ?case by (auto simp: res draft_def split: if_splits)
qed simp

lemma quiet_stand_down: "stand_down_drafts s ds = Inr drafts \<Longrightarrow> quiet drafts"
  by (induction ds arbitrary: drafts) (auto simp: res draft_def plain_def tokens)

lemma delegation_type [simp]: "dr_Type (delegation entry i) = TypeBacklogDelegated"
  by (simp add: delegation_def)

lemma quiet_sealing:
  "sealing t s n ov d = Inr (ds, c) \<Longrightarrow> plain (dr_Type d) \<Longrightarrow> quiet ds"
  by (auto simp: sealing_def sealSweepDraft_def res plain_def tokens split: if_splits option.splits)

lemma quiet_gate_sealing:
  "gate_sealing t s n gate d = Inr (ds, c) \<Longrightarrow> plain (dr_Type d) \<Longrightarrow> quiet ds"
  by (auto simp: gate_sealing_def split: if_splits elim!: quiet_sealing)

lemma gate_types_quiet: "plain TypeGateClosed" "plain TypeGateDismissed"
  by (simp_all add: plain_def tokens)

lemma quiet_create_batch [plan_laws]: "quiet_plan (create_batch_plan name)"
  by (auto simp: quiet_plan_def create_batch_plan_def from_id_def plain_def tokens split: if_splits prod.splits sum.splits)

lemma quiet_anonymous_batch [plan_laws]: "quiet_plan (anonymous_batch_plan matter)"
  by (auto simp: quiet_plan_def anonymous_batch_plan_def from_id_def plain_def tokens split: if_splits prod.splits sum.splits)

lemma quiet_spawn [plan_laws]: "quiet_plan (spawn_plan d name)"
  by (auto simp: quiet_plan_def spawn_plan_def from_id_def plain_def tokens split: if_splits prod.splits sum.splits)

lemma quiet_delegate [plan_laws]: "quiet_plan (delegate_plan repo entry)"
  by (auto simp: quiet_plan_def delegate_plan_def from_id_def plain_def tokens split: if_splits prod.splits sum.splits)

lemma quiet_backlog_add [plan_laws]: "quiet_plan (backlog_add_plan repo p)"
  by (auto simp: quiet_plan_def backlog_add_plan_def Let_def plain_def tokens split: if_splits prod.splits sum.splits)

lemma quiet_birth [plan_laws]: "plain ty \<Longrightarrow> quiet_plan (birth_plan ty p)"
  by (auto simp: birth_plan_def intro!: quiet_from_id)

lemma quiet_start [plan_laws]: "quiet_plan (start_plan repo target ns)"
  by (auto simp: start_plan_def res intro!: quiet_from_db split: if_splits elim!: quiet_start_loop)

lemma quiet_transition [plan_laws]: "quiet_plan (transition_plan repo n action a b reason)"
  by (auto simp: transition_plan_def res Let_def intro!: quiet_from_db split: if_splits option.splits elim!: quiet_sealing)

lemma quiet_insert [plan_laws]: "quiet_plan (insert_plan parent title l sib pos key)"
  by (auto simp: insert_plan_def Let_def plain_def tokens intro!: quiet_from_id split: option.splits)

lemma quiet_reference [plan_laws]: "plain ty \<Longrightarrow> quiet_plan (reference_plan repo ty n g)"
  by (auto simp: reference_plan_def res intro!: quiet_from_db split: if_splits)

lemma quiet_declare [plan_laws]: "quiet_plan (declare_plan repo gate scale)"
  by (auto simp: declare_plan_def res plain_def tokens intro!: quiet_from_db split: if_splits)

lemma quiet_close [plan_laws]: "quiet_plan (close_plan repo gate n)"
  by (auto simp: close_plan_def res gate_types_quiet intro!: quiet_from_db
      split: if_splits option.split_asm elim!: quiet_gate_sealing)

lemma quiet_dismiss [plan_laws]: "quiet_plan (dismiss_plan repo gate reason n)"
  by (auto simp: dismiss_plan_def res gate_types_quiet intro!: quiet_from_db
      split: if_splits option.split_asm elim!: quiet_gate_sealing)

lemma quiet_membership [plan_laws]: "plain ty \<Longrightarrow> quiet_plan (membership_plan ty b allowed m)"
  by (auto simp: membership_plan_def res intro!: quiet_from_db split: if_splits)

lemma quiet_stand_down_plan [plan_laws]: "quiet_plan (stand_down_plan env run)"
  by (auto simp: stand_down_plan_def res plain_def tokens intro!: quiet_from_db split: if_splits elim!: quiet_stand_down)

lemma quiet_exit [plan_laws]: "plain ty \<Longrightarrow> quiet_plan (exit_plan repo entry ty payload)"
  by (auto simp: exit_plan_def res intro!: quiet_from_db split: if_splits)

lemma quiet_one_draft [plan_laws]: "plain (dr_Type dr) \<Longrightarrow> quiet_plan (one_draft dr)"
  by (auto simp: one_draft_def intro!: quiet_from_db)

lemma quiet_defs [plan_laws]:
  "quiet_plan (dismiss_batch_plan b)" "quiet_plan (close_role_plan d name)"
  by (auto simp: dismiss_batch_plan_def close_role_plan_def res plain_def tokens intro!: quiet_from_db split: if_splits option.splits)

lemma quiet_types [plan_laws]:
  "plain TypeMatterCreated" "plain TypeStageCreated"
  "plain TypeStepCreated" "plain TypeStepReordered"
  "plain TypeStepReplaced"
  "plain TypeDependencyRemoved" "plain TypeConfigSet"
  "plain TypeReferenceAdded" "plain TypeReferenceRemoved"
  "plain TypeReferenceRebound" "plain TypeGateExemptionRepaired"
  "plain TypeBatchJoined" "plain TypeBatchLeft"
  "plain TypeBacklogPlanned" "plain TypeBacklogDeclined"
  "plain TypeTrackerItemCreated" "plain TypeOutboxApproved"
  "plain TypeOutboxDeclined" "plain TypeOutboxRetried"
  "plain TypeOutboxWithheld" "plain TypeOutboxDeliveryFailed"
  "plain TypeOutboxFlushed" "plain TypeTrackerStatePushed"
  "plain TypeTrackerStateObserved" "plain TypeTrackerAdhocProposed"
  by (simp_all add: plain_def tokens)

lemma quiet_fixed [plan_laws]:
  "quiet ds \<Longrightarrow> quiet_plan (from_db (\<lambda>t s. Inr (ds, c)))" "(\<And>i. quiet (g i)) \<Longrightarrow> quiet_plan (from_id (\<lambda>t s i. Inr (g i, h i)))"
  by (auto intro: quiet_from_db quiet_from_id)

section \<open>Every verb keeps the contract\<close>

interpretation CreateMatter: verb "CreateMatter actor repo title loc"
  by (rule verbI) (simp add: CreateMatter_def Let_def plan_laws split: sum.splits)
interpretation CreateStage: verb "CreateStage actor repo parent title"
  by (rule verbI) (simp add: CreateStage_def Let_def plan_laws split: sum.splits)
interpretation CreateStep: verb "CreateStep actor repo parent title"
  by (rule verbI) (simp add: CreateStep_def Let_def plan_laws split: sum.splits)
interpretation Start: verb "Start actor repo locator"
  by (rule verbI) (simp add: Start_def plan_laws split: sum.splits)
interpretation Finish: verb "Finish actor env locator"
  by (rule verbI) (simp add: Finish_def simpleTransitionEnvResult_def plan_laws split: sum.splits)
interpretation Cancel: verb "Cancel actor repo locator reason"
  by (rule verbI) (simp add: Cancel_def simpleTransitionEnvResult_def plan_laws split: sum.splits)
interpretation Pause: verb "Pause actor repo locator"
  by (rule verbI) (simp add: Pause_def simpleTransitionEnvResult_def plan_laws split: sum.splits)
interpretation Resume: verb "Resume actor repo locator"
  by (rule verbI) (simp add: Resume_def simpleTransitionEnvResult_def plan_laws split: sum.splits)
interpretation InsertStep: verb "InsertStep actor repo parent title after before"
  by (rule verbI) (simp add: InsertStep_def Let_def plan_laws split: sum.splits)
interpretation ReorderStep: verb "ReorderStep actor repo parent order"
  by (rule verbI) (simp add: ReorderStep_def Let_def plan_laws split: sum.splits)
interpretation ReplaceStep: verb "ReplaceStep actor repo step title"
  by (rule verbI) (simp add: ReplaceStep_def Let_def plan_laws split: sum.splits)
lemma lawful_RemoveStep: "lawful st (RemoveStep actor repo locator reason st)"
proof (rule RemoveStep_cases[of actor repo locator reason st])
  fix n
  assume eq: "RemoveStep actor repo locator reason st
      = commit_plan (request actor (repo_env repo)) (remove_plan n reason) (\<lambda>_ _. Inr ()) st"
  have "guarded\<^sup>*\<^sup>* st (fst (RemoveStep actor repo locator reason st))" by (intro r_into_rtranclp guarded_remove)
  then show ?thesis unfolding lawful_def eq by (metis commit_plan_refusal tokenless_Inr)
qed simp

interpretation RemoveStep: verb "RemoveStep actor repo step reason"
  by (rule verbI) (rule lawful_RemoveStep)
lemma lawful_DependAdd: "lawful st (DependAdd actor repo a b st)"
proof (rule DependAdd_cases[of actor repo a b st])
  fix blocked blocker k
  assume eq: "DependAdd actor repo a b st = commit_plan (request actor (repo_env repo)) (depend_plan blocked blocker) k st"
    and k: "\<And>c s. tokenless (k c s)"
  have "guarded\<^sup>*\<^sup>* st (fst (DependAdd actor repo a b st))" by (intro r_into_rtranclp guarded_depend)
  then show ?thesis using commit_plan_refusal[of k] k unfolding lawful_def eq by blast
qed simp

interpretation DependAdd: verb "DependAdd actor repo blocked blocker"
  by (rule verbI) (rule lawful_DependAdd)
interpretation DependRemove: verb "DependRemove actor repo blocked blocker"
  by (rule verbI) (simp add: DependRemove_def Let_def plan_laws split: sum.splits option.splits)
interpretation Bind: verb "Bind actor repo locator ref"
  by (rule verbI) (simp add: Bind_def bind_verb_def plan_laws split: sum.splits)
interpretation Unbind: verb "Unbind actor repo locator ref"
  by (rule verbI) (simp add: Unbind_def bind_verb_def plan_laws split: sum.splits)
interpretation Rebind: verb "Rebind actor repo locator old new"
  by (rule verbI) (simp add: Rebind_def bind_verb_def plan_laws split: sum.splits)
interpretation SetConfig: verb "SetConfig repo key value"
  by (rule verbI) (simp add: SetConfig_def plan_laws)
interpretation SetTrackerPushLevel: verb "SetTrackerPushLevel repo value"
  by (rule verbI) (simp add: SetTrackerPushLevel_def SetConfig_def plan_laws split: sum.split)
interpretation SetTrackerBacklogPush: verb "SetTrackerBacklogPush repo value"
  by (rule verbI) (simp add: SetTrackerBacklogPush_def SetConfig_def plan_laws split: sum.split)
interpretation DeclareGate: verb "DeclareGate repo gate scale"
  by (rule verbI) (simp add: DeclareGate_def store_DeclareGate_def Let_def plan_laws split: option.splits)
interpretation RepairGateExemption: verb "RepairGateExemption repo gate locator"
  by (rule verbI) (simp add: RepairGateExemption_def store_RepairGateExemption_def Let_def plan_laws split: sum.split option.splits)
interpretation closeGateEnv: verb "closeGateEnv actor env gate locator"
  by (rule verbI) (simp add: closeGateEnv_def Let_def plan_laws split: sum.splits option.splits)
interpretation dismissGateEnv: verb "dismissGateEnv actor env gate locator reason"
  by (rule verbI) (simp add: dismissGateEnv_def Let_def plan_laws split: sum.splits option.splits)
interpretation CreateBatch: verb "CreateBatch actor env name"
  by (rule verbI) (simp add: CreateBatch_def plan_laws)
interpretation CreateAnonymousBatch: verb "CreateAnonymousBatch actor env matter"
  by (rule verbI) (simp add: CreateAnonymousBatch_def plan_laws)
interpretation JoinBatch: verb "JoinBatch actor env batch matter"
  by (rule verbI) (simp add: JoinBatch_def membership_verb_def plan_laws split: sum.splits)
interpretation LeaveBatch: verb "LeaveBatch actor env batch matter"
  by (rule verbI) (simp add: LeaveBatch_def membership_verb_def plan_laws split: sum.splits)
interpretation DismissBatch: verb "DismissBatch actor env locator"
  by (rule verbI) (simp add: DismissBatch_def plan_laws split: sum.splits)
interpretation SpawnRole: verb "SpawnRole actor env name"
  by (rule verbI) (simp add: SpawnRole_def Let_def plan_laws split: option.splits)
interpretation CloseRole: verb "CloseRole env name"
  by (rule verbI) (simp add: CloseRole_def Let_def plan_laws split: option.splits)
interpretation StandDownRun: verb "StandDownRun lock actor env run"
  by (rule verbI) (simp add: StandDownRun_def plan_laws split: sum.splits lock_answer.splits)
interpretation BacklogAdd: verb "BacklogAdd actor repo provenance title detail origin"
  by (rule verbI) (simp add: BacklogAdd_def plan_laws split: sum.splits)
interpretation BacklogPlan: verb "BacklogPlan actor repo entry matter"
  by (rule verbI) (simp add: BacklogPlan_def plan_laws split: sum.splits)
interpretation BacklogDecline: verb "BacklogDecline actor repo entry reason"
  by (rule verbI) (simp add: BacklogDecline_def plan_laws)
interpretation BacklogDelegate: verb "BacklogDelegate actor repo entry"
  by (rule verbI) (simp add: BacklogDelegate_def plan_laws)
interpretation ConfirmBacklogDelegation: verb "ConfirmBacklogDelegation actor repo outbox ref"
  by (rule verbI) (simp add: ConfirmBacklogDelegation_def plan_laws split: sum.splits)
interpretation OutboxApprove: verb "OutboxApprove actor repo ident"
  by (rule verbI) (simp add: OutboxApprove_def mutateOutbox_def plan_laws)
interpretation OutboxDecline: verb "OutboxDecline actor repo ident reason"
  by (rule verbI) (simp add: OutboxDecline_def mutateOutbox_def plan_laws)
interpretation OutboxRetry: verb "OutboxRetry actor repo ident"
  by (rule verbI) (simp add: OutboxRetry_def mutateOutbox_def plan_laws)
interpretation WithholdOutbox: verb "WithholdOutbox actor repo ident reason attempted cause"
  by (rule verbI) (simp add: WithholdOutbox_def mutateOutbox_def plan_laws)
interpretation FailOutbox: verb "FailOutbox actor repo ident reason"
  by (rule verbI) (simp add: FailOutbox_def mutateOutbox_def plan_laws)
interpretation FlushOutboxComment: verb "FlushOutboxComment actor repo ident"
  by (rule verbI) (simp add: FlushOutboxComment_def mutateOutbox_def plan_laws)
interpretation PushTrackerState: verb "PushTrackerState actor repo ident ref disp lease"
  by (rule verbI) (simp add: PushTrackerState_def plan_laws)
interpretation ObserveTrackerState: verb "ObserveTrackerState actor repo ident ref disp lease"
  by (rule verbI) (simp add: ObserveTrackerState_def plan_laws)
interpretation ProposeTrackerCreate: verb "ProposeTrackerCreate actor repo title detail"
  by (rule verbI) (simp add: ProposeTrackerCreate_def proposeTracker_def minting_decides no_dependency_decides plan_laws split: sum.splits)
interpretation ProposeTrackerComment: verb "ProposeTrackerComment actor repo ref body"
  by (rule verbI) (simp add: ProposeTrackerComment_def proposeTracker_def minting_decides no_dependency_decides plan_laws split: sum.splits)
interpretation ProposeTrackerState: verb "ProposeTrackerState actor repo ref disp"
  by (rule verbI) (simp add: ProposeTrackerState_def proposeTracker_def minting_decides no_dependency_decides plan_laws split: sum.splits)

section \<open>Calls\<close>

text \<open>\<open>called st code st'\<close>: some verb of the write surface, called on \<open>st\<close>, left \<open>st'\<close>, and
  was refused with the token \<open>code\<close> if there is one.\<close>

definition token :: "'a result \<Rightarrow> string option" where
  "token r = (case r of Inl (EWip code) \<Rightarrow> Some code | _ \<Rightarrow> None)"

inductive called :: "store \<Rightarrow> string option \<Rightarrow> store \<Rightarrow> bool" where
  called_CreateMatter: "CreateMatter actor repo title loc st = (st', r) \<Longrightarrow> called st (token r) st'"
| called_CreateStage: "CreateStage actor repo parent title st = (st', r) \<Longrightarrow> called st (token r) st'"
| called_CreateStep: "CreateStep actor repo parent title st = (st', r) \<Longrightarrow> called st (token r) st'"
| called_Start: "Start actor repo locator st = (st', r) \<Longrightarrow> called st (token r) st'"
| called_Finish: "Finish actor env locator st = (st', r) \<Longrightarrow> called st (token r) st'"
| called_Cancel: "Cancel actor repo locator reason st = (st', r) \<Longrightarrow> called st (token r) st'"
| called_Pause: "Pause actor repo locator st = (st', r) \<Longrightarrow> called st (token r) st'"
| called_Resume: "Resume actor repo locator st = (st', r) \<Longrightarrow> called st (token r) st'"
| called_InsertStep: "InsertStep actor repo parent title after before st = (st', r) \<Longrightarrow> called st (token r) st'"
| called_ReorderStep: "ReorderStep actor repo parent order st = (st', r) \<Longrightarrow> called st (token r) st'"
| called_ReplaceStep: "ReplaceStep actor repo step title st = (st', r) \<Longrightarrow> called st (token r) st'"
| called_RemoveStep: "RemoveStep actor repo step reason st = (st', r) \<Longrightarrow> called st (token r) st'"
| called_DependAdd: "DependAdd actor repo blocked blocker st = (st', r) \<Longrightarrow> called st (token r) st'"
| called_DependRemove: "DependRemove actor repo blocked blocker st = (st', r) \<Longrightarrow> called st (token r) st'"
| called_Bind: "Bind actor repo locator ref st = (st', r) \<Longrightarrow> called st (token r) st'"
| called_Unbind: "Unbind actor repo locator ref st = (st', r) \<Longrightarrow> called st (token r) st'"
| called_Rebind: "Rebind actor repo locator old new st = (st', r) \<Longrightarrow> called st (token r) st'"
| called_SetConfig: "SetConfig repo key value st = (st', r) \<Longrightarrow> called st (token r) st'"
| called_SetTrackerPushLevel: "SetTrackerPushLevel repo value st = (st', r) \<Longrightarrow> called st (token r) st'"
| called_SetTrackerBacklogPush: "SetTrackerBacklogPush repo value st = (st', r) \<Longrightarrow> called st (token r) st'"
| called_DeclareGate: "DeclareGate repo gate scale st = (st', r) \<Longrightarrow> called st (token r) st'"
| called_RepairGateExemption: "RepairGateExemption repo gate locator st = (st', r) \<Longrightarrow> called st (token r) st'"
| called_closeGateEnv: "closeGateEnv actor env gate locator st = (st', r) \<Longrightarrow> called st (token r) st'"
| called_dismissGateEnv: "dismissGateEnv actor env gate locator reason st = (st', r) \<Longrightarrow> called st (token r) st'"
| called_CreateBatch: "CreateBatch actor env name st = (st', r) \<Longrightarrow> called st (token r) st'"
| called_CreateAnonymousBatch: "CreateAnonymousBatch actor env matter st = (st', r) \<Longrightarrow> called st (token r) st'"
| called_JoinBatch: "JoinBatch actor env batch matter st = (st', r) \<Longrightarrow> called st (token r) st'"
| called_LeaveBatch: "LeaveBatch actor env batch matter st = (st', r) \<Longrightarrow> called st (token r) st'"
| called_DismissBatch: "DismissBatch actor env locator st = (st', r) \<Longrightarrow> called st (token r) st'"
| called_SpawnRole: "SpawnRole actor env name st = (st', r) \<Longrightarrow> called st (token r) st'"
| called_CloseRole: "CloseRole env name st = (st', r) \<Longrightarrow> called st (token r) st'"
| called_StandDownRun: "StandDownRun lock actor env run st = (st', r) \<Longrightarrow> called st (token r) st'"
| called_BacklogAdd: "BacklogAdd actor repo provenance title detail origin st = (st', r) \<Longrightarrow> called st (token r) st'"
| called_BacklogPlan: "BacklogPlan actor repo entry matter st = (st', r) \<Longrightarrow> called st (token r) st'"
| called_BacklogDecline: "BacklogDecline actor repo entry reason st = (st', r) \<Longrightarrow> called st (token r) st'"
| called_BacklogDelegate: "BacklogDelegate actor repo entry st = (st', r) \<Longrightarrow> called st (token r) st'"
| called_ConfirmBacklogDelegation: "ConfirmBacklogDelegation actor repo outbox ref st = (st', r) \<Longrightarrow> called st (token r) st'"
| called_OutboxApprove: "OutboxApprove actor repo ident st = (st', r) \<Longrightarrow> called st (token r) st'"
| called_OutboxDecline: "OutboxDecline actor repo ident reason st = (st', r) \<Longrightarrow> called st (token r) st'"
| called_OutboxRetry: "OutboxRetry actor repo ident st = (st', r) \<Longrightarrow> called st (token r) st'"
| called_WithholdOutbox: "WithholdOutbox actor repo ident reason attempted cause st = (st', r) \<Longrightarrow> called st (token r) st'"
| called_FailOutbox: "FailOutbox actor repo ident reason st = (st', r) \<Longrightarrow> called st (token r) st'"
| called_FlushOutboxComment: "FlushOutboxComment actor repo ident st = (st', r) \<Longrightarrow> called st (token r) st'"
| called_PushTrackerState: "PushTrackerState actor repo ident ref disp lease st = (st', r) \<Longrightarrow> called st (token r) st'"
| called_ObserveTrackerState: "ObserveTrackerState actor repo ident ref disp lease st = (st', r) \<Longrightarrow> called st (token r) st'"
| called_ProposeTrackerCreate: "ProposeTrackerCreate actor repo title detail st = (st', r) \<Longrightarrow> called st (token r) st'"
| called_ProposeTrackerComment: "ProposeTrackerComment actor repo ref body st = (st', r) \<Longrightarrow> called st (token r) st'"
| called_ProposeTrackerState: "ProposeTrackerState actor repo ref disp st = (st', r) \<Longrightarrow> called st (token r) st'"

context verb
begin

lemma call:
  assumes "run st = (st', r)"
  shows "guarded\<^sup>*\<^sup>* st st' \<and> (token r \<noteq> None \<longrightarrow> st_log st' = st_log st \<and> st_db st' = st_db st)"
  using guards[of st] refusal[of st st'] assms by (auto simp: token_def split: sum.splits error.splits)

end

lemmas verb_calls =
  CreateMatter.call CreateStage.call CreateStep.call Start.call Finish.call Cancel.call Pause.call Resume.call
  InsertStep.call ReorderStep.call ReplaceStep.call RemoveStep.call DependAdd.call DependRemove.call Bind.call
  Unbind.call Rebind.call SetConfig.call SetTrackerPushLevel.call SetTrackerBacklogPush.call DeclareGate.call
  RepairGateExemption.call closeGateEnv.call dismissGateEnv.call CreateBatch.call CreateAnonymousBatch.call
  JoinBatch.call LeaveBatch.call DismissBatch.call SpawnRole.call CloseRole.call StandDownRun.call
  BacklogAdd.call BacklogPlan.call BacklogDecline.call BacklogDelegate.call ConfirmBacklogDelegation.call
  OutboxApprove.call OutboxDecline.call OutboxRetry.call WithholdOutbox.call FailOutbox.call
  FlushOutboxComment.call PushTrackerState.call ObserveTrackerState.call ProposeTrackerCreate.call
  ProposeTrackerComment.call ProposeTrackerState.call

lemma called_laws:
  assumes "called st code st'"
  shows "guarded\<^sup>*\<^sup>* st st' \<and> (code \<noteq> None \<longrightarrow> st_log st' = st_log st \<and> st_db st' = st_db st)"
  by (rule called.cases[OF assms]) (hypsubst; erule verb_calls)+

text \<open>A life of calls; the codes of the refusals are forgotten.\<close>

definition calls :: "store \<Rightarrow> store \<Rightarrow> bool" where
  "calls = (\<lambda>st st'. \<exists>code. called st code st')\<^sup>*\<^sup>*"

lemma calls_guarded:
  assumes "calls st st'"
  shows "guarded\<^sup>*\<^sup>* st st'"
  using assms unfolding calls_def
proof (induction rule: rtranclp_induct)
  case (step y z)
  then have "guarded\<^sup>*\<^sup>* y z" using called_laws[of y _ z] by (elim exE) simp
  then show ?case using step(3) by (metis rtranclp_trans)
qed simp

lemma guarded_keeps_acyclic:
  assumes "guarded\<^sup>*\<^sup>* st st'" "reachable st" "acyclic (set (liveEdgeGraph (st_db st)))"
  shows "acyclic (set (liveEdgeGraph (st_db st')))"
  using assms(1)
proof (induction rule: rtranclp_induct)
  case (step y z)
  have "reachable y" using reachable_ops[OF guarded_ops[OF step(1)] assms(2)] .
  then show ?case using guarded_acyclic[OF step(2)] step(3) reachable_ok by blast
qed (rule assms(3))

end
