(* ===== verification/Frontier.thy ===== *)
theory Frontier
  imports Completion
begin

text \<open>
  What may be worked on (\<open>internal/readsurface/frontier.go\<close>, \<open>internal/scheduler/frontier.go\<close>).

  \<^item> \<open>Frontier\<close>: the planned nodes of the store, split into the ready ones and the blocked
    ones with what blocks them; \<open>CollapseReady\<close> keeps the outermost of a list.
  \<^item> \<open>Derive\<close>: what a Run may engage, what it has engaged, and its free slots; \<open>Select\<close>
    takes the first of the ready ones.

  \<open>standing\<close> says that nothing but Steps has been removed. On such a store the two
  derivations never fail and are characterised by \<open>unblocked\<close>, \<open>workable\<close> and
  \<open>engageable\<close>; the scheduler never offers what the read surface calls blocked.
\<close>

section \<open>The read surface\<close>

definition LocallyComplete :: "tx \<Rightarrow> db \<Rightarrow> Node \<Rightarrow> bool result" where
  "LocallyComplete t s n = rbind (view_NodeCompletion t s n) (\<lambda>c. Inr (nc_LocallyComplete c))"

definition Sealed :: "tx \<Rightarrow> db \<Rightarrow> Node \<Rightarrow> bool result" where
  "Sealed t s n = rbind (view_NodeCompletion t s n) (\<lambda>c. Inr (nc_Sealed c))"

record Blocked =
  B_Node :: Node
  B_Blockers :: "Node list"

primrec unmet_loop :: "tx \<Rightarrow> db \<Rightarrow> Edge list \<Rightarrow> Node list result" where
  "unmet_loop t s [] = Inr []"
| "unmet_loop t s (e # es) =
     rbind (view_Node s (E_Blocker e)) (\<lambda>blocker.
     rbind (LocallyComplete t s blocker) (\<lambda>ok.
     rbind (unmet_loop t s es) (\<lambda>unmet. Inr (if ok then unmet else blocker # unmet))))"

primrec frontier_loop :: "tx \<Rightarrow> db \<Rightarrow> Node list \<Rightarrow> (Node list \<times> Blocked list) result" where
  "frontier_loop t s [] = Inr ([], [])"
| "frontier_loop t s (n # ns) =
     rbind (unmet_loop t s (BlockedBy s (N_ID n))) (\<lambda>unmet.
     rbind (frontier_loop t s ns) (\<lambda>(ready, blocked).
     Inr (if unmet = [] then (n # ready, blocked) else (ready, \<lparr>B_Node = n, B_Blockers = unmet\<rparr> # blocked))))"

definition Frontier :: "tx \<Rightarrow> db \<Rightarrow> (Node list \<times> Blocked list) result" where
  "Frontier t s = frontier_loop t s (view_Planned s)"

text \<open>Whether a node above \<open>cur\<close> is in the list, reading one parent at a time; the fuel is
  the depth of the tree.\<close>

primrec covered :: "db \<Rightarrow> (string \<Rightarrow> bool) \<Rightarrow> nat \<Rightarrow> Node \<Rightarrow> bool result" where
  "covered s marked 0 cur = Inl (ERefused ''the parent chain does not end'')"
| "covered s marked (Suc k) cur =
     (if N_Parent cur = [] then Inr False
      else rbind (view_Node s (N_Parent cur)) (\<lambda>parent.
           if marked (N_ID parent) then Inr True else covered s marked k parent))"

primrec collapse_loop :: "db \<Rightarrow> (string \<Rightarrow> bool) \<Rightarrow> Node list \<Rightarrow> Node list result" where
  "collapse_loop s marked [] = Inr []"
| "collapse_loop s marked (n # ns) =
     rbind (covered s marked 3 n) (\<lambda>drop.
     rbind (collapse_loop s marked ns) (\<lambda>out. Inr (if drop then out else n # out)))"

definition CollapseReady :: "db \<Rightarrow> Node list \<Rightarrow> Node list result" where
  "CollapseReady s ready = collapse_loop s (\<lambda>i. i \<in> set (map N_ID ready)) ready"

record Finished =
  F_Node :: Node
  F_LocallyComplete :: bool
  F_Sealed :: bool
  F_Pending :: "GateRequirement list"

primrec finished_loop :: "tx \<Rightarrow> db \<Rightarrow> Node list \<Rightarrow> Finished list result" where
  "finished_loop t s [] = Inr []"
| "finished_loop t s (n # ns) =
     rbind (view_NodeCompletion t s n) (\<lambda>c.
     rbind (finished_loop t s ns) (\<lambda>out.
     Inr (\<lparr>F_Node = n, F_LocallyComplete = nc_LocallyComplete c, F_Sealed = nc_Sealed c, F_Pending = nc_Pending c\<rparr> # out)))"

definition FinishedNodes :: "tx \<Rightarrow> db \<Rightarrow> Finished list result" where
  "FinishedNodes t s = finished_loop t s (view_Done s)"

primrec collapse_finished_loop ::
  "db \<Rightarrow> (string \<Rightarrow> bool) \<Rightarrow> (string \<Rightarrow> bool) \<Rightarrow> Finished list \<Rightarrow> Finished list result" where
  "collapse_finished_loop s marked exempt [] = Inr []"
| "collapse_finished_loop s marked exempt (f # fs) =
     rbind (if F_Sealed f \<and> \<not> exempt (N_ID (F_Node f)) then covered s marked 3 (F_Node f) else Inr False) (\<lambda>drop.
     rbind (collapse_finished_loop s marked exempt fs) (\<lambda>out. Inr (if drop then out else f # out)))"

text \<open>The map of the sealed entries; of two entries of one node the later wins.\<close>

definition CollapseFinished :: "db \<Rightarrow> Finished list \<Rightarrow> (string \<Rightarrow> bool) \<Rightarrow> Finished list result" where
  "CollapseFinished s fs exempt =
     collapse_finished_loop s
       (\<lambda>i. case List.find (\<lambda>f. N_ID (F_Node f) = i) (rev fs) of Some f \<Rightarrow> F_Sealed f | None \<Rightarrow> False) exempt fs"

section \<open>The scheduler\<close>

record RunFrontier =
  fr_Run :: run_row
  fr_Members :: "Node list"
  fr_Ready :: "Node list"
  fr_Engaged :: "Node list"
  fr_Cap :: int
  fr_Slots :: int

primrec edges_loop :: "tx \<Rightarrow> db \<Rightarrow> Edge list \<Rightarrow> bool result" where
  "edges_loop t s [] = Inr True"
| "edges_loop t s (e # es) =
     rbind (view_Node s (E_Blocker e)) (\<lambda>blocker.
     rbind (LocallyComplete t s blocker) (\<lambda>ok. if \<not> ok then Inr False else edges_loop t s es))"

definition edgesSatisfied :: "tx \<Rightarrow> db \<Rightarrow> string \<Rightarrow> bool result" where
  "edgesSatisfied t s node = edges_loop t s (BlockedBy s node)"

definition live_in :: "Node list \<Rightarrow> string \<Rightarrow> Node option" where
  "live_in ns i = List.find (\<lambda>n. N_ID n = i) ns"

primrec chainClear :: "Node list \<Rightarrow> (string \<Rightarrow> bool) \<Rightarrow> nat \<Rightarrow> Node \<Rightarrow> bool" where
  "chainClear live satisfied 0 n = False"
| "chainClear live satisfied (Suc k) n =
     (satisfied (N_ID n) \<and>
      (N_Parent n = [] \<or>
       (case live_in live (N_Parent n) of None \<Rightarrow> False | Some parent \<Rightarrow> chainClear live satisfied k parent)))"

primrec ancestorsEngageable :: "Node list \<Rightarrow> nat \<Rightarrow> Node \<Rightarrow> bool" where
  "ancestorsEngageable live 0 cur = False"
| "ancestorsEngageable live (Suc k) cur =
     (N_Parent cur = [] \<or>
      (case live_in live (N_Parent cur) of
         None \<Rightarrow> False
       | Some parent \<Rightarrow> (N_Lifecycle parent = Planned \<or> N_Lifecycle parent = InProgress)
           \<and> ancestorsEngageable live k parent))"

primrec satisfied_loop :: "tx \<Rightarrow> db \<Rightarrow> Node list \<Rightarrow> string list result" where
  "satisfied_loop t s [] = Inr []"
| "satisfied_loop t s (n # ns) =
     rbind (edgesSatisfied t s (N_ID n)) (\<lambda>ok.
     rbind (satisfied_loop t s ns) (\<lambda>rest. Inr (if ok then N_ID n # rest else rest)))"

definition hasLiveChild :: "Node list \<Rightarrow> Node \<Rightarrow> bool" where
  "hasLiveChild ns n = list_ex (\<lambda>c. N_Parent c \<noteq> [] \<and> N_Parent c = N_ID n) ns"

definition member_ready :: "Node list \<Rightarrow> string list \<Rightarrow> Node \<Rightarrow> bool" where
  "member_ready ns satisfied n = (\<not> hasLiveChild ns n \<and> N_Lifecycle n = Planned
     \<and> chainClear ns (\<lambda>i. i \<in> set satisfied) 3 n \<and> ancestorsEngageable ns 3 n)"

definition member_engaged :: "Node list \<Rightarrow> Node \<Rightarrow> bool" where
  "member_engaged ns n = (\<not> hasLiveChild ns n \<and> N_Lifecycle n = InProgress)"

primrec derive_loop :: "tx \<Rightarrow> db \<Rightarrow> string list \<Rightarrow> (Node list \<times> Node list \<times> Node list) result" where
  "derive_loop t s [] = Inr ([], [], [])"
| "derive_loop t s (i # is) =
     rbind (view_Node s i) (\<lambda>matter.
     let ns = MatterNodes s i in
     rbind (satisfied_loop t s ns) (\<lambda>satisfied.
     rbind (derive_loop t s is) (\<lambda>(members, ready, engaged).
     Inr (matter # members, filter (member_ready ns satisfied) ns @ ready, filter (member_engaged ns) ns @ engaged))))"

definition Derive :: "tx \<Rightarrow> db \<Rightarrow> run_row \<Rightarrow> int \<Rightarrow> RunFrontier result" where
  "Derive t s run cap =
     rbind (derive_loop t s (RunMatters s (ru_id run))) (\<lambda>(members, ready, engaged).
     Inr \<lparr>fr_Run = run, fr_Members = members, fr_Ready = sort_key N_ID ready, fr_Engaged = sort_key N_ID engaged,
       fr_Cap = cap, fr_Slots = max 0 (wrap64 (cap - int (length engaged)))\<rparr>)"

definition Select :: "Node list \<Rightarrow> int \<Rightarrow> Node list" where
  "Select ready slots =
     (if slots \<le> 0 then [] else if int (length ready) \<le> slots then ready else take (nat slots) ready)"

section \<open>The reference\<close>

definition standing :: "db \<Rightarrow> bool" where
  "standing s \<longleftrightarrow> (\<forall>r \<in> set (nodes s). n_live r \<or> n_kind r = ScaleStep)"

definition node_of :: "db \<Rightarrow> string \<Rightarrow> node_row" where
  "node_of s i = the (live_row s i)"

definition unblocked :: "db \<Rightarrow> node_row \<Rightarrow> bool" where
  "unblocked s r \<longleftrightarrow> (\<forall>e \<in> set (edges_in_force s). e_blocked e = n_id r \<longrightarrow>
     locally_complete no_overlay s (node_of s (e_blocker e)))"

definition blockers :: "db \<Rightarrow> node_row \<Rightarrow> node_row list" where
  "blockers s r = map (\<lambda>e. node_of s (e_blocker e))
     (sort_key e_id (filter (\<lambda>e. e_blocked e = n_id r) (edges_in_force s)))"

definition planned_rows :: "db \<Rightarrow> node_row list" where
  "planned_rows s = sort_key n_birth (filter (\<lambda>r. n_lifecycle r = Planned \<and> n_live r) (nodes s))"

definition workable :: "db \<Rightarrow> node_row \<Rightarrow> bool" where
  "workable s r \<longleftrightarrow> n_live r \<and> (\<forall>c \<in> set (nodes s). n_live c \<longrightarrow> n_parent c \<noteq> Some (n_id r))"

definition engageable :: "db \<Rightarrow> node_row \<Rightarrow> bool" where
  "engageable s r \<longleftrightarrow> workable s r \<and> n_lifecycle r = Planned \<and> (\<forall>a. encloses s r a \<longrightarrow> unblocked s a)
     \<and> (\<forall>a. encloses s r a \<longrightarrow> a \<noteq> r \<longrightarrow> n_lifecycle a = Planned \<or> n_lifecycle a = InProgress)"

lemma node_of_live:
  assumes "is_live s i"
  shows "node_of s i \<in> set (nodes s) \<and> n_id (node_of s i) = i \<and> n_live (node_of s i)
    \<and> view_Node s i = Inr (scanNode (node_of s i))"
proof -
  have "live_row s i \<noteq> None" using assms by (auto simp: is_live_def live_row_def find_None_iff list_ex_iff)
  then obtain r where "live_row s i = Some r" by auto
  then show ?thesis using live_row_Some[of s i r] by (simp add: node_of_def view_Node_def of_option_def)
qed

lemma node_of_row: "keys_ok s \<Longrightarrow> r \<in> set (nodes s) \<Longrightarrow> n_live r \<Longrightarrow> node_of s (n_id r) = r"
  using node_of_live[of s "n_id r"] by (auto simp: is_live_def list_ex_iff keys_ok_def intro: distinct_mapD)

lemma parent_row:
  assumes "schema_ok s" "r \<in> set (nodes s)" "n_parent r = Some p"
  shows "\<exists>q \<in> set (nodes s). under r q \<and> n_id q = p"
proof -
  have "placed (nodes s) r" using assms(1,2) by (simp add: schema_ok_def tree_ok_def list_all_iff)
  then obtain q where "q \<in> set (nodes s)" "under r q" using assms(3) by (auto simp: placed_def list_ex_iff)
  then show ?thesis using assms(3) by (auto simp: under_def)
qed

lemma encloses_cases:
  assumes "schema_ok s" "r \<in> set (nodes s)"
  shows "encloses s r a \<longleftrightarrow> a = r \<or> (\<exists>q \<in> set (nodes s). under r q \<and> encloses s q a)"
proof
  assume "encloses s r a"
  then show "a = r \<or> (\<exists>q \<in> set (nodes s). under r q \<and> encloses s q a)"
  proof cases
    case (encloses_parent q)
    then obtain q' where "q' \<in> set (nodes s)" "under r q'" "n_id q' = n_id q" using parent_row[OF assms] by blast
    moreover from this have "q' = q" using encloses_parent(1) assms(1) by (auto simp: schema_ok_def keys_ok_def intro: distinct_mapD)
    ultimately show ?thesis using encloses_parent by blast
  qed simp
qed (auto simp: under_def intro: encloses.intros)

lemma encloses_live:
  assumes "schema_ok s" "standing s" "r \<in> set (nodes s)" "n_live r" "encloses s r a"
  shows "n_live a"
proof -
  have "a \<in> set (nodes s)" "a = r \<or> rank (n_kind a) < rank (n_kind r)"
    using encloses_rank[OF assms(5)] assms(1,3) by (auto simp: schema_ok_def)
  moreover have "n_kind a \<noteq> ScaleStep" if "rank (n_kind a) < rank (n_kind r)"
    using that by (auto simp: rank_def tokens split: if_splits)
  ultimately show ?thesis using assms(2,4) by (auto simp: standing_def)
qed

section \<open>The read surface computes the reference\<close>

lemma LocallyComplete_spec:
  assumes "readable t s" "standing s" "r \<in> set (nodes s)" "n_live r"
  shows "LocallyComplete t s (scanNode r) = Inr (locally_complete no_overlay s r)"
proof -
  have "n_live a" if "encloses s r a" for a
    using encloses_live[OF _ assms(2-4) that] assms(1) by (simp add: readable_def)
  then show ?thesis using completion_total[OF assms(1,3), of no_overlay]
    by (auto simp: LocallyComplete_def view_NodeCompletion_def)
qed

lemma blocker_live: "e \<in> set (edges_in_force s) \<Longrightarrow> is_live s (e_blocker e)"
  by (simp add: edges_in_force_def)

lemma unmet_loop_spec:
  assumes "readable t s" "standing s" "set es \<subseteq> set (edges_in_force s)"
  shows "unmet_loop t s (map scanEdge es)
    = Inr (map scanNode (filter (\<lambda>b. \<not> locally_complete no_overlay s b) (map (\<lambda>e. node_of s (e_blocker e)) es)))"
  using assms(3)
proof (induction es)
  case (Cons e es)
  then have b: "node_of s (e_blocker e) \<in> set (nodes s)" "n_live (node_of s (e_blocker e))"
    "view_Node s (e_blocker e) = Inr (scanNode (node_of s (e_blocker e)))"
    using node_of_live[OF blocker_live] by auto
  then show ?case using Cons LocallyComplete_spec[OF assms(1,2) b(1,2)] by (simp add: scanEdge_def)
qed simp

lemma edges_loop_spec:
  assumes "readable t s" "standing s" "set es \<subseteq> set (edges_in_force s)"
  shows "edges_loop t s (map scanEdge es)
    = Inr (list_all (\<lambda>e. locally_complete no_overlay s (node_of s (e_blocker e))) es)"
  using assms(3)
proof (induction es)
  case (Cons e es)
  then have b: "node_of s (e_blocker e) \<in> set (nodes s)" "n_live (node_of s (e_blocker e))"
    "view_Node s (e_blocker e) = Inr (scanNode (node_of s (e_blocker e)))"
    using node_of_live[OF blocker_live] by auto
  then show ?case using Cons LocallyComplete_spec[OF assms(1,2) b(1,2)] by (simp add: scanEdge_def)
qed simp

lemma edgesSatisfied_spec:
  assumes "readable t s" "standing s"
  shows "edgesSatisfied t s (n_id r) = Inr (unblocked s r)"
  unfolding edgesSatisfied_def BlockedBy_def
  by (subst edges_loop_spec[OF assms]) (auto simp: unblocked_def list_all_iff)

lemma unblocked_blockers: "unblocked s r \<longleftrightarrow> list_all (locally_complete no_overlay s) (blockers s r)"
  by (auto simp: unblocked_def blockers_def list_all_iff)

lemma blocked_by_spec:
  assumes "readable t s" "standing s"
  shows "unmet_loop t s (BlockedBy s (n_id r))
    = Inr (map scanNode (filter (\<lambda>b. \<not> locally_complete no_overlay s b) (blockers s r)))"
  unfolding BlockedBy_def blockers_def by (rule unmet_loop_spec[OF assms]) auto

lemma frontier_loop_spec:
  assumes "readable t s" "standing s"
  shows "frontier_loop t s (map scanNode rs) = Inr (map scanNode (filter (unblocked s) rs),
    map (\<lambda>r. \<lparr>B_Node = scanNode r,
        B_Blockers = map scanNode (filter (\<lambda>b. \<not> locally_complete no_overlay s b) (blockers s r))\<rparr>)
      (filter (\<lambda>r. \<not> unblocked s r) rs))"
proof (induction rs)
  case (Cons r rs)
  have "filter (\<lambda>b. \<not> locally_complete no_overlay s b) (blockers s r) = [] \<longleftrightarrow> unblocked s r"
    by (simp add: unblocked_blockers filter_empty_conv list_all_iff)
  then show ?case using Cons blocked_by_spec[OF assms, of r] by simp
qed simp

theorem Frontier_spec:
  assumes "readable t s" "standing s"
  shows "Frontier t s = Inr (map scanNode (filter (unblocked s) (planned_rows s)),
    map (\<lambda>r. \<lparr>B_Node = scanNode r,
        B_Blockers = map scanNode (filter (\<lambda>b. \<not> locally_complete no_overlay s b) (blockers s r))\<rparr>)
      (filter (\<lambda>r. \<not> unblocked s r) (planned_rows s)))"
  unfolding Frontier_def view_Planned_def nodes_in_def planned_rows_def[symmetric]
  by (rule frontier_loop_spec[OF assms])


section \<open>The scheduler computes the reference\<close>

definition rows_of :: "db \<Rightarrow> string \<Rightarrow> node_row list" where
  "rows_of s m = by_sibling_order (filter (\<lambda>r. n_matter r = m \<and> n_live r) (nodes s))"

lemma MatterNodes_rows: "MatterNodes s m = map scanNode (rows_of s m)"
  by (simp add: MatterNodes_def rows_of_def)

lemma set_rows_of: "set (rows_of s m) = {r \<in> set (nodes s). n_matter r = m \<and> n_live r}"
  by (auto simp: rows_of_def by_sibling_order_def)

lemma find_row:
  "distinct (map n_id (nodes s)) \<Longrightarrow> set rs \<subseteq> set (nodes s) \<Longrightarrow> q \<in> set rs \<Longrightarrow>
    live_in (map scanNode rs) (n_id q) = Some (scanNode q)"
proof (induction rs)
  case (Cons r rs)
  then show ?case using distinct_mapD[of n_id "nodes s" r q] by (auto simp: live_in_def)
qed simp

lemma parent_in_rows:
  assumes "schema_ok s" "standing s" "r \<in> set (rows_of s m)" "n_parent r = Some p"
  shows "\<exists>q \<in> set (rows_of s m). under r q \<and> n_id q = p \<and> p \<noteq> []
    \<and> live_in (map scanNode (rows_of s m)) p = Some (scanNode q)"
proof -
  obtain q where q: "q \<in> set (nodes s)" "under r q" "n_id q = p"
    using parent_row[OF assms(1) _ assms(4)] assms(3) by (auto simp: set_rows_of)
  have "encloses s r q" using q by (auto simp: under_def intro: encloses.intros)
  then have "n_live q" using encloses_live[OF assms(1,2)] assms(3) unfolding set_rows_of by blast
  then have mem: "q \<in> set (rows_of s m)" using q assms(3) by (simp add: set_rows_of under_def)
  have "p \<noteq> []"
    using assms(1) q by (auto simp: schema_ok_def checks_ok_def node_check_def list_all_iff sql_length_def)
  moreover have "live_in (map scanNode (rows_of s m)) p = Some (scanNode q)"
    using find_row[of s "rows_of s m" q] assms(1) mem q(3)
    by (auto simp: schema_ok_def keys_ok_def set_rows_of)
  ultimately show ?thesis using mem q by blast
qed

lemma root_alone: "n_parent r = None \<Longrightarrow> encloses s r a \<longleftrightarrow> a = r"
  by (auto elim: encloses.cases intro: encloses_self)

lemma under_encloses:
  assumes "schema_ok s" "r \<in> set (nodes s)" "q \<in> set (nodes s)" "under r q"
  shows "encloses s r a \<longleftrightarrow> a = r \<or> encloses s q a"
proof -
  have "q' = q" if "q' \<in> set (nodes s)" "under r q'" for q'
    using that assms by (auto simp: under_def schema_ok_def keys_ok_def intro: distinct_mapD)
  then show ?thesis using encloses_cases[OF assms(1,2)] assms(3,4) by blast
qed

lemma chainClear_spec:
  assumes "schema_ok s" "standing s"
  shows "r \<in> set (rows_of s m) \<Longrightarrow> rank (n_kind r) \<le> k \<Longrightarrow>
    chainClear (map scanNode (rows_of s m)) (\<lambda>i. i \<in> set (map n_id (filter (unblocked s) (rows_of s m)))) k (scanNode r)
      \<longleftrightarrow> (\<forall>a. encloses s r a \<longrightarrow> unblocked s a)"
proof (induction k arbitrary: r)
  case 0
  then show ?case by (simp add: rank_def split: if_splits)
next
  case (Suc k)
  have own: "n_id r \<in> set (map n_id (filter (unblocked s) (rows_of s m))) \<longleftrightarrow> unblocked s r"
    using Suc.prems(1) assms(1) by (auto simp: set_rows_of schema_ok_def keys_ok_def dest: distinct_mapD)
  show ?case
  proof (cases "n_parent r")
    case None
    then show ?thesis using own by (simp add: root_alone)
  next
    case (Some p)
    then obtain q where q: "q \<in> set (rows_of s m)" "under r q" "n_id q = p" "p \<noteq> []"
        "live_in (map scanNode (rows_of s m)) p = Some (scanNode q)"
      using parent_in_rows[OF assms Suc.prems(1)] by blast
    then have "rank (n_kind q) \<le> k" using rank_parent[of r q] Suc.prems(2) by linarith
    then show ?thesis
      using Suc.IH[OF q(1)] own q Some under_encloses[OF assms(1), of r q] Suc.prems(1) by (auto simp: set_rows_of)
  qed
qed

lemma ancestorsEngageable_spec:
  assumes "schema_ok s" "standing s"
  shows "r \<in> set (rows_of s m) \<Longrightarrow> rank (n_kind r) \<le> k \<Longrightarrow>
    ancestorsEngageable (map scanNode (rows_of s m)) k (scanNode r)
      \<longleftrightarrow> (\<forall>a. encloses s r a \<longrightarrow> a \<noteq> r \<longrightarrow> n_lifecycle a = Planned \<or> n_lifecycle a = InProgress)"
proof (induction k arbitrary: r)
  case 0
  then show ?case by (simp add: rank_def split: if_splits)
next
  case (Suc k)
  show ?case
  proof (cases "n_parent r")
    case None
    then show ?thesis by (simp add: root_alone)
  next
    case (Some p)
    then obtain q where q: "q \<in> set (rows_of s m)" "under r q" "n_id q = p" "p \<noteq> []"
        "live_in (map scanNode (rows_of s m)) p = Some (scanNode q)"
      using parent_in_rows[OF assms Suc.prems(1)] by blast
    have "rank (n_kind q) \<le> k" "q \<noteq> r" using rank_parent[OF q(2)] Suc.prems(2) by auto
    moreover have "a \<noteq> r" if "encloses s q a" for a
      using encloses_rank[OF that] rank_parent[OF q(2)] assms(1) q(1) by (auto simp: set_rows_of schema_ok_def)
    ultimately show ?thesis
      using Suc.IH[OF q(1)] q Some under_encloses[OF assms(1), of r q] Suc.prems(1) encloses_self[of s q]
      by (auto simp: set_rows_of)
  qed
qed

lemma satisfied_loop_spec:
  assumes "readable t s" "standing s"
  shows "satisfied_loop t s (map scanNode rs) = Inr (map n_id (filter (unblocked s) rs))"
  by (induction rs) (simp_all add: edgesSatisfied_spec[OF assms])

lemma hasLiveChild_spec:
  assumes "schema_ok s" "standing s" "r \<in> set (rows_of s m)"
  shows "\<not> hasLiveChild (map scanNode (rows_of s m)) (scanNode r) \<longleftrightarrow> workable s r"
proof -
  have "n_matter c = m" if c: "c \<in> set (nodes s)" "n_parent c = Some (n_id r)" for c
  proof -
    obtain q where "q \<in> set (nodes s)" "under c q" "n_id q = n_id r" using parent_row[OF assms(1) c] by blast
    moreover from this have "q = r" using assms(1,3) by (auto simp: set_rows_of schema_ok_def keys_ok_def intro: distinct_mapD)
    ultimately show ?thesis using assms(3) by (simp add: under_def set_rows_of)
  qed
  moreover have "n_id r \<noteq> []"
    using assms(1,3) by (auto simp: set_rows_of schema_ok_def checks_ok_def node_check_def list_all_iff sql_length_def)
  moreover have "coalesce p = n_id r \<longleftrightarrow> p = Some (n_id r)" if "n_id r \<noteq> []" for p
    using that by (cases p) auto
  ultimately show ?thesis using assms(3)
    by (auto simp: hasLiveChild_def workable_def list_ex_iff set_rows_of)
qed

lemma member_spec:
  assumes "schema_ok s" "standing s" "r \<in> set (rows_of s m)"
  shows "member_ready (map scanNode (rows_of s m)) (map n_id (filter (unblocked s) (rows_of s m))) (scanNode r) \<longleftrightarrow> engageable s r"
    and "member_engaged (map scanNode (rows_of s m)) (scanNode r) \<longleftrightarrow> workable s r \<and> n_lifecycle r = InProgress"
proof -
  have "rank (n_kind r) \<le> 3" by (simp add: rank_def)
  then show "member_ready (map scanNode (rows_of s m)) (map n_id (filter (unblocked s) (rows_of s m))) (scanNode r) \<longleftrightarrow> engageable s r"
    unfolding member_ready_def engageable_def
    using chainClear_spec[OF assms] ancestorsEngageable_spec[OF assms] hasLiveChild_spec[OF assms] by simp
  show "member_engaged (map scanNode (rows_of s m)) (scanNode r) \<longleftrightarrow> workable s r \<and> n_lifecycle r = InProgress"
    unfolding member_engaged_def using hasLiveChild_spec[OF assms] by simp
qed

lemma derive_loop_spec:
  assumes "readable t s" "standing s" "list_all (is_live s) ms"
  shows "derive_loop t s ms = Inr (map (\<lambda>m. scanNode (node_of s m)) ms,
    map scanNode (concat (map (\<lambda>m. filter (engageable s) (rows_of s m)) ms)),
    map scanNode (concat (map (\<lambda>m. filter (\<lambda>r. workable s r \<and> n_lifecycle r = InProgress) (rows_of s m)) ms)))"
  using assms(3)
proof (induction ms)
  case (Cons m ms)
  have ok: "schema_ok s" using assms(1) by (simp add: readable_def)
  have "filter (member_ready (map scanNode (rows_of s m)) (map n_id (filter (unblocked s) (rows_of s m))))
      (map scanNode (rows_of s m)) = map scanNode (filter (engageable s) (rows_of s m))"
    "filter (member_engaged (map scanNode (rows_of s m))) (map scanNode (rows_of s m))
      = map scanNode (filter (\<lambda>r. workable s r \<and> n_lifecycle r = InProgress) (rows_of s m))"
    using member_spec[OF ok assms(2)] by (simp_all add: filter_map o_def cong: filter_cong)
  then show ?case
    using Cons node_of_live[of s m] satisfied_loop_spec[OF assms(1,2)] by (simp add: MatterNodes_rows Let_def)
qed simp


lemma distinct_sorted_map [simp]: "distinct (map f (sort_key k xs)) \<longleftrightarrow> distinct (map f xs)"
  by (simp add: distinct_map)

lemma distinct_rows:
  assumes "keys_ok s" "distinct ms"
  shows "distinct (map n_id (concat (map (\<lambda>m. filter P (rows_of s m)) ms)))"
  using assms(2)
proof (induction ms)
  case (Cons m ms)
  have d: "distinct (map n_id (nodes s))" using assms(1) by (simp add: keys_ok_def)
  then have "distinct (map n_id (filter P (rows_of s m)))"
    by (simp add: rows_of_def by_sibling_order_def distinct_map_filter)
  moreover have "n_id a \<noteq> n_id b" if "a \<in> set (rows_of s m)" "b \<in> set (rows_of s m')" "m' \<in> set ms" for a b m'
    using that Cons.prems distinct_mapD[OF d, of a b] by (auto simp: set_rows_of)
  ultimately show ?case using Cons by force
qed simp

lemma RunMatters_distinct:
  assumes "keys_ok s"
  shows "distinct (RunMatters s i)"
proof -
  have "distinct (map (\<lambda>r. (rmt_run r, rmt_matter r)) (filter (\<lambda>r. rmt_run r = i) (run_matters s)))"
    using assms by (simp add: keys_ok_def distinct_map_filter)
  then have "distinct (map rmt_matter (filter (\<lambda>r. rmt_run r = i) (run_matters s)))"
    by (auto simp: distinct_map inj_on_def)
  then show ?thesis by (simp add: RunMatters_def)
qed

lemma strictly_sorted: "distinct (map n_id rs) \<Longrightarrow> sorted_wrt (<) (map N_ID (sort_key N_ID (map scanNode rs)))"
  by (simp add: strict_sorted_iff o_def)

theorem Derive_spec:
  assumes "readable t s" "standing s" "list_all (is_live s) (RunMatters s (ru_id run))"
  shows "\<exists>f. Derive t s run cap = Inr f
    \<and> set (fr_Ready f) = scanNode ` {r \<in> set (nodes s). n_matter r \<in> set (RunMatters s (ru_id run)) \<and> engageable s r}
    \<and> set (fr_Engaged f) = scanNode ` {r \<in> set (nodes s). n_matter r \<in> set (RunMatters s (ru_id run))
        \<and> workable s r \<and> n_lifecycle r = InProgress}
    \<and> sorted_wrt (<) (map N_ID (fr_Ready f)) \<and> sorted_wrt (<) (map N_ID (fr_Engaged f))
    \<and> fr_Slots f = max 0 (wrap64 (cap - int (length (fr_Engaged f))))"
proof -
  have "keys_ok s" using assms(1) by (simp add: readable_def schema_ok_def)
  note distinct = distinct_rows[OF this RunMatters_distinct[OF this]]
  have live: "engageable s r \<Longrightarrow> n_live r" "workable s r \<Longrightarrow> n_live r" for r
    by (simp_all add: engageable_def workable_def)
  show ?thesis
    unfolding Derive_def derive_loop_spec[OF assms]
    using strictly_sorted[OF distinct] live by (auto simp: set_rows_of image_iff)
qed

text \<open>What the scheduler may engage the read surface calls ready.\<close>

lemma engageable_planned:
  assumes "engageable s r" "r \<in> set (nodes s)"
  shows "r \<in> set (planned_rows s) \<and> unblocked s r"
  using assms encloses_self[of s r] by (auto simp: engageable_def planned_rows_def workable_def)

lemma length_Select: "int (length (Select ready slots)) = min (int (length ready)) (max 0 slots)"
  by (auto simp: Select_def)

lemma Select_prefix: "Select ready slots = take (length (Select ready slots)) ready"
  by (simp add: Select_def)

theorem Select_within_cap:
  assumes "Derive t s run cap = Inr f" "0 \<le> cap" "cap < 2 ^ 63" "int (length (fr_Engaged f)) < 2 ^ 63"
  shows "int (length (fr_Engaged f) + length (Select (fr_Ready f) (fr_Slots f)))
    \<le> max cap (int (length (fr_Engaged f)))"
proof -
  have "fr_Slots f = max 0 (wrap64 (cap - int (length (fr_Engaged f))))"
    using assms(1) by (auto simp: Derive_def res)
  moreover have "wrap64 (cap - int (length (fr_Engaged f))) = cap - int (length (fr_Engaged f))"
    using assms(2-4) by (simp add: wrap64_def)
  ultimately show ?thesis by (simp add: length_Select)
qed


section \<open>Presentation order selects nothing\<close>

text \<open>The store with every sort key replaced.\<close>

definition rekeyed :: "(node_row \<Rightarrow> int) \<Rightarrow> node_row \<Rightarrow> node_row" where
  "rekeyed k r = r\<lparr>n_sort_key := k r\<rparr>"

definition resorted :: "(node_row \<Rightarrow> int) \<Rightarrow> db \<Rightarrow> db" where
  "resorted k s = s\<lparr>nodes := map (rekeyed k) (nodes s)\<rparr>"

lemma rekeyed_simps [simp]:
  "n_id (rekeyed k r) = n_id r" "n_kind (rekeyed k r) = n_kind r" "n_repo (rekeyed k r) = n_repo r"
  "n_matter (rekeyed k r) = n_matter r" "n_parent (rekeyed k r) = n_parent r"
  "n_lifecycle (rekeyed k r) = n_lifecycle r" "n_live (rekeyed k r) = n_live r" "n_locator (rekeyed k r) = n_locator r"
  by (simp_all add: rekeyed_def n_live_def)

lemma resorted_simps [simp]:
  "nodes (resorted k s) = map (rekeyed k) (nodes s)" "edges (resorted k s) = edges s"
  "gate_declarations (resorted k s) = gate_declarations s" "run_matters (resorted k s) = run_matters s"
  by (simp_all add: resorted_def)

lemma resorted_standing: "standing (resorted k s) \<longleftrightarrow> standing s"
  by (simp add: standing_def)

lemma resorted_is_live: "is_live (resorted k s) i = is_live s i"
  by (simp add: is_live_def list_ex_iff)

lemma resorted_force [simp]: "edges_in_force (resorted k s) = edges_in_force s"
  by (simp add: edges_in_force_def resorted_is_live)

lemma find_mapped: "List.find P (map f xs) = map_option f (List.find (\<lambda>x. P (f x)) xs)"
  by (induction xs) simp_all

lemma resorted_node_of:
  assumes "is_live s i"
  shows "node_of (resorted k s) i = rekeyed k (node_of s i)"
proof -
  have "live_row (resorted k s) i = map_option (rekeyed k) (live_row s i)" by (simp add: live_row_def find_mapped)
  moreover have "live_row s i \<noteq> None" using assms by (auto simp: is_live_def live_row_def find_None_iff list_ex_iff)
  ultimately show ?thesis by (auto simp: node_of_def)
qed

lemma resorted_gates: "gates_met ov (resorted k s) repo (rekeyed k a) = gates_met ov s repo a"
  by (simp add: gates_met_def GateSatisfied_def gate_row_exists_def GateExempt_def resorted_def)

lemma resorted_complete: "locally_complete ov (resorted k s) (rekeyed k r) = locally_complete ov s r"
  by (simp add: locally_complete_def finished_def resorted_gates)

lemma resorted_unblocked: "unblocked (resorted k s) (rekeyed k r) = unblocked s r"
  by (simp add: unblocked_def resorted_node_of blocker_live resorted_complete)

lemma resorted_workable: "workable (resorted k s) (rekeyed k r) = workable s r"
  by (simp add: workable_def)

lemma encloses_resorted: "encloses s r a \<Longrightarrow> encloses (resorted k s) (rekeyed k r) (rekeyed k a)"
proof (induction rule: encloses.induct)
  case (encloses_parent q r a)
  then show ?case using encloses.encloses_parent[of "rekeyed k q" "resorted k s" "rekeyed k r"] by simp
qed (rule encloses_self)

lemma resorted_encloses:
  assumes "encloses (resorted k s) r' a'" "r' = rekeyed k r"
  shows "\<exists>a. a' = rekeyed k a \<and> encloses s r a"
  using assms
proof (induction arbitrary: r rule: encloses.induct)
  case (encloses_parent q' r' a')
  then obtain q where "q \<in> set (nodes s)" "q' = rekeyed k q" by auto
  with encloses_parent show ?case by (metis encloses.encloses_parent rekeyed_simps(1,5))
qed (auto intro: encloses.intros)

lemma resorted_engageable:
  assumes "schema_ok s" "r \<in> set (nodes s)"
  shows "engageable (resorted k s) (rekeyed k r) = engageable s r"
proof -
  have "rekeyed k a = rekeyed k r \<longleftrightarrow> a = r" if "encloses s r a" for a
    using encloses_rank[OF that] assms by (auto simp: schema_ok_def dest: arg_cong[where f = n_kind])
  moreover have "(\<forall>a'. encloses (resorted k s) (rekeyed k r) a' \<longrightarrow> P a') \<longleftrightarrow> (\<forall>a. encloses s r a \<longrightarrow> P (rekeyed k a))" for P
    using encloses_resorted[of s r _ k] resorted_encloses[of k s "rekeyed k r" _ r] by blast
  ultimately show ?thesis by (auto simp: engageable_def resorted_workable resorted_unblocked)
qed

lemma rekeyed_rows: "{r \<in> rekeyed k ` A. P r} = rekeyed k ` {r \<in> A. P (rekeyed k r)}"
  by auto

lemma resorted_schema:
  assumes "schema_ok s"
  shows "schema_ok (resorted k s)"
proof -
  have "has_id n_id (map (rekeyed k) (nodes s)) = has_id n_id (nodes s)" by (simp add: fun_eq_iff has_id_def list_ex_iff)
  then have "refs_ok (resorted k s)" using assms
    by (simp add: schema_ok_def refs_ok_def refs_in_def ref_defs resorted_def list_all_iff rekeyed_def)
  moreover have "keys_ok (resorted k s)" using assms
    by (simp add: schema_ok_def keys_ok_def unique_on_def resorted_def o_def filter_map)
  moreover have "node_check (rekeyed k r) = node_check r" for r by (simp add: node_check_def)
  then have "checks_ok (resorted k s)" using assms
    by (simp add: schema_ok_def checks_ok_def resorted_def list_all_iff)
  moreover have "under (rekeyed k r) (rekeyed k q) = under r q" for r q by (simp add: under_def)
  then have "tree_ok (resorted k s)" using assms
    by (simp add: schema_ok_def tree_ok_def list_all_iff placed_def list_ex_iff)
  moreover have "roles_ok (resorted k s)" using assms
    by (simp add: schema_ok_def roles_ok_def resorted_def open_dispatch_def)
  ultimately show ?thesis by (simp add: schema_ok_def)
qed
lemma resorted_readable: "readable t s \<Longrightarrow> readable t (resorted k s)"
  using resorted_schema by (simp add: readable_def gate_rows_ok_def) (simp add: resorted_def)

lemma strictly_sorted_unique:
  fixes xs :: "'a::linorder list"
  shows "sorted_wrt (<) xs \<Longrightarrow> sorted_wrt (<) ys \<Longrightarrow> set xs = set ys \<Longrightarrow> xs = ys"
  by (simp add: strict_sorted_iff sorted_distinct_set_unique)

theorem Derive_ignores_sort_keys:
  assumes "readable t s" "standing s" "list_all (is_live s) (RunMatters s (ru_id run))"
  shows "\<exists>f g. Derive t s run cap = Inr f \<and> Derive t (resorted k s) run cap = Inr g
    \<and> map N_ID (fr_Ready g) = map N_ID (fr_Ready f) \<and> map N_ID (fr_Engaged g) = map N_ID (fr_Engaged f)
    \<and> fr_Slots g = fr_Slots f"
proof -
  let ?ms = "RunMatters s (ru_id run)"
  have ms: "RunMatters (resorted k s) (ru_id run) = ?ms" by (simp add: RunMatters_def)
  have ok: "schema_ok s" using assms(1) by (simp add: readable_def)
  obtain f where f: "Derive t s run cap = Inr f"
    "set (fr_Ready f) = scanNode ` {r \<in> set (nodes s). n_matter r \<in> set ?ms \<and> engageable s r}"
    "set (fr_Engaged f) = scanNode ` {r \<in> set (nodes s). n_matter r \<in> set ?ms \<and> workable s r \<and> n_lifecycle r = InProgress}"
    "sorted_wrt (<) (map N_ID (fr_Ready f))" "sorted_wrt (<) (map N_ID (fr_Engaged f))"
    "fr_Slots f = max 0 (wrap64 (cap - int (length (fr_Engaged f))))"
    using Derive_spec[OF assms] by blast
  obtain g where g: "Derive t (resorted k s) run cap = Inr g"
    "set (fr_Ready g) = scanNode ` {r \<in> set (nodes (resorted k s)). n_matter r \<in> set ?ms \<and> engageable (resorted k s) r}"
    "set (fr_Engaged g) = scanNode ` {r \<in> set (nodes (resorted k s)). n_matter r \<in> set ?ms \<and> workable (resorted k s) r \<and> n_lifecycle r = InProgress}"
    "sorted_wrt (<) (map N_ID (fr_Ready g))" "sorted_wrt (<) (map N_ID (fr_Engaged g))"
    "fr_Slots g = max 0 (wrap64 (cap - int (length (fr_Engaged g))))"
    using Derive_spec[OF resorted_readable[OF assms(1)], of k run cap, unfolded ms resorted_standing resorted_is_live[abs_def]] assms(2,3) by blast
  have "set (map N_ID (fr_Ready g)) = set (map N_ID (fr_Ready f))"
    unfolding set_map f(2) g(2) by (simp add: image_image rekeyed_rows resorted_engageable[OF ok] cong: conj_cong)
  moreover have "set (map N_ID (fr_Engaged g)) = set (map N_ID (fr_Engaged f))"
    unfolding set_map f(3) g(3) by (simp add: image_image rekeyed_rows resorted_workable)
  ultimately have "map N_ID (fr_Ready g) = map N_ID (fr_Ready f)" "map N_ID (fr_Engaged g) = map N_ID (fr_Engaged f)"
    using f(4,5) g(4,5) strictly_sorted_unique by blast+
  moreover from this(2) have "length (fr_Engaged g) = length (fr_Engaged f)" by (metis length_map)
  ultimately show ?thesis using f(1,6) g(1,6) by auto
qed


end
