(* ===== verification/ReadSurface.thy ===== *)
theory ReadSurface
  imports VerbLaws Frontier
begin

text \<open>
  The answers of the read surface (\<open>internal/readsurface\<close>): addresses, what is waiting
  (\<open>waiting.go\<close>), the content of a Repo (\<open>status.go\<close>), the fused answer of cursor and
  frontier (\<open>next.go\<close>), the hand-off after a write (\<open>handoff.go\<close>), and the two writes of the
  cursor. The resolved clone and worktree of a command (\<open>Current\<close>) is an argument.
\<close>

section \<open>Addresses\<close>

record StagePosition =
  sp_StageLocator :: string
  sp_Index :: nat
  sp_Total :: nat

text \<open>A middle dot between two blanks, in UTF-8.\<close>

definition dot :: string where
  "dot = [CHR '' '', CHR 0xC2, CHR 0xB7, CHR '' '']"

primrec sibling_number :: "string \<Rightarrow> nat \<Rightarrow> Node list \<Rightarrow> nat" where
  "sibling_number i k [] = 0"
| "sibling_number i k (n # ns) = (if N_ID n = i then Suc k else sibling_number i (Suc k) ns)"

definition Address :: "db \<Rightarrow> Node \<Rightarrow> (string \<times> StagePosition option) result" where
  "Address s n =
     (if N_Kind n = ScaleMatter then Inr (N_Locator n, None)
      else rbind (view_Node s (N_Matter n)) (\<lambda>matter.
        if N_Kind n = ScaleStage then Inr (N_Locator matter @ ''/'' @ N_Locator n, None)
        else if N_Parent n = N_ID matter then Inr (N_Locator matter @ dot @ N_Locator n, None)
        else rbind (view_Node s (N_Parent n)) (\<lambda>stage.
          let siblings = Children s (N_ID stage)
          in Inr (N_Locator matter @ ''/'' @ N_Locator stage @ dot @ N_Locator n,
               Some \<lparr>sp_StageLocator = N_Locator stage, sp_Index = sibling_number (N_ID n) 0 siblings,
                 sp_Total = length siblings\<rparr>))))"

definition resolveLocator :: "db \<Rightarrow> string \<Rightarrow> string \<Rightarrow> Node result" where
  "resolveLocator s repo locator =
     (if IsIdentityShaped locator then wip_error ''validation.unknown-locator'' (view_Node s locator)
      else let segs = split_slash locator in
        rbind (wip_error ''validation.unknown-locator'' (MatterByLocator s repo (hd segs))) (\<lambda>matter.
        if length segs = 1 then Inr matter
        else wip_error ''validation.unknown-locator'' (NodeByLocator s (N_ID matter) (last segs))))"

section \<open>When a node sealed\<close>

definition LastEventAt :: "tx \<Rightarrow> string \<Rightarrow> string list \<Rightarrow> int option" where
  "LastEventAt t subject types =
     (if types = [] then None
      else map_option ev_OccurredAt (List.find (\<lambda>e. ev_Subject e = subject \<and> ev_Type e \<in> set types) (rev (view_Events (tx_log t)))))"

definition later :: "int option \<Rightarrow> GateRequirement \<Rightarrow> int option" where
  "later at r =
     (case (if gr_State r = GateRequirementClosed then gr_ClosedAt r
            else if gr_State r = GateRequirementDismissed then gr_DismissedAt r else None) of
        None \<Rightarrow> at
      | Some x \<Rightarrow> (case at of None \<Rightarrow> Some x | Some y \<Rightarrow> if x > y then Some x else Some y))"

definition SealedAt :: "tx \<Rightarrow> db \<Rightarrow> Node \<Rightarrow> int option result" where
  "SealedAt t s n =
     (let finishedType = (if N_Kind n = ScaleMatter then TypeMatterFinished
            else if N_Kind n = ScaleStage then TypeStageFinished
            else if N_Kind n = ScaleStep then TypeStepFinished else [])
      in rbind (EffectiveGateRequirements t s n) (\<lambda>reqs. Inr (foldl later (LastEventAt t (N_ID n) [finishedType]) reqs)))"

section \<open>What is waiting\<close>

record WaitingDependency =
  wd_Blocker :: Node
  wd_Held :: "Node list"

record WaitingMatter =
  wm_Matter :: Node
  wm_Gates :: "GateRequirement list"
  wm_Dependencies :: "WaitingDependency list"

definition is_leaf :: "db \<Rightarrow> Node \<Rightarrow> bool" where
  "is_leaf s n = (N_Kind n = ScaleStep \<or> Children s (N_ID n) = [])"

definition workable_matters :: "db \<Rightarrow> string \<Rightarrow> Node list \<Rightarrow> Node list \<Rightarrow> string list" where
  "workable_matters s repo inProgress ready =
     map N_Matter (filter (\<lambda>n. N_Repo n = repo) ready)
     @ map N_Matter (filter (\<lambda>n. N_Repo n = repo \<and> is_leaf s n) inProgress)"

text \<open>Whether an ancestor, named by its identity, is blocked; the fuel is the depth of the tree.\<close>

primrec under_blocked :: "db \<Rightarrow> (string \<Rightarrow> bool) \<Rightarrow> nat \<Rightarrow> string \<Rightarrow> bool result" where
  "under_blocked s isBlocked 0 parent = Inl (ERefused ''the parent chain does not end'')"
| "under_blocked s isBlocked (Suc k) parent =
     (if parent = [] then Inr False
      else if isBlocked parent then Inr True
      else rbind (view_Node s parent) (\<lambda>p. under_blocked s isBlocked k (N_Parent p)))"

primrec actionable_loop :: "db \<Rightarrow> (Blocked \<Rightarrow> bool) \<Rightarrow> (string \<Rightarrow> bool) \<Rightarrow> Blocked list \<Rightarrow> Blocked list result" where
  "actionable_loop s inScope isBlocked [] = Inr []"
| "actionable_loop s inScope isBlocked (b # bs) =
     (if \<not> inScope b then actionable_loop s inScope isBlocked bs
      else rbind (under_blocked s isBlocked 3 (N_Parent (B_Node b))) (\<lambda>drop.
           rbind (actionable_loop s inScope isBlocked bs) (\<lambda>out. Inr (if drop then out else b # out))))"

type_synonym groups = "(string \<times> WaitingMatter) list"

definition group :: "db \<Rightarrow> string \<Rightarrow> groups \<Rightarrow> groups result" where
  "group s matter gs =
     (if map_of gs matter \<noteq> None then Inr gs
      else rbind (view_Node s matter) (\<lambda>m. Inr (gs @ [(matter, \<lparr>wm_Matter = m, wm_Gates = [], wm_Dependencies = []\<rparr>)])))"

definition in_group :: "string \<Rightarrow> (WaitingMatter \<Rightarrow> WaitingMatter) \<Rightarrow> groups \<Rightarrow> groups" where
  "in_group matter f gs = map (\<lambda>(i, w). (i, if i = matter then f w else w)) gs"

definition gate_key :: "GateRequirement \<Rightarrow> string" where
  "gate_key r = gr_Gate r @ [CHR 0x00] @ N_ID (gr_Subject r)"

definition add_gate :: "GateRequirement \<Rightarrow> WaitingMatter \<Rightarrow> WaitingMatter" where
  "add_gate r w = (if list_ex (\<lambda>q. gate_key q = gate_key r) (wm_Gates w) then w else w\<lparr>wm_Gates := wm_Gates w @ [r]\<rparr>)"

primrec gates_loop :: "db \<Rightarrow> string \<Rightarrow> GateRequirement list \<Rightarrow> groups \<Rightarrow> groups result" where
  "gates_loop s matter [] gs = Inr gs"
| "gates_loop s matter (r # rs) gs =
     (if gr_State r \<noteq> GateRequirementOpen \<or> N_Lifecycle (gr_Subject r) \<noteq> Done then gates_loop s matter rs gs
      else rbind (group s matter gs) (\<lambda>gs1. gates_loop s matter rs (in_group matter (add_gate r) gs1)))"

primrec finished_groups :: "db \<Rightarrow> string \<Rightarrow> (string \<Rightarrow> bool) \<Rightarrow> Finished list \<Rightarrow> groups \<Rightarrow> groups result" where
  "finished_groups s repo isWorkable [] gs = Inr gs"
| "finished_groups s repo isWorkable (f # fs) gs =
     (if N_Repo (F_Node f) \<noteq> repo \<or> isWorkable (N_Matter (F_Node f)) then finished_groups s repo isWorkable fs gs
      else rbind (gates_loop s (N_Matter (F_Node f)) (F_Pending f) gs) (finished_groups s repo isWorkable fs))"

primrec hold :: "Node \<Rightarrow> Node \<Rightarrow> WaitingDependency list \<Rightarrow> WaitingDependency list" where
  "hold n blocker [] = [\<lparr>wd_Blocker = blocker, wd_Held = [n]\<rparr>]"
| "hold n blocker (d # ds) =
     (if N_ID (wd_Blocker d) = N_ID blocker
      then (if list_ex (\<lambda>h. N_ID h = N_ID n) (wd_Held d) then d else d\<lparr>wd_Held := wd_Held d @ [n]\<rparr>) # ds
      else d # hold n blocker ds)"

definition hold_all :: "Blocked \<Rightarrow> WaitingMatter \<Rightarrow> WaitingMatter" where
  "hold_all b w = w\<lparr>wm_Dependencies := foldl (\<lambda>ds blocker. hold (B_Node b) blocker ds) (wm_Dependencies w) (B_Blockers b)\<rparr>"

primrec blocked_groups :: "db \<Rightarrow> Blocked list \<Rightarrow> groups \<Rightarrow> groups result" where
  "blocked_groups s [] gs = Inr gs"
| "blocked_groups s (b # bs) gs =
     rbind (group s (N_Matter (B_Node b)) gs) (\<lambda>gs1.
     blocked_groups s bs (in_group (N_Matter (B_Node b)) (hold_all b) gs1))"

definition Waiting ::
  "db \<Rightarrow> string \<Rightarrow> Node list \<Rightarrow> Node list \<Rightarrow> Finished list \<Rightarrow> Blocked list \<Rightarrow> WaitingMatter list result" where
  "Waiting s repo inProgress ready fins blocked =
     (let isWorkable = (\<lambda>m. m \<in> set (workable_matters s repo inProgress ready));
          inScope = (\<lambda>b. N_Repo (B_Node b) = repo \<and> \<not> isWorkable (N_Matter (B_Node b)));
          isBlocked = (\<lambda>i. list_ex (\<lambda>b. inScope b \<and> N_ID (B_Node b) = i) blocked)
      in rbind (actionable_loop s inScope isBlocked blocked) (\<lambda>actionable.
         rbind (finished_groups s repo isWorkable fins []) (\<lambda>gs.
         rbind (blocked_groups s actionable gs) (\<lambda>gs'. Inr (sort_key (\<lambda>w. N_ID (wm_Matter w)) (map snd gs'))))))"

section \<open>The content of a Repo\<close>

definition recentSealedWindow :: int where
  "recentSealedWindow = 14 * 24 * 3600 * 1000000000"

record ContentOptions =
  co_All :: bool
  co_Now :: int
  co_Cursor :: string

record RepoContent =
  rc_InProgress :: "Node list"
  rc_Finished :: "Finished list"
  rc_Ready :: "Node list"
  rc_Blocked :: "Blocked list"
  rc_Waiting :: "WaitingMatter list"
  rc_HiddenSealedMatters :: nat

primrec exempt_loop :: "db \<Rightarrow> nat \<Rightarrow> Node \<Rightarrow> string list result" where
  "exempt_loop s 0 n = Inl (ERefused ''the parent chain does not end'')"
| "exempt_loop s (Suc k) n =
     (if N_Parent n = [] then Inr [N_ID n]
      else rbind (view_Node s (N_Parent n)) (\<lambda>p. rbind (exempt_loop s k p) (\<lambda>is. Inr (N_ID n # is))))"

definition cursorExemptions :: "db \<Rightarrow> string \<Rightarrow> string list result" where
  "cursorExemptions s cursor =
     (if cursor = [] then Inr []
      else case view_Node s cursor of Inl _ \<Rightarrow> Inr [] | Inr n \<Rightarrow> exempt_loop s 3 n)"

primrec recent_loop :: "tx \<Rightarrow> db \<Rightarrow> (string \<Rightarrow> bool) \<Rightarrow> int \<Rightarrow> Finished list \<Rightarrow> (Finished list \<times> nat) result" where
  "recent_loop t s exempt cutoff [] = Inr ([], 0)"
| "recent_loop t s exempt cutoff (f # fs) =
     rbind (if N_Kind (F_Node f) = ScaleMatter \<and> F_Sealed f \<and> \<not> exempt (N_ID (F_Node f))
            then rbind (SealedAt t s (F_Node f)) (\<lambda>at.
                 Inr (case at of Some x \<Rightarrow> x * 1000000 < cutoff | None \<Rightarrow> False))
            else Inr False) (\<lambda>hide.
     rbind (recent_loop t s exempt cutoff fs) (\<lambda>(kept, hidden).
     Inr (if hide then (kept, Suc hidden) else (f # kept, hidden))))"

definition in_repo :: "string \<Rightarrow> Node list \<Rightarrow> Node list" where
  "in_repo repo ns = filter (\<lambda>n. N_Repo n = repo) ns"

definition blocked_in_repo :: "string \<Rightarrow> Blocked list \<Rightarrow> Blocked list" where
  "blocked_in_repo repo bs = filter (\<lambda>b. N_Repo (B_Node b) = repo) bs"

definition read_Content :: "tx \<Rightarrow> db \<Rightarrow> string \<Rightarrow> ContentOptions \<Rightarrow> RepoContent result" where
  "read_Content t s repo opts =
     (let inProgress = view_InProgress s in
      rbind (FinishedNodes t s) (\<lambda>fins.
      rbind (Frontier t s) (\<lambda>(ready, blocked).
      rbind (Waiting s repo inProgress ready fins blocked) (\<lambda>waiting.
      let mine = filter (\<lambda>f. N_Repo (F_Node f) = repo) fins in
      rbind (if co_All opts then Inr (mine, 0)
             else rbind (cursorExemptions s (co_Cursor opts)) (\<lambda>ex.
                  rbind (CollapseFinished s mine (\<lambda>i. i \<in> set ex)) (\<lambda>collapsed.
                  recent_loop t s (\<lambda>i. i \<in> set ex) (co_Now opts - recentSealedWindow) collapsed))) (\<lambda>(kept, hidden).
      rbind (CollapseReady s (in_repo repo ready)) (\<lambda>readyHere.
      Inr \<lparr>rc_InProgress = in_repo repo inProgress, rc_Finished = kept, rc_Ready = readyHere,
        rc_Blocked = blocked_in_repo repo blocked, rc_Waiting = waiting, rc_HiddenSealedMatters = hidden\<rparr>))))))"

section \<open>What is next\<close>

record Current =
  cur_Repo :: string
  cur_Clone :: string
  cur_Worktree :: string

definition Current_Env :: "Current \<Rightarrow> Env" where
  "Current_Env c = \<lparr>env_Repo = cur_Repo c, env_Clone = cur_Clone c, env_Worktree = cur_Worktree c\<rparr>"

datatype NextView =
    BareMatter Node string "Node list" "Node list" "GateRequirement list"
  | Positioned Node string "StagePosition option" "Node list" "Node list" "GateRequirement list"
  | NothingUnblocked "Blocked list" "WaitingMatter list"
  | NoCursor "Node list"
  | EverythingSealed nat
  | InProgressNoCursor "Node list"
  | ChooseNext "Node option" string "Node list" "Node list" "WaitingMatter list"

definition waitingForRepo :: "tx \<Rightarrow> db \<Rightarrow> string \<Rightarrow> Blocked list \<Rightarrow> WaitingMatter list result" where
  "waitingForRepo t s repo blocked =
     rbind (FinishedNodes t s) (\<lambda>fins.
     rbind (Frontier t s) (\<lambda>(ready, _). Waiting s repo (view_InProgress s) ready fins blocked))"

definition chooseNextView :: "tx \<Rightarrow> db \<Rightarrow> string \<Rightarrow> Node option \<Rightarrow> string \<Rightarrow> Node list \<Rightarrow> Blocked list \<Rightarrow> NextView result" where
  "chooseNextView t s repo node reason candidates blocked =
     (let inProgress = in_repo repo (view_InProgress s) in
      rbind (if candidates = [] \<and> inProgress = [] then waitingForRepo t s repo blocked else Inr []) (\<lambda>waiting.
      Inr (ChooseNext node reason candidates inProgress waiting)))"

definition noCursorView :: "tx \<Rightarrow> db \<Rightarrow> string \<Rightarrow> Node list \<Rightarrow> Blocked list \<Rightarrow> NextView result" where
  "noCursorView t s repo ready blocked =
     (if ready \<noteq> [] then Inr (NoCursor ready)
      else rbind (if blocked \<noteq> [] then waitingForRepo t s repo blocked else Inr []) (\<lambda>waiting.
        if blocked \<noteq> [] \<and> waiting \<noteq> [] then Inr (NothingUnblocked blocked waiting)
        else let inRepo = in_repo repo (view_InProgress s) in
          if inRepo \<noteq> [] then Inr (InProgressNoCursor inRepo)
          else rbind (waitingForRepo t s repo []) (\<lambda>waiting'.
            if waiting' \<noteq> [] then Inr (NothingUnblocked [] waiting')
            else Inr (EverythingSealed (length (filter (\<lambda>b. b_state b = ''entered'') (Backlog s repo)))))))"

primrec met_loop :: "tx \<Rightarrow> db \<Rightarrow> Edge list \<Rightarrow> (Node list \<times> Node list) result" where
  "met_loop t s [] = Inr ([], [])"
| "met_loop t s (e # es) =
     rbind (view_Node s (E_Blocker e)) (\<lambda>blocker.
     rbind (LocallyComplete t s blocker) (\<lambda>ok.
     rbind (met_loop t s es) (\<lambda>(unmet, met). Inr (if ok then (unmet, blocker # met) else (blocker # unmet, met)))))"

definition positionedView :: "tx \<Rightarrow> db \<Rightarrow> Node \<Rightarrow> NextView result" where
  "positionedView t s target =
     rbind (Address s target) (\<lambda>(address, stage).
     rbind (met_loop t s (BlockedBy s (N_ID target))) (\<lambda>(unmet, met).
     rbind (view_NodeCompletion t s target) (\<lambda>c.
     Inr (if N_Kind target = ScaleMatter \<and> Children s (N_ID target) = []
          then BareMatter target address unmet met (nc_Pending c)
          else Positioned target address stage unmet met (nc_Pending c)))))"

definition read_next :: "tx \<Rightarrow> db \<Rightarrow> Current \<Rightarrow> NextView result" where
  "read_next t s cur =
     rbind (Frontier t s) (\<lambda>(ready, blocked).
     rbind (CollapseReady s (in_repo (cur_Repo cur) ready)) (\<lambda>readyInRepo.
     let blockedInRepo = blocked_in_repo (cur_Repo cur) blocked in
     case Cursor s (cur_Clone cur) (cur_Worktree cur) of
       None \<Rightarrow> noCursorView t s (cur_Repo cur) readyInRepo blockedInRepo
     | Some node \<Rightarrow>
         (case view_Node s node of
            Inl _ \<Rightarrow> chooseNextView t s (cur_Repo cur) None ''removed'' readyInRepo blockedInRepo
          | Inr target \<Rightarrow>
              if N_Lifecycle target = Canceled
              then chooseNextView t s (cur_Repo cur) (Some target) ''canceled'' readyInRepo blockedInRepo
              else rbind (Sealed t s target) (\<lambda>sealed.
                if sealed then chooseNextView t s (cur_Repo cur) (Some target) ''sealed'' readyInRepo blockedInRepo
                else positionedView t s target))))"

section \<open>The hand-off\<close>

record CursorEnded =
  ce_Reason :: string
  ce_Target :: "Node option"
  ce_Suggested :: "Node option"

definition readySiblingStep :: "tx \<Rightarrow> db \<Rightarrow> Node \<Rightarrow> Node option result" where
  "readySiblingStep t s target =
     rbind (Frontier t s) (\<lambda>(ready, _).
     Inr (List.find (\<lambda>n. N_Kind n = ScaleStep \<and> N_Parent n = N_Parent target) ready))"

definition EndedCursor :: "tx \<Rightarrow> db \<Rightarrow> string \<Rightarrow> string \<Rightarrow> CursorEnded option result" where
  "EndedCursor t s clone worktree =
     (case Cursor s clone worktree of
        None \<Rightarrow> Inr None
      | Some node \<Rightarrow>
          (case view_Node s node of
             Inl _ \<Rightarrow> Inr (Some \<lparr>ce_Reason = ''removed'', ce_Target = None, ce_Suggested = None\<rparr>)
           | Inr target \<Rightarrow>
               if N_Lifecycle target = Canceled
               then Inr (Some \<lparr>ce_Reason = ''canceled'', ce_Target = Some target, ce_Suggested = None\<rparr>)
               else rbind (Sealed t s target) (\<lambda>sealed.
                 if \<not> sealed then Inr None
                 else if N_Kind target = ScaleStep \<and> N_Parent target \<noteq> []
                 then rbind (readySiblingStep t s target) (\<lambda>next_step.
                   Inr (Some \<lparr>ce_Reason = ''sealed'', ce_Target = Some target, ce_Suggested = next_step\<rparr>))
                 else Inr (Some \<lparr>ce_Reason = ''sealed'', ce_Target = Some target, ce_Suggested = None\<rparr>))))"

section \<open>The writes of the cursor\<close>

definition cursor_plan :: "Current \<Rightarrow> string \<Rightarrow> unit plan" where
  "cursor_plan cur target = from_db (\<lambda>t s.
     Inr ([draft TypeCursorMoved (cur_Worktree cur) (marshal_CursorMoved \<lparr>cm_Node = target,
       cm_Previous = (case Cursor s (cur_Clone cur) (cur_Worktree cur) of Some i \<Rightarrow> i | None \<Rightarrow> [])\<rparr>)], ()))"

definition setCursor :: "Actor \<Rightarrow> Current \<Rightarrow> string \<Rightarrow> store \<Rightarrow> store \<times> Node result" where
  "setCursor actor cur locator st =
     (case resolveLocator (st_db st) (cur_Repo cur) locator of
        Inl e \<Rightarrow> (st, Inl e)
      | Inr target \<Rightarrow> commit_plan (request actor (Current_Env cur)) (cursor_plan cur (N_ID target)) (\<lambda>_ _. Inr target) st)"

definition clear_plan :: "Current \<Rightarrow> string \<Rightarrow> unit plan" where
  "clear_plan cur node = from_db (\<lambda>t s.
     Inr ([draft TypeCursorMoved (cur_Worktree cur) (marshal_CursorMoved \<lparr>cm_Node = [], cm_Previous = node\<rparr>)], ()))"

definition clearCursor :: "Actor \<Rightarrow> Current \<Rightarrow> store \<Rightarrow> store \<times> string result" where
  "clearCursor actor cur st =
     (case Cursor (st_db st) (cur_Clone cur) (cur_Worktree cur) of
        None \<Rightarrow> (st, Inr [])
      | Some node \<Rightarrow> commit_plan (request actor (Current_Env cur)) (clear_plan cur node) (\<lambda>_ _. Inr node) st)"


section \<open>The cursor is where it was put\<close>

lemma Commit_single_env:
  assumes "Commit req decide st = (st', Inr [e])" "dr_Env d = None" "requiredDimensions (dr_Type d) = Inr rule"
    and "\<And>m ds. decide (tx_of st) (st_db st) (st_mint st) = (m, Inr ds) \<Longrightarrow> ds = [d]"
  shows "ev_Clone e = (if et_Clone rule then env_Clone (rq_Env req) else [])
    \<and> ev_Worktree e = (if et_Worktree rule then env_Worktree (rq_Env req) else [])"
proof -
  obtain m m' ds evs s where dec: "decide (tx_of st) (st_db st) (st_mint st) = (m, Inr ds)"
    and "commit_loop req ds [] m (st_log st, st_db st) = (m', Inr ([e], evs, s))"
    using assms(1) by (auto simp: Commit_def tx_of_def split: if_splits sum.splits prod.splits)
  then have "commit_loop req [d] [] m (st_log st, st_db st) = (m', Inr ([e], evs, s))" using assms(4) by simp
  then obtain ident ev where "stamped req d rule ident = Inr ev" "chain [] d ev = Inr e"
    using assms(3) by (auto simp: stamp_def record_event_def res split: sum.splits prod.splits if_splits)
  then show ?thesis
    using assms(2) by (auto simp: stamped_def stamp_dimensions_def chain_def res Let_def split: if_splits)
qed

lemma find_upd_rows:
  "(\<And>r. p (f r) = p r) \<Longrightarrow> List.find p (upd_rows p f rs) = map_option f (List.find p rs)"
  by (induction rs) (auto simp: upd_rows_def)

lemma find_snoc: "List.find p (xs @ [x]) = (if List.find p xs = None then (if p x then Some x else None) else List.find p xs)"
  by (induction xs) auto

lemma upsert_cursor_reads:
  assumes "upsert_cursor t r s = Inr s'"
  shows "Cursor s' (cu_clone r) (cu_worktree r) = cu_node r \<and> nodes s' = nodes s"
proof -
  let ?p = "\<lambda>q. cu_clone q = cu_clone r \<and> cu_worktree q = cu_worktree r"
  let ?f = "\<lambda>q. q\<lparr>cu_node := cu_node r, cu_last := cu_last r\<rparr>"
  have f: "List.find ?p (upd_rows ?p ?f (cursors s)) = map_option ?f (List.find ?p (cursors s))"
    by (rule find_upd_rows) simp
  have "nodes s' = nodes s" and
    "cursors s' = (if list_ex ?p (cursors s) then upd_rows ?p ?f (cursors s) else cursors s @ [r])"
    using assms by (auto simp: upsert_cursor_def res Let_def split: if_splits)
  moreover have "list_ex ?p (cursors s) \<longleftrightarrow> List.find ?p (cursors s) \<noteq> None"
    by (auto simp: find_None_iff list_ex_iff)
  ultimately show ?thesis using f
    by (cases "List.find ?p (cursors s)") (auto simp: Cursor_def find_snoc)
qed


lemma cursor_dimensions:
  "requiredDimensions TypeCursorMoved = Inr (execution TypeCursorMoved FamilyCursor)"
  "et_Clone (execution TypeCursorMoved FamilyCursor)" "et_Worktree (execution TypeCursorMoved FamilyCursor)"
  by code_simp+

lemma moved_cursor:
  assumes "store_ok st" "Commit (request actor (Current_Env cur)) decide st = (st', Inr events)" "minting decide"
    and one: "\<And>m ds. decide (tx_of st) (st_db st) (st_mint st) = (m, Inr ds)
      \<Longrightarrow> ds = [draft TypeCursorMoved (cur_Worktree cur) (marshal_CursorMoved p)]"
  shows "Cursor (st_db st') (cur_Clone cur) (cur_Worktree cur) = nullable (cm_Node p) \<and> nodes (st_db st') = nodes (st_db st)"
proof -
  let ?d = "draft TypeCursorMoved (cur_Worktree cur) (marshal_CursorMoved p)"
  obtain e where e: "events = [e]" "ev_Type e = TypeCursorMoved" "ev_Subject e = cur_Worktree cur"
      "ev_Payload e = marshal_CursorMoved p"
      "applyEvent \<lparr>tx_log = st_log st @ [e], tx_defer = False\<rparr> e (st_db st) = Inr (st_db st')"
    using Commit_single[where d = ?d, OF assms(1,3,2)] one by (simp add: draft_def) blast
  have env: "ev_Clone e = cur_Clone cur" "ev_Worktree e = cur_Worktree cur"
    using Commit_single_env[where d = ?d and rule = "execution TypeCursorMoved FamilyCursor", OF assms(2)[unfolded e(1)]]
      cursor_dimensions one by (simp_all add: draft_def request_def Current_Env_def)
  have "moveCursor \<lparr>tx_log = st_log st @ [e], tx_defer = False\<rparr> e (st_db st) = Inr (st_db st')"
    using e(5) by (simp add: applyEvent_def transition_types_def tokens e(2))
  then have "upsert_cursor \<lparr>tx_log = st_log st @ [e], tx_defer = False\<rparr> \<lparr>cu_clone = cur_Clone cur,
      cu_worktree = cur_Worktree cur, cu_node = nullable (cm_Node p), cu_last = ev_ID e\<rparr> (st_db st) = Inr (st_db st')"
    by (simp add: moveCursor_def env e(3,4) payload_rt)
  then show ?thesis using upsert_cursor_reads by fastforce
qed

lemma commit_plan_Inr:
  assumes "commit_plan req p k st = (st', Inr x)"
  obtains events where "Commit req (decides p) st = (st', Inr events)"
  using assms by (auto simp: commit_plan_def split: prod.splits sum.splits)

lemma setCursor_reads_back:
  assumes "store_ok st" "setCursor actor cur locator st = (st', Inr target)"
  shows "Cursor (st_db st') (cur_Clone cur) (cur_Worktree cur) = nullable (N_ID target) \<and> nodes (st_db st') = nodes (st_db st)
    \<and> resolveLocator (st_db st) (cur_Repo cur) locator = Inr target"
proof -
  have t: "resolveLocator (st_db st) (cur_Repo cur) locator = Inr target"
    and c: "commit_plan (request actor (Current_Env cur)) (cursor_plan cur (N_ID target)) (\<lambda>_ _. Inr target) st = (st', Inr target)"
    using assms(2) by (auto simp: setCursor_def commit_plan_def res split: sum.splits prod.splits)
  obtain events where ev: "Commit (request actor (Current_Env cur)) (decides (cursor_plan cur (N_ID target))) st = (st', Inr events)"
    using c by (rule commit_plan_Inr)
  show ?thesis
    using moved_cursor[OF assms(1) ev, where p = "\<lparr>cm_Node = N_ID target, cm_Previous
        = (case Cursor (st_db st) (cur_Clone cur) (cur_Worktree cur) of Some i \<Rightarrow> i | None \<Rightarrow> [])\<rparr>"] t
    by (simp add: minting_decides cursor_plan_def sound_from_db) (simp add: decides_def from_db_def)
qed

lemma clearCursor_clears:
  assumes "store_ok st" "clearCursor actor cur st = (st', Inr node)"
  shows "Cursor (st_db st') (cur_Clone cur) (cur_Worktree cur) = None \<and> nodes (st_db st') = nodes (st_db st)"
proof (cases "Cursor (st_db st) (cur_Clone cur) (cur_Worktree cur)")
  case None
  then show ?thesis using assms(2) by (simp add: clearCursor_def)
next
  case (Some i)
  then obtain events where ev: "Commit (request actor (Current_Env cur)) (decides (clear_plan cur i)) st = (st', Inr events)"
    using assms(2) by (auto simp: clearCursor_def elim: commit_plan_Inr)
  show ?thesis
    using moved_cursor[OF assms(1) ev, where p = "\<lparr>cm_Node = [], cm_Previous = i\<rparr>"]
    by (simp add: minting_decides clear_plan_def sound_from_db nullable_def) (simp add: decides_def from_db_def)
qed

lemma resolveLocator_row:
  assumes "resolveLocator s repo locator = Inr n"
  shows "\<exists>r \<in> set (nodes s). n_live r \<and> n = scanNode r"
  using assms
  by (auto simp: resolveLocator_def view_Node_def MatterByLocator_def NodeByLocator_def wip_error_def res Let_def
      split: if_splits list.splits sum.splits dest!: live_row_Some find_Some_iff_mem)

section \<open>The two writes keep the contract of a verb\<close>

lemma quiet_cursor: "quiet_plan (cursor_plan cur target)" "quiet_plan (clear_plan cur node)"
  by (auto simp: cursor_plan_def clear_plan_def plain_def tokens intro!: quiet_from_db)

lemma sound_cursor: "sound_plan (cursor_plan cur target)" "sound_plan (clear_plan cur node)"
  by (simp_all add: cursor_plan_def clear_plan_def sound_from_db)

interpretation setCursor: verb "setCursor actor cur locator"
  by (rule verbI) (simp add: setCursor_def quiet_cursor sound_cursor split: sum.splits)
interpretation clearCursor: verb "clearCursor actor cur"
  by (rule verbI) (simp add: clearCursor_def quiet_cursor sound_cursor split: option.splits)

section \<open>The outermost of a list\<close>

definition ancestor :: "db \<Rightarrow> node_row \<Rightarrow> node_row \<Rightarrow> bool" where
  "ancestor s r a \<longleftrightarrow> encloses s r a \<and> a \<noteq> r"

lemma ancestor_parent:
  assumes "schema_ok s" "r \<in> set (nodes s)" "q \<in> set (nodes s)" "under r q"
  shows "ancestor s r a \<longleftrightarrow> a = q \<or> ancestor s q a"
proof -
  have "rank (n_kind q) < rank (n_kind r)" using rank_parent[OF assms(4)] by simp
  then have "a \<noteq> r" if "encloses s q a" for a
    using encloses_rank[OF that] assms(1,3) by (auto simp: schema_ok_def)
  then show ?thesis using under_encloses[OF assms] encloses_self[of s q] by (auto simp: ancestor_def)
qed

lemma ancestor_root: "n_parent r = None \<Longrightarrow> \<not> ancestor s r a"
  by (simp add: ancestor_def root_alone)

lemma ancestor_rank:
  assumes "ancestor s r a" "schema_ok s" "r \<in> set (nodes s)"
  shows "a \<in> set (nodes s)" "rank (n_kind a) < rank (n_kind r)"
  using assms encloses_rank[of s r a] by (auto simp: ancestor_def schema_ok_def)

lemma parent_view:
  assumes "schema_ok s" "standing s" "r \<in> set (nodes s)" "n_live r" "n_parent r = Some p"
  obtains q where "q \<in> set (nodes s)" "under r q" "n_id q = p" "p \<noteq> []" "n_live q" "view_Node s p = Inr (scanNode q)"
proof -
  obtain q where q: "q \<in> set (nodes s)" "under r q" "n_id q = p" using parent_row[OF assms(1,3,5)] by blast
  have "n_kind q \<noteq> ScaleStep" using rank_parent[OF q(2)] by (auto simp: rank_def tokens split: if_splits)
  then have "n_live q" using assms(2) q(1) unfolding standing_def by blast
  moreover have "p \<noteq> []"
    using assms(1) q(1,3) by (auto simp: schema_ok_def checks_ok_def node_check_def list_all_iff sql_length_def)
  moreover have "view_Node s p = Inr (scanNode q)"
    using view_Node_row[of s q] assms(1) q calculation by (auto simp: schema_ok_def)
  ultimately show thesis using that q by blast
qed

lemma covered_spec:
  assumes "schema_ok s" "standing s"
  shows "r \<in> set (nodes s) \<Longrightarrow> n_live r \<Longrightarrow> rank (n_kind r) \<le> k \<Longrightarrow>
    covered s marked k (scanNode r) = Inr (\<exists>a. ancestor s r a \<and> marked (n_id a))"
proof (induction k arbitrary: r)
  case 0
  then show ?case by (simp add: rank_def split: if_splits)
next
  case (Suc k)
  show ?case
  proof (cases "n_parent r")
    case None
    then show ?thesis by (simp add: ancestor_root)
  next
    case (Some p)
    obtain q where q: "q \<in> set (nodes s)" "under r q" "n_id q = p" "p \<noteq> []" "n_live q" "view_Node s p = Inr (scanNode q)"
      using parent_view[OF assms Suc.prems(1,2) Some] .
    then show ?thesis
      using Suc.IH[of q] rank_parent[OF q(2)] Suc.prems Some ancestor_parent[OF assms(1) Suc.prems(1) q(1,2)] by auto
  qed
qed

lemma under_blocked_spec:
  assumes "schema_ok s" "standing s"
  shows "r \<in> set (nodes s) \<Longrightarrow> n_live r \<Longrightarrow> rank (n_kind r) \<le> k \<Longrightarrow>
    under_blocked s isBlocked k (N_Parent (scanNode r)) = Inr (\<exists>a. ancestor s r a \<and> isBlocked (n_id a))"
proof (induction k arbitrary: r)
  case 0
  then show ?case by (simp add: rank_def split: if_splits)
next
  case (Suc k)
  show ?case
  proof (cases "n_parent r")
    case None
    then show ?thesis by (simp add: ancestor_root)
  next
    case (Some p)
    obtain q where q: "q \<in> set (nodes s)" "under r q" "n_id q = p" "p \<noteq> []" "n_live q" "view_Node s p = Inr (scanNode q)"
      using parent_view[OF assms Suc.prems(1,2) Some] .
    then show ?thesis
      using Suc.IH[of q] rank_parent[OF q(2)] Suc.prems Some ancestor_parent[OF assms(1) Suc.prems(1) q(1,2)] by auto
  qed
qed

text \<open>The rows of a list that no other row of the list is above.\<close>

definition outermost :: "db \<Rightarrow> node_row list \<Rightarrow> node_row \<Rightarrow> bool" where
  "outermost s rs r \<longleftrightarrow> r \<in> set rs \<and> (\<forall>a \<in> set rs. \<not> ancestor s r a)"

lemma ancestor_trans:
  assumes "ancestor s r a" "ancestor s a b" "schema_ok s" "r \<in> set (nodes s)"
  shows "ancestor s r b"
proof -
  have "encloses s r a" "encloses s a b" using assms(1,2) by (simp_all add: ancestor_def)
  then have "encloses s r b"
  proof (induction rule: encloses.induct)
    case (encloses_parent q r a)
    then show ?case by (metis encloses.encloses_parent)
  qed
  moreover have "b \<noteq> r" using ancestor_rank[OF assms(1,3,4)] ancestor_rank[OF assms(2,3)] by fastforce
  ultimately show ?thesis by (simp add: ancestor_def)
qed

lemma outermost_covers:
  assumes "schema_ok s" "set rs \<subseteq> set (nodes s)"
  shows "r \<in> set rs \<Longrightarrow> \<exists>a. outermost s rs a \<and> (a = r \<or> ancestor s r a)"
proof (induction "rank (n_kind r)" arbitrary: r rule: less_induct)
  case less
  show ?case
  proof (cases "outermost s rs r")
    case False
    then obtain a where a: "a \<in> set rs" "ancestor s r a" using less.prems by (auto simp: outermost_def)
    have r: "r \<in> set (nodes s)" using less.prems assms(2) by blast
    obtain b where "outermost s rs b" "b = a \<or> ancestor s a b"
      using less.hyps[OF ancestor_rank(2)[OF a(2) assms(1) r] a(1)] by blast
    then show ?thesis using ancestor_trans[OF a(2) _ assms(1) r] a(2) by blast
  qed blast
qed

lemma collapse_loop_spec:
  assumes "schema_ok s" "standing s"
  shows "\<forall>r \<in> set rs. r \<in> set (nodes s) \<and> n_live r \<Longrightarrow> collapse_loop s marked (map scanNode rs)
    = Inr (map scanNode (filter (\<lambda>r. \<not> (\<exists>a. ancestor s r a \<and> marked (n_id a))) rs))"
proof (induction rs)
  case (Cons r rs)
  then show ?case using covered_spec[OF assms, of r 3 marked] by (simp add: rank_def)
qed simp

lemma marked_rows:
  assumes "schema_ok s" "set rs \<subseteq> set (nodes s)" "r \<in> set (nodes s)"
  shows "(\<exists>a. ancestor s r a \<and> n_id a \<in> n_id ` set rs) \<longleftrightarrow> (\<exists>a \<in> set rs. ancestor s r a)"
proof
  assume "\<exists>a. ancestor s r a \<and> n_id a \<in> n_id ` set rs"
  then obtain a b where ab: "ancestor s r a" "b \<in> set rs" "n_id a = n_id b" by auto
  have "a \<in> set (nodes s)" using ancestor_rank(1)[OF ab(1) assms(1,3)] .
  then have "a = b" using ab(2,3) assms(1,2) by (auto simp: schema_ok_def keys_ok_def intro: distinct_mapD)
  then show "\<exists>a \<in> set rs. ancestor s r a" using ab by blast
qed auto

lemma CollapseReady_spec:
  assumes "schema_ok s" "standing s" "\<forall>r \<in> set rs. r \<in> set (nodes s) \<and> n_live r"
  shows "CollapseReady s (map scanNode rs) = Inr (map scanNode (filter (outermost s rs) rs))"
proof -
  have "filter (\<lambda>r. \<not> (\<exists>a. ancestor s r a \<and> n_id a \<in> n_id ` set rs)) rs = filter (outermost s rs) rs"
    using marked_rows[OF assms(1), of rs] assms(3) by (intro filter_cong) (auto simp: outermost_def)
  then show ?thesis
    using collapse_loop_spec[OF assms, of "\<lambda>i. i \<in> n_id ` set rs"] by (simp add: CollapseReady_def image_image)
qed

lemma no_outermost:
  assumes "schema_ok s" "set rs \<subseteq> set (nodes s)" "filter (outermost s rs) rs = []"
  shows "rs = []"
proof (rule ccontr)
  assume "rs \<noteq> []"
  then have "hd rs \<in> set rs" by simp
  then obtain a where "outermost s rs a" using outermost_covers[OF assms(1,2)] by blast
  then show False using assms(3) by (auto simp: filter_empty_conv outermost_def)
qed

section \<open>When everything is sealed\<close>

lemma group_grows: "group s m gs = Inr gs' \<Longrightarrow> gs' \<noteq> []"
  by (auto simp: group_def res split: if_splits)

lemma in_group_Nil [simp]: "in_group m f gs = [] \<longleftrightarrow> gs = []"
  by (simp add: in_group_def)

lemma blocked_groups_grow:
  "blocked_groups s bs gs = Inr gs' \<Longrightarrow> bs \<noteq> [] \<or> gs \<noteq> [] \<Longrightarrow> gs' \<noteq> []"
proof (induction bs arbitrary: gs)
  case (Cons b bs)
  then show ?case using group_grows[of s "N_Matter (B_Node b)" gs] by (fastforce simp: res)
qed simp

lemma scanNode_inj:
  assumes "keys_ok s" "r \<in> set (nodes s)" "q \<in> set (nodes s)" "scanNode r = scanNode q"
  shows "r = q"
proof -
  have "distinct (map n_id (nodes s))" using assms(1) unfolding keys_ok_def by blast
  moreover have "n_id r = n_id q" using arg_cong[OF assms(4), of N_ID] unfolding scanNode_simps .
  ultimately show ?thesis using distinct_mapD assms(2,3) by metis
qed

lemma actionable_loop_spec:
  assumes "schema_ok s" "standing s"
  shows "\<forall>b \<in> set bs. \<exists>r \<in> set (nodes s). n_live r \<and> B_Node b = scanNode r \<Longrightarrow>
    actionable_loop s inScope isBlocked bs = Inr acts \<Longrightarrow>
    set acts = {b \<in> set bs. inScope b \<and> (\<exists>r \<in> set (nodes s). B_Node b = scanNode r \<and> \<not> (\<exists>a. ancestor s r a \<and> isBlocked (n_id a)))}"
proof (induction bs arbitrary: acts)
  case (Cons b bs)
  obtain r where r: "r \<in> set (nodes s)" "n_live r" "B_Node b = scanNode r" using Cons.prems(1) by auto
  have same: "q = r" if "q \<in> set (nodes s)" "scanNode q = scanNode r" for q
    using scanNode_inj[of s q r] that r(1) assms(1) by (simp add: schema_ok_def)
  have u: "under_blocked s isBlocked 3 (N_Parent (B_Node b)) = Inr (\<exists>a. ancestor s r a \<and> isBlocked (n_id a))"
    unfolding r(3) using under_blocked_spec[OF assms r(1,2)] by (simp add: rank_def)
  show ?case
  proof (cases "inScope b")
    case True
    then obtain out where "actionable_loop s inScope isBlocked bs = Inr out"
        "acts = (if \<exists>a. ancestor s r a \<and> isBlocked (n_id a) then out else b # out)"
      using Cons.prems(2) u by (auto simp: res)
    moreover have "(\<exists>q \<in> set (nodes s). B_Node b = scanNode q \<and> \<not> (\<exists>a. ancestor s q a \<and> isBlocked (n_id a)))
        \<longleftrightarrow> \<not> (\<exists>a. ancestor s r a \<and> isBlocked (n_id a))" using r same by metis
    ultimately show ?thesis using Cons.IH[of out] Cons.prems(1) True by (simp add: Collect_disj_eq conj_disj_distribR) blast
  qed (use Cons in auto)
qed simp

lemma Waiting_blocked:
  assumes "schema_ok s" "standing s" "rs \<noteq> []" "set rs \<subseteq> set (nodes s)" "\<forall>r \<in> set rs. n_live r \<and> n_repo r = repo"
    and idle: "workable_matters s repo inProgress ready = []"
    and bs: "map B_Node bs = map scanNode rs"
    and w: "Waiting s repo inProgress ready fins bs = Inr ws"
  shows "ws \<noteq> []"
proof -
  let ?scope = "\<lambda>b. N_Repo (B_Node b) = repo \<and> N_Matter (B_Node b) \<notin> set (workable_matters s repo inProgress ready)"
  let ?blocked = "\<lambda>i. list_ex (\<lambda>b. ?scope b \<and> N_ID (B_Node b) = i) bs"
  obtain acts gs gs' where acts: "actionable_loop s ?scope ?blocked bs = Inr acts"
    and gs: "blocked_groups s acts gs = Inr gs'" "ws = sort_key (\<lambda>w. N_ID (wm_Matter w)) (map snd gs')"
    using w by (auto simp: Waiting_def res Let_def)
  have rows: "B_Node ` set bs = scanNode ` set rs" using bs by (metis list.set_map)
  have "hd rs \<in> set rs" using assms(3) by simp
  then obtain r where r: "outermost s rs r" using outermost_covers[OF assms(1,4)] by blast
  then obtain b where b: "b \<in> set bs" "B_Node b = scanNode r" using rows unfolding outermost_def by (metis imageE imageI)
  have "?blocked i \<longleftrightarrow> i \<in> n_id ` set rs" for i
  proof -
    have "?blocked i \<longleftrightarrow> (\<exists>n \<in> B_Node ` set bs. N_Repo n = repo \<and> N_ID n = i)" by (auto simp: list_ex_iff idle)
    then show ?thesis unfolding rows using assms(5) by auto
  qed
  moreover have "r \<in> set (nodes s)" using r assms(4) by (auto simp: outermost_def)
  ultimately have "\<not> (\<exists>a. ancestor s r a \<and> ?blocked (n_id a))"
    using marked_rows[OF assms(1,4)] r by (auto simp: outermost_def)
  moreover have live: "\<forall>b \<in> set bs. \<exists>r \<in> set (nodes s). n_live r \<and> B_Node b = scanNode r"
    using rows assms(4,5) by blast
  moreover have "?scope b" using b r assms(5) by (auto simp: outermost_def idle)
  ultimately have "b \<in> set acts"
    using actionable_loop_spec[OF assms(1,2) live acts] b \<open>r \<in> set (nodes s)\<close> by blast
  then show ?thesis using blocked_groups_grow[OF gs(1)] gs(2) by (metis list.set_cases list.distinct(1) length_0_conv length_map length_sort)
qed

lemma in_repo_rows: "in_repo repo (map scanNode rs) = map scanNode (filter (\<lambda>r. n_repo r = repo) rs)"
  by (simp add: in_repo_def filter_map comp_def)

lemma positionedView_kind: "positionedView t s n = Inr v \<Longrightarrow> (\<exists>a u m p. v = BareMatter n a u m p) \<or> (\<exists>a g u m p. v = Positioned n a g u m p)"
  by (auto simp: positionedView_def res split: if_splits)

lemma chooseNextView_kind: "chooseNextView t s repo n reason cs bs = Inr v \<Longrightarrow> \<exists>ip ws. v = ChooseNext n reason cs ip ws"
  by (auto simp: chooseNextView_def res Let_def split: if_splits)

lemma noCursorView_kind: "noCursorView t s repo ready bs \<noteq> Inr (ChooseNext n reason cs ip ws)"
  by (auto simp: noCursorView_def res Let_def split: if_splits)

lemma noCursorView_sealed:
  assumes "noCursorView t s repo ready bs = Inr (EverythingSealed k)"
  shows "ready = []" "in_repo repo (view_InProgress s) = []" "bs \<noteq> [] \<Longrightarrow> waitingForRepo t s repo bs = Inr []"
    "waitingForRepo t s repo [] = Inr []"
    "k = length (filter (\<lambda>b. b_state b = ''entered'') (Backlog s repo))"
  using assms by (auto simp: noCursorView_def res Let_def split: if_splits)

text \<open>Where the next view comes from; \<open>reason\<close> says why the work of the cursor has ended.\<close>

lemma read_next_cases:
  assumes "read_next t s cur = Inr v"
  obtains ready blocked readyHere where "Frontier t s = Inr (ready, blocked)"
    "CollapseReady s (in_repo (cur_Repo cur) ready) = Inr readyHere"
    "Cursor s (cur_Clone cur) (cur_Worktree cur) = None"
    "noCursorView t s (cur_Repo cur) readyHere (blocked_in_repo (cur_Repo cur) blocked) = Inr v"
  | (ended) i cs bs n reason where "Cursor s (cur_Clone cur) (cur_Worktree cur) = Some i"
    "chooseNextView t s (cur_Repo cur) n reason cs bs = Inr v"
    "(n, reason) = (None, ''removed'') \<and> (\<exists>e. view_Node s i = Inl e)
     \<or> (\<exists>target. view_Node s i = Inr target \<and> n = Some target
        \<and> (N_Lifecycle target = Canceled \<and> reason = ''canceled''
          \<or> N_Lifecycle target \<noteq> Canceled \<and> Sealed t s target = Inr True \<and> reason = ''sealed''))"
  | (here) i target where "Cursor s (cur_Clone cur) (cur_Worktree cur) = Some i" "view_Node s i = Inr target"
    "N_Lifecycle target \<noteq> Canceled" "Sealed t s target = Inr False" "positionedView t s target = Inr v"
proof -
  obtain ready blocked readyHere where f: "Frontier t s = Inr (ready, blocked)"
    "CollapseReady s (in_repo (cur_Repo cur) ready) = Inr readyHere"
    using assms by (auto simp: read_next_def res)
  note next_def = assms[unfolded read_next_def f, simplified f Let_def rbind_simps prod.case]
  show thesis
  proof (cases "Cursor s (cur_Clone cur) (cur_Worktree cur)")
    case None
    then show thesis using next_def f that(1) by simp
  next
    case (Some i)
    show thesis
    proof (cases "view_Node s i")
      case (Inl e)
      then show thesis using next_def Some f ended[of i None "''removed''"] by simp
    next
      case (Inr target)
      show thesis
      proof (cases "N_Lifecycle target = Canceled")
        case True
        then show thesis using next_def Some Inr f ended[of i "Some target" "''canceled''"] by simp
      next
        case False
        then obtain b where "Sealed t s target = Inr b" using next_def Some Inr f by (auto simp: res)
        then show thesis using next_def Some Inr False f ended[of i "Some target" "''sealed''"] here[of i target]
          by (cases b) simp_all
      qed
    qed
  qed
qed

lemma everything_sealed:
  assumes "readable t s" "standing s" "read_next t s cur = Inr (EverythingSealed k)"
    and r: "r \<in> set (nodes s)" "n_live r" "n_repo r = cur_Repo cur"
  shows "n_lifecycle r \<noteq> Planned \<and> n_lifecycle r \<noteq> InProgress"
proof -
  let ?here = "filter (\<lambda>r. n_repo r = cur_Repo cur)"
  let ?R = "filter (unblocked s) (planned_rows s)" let ?B = "filter (\<lambda>r. \<not> unblocked s r) (planned_rows s)"
  let ?block = "\<lambda>r. \<lparr>B_Node = scanNode r, B_Blockers = map scanNode (filter (\<lambda>b. \<not> locally_complete no_overlay s b) (blockers s r))\<rparr>"
  have ok: "schema_ok s" using assms(1) by (simp add: readable_def)
  have planned: "set (planned_rows s) = {r \<in> set (nodes s). n_lifecycle r = Planned \<and> n_live r}" by (auto simp: planned_rows_def)
  have front: "Frontier t s = Inr (map scanNode ?R, map ?block ?B)" by (rule Frontier_spec[OF assms(1,2)])
  obtain readyHere where col: "CollapseReady s (in_repo (cur_Repo cur) (map scanNode ?R)) = Inr readyHere"
    and no: "noCursorView t s (cur_Repo cur) readyHere (blocked_in_repo (cur_Repo cur) (map ?block ?B)) = Inr (EverythingSealed k)"
    using assms(3)
    by (cases rule: read_next_cases) (auto simp: front dest: positionedView_kind chooseNextView_kind)
  note facts = noCursorView_sealed[OF no]
  have "filter (outermost s (?here ?R)) (?here ?R) = []"
    using CollapseReady_spec[OF ok assms(2), of "?here ?R"] col facts(1) planned unfolding in_repo_rows by auto
  then have R: "?here ?R = []" by (rule no_outermost[OF ok, rotated]) (use planned in auto)
  have P: "in_repo (cur_Repo cur) (view_InProgress s) = []" by (rule facts(2))
  have "workable_matters s (cur_Repo cur) (view_InProgress s) (map scanNode ?R) = []"
    using P R by (auto simp: workable_matters_def in_repo_def filter_map comp_def filter_empty_conv)
  moreover have "blocked_in_repo (cur_Repo cur) (map ?block ?B) = map ?block (?here ?B)"
    by (simp add: blocked_in_repo_def filter_map comp_def)
  ultimately have "?here ?B = []"
    using Waiting_blocked[OF ok assms(2), of "?here ?B" "cur_Repo cur" "view_InProgress s" "map scanNode ?R" "map ?block (?here ?B)"]
      facts(3) planned by (fastforce simp: waitingForRepo_def front res comp_def)
  then have "n_lifecycle r \<noteq> Planned" using R r planned by (auto simp: filter_empty_conv)
  moreover have "n_lifecycle r \<noteq> InProgress"
    using P r by (auto simp: in_repo_def view_InProgress_def nodes_in_def filter_empty_conv)
  ultimately show ?thesis by simp
qed

section \<open>The hand-off agrees with the next view\<close>

lemma EndedCursor_agrees:
  assumes "read_next t s cur = Inr v" "EndedCursor t s (cur_Clone cur) (cur_Worktree cur) = Inr ended"
  shows "case ended of
      None \<Rightarrow> \<not> (\<exists>n reason cs ip ws. v = ChooseNext n reason cs ip ws)
    | Some e \<Rightarrow> \<exists>cs ip ws. v = ChooseNext (ce_Target e) (ce_Reason e) cs ip ws"
  using assms(1)
proof (cases rule: read_next_cases)
  case (ended i cs bs n reason)
  obtain ip ws where v: "v = ChooseNext n reason cs ip ws" using chooseNextView_kind[OF ended(2)] by blast
  show ?thesis using assms(2) ended(1,3) unfolding v EndedCursor_def
    by (auto simp: res split: if_splits)
next
  case (here i target)
  then show ?thesis using assms(2) positionedView_kind[OF here(5)] by (auto simp: EndedCursor_def)
qed (use assms(2) noCursorView_kind in \<open>auto simp: EndedCursor_def\<close>)

end
