(* ===== verification/DemoCursor.thy ===== *)
theory DemoCursor
  imports DemoRun ReadSurface
begin

text \<open>
  A fourth continuation of the life of \<open>Demo\<close>: the cursor of the worktree is put on the
  second Matter, which is in progress.
\<close>

definition demo_current :: Current where
  "demo_current = \<lparr>cur_Repo = id_R, cur_Clone = id_C, cur_Worktree = id_W\<rparr>"

definition demo_draft_cursor :: Draft where
  "demo_draft_cursor = draft TypeCursorMoved id_W (marshal_CursorMoved \<lparr>cm_Node = id_B, cm_Previous = []\<rparr>)"

definition demo_event_cursor :: event where
  "demo_event_cursor = \<lparr>ev_ID = ''00000000ZP1R70W3GE1R70W3GE'', ev_Type = TypeCursorMoved, ev_OccurredAt = 1014,
     ev_Actor = ActorHuman, ev_Causation = ''00000000ZP1R70W3GE1R70W3GE'', ev_Correlation = ''00000000ZP1R70W3GE1R70W3GE'',
     ev_Repo = id_R, ev_Clone = id_C, ev_Worktree = id_W, ev_Subject = id_W, ev_Payload = dr_Payload demo_draft_cursor\<rparr>"

definition demo_db_cursor :: db where
  "demo_db_cursor = demo_db14\<lparr>cursors := [\<lparr>cu_clone = id_C, cu_worktree = id_W, cu_node = Some id_B,
     cu_last = ''00000000ZP1R70W3GE1R70W3GE''\<rparr>]\<rparr>"

definition demo_pointed :: store where
  "demo_pointed = \<lparr>st_log = demo_log14 @ [demo_event_cursor], st_db = demo_db_cursor, st_version = Some ''11'', st_mint = demo_mint15\<rparr>"

lemma demo_type_cursor: "TypeCursorMoved \<noteq> TypeGateDismissed"
  by (simp add: tokens)

lemma demo_stamp_cursor:
  "stamp demo_request demo_draft_cursor (st_mint demo_watch) = (demo_mint15,
     Inr (demo_event_cursor\<lparr>ev_Causation := [], ev_Correlation := []\<rparr>))"
  using demo_new15 demo_clock15 id_R_shape
  by (simp add: demo_stamping cursor_dimensions demo_type_cursor demo_event_cursor_def demo_draft_cursor_def draft_def demo_ids)

lemma demo_append_cursor: "appendEvent demo_log14 demo_event_cursor = Inr (demo_log14 @ [demo_event_cursor])"
  by code_simp

lemma demo_handler_cursor: "moveCursor \<lparr>tx_log = [], tx_defer = False\<rparr> demo_event_cursor demo_db14 = Inr demo_db_cursor"
  by code_simp

lemma demo_record_cursor:
  "record_event [] demo_draft_cursor (demo_event_cursor\<lparr>ev_Causation := [], ev_Correlation := []\<rparr>) (demo_log14, demo_db14)
     = Inr (demo_event_cursor, demo_log14 @ [demo_event_cursor], demo_db_cursor)"
proof -
  have "moveCursor \<lparr>tx_log = l, tx_defer = False\<rparr> e s = moveCursor \<lparr>tx_log = [], tx_defer = False\<rparr> e s" for l e s
    by (simp add: moveCursor_def upsert_cursor_def fk_def Let_def cong: if_cong)
  moreover have "ev_Type demo_event_cursor = TypeCursorMoved" by (simp add: demo_event_cursor_def)
  ultimately have "applyEvent \<lparr>tx_log = demo_log14 @ [demo_event_cursor], tx_defer = False\<rparr> demo_event_cursor demo_db14
      = Inr demo_db_cursor"
    using demo_handler_cursor by (simp add: applyEvent_def transition_types_def tokens) metis
  then show ?thesis using demo_append_cursor by (simp add: record_event_def chain_def) (simp add: demo_event_cursor_def)
qed

lemma demo_request_current: "request ActorHuman (Current_Env demo_current) = demo_request"
  by code_simp

lemma demo_resolve: "resolveLocator demo_db14 id_R ''b'' = Inr (scanNode (nodes demo_db14 ! 1))"
  by code_simp

lemma demo_second: "N_ID (scanNode (nodes demo_db14 ! 1)) = id_B" "Cursor demo_db14 id_C id_W = None"
  by code_simp+

lemma demo_set_cursor:
  "setCursor ActorHuman demo_current ''b'' demo_watch = (demo_pointed, Inr (scanNode (nodes demo_db14 ! 1)))"
proof -
  let ?p = "cursor_plan demo_current id_B"
  have d: "decides ?p t demo_db14 m = (m, Inr [demo_draft_cursor])" for t m
    using demo_second(2) by (simp add: decides_def cursor_plan_def from_db_def demo_draft_cursor_def demo_current_def)
  have c: "captured ?p demo_watch = Inr ()"
    by (simp add: captured_def cursor_plan_def from_db_def)
  have "Commit demo_request (decides ?p) demo_watch = (demo_pointed, Inr [demo_event_cursor])"
    using demo_human demo_stamp_cursor demo_record_cursor
    by (simp add: Commit_def d demo_watch_facts) (simp add: demo_watch_def demo_later_def demo_pointed_def)
  then show ?thesis
    using demo_resolve demo_second(1) demo_request_current c
    by (simp add: setCursor_def commit_plan_def demo_watch_facts demo_current_def)
qed

lemma demo_pointed_reachable: "reachable demo_pointed"
  using setCursor.keeps_reachable[OF demo_watch_reachable(1), of ActorHuman demo_current "''b''"] by (simp add: demo_set_cursor)

end
