(* ===== verification/Standing.thy ===== *)
theory Standing
  imports VerbLaws Frontier
begin

text \<open>
  Nothing but Steps is ever removed. The projection itself would tombstone any node a
  \<open>step.removed\<close> event names; that only Steps are named is the doing of the verbs, so
  \<open>standing\<close> is an invariant of the calls and not of the store.
\<close>

lemma standing_stmt:
  assumes "stmt t ev s s'" "ev_Type ev \<noteq> TypeStepRemoved" "ev_Type ev \<noteq> TypeStepReplaced" "standing s"
  shows "standing s'"
  using assms(1)
proof cases
  case (upd_nodes p f n)
  have "n_live (f r)" if "p r" for r using upd_nodes(2)[OF that] assms(2,3) by (simp add: node_move_def)
  moreover have "nodes s' = upd_rows p f (nodes s)" using upd_nodes by (auto simp: update_nodes_def res)
  ultimately show ?thesis using assms(4) by (auto simp: standing_def elim!: in_upd_rowsE)
qed ((erule upsert_config_cases upsert_cursor_cases)?; use assms(4) in \<open>simp add: statements res standing_def\<close>; clarify?;
  use assms(4) in \<open>auto simp: standing_def\<close>)+

lemma standing_steps:
  assumes "steps t ev s s'" "ev_Type ev \<noteq> TypeStepRemoved" "ev_Type ev \<noteq> TypeStepReplaced" "standing s"
  shows "standing s'"
  using assms(1,4) by (induction rule: rtranclp_induct) (auto dest: standing_stmt[OF _ assms(2,3)])

lemma standing_tombstone:
  assumes "tombstone_node i ev s = Inr s'" "standing s" "\<And>r. r \<in> set (nodes s) \<Longrightarrow> n_id r = i \<Longrightarrow> n_live r \<Longrightarrow> n_kind r = ScaleStep"
  shows "standing s'"
proof -
  have "nodes s' = upd_rows (\<lambda>r. n_id r = i \<and> n_live r)
      (\<lambda>r. r\<lparr>n_tombstone := Some (ev_ID ev), n_last := ev_ID ev\<rparr>) (nodes s)"
    using assms(1) by (auto simp: tombstone_node_def res update_nodes_def)
  then show ?thesis using assms(2,3) by (auto simp: standing_def elim!: in_upd_rowsE)
qed

lemma standing_replace:
  assumes "applyReplace t ev s = Inr s'" "standing s" "keys_ok s"
  shows "standing s'"
proof -
  from assms(1) obtain old s1 r where old: "live_row s (ev_Subject ev) = Some old" "n_kind old = ScaleStep"
    and s1: "tombstone_node (ev_Subject ev) ev s = Inr s1"
    and ins: "insert_nodes t r s1 = Inr s'" "n_kind r = ScaleStep"
    by (auto simp: applyReplace_def res split: if_splits)
  have "standing s1"
    using s1 assms(2)
  proof (rule standing_tombstone)
    fix q assume "q \<in> set (nodes s)" "n_id q = ev_Subject ev"
    then have "q = old" using live_row_Some[OF old(1)] assms(3) by (auto simp: keys_ok_def intro: distinct_mapD)
    then show "n_kind q = ScaleStep" using old(2) by simp
  qed
  then show ?thesis using ins by (auto simp: insert_nodes_def res standing_def)
qed

lemma standing_event:
  assumes "applyEvent t ev s = Inr s'" "standing s" "keys_ok s"
    and "\<And>r. ev_Type ev = TypeStepRemoved \<Longrightarrow> r \<in> set (nodes s) \<Longrightarrow> n_id r = ev_Subject ev \<Longrightarrow> n_kind r = ScaleStep"
  shows "standing s'"
proof (cases "ev_Type ev = TypeStepRemoved \<or> ev_Type ev = TypeStepReplaced")
  case True
  then show ?thesis
  proof
    assume ty: "ev_Type ev = TypeStepRemoved"
    then have "tombstoneNode ev s = Inr s'"
      using assms(1) by (simp add: applyEvent_def transition_types_def tokens)
    then show ?thesis using standing_tombstone[OF _ assms(2)] assms(4)[OF ty] by (auto simp: tombstoneNode_def res)
  next
    assume "ev_Type ev = TypeStepReplaced"
    then have "applyReplace t ev s = Inr s'"
      using assms(1) by (simp add: applyEvent_def transition_types_def tokens)
    then show ?thesis using assms(2,3) by (rule standing_replace)
  qed
next
  case False
  then show ?thesis using standing_steps[OF applyEvent_steps[OF assms(1)]] assms(2) by blast
qed

lemma standing_folds:
  assumes "folds (evs @ new) s'" "folds evs s" "standing s" "\<forall>e \<in> set new. ev_Type e \<noteq> TypeStepRemoved"
  shows "standing s'"
  using assms
proof (induction new arbitrary: s' rule: rev_induct)
  case Nil
  then show ?case using folds_unique by auto
next
  case (snoc ev new)
  obtain s1 where s1: "folds (evs @ new) s1" using folds_prefix[of "evs @ new" "[ev]" s'] snoc.prems(1) by auto
  have "applyEvent \<lparr>tx_log = (evs @ new) @ [ev], tx_defer = False\<rparr> ev s1 = Inr s'"
    using folds_snocE[OF _ s1] snoc.prems(1) by simp
  moreover have "standing s1" using snoc.IH[OF s1 snoc.prems(2,3)] snoc.prems(4) by simp
  ultimately show ?case using standing_event keys.folds_keep[OF s1] snoc.prems(4) by auto
qed

lemma standing_Commit:
  assumes "reachable st" "standing (st_db st)" "minting decide"
    and "\<And>t s m m' ds. decide t s m = (m', Inr ds) \<Longrightarrow> TypeStepRemoved \<notin> dr_Type ` set ds"
  shows "standing (st_db (fst (Commit req decide st)))"
  using reachable_ok[OF assms(1)] assms(3)
proof (cases rule: Commit_cases[where req = req])
  case (written m drafts m' events s)
  have "TypeStepRemoved \<notin> set (map ev_Type events)" using assms(4)[OF written(2)] unfolding written(12) by auto
  then show ?thesis
    using standing_folds[OF written(7)] reachable_ok[OF assms(1)] assms(2) written(1) by (force simp: store_ok_def)
qed (use assms(2) in simp)

lemma wip_error_Inr: "wip_error code r = Inr x \<longleftrightarrow> r = Inr x"
  by (cases r) (simp_all add: wip_error_def)

lemma ResolveNode_row:
  assumes "ResolveNode s repo locator = Inr n"
  shows "\<exists>r \<in> set (nodes s). n_live r \<and> n = scanNode r"
  using assms
  by (auto simp: ResolveNode_def view_Node_def MatterByLocator_def NodeByLocator_def wip_error_Inr res Let_def
      split: if_splits list.splits dest!: live_row_Some find_Some_iff_mem)

lemma standing_remove:
  assumes "store_ok st" "standing (st_db st)" "keys_ok (st_db st)" "ResolveNode (st_db st) repo locator = Inr n"
    and "N_Kind n = ScaleStep" "Commit req (decides (remove_plan n reason)) st = (st', r)"
  shows "standing (st_db st')"
proof (cases r)
  case (Inl e)
  then show ?thesis using Commit_error_db assms(2,6) by auto
next
  case (Inr events)
  let ?d = "draft TypeStepRemoved (N_ID n) (marshal_Removed \<lparr>rm_Reason = reason\<rparr>)"
  have one: "ds = [?d]" if "decides (remove_plan n reason) (tx_of st) (st_db st) (st_mint st) = (m, Inr ds)" for m ds
    using that by (auto simp: decides_def remove_plan_def from_db_def)
  obtain e where e: "ev_Subject e = dr_Subject ?d"
      "applyEvent \<lparr>tx_log = st_log st @ [e], tx_defer = False\<rparr> e (st_db st) = Inr (st_db st')"
    using Commit_single[where d = ?d, OF assms(1) minting_decides[OF sound_remove_plan] assms(6)[unfolded Inr]] one by blast
  obtain q where "q \<in> set (nodes (st_db st))" "n = scanNode q" using ResolveNode_row[OF assms(4)] by blast
  then have "n_kind x = ScaleStep" if "x \<in> set (nodes (st_db st))" "n_id x = ev_Subject e" for x
    using that assms(3,5) e(1) by (auto simp: keys_ok_def draft_def dest: distinct_mapD)
  then show ?thesis using standing_event[OF e(2) assms(2,3)] by blast
qed

lemma guarded_standing:
  assumes "guarded st st'" "reachable st" "standing (st_db st)"
  shows "standing (st_db st')"
  using assms(1)
proof cases
  case (guarded_remove actor repo locator reason)
  show ?thesis
  proof (rule RemoveStep_cases[of actor repo locator reason st])
    fix n assume n: "ResolveNode (st_db st) repo locator = Inr n" "N_Kind n = ScaleStep"
      and "RemoveStep actor repo locator reason st
        = commit_plan (request actor (repo_env repo)) (remove_plan n reason) (\<lambda>_ _. Inr ()) st"
    then have "st' = fst (Commit (request actor (repo_env repo)) (decides (remove_plan n reason)) st)"
      using guarded_remove by (simp add: fst_commit_plan)
    then show ?thesis
      using standing_remove[OF reachable_ok[OF assms(2)] assms(3) keys.reachable_keep[OF assms(2)] n] by (metis prod.collapse)
  qed (use guarded_remove assms(3) in simp)
next
  case (guarded_depend actor repo a b)
  show ?thesis
  proof (rule DependAdd_cases[of actor repo a b st])
    fix blocked blocker k
    assume "DependAdd actor repo a b st = commit_plan (request actor (repo_env repo)) (depend_plan blocked blocker) k st"
    then have "st' = fst (Commit (request actor (repo_env repo)) (decides (depend_plan blocked blocker)) st)"
      using guarded_depend by (simp add: fst_commit_plan)
    moreover have sound: "sound_plan (depend_plan blocked blocker)" by (simp add: depend_plan_def sound_from_id)
    have "TypeStepRemoved \<notin> dr_Type ` set ds" if "decides (depend_plan blocked blocker) t s m = (m', Inr ds)" for t s m m' ds
      using that by (auto simp: decides_def depend_plan_def from_id_def draft_def tokens split: prod.splits sum.splits)
    then have "standing (st_db (fst (Commit req (decides (depend_plan blocked blocker)) st)))" for req
      by (rule standing_Commit[OF assms(2,3) minting_decides[OF sound]])
    ultimately show ?thesis by simp
  qed (use guarded_depend assms(3) in simp)
next
  case (guarded_commit decide req)
  have "TypeStepRemoved \<notin> dr_Type ` set ds" if "decide t s m = (m', Inr ds)" for t s m m' ds
    using guarded_commit(3) that by (force simp: no_dependency_def quiet_def plain_def list_all_iff)
  then show ?thesis unfolding guarded_commit(1) by (rule standing_Commit[OF assms(2,3) guarded_commit(2)])
next
  case guarded_rebuild
  then show ?thesis using Rebuild_ok[OF reachable_ok[OF assms(2)]] assms(3) by simp
next
  case (guarded_reopen rds)
  then show ?thesis using Reopen_ok[OF reachable_ok[OF assms(2)], of rds] assms(3) by (metis prod.collapse)
next
  case (guarded_tick rds)
  then show ?thesis using assms(3) by simp
qed

text \<open>No sequence of calls removes anything but Steps.\<close>

lemma calls_standing:
  assumes "calls st st'" "reachable st" "standing (st_db st)"
  shows "standing (st_db st')"
  using calls_guarded[OF assms(1)]
proof (induction rule: rtranclp_induct)
  case (step y z)
  have "reachable y" using reachable_ops[OF guarded_ops[OF step(1)] assms(2)] .
  then show ?case using guarded_standing[OF step(2)] step(3) by blast
qed (rule assms(3))

end
