(* ===== verification/Operation.thy ===== *)
theory Operation
  imports Prelude "HOL-Library.Word"
begin

text \<open>
  The catalogue of operations (\<open>internal/operation\<close>): versioned identities, the metadata of an
  operation and its validation (\<open>metadata.go\<close>), and every definition of \<open>catalog.go\<close>,
  \<open>step4.go\<close>, \<open>lifecycle_variants.go\<close>, \<open>gates.go\<close>, \<open>gate_repair.go\<close>, \<open>step8.go\<close> and \<open>step10.go\<close>.

  A slice that may be nil is an option of a list; the type of an input or output is its
  name. The walk over a Go type that forbids transport types (\<open>validateTransportType\<close>) is
  reflection and is not modelled.
\<close>

named_theorems op_tokens \<open>the string constants of the operations\<close>

section \<open>Patterns\<close>

text \<open>The regular expressions of the package, as predicates.\<close>

fun split_on :: "char \<Rightarrow> string \<Rightarrow> string list" where
  "split_on d [] = [[]]"
| "split_on d (c # s) = (if c = d then [] # split_on d s else
     (case split_on d s of [] \<Rightarrow> [[c]] | w # ws \<Rightarrow> (c # w) # ws))"

definition lower :: "char \<Rightarrow> bool" where
  "lower c = (97 \<le> (of_char c :: nat) \<and> (of_char c :: nat) \<le> 122)"

definition upper :: "char \<Rightarrow> bool" where
  "upper c = (65 \<le> (of_char c :: nat) \<and> (of_char c :: nat) \<le> 90)"

definition digit :: "char \<Rightarrow> bool" where
  "digit c = (48 \<le> (of_char c :: nat) \<and> (of_char c :: nat) \<le> 57)"

text \<open>The same on the bits of a character, for evaluation.\<close>

lemma classes_code [code]:
  "lower c = (\<not> digit7 c \<and> digit6 c \<and> digit5 c \<and> (digit0 c \<or> digit1 c \<or> digit2 c \<or> digit3 c \<or> digit4 c)
     \<and> \<not> (digit4 c \<and> digit3 c \<and> (digit2 c \<or> (digit1 c \<and> digit0 c))))"
  "upper c = (\<not> digit7 c \<and> digit6 c \<and> \<not> digit5 c \<and> (digit0 c \<or> digit1 c \<or> digit2 c \<or> digit3 c \<or> digit4 c)
     \<and> \<not> (digit4 c \<and> digit3 c \<and> (digit2 c \<or> (digit1 c \<and> digit0 c))))"
  "digit c = (\<not> digit7 c \<and> \<not> digit6 c \<and> digit5 c \<and> digit4 c \<and> \<not> (digit3 c \<and> (digit2 c \<or> digit1 c)))"
proof -
  obtain b0 b1 b2 b3 b4 b5 b6 b7 where c: "c = Char b0 b1 b2 b3 b4 b5 b6 b7" by (cases c)
  show "lower c = (\<not> digit7 c \<and> digit6 c \<and> digit5 c \<and> (digit0 c \<or> digit1 c \<or> digit2 c \<or> digit3 c \<or> digit4 c)
     \<and> \<not> (digit4 c \<and> digit3 c \<and> (digit2 c \<or> (digit1 c \<and> digit0 c))))"
    unfolding c by (cases b0; cases b1; cases b2; cases b3; cases b4; cases b5; cases b6; cases b7) (simp_all add: lower_def of_char_def)
  show "upper c = (\<not> digit7 c \<and> digit6 c \<and> \<not> digit5 c \<and> (digit0 c \<or> digit1 c \<or> digit2 c \<or> digit3 c \<or> digit4 c)
     \<and> \<not> (digit4 c \<and> digit3 c \<and> (digit2 c \<or> (digit1 c \<and> digit0 c))))"
    unfolding c by (cases b0; cases b1; cases b2; cases b3; cases b4; cases b5; cases b6; cases b7) (simp_all add: upper_def of_char_def)
  show "digit c = (\<not> digit7 c \<and> \<not> digit6 c \<and> digit5 c \<and> digit4 c \<and> \<not> (digit3 c \<and> (digit2 c \<or> digit1 c)))"
    unfolding c by (cases b0; cases b1; cases b2; cases b3; cases b4; cases b5; cases b6; cases b7) (simp_all add: digit_def of_char_def)
qed

definition token_segment :: "string \<Rightarrow> bool" where
  "token_segment w = (w \<noteq> [] \<and> lower (hd w) \<and> list_all (\<lambda>c. lower c \<or> digit c \<or> c = CHR ''-'') w)"

definition semanticNamePattern :: "string \<Rightarrow> bool" where
  "semanticNamePattern s = (let ws = split_on CHR ''.'' s in 2 \<le> length ws \<and> list_all token_segment ws)"

definition tokenPattern :: "string \<Rightarrow> bool" where
  "tokenPattern s = list_all token_segment (split_on CHR ''.'' s)"

definition locatorPattern :: "string \<Rightarrow> bool" where
  "locatorPattern s = list_all (\<lambda>w. w \<noteq> [] \<and> list_all (\<lambda>c. lower c \<or> digit c) w) (split_on CHR ''-'' s)"

definition ulidPattern :: "string \<Rightarrow> bool" where
  "ulidPattern s = (length s = 26 \<and> hd s \<in> set ''01234567''
     \<and> list_all (\<lambda>c. digit c \<or> (upper c \<and> c \<notin> set ''ILOU'')) (tl s))"

definition hexadecimal :: "char \<Rightarrow> bool" where
  "hexadecimal c = (digit c \<or> c \<in> set ''abcdef'')"

definition digestPattern :: "string \<Rightarrow> bool" where
  "digestPattern s = (length s = 71 \<and> has_prefix ''sha256:'' s \<and> list_all hexadecimal (drop 7 s))"

section \<open>Metadata\<close>

definition AccessRead :: string where [op_tokens]: "AccessRead = ''read''"
definition AccessMutation :: string where [op_tokens]: "AccessMutation = ''mutation''"

definition DeliveryNone :: string where [op_tokens]: "DeliveryNone = ''none''"
definition DeliveryAuthority :: string where [op_tokens]: "DeliveryAuthority = ''authority''"
definition DeliveryClaim :: string where [op_tokens]: "DeliveryClaim = ''claim''"
definition DeliveryProvisional :: string where [op_tokens]: "DeliveryProvisional = ''provisional''"
definition DeliveryCapture :: string where [op_tokens]: "DeliveryCapture = ''capture''"
definition DeliveryEnvironment :: string where [op_tokens]: "DeliveryEnvironment = ''environment''"

definition ContextRepo :: string where [op_tokens]: "ContextRepo = ''repo''"
definition ContextClone :: string where [op_tokens]: "ContextClone = ''clone''"
definition ContextWorktree :: string where [op_tokens]: "ContextWorktree = ''worktree''"

definition ClaimNone :: string where [op_tokens]: "ClaimNone = ''none''"
definition ClaimExact :: string where [op_tokens]: "ClaimExact = ''exact''"
definition ClaimTargetSet :: string where [op_tokens]: "ClaimTargetSet = ''target-set''"
definition ClaimImplicitBirth :: string where [op_tokens]: "ClaimImplicitBirth = ''implicit-birth''"

definition FootprintRepoMatterLocators :: string where [op_tokens]: "FootprintRepoMatterLocators = ''repo.matter-locators''"
definition FootprintNewbornMatter :: string where [op_tokens]: "FootprintNewbornMatter = ''newborn-matter-subtree''"
definition FootprintNewbornStep :: string where [op_tokens]: "FootprintNewbornStep = ''newborn-step''"
definition FootprintImplicitBirthClaim :: string where [op_tokens]: "FootprintImplicitBirthClaim = ''matter.implicit-birth-claim''"
definition FootprintMatterActiveClaim :: string where [op_tokens]: "FootprintMatterActiveClaim = ''matter.active-claim''"
definition FootprintMatterLifecycle :: string where [op_tokens]: "FootprintMatterLifecycle = ''matter.lifecycle''"
definition FootprintStageLifecycle :: string where [op_tokens]: "FootprintStageLifecycle = ''stage.lifecycle''"
definition FootprintStepLifecycle :: string where [op_tokens]: "FootprintStepLifecycle = ''step.lifecycle''"
definition FootprintAncestorLifecycle :: string where [op_tokens]: "FootprintAncestorLifecycle = ''ancestor-lifecycle''"
definition FootprintCancelReason :: string where [op_tokens]: "FootprintCancelReason = ''cancel-reason''"
definition FootprintAnonymousBatchLifecycle :: string where [op_tokens]: "FootprintAnonymousBatchLifecycle = ''anonymous-batch.lifecycle''"
definition FootprintNamedBatchLifecycle :: string where [op_tokens]: "FootprintNamedBatchLifecycle = ''named-batch.lifecycle''"
definition FootprintStepParent :: string where [op_tokens]: "FootprintStepParent = ''step.parent''"
definition FootprintStepLocator :: string where [op_tokens]: "FootprintStepLocator = ''matter.step-locators''"
definition FootprintStepSortKey :: string where [op_tokens]: "FootprintStepSortKey = ''step.sibling-sort-key''"
definition FootprintNodeContent :: string where [op_tokens]: "FootprintNodeContent = ''node.content''"
definition FootprintFindingSegments :: string where [op_tokens]: "FootprintFindingSegments = ''node.finding-segments''"
definition FootprintStageParent :: string where [op_tokens]: "FootprintStageParent = ''stage.parent''"
definition FootprintMatterStageLocators :: string where [op_tokens]: "FootprintMatterStageLocators = ''matter.stage-locators''"
definition FootprintNewStageSubtree :: string where [op_tokens]: "FootprintNewStageSubtree = ''new-stage-subtree''"
definition FootprintStepSiblingSet :: string where [op_tokens]: "FootprintStepSiblingSet = ''step.sibling-set''"
definition FootprintStepAnchor :: string where [op_tokens]: "FootprintStepAnchor = ''step.anchor''"
definition FootprintStepOrderPermutation :: string where [op_tokens]: "FootprintStepOrderPermutation = ''step.order-permutation''"
definition FootprintStepLive :: string where [op_tokens]: "FootprintStepLive = ''step.live''"
definition FootprintStepNextLocator :: string where [op_tokens]: "FootprintStepNextLocator = ''step.next-locator''"
definition FootprintStepTombstone :: string where [op_tokens]: "FootprintStepTombstone = ''step.tombstone''"
definition FootprintReplacementStep :: string where [op_tokens]: "FootprintReplacementStep = ''replacement-step''"
definition FootprintStepRemovalReason :: string where [op_tokens]: "FootprintStepRemovalReason = ''step.removal-reason''"
definition FootprintMatterLocatorRepair :: string where [op_tokens]: "FootprintMatterLocatorRepair = ''matter.locator-repair''"
definition FootprintRepoGateDeclarations :: string where [op_tokens]: "FootprintRepoGateDeclarations = ''repo.gate-declarations''"
definition FootprintGateOrder :: string where [op_tokens]: "FootprintGateOrder = ''gate.order''"
definition FootprintGateExemptionSnapshot :: string where [op_tokens]: "FootprintGateExemptionSnapshot = ''gate.exemption-snapshot''"
definition FootprintGateDeclaration :: string where [op_tokens]: "FootprintGateDeclaration = ''gate.declaration''"
definition FootprintGateOwner :: string where [op_tokens]: "FootprintGateOwner = ''gate.owner''"
definition FootprintGateState :: string where [op_tokens]: "FootprintGateState = ''gate.state''"
definition FootprintGateSubject :: string where [op_tokens]: "FootprintGateSubject = ''gate.subject''"
definition FootprintGateDismissalReason :: string where [op_tokens]: "FootprintGateDismissalReason = ''gate.dismissal-reason''"
definition FootprintGateRepairBoundary :: string where [op_tokens]: "FootprintGateRepairBoundary = ''gate.repair-boundary''"
definition FootprintGateRepairOwnerAuthorization :: string where [op_tokens]: "FootprintGateRepairOwnerAuthorization = ''gate.repair-owner-authorization''"
definition FootprintTrackerCandidates :: string where [op_tokens]: "FootprintTrackerCandidates = ''tracker.candidates''"
definition FootprintRepoTrackerPushConfig :: string where [op_tokens]: "FootprintRepoTrackerPushConfig = ''repo.tracker-push-config''"
definition FootprintTrackerReferences :: string where [op_tokens]: "FootprintTrackerReferences = ''tracker.references''"
definition FootprintTrackerSharedAggregates :: string where [op_tokens]: "FootprintTrackerSharedAggregates = ''tracker.shared-aggregates''"
definition FootprintDependencyEndpoints :: string where [op_tokens]: "FootprintDependencyEndpoints = ''dependency.endpoints''"
definition FootprintDependencyGraph :: string where [op_tokens]: "FootprintDependencyGraph = ''dependency.graph''"
definition FootprintDependencyEdge :: string where [op_tokens]: "FootprintDependencyEdge = ''dependency.edge''"
definition FootprintMatterTrackerReferences :: string where [op_tokens]: "FootprintMatterTrackerReferences = ''matter.tracker-references''"

definition EffectFilesystemRead :: string where [op_tokens]: "EffectFilesystemRead = ''filesystem-read''"
definition EffectFilesystemWrite :: string where [op_tokens]: "EffectFilesystemWrite = ''filesystem-write''"
definition EffectGitRead :: string where [op_tokens]: "EffectGitRead = ''git-read''"
definition EffectRuntimeLock :: string where [op_tokens]: "EffectRuntimeLock = ''runtime-lock''"
definition EffectTrackerRead :: string where [op_tokens]: "EffectTrackerRead = ''tracker-read''"
definition EffectTrackerWrite :: string where [op_tokens]: "EffectTrackerWrite = ''tracker-write''"
definition EffectAgentHook :: string where [op_tokens]: "EffectAgentHook = ''agent-hook''"

record ID =
  id_Name :: string
  id_Version :: "16 word"

record BlobSpec =
  bs_Name :: string
  bs_Required :: bool

record Metadata =
  md_Operation :: ID
  md_Access :: string
  md_Delivery :: string
  md_RequiredContext :: "string list option"
  md_Guards :: "string list option"
  md_Writes :: "string list option"
  md_BlobInputs :: "BlobSpec list option"
  md_Claim :: string
  md_ExternalEffects :: "string list option"

record Definition =
  df_metadata :: Metadata
  df_inputType :: string
  df_outputType :: string

definition ID_Validate :: "ID \<Rightarrow> unit result" where
  "ID_Validate ident =
     (if \<not> semanticNamePattern (id_Name ident) then Inl (ERefused ''operation name'')
      else if id_Version ident = 0 then Inl (ERefused ''operation has no version'')
      else Inr ())"

text \<open>The four loops that refuse what is unknown or malformed, and what is named twice.\<close>

primrec once_each :: "('a \<Rightarrow> bool) \<Rightarrow> 'a list \<Rightarrow> 'a list \<Rightarrow> unit result" where
  "once_each ok seen [] = Inr ()"
| "once_each ok seen (x # xs) =
     (if \<not> ok x then Inl (ERefused ''is unknown or malformed'')
      else if x \<in> set seen then Inl (ERefused ''is duplicated'')
      else once_each ok (x # seen) xs)"

definition validateContextDimensions :: "string list \<Rightarrow> unit result" where
  "validateContextDimensions = once_each (\<lambda>d. d \<in> set [ContextRepo, ContextClone, ContextWorktree]) []"

definition validateFootprints :: "string list \<Rightarrow> unit result" where
  "validateFootprints = once_each tokenPattern []"

definition validateBlobSpecs :: "BlobSpec list \<Rightarrow> unit result" where
  "validateBlobSpecs specs = once_each tokenPattern [] (map bs_Name specs)"

definition validateExternalEffects :: "string list \<Rightarrow> unit result" where
  "validateExternalEffects = once_each (\<lambda>e. e \<in> set [EffectFilesystemRead, EffectFilesystemWrite, EffectGitRead,
     EffectRuntimeLock, EffectTrackerRead, EffectTrackerWrite, EffectAgentHook]) []"

definition present :: "'a list option \<Rightarrow> ('a list \<Rightarrow> unit result) \<Rightarrow> unit result" where
  "present xs check = (case xs of None \<Rightarrow> Inl (ERefused ''metadata is omitted'') | Some l \<Rightarrow> check l)"

definition written :: "Metadata \<Rightarrow> string list" where
  "written m = (case md_Writes m of None \<Rightarrow> [] | Some w \<Rightarrow> w)"

text \<open>The rules that tie access, delivery, writes and claim together.\<close>

definition coherent :: "Metadata \<Rightarrow> unit result" where
  "coherent m =
     rbind (if md_Access m = AccessRead then
              (if md_Delivery m \<noteq> DeliveryNone then Inl (ERefused ''a read must use delivery class none'')
               else if written m \<noteq> [] then Inl (ERefused ''a read cannot declare a write footprint'')
               else if md_Claim m \<noteq> ClaimNone then Inl (ERefused ''a read cannot require a mutation claim'')
               else Inr ())
            else
              (if md_Delivery m = DeliveryNone then Inl (ERefused ''a mutation must declare a delivery class'')
               else if written m = [] then Inl (ERefused ''a mutation must declare at least one write footprint'')
               else Inr ())) (\<lambda>_.
     if md_Delivery m = DeliveryClaim \<and> md_Claim m \<noteq> ClaimExact
     then Inl (ERefused ''claim delivery requires an exact claim'') else Inr ())"

definition ValidateMetadata :: "Metadata \<Rightarrow> unit result" where
  "ValidateMetadata m =
     rbind (ID_Validate (md_Operation m)) (\<lambda>_.
     rbind (require (md_Access m \<in> set [AccessRead, AccessMutation]) (ERefused ''access'')) (\<lambda>_.
     rbind (require (md_Delivery m \<in> set [DeliveryNone, DeliveryAuthority, DeliveryClaim, DeliveryProvisional,
       DeliveryCapture, DeliveryEnvironment]) (ERefused ''delivery class'')) (\<lambda>_.
     rbind (present (md_RequiredContext m) validateContextDimensions) (\<lambda>_.
     rbind (present (md_Guards m) validateFootprints) (\<lambda>_.
     rbind (present (md_Writes m) validateFootprints) (\<lambda>_.
     rbind (present (md_BlobInputs m) validateBlobSpecs) (\<lambda>_.
     rbind (require (md_Claim m \<in> set [ClaimNone, ClaimExact, ClaimTargetSet, ClaimImplicitBirth]) (ERefused ''claim'')) (\<lambda>_.
     rbind (present (md_ExternalEffects m) validateExternalEffects) (\<lambda>_. coherent m)))))))))"

definition define_operation :: "string \<Rightarrow> string \<Rightarrow> Metadata \<Rightarrow> Definition result" where
  "define_operation inputType outputType m =
     rbind (ValidateMetadata m) (\<lambda>_. Inr \<lparr>df_metadata = m, df_inputType = inputType, df_outputType = outputType\<rparr>)"

definition operation_of :: "Definition \<Rightarrow> ID" where
  "operation_of d = md_Operation (df_metadata d)"

section \<open>The definitions\<close>

definition MatterCreateV1 :: Definition where
  "MatterCreateV1 = \<lparr>df_metadata = \<lparr>md_Operation = \<lparr>id_Name = ''matter.create'', id_Version = 1\<rparr>,
      md_Access = AccessMutation, md_Delivery = DeliveryProvisional, md_RequiredContext = Some [ContextRepo],
      md_Guards = Some [FootprintRepoMatterLocators],
      md_Writes = Some [FootprintNewbornMatter],
      md_BlobInputs = Some [], md_Claim = ClaimNone, md_ExternalEffects = Some []\<rparr>,
    df_inputType = ''MatterCreateInput'', df_outputType = ''MatterCreateOutput''\<rparr>"

definition StepCreateV1 :: Definition where
  "StepCreateV1 = \<lparr>df_metadata = \<lparr>md_Operation = \<lparr>id_Name = ''step.create'', id_Version = 1\<rparr>,
      md_Access = AccessMutation, md_Delivery = DeliveryProvisional, md_RequiredContext = Some [ContextRepo],
      md_Guards = Some [FootprintRepoMatterLocators, FootprintImplicitBirthClaim, FootprintStepParent,
        FootprintStepLocator, FootprintStepSortKey],
      md_Writes = Some [FootprintNewbornStep],
      md_BlobInputs = Some [], md_Claim = ClaimImplicitBirth, md_ExternalEffects = Some []\<rparr>,
    df_inputType = ''StepCreateInput'', df_outputType = ''StepCreateOutput''\<rparr>"

definition StepStartV1 :: Definition where
  "StepStartV1 = \<lparr>df_metadata = \<lparr>md_Operation = \<lparr>id_Name = ''step.start'', id_Version = 1\<rparr>,
      md_Access = AccessMutation, md_Delivery = DeliveryClaim, md_RequiredContext = Some [ContextRepo, ContextClone,
      ContextWorktree],
      md_Guards = Some [FootprintMatterActiveClaim, FootprintMatterLifecycle, FootprintStepLifecycle],
      md_Writes = Some [FootprintMatterLifecycle, FootprintStepLifecycle],
      md_BlobInputs = Some [], md_Claim = ClaimExact, md_ExternalEffects = Some []\<rparr>,
    df_inputType = ''StepLifecycleInput'', df_outputType = ''StepLifecycleOutput''\<rparr>"

definition StepFinishV1 :: Definition where
  "StepFinishV1 = \<lparr>df_metadata = \<lparr>md_Operation = \<lparr>id_Name = ''step.finish'', id_Version = 1\<rparr>,
      md_Access = AccessMutation, md_Delivery = DeliveryClaim, md_RequiredContext = Some [ContextRepo, ContextClone,
      ContextWorktree],
      md_Guards = Some [FootprintMatterActiveClaim, FootprintStepLifecycle],
      md_Writes = Some [FootprintStepLifecycle],
      md_BlobInputs = Some [], md_Claim = ClaimExact, md_ExternalEffects = Some []\<rparr>,
    df_inputType = ''StepLifecycleInput'', df_outputType = ''StepLifecycleOutput''\<rparr>"

definition MatterFinishV1 :: Definition where
  "MatterFinishV1 = \<lparr>df_metadata = \<lparr>md_Operation = \<lparr>id_Name = ''matter.finish'', id_Version = 1\<rparr>,
      md_Access = AccessMutation, md_Delivery = DeliveryAuthority, md_RequiredContext = Some [ContextRepo,
      ContextClone, ContextWorktree],
      md_Guards = Some [FootprintMatterActiveClaim, FootprintMatterLifecycle],
      md_Writes = Some [FootprintMatterLifecycle],
      md_BlobInputs = Some [], md_Claim = ClaimExact, md_ExternalEffects = Some []\<rparr>,
    df_inputType = ''MatterFinishInput'', df_outputType = ''MatterFinishOutput''\<rparr>"

definition BatchSweepAnonymousV1 :: Definition where
  "BatchSweepAnonymousV1 = \<lparr>df_metadata = \<lparr>md_Operation = \<lparr>id_Name = ''batch.sweep-anonymous'', id_Version = 1\<rparr>,
      md_Access = AccessMutation, md_Delivery = DeliveryAuthority, md_RequiredContext = Some [ContextRepo],
      md_Guards = Some [FootprintMatterLifecycle, FootprintAnonymousBatchLifecycle],
      md_Writes = Some [FootprintAnonymousBatchLifecycle],
      md_BlobInputs = Some [], md_Claim = ClaimNone, md_ExternalEffects = Some []\<rparr>,
    df_inputType = ''BatchSweepAnonymousInput'', df_outputType = ''BatchSweepAnonymousOutput''\<rparr>"

definition BatchCreateV1 :: Definition where
  "BatchCreateV1 = \<lparr>df_metadata = \<lparr>md_Operation = \<lparr>id_Name = ''batch.create'', id_Version = 1\<rparr>,
      md_Access = AccessMutation, md_Delivery = DeliveryAuthority, md_RequiredContext = Some [ContextRepo],
      md_Guards = Some [FootprintNamedBatchLifecycle],
      md_Writes = Some [FootprintNamedBatchLifecycle],
      md_BlobInputs = Some [], md_Claim = ClaimNone, md_ExternalEffects = Some []\<rparr>,
    df_inputType = ''BatchCreateInput'', df_outputType = ''BatchCreateOutput''\<rparr>"

definition BatchJoinV1 :: Definition where
  "BatchJoinV1 = \<lparr>df_metadata = \<lparr>md_Operation = \<lparr>id_Name = ''batch.join'', id_Version = 1\<rparr>,
      md_Access = AccessMutation, md_Delivery = DeliveryAuthority, md_RequiredContext = Some [ContextRepo],
      md_Guards = Some [FootprintNamedBatchLifecycle],
      md_Writes = Some [FootprintNamedBatchLifecycle],
      md_BlobInputs = Some [], md_Claim = ClaimNone, md_ExternalEffects = Some []\<rparr>,
    df_inputType = ''BatchMembershipInput'', df_outputType = ''BatchMembershipOutput''\<rparr>"

definition BatchLeaveV1 :: Definition where
  "BatchLeaveV1 = \<lparr>df_metadata = \<lparr>md_Operation = \<lparr>id_Name = ''batch.leave'', id_Version = 1\<rparr>,
      md_Access = AccessMutation, md_Delivery = DeliveryAuthority, md_RequiredContext = Some [ContextRepo],
      md_Guards = Some [FootprintNamedBatchLifecycle],
      md_Writes = Some [FootprintNamedBatchLifecycle],
      md_BlobInputs = Some [], md_Claim = ClaimNone, md_ExternalEffects = Some []\<rparr>,
    df_inputType = ''BatchMembershipInput'', df_outputType = ''BatchMembershipOutput''\<rparr>"

definition BatchDismissV1 :: Definition where
  "BatchDismissV1 = \<lparr>df_metadata = \<lparr>md_Operation = \<lparr>id_Name = ''batch.dismiss'', id_Version = 1\<rparr>,
      md_Access = AccessMutation, md_Delivery = DeliveryAuthority, md_RequiredContext = Some [ContextRepo],
      md_Guards = Some [FootprintNamedBatchLifecycle],
      md_Writes = Some [FootprintNamedBatchLifecycle],
      md_BlobInputs = Some [], md_Claim = ClaimNone, md_ExternalEffects = Some []\<rparr>,
    df_inputType = ''BatchDismissInput'', df_outputType = ''BatchDismissOutput''\<rparr>"

definition ContentWriteOnceV1 :: Definition where
  "ContentWriteOnceV1 = \<lparr>df_metadata = \<lparr>md_Operation = \<lparr>id_Name = ''content.write-once'', id_Version = 1\<rparr>,
      md_Access = AccessMutation, md_Delivery = DeliveryClaim, md_RequiredContext = Some [ContextRepo, ContextClone,
      ContextWorktree],
      md_Guards = Some [FootprintMatterActiveClaim, FootprintNodeContent],
      md_Writes = Some [FootprintNodeContent],
      md_BlobInputs = Some [\<lparr>bs_Name = ''content'', bs_Required = True\<rparr>], md_Claim = ClaimExact,
      md_ExternalEffects = Some []\<rparr>,
    df_inputType = ''ContentWriteInput'', df_outputType = ''ContentSegmentOutput''\<rparr>"

definition FindingAppendV1 :: Definition where
  "FindingAppendV1 = \<lparr>df_metadata = \<lparr>md_Operation = \<lparr>id_Name = ''finding.append'', id_Version = 1\<rparr>,
      md_Access = AccessMutation, md_Delivery = DeliveryClaim, md_RequiredContext = Some [ContextRepo, ContextClone,
      ContextWorktree],
      md_Guards = Some [FootprintMatterActiveClaim, FootprintNodeContent],
      md_Writes = Some [FootprintFindingSegments],
      md_BlobInputs = Some [\<lparr>bs_Name = ''content'', bs_Required = True\<rparr>], md_Claim = ClaimExact,
      md_ExternalEffects = Some []\<rparr>,
    df_inputType = ''FindingAppendInput'', df_outputType = ''ContentSegmentOutput''\<rparr>"

definition MatterCreateV2 :: Definition where
  "MatterCreateV2 = \<lparr>df_metadata = \<lparr>md_Operation = \<lparr>id_Name = ''matter.create'', id_Version = 2\<rparr>,
      md_Access = AccessMutation, md_Delivery = DeliveryProvisional, md_RequiredContext = Some [ContextRepo],
      md_Guards = Some [FootprintRepoMatterLocators],
      md_Writes = Some [FootprintNewbornMatter],
      md_BlobInputs = Some [], md_Claim = ClaimNone, md_ExternalEffects = Some []\<rparr>,
    df_inputType = ''MatterCreateInput'', df_outputType = ''MatterCreateV2Output''\<rparr>"

definition StageCreateV1 :: Definition where
  "StageCreateV1 = \<lparr>df_metadata = \<lparr>md_Operation = \<lparr>id_Name = ''stage.create'', id_Version = 1\<rparr>,
      md_Access = AccessMutation, md_Delivery = DeliveryClaim, md_RequiredContext = Some [ContextRepo, ContextClone,
      ContextWorktree],
      md_Guards = Some [FootprintMatterActiveClaim, FootprintMatterLifecycle, FootprintStageParent,
        FootprintMatterStageLocators],
      md_Writes = Some [FootprintNewStageSubtree],
      md_BlobInputs = Some [], md_Claim = ClaimExact, md_ExternalEffects = Some []\<rparr>,
    df_inputType = ''StageCreateInput'', df_outputType = ''StageCreateOutput''\<rparr>"

definition StepCreateV2 :: Definition where
  "StepCreateV2 = \<lparr>df_metadata = \<lparr>md_Operation = \<lparr>id_Name = ''step.create'', id_Version = 2\<rparr>,
      md_Access = AccessMutation, md_Delivery = DeliveryClaim, md_RequiredContext = Some [ContextRepo, ContextClone,
      ContextWorktree],
      md_Guards = Some [FootprintMatterActiveClaim, FootprintMatterLifecycle, FootprintStepParent,
        FootprintStepLocator, FootprintStepSortKey],
      md_Writes = Some [FootprintNewbornStep],
      md_BlobInputs = Some [], md_Claim = ClaimExact, md_ExternalEffects = Some []\<rparr>,
    df_inputType = ''StepCreateInput'', df_outputType = ''StepCreateOutput''\<rparr>"

definition StepInsertV1 :: Definition where
  "StepInsertV1 = \<lparr>df_metadata = \<lparr>md_Operation = \<lparr>id_Name = ''step.insert'', id_Version = 1\<rparr>,
      md_Access = AccessMutation, md_Delivery = DeliveryClaim, md_RequiredContext = Some [ContextRepo, ContextClone,
      ContextWorktree],
      md_Guards = Some [FootprintMatterActiveClaim, FootprintStepParent, FootprintStepSiblingSet,
        FootprintStepAnchor, FootprintStepSortKey],
      md_Writes = Some [FootprintNewbornStep, FootprintStepSiblingSet],
      md_BlobInputs = Some [], md_Claim = ClaimExact, md_ExternalEffects = Some []\<rparr>,
    df_inputType = ''StepInsertInput'', df_outputType = ''StepCreateOutput''\<rparr>"

definition StepReorderV1 :: Definition where
  "StepReorderV1 = \<lparr>df_metadata = \<lparr>md_Operation = \<lparr>id_Name = ''step.reorder'', id_Version = 1\<rparr>,
      md_Access = AccessMutation, md_Delivery = DeliveryClaim, md_RequiredContext = Some [ContextRepo, ContextClone,
      ContextWorktree],
      md_Guards = Some [FootprintMatterActiveClaim, FootprintStepParent, FootprintStepSiblingSet,
        FootprintStepOrderPermutation],
      md_Writes = Some [FootprintStepSiblingSet],
      md_BlobInputs = Some [], md_Claim = ClaimExact, md_ExternalEffects = Some []\<rparr>,
    df_inputType = ''StepReorderInput'', df_outputType = ''StepReorderOutput''\<rparr>"

definition StepReplaceV1 :: Definition where
  "StepReplaceV1 = \<lparr>df_metadata = \<lparr>md_Operation = \<lparr>id_Name = ''step.replace'', id_Version = 1\<rparr>,
      md_Access = AccessMutation, md_Delivery = DeliveryClaim, md_RequiredContext = Some [ContextRepo, ContextClone,
      ContextWorktree],
      md_Guards = Some [FootprintMatterActiveClaim, FootprintStepLive, FootprintStepNextLocator],
      md_Writes = Some [FootprintStepTombstone, FootprintReplacementStep],
      md_BlobInputs = Some [], md_Claim = ClaimExact, md_ExternalEffects = Some []\<rparr>,
    df_inputType = ''StepReplaceInput'', df_outputType = ''StepReplaceOutput''\<rparr>"

definition StepRemoveV1 :: Definition where
  "StepRemoveV1 = \<lparr>df_metadata = \<lparr>md_Operation = \<lparr>id_Name = ''step.remove'', id_Version = 1\<rparr>,
      md_Access = AccessMutation, md_Delivery = DeliveryClaim, md_RequiredContext = Some [ContextRepo, ContextClone,
      ContextWorktree],
      md_Guards = Some [FootprintMatterActiveClaim, FootprintStepLive, FootprintStepRemovalReason],
      md_Writes = Some [FootprintStepTombstone],
      md_BlobInputs = Some [], md_Claim = ClaimExact, md_ExternalEffects = Some []\<rparr>,
    df_inputType = ''StepRemoveInput'', df_outputType = ''StepRemoveOutput''\<rparr>"

definition MatterLocatorRepairV1 :: Definition where
  "MatterLocatorRepairV1 = \<lparr>df_metadata = \<lparr>md_Operation = \<lparr>id_Name = ''matter.locator-repair'', id_Version = 1\<rparr>,
      md_Access = AccessMutation, md_Delivery = DeliveryAuthority, md_RequiredContext = Some [ContextRepo,
      ContextClone, ContextWorktree],
      md_Guards = Some [FootprintMatterActiveClaim, FootprintMatterLocatorRepair, FootprintRepoMatterLocators],
      md_Writes = Some [FootprintMatterLocatorRepair, FootprintRepoMatterLocators],
      md_BlobInputs = Some [], md_Claim = ClaimExact, md_ExternalEffects = Some []\<rparr>,
    df_inputType = ''MatterLocatorRepairInput'', df_outputType = ''MatterLocatorRepairOutput''\<rparr>"

definition GateDeclareV1 :: Definition where
  "GateDeclareV1 = \<lparr>df_metadata = \<lparr>md_Operation = \<lparr>id_Name = ''gate.declare'', id_Version = 1\<rparr>,
      md_Access = AccessMutation, md_Delivery = DeliveryClaim, md_RequiredContext = Some [ContextRepo, ContextClone,
      ContextWorktree],
      md_Guards = Some [FootprintMatterActiveClaim, FootprintRepoGateDeclarations, FootprintGateOrder,
        FootprintGateExemptionSnapshot],
      md_Writes = Some [FootprintRepoGateDeclarations, FootprintGateExemptionSnapshot],
      md_BlobInputs = Some [], md_Claim = ClaimExact, md_ExternalEffects = Some []\<rparr>,
    df_inputType = ''GateDeclareInput'', df_outputType = ''GateDeclareOutput''\<rparr>"

definition GateCloseV1 :: Definition where
  "GateCloseV1 = \<lparr>df_metadata = \<lparr>md_Operation = \<lparr>id_Name = ''gate.close'', id_Version = 1\<rparr>,
      md_Access = AccessMutation, md_Delivery = DeliveryClaim, md_RequiredContext = Some [ContextRepo, ContextClone,
      ContextWorktree],
      md_Guards = Some [FootprintMatterActiveClaim, FootprintGateDeclaration, FootprintGateOwner, FootprintGateState,
        FootprintGateSubject, FootprintRepoTrackerPushConfig, FootprintTrackerReferences,
        FootprintTrackerSharedAggregates],
      md_Writes = Some [FootprintGateState, FootprintTrackerSharedAggregates, FootprintTrackerCandidates],
      md_BlobInputs = Some [], md_Claim = ClaimExact, md_ExternalEffects = Some []\<rparr>,
    df_inputType = ''GateCloseInput'', df_outputType = ''GateCloseOutput''\<rparr>"

definition GateDismissV1 :: Definition where
  "GateDismissV1 = \<lparr>df_metadata = \<lparr>md_Operation = \<lparr>id_Name = ''gate.dismiss'', id_Version = 1\<rparr>,
      md_Access = AccessMutation, md_Delivery = DeliveryClaim, md_RequiredContext = Some [ContextRepo, ContextClone,
      ContextWorktree],
      md_Guards = Some [FootprintMatterActiveClaim, FootprintGateDeclaration, FootprintGateOwner, FootprintGateState,
        FootprintGateSubject, FootprintGateDismissalReason, FootprintRepoTrackerPushConfig,
        FootprintTrackerReferences, FootprintTrackerSharedAggregates],
      md_Writes = Some [FootprintGateState, FootprintTrackerSharedAggregates, FootprintTrackerCandidates],
      md_BlobInputs = Some [], md_Claim = ClaimExact, md_ExternalEffects = Some []\<rparr>,
    df_inputType = ''GateDismissInput'', df_outputType = ''GateDismissOutput''\<rparr>"

definition GateExemptionRepairV1 :: Definition where
  "GateExemptionRepairV1 = \<lparr>df_metadata = \<lparr>md_Operation = \<lparr>id_Name = ''gate.exemption.repair'', id_Version = 1\<rparr>,
      md_Access = AccessMutation, md_Delivery = DeliveryAuthority, md_RequiredContext = Some [ContextRepo,
      ContextClone, ContextWorktree],
      md_Guards = Some [FootprintMatterActiveClaim, FootprintGateSubject, FootprintAncestorLifecycle,
        FootprintGateDeclaration, FootprintGateState, FootprintGateExemptionSnapshot, FootprintGateRepairBoundary,
        FootprintGateRepairOwnerAuthorization],
      md_Writes = Some [FootprintGateState, FootprintGateExemptionSnapshot],
      md_BlobInputs = Some [], md_Claim = ClaimExact, md_ExternalEffects = Some []\<rparr>,
    df_inputType = ''GateExemptionRepairInput'', df_outputType = ''GateExemptionRepairOutput''\<rparr>"

definition DependencyAddV1 :: Definition where
  "DependencyAddV1 = \<lparr>df_metadata = \<lparr>md_Operation = \<lparr>id_Name = ''dependency.add'', id_Version = 1\<rparr>,
      md_Access = AccessMutation, md_Delivery = DeliveryAuthority, md_RequiredContext = Some [ContextRepo],
      md_Guards = Some [FootprintDependencyEndpoints, FootprintDependencyGraph],
      md_Writes = Some [FootprintDependencyEdge, FootprintDependencyGraph],
      md_BlobInputs = Some [], md_Claim = ClaimNone, md_ExternalEffects = Some []\<rparr>,
    df_inputType = ''DependencyAddInput'', df_outputType = ''DependencyOutput''\<rparr>"

definition DependencyRemoveV1 :: Definition where
  "DependencyRemoveV1 = \<lparr>df_metadata = \<lparr>md_Operation = \<lparr>id_Name = ''dependency.remove'', id_Version = 1\<rparr>,
      md_Access = AccessMutation, md_Delivery = DeliveryAuthority, md_RequiredContext = Some [ContextRepo],
      md_Guards = Some [FootprintDependencyEndpoints, FootprintDependencyEdge],
      md_Writes = Some [FootprintDependencyEdge, FootprintDependencyGraph],
      md_BlobInputs = Some [], md_Claim = ClaimNone, md_ExternalEffects = Some []\<rparr>,
    df_inputType = ''DependencyRemoveInput'', df_outputType = ''DependencyOutput''\<rparr>"

definition ReferenceBindV1 :: Definition where
  "ReferenceBindV1 = \<lparr>df_metadata = \<lparr>md_Operation = \<lparr>id_Name = ''reference.bind'', id_Version = 1\<rparr>,
      md_Access = AccessMutation, md_Delivery = DeliveryAuthority, md_RequiredContext = Some [ContextRepo],
      md_Guards = Some [FootprintRepoTrackerPushConfig, FootprintMatterTrackerReferences,
        FootprintTrackerSharedAggregates],
      md_Writes = Some [FootprintMatterTrackerReferences, FootprintTrackerSharedAggregates,
        FootprintTrackerCandidates],
      md_BlobInputs = Some [], md_Claim = ClaimNone, md_ExternalEffects = Some []\<rparr>,
    df_inputType = ''ReferenceBindInput'', df_outputType = ''ReferenceOutput''\<rparr>"

definition ReferenceUnbindV1 :: Definition where
  "ReferenceUnbindV1 = \<lparr>df_metadata = \<lparr>md_Operation = \<lparr>id_Name = ''reference.unbind'', id_Version = 1\<rparr>,
      md_Access = AccessMutation, md_Delivery = DeliveryAuthority, md_RequiredContext = Some [ContextRepo],
      md_Guards = Some [FootprintRepoTrackerPushConfig, FootprintMatterTrackerReferences,
        FootprintTrackerSharedAggregates],
      md_Writes = Some [FootprintMatterTrackerReferences, FootprintTrackerSharedAggregates,
        FootprintTrackerCandidates],
      md_BlobInputs = Some [], md_Claim = ClaimNone, md_ExternalEffects = Some []\<rparr>,
    df_inputType = ''ReferenceUnbindInput'', df_outputType = ''ReferenceOutput''\<rparr>"

definition ReferenceRebindV1 :: Definition where
  "ReferenceRebindV1 = \<lparr>df_metadata = \<lparr>md_Operation = \<lparr>id_Name = ''reference.rebind'', id_Version = 1\<rparr>,
      md_Access = AccessMutation, md_Delivery = DeliveryAuthority, md_RequiredContext = Some [ContextRepo],
      md_Guards = Some [FootprintRepoTrackerPushConfig, FootprintMatterTrackerReferences,
        FootprintTrackerSharedAggregates],
      md_Writes = Some [FootprintMatterTrackerReferences, FootprintTrackerSharedAggregates,
        FootprintTrackerCandidates],
      md_BlobInputs = Some [], md_Claim = ClaimNone, md_ExternalEffects = Some []\<rparr>,
    df_inputType = ''ReferenceRebindInput'', df_outputType = ''ReferenceOutput''\<rparr>"

definition DependencyAddV2 :: Definition where
  "DependencyAddV2 = \<lparr>df_metadata = \<lparr>md_Operation = \<lparr>id_Name = ''dependency.add'', id_Version = 2\<rparr>,
      md_Access = AccessMutation, md_Delivery = DeliveryAuthority, md_RequiredContext = Some [ContextRepo],
      md_Guards = Some [FootprintDependencyEndpoints, FootprintDependencyGraph],
      md_Writes = Some [FootprintDependencyEdge, FootprintDependencyGraph],
      md_BlobInputs = Some [], md_Claim = ClaimTargetSet, md_ExternalEffects = Some []\<rparr>,
    df_inputType = ''DependencyAddV2Input'', df_outputType = ''DependencyOutput''\<rparr>"

definition DependencyRemoveV2 :: Definition where
  "DependencyRemoveV2 = \<lparr>df_metadata = \<lparr>md_Operation = \<lparr>id_Name = ''dependency.remove'', id_Version = 2\<rparr>,
      md_Access = AccessMutation, md_Delivery = DeliveryAuthority, md_RequiredContext = Some [ContextRepo],
      md_Guards = Some [FootprintDependencyEndpoints, FootprintDependencyEdge],
      md_Writes = Some [FootprintDependencyEdge, FootprintDependencyGraph],
      md_BlobInputs = Some [], md_Claim = ClaimTargetSet, md_ExternalEffects = Some []\<rparr>,
    df_inputType = ''DependencyRemoveV2Input'', df_outputType = ''DependencyOutput''\<rparr>"

definition ReferenceBindV2 :: Definition where
  "ReferenceBindV2 = \<lparr>df_metadata = \<lparr>md_Operation = \<lparr>id_Name = ''reference.bind'', id_Version = 2\<rparr>,
      md_Access = AccessMutation, md_Delivery = DeliveryAuthority, md_RequiredContext = Some [ContextRepo],
      md_Guards = Some [FootprintRepoTrackerPushConfig, FootprintMatterTrackerReferences,
        FootprintTrackerSharedAggregates],
      md_Writes = Some [FootprintMatterTrackerReferences, FootprintTrackerSharedAggregates,
        FootprintTrackerCandidates],
      md_BlobInputs = Some [], md_Claim = ClaimTargetSet, md_ExternalEffects = Some []\<rparr>,
    df_inputType = ''ReferenceBindV2Input'', df_outputType = ''ReferenceOutput''\<rparr>"

definition ReferenceUnbindV2 :: Definition where
  "ReferenceUnbindV2 = \<lparr>df_metadata = \<lparr>md_Operation = \<lparr>id_Name = ''reference.unbind'', id_Version = 2\<rparr>,
      md_Access = AccessMutation, md_Delivery = DeliveryAuthority, md_RequiredContext = Some [ContextRepo],
      md_Guards = Some [FootprintRepoTrackerPushConfig, FootprintMatterTrackerReferences,
        FootprintTrackerSharedAggregates],
      md_Writes = Some [FootprintMatterTrackerReferences, FootprintTrackerSharedAggregates,
        FootprintTrackerCandidates],
      md_BlobInputs = Some [], md_Claim = ClaimTargetSet, md_ExternalEffects = Some []\<rparr>,
    df_inputType = ''ReferenceUnbindV2Input'', df_outputType = ''ReferenceOutput''\<rparr>"

definition ReferenceRebindV2 :: Definition where
  "ReferenceRebindV2 = \<lparr>df_metadata = \<lparr>md_Operation = \<lparr>id_Name = ''reference.rebind'', id_Version = 2\<rparr>,
      md_Access = AccessMutation, md_Delivery = DeliveryAuthority, md_RequiredContext = Some [ContextRepo],
      md_Guards = Some [FootprintRepoTrackerPushConfig, FootprintMatterTrackerReferences,
        FootprintTrackerSharedAggregates],
      md_Writes = Some [FootprintMatterTrackerReferences, FootprintTrackerSharedAggregates,
        FootprintTrackerCandidates],
      md_BlobInputs = Some [], md_Claim = ClaimTargetSet, md_ExternalEffects = Some []\<rparr>,
    df_inputType = ''ReferenceRebindV2Input'', df_outputType = ''ReferenceOutput''\<rparr>"

definition SchedulerOrchestrateV1 :: Definition where
  "SchedulerOrchestrateV1 = \<lparr>df_metadata = \<lparr>md_Operation = \<lparr>id_Name = ''scheduler.orchestrate'', id_Version = 1\<rparr>,
      md_Access = AccessMutation, md_Delivery = DeliveryAuthority, md_RequiredContext = Some [ContextRepo,
      ContextClone, ContextWorktree],
      md_Guards = Some [''run.owner'', ''run.frontier'', ''dispatch.owner'', ''role.owner'', ''claim.active'',
        ''scheduler.hook-intent''],
      md_Writes = Some [''scheduler.hook-engagement'', ''scheduler.hook-result''],
      md_BlobInputs = Some [\<lparr>bs_Name = ''model'', bs_Required = False\<rparr>, \<lparr>bs_Name = ''outline'',
      bs_Required = False\<rparr>, \<lparr>bs_Name = ''review'', bs_Required = False\<rparr>,
      \<lparr>bs_Name = ''snapshot'', bs_Required = False\<rparr>, \<lparr>bs_Name = ''source'',
      bs_Required = False\<rparr>, \<lparr>bs_Name = ''tree-manifest'', bs_Required = False\<rparr>,
      \<lparr>bs_Name = ''workplan'', bs_Required = False\<rparr>], md_Claim = ClaimNone,
      md_ExternalEffects = Some [EffectAgentHook]\<rparr>,
    df_inputType = ''SchedulerHookInput'', df_outputType = ''SchedulerHookOutput''\<rparr>"

definition RoleSpawnV1 :: Definition where
  "RoleSpawnV1 = \<lparr>df_metadata = \<lparr>md_Operation = \<lparr>id_Name = ''role.spawn'', id_Version = 1\<rparr>,
      md_Access = AccessMutation, md_Delivery = DeliveryClaim, md_RequiredContext = Some [ContextRepo, ContextClone,
      ContextWorktree],
      md_Guards = Some [''run.owner'', ''claim.active'', ''dispatch.active'', ''role.activation'', ''role.unique''],
      md_Writes = Some [''role.spawned''],
      md_BlobInputs = Some [], md_Claim = ClaimExact, md_ExternalEffects = Some []\<rparr>,
    df_inputType = ''RoleLifecycleInput'', df_outputType = ''RoleLifecycleOutput''\<rparr>"

definition RoleCloseV1 :: Definition where
  "RoleCloseV1 = \<lparr>df_metadata = \<lparr>md_Operation = \<lparr>id_Name = ''role.close'', id_Version = 1\<rparr>,
      md_Access = AccessMutation, md_Delivery = DeliveryClaim, md_RequiredContext = Some [ContextRepo, ContextClone,
      ContextWorktree],
      md_Guards = Some [''run.owner'', ''claim.active'', ''dispatch.active'', ''role.owner'', ''role.open''],
      md_Writes = Some [''role.closed''],
      md_BlobInputs = Some [], md_Claim = ClaimExact, md_ExternalEffects = Some []\<rparr>,
    df_inputType = ''RoleLifecycleInput'', df_outputType = ''RoleLifecycleOutput''\<rparr>"

definition RunFinishV1 :: Definition where
  "RunFinishV1 = \<lparr>df_metadata = \<lparr>md_Operation = \<lparr>id_Name = ''run.finish'', id_Version = 1\<rparr>,
      md_Access = AccessMutation, md_Delivery = DeliveryAuthority, md_RequiredContext = Some [ContextRepo,
      ContextClone, ContextWorktree],
      md_Guards = Some [''run.owner'', ''run.active'', ''run.matters-done'', ''run.roles-closed'',
        ''run.claims-closed''],
      md_Writes = Some [''run.finished''],
      md_BlobInputs = Some [], md_Claim = ClaimNone, md_ExternalEffects = Some []\<rparr>,
    df_inputType = ''RunFinishInput'', df_outputType = ''RunFinishOutput''\<rparr>"

definition SchedulerResumeV1 :: Definition where
  "SchedulerResumeV1 = \<lparr>df_metadata = \<lparr>md_Operation = \<lparr>id_Name = ''scheduler.resume'', id_Version = 1\<rparr>,
      md_Access = AccessMutation, md_Delivery = DeliveryAuthority, md_RequiredContext = Some [ContextRepo,
      ContextClone, ContextWorktree],
      md_Guards = Some [''run.owner'', ''run.active'', ''run.claims-closed'', ''run.roles-closed'',
        ''dispatch.old-closed''],
      md_Writes = Some [''run.resumed''],
      md_BlobInputs = Some [], md_Claim = ClaimNone, md_ExternalEffects = Some []\<rparr>,
    df_inputType = ''RunResumeInput'', df_outputType = ''RunResumeOutput''\<rparr>"

section \<open>The lifecycle variants\<close>

definition claimLifecycleMetadata :: "string \<Rightarrow> string list \<Rightarrow> string list \<Rightarrow> Metadata" where
  "claimLifecycleMetadata name guards writes =
     \<lparr>md_Operation = \<lparr>id_Name = name, id_Version = 1\<rparr>, md_Access = AccessMutation, md_Delivery = DeliveryClaim,
      md_RequiredContext = Some [ContextRepo, ContextClone, ContextWorktree], md_Guards = Some guards,
      md_Writes = Some writes, md_BlobInputs = Some [], md_Claim = ClaimExact, md_ExternalEffects = Some []\<rparr>"

definition matterLifecycleDefinition :: "string \<Rightarrow> Definition" where
  "matterLifecycleDefinition name = \<lparr>df_metadata = claimLifecycleMetadata name
       [FootprintMatterActiveClaim, FootprintMatterLifecycle] [FootprintMatterLifecycle],
     df_inputType = ''NodeLifecycleInput'', df_outputType = ''MatterLifecycleOutput''\<rparr>"

definition stageLifecycleDefinition :: "string \<Rightarrow> bool \<Rightarrow> Definition" where
  "stageLifecycleDefinition name start = \<lparr>df_metadata = claimLifecycleMetadata name
       ([FootprintMatterActiveClaim, FootprintStageLifecycle] @ (if start then [FootprintAncestorLifecycle] else []))
       (if start then [FootprintMatterLifecycle, FootprintStageLifecycle] else [FootprintStageLifecycle]),
     df_inputType = ''NodeLifecycleInput'', df_outputType = ''NodeLifecycleOutput''\<rparr>"

definition stepLifecycleVariant :: "string \<Rightarrow> Definition" where
  "stepLifecycleVariant name = \<lparr>df_metadata = claimLifecycleMetadata name
       [FootprintMatterActiveClaim, FootprintStepLifecycle] [FootprintStepLifecycle],
     df_inputType = ''StepLifecycleInput'', df_outputType = ''StepLifecycleOutput''\<rparr>"

definition MatterStartV1 :: Definition where "MatterStartV1 = matterLifecycleDefinition ''matter.start''"
definition StageStartV1 :: Definition where "StageStartV1 = stageLifecycleDefinition ''stage.start'' True"
definition MatterPauseV1 :: Definition where "MatterPauseV1 = matterLifecycleDefinition ''matter.pause''"
definition StagePauseV1 :: Definition where "StagePauseV1 = stageLifecycleDefinition ''stage.pause'' False"
definition StepPauseV1 :: Definition where "StepPauseV1 = stepLifecycleVariant ''step.pause''"
definition MatterResumeV1 :: Definition where "MatterResumeV1 = matterLifecycleDefinition ''matter.resume''"
definition StageResumeV1 :: Definition where "StageResumeV1 = stageLifecycleDefinition ''stage.resume'' False"
definition StepResumeV1 :: Definition where "StepResumeV1 = stepLifecycleVariant ''step.resume''"

definition MatterCancelV1 :: Definition where
  "MatterCancelV1 = \<lparr>df_metadata = claimLifecycleMetadata ''matter.cancel''
       [FootprintMatterActiveClaim, FootprintMatterLifecycle, FootprintCancelReason] [FootprintMatterLifecycle],
     df_inputType = ''NodeLifecycleInput'', df_outputType = ''MatterLifecycleOutput''\<rparr>"

definition StageCancelV1 :: Definition where
  "StageCancelV1 = \<lparr>df_metadata = claimLifecycleMetadata ''stage.cancel''
       [FootprintMatterActiveClaim, FootprintStageLifecycle, FootprintCancelReason] [FootprintStageLifecycle],
     df_inputType = ''NodeLifecycleInput'', df_outputType = ''NodeLifecycleOutput''\<rparr>"

definition StepCancelV1 :: Definition where
  "StepCancelV1 = \<lparr>df_metadata = claimLifecycleMetadata ''step.cancel''
       [FootprintMatterActiveClaim, FootprintStepLifecycle, FootprintCancelReason] [FootprintStepLifecycle],
     df_inputType = ''StepCancelInput'', df_outputType = ''StepLifecycleOutput''\<rparr>"

definition StageFinishV1 :: Definition where "StageFinishV1 = stageLifecycleDefinition ''stage.finish'' False"

section \<open>The catalogues\<close>

definition Catalogue :: "Definition list" where
  "Catalogue = [
     MatterCreateV1, StepCreateV1, StepStartV1, StepFinishV1, MatterFinishV1,
     ContentWriteOnceV1, FindingAppendV1,
     MatterCreateV2, StageCreateV1, StepCreateV2, StepInsertV1, StepReorderV1,
     StepReplaceV1, StepRemoveV1, MatterLocatorRepairV1,
     MatterStartV1, StageStartV1, MatterPauseV1, StagePauseV1, StepPauseV1,
     MatterResumeV1, StageResumeV1, StepResumeV1, MatterCancelV1, StageCancelV1,
     StepCancelV1, StageFinishV1, GateDeclareV1, GateCloseV1, GateDismissV1,
     GateExemptionRepairV1]"

definition NamedBatchMembershipCatalogue :: "Definition list" where
  "NamedBatchMembershipCatalogue = [BatchJoinV1, BatchLeaveV1, BatchDismissV1]"

definition operation_in :: "Definition list \<Rightarrow> ID \<Rightarrow> bool" where
  "operation_in ds ident = list_ex (\<lambda>d. operation_of d = ident) ds"

definition NamedBatchMembershipOperation :: "ID \<Rightarrow> bool" where
  "NamedBatchMembershipOperation = operation_in NamedBatchMembershipCatalogue"

definition Step4Catalogue :: "Definition list" where
  "Step4Catalogue = [MatterCreateV2, StageCreateV1, StepCreateV2, StepInsertV1, StepReorderV1,
     StepReplaceV1, StepRemoveV1, MatterLocatorRepairV1]"

definition Step4Operation :: "ID \<Rightarrow> bool" where
  "Step4Operation = operation_in Step4Catalogue"

definition Step5Catalogue :: "Definition list" where
  "Step5Catalogue = [MatterStartV1, StageStartV1, MatterPauseV1, StagePauseV1, StepPauseV1,
     MatterResumeV1, StageResumeV1, StepResumeV1, MatterCancelV1, StageCancelV1, StepCancelV1, StageFinishV1]"

definition Step5Operation :: "ID \<Rightarrow> bool" where
  "Step5Operation = operation_in Step5Catalogue"

definition GateCatalogue :: "Definition list" where
  "GateCatalogue = [GateDeclareV1, GateCloseV1, GateDismissV1]"

definition Step8HistoryCatalogue :: "Definition list" where
  "Step8HistoryCatalogue = [DependencyAddV1, DependencyRemoveV1, ReferenceBindV1, ReferenceUnbindV1, ReferenceRebindV1,
     DependencyAddV2, DependencyRemoveV2, ReferenceBindV2, ReferenceUnbindV2, ReferenceRebindV2]"

definition Step8Catalogue :: "Definition list" where
  "Step8Catalogue = [DependencyAddV2, DependencyRemoveV2, ReferenceBindV2, ReferenceUnbindV2, ReferenceRebindV2]"

definition step8ContractDefinition :: "ID \<Rightarrow> Definition option" where
  "step8ContractDefinition ident = List.find (\<lambda>d. operation_of d = ident) Step8HistoryCatalogue"

definition Step8Operation :: "ID \<Rightarrow> bool" where
  "Step8Operation ident = (step8ContractDefinition ident \<noteq> None)"

definition Step10Catalogue :: "Definition list" where
  "Step10Catalogue = [SchedulerOrchestrateV1, RoleSpawnV1, RoleCloseV1, SchedulerResumeV1, RunFinishV1]"

definition Step10Operation :: "ID \<Rightarrow> bool" where
  "Step10Operation ident = (ident = operation_of SchedulerOrchestrateV1)"

definition Step10CapabilityOperation :: "ID \<Rightarrow> bool" where
  "Step10CapabilityOperation = operation_in Step10Catalogue"

definition Step10RoleOperation :: "ID \<Rightarrow> bool" where
  "Step10RoleOperation ident = (ident = operation_of RoleSpawnV1 \<or> ident = operation_of RoleCloseV1)"

definition Step10RunResumeOperation :: "ID \<Rightarrow> bool" where
  "Step10RunResumeOperation ident = (ident = operation_of SchedulerResumeV1)"

definition Step10RunFinishOperation :: "ID \<Rightarrow> bool" where
  "Step10RunFinishOperation ident = (ident = operation_of RunFinishV1)"

definition Step10RunOperation :: "ID \<Rightarrow> bool" where
  "Step10RunOperation ident = (Step10RunResumeOperation ident \<or> Step10RunFinishOperation ident)"

text \<open>The order in which a command identity looks its definition up.\<close>

definition identity_definitions :: "Definition list" where
  "identity_definitions = [SchedulerOrchestrateV1, RoleSpawnV1, RoleCloseV1, RunFinishV1, SchedulerResumeV1,
     BatchSweepAnonymousV1, BatchCreateV1, BatchJoinV1, BatchLeaveV1, BatchDismissV1]
     @ Step8HistoryCatalogue @ Catalogue"

definition commandIdentityDefinition :: "ID \<Rightarrow> Definition option" where
  "commandIdentityDefinition ident = List.find (\<lambda>d. operation_of d = ident) identity_definitions"

section \<open>Every definition is well formed\<close>

lemmas definitions_def =
  identity_definitions_def Step8HistoryCatalogue_def Catalogue_def

lemma definitions_valid: "list_all (\<lambda>d. define_operation (df_inputType d) (df_outputType d) (df_metadata d) = Inr d) identity_definitions"
  by code_simp

lemma operations_distinct: "distinct (map operation_of identity_definitions)"
  by code_simp

lemma find_by_key:
  assumes "distinct (map f xs)" "x \<in> set xs"
  shows "List.find (\<lambda>y. f y = f x) xs = Some x"
  using assms by (induction xs) auto

lemma commandIdentityDefinition_iff:
  "commandIdentityDefinition ident = Some d \<longleftrightarrow> d \<in> set identity_definitions \<and> operation_of d = ident"
  using find_by_key[OF operations_distinct, of d]
  by (auto simp: commandIdentityDefinition_def dest!: find_Some_iff_mem)

end
