(* ===== verification/Cbor.thy ===== *)
theory Cbor
  imports Prelude "HOL-Library.Word" "HOL-Library.Product_Lexorder" "HOL-Library.Multiset"
begin

text \<open>
  The deterministic CBOR encoding behind the identity of a command
  (\<open>internal/operation/canonical_cbor.go\<close>): \<open>marshalCanonical\<close>, the heads, the order of the map
  keys, and the check of text.

  Values are those of the encoder, with maps as association lists in whatever order they are
  iterated; \<open>COther\<close> stands for every Go value the encoder refuses. Whether text is in
  Unicode normal form C is decided by a package outside the repository and is an argument.

  \<open>parse\<close> is a reference decoder. It inverts the encoder in front of any bytes, so the encoding
  is prefix free and determines the value, up to the order of map entries.
\<close>

section \<open>Text\<close>

text \<open>\<open>utf8.ValidString\<close>.\<close>

definition cont :: "char \<Rightarrow> bool" where
  "cont c = (0x80 \<le> (of_char c :: nat) \<and> (of_char c :: nat) \<le> 0xBF)"

definition within :: "nat \<Rightarrow> nat \<Rightarrow> char \<Rightarrow> bool" where
  "within a b c = (a \<le> of_char c \<and> of_char c \<le> b)"

fun valid_utf8 :: "string \<Rightarrow> bool" where
  "valid_utf8 [] = True"
| "valid_utf8 (a # s) =
     (if within 0 0x7F a then valid_utf8 s
      else case s of
        [] \<Rightarrow> False
      | b # s1 \<Rightarrow>
          if within 0xC2 0xDF a then cont b \<and> valid_utf8 s1
          else case s1 of
            [] \<Rightarrow> False
          | c # s2 \<Rightarrow>
              if within 0xE0 0xEF a
              then (if a = CHR 0xE0 then within 0xA0 0xBF b else if a = CHR 0xED then within 0x80 0x9F b else cont b)
                   \<and> cont c \<and> valid_utf8 s2
              else case s2 of
                [] \<Rightarrow> False
              | d # s3 \<Rightarrow>
                  within 0xF0 0xF4 a
                  \<and> (if a = CHR 0xF0 then within 0x90 0xBF b else if a = CHR 0xF4 then within 0x80 0x8F b else cont b)
                  \<and> cont c \<and> cont d \<and> valid_utf8 s3)"

definition validateCanonicalText :: "(string \<Rightarrow> bool) \<Rightarrow> string \<Rightarrow> unit result" where
  "validateCanonicalText nfc value =
     (if \<not> valid_utf8 value then Inl (ERefused ''text is not valid UTF-8'')
      else if \<not> nfc value then Inl (ERefused ''text is not Unicode NFC'')
      else Inr ())"

section \<open>The encoder\<close>

datatype canonical =
    CNull
  | CBool bool
  | CText string
  | CUint "64 word"
  | CInt "64 word"
  | CArray "canonical list"
  | CMap "(string \<times> canonical) list"
  | COther

text \<open>\<open>binary.BigEndian\<close>: the last \<open>k\<close> bytes of a number.\<close>

definition big_endian :: "nat \<Rightarrow> nat \<Rightarrow> string" where
  "big_endian k n = map (\<lambda>i. char_of (n div 256 ^ i)) (rev [0..<k])"

definition appendCBORHead :: "nat \<Rightarrow> 64 word \<Rightarrow> string" where
  "appendCBORHead major value =
     (let n = unat value; prefix = 32 * major in
      if n < 24 then [char_of (prefix + n)]
      else if n \<le> 0xFF then char_of (prefix + 24) # big_endian 1 n
      else if n \<le> 0xFFFF then char_of (prefix + 25) # big_endian 2 n
      else if n \<le> 0xFFFFFFFF then char_of (prefix + 26) # big_endian 4 n
      else char_of (prefix + 27) # big_endian 8 n)"

definition text_bytes :: "string \<Rightarrow> string" where
  "text_bytes value = appendCBORHead 3 (of_nat (length value)) @ value"

text \<open>The order of the entries of a map: by the length of the encoded key, then by its bytes.\<close>

definition key_order :: "string \<Rightarrow> nat \<times> string" where
  "key_order k = (length (text_bytes k), text_bytes k)"

primrec sequence :: "'a result list \<Rightarrow> 'a list result" where
  "sequence [] = Inr []"
| "sequence (r # rs) = rbind r (\<lambda>x. rbind (sequence rs) (\<lambda>xs. Inr (x # xs)))"

fun appendCanonical :: "(string \<Rightarrow> bool) \<Rightarrow> canonical \<Rightarrow> string result" where
  "appendCanonical nfc CNull = Inr [CHR 0xF6]"
| "appendCanonical nfc (CBool b) = Inr [if b then CHR 0xF5 else CHR 0xF4]"
| "appendCanonical nfc (CText value) = rbind (validateCanonicalText nfc value) (\<lambda>_. Inr (text_bytes value))"
| "appendCanonical nfc (CUint v) = Inr (appendCBORHead 0 v)"
| "appendCanonical nfc (CInt v) =
     Inr (if 0 \<le> sint v then appendCBORHead 0 v else appendCBORHead 1 (- (v + 1)))"
| "appendCanonical nfc (CArray vs) =
     rbind (sequence (map (appendCanonical nfc) vs)) (\<lambda>bs.
     Inr (appendCBORHead 4 (of_nat (length vs)) @ concat bs))"
| "appendCanonical nfc (CMap kvs) =
     rbind (sequence (map (\<lambda>(k, v). validateCanonicalText nfc k) kvs)) (\<lambda>_.
     let entries = sort_key (\<lambda>(k, r). key_order k) (map (\<lambda>(k, v). (k, appendCanonical nfc v)) kvs) in
     rbind (sequence (map (\<lambda>(k, r). rbind r (\<lambda>b. Inr (text_bytes k @ b))) entries)) (\<lambda>bs.
     Inr (appendCBORHead 5 (of_nat (length kvs)) @ concat bs)))"
| "appendCanonical nfc COther = Inl (ERefused ''canonical CBOR does not support the type'')"

definition marshalCanonical :: "(string \<Rightarrow> bool) \<Rightarrow> canonical \<Rightarrow> string result" where
  "marshalCanonical nfc value = appendCanonical nfc value"

section \<open>The value of an encoding\<close>

text \<open>The representative of a value: maps in the order of their keys, and a number that is not
  negative as an unsigned one.\<close>

fun norm :: "canonical \<Rightarrow> canonical" where
  "norm CNull = CNull"
| "norm (CBool b) = CBool b"
| "norm (CText s) = CText s"
| "norm (CUint v) = CUint v"
| "norm (CInt v) = (if 0 \<le> sint v then CUint v else CInt v)"
| "norm (CArray vs) = CArray (map norm vs)"
| "norm (CMap kvs) = CMap (sort_key (\<lambda>(k, v). key_order k) (map (\<lambda>(k, v). (k, norm v)) kvs))"
| "norm COther = COther"

text \<open>Lengths are those of Go, below \<open>2\<^sup>6\<^sup>4\<close>.\<close>

fun fits :: "canonical \<Rightarrow> bool" where
  "fits (CText s) \<longleftrightarrow> length s < 2 ^ 64"
| "fits (CArray vs) \<longleftrightarrow> length vs < 2 ^ 64 \<and> list_all fits vs"
| "fits (CMap kvs) \<longleftrightarrow> length kvs < 2 ^ 64 \<and> list_all (\<lambda>(k, v). length k < 2 ^ 64 \<and> fits v) kvs"
| "fits _ \<longleftrightarrow> True"

section \<open>The reference decoder\<close>

definition big_endian_value :: "string \<Rightarrow> nat" where
  "big_endian_value bs = fold (\<lambda>c n. 256 * n + of_char c) bs 0"

definition parse_head :: "string \<Rightarrow> (nat \<times> nat \<times> string) option" where
  "parse_head bs =
     (case bs of [] \<Rightarrow> None
      | c # cs \<Rightarrow>
          let b = (of_char c :: nat); info = b mod 32 in
          if info < 24 then Some (b div 32, info, cs)
          else let k = 2 ^ (info - 24) in
            if length cs < k then None
            else Some (b div 32, big_endian_value (take k cs), drop k cs))"

definition parse_text :: "nat \<Rightarrow> string \<Rightarrow> (string \<times> string) option" where
  "parse_text n r = (if length r < n then None else Some (take n r, drop n r))"

function (sequential) parse :: "nat \<Rightarrow> string \<Rightarrow> (canonical \<times> string) option"
  and parse_items :: "nat \<Rightarrow> nat \<Rightarrow> string \<Rightarrow> (canonical list \<times> string) option"
  and parse_entries :: "nat \<Rightarrow> nat \<Rightarrow> string \<Rightarrow> ((string \<times> canonical) list \<times> string) option" where
  "parse 0 bs = None"
| "parse (Suc f) bs =
     (case parse_head bs of None \<Rightarrow> None
      | Some (major, n, r) \<Rightarrow>
          if major = 0 then Some (CUint (of_nat n), r)
          else if major = 1 then Some (CInt (- of_nat n - 1), r)
          else if major = 3 then map_option (\<lambda>(s, r'). (CText s, r')) (parse_text n r)
          else if major = 4 then map_option (\<lambda>(vs, r'). (CArray vs, r')) (parse_items f n r)
          else if major = 5 then map_option (\<lambda>(kvs, r'). (CMap kvs, r')) (parse_entries f n r)
          else if major = 7 \<and> n = 20 then Some (CBool False, r)
          else if major = 7 \<and> n = 21 then Some (CBool True, r)
          else if major = 7 \<and> n = 22 then Some (CNull, r)
          else None)"
| "parse_items f 0 bs = Some ([], bs)"
| "parse_items 0 (Suc n) bs = None"
| "parse_items (Suc f) (Suc n) bs =
     (case parse (Suc f) bs of None \<Rightarrow> None
      | Some (v, r) \<Rightarrow> map_option (\<lambda>(vs, r'). (v # vs, r')) (parse_items f n r))"
| "parse_entries f 0 bs = Some ([], bs)"
| "parse_entries 0 (Suc n) bs = None"
| "parse_entries (Suc f) (Suc n) bs =
     (case parse_head bs of
        Some (major, k, r) \<Rightarrow>
          if major \<noteq> 3 then None
          else (case parse_text k r of None \<Rightarrow> None
            | Some (key, r1) \<Rightarrow>
                (case parse (Suc f) r1 of None \<Rightarrow> None
                 | Some (v, r2) \<Rightarrow> map_option (\<lambda>(kvs, r'). ((key, v) # kvs, r')) (parse_entries f n r2)))
      | None \<Rightarrow> None)"
  by pat_completeness auto

termination
  by (relation "measure (\<lambda>x. case x of Inl (f, _) \<Rightarrow> 2 * f | Inr (Inl (f, _, _)) \<Rightarrow> 2 * f + 1 | Inr (Inr (f, _, _)) \<Rightarrow> 2 * f + 1)") auto

declare parse.simps(2) [simp del]

definition decode :: "string \<Rightarrow> canonical result" where
  "decode bs =
     (case parse (length bs) bs of
        Some (v, []) \<Rightarrow> Inr v
      | _ \<Rightarrow> Inl (ERefused ''decode canonical command''))"

section \<open>Heads\<close>

lemma big_endian_Suc: "big_endian (Suc k) n = char_of (n div 256 ^ k) # big_endian k n"
  by (simp add: big_endian_def)

lemma length_big_endian [simp]: "length (big_endian k n) = k"
  by (simp add: big_endian_def)

lemma fold_bytes: "fold (\<lambda>c n. 256 * n + of_char c) bs a = 256 ^ length bs * a + big_endian_value bs"
proof (induction bs arbitrary: a)
  case (Cons c bs)
  show ?case using Cons[of "256 * a + of_char c"] Cons[of "of_char c"] by (simp add: big_endian_value_def algebra_simps)
qed (simp add: big_endian_value_def)

lemma big_endian_value_Cons: "big_endian_value (c # bs) = 256 ^ length bs * of_char c + big_endian_value bs"
  using fold_bytes[of bs "of_char c"] by (simp add: big_endian_value_def)

lemma big_endian_value [simp]: "big_endian_value (big_endian k n) = n mod 256 ^ k"
proof (induction k)
  case (Suc k)
  have "n mod (256 ^ k * 256) = 256 ^ k * (n div 256 ^ k mod 256) + n mod 256 ^ k" by (rule mod_mult2_eq)
  then show ?case using Suc by (simp add: big_endian_Suc big_endian_value_Cons mult.commute)
qed (simp add: big_endian_def big_endian_value_def)

lemma of_char_head: "m < 8 \<Longrightarrow> k < 32 \<Longrightarrow> of_char (char_of (32 * m + k :: nat)) = 32 * m + k"
  by simp

lemma parse_head_short:
  assumes "m < 8" "n < 24"
  shows "parse_head (char_of (32 * m + n) # r) = Some (m, n, r)"
  using assms of_char_head[OF assms(1), of n] by (simp add: parse_head_def Let_def)

lemma parse_head_long:
  assumes "m < 8" "j < 4" "length bs = 2 ^ j"
  shows "parse_head (char_of (32 * m + (24 + j)) # bs @ r) = Some (m, big_endian_value bs, r)"
proof -
  have "of_char (char_of (32 * m + (24 + j) :: nat)) = 32 * m + (24 + j)" using assms by (intro of_char_head) auto
  then show ?thesis using assms by (simp add: parse_head_def Let_def del: of_char_of)
qed

lemma parse_head_append:
  assumes "m < 8"
  shows "parse_head (appendCBORHead m v @ r) = Some (m, unat v, r)"
proof -
  have small: "unat v < 256 ^ 8" using unsigned_less[of v] by simp
  consider "unat v < 24" | "24 \<le> unat v" "unat v \<le> 0xFF" | "0xFF < unat v" "unat v \<le> 0xFFFF"
    | "0xFFFF < unat v" "unat v \<le> 0xFFFFFFFF" | "0xFFFFFFFF < unat v" by linarith
  then show ?thesis
  proof cases
    case 1
    then show ?thesis using parse_head_short[OF assms] by (simp add: appendCBORHead_def Let_def)
  next
    case 2
    then show ?thesis using parse_head_long[OF assms, of 0 "big_endian 1 (unat v)" r] by (simp add: appendCBORHead_def Let_def)
  next
    case 3
    then show ?thesis using parse_head_long[OF assms, of 1 "big_endian 2 (unat v)" r] by (simp add: appendCBORHead_def Let_def)
  next
    case 4
    then show ?thesis using parse_head_long[OF assms, of 2 "big_endian 4 (unat v)" r] by (simp add: appendCBORHead_def Let_def)
  next
    case 5
    then show ?thesis using parse_head_long[OF assms, of 3 "big_endian 8 (unat v)" r] small by (simp add: appendCBORHead_def Let_def)
  qed
qed

lemma appendCBORHead_nonempty [simp]: "appendCBORHead m v \<noteq> []"
  by (auto simp: appendCBORHead_def Let_def)

lemma length_appendCBORHead: "0 < length (appendCBORHead m v)"
  by simp

section \<open>The reference decoder inverts the encoder\<close>

lemma sequence_Inr [res]: "sequence rs = Inr xs \<longleftrightarrow> rs = map Inr xs"
proof (induction rs arbitrary: xs)
  case (Cons r rs)
  then show ?case by (cases xs) (auto simp: res)
qed auto

lemma sort_key_map: "sort_key f (map g xs) = map g (sort_key (\<lambda>x. f (g x)) xs)"
proof -
  have "insort_key f (g x) (map g xs) = map g (insort_key (\<lambda>x. f (g x)) x xs)" for x xs by (induction xs) simp_all
  then show ?thesis by (induction xs) simp_all
qed

lemma parse_text_append: "length s < 2 ^ 64 \<Longrightarrow> parse_text (unat (of_nat (length s) :: 64 word)) (s @ r) = Some (s, r)"
  by (simp add: parse_text_def unat_of_nat take_bit_nat_eq_self)

lemma unat_length: "n < 2 ^ 64 \<Longrightarrow> unat (of_nat n :: 64 word) = n"
  by (simp add: unat_of_nat take_bit_nat_eq_self)

text \<open>What the decoder is to do with the bytes of a value, in front of anything else.\<close>

definition reads :: "string \<Rightarrow> canonical \<Rightarrow> bool" where
  "reads b v \<longleftrightarrow> b \<noteq> [] \<and> (\<forall>f r. length b \<le> f \<longrightarrow> parse f (b @ r) = Some (v, r))"

lemma readsI:
  assumes "b \<noteq> []" "\<And>f r. length b \<le> Suc f \<Longrightarrow> parse (Suc f) (b @ r) = Some (v, r)"
  shows "reads b v"
  unfolding reads_def
proof (intro conjI allI impI)
  fix f r assume "length b \<le> f"
  then show "parse f (b @ r) = Some (v, r)" using assms by (cases f) auto
qed (rule assms(1))

lemma parse_items_reads:
  "list_all2 reads bs vs \<Longrightarrow> length (concat bs) \<le> f \<Longrightarrow> parse_items f (length vs) (concat bs @ r) = Some (vs, r)"
proof (induction bs vs arbitrary: f rule: list_all2_induct)
  case (Cons b bs v vs)
  then obtain g where f: "f = Suc g" by (cases f) (auto simp: reads_def)
  have "length (concat bs) \<le> g" using Cons.hyps(1) Cons.prems f by (cases b) (auto simp: reads_def)
  then show ?case using Cons f by (simp add: reads_def)
qed simp

lemma parse_entries_reads:
  assumes "list_all2 (\<lambda>(k, b) (k', v). k' = k \<and> length k < 2 ^ 64 \<and> reads b v) es kvs"
  shows "length (concat (map (\<lambda>(k, b). text_bytes k @ b) es)) \<le> f \<Longrightarrow>
    parse_entries f (length kvs) (concat (map (\<lambda>(k, b). text_bytes k @ b) es) @ r) = Some (kvs, r)"
  using assms
proof (induction es kvs arbitrary: f rule: list_all2_induct)
  case (Cons e es kv kvs)
  obtain k b v where e: "e = (k, b)" "kv = (k, v)" "length k < 2 ^ 64" "reads b v" using Cons.hyps(1) by (cases e; cases kv) auto
  then have "b \<noteq> []" by (simp add: reads_def)
  then obtain g where f: "f = Suc g" using Cons.prems e by (cases f) auto
  let ?rest = "concat (map (\<lambda>(k, b). text_bytes k @ b) es)"
  have "length ?rest \<le> g" "length b \<le> Suc g" using Cons.prems e f \<open>b \<noteq> []\<close> by (cases b; simp)+
  moreover have "parse_head (text_bytes k @ b @ ?rest @ r) = Some (3, unat (of_nat (length k) :: 64 word), k @ b @ ?rest @ r)"
    using parse_head_append[of 3 "of_nat (length k)" "k @ b @ ?rest @ r"] by (simp add: text_bytes_def)
  moreover have "parse (Suc g) (b @ ?rest @ r) = Some (v, ?rest @ r)" using e(4) calculation(2) unfolding reads_def by blast
  ultimately show ?case using Cons.IH[of g] e f parse_text_append[of k "b @ ?rest @ r"] by simp
qed simp

lemma reads_text:
  assumes "length s < 2 ^ 64"
  shows "reads (text_bytes s) (CText s)"
proof (rule readsI)
  fix f r
  show "parse (Suc f) (text_bytes s @ r) = Some (CText s, r)"
    using parse_head_append[of 3 "of_nat (length s)" "s @ r"] parse_text_append[OF assms, of r] by (simp add: text_bytes_def parse.simps(2))
qed (simp add: text_bytes_def)

lemma reads_number: "reads (appendCBORHead 0 v) (CUint v)" "reads (appendCBORHead 1 v) (CInt (- v - 1))"
  using parse_head_append[of 0 v] parse_head_append[of 1 v] by (auto intro!: readsI simp: parse.simps(2))

lemma reads_array:
  assumes "list_all2 reads bs vs" "length vs < 2 ^ 64"
  shows "reads (appendCBORHead 4 (of_nat (length vs)) @ concat bs) (CArray vs)"
proof (rule readsI)
  fix f r assume "length (appendCBORHead 4 (of_nat (length vs)) @ concat bs) \<le> Suc f"
  then have "length (concat bs) \<le> f" using length_appendCBORHead[of 4 "of_nat (length vs)"] unfolding length_append by linarith
  then show "parse (Suc f) ((appendCBORHead 4 (of_nat (length vs)) @ concat bs) @ r) = Some (CArray vs, r)"
    using parse_head_append[of 4 "of_nat (length vs)" "concat bs @ r"] parse_items_reads[OF assms(1)] assms(2)
    by (simp add: unat_length parse.simps(2))
qed simp

lemma reads_map:
  assumes "list_all2 (\<lambda>(k, b) (k', v). k' = k \<and> length k < 2 ^ 64 \<and> reads b v) es kvs" "length kvs < 2 ^ 64"
  shows "reads (appendCBORHead 5 (of_nat (length kvs)) @ concat (map (\<lambda>(k, b). text_bytes k @ b) es)) (CMap kvs)"
    (is "reads (?h @ ?b) _")
proof (rule readsI)
  fix f r assume "length (?h @ ?b) \<le> Suc f"
  then have "length ?b \<le> f" using length_appendCBORHead[of 5 "of_nat (length kvs)"] unfolding length_append by linarith
  then show "parse (Suc f) ((?h @ ?b) @ r) = Some (CMap kvs, r)"
    using parse_head_append[of 5 "of_nat (length kvs)" "?b @ r"] parse_entries_reads[OF assms(1)] assms(2)
    by (simp add: unat_length parse.simps(2))
qed simp

lemma reads_simple: "reads [CHR 0xF6] CNull" "reads [CHR 0xF5] (CBool True)" "reads [CHR 0xF4] (CBool False)"
  by (auto intro!: readsI simp: parse_head_def Let_def parse.simps(2))

lemma sort_entries:
  "sort_key (\<lambda>(k, r). key_order k) (map (\<lambda>(k, v). (k, f v)) kvs)
     = map (\<lambda>(k, v). (k, f v)) (sort_key (\<lambda>(k, v). key_order k) kvs)"
  unfolding sort_key_map by (intro arg_cong[where f = "map _"] arg_cong[where f = "\<lambda>g. sort_key g kvs"]) auto

text \<open>The entries of a map, in order, when they all encode.\<close>

lemma sequence_entries:
  "sequence (map (\<lambda>(k, r). rbind r (\<lambda>b. Inr (text_bytes k @ b))) (map (\<lambda>(k, v). (k, f v)) kvs)) = Inr bs
     \<longleftrightarrow> (\<exists>es. list_all2 (\<lambda>(k, v) (k', b). k' = k \<and> f v = Inr b) kvs es \<and> bs = map (\<lambda>(k, b). text_bytes k @ b) es)"
proof (induction kvs arbitrary: bs)
  case (Cons kv kvs)
  obtain k v where kv: "kv = (k, v)" by (cases kv)
  have "sequence (map (\<lambda>(k, r). rbind r (\<lambda>b. Inr (text_bytes k @ b))) (map (\<lambda>(k, v). (k, f v)) (kv # kvs))) = Inr bs
    \<longleftrightarrow> (\<exists>b es. f v = Inr b \<and> list_all2 (\<lambda>(k, v) (k', b). k' = k \<and> f v = Inr b) kvs es
          \<and> bs = (text_bytes k @ b) # map (\<lambda>(k, b). text_bytes k @ b) es)"
    by (simp only: list.map kv prod.case sequence.simps rbind_Inr_iff Cons.IH) (auto simp: res)
  also have "\<dots> \<longleftrightarrow> (\<exists>es. list_all2 (\<lambda>(k, v) (k', b). k' = k \<and> f v = Inr b) (kv # kvs) es \<and> bs = map (\<lambda>(k, b). text_bytes k @ b) es)"
    by (force simp: kv list_all2_Cons1)
  finally show ?case .
qed auto

lemma appendCanonical_map:
  "appendCanonical nfc (CMap kvs) = Inr b \<longleftrightarrow> (\<forall>(k, v) \<in> set kvs. validateCanonicalText nfc k = Inr ())
     \<and> (\<exists>es. list_all2 (\<lambda>(k, v) (k', c). k' = k \<and> appendCanonical nfc v = Inr c) (sort_key (\<lambda>(k, v). key_order k) kvs) es
         \<and> b = appendCBORHead 5 (of_nat (length kvs)) @ concat (map (\<lambda>(k, c). text_bytes k @ c) es))"
proof -
  have keys: "(\<exists>us. sequence (map (\<lambda>(k, v). validateCanonicalText nfc k) kvs) = Inr us)
      \<longleftrightarrow> (\<forall>(k, v) \<in> set kvs. validateCanonicalText nfc k = Inr ())"
    by (induction kvs) (auto simp: res)
  show ?thesis
    unfolding appendCanonical.simps(7) Let_def sort_entries rbind_Inr_iff sequence_entries keys[symmetric] by blast
qed

declare appendCanonical.simps(7) [simp del]

lemma appendCanonical_reads:
  "appendCanonical nfc v = Inr b \<Longrightarrow> fits v \<Longrightarrow> reads b (norm v)"
proof (induction v arbitrary: b rule: norm.induct)
  case (3 s)
  then show ?case using reads_text by (auto simp: res)
next
  case (5 v)
  then show ?case using reads_number(1)[of v] reads_number(2)[of "- (v + 1)"] by (auto split: if_splits)
next
  case (6 vs)
  obtain bs where bs: "map (appendCanonical nfc) vs = map Inr bs" "b = appendCBORHead 4 (of_nat (length vs)) @ concat bs"
    using 6 by (auto simp: res)
  have "list_all2 (\<lambda>v b. appendCanonical nfc v = Inr b) vs bs"
    using bs(1) by (simp add: list_all2_conv_all_nth) (metis length_map nth_map)
  then have "list_all2 (\<lambda>b v. reads b (norm v)) bs vs"
    using 6 by (auto simp: list_all2_conv_all_nth list_all_length)
  then have "list_all2 reads bs (map norm vs)" by (simp add: list_all2_map2)
  then show ?case using reads_array[of bs "map norm vs"] 6 bs(2) by simp
next
  case (7 kvs)
  let ?kvs = "sort_key (\<lambda>(k, v). key_order k) kvs"
  obtain es where es: "list_all2 (\<lambda>(k, v) (k', c). k' = k \<and> appendCanonical nfc v = Inr c) ?kvs es"
      "b = appendCBORHead 5 (of_nat (length kvs)) @ concat (map (\<lambda>(k, c). text_bytes k @ c) es)"
    using 7(2) by (auto simp: appendCanonical_map)
  have "list_all2 (\<lambda>(k, c) (k', v). k' = k \<and> length k < 2 ^ 64 \<and> reads c (norm v)) es ?kvs"
    unfolding list_all2_conv_all_nth
  proof (intro conjI allI impI)
    show len: "length es = length ?kvs" using list_all2_lengthD[OF es(1)] by simp
    fix i assume i: "i < length es"
    obtain k v where kv: "?kvs ! i = (k, v)" by (cases "?kvs ! i")
    obtain k' c where e: "es ! i = (k', c)" by (cases "es ! i")
    have "(k, v) \<in> set kvs" using nth_mem[of i ?kvs] i len kv by simp
    moreover have "k' = k" "appendCanonical nfc v = Inr c" using list_all2_nthD2[OF es(1) i] kv e by auto
    ultimately show "(\<lambda>(k, c) (k', v). k' = k \<and> length k < 2 ^ 64 \<and> reads c (norm v)) (es ! i) (?kvs ! i)"
      using 7(1)[of "(k, v)" k v c] 7(3) unfolding kv e by (auto simp: list_all_iff)
  qed
  then have "list_all2 (\<lambda>(k, c) (k', v). k' = k \<and> length k < 2 ^ 64 \<and> reads c v) es (map (\<lambda>(k, v). (k, norm v)) ?kvs)"
    unfolding list_all2_map2 by (rule list_all2_mono) auto
  then show ?case
    using reads_map[of es "map (\<lambda>(k, v). (k, norm v)) ?kvs"] 7(3) es(2) by (simp add: sort_entries)
qed (use reads_simple reads_number in auto)

section \<open>What the bytes determine\<close>

theorem decode_marshalCanonical:
  assumes "marshalCanonical nfc v = Inr b" "fits v"
  shows "decode b = Inr (norm v)"
proof -
  have "parse (length b) (b @ []) = Some (norm v, [])"
    using appendCanonical_reads[of nfc v b] assms unfolding reads_def marshalCanonical_def by blast
  then show ?thesis by (simp add: decode_def)
qed

lemma marshalCanonical_injective:
  assumes "marshalCanonical nfc v = Inr b" "marshalCanonical nfc w = Inr b" "fits v" "fits w"
  shows "norm v = norm w"
  using decode_marshalCanonical[OF assms(1,3)] decode_marshalCanonical[OF assms(2,4)] by simp

text \<open>No encoding is a proper beginning of another.\<close>

lemma marshalCanonical_prefix_free:
  assumes "marshalCanonical nfc v = Inr b" "marshalCanonical nfc w = Inr (b @ c)" "fits v" "fits w"
  shows "c = []"
proof -
  have "reads b (norm v)" "reads (b @ c) (norm w)"
    using appendCanonical_reads assms by (auto simp: marshalCanonical_def)
  then have "parse (length (b @ c)) (b @ c) = Some (norm v, c)" "parse (length (b @ c)) ((b @ c) @ []) = Some (norm w, [])"
    unfolding reads_def by auto
  then show ?thesis by simp
qed

text \<open>The order in which a map is iterated does not show.\<close>

lemma text_bytes_inj:
  assumes "text_bytes s = text_bytes t"
  shows "s = t"
proof -
  have "parse_head (text_bytes u) = Some (3, unat (of_nat (length u) :: 64 word), u)" for u
    unfolding text_bytes_def by (rule parse_head_append) simp
  then show ?thesis using arg_cong[OF assms, of parse_head] by (metis option.inject prod.inject)
qed

lemma sort_entries_mset:
  assumes "mset kvs = mset kvs'" "distinct (map fst kvs)"
  shows "sort_key (\<lambda>(k, v). key_order k) kvs = sort_key (\<lambda>(k, v). key_order k) kvs'"
proof (rule map_sorted_distinct_set_unique)
  let ?f = "\<lambda>(k, v). key_order k"
  have inj: "inj_on ?f (set xs)" "distinct (map ?f xs)" if "distinct (map fst xs)" for xs :: "(string \<times> 'a) list"
  proof -
    show "inj_on ?f (set xs)"
      using that by (auto simp: inj_on_def key_order_def dest!: text_bytes_inj intro: eq_key_imp_eq_value)
    then show "distinct (map ?f xs)" using that by (simp add: distinct_map)
  qed
  have d': "distinct (map fst kvs')" using mset_eq_imp_distinct_iff[of "map fst kvs" "map fst kvs'"] assms by simp
  have "set kvs = set kvs'" using assms(1) by (rule mset_eq_setD)
  then show "inj_on ?f (set (sort_key ?f kvs) \<union> set (sort_key ?f kvs'))" using inj(1)[OF assms(2)] by simp
  show "set (sort_key ?f kvs) = set (sort_key ?f kvs')" using \<open>set kvs = set kvs'\<close> by simp
  show "distinct (map ?f (sort_key ?f kvs))" using inj(2)[OF assms(2)] by (simp add: distinct_map)
  show "distinct (map ?f (sort_key ?f kvs'))" using inj(2)[OF d'] by (simp add: distinct_map)
qed simp_all

lemma norm_iteration_order:
  assumes "mset kvs = mset kvs'" "distinct (map fst kvs)"
  shows "norm (CMap kvs) = norm (CMap kvs')"
  by (simp add: sort_entries sort_entries_mset[OF assms])

lemma appendCanonical_norm: "appendCanonical nfc (norm v) = Inr b \<longleftrightarrow> appendCanonical nfc v = Inr b"
proof (induction v arbitrary: b rule: norm.induct)
  case (6 vs)
  have "map (appendCanonical nfc) (map norm vs) = map Inr bs \<longleftrightarrow> map (appendCanonical nfc) vs = map Inr bs" for bs
    using 6 by (auto simp: list_eq_iff_nth_eq)
  then show ?case by (simp add: res)
next
  case (7 kvs)
  let ?kvs = "sort_key (\<lambda>(k, v). key_order k) kvs"
  have sorted: "sort_key (\<lambda>(k, v). key_order k) (sort_key (\<lambda>(k, v). key_order k) kvs) = ?kvs"
    by (rule sort_key_id_if_sorted) simp
  have "list_all2 (\<lambda>(k, v) (k', c). k' = k \<and> appendCanonical nfc (norm v) = Inr c) ?kvs es
      \<longleftrightarrow> list_all2 (\<lambda>(k, v) (k', c). k' = k \<and> appendCanonical nfc v = Inr c) ?kvs es" for es
    using 7 by (intro list.rel_cong) auto
  then have entries: "list_all2 (\<lambda>(k, v) (k', c). k' = k \<and> appendCanonical nfc v = Inr c) (map (\<lambda>(k, v). (k, norm v)) ?kvs) es
      \<longleftrightarrow> list_all2 (\<lambda>(k, v) (k', c). k' = k \<and> appendCanonical nfc v = Inr c) ?kvs es" for es
    unfolding list_all2_map1 by (simp add: case_prod_beta')
  have keys: "(\<forall>(k, v) \<in> set (map (\<lambda>(k, v). (k, norm v)) ?kvs). validateCanonicalText nfc k = Inr ())
      \<longleftrightarrow> (\<forall>(k, v) \<in> set kvs. validateCanonicalText nfc k = Inr ())" by auto
  show ?case
    unfolding norm.simps appendCanonical_map sort_entries sorted keys entries by simp
qed auto

end
