(* ===== verification/Requests.thy ===== *)
theory Requests
  imports Operation Cbor
begin

text \<open>
  Requests and their validation (\<open>internal/operation/contract.go\<close>, \<open>validate.go\<close>,
  \<open>gate_repair_validation.go\<close>, \<open>step10.go\<close>): one constructor per input type of the catalogue, and
  \<open>ValidateRequest\<close> with the check of every input.

  Unicode normal form C (\<open>golang.org/x/text\<close>) and the parse of an URL (\<open>net/url\<close>) are arguments.
  Numbers of Go are words of their width; \<open>nil\<close> is \<open>None\<close>.
\<close>

section \<open>The inputs\<close>

record ClaimContext =
  cc_ID :: string
  cc_Epoch :: string

record BlobInput =
  bl_Name :: string
  bl_Digest :: string
  bl_Size :: "64 word"

record TargetClaim =
  tc_MatterID :: string
  tc_ClaimID :: string
  tc_ClaimEpoch :: "64 word"

text \<open>\<open>ClaimClosePrefix\<close> and \<open>SchedulerPrefixAnchor\<close>, which have the same fields.\<close>

record PrefixAnchor =
  pa_EventCount :: "64 word"
  pa_EventID :: "string option"
  pa_Digest :: string

record ClaimCloseReference =
  cr_ClaimID :: string
  cr_ClaimEpoch :: "64 word"
  cr_ReleaseCommandID :: string
  cr_ReleaseRequestHash :: string
  cr_TerminalReceiptDigest :: string
  cr_InstalledPrefixAnchor :: PrefixAnchor

record GateExemptionRepair =
  ge_NodeID :: string
  ge_Gate :: string
  ge_EventCount :: "64 word"
  ge_HighWaterEventID :: string
  ge_PrefixDigest :: string
  ge_IncidentRef :: string
  ge_Reason :: string
  ge_EvidenceRefs :: "string list"

record SchedulerHook =
  sh_Kind :: string
  sh_Version :: "64 word"
  sh_AdapterID :: string
  sh_AdapterVersion :: "64 word"
  sh_RunID :: string
  sh_MatterID :: string
  sh_TargetID :: string
  sh_TargetKind :: string
  sh_Role :: string
  sh_RoleID :: string
  sh_DispatchID :: string
  sh_Revision :: string
  sh_Reason :: string
  sh_Contention :: string
  sh_Blocked :: string
  sh_Failed :: string
  sh_TargetClaims :: "TargetClaim list option"
  sh_InstalledPrefix :: PrefixAnchor

record RoleLifecycle =
  rl_RunID :: string
  rl_RunLocator :: string
  rl_MatterID :: string
  rl_DispatchID :: string
  rl_RoleID :: string
  rl_Role :: string
  rl_Reason :: string

datatype Input =
    MatterCreateInput string string
  | StepCreateInput string string
  | StageCreateInput string string
  | StepInsertInput string string string string
  | StepReorderInput string "string list"
  | StepReplaceInput string string
  | StepRemoveInput string string
  | MatterLocatorRepairInput string string string
  | StepLifecycleInput string
  | StepCancelInput string string
  | NodeLifecycleInput string string
  | MatterFinishInput string
  | BatchSweepAnonymousInput string string ClaimCloseReference
  | BatchCreateInput string
  | BatchMembershipInput string string
  | BatchDismissInput string
  | ContentWriteInput string string
  | FindingAppendInput string
  | GateDeclareInput string string
  | GateCloseInput string string
  | GateDismissInput string string string
  | GateExemptionRepairInput GateExemptionRepair
  | DependencyAddInput string string
  | DependencyAddV2Input string string "TargetClaim list"
  | DependencyRemoveInput string string
  | DependencyRemoveV2Input string string "TargetClaim list"
  | ReferenceBindInput string string
  | ReferenceBindV2Input string string "TargetClaim list"
  | ReferenceUnbindInput string string
  | ReferenceUnbindV2Input string string "TargetClaim list"
  | ReferenceRebindInput string string string
  | ReferenceRebindV2Input string string string "TargetClaim list"
  | SchedulerHookInput SchedulerHook
  | RoleLifecycleInput RoleLifecycle
  | RunFinishInput string
  | RunResumeInput string string

text \<open>\<open>reflect.TypeOf\<close> of an input.\<close>

primrec input_type :: "Input \<Rightarrow> string" where
  "input_type (MatterCreateInput _ _) = ''MatterCreateInput''"
| "input_type (StepCreateInput _ _) = ''StepCreateInput''"
| "input_type (StageCreateInput _ _) = ''StageCreateInput''"
| "input_type (StepInsertInput _ _ _ _) = ''StepInsertInput''"
| "input_type (StepReorderInput _ _) = ''StepReorderInput''"
| "input_type (StepReplaceInput _ _) = ''StepReplaceInput''"
| "input_type (StepRemoveInput _ _) = ''StepRemoveInput''"
| "input_type (MatterLocatorRepairInput _ _ _) = ''MatterLocatorRepairInput''"
| "input_type (StepLifecycleInput _) = ''StepLifecycleInput''"
| "input_type (StepCancelInput _ _) = ''StepCancelInput''"
| "input_type (NodeLifecycleInput _ _) = ''NodeLifecycleInput''"
| "input_type (MatterFinishInput _) = ''MatterFinishInput''"
| "input_type (BatchSweepAnonymousInput _ _ _) = ''BatchSweepAnonymousInput''"
| "input_type (BatchCreateInput _) = ''BatchCreateInput''"
| "input_type (BatchMembershipInput _ _) = ''BatchMembershipInput''"
| "input_type (BatchDismissInput _) = ''BatchDismissInput''"
| "input_type (ContentWriteInput _ _) = ''ContentWriteInput''"
| "input_type (FindingAppendInput _) = ''FindingAppendInput''"
| "input_type (GateDeclareInput _ _) = ''GateDeclareInput''"
| "input_type (GateCloseInput _ _) = ''GateCloseInput''"
| "input_type (GateDismissInput _ _ _) = ''GateDismissInput''"
| "input_type (GateExemptionRepairInput _) = ''GateExemptionRepairInput''"
| "input_type (DependencyAddInput _ _) = ''DependencyAddInput''"
| "input_type (DependencyAddV2Input _ _ _) = ''DependencyAddV2Input''"
| "input_type (DependencyRemoveInput _ _) = ''DependencyRemoveInput''"
| "input_type (DependencyRemoveV2Input _ _ _) = ''DependencyRemoveV2Input''"
| "input_type (ReferenceBindInput _ _) = ''ReferenceBindInput''"
| "input_type (ReferenceBindV2Input _ _ _) = ''ReferenceBindV2Input''"
| "input_type (ReferenceUnbindInput _ _) = ''ReferenceUnbindInput''"
| "input_type (ReferenceUnbindV2Input _ _ _) = ''ReferenceUnbindV2Input''"
| "input_type (ReferenceRebindInput _ _ _) = ''ReferenceRebindInput''"
| "input_type (ReferenceRebindV2Input _ _ _ _) = ''ReferenceRebindV2Input''"
| "input_type (SchedulerHookInput _) = ''SchedulerHookInput''"
| "input_type (RoleLifecycleInput _) = ''RoleLifecycleInput''"
| "input_type (RunFinishInput _) = ''RunFinishInput''"
| "input_type (RunResumeInput _ _) = ''RunResumeInput''"

record OpContext =
  cx_Repo :: string
  cx_Clone :: string
  cx_Worktree :: string

record OpRequest =
  or_Operation :: ID
  or_Actor :: string
  or_Context :: OpContext
  or_Claim :: "ClaimContext option"
  or_Input :: "Input option"
  or_Blobs :: "BlobInput list"

section \<open>Checks\<close>

definition validActor :: "string \<Rightarrow> bool" where
  "validActor actor =
     (let name = (\<lambda>p. let n = drop (length p) actor in n \<noteq> [] \<and> list_all (\<lambda>c. c \<notin> set [CHR '' '', CHR 0x09, CHR 0x0D, CHR 0x0A]) n) in
      actor = ''human''
      \<or> (if has_prefix ''role:'' actor then name ''role:''
         else has_prefix ''system:'' actor \<and> name ''system:''))"

definition validateULID :: "string \<Rightarrow> unit result" where
  "validateULID v = require (ulidPattern v) (ERefused ''is not a canonical ULID'')"

definition reject :: "bool \<Rightarrow> string \<Rightarrow> unit result" where
  "reject b msg = (if b then Inl (ERefused msg) else Inr ())"

definition validGateScale :: "string \<Rightarrow> bool" where
  "validGateScale scale = (scale = ''matter'' \<or> scale = ''stage'' \<or> scale = ''step'')"

primrec target_claims_loop :: "string \<Rightarrow> TargetClaim list \<Rightarrow> unit result" where
  "target_claims_loop previous [] = Inr ()"
| "target_claims_loop previous (c # cs) =
     rbind (validateULID (tc_MatterID c)) (\<lambda>_.
     rbind (validateULID (tc_ClaimID c)) (\<lambda>_.
     if tc_ClaimEpoch c = 0 then Inl (ERefused ''target claim epoch must be positive'')
     else if previous \<noteq> [] \<and> tc_MatterID c \<le> previous then Inl (ERefused ''target claims must be unique and ordered'')
     else target_claims_loop (tc_MatterID c) cs))"

definition validateTargetClaims :: "TargetClaim list \<Rightarrow> unit result" where
  "validateTargetClaims claims =
     (if length claims > 2 then Inl (ERefused ''target claim set exceeds two Matters'') else target_claims_loop [] claims)"

definition validateDependencyV2Input :: "string \<Rightarrow> string \<Rightarrow> TargetClaim list \<Rightarrow> unit result" where
  "validateDependencyV2Input blocked blocker claims =
     rbind (validateULID blocked) (\<lambda>_. rbind (validateULID blocker) (\<lambda>_. validateTargetClaims claims))"

definition validateReferenceV2Input :: "string \<Rightarrow> string \<Rightarrow> TargetClaim list \<Rightarrow> unit result" where
  "validateReferenceV2Input matter reference claims =
     rbind (validateULID matter) (\<lambda>_.
     rbind (reject (trim_space reference = []) ''tracker reference is empty'') (\<lambda>_. validateTargetClaims claims))"

section \<open>The repair of a gate exemption\<close>

text \<open>What \<open>net/url\<close> tells about an address.\<close>

record url =
  url_IsAbs :: bool
  url_Scheme :: string
  url_Opaque :: string
  url_Host :: string
  url_Hostname :: string
  url_User :: bool

text \<open>\<open>unicode.IsControl\<close> and \<open>unicode.IsSpace\<close> of a character of valid UTF-8 text.\<close>

fun has_control :: "string \<Rightarrow> bool" where
  "has_control [] = False"
| "has_control (a # s) =
     (within 0 0x1F a \<or> a = CHR 0x7F
      \<or> (a = CHR 0xC2 \<and> (case s of b # _ \<Rightarrow> within 0x80 0x9F b | [] \<Rightarrow> False))
      \<or> has_control s)"

fun has_space :: "string \<Rightarrow> bool" where
  "has_space [] = False"
| "has_space (a # s) =
     (ascii_space a
      \<or> (case s of b # s' \<Rightarrow> space2 a b \<or> (case s' of c # _ \<Rightarrow> space3 a b c | [] \<Rightarrow> False) | [] \<Rightarrow> False)
      \<or> has_space s)"

definition validRepairText :: "(string \<Rightarrow> bool) \<Rightarrow> string \<Rightarrow> nat \<Rightarrow> nat \<Rightarrow> bool \<Rightarrow> bool" where
  "validRepairText nfc v minBytes maxBytes allowControls =
     (valid_utf8 v \<and> minBytes \<le> length v \<and> length v \<le> maxBytes \<and> nfc v \<and> (allowControls \<or> \<not> has_control v))"

definition repairAlphaNumeric :: "char \<Rightarrow> bool" where
  "repairAlphaNumeric c = (lower c \<or> upper c \<or> digit c)"

definition repairPChar :: "char \<Rightarrow> bool" where
  "repairPChar c = (repairAlphaNumeric c \<or> c \<in> set ''-._~!$&()*+,;=:@'' \<or> c = CHR 0x27)"

definition repairHex :: "char \<Rightarrow> bool" where
  "repairHex c = (digit c \<or> c \<in> set ''abcdefABCDEF'')"

fun validRepairURNComponent :: "bool \<Rightarrow> bool \<Rightarrow> string \<Rightarrow> bool" where
  "validRepairURNComponent allowSlash allowQuestion [] = True"
| "validRepairURNComponent allowSlash allowQuestion (c # s) =
     (if c = CHR ''%'' then
        (case s of a # b # s' \<Rightarrow> repairHex a \<and> repairHex b \<and> validRepairURNComponent allowSlash allowQuestion s' | _ \<Rightarrow> False)
      else if repairPChar c \<or> (allowSlash \<and> c = CHR ''/'') \<or> (allowQuestion \<and> c = CHR 0x3F)
      then validRepairURNComponent allowSlash allowQuestion s
      else False)"

definition validRepairURNPrefix :: "string \<Rightarrow> bool \<Rightarrow> bool \<Rightarrow> bool" where
  "validRepairURNPrefix v allowSlash allowQuestion =
     (case v of [] \<Rightarrow> False
      | c # s \<Rightarrow>
          if c = CHR ''%'' then
            length v \<ge> 3 \<and> repairHex (v ! 1) \<and> repairHex (v ! 2) \<and> validRepairURNComponent allowSlash allowQuestion (drop 3 v)
          else repairPChar c \<and> validRepairURNComponent allowSlash allowQuestion s)"

text \<open>\<open>strings.Cut\<close> and \<open>strings.Index\<close>: where a separator first occurs.\<close>

fun index_sub :: "string \<Rightarrow> string \<Rightarrow> nat option" where
  "index_sub sep [] = (if sep = [] then Some 0 else None)"
| "index_sub sep (c # s) = (if has_prefix sep (c # s) then Some 0 else map_option Suc (index_sub sep s))"

definition cut :: "string \<Rightarrow> string \<Rightarrow> (string \<times> string) option" where
  "cut sep s = map_option (\<lambda>i. (take i s, drop (i + length sep) s)) (index_sub sep s)"

definition validRepairURNQuery :: "string \<Rightarrow> bool" where
  "validRepairURNQuery v =
     (case cut ''#'' v of
        None \<Rightarrow> validRepairURNPrefix v True True
      | Some (query, fragment) \<Rightarrow> validRepairURNPrefix query True True \<and> validRepairURNComponent True True fragment)"

definition question :: string where "question = [CHR 0x3F]"

definition validRepairURNOptional :: "string \<Rightarrow> bool" where
  "validRepairURNOptional optional =
     (if optional = [] then True
      else if has_prefix ''#'' optional then validRepairURNComponent True True (drop 1 optional)
      else if has_prefix (question @ ''='') optional then validRepairURNQuery (drop 2 optional)
      else if \<not> has_prefix (question @ ''+'') optional then False
      else
        let remainder = drop 2 optional;
            n = length remainder;
            e1 = (case index_sub (question @ ''='') remainder of Some i \<Rightarrow> min i n | None \<Rightarrow> n);
            end = (case index_sub ''#'' remainder of Some i \<Rightarrow> min i e1 | None \<Rightarrow> e1);
            trailing = drop end remainder
        in validRepairURNPrefix (take end remainder) True True
           \<and> (if trailing = [] then True
              else if has_prefix (question @ ''='') trailing then validRepairURNQuery (drop 2 trailing)
              else if has_prefix ''#'' trailing then validRepairURNComponent True True (drop 1 trailing)
              else False))"

definition fold_char :: "char \<Rightarrow> char" where
  "fold_char c = (if upper c then char_of (of_char c + 32 :: nat) else c)"

text \<open>\<open>strings.EqualFold\<close> against a word of letters that only fold to letters.\<close>

definition equal_fold :: "string \<Rightarrow> string \<Rightarrow> bool" where
  "equal_fold s w = (map fold_char s = w)"

definition validRepairURN :: "string \<Rightarrow> bool" where
  "validRepairURN v =
     (length v \<ge> 4 \<and> equal_fold (take 4 v) ''urn:''
      \<and> (case cut '':'' (drop 4 v) of
           None \<Rightarrow> False
         | Some (nid, assignedName) \<Rightarrow>
             2 \<le> length nid \<and> length nid \<le> 32 \<and> assignedName \<noteq> []
             \<and> list_all (\<lambda>i. repairAlphaNumeric (nid ! i) \<or> (nid ! i = CHR ''-'' \<and> i \<noteq> 0 \<and> i \<noteq> length nid - 1)) [0..<length nid]
             \<and> (let nss = takeWhile (\<lambda>c. c \<noteq> CHR 0x3F \<and> c \<noteq> CHR ''#'') assignedName;
                    optional = dropWhile (\<lambda>c. c \<noteq> CHR 0x3F \<and> c \<noteq> CHR ''#'') assignedName
                in validRepairURNPrefix nss True False \<and> validRepairURNOptional optional)))"

definition validRepairIncidentRef :: "(string \<Rightarrow> bool) \<Rightarrow> (string \<Rightarrow> url option) \<Rightarrow> string \<Rightarrow> bool" where
  "validRepairIncidentRef nfc urlParse v =
     (validRepairText nfc v 1 2048 False \<and> \<not> has_space v \<and> \<not> has_control v
      \<and> (case urlParse v of
           None \<Rightarrow> False
         | Some u \<Rightarrow> url_IsAbs u
             \<and> (if equal_fold (url_Scheme u) ''https''
                then url_Opaque u = [] \<and> url_Host u \<noteq> [] \<and> url_Hostname u \<noteq> [] \<and> \<not> url_User u
                else equal_fold (url_Scheme u) ''urn'' \<and> validRepairURN v)))"

definition validateGateExemptionRepairInput ::
  "(string \<Rightarrow> bool) \<Rightarrow> (string \<Rightarrow> url option) \<Rightarrow> GateExemptionRepair \<Rightarrow> unit result" where
  "validateGateExemptionRepairInput nfc urlParse i =
     (if \<not> ulidPattern (ge_NodeID i) \<or> \<not> validRepairText nfc (ge_Gate i) 1 256 False
         \<or> ge_EventCount i = 0 \<or> ge_EventCount i > 2 ^ 63 - 1
         \<or> \<not> ulidPattern (ge_HighWaterEventID i) \<or> \<not> digestPattern (ge_PrefixDigest i)
         \<or> \<not> validRepairIncidentRef nfc urlParse (ge_IncidentRef i)
         \<or> \<not> validRepairText nfc (ge_Reason i) 1 4096 True
         \<or> ge_EvidenceRefs i = [] \<or> length (ge_EvidenceRefs i) > 32
      then Inl (ERefused ''invalid incident or declaration boundary'')
      else if \<not> (list_all digestPattern (ge_EvidenceRefs i) \<and> sorted_wrt (<) (ge_EvidenceRefs i))
      then Inl (ERefused ''evidence references must be sorted unique sha256 digests'')
      else Inr ())"

end
