(* ===== verification/Validate.thy ===== *)
theory Validate
  imports Requests
begin

text \<open>
  \<open>ValidateRequest\<close> (\<open>internal/operation/validate.go\<close>, \<open>step10.go\<close>): the envelope of a request against
  its definition, and the check of its input, one equation per input type.
\<close>

section \<open>The hooks of the scheduler\<close>

definition SchedulerStep10VerifierRevision :: string where
  "SchedulerStep10VerifierRevision = ''builtin.step10-verifier@v1''"

definition validSchedulerTargetKind :: "string \<Rightarrow> bool" where
  "validSchedulerTargetKind kind = (kind = ''matter'' \<or> kind = ''stage'' \<or> kind = ''step'')"

definition validSchedulerHandling :: "string \<Rightarrow> bool" where
  "validSchedulerHandling v = (v = ''skip'' \<or> v = ''halt'')"

definition blob_names :: "OpRequest \<Rightarrow> string list" where
  "blob_names req = map bl_Name (or_Blobs req)"

definition no_policy :: "SchedulerHook \<Rightarrow> bool" where
  "no_policy i = (sh_Reason i = [] \<and> sh_Contention i = [] \<and> sh_Blocked i = [] \<and> sh_Failed i = [])"

definition hook_claims :: "SchedulerHook \<Rightarrow> TargetClaim list" where
  "hook_claims i = (case sh_TargetClaims i of Some cs \<Rightarrow> cs | None \<Rightarrow> [])"

text \<open>One claim, and it is the one of the Matter.\<close>

definition claims_matter :: "SchedulerHook \<Rightarrow> bool" where
  "claims_matter i = (case hook_claims i of [c] \<Rightarrow> tc_MatterID c = sh_MatterID i | _ \<Rightarrow> False)"

definition validate_work_hook :: "SchedulerHook \<Rightarrow> OpRequest \<Rightarrow> unit result" where
  "validate_work_hook i req =
     (if \<not> validSchedulerTargetKind (sh_TargetKind i)
         \<or> (sh_TargetKind i = ''matter'' \<and> sh_TargetID i \<noteq> sh_MatterID i)
         \<or> (sh_TargetKind i \<noteq> ''matter'' \<and> sh_TargetID i = sh_MatterID i)
         \<or> \<not> claims_matter i \<or> \<not> ulidPattern (sh_RoleID i) \<or> \<not> ulidPattern (sh_DispatchID i) \<or> \<not> no_policy i
      then Inl (ERefused ''work hook has invalid claim, role, or policy context'')
      else if sh_Role i = ''builder'' then
        reject (sh_Revision i \<noteq> ''builtin.markdown-outline@v1'' \<or> blob_names req \<noteq> [''source'']) ''Builder hook''
      else if sh_Role i = ''verifier'' then
        (if sh_Revision i = ''builtin.markdown-outline-verifier@v1''
         then reject (blob_names req \<noteq> [''outline'', ''source'']) ''legacy negative Verifier''
         else if sh_Revision i = SchedulerStep10VerifierRevision
         then reject (blob_names req \<noteq> [''model'', ''review'', ''snapshot'', ''tree-manifest'', ''workplan'']) ''complete Verifier''
         else Inl (ERefused ''Verifier revision is unsupported''))
      else Inl (ERefused ''work hook role is unsupported''))"

definition validate_plan_hook :: "SchedulerHook \<Rightarrow> OpRequest \<Rightarrow> unit result" where
  "validate_plan_hook i req =
     reject (sh_TargetID i \<noteq> sh_MatterID i \<or> sh_TargetKind i \<noteq> ''matter'' \<or> sh_Role i \<noteq> ''researcher''
       \<or> \<not> ulidPattern (sh_RoleID i) \<or> \<not> ulidPattern (sh_DispatchID i)
       \<or> sh_Revision i \<noteq> ''builtin.markdown-checklist-plan@v1'' \<or> \<not> claims_matter i
       \<or> blob_names req \<noteq> [''workplan''] \<or> \<not> no_policy i) ''Plan hook''"

definition validate_ask_hook :: "SchedulerHook \<Rightarrow> OpRequest \<Rightarrow> unit result" where
  "validate_ask_hook i req =
     reject (sh_TargetID i \<noteq> sh_MatterID i \<or> sh_TargetKind i \<noteq> ''matter'' \<or> sh_Role i \<noteq> [] \<or> sh_RoleID i \<noteq> []
       \<or> sh_DispatchID i \<noteq> [] \<or> hook_claims i \<noteq> [] \<or> sh_Revision i \<noteq> ''builtin.run-policy@v1'' \<or> or_Blobs req \<noteq> []
       \<or> sh_Reason i \<notin> set [''contended'', ''blocked'', ''failed'']
       \<or> \<not> validSchedulerHandling (sh_Contention i) \<or> \<not> validSchedulerHandling (sh_Blocked i)
       \<or> \<not> validSchedulerHandling (sh_Failed i) \<or> or_Actor req \<noteq> ''system:scheduler'') ''Ask hook''"

text \<open>\<open>fmt.Sprint\<close> of an unsigned number.\<close>

definition show_uint :: "64 word \<Rightarrow> string" where
  "show_uint v = digits (unat v)"

definition exact_claim :: "SchedulerHook \<Rightarrow> OpRequest \<Rightarrow> bool" where
  "exact_claim i req =
     (case (or_Claim req, hook_claims i) of
        (Some c, [t]) \<Rightarrow> cc_ID c = tc_ClaimID t \<and> cc_Epoch c = show_uint (tc_ClaimEpoch t)
      | _ \<Rightarrow> False)"

definition prefix_anchor_ok :: "PrefixAnchor \<Rightarrow> bool" where
  "prefix_anchor_ok p =
     (digestPattern (pa_Digest p)
      \<and> (if pa_EventCount p = 0 then pa_EventID p = None
         else case pa_EventID p of Some e \<Rightarrow> ulidPattern e | None \<Rightarrow> False))"

definition validateSchedulerHookInput :: "SchedulerHook \<Rightarrow> OpRequest \<Rightarrow> unit result" where
  "validateSchedulerHookInput i req =
     rbind (reject (sh_Version i \<noteq> 1 \<or> sh_AdapterID i \<noteq> ''builtin.pinned-markdown'' \<or> sh_AdapterVersion i \<noteq> 1) ''adapter version'') (\<lambda>_.
     rbind (validateULID (sh_RunID i)) (\<lambda>_. rbind (validateULID (sh_MatterID i)) (\<lambda>_. rbind (validateULID (sh_TargetID i)) (\<lambda>_.
     rbind (reject (\<not> prefix_anchor_ok (sh_InstalledPrefix i)) ''invalid installed prefix anchor'') (\<lambda>_.
     rbind (reject (sh_TargetClaims i = None) ''target-claim set must be explicit'') (\<lambda>_.
     rbind (validateTargetClaims (hook_claims i)) (\<lambda>_.
     rbind (if sh_Kind i = ''work'' \<or> sh_Kind i = ''plan''
            then reject (\<not> exact_claim i req) ''requires the exact active claim''
            else reject (or_Claim req \<noteq> None) ''Ask hook cannot carry a Matter claim'') (\<lambda>_.
     rbind (reject (or_Actor req \<noteq> ''role:'' @ sh_Role i \<and> sh_Kind i \<noteq> ''ask'') ''actor does not match the activated role'') (\<lambda>_.
     rbind (reject (\<not> sorted_wrt (<) (blob_names req)) ''pinned blobs must be uniquely ordered by name'') (\<lambda>_.
     if sh_Kind i = ''work'' then validate_work_hook i req
     else if sh_Kind i = ''plan'' then validate_plan_hook i req
     else if sh_Kind i = ''ask'' then validate_ask_hook i req
     else Inl (ERefused ''hook kind is unsupported'')))))))))))"

definition validateRoleLifecycleRequest :: "ID \<Rightarrow> RoleLifecycle \<Rightarrow> OpRequest \<Rightarrow> unit result" where
  "validateRoleLifecycleRequest ident i req =
     rbind (validateULID (rl_RunID i)) (\<lambda>_. rbind (validateULID (rl_MatterID i)) (\<lambda>_.
     rbind (validateULID (rl_DispatchID i)) (\<lambda>_. rbind (validateULID (rl_RoleID i)) (\<lambda>_.
     rbind (reject (\<not> locatorPattern (rl_RunLocator i)) ''requires a canonical Run locator'') (\<lambda>_.
     rbind (reject (rl_Role i \<notin> set [''orchestrator'', ''coordinator'', ''researcher'', ''builder'', ''verifier'']) ''inert Role'') (\<lambda>_.
     if ident = operation_of RoleSpawnV1 then
       reject (rl_Reason i \<noteq> [] \<or> (or_Actor req \<noteq> ''system:scheduler'' \<and> or_Actor req \<noteq> ''role:orchestrator'')) ''role.spawn''
     else if ident = operation_of RoleCloseV1 then
       rbind (reject (rl_Reason i \<noteq> ''completed'' \<and> rl_Reason i \<noteq> ''reaped'') ''role.close reason'') (\<lambda>_.
       reject ((rl_Reason i = ''completed'' \<and> or_Actor req \<noteq> ''role:'' @ rl_Role i)
         \<or> (rl_Reason i = ''reaped'' \<and> or_Actor req \<noteq> ''system:scheduler'')) ''does not own the requested closure'')
     else Inr ()))))))"

definition validateRunFinishRequest :: "string \<Rightarrow> OpRequest \<Rightarrow> unit result" where
  "validateRunFinishRequest run req =
     rbind (validateULID run) (\<lambda>_. reject (or_Actor req \<noteq> ''system:scheduler'') ''requires the scheduler actor'')"

definition validateRunResumeRequest :: "string \<Rightarrow> string \<Rightarrow> OpRequest \<Rightarrow> unit result" where
  "validateRunResumeRequest run loc req =
     rbind (validateULID run) (\<lambda>_.
     rbind (reject (\<not> locatorPattern loc) ''requires a canonical Run locator'') (\<lambda>_.
     reject (or_Actor req \<noteq> ''system:scheduler'') ''requires the scheduler actor''))"

section \<open>The check of an input\<close>

definition validate_claim_close :: "ClaimCloseReference \<Rightarrow> unit result" where
  "validate_claim_close c =
     rbind (validateULID (cr_ClaimID c)) (\<lambda>_.
     rbind (reject (cr_ClaimEpoch c = 0) ''claim close epoch must be positive'') (\<lambda>_.
     rbind (validateULID (cr_ReleaseCommandID c)) (\<lambda>_.
     rbind (reject (\<not> digestPattern (cr_ReleaseRequestHash c) \<or> \<not> digestPattern (cr_TerminalReceiptDigest c)) ''claim close digests'') (\<lambda>_.
     let p = cr_InstalledPrefixAnchor c in
     (case pa_EventID p of
        None \<Rightarrow> Inl (ERefused ''claim close installed prefix anchor is invalid'')
      | Some e \<Rightarrow>
          rbind (reject (pa_EventCount p = 0 \<or> \<not> digestPattern (pa_Digest p)) ''claim close installed prefix anchor is invalid'') (\<lambda>_.
          validateULID e))))))"

primrec ordered_ulids :: "string list \<Rightarrow> unit result" where
  "ordered_ulids [] = Inr ()"
| "ordered_ulids (x # xs) = rbind (validateULID x) (\<lambda>_. ordered_ulids xs)"

primrec validate_input ::
  "(string \<Rightarrow> bool) \<Rightarrow> (string \<Rightarrow> url option) \<Rightarrow> ID \<Rightarrow> OpRequest \<Rightarrow> Input \<Rightarrow> unit result" where
  "validate_input nfc urlParse op req (SchedulerHookInput i) = validateSchedulerHookInput i req"
| "validate_input nfc urlParse op req (RoleLifecycleInput i) = validateRoleLifecycleRequest op i req"
| "validate_input nfc urlParse op req (RunFinishInput run) = validateRunFinishRequest run req"
| "validate_input nfc urlParse op req (RunResumeInput run loc) = validateRunResumeRequest run loc req"
| "validate_input nfc urlParse op req (StepLifecycleInput step) = validateULID step"
| "validate_input nfc urlParse op req (StepCancelInput step reason) = validateULID step"
| "validate_input nfc urlParse op req (NodeLifecycleInput node reason) =
     rbind (validateULID node) (\<lambda>_.
     reject (id_Name op \<noteq> ''matter.cancel'' \<and> id_Name op \<noteq> ''stage.cancel'' \<and> reason \<noteq> []) ''only accepted for cancel'')"
| "validate_input nfc urlParse op req (MatterFinishInput matter) = validateULID matter"
| "validate_input nfc urlParse op req (BatchSweepAnonymousInput matter batch close) =
     rbind (validateULID matter) (\<lambda>_. rbind (validateULID batch) (\<lambda>_. validate_claim_close close))"
| "validate_input nfc urlParse op req (BatchCreateInput name) =
     reject (trim_space name = [] \<or> name \<noteq> trim_space name) ''named Batch name is empty or has surrounding whitespace''"
| "validate_input nfc urlParse op req (BatchMembershipInput batch matter) =
     rbind (validateULID batch) (\<lambda>_. validateULID matter)"
| "validate_input nfc urlParse op req (BatchDismissInput batch) = validateULID batch"
| "validate_input nfc urlParse op req (ContentWriteInput subject kind) =
     rbind (validateULID subject) (\<lambda>_. reject (kind \<notin> set [''brief'', ''workplan'', ''body'']) ''requires brief, workplan, or body kind'')"
| "validate_input nfc urlParse op req (FindingAppendInput subject) = validateULID subject"
| "validate_input nfc urlParse op req (GateDeclareInput gate scale) =
     reject (trim_space gate = [] \<or> \<not> validGateScale scale) ''requires a gate name and scale''"
| "validate_input nfc urlParse op req (GateCloseInput gate node) =
     rbind (reject (trim_space gate = []) ''requires a gate name'') (\<lambda>_. validateULID node)"
| "validate_input nfc urlParse op req (GateDismissInput gate node reason) =
     rbind (reject (trim_space gate = [] \<or> trim_space reason = []) ''requires a gate name and reason'') (\<lambda>_. validateULID node)"
| "validate_input nfc urlParse op req (DependencyAddInput blocked blocker) =
     rbind (validateULID blocked) (\<lambda>_. validateULID blocker)"
| "validate_input nfc urlParse op req (DependencyAddV2Input blocked blocker claims) = validateDependencyV2Input blocked blocker claims"
| "validate_input nfc urlParse op req (DependencyRemoveInput blocked blocker) =
     rbind (validateULID blocked) (\<lambda>_. rbind (validateULID blocker) (\<lambda>_.
     reject (blocked = blocker) ''dependency cannot block itself''))"
| "validate_input nfc urlParse op req (DependencyRemoveV2Input blocked blocker claims) = validateDependencyV2Input blocked blocker claims"
| "validate_input nfc urlParse op req (ReferenceBindInput matter ref) =
     rbind (validateULID matter) (\<lambda>_. reject (trim_space ref = []) ''tracker reference is empty'')"
| "validate_input nfc urlParse op req (ReferenceBindV2Input matter ref claims) = validateReferenceV2Input matter ref claims"
| "validate_input nfc urlParse op req (ReferenceUnbindInput matter ref) =
     rbind (validateULID matter) (\<lambda>_. reject (trim_space ref = []) ''tracker reference is empty'')"
| "validate_input nfc urlParse op req (ReferenceUnbindV2Input matter ref claims) = validateReferenceV2Input matter ref claims"
| "validate_input nfc urlParse op req (ReferenceRebindInput matter old new) =
     rbind (validateULID matter) (\<lambda>_.
     reject (trim_space old = [] \<or> trim_space new = [] \<or> old = new) ''requires two distinct non-empty references'')"
| "validate_input nfc urlParse op req (ReferenceRebindV2Input matter old new claims) =
     rbind (validateReferenceV2Input matter old claims) (\<lambda>_.
     reject (trim_space new = [] \<or> old = new) ''requires two distinct non-empty references'')"
| "validate_input nfc urlParse op req (GateExemptionRepairInput i) = validateGateExemptionRepairInput nfc urlParse i"
| "validate_input nfc urlParse op req (MatterCreateInput title loc) =
     (if op \<noteq> operation_of MatterCreateV2 then Inr ()
      else rbind (reject (trim_space title = []) ''matter title is empty'') (\<lambda>_.
           reject (loc \<noteq> [] \<and> \<not> locatorPattern loc) ''requested Matter locator is not canonical''))"
| "validate_input nfc urlParse op req (StageCreateInput matter title) =
     rbind (validateULID matter) (\<lambda>_. reject (trim_space title = []) ''stage title is empty'')"
| "validate_input nfc urlParse op req (StepCreateInput parent title) =
     (if op = operation_of StepCreateV1 then Inr ()
      else rbind (validateULID parent) (\<lambda>_. reject (trim_space title = []) ''step title is empty''))"
| "validate_input nfc urlParse op req (StepInsertInput parent title after before) =
     rbind (validateULID parent) (\<lambda>_.
     rbind (reject (trim_space title = [] \<or> (after \<noteq> [] \<and> before \<noteq> [])) ''requires a title and at most one anchor'') (\<lambda>_.
     rbind (if after \<noteq> [] then validateULID after else Inr ()) (\<lambda>_.
     if before \<noteq> [] then validateULID before else Inr ())))"
| "validate_input nfc urlParse op req (StepReorderInput parent order) =
     rbind (validateULID parent) (\<lambda>_.
     rbind (reject (order = []) ''step order is empty'') (\<lambda>_. ordered_ulids order))"
| "validate_input nfc urlParse op req (StepReplaceInput step title) =
     rbind (validateULID step) (\<lambda>_. reject (trim_space title = []) ''replacement Step title is empty'')"
| "validate_input nfc urlParse op req (StepRemoveInput step reason) =
     rbind (validateULID step) (\<lambda>_. reject (trim_space reason = []) ''step removal reason is empty'')"
| "validate_input nfc urlParse op req (MatterLocatorRepairInput matter assigned action) =
     rbind (validateULID matter) (\<lambda>_.
     reject (\<not> locatorPattern assigned \<or> (action \<noteq> ''rename'' \<and> action \<noteq> ''accept'')) ''assigned Matter locator is not canonical'')"

section \<open>The check of a request\<close>

text \<open>Every blob is declared, named once and has a digest and a size; then every required one is there.\<close>

primrec blobs_loop :: "string list \<Rightarrow> string list \<Rightarrow> BlobInput list \<Rightarrow> string list result" where
  "blobs_loop declared seen [] = Inr seen"
| "blobs_loop declared seen (b # bs) =
     (if bl_Name b \<notin> set declared then Inl (ERefused ''blob input is not declared'')
      else if bl_Name b \<in> set seen then Inl (ERefused ''blob input is duplicated'')
      else if bl_Digest b = [] then Inl (ERefused ''blob input has no digest'')
      else if sint (bl_Size b) < 0 then Inl (ERefused ''blob input has negative size'')
      else blobs_loop declared (bl_Name b # seen) bs)"

definition blob_specs :: "Definition \<Rightarrow> BlobSpec list" where
  "blob_specs d = (case md_BlobInputs (df_metadata d) of Some specs \<Rightarrow> specs | None \<Rightarrow> [])"

definition validateBlobs :: "Definition \<Rightarrow> BlobInput list \<Rightarrow> unit result" where
  "validateBlobs d blobs =
     rbind (blobs_loop (map bs_Name (blob_specs d)) [] blobs) (\<lambda>seen.
     reject (list_ex (\<lambda>spec. bs_Required spec \<and> bs_Name spec \<notin> set seen) (blob_specs d)) ''required blob input is missing'')"

definition context_value :: "OpContext \<Rightarrow> string \<Rightarrow> string" where
  "context_value cx dim =
     (if dim = ContextRepo then cx_Repo cx else if dim = ContextClone then cx_Clone cx
      else if dim = ContextWorktree then cx_Worktree cx else [])"

definition required_context :: "Definition \<Rightarrow> string list" where
  "required_context d = (case md_RequiredContext (df_metadata d) of Some ds \<Rightarrow> ds | None \<Rightarrow> [])"

definition validate_claim :: "Definition \<Rightarrow> OpRequest \<Rightarrow> unit result" where
  "validate_claim d req =
     (if md_Claim (df_metadata d) = ClaimExact \<or> md_Claim (df_metadata d) = ClaimImplicitBirth
         \<or> (Step10Operation (operation_of d) \<and> or_Claim req \<noteq> None)
      then (case or_Claim req of
              Some c \<Rightarrow> reject (cc_ID c = [] \<or> cc_Epoch c = []) ''operation requires an exact claim ID and epoch''
            | None \<Rightarrow> Inl (ERefused ''operation requires an exact claim ID and epoch''))
      else reject (or_Claim req \<noteq> None) ''operation does not accept claim context'')"

definition validate_birth_claim :: "Definition \<Rightarrow> OpRequest \<Rightarrow> Input \<Rightarrow> unit result" where
  "validate_birth_claim d req i =
     (if md_Claim (df_metadata d) \<noteq> ClaimImplicitBirth then Inr ()
      else case (i, or_Claim req) of
             (StepCreateInput parent title, Some c) \<Rightarrow>
               reject (\<not> ulidPattern parent \<or> cc_ID c \<noteq> parent \<or> cc_Epoch c \<noteq> ''1'') ''requires the implicit birth claim''
           | _ \<Rightarrow> Inl (ERefused ''requires the implicit birth claim''))"

definition ValidateRequest ::
  "(string \<Rightarrow> bool) \<Rightarrow> (string \<Rightarrow> url option) \<Rightarrow> Definition \<Rightarrow> OpRequest \<Rightarrow> unit result" where
  "ValidateRequest nfc urlParse d req =
     rbind (reject (or_Operation req \<noteq> operation_of d) ''operation'') (\<lambda>_.
     rbind (reject (\<not> validActor (or_Actor req)) ''actor'') (\<lambda>_.
     rbind (reject (operation_of d = operation_of GateExemptionRepairV1 \<and> or_Actor req \<noteq> ''human'') ''requires a human actor'') (\<lambda>_.
     rbind (reject (list_ex (\<lambda>dim. context_value (or_Context req) dim = []) (required_context d)) ''required context is empty'') (\<lambda>_.
     rbind (validate_claim d req) (\<lambda>_.
     (case or_Input req of
        None \<Rightarrow> Inl (ERefused ''input type'')
      | Some i \<Rightarrow>
          rbind (reject (input_type i \<noteq> df_inputType d) ''input type'') (\<lambda>_.
          rbind (validate_birth_claim d req i) (\<lambda>_.
          rbind (validate_input nfc urlParse (operation_of d) req i) (\<lambda>_.
          validateBlobs d (or_Blobs req))))))))))"

end
