(* ===== verification/Identity.thy ===== *)
theory Identity
  imports Validate Sha256
begin

text \<open>
  The identity of a command (\<open>internal/operation/command_identity.go\<close>): the canonical value of a
  command, its bytes and the hash of a request.
\<close>

section \<open>Commands\<close>

record Command =
  cm_ID :: string
  cm_AuthorityDomainID :: string
  cm_ExpectedAuthorityEpoch :: "64 word"
  cm_EnvironmentID :: string
  cm_EnvironmentSequence :: "64 word"
  cm_ActedAt :: string
  cm_CausationCommandID :: string
  cm_CorrelationCommandID :: string
  cm_Request :: OpRequest

definition commandIdentitySchema :: string where
  "commandIdentitySchema = ''wipd.command/1''"

definition requestHashDomain :: string where
  "requestHashDomain = ''wipd/request-hash/v1'' @ [CHR 0x00]"

definition digestPrefix :: string where
  "digestPrefix = ''sha256:''"

section \<open>Timestamps\<close>

text \<open>What \<open>time.Parse\<close> of RFC 3339 accepts and formats back to itself in UTC: a date that
  exists, a time of day, and a fraction of at most nine digits that does not end in zero.\<close>

definition number :: "string \<Rightarrow> nat option" where
  "number s = (if s \<noteq> [] \<and> list_all digit s then Some (fold (\<lambda>c n. 10 * n + (of_char c - 48)) s 0) else None)"

definition leap :: "nat \<Rightarrow> bool" where
  "leap y = (y mod 4 = 0 \<and> (y mod 100 \<noteq> 0 \<or> y mod 400 = 0))"

definition days_in :: "nat \<Rightarrow> nat \<Rightarrow> nat" where
  "days_in m y = (if m = 2 then (if leap y then 29 else 28) else if m \<in> {4, 6, 9, 11} then 30 else 31)"

definition in_range :: "nat \<Rightarrow> nat \<Rightarrow> string \<Rightarrow> bool" where
  "in_range a b s = (case number s of Some n \<Rightarrow> a \<le> n \<and> n \<le> b | None \<Rightarrow> False)"

definition canonical_fraction :: "string \<Rightarrow> bool" where
  "canonical_fraction r =
     (r = ''Z''
      \<or> (3 \<le> length r \<and> length r \<le> 11 \<and> hd r = CHR ''.'' \<and> last r = CHR ''Z''
         \<and> list_all digit (butlast (tl r)) \<and> last (butlast r) \<noteq> CHR ''0''))"

definition canonical_timestamp :: "string \<Rightarrow> bool" where
  "canonical_timestamp s =
     (20 \<le> length s \<and> s ! 4 = CHR ''-'' \<and> s ! 7 = CHR ''-'' \<and> s ! 10 = CHR ''T'' \<and> s ! 13 = CHR '':'' \<and> s ! 16 = CHR '':''
      \<and> (case (number (take 4 s), number (take 2 (drop 5 s))) of
           (Some y, Some m) \<Rightarrow> 1 \<le> m \<and> m \<le> 12 \<and> in_range 1 (days_in m y) (take 2 (drop 8 s))
         | _ \<Rightarrow> False)
      \<and> in_range 0 23 (take 2 (drop 11 s)) \<and> in_range 0 59 (take 2 (drop 14 s)) \<and> in_range 0 59 (take 2 (drop 17 s))
      \<and> canonical_fraction (drop 19 s))"

definition validateCanonicalTimestamp :: "string \<Rightarrow> unit result" where
  "validateCanonicalTimestamp v = require (canonical_timestamp v) (ERefused ''acted_at is not canonical UTC RFC3339Nano'')"

section \<open>Canonical values\<close>

definition nullableIdentity :: "string \<Rightarrow> canonical" where
  "nullableIdentity s = (if s = [] then CNull else CText s)"

definition nullableStringPointer :: "string option \<Rightarrow> canonical" where
  "nullableStringPointer v = (case v of None \<Rightarrow> CNull | Some s \<Rightarrow> CText s)"

definition canonicalTargetClaims :: "TargetClaim list \<Rightarrow> canonical" where
  "canonicalTargetClaims claims = CArray (map (\<lambda>c. CMap [(''matter_id'', CText (tc_MatterID c)),
     (''claim_id'', CText (tc_ClaimID c)), (''claim_epoch'', CUint (tc_ClaimEpoch c))]) claims)"

definition canonicalStrings :: "string list \<Rightarrow> canonical" where
  "canonicalStrings vs = CArray (map CText vs)"

definition canonical_anchor :: "PrefixAnchor \<Rightarrow> canonical" where
  "canonical_anchor p = CMap [(''event_count'', CUint (pa_EventCount p)),
     (''event_id'', nullableStringPointer (pa_EventID p)), (''digest'', CText (pa_Digest p))]"

definition canonical_hook :: "SchedulerHook \<Rightarrow> (string \<times> canonical) list" where
  "canonical_hook i = [
     (''kind'', CText (sh_Kind i)), (''version'', CUint (sh_Version i)),
     (''adapter_id'', CText (sh_AdapterID i)), (''adapter_version'', CUint (sh_AdapterVersion i)),
     (''run_id'', CText (sh_RunID i)), (''matter_id'', CText (sh_MatterID i)),
     (''target_id'', CText (sh_TargetID i)), (''target_kind'', CText (sh_TargetKind i)),
     (''role'', CText (sh_Role i)), (''role_id'', nullableIdentity (sh_RoleID i)),
     (''dispatch_id'', nullableIdentity (sh_DispatchID i)), (''revision'', CText (sh_Revision i)),
     (''reason'', CText (sh_Reason i)), (''contention'', CText (sh_Contention i)),
     (''blocked'', CText (sh_Blocked i)), (''failed'', CText (sh_Failed i)),
     (''target_claims'', canonicalTargetClaims (hook_claims i)),
     (''installed_prefix_anchor'', canonical_anchor (sh_InstalledPrefix i))]"

definition canonical_repair :: "GateExemptionRepair \<Rightarrow> (string \<times> canonical) list" where
  "canonical_repair i = [
     (''node_id'', CText (ge_NodeID i)), (''gate'', CText (ge_Gate i)),
     (''event_count'', CUint (ge_EventCount i)), (''high_water_event_id'', CText (ge_HighWaterEventID i)),
     (''prefix_digest'', CText (ge_PrefixDigest i)), (''incident_ref'', CText (ge_IncidentRef i)),
     (''reason'', CText (ge_Reason i)), (''evidence_refs'', canonicalStrings (ge_EvidenceRefs i))]"

definition canonical_close :: "ClaimCloseReference \<Rightarrow> canonical" where
  "canonical_close c = CMap [
     (''claim_id'', CText (cr_ClaimID c)), (''claim_epoch'', CUint (cr_ClaimEpoch c)),
     (''release_command_id'', CText (cr_ReleaseCommandID c)),
     (''release_request_hash'', CText (cr_ReleaseRequestHash c)),
     (''terminal_receipt_digest'', CText (cr_TerminalReceiptDigest c)),
     (''installed_prefix_anchor'', canonical_anchor (cr_InstalledPrefixAnchor c))]"

definition canonical_role :: "RoleLifecycle \<Rightarrow> (string \<times> canonical) list" where
  "canonical_role i = [
     (''run_id'', CText (rl_RunID i)), (''run_locator'', CText (rl_RunLocator i)), (''matter_id'', CText (rl_MatterID i)),
     (''dispatch_id'', CText (rl_DispatchID i)), (''role_id'', CText (rl_RoleID i)),
     (''role'', CText (rl_Role i)), (''reason'', CText (rl_Reason i))]"

primrec canonicalInput :: "Input \<Rightarrow> (string \<times> canonical) list" where
  "canonicalInput (MatterCreateInput title loc) = [(''title'', CText title), (''requested_locator'', CText loc)]"
| "canonicalInput (StepCreateInput parent title) = [(''parent_id'', CText parent), (''title'', CText title)]"
| "canonicalInput (StageCreateInput matter title) = [(''matter_id'', CText matter), (''title'', CText title)]"
| "canonicalInput (StepInsertInput parent title after before) = [(''parent_id'', CText parent), (''title'', CText title),
     (''after_id'', nullableIdentity after), (''before_id'', nullableIdentity before)]"
| "canonicalInput (StepReorderInput parent order) = [(''parent_id'', CText parent), (''order'', canonicalStrings order)]"
| "canonicalInput (StepReplaceInput step title) = [(''step_id'', CText step), (''title'', CText title)]"
| "canonicalInput (StepRemoveInput step reason) = [(''step_id'', CText step), (''reason'', CText reason)]"
| "canonicalInput (MatterLocatorRepairInput matter assigned action) =
     [(''matter_id'', CText matter), (''action'', CText action), (''assigned_locator'', CText assigned)]"
| "canonicalInput (StepLifecycleInput step) = [(''step_id'', CText step)]"
| "canonicalInput (StepCancelInput step reason) = [(''step_id'', CText step), (''reason'', CText reason)]"
| "canonicalInput (NodeLifecycleInput node reason) = [(''node_id'', CText node), (''reason'', CText reason)]"
| "canonicalInput (MatterFinishInput matter) = [(''matter_id'', CText matter)]"
| "canonicalInput (BatchSweepAnonymousInput matter batch close) =
     [(''matter_id'', CText matter), (''batch_id'', CText batch), (''claim_close'', canonical_close close)]"
| "canonicalInput (BatchCreateInput name) = [(''name'', CText name)]"
| "canonicalInput (BatchMembershipInput batch matter) = [(''batch_id'', CText batch), (''matter_id'', CText matter)]"
| "canonicalInput (BatchDismissInput batch) = [(''batch_id'', CText batch)]"
| "canonicalInput (ContentWriteInput subject kind) = [(''subject_id'', CText subject), (''kind'', CText kind)]"
| "canonicalInput (FindingAppendInput subject) = [(''subject_id'', CText subject)]"
| "canonicalInput (GateDeclareInput gate scale) = [(''gate'', CText gate), (''scale'', CText scale)]"
| "canonicalInput (GateCloseInput gate node) = [(''gate'', CText gate), (''node_id'', CText node)]"
| "canonicalInput (GateDismissInput gate node reason) =
     [(''gate'', CText gate), (''node_id'', CText node), (''reason'', CText reason)]"
| "canonicalInput (GateExemptionRepairInput i) = canonical_repair i"
| "canonicalInput (DependencyAddInput blocked blocker) = [(''blocked_id'', CText blocked), (''blocker_id'', CText blocker)]"
| "canonicalInput (DependencyAddV2Input blocked blocker claims) =
     [(''blocked_id'', CText blocked), (''blocker_id'', CText blocker), (''target_claims'', canonicalTargetClaims claims)]"
| "canonicalInput (DependencyRemoveInput blocked blocker) = [(''blocked_id'', CText blocked), (''blocker_id'', CText blocker)]"
| "canonicalInput (DependencyRemoveV2Input blocked blocker claims) =
     [(''blocked_id'', CText blocked), (''blocker_id'', CText blocker), (''target_claims'', canonicalTargetClaims claims)]"
| "canonicalInput (ReferenceBindInput matter ref) = [(''matter_id'', CText matter), (''reference'', CText ref)]"
| "canonicalInput (ReferenceBindV2Input matter ref claims) =
     [(''matter_id'', CText matter), (''reference'', CText ref), (''target_claims'', canonicalTargetClaims claims)]"
| "canonicalInput (ReferenceUnbindInput matter ref) = [(''matter_id'', CText matter), (''reference'', CText ref)]"
| "canonicalInput (ReferenceUnbindV2Input matter ref claims) =
     [(''matter_id'', CText matter), (''reference'', CText ref), (''target_claims'', canonicalTargetClaims claims)]"
| "canonicalInput (ReferenceRebindInput matter old new) =
     [(''matter_id'', CText matter), (''from'', CText old), (''to'', CText new)]"
| "canonicalInput (ReferenceRebindV2Input matter old new claims) =
     [(''matter_id'', CText matter), (''from'', CText old), (''to'', CText new),
      (''target_claims'', canonicalTargetClaims claims)]"
| "canonicalInput (SchedulerHookInput i) = canonical_hook i"
| "canonicalInput (RoleLifecycleInput i) = canonical_role i"
| "canonicalInput (RunFinishInput run) = [(''run_id'', CText run)]"
| "canonicalInput (RunResumeInput run loc) = [(''run_id'', CText run), (''run_locator'', CText loc)]"

primrec canonical_blobs_loop :: "string option \<Rightarrow> BlobInput list \<Rightarrow> canonical list result" where
  "canonical_blobs_loop previous [] = Inr []"
| "canonical_blobs_loop previous (b # bs) =
     (if previous = Some (bl_Name b) then Inl (ERefused ''blob input is duplicated'')
      else if \<not> digestPattern (bl_Digest b) then Inl (ERefused ''blob input digest is not canonical sha256'')
      else if sint (bl_Size b) < 0 then Inl (ERefused ''blob input has negative size'')
      else rbind (canonical_blobs_loop (Some (bl_Name b)) bs) (\<lambda>vs.
        Inr (CMap [(''name'', CText (bl_Name b)), (''digest'', CText (bl_Digest b)),
          (''byte_length'', CUint (bl_Size b))] # vs)))"

definition canonicalBlobs :: "BlobInput list \<Rightarrow> canonical list result" where
  "canonicalBlobs blobs = canonical_blobs_loop None (sort_key bl_Name blobs)"

text \<open>\<open>strconv.ParseUint\<close> of a decimal number of 64 bits.\<close>

definition parse_uint :: "string \<Rightarrow> (64 word) option" where
  "parse_uint s = (case number s of Some n \<Rightarrow> if n < 2 ^ 64 then Some (of_nat n) else None | None \<Rightarrow> None)"

definition canonicalClaim :: "ClaimContext option \<Rightarrow> canonical result" where
  "canonicalClaim claim =
     (case claim of
        None \<Rightarrow> Inr CNull
      | Some c \<Rightarrow>
          rbind (validateULID (cc_ID c)) (\<lambda>_.
          case parse_uint (cc_Epoch c) of
            None \<Rightarrow> Inl (ERefused ''claim epoch must be a positive canonical uint64'')
          | Some epoch \<Rightarrow>
              if epoch = 0 \<or> show_uint epoch \<noteq> cc_Epoch c
              then Inl (ERefused ''claim epoch must be a positive canonical uint64'')
              else Inr (CMap [(''id'', CText (cc_ID c)), (''epoch'', CUint epoch)])))"

definition optional_ulid :: "string \<Rightarrow> unit result" where
  "optional_ulid s = (if s = [] then Inr () else validateULID s)"

text \<open>The checks of the envelope, before the request is looked at.\<close>

definition validate_envelope :: "Command \<Rightarrow> unit result" where
  "validate_envelope c =
     rbind (validateULID (cm_ID c)) (\<lambda>_.
     rbind (validateULID (cm_AuthorityDomainID c)) (\<lambda>_.
     rbind (reject (cm_ExpectedAuthorityEpoch c = 0) ''expected authority epoch must be positive'') (\<lambda>_.
     rbind (validateULID (cm_EnvironmentID c)) (\<lambda>_.
     rbind (reject (cm_EnvironmentSequence c = 0) ''Environment sequence must be positive'') (\<lambda>_.
     rbind (validateCanonicalTimestamp (cm_ActedAt c)) (\<lambda>_.
     rbind (if cm_CausationCommandID c = [] then Inr ()
            else rbind (validateULID (cm_CausationCommandID c)) (\<lambda>_.
              reject (cm_CausationCommandID c = cm_ID c) ''command cannot cause itself'')) (\<lambda>_.
     rbind (validateULID (cm_CorrelationCommandID c)) (\<lambda>_.
     rbind (reject (cm_CausationCommandID c = [] \<and> cm_CorrelationCommandID c \<noteq> cm_ID c)
       ''an origin command must correlate to itself'') (\<lambda>_.
     let cx = or_Context (cm_Request c) in
     rbind (optional_ulid (cx_Repo cx)) (\<lambda>_.
     rbind (optional_ulid (cx_Clone cx)) (\<lambda>_. optional_ulid (cx_Worktree cx))))))))))))"

definition command_fields :: "Command \<Rightarrow> canonical \<Rightarrow> (string \<times> canonical) list \<Rightarrow> canonical list \<Rightarrow> (string \<times> canonical) list" where
  "command_fields c claim input blobs = [
     (''schema'', CText commandIdentitySchema),
     (''command_id'', CText (cm_ID c)),
     (''authority'', CMap [(''domain_id'', CText (cm_AuthorityDomainID c)), (''expected_epoch'', CUint (cm_ExpectedAuthorityEpoch c))]),
     (''environment'', CMap [(''id'', CText (cm_EnvironmentID c)), (''sequence'', CUint (cm_EnvironmentSequence c))]),
     (''acted_at'', CText (cm_ActedAt c)),
     (''actor'', CText (or_Actor (cm_Request c))),
     (''causation_command_id'', nullableIdentity (cm_CausationCommandID c)),
     (''correlation_command_id'', CText (cm_CorrelationCommandID c)),
     (''operation'', CMap [(''name'', CText (id_Name (or_Operation (cm_Request c)))),
       (''version'', CUint (ucast (id_Version (or_Operation (cm_Request c)))))]),
     (''context'', CMap [(''repo_id'', nullableIdentity (cx_Repo (or_Context (cm_Request c)))),
       (''clone_id'', nullableIdentity (cx_Clone (or_Context (cm_Request c)))),
       (''worktree_id'', nullableIdentity (cx_Worktree (or_Context (cm_Request c))))]),
     (''claim'', claim),
     (''input'', CMap input),
     (''blobs'', CArray blobs)]"

definition canonicalValue :: "(string \<Rightarrow> bool) \<Rightarrow> (string \<Rightarrow> url option) \<Rightarrow> Command \<Rightarrow> canonical result" where
  "canonicalValue nfc urlParse c =
     rbind (validate_envelope c) (\<lambda>_.
     case commandIdentityDefinition (or_Operation (cm_Request c)) of
       None \<Rightarrow> Inl (ERefused ''no canonical identity schema'')
     | Some d \<Rightarrow>
         rbind (ValidateRequest nfc urlParse d (cm_Request c)) (\<lambda>_.
         case or_Input (cm_Request c) of
           None \<Rightarrow> Inl (ERefused ''input type has no canonical identity schema'')
         | Some i \<Rightarrow>
             rbind (canonicalBlobs (or_Blobs (cm_Request c))) (\<lambda>blobs.
             rbind (canonicalClaim (or_Claim (cm_Request c))) (\<lambda>claim.
             Inr (CMap (command_fields c claim (canonicalInput i) blobs))))))"

definition CanonicalBytes :: "(string \<Rightarrow> bool) \<Rightarrow> (string \<Rightarrow> url option) \<Rightarrow> Command \<Rightarrow> string result" where
  "CanonicalBytes nfc urlParse c =
     rbind (canonicalValue nfc urlParse c) (\<lambda>v.
     rbind (marshalCanonical nfc v) (\<lambda>encoded.
     if or_Operation (cm_Request c) = operation_of GateExemptionRepairV1 \<and> length encoded > 2 ^ 20
     then Inl (ERefused ''gate exemption repair command exceeds 1 MiB'')
     else Inr encoded))"

definition RequestHash :: "(string \<Rightarrow> bool) \<Rightarrow> (string \<Rightarrow> url option) \<Rightarrow> Command \<Rightarrow> string result" where
  "RequestHash nfc urlParse c =
     rbind (CanonicalBytes nfc urlParse c) (\<lambda>encoded.
     Inr (digestPrefix @ hex_encode (sha256 (string_bytes (requestHashDomain @ encoded)))))"

definition VerifyRequestHash :: "(string \<Rightarrow> bool) \<Rightarrow> (string \<Rightarrow> url option) \<Rightarrow> Command \<Rightarrow> string \<Rightarrow> unit result" where
  "VerifyRequestHash nfc urlParse c asserted =
     (if \<not> digestPattern asserted then Inl (ERefused ''asserted request_hash is not canonical sha256'')
      else rbind (RequestHash nfc urlParse c) (\<lambda>recomputed.
        reject (asserted \<noteq> recomputed) ''request_hash mismatch''))"

definition BlobDigest :: "string \<Rightarrow> string" where
  "BlobDigest bytes = digestPrefix @ hex_encode (sha256 (string_bytes bytes))"

end
