(* ===== verification/Decode.thy ===== *)
theory Decode
  imports Identity
begin

text \<open>
  The decoder of command identities (\<open>internal/operation/canonical_decode.go\<close>). The CBOR library that
  turns bytes into a value is an argument; what the program does with the value, down to every
  input type, is translated.
\<close>

section \<open>Fields\<close>

type_synonym fields = "(string \<times> canonical) list"

definition commandMap :: "canonical \<Rightarrow> string list \<Rightarrow> fields result" where
  "commandMap v keys =
     (case v of
        CMap fs \<Rightarrow>
          if length fs \<noteq> length keys then Inl (ERefused ''has missing or unknown fields'')
          else if \<not> list_all (\<lambda>k. map_of fs k \<noteq> None) keys then Inl (ERefused ''is missing a field'')
          else Inr fs
      | _ \<Rightarrow> Inl (ERefused ''must be a CBOR map''))"

text \<open>\<open>fields[key]\<close>, which is nil when the key is missing.\<close>

definition field :: "fields \<Rightarrow> string \<Rightarrow> canonical" where
  "field fs key = (case map_of fs key of Some v \<Rightarrow> v | None \<Rightarrow> CNull)"

definition commandString :: "fields \<Rightarrow> string \<Rightarrow> string result" where
  "commandString fs key = (case map_of fs key of Some (CText s) \<Rightarrow> Inr s | _ \<Rightarrow> Inl (ERefused ''must be CBOR text''))"

definition commandActor :: "fields \<Rightarrow> string \<Rightarrow> string result" where
  "commandActor fs key = commandString fs key"

definition commandNullableString :: "fields \<Rightarrow> string \<Rightarrow> string result" where
  "commandNullableString fs key =
     (case map_of fs key of
        None \<Rightarrow> Inl (ERefused ''is missing'')
      | Some CNull \<Rightarrow> Inr []
      | Some (CText s) \<Rightarrow> Inr s
      | Some _ \<Rightarrow> Inl (ERefused ''must be CBOR text or null''))"

definition commandUint :: "fields \<Rightarrow> string \<Rightarrow> (64 word) result" where
  "commandUint fs key = (case map_of fs key of Some (CUint v) \<Rightarrow> Inr v | _ \<Rightarrow> Inl (ERefused ''must be an unsigned CBOR integer''))"

primrec text_loop :: "canonical list \<Rightarrow> string list result" where
  "text_loop [] = Inr []"
| "text_loop (v # vs) =
     (case v of CText s \<Rightarrow> rbind (text_loop vs) (\<lambda>ss. Inr (s # ss)) | _ \<Rightarrow> Inl (ERefused ''must be text''))"

definition commandStringArray :: "fields \<Rightarrow> string \<Rightarrow> string list result" where
  "commandStringArray fs key = (case field fs key of CArray vs \<Rightarrow> text_loop vs | _ \<Rightarrow> Inl (ERefused ''must be an array''))"

primrec claims_loop :: "canonical list \<Rightarrow> TargetClaim list result" where
  "claims_loop [] = Inr []"
| "claims_loop (v # vs) =
     rbind (commandMap v [''matter_id'', ''claim_id'', ''claim_epoch'']) (\<lambda>fs.
     rbind (commandString fs ''matter_id'') (\<lambda>matter.
     rbind (commandString fs ''claim_id'') (\<lambda>ident.
     rbind (commandUint fs ''claim_epoch'') (\<lambda>epoch.
     rbind (claims_loop vs) (\<lambda>cs.
     Inr (\<lparr>tc_MatterID = matter, tc_ClaimID = ident, tc_ClaimEpoch = epoch\<rparr> # cs))))))"

definition commandDecodeTargetClaims :: "canonical \<Rightarrow> TargetClaim list result" where
  "commandDecodeTargetClaims v =
     (case v of
        CArray vs \<Rightarrow> if length vs > 2 then Inl (ERefused ''target_claims'') else claims_loop vs
      | _ \<Rightarrow> Inl (ERefused ''target_claims''))"

primrec decode_blobs_loop :: "canonical list \<Rightarrow> BlobInput list result" where
  "decode_blobs_loop [] = Inr []"
| "decode_blobs_loop (v # vs) =
     rbind (commandMap v [''name'', ''digest'', ''byte_length'']) (\<lambda>fs.
     rbind (commandString fs ''name'') (\<lambda>name.
     rbind (commandString fs ''digest'') (\<lambda>digest.
     rbind (commandUint fs ''byte_length'') (\<lambda>len.
     if unat len > 2 ^ 63 - 1 then Inl (ERefused ''byte_length exceeds int64'')
     else rbind (decode_blobs_loop vs) (\<lambda>bs.
       Inr (\<lparr>bl_Name = name, bl_Digest = digest, bl_Size = len\<rparr> # bs))))))"

definition commandDecodeBlobs :: "canonical \<Rightarrow> BlobInput list result" where
  "commandDecodeBlobs v = (case v of CArray vs \<Rightarrow> decode_blobs_loop vs | _ \<Rightarrow> Inl (ERefused ''blobs must be a CBOR array''))"

definition commandDecodeClaim :: "canonical \<Rightarrow> ClaimContext option result" where
  "commandDecodeClaim v =
     (if v = CNull then Inr None
      else rbind (commandMap v [''id'', ''epoch'']) (\<lambda>fs.
           rbind (commandString fs ''id'') (\<lambda>ident.
           rbind (commandUint fs ''epoch'') (\<lambda>epoch.
           Inr (Some \<lparr>cc_ID = ident, cc_Epoch = show_uint epoch\<rparr>)))))"

section \<open>The inputs\<close>

text \<open>The three shapes most inputs have: one, two or three texts.\<close>

definition decode1 :: "string \<Rightarrow> (string \<Rightarrow> Input) \<Rightarrow> canonical \<Rightarrow> Input result" where
  "decode1 k f v = rbind (commandMap v [k]) (\<lambda>fs. rbind (commandString fs k) (\<lambda>a. Inr (f a)))"

definition decode2 :: "string \<Rightarrow> string \<Rightarrow> (string \<Rightarrow> string \<Rightarrow> Input) \<Rightarrow> canonical \<Rightarrow> Input result" where
  "decode2 k l f v = rbind (commandMap v [k, l]) (\<lambda>fs.
     rbind (commandString fs k) (\<lambda>a. rbind (commandString fs l) (\<lambda>b. Inr (f a b))))"

definition decode3 :: "string \<Rightarrow> string \<Rightarrow> string \<Rightarrow> (string \<Rightarrow> string \<Rightarrow> string \<Rightarrow> Input) \<Rightarrow> canonical \<Rightarrow> Input result" where
  "decode3 k l m f v = rbind (commandMap v [k, l, m]) (\<lambda>fs.
     rbind (commandString fs k) (\<lambda>a. rbind (commandString fs l) (\<lambda>b. rbind (commandString fs m) (\<lambda>c. Inr (f a b c)))))"

text \<open>Two texts and the claims of the targets.\<close>

definition decode_claimed :: "string \<Rightarrow> string \<Rightarrow> (string \<Rightarrow> string \<Rightarrow> TargetClaim list \<Rightarrow> Input) \<Rightarrow> canonical \<Rightarrow> Input result" where
  "decode_claimed k l f v = rbind (commandMap v [k, l, ''target_claims'']) (\<lambda>fs.
     rbind (commandString fs k) (\<lambda>a. rbind (commandString fs l) (\<lambda>b.
     rbind (commandDecodeTargetClaims (field fs ''target_claims'')) (\<lambda>cs. Inr (f a b cs)))))"

definition decode_anchor :: "canonical \<Rightarrow> PrefixAnchor result" where
  "decode_anchor v = rbind (commandMap v [''event_count'', ''event_id'', ''digest'']) (\<lambda>fs.
     rbind (commandUint fs ''event_count'') (\<lambda>n.
     rbind (commandNullableString fs ''event_id'') (\<lambda>e.
     rbind (commandString fs ''digest'') (\<lambda>d.
     Inr \<lparr>pa_EventCount = n, pa_EventID = (if field fs ''event_id'' \<noteq> CNull then Some e else None), pa_Digest = d\<rparr>))))"

definition decode_hook :: "canonical \<Rightarrow> Input result" where
  "decode_hook v =
     rbind (commandMap v [''kind'', ''version'', ''adapter_id'', ''adapter_version'', ''run_id'', ''matter_id'', ''target_id'', ''target_kind'',
       ''role'', ''role_id'', ''dispatch_id'', ''revision'', ''reason'', ''contention'', ''blocked'', ''failed'',
       ''target_claims'', ''installed_prefix_anchor'']) (\<lambda>fs.
     rbind (commandString fs ''kind'') (\<lambda>kind.
     rbind (commandUint fs ''version'') (\<lambda>version.
     rbind (commandString fs ''adapter_id'') (\<lambda>adapter.
     rbind (commandUint fs ''adapter_version'') (\<lambda>adapterVersion.
     rbind (commandString fs ''target_kind'') (\<lambda>targetKind.
     rbind (commandString fs ''run_id'') (\<lambda>run.
     rbind (commandString fs ''matter_id'') (\<lambda>matter.
     rbind (commandString fs ''target_id'') (\<lambda>target.
     rbind (commandString fs ''role'') (\<lambda>role.
     rbind (commandString fs ''revision'') (\<lambda>revision.
     rbind (commandString fs ''reason'') (\<lambda>reason.
     rbind (commandString fs ''contention'') (\<lambda>contention.
     rbind (commandString fs ''blocked'') (\<lambda>blocked.
     rbind (commandString fs ''failed'') (\<lambda>failed.
     rbind (commandNullableString fs ''role_id'') (\<lambda>roleID.
     rbind (commandNullableString fs ''dispatch_id'') (\<lambda>dispatch.
     rbind (commandDecodeTargetClaims (field fs ''target_claims'')) (\<lambda>claims.
     rbind (decode_anchor (field fs ''installed_prefix_anchor'')) (\<lambda>anchor.
     Inr (SchedulerHookInput \<lparr>sh_Kind = kind, sh_Version = version, sh_AdapterID = adapter, sh_AdapterVersion = adapterVersion,
       sh_RunID = run, sh_MatterID = matter, sh_TargetID = target, sh_TargetKind = targetKind, sh_Role = role,
       sh_RoleID = roleID, sh_DispatchID = dispatch, sh_Revision = revision, sh_Reason = reason, sh_Contention = contention,
       sh_Blocked = blocked, sh_Failed = failed, sh_TargetClaims = Some claims, sh_InstalledPrefix = anchor\<rparr>))))))))))))))))))))"

definition decode_role :: "canonical \<Rightarrow> Input result" where
  "decode_role v =
     rbind (commandMap v [''run_id'', ''run_locator'', ''matter_id'', ''dispatch_id'', ''role_id'', ''role'', ''reason'']) (\<lambda>fs.
     rbind (commandString fs ''run_id'') (\<lambda>run.
     rbind (commandString fs ''run_locator'') (\<lambda>loc.
     rbind (commandString fs ''matter_id'') (\<lambda>matter.
     rbind (commandString fs ''dispatch_id'') (\<lambda>dispatch.
     rbind (commandString fs ''role_id'') (\<lambda>roleID.
     rbind (commandString fs ''role'') (\<lambda>role.
     rbind (commandString fs ''reason'') (\<lambda>reason.
     Inr (RoleLifecycleInput \<lparr>rl_RunID = run, rl_RunLocator = loc, rl_MatterID = matter, rl_DispatchID = dispatch,
       rl_RoleID = roleID, rl_Role = role, rl_Reason = reason\<rparr>)))))))))"

definition decode_insert :: "canonical \<Rightarrow> Input result" where
  "decode_insert v =
     rbind (commandMap v [''parent_id'', ''title'', ''after_id'', ''before_id'']) (\<lambda>fs.
     rbind (commandString fs ''parent_id'') (\<lambda>parent.
     rbind (commandString fs ''title'') (\<lambda>title.
     rbind (commandNullableString fs ''after_id'') (\<lambda>after.
     rbind (commandNullableString fs ''before_id'') (\<lambda>before.
     Inr (StepInsertInput parent title after before))))))"

definition decode_reorder :: "canonical \<Rightarrow> Input result" where
  "decode_reorder v =
     rbind (commandMap v [''parent_id'', ''order'']) (\<lambda>fs.
     rbind (commandString fs ''parent_id'') (\<lambda>parent.
     rbind (commandStringArray fs ''order'') (\<lambda>order.
     Inr (StepReorderInput parent order))))"

definition decode_locator_repair :: "canonical \<Rightarrow> Input result" where
  "decode_locator_repair =
     decode3 ''matter_id'' ''action'' ''assigned_locator'' (\<lambda>matter action assigned. MatterLocatorRepairInput matter assigned action)"

definition decode_close :: "canonical \<Rightarrow> ClaimCloseReference result" where
  "decode_close v =
     rbind (commandMap v [''claim_id'', ''claim_epoch'', ''release_command_id'', ''release_request_hash'', ''terminal_receipt_digest'',
       ''installed_prefix_anchor'']) (\<lambda>fs.
     rbind (commandString fs ''claim_id'') (\<lambda>claim.
     rbind (commandUint fs ''claim_epoch'') (\<lambda>epoch.
     rbind (commandString fs ''release_command_id'') (\<lambda>release.
     rbind (commandString fs ''release_request_hash'') (\<lambda>hash.
     rbind (commandString fs ''terminal_receipt_digest'') (\<lambda>receipt.
     rbind (decode_anchor (field fs ''installed_prefix_anchor'')) (\<lambda>anchor.
     Inr \<lparr>cr_ClaimID = claim, cr_ClaimEpoch = epoch, cr_ReleaseCommandID = release, cr_ReleaseRequestHash = hash,
       cr_TerminalReceiptDigest = receipt, cr_InstalledPrefixAnchor = anchor\<rparr>)))))))"

definition decode_sweep :: "canonical \<Rightarrow> Input result" where
  "decode_sweep v =
     rbind (commandMap v [''matter_id'', ''batch_id'', ''claim_close'']) (\<lambda>fs.
     rbind (commandString fs ''matter_id'') (\<lambda>matter.
     rbind (commandString fs ''batch_id'') (\<lambda>batch.
     rbind (decode_close (field fs ''claim_close'')) (\<lambda>close.
     Inr (BatchSweepAnonymousInput matter batch close)))))"

definition decode_rebind :: "canonical \<Rightarrow> Input result" where
  "decode_rebind v =
     rbind (commandMap v [''matter_id'', ''from'', ''to'', ''target_claims'']) (\<lambda>fs.
     rbind (commandString fs ''matter_id'') (\<lambda>matter.
     rbind (commandString fs ''from'') (\<lambda>old.
     rbind (commandString fs ''to'') (\<lambda>new.
     rbind (commandDecodeTargetClaims (field fs ''target_claims'')) (\<lambda>cs.
     Inr (ReferenceRebindV2Input matter old new cs))))))"

definition decode_repair :: "canonical \<Rightarrow> Input result" where
  "decode_repair v =
     rbind (commandMap v [''node_id'', ''gate'', ''event_count'', ''high_water_event_id'', ''prefix_digest'', ''incident_ref'',
       ''reason'', ''evidence_refs'']) (\<lambda>fs.
     rbind (commandString fs ''node_id'') (\<lambda>node.
     rbind (commandString fs ''gate'') (\<lambda>gate.
     rbind (commandUint fs ''event_count'') (\<lambda>n.
     rbind (commandString fs ''high_water_event_id'') (\<lambda>high.
     rbind (commandString fs ''prefix_digest'') (\<lambda>digest.
     rbind (commandString fs ''incident_ref'') (\<lambda>incident.
     rbind (commandString fs ''reason'') (\<lambda>reason.
     rbind (commandStringArray fs ''evidence_refs'') (\<lambda>refs.
     Inr (GateExemptionRepairInput \<lparr>ge_NodeID = node, ge_Gate = gate, ge_EventCount = n, ge_HighWaterEventID = high,
       ge_PrefixDigest = digest, ge_IncidentRef = incident, ge_Reason = reason, ge_EvidenceRefs = refs\<rparr>))))))))))"

text \<open>The switch over the operation, in four stretches of its source.\<close>

type_synonym decoder_table = "(Definition \<times> (canonical \<Rightarrow> Input result)) list"

definition execution_decoders :: decoder_table where
  "execution_decoders = [
     (SchedulerOrchestrateV1, decode_hook), (RoleSpawnV1, decode_role), (RoleCloseV1, decode_role),
     (RunFinishV1, decode1 ''run_id'' RunFinishInput),
     (SchedulerResumeV1, decode2 ''run_id'' ''run_locator'' RunResumeInput)]"

definition birth_decoders :: decoder_table where
  "birth_decoders = [
     (MatterCreateV1, decode2 ''title'' ''requested_locator'' MatterCreateInput),
     (StepCreateV1, decode2 ''parent_id'' ''title'' StepCreateInput),
     (MatterCreateV2, decode2 ''title'' ''requested_locator'' MatterCreateInput),
     (StageCreateV1, decode2 ''matter_id'' ''title'' StageCreateInput),
     (StepCreateV2, decode2 ''parent_id'' ''title'' StepCreateInput),
     (StepInsertV1, decode_insert), (StepReorderV1, decode_reorder),
     (StepReplaceV1, decode2 ''step_id'' ''title'' StepReplaceInput),
     (StepRemoveV1, decode2 ''step_id'' ''reason'' StepRemoveInput),
     (MatterLocatorRepairV1, decode_locator_repair),
     (StepStartV1, decode1 ''step_id'' StepLifecycleInput), (StepFinishV1, decode1 ''step_id'' StepLifecycleInput),
     (MatterFinishV1, decode1 ''matter_id'' MatterFinishInput)]"

definition batch_decoders :: decoder_table where
  "batch_decoders = [
     (BatchSweepAnonymousV1, decode_sweep),
     (BatchCreateV1, decode1 ''name'' BatchCreateInput),
     (BatchJoinV1, decode2 ''batch_id'' ''matter_id'' BatchMembershipInput),
     (BatchLeaveV1, decode2 ''batch_id'' ''matter_id'' BatchMembershipInput),
     (BatchDismissV1, decode1 ''batch_id'' BatchDismissInput),
     (GateDeclareV1, decode2 ''gate'' ''scale'' GateDeclareInput),
     (GateCloseV1, decode2 ''gate'' ''node_id'' GateCloseInput),
     (GateDismissV1, decode3 ''gate'' ''node_id'' ''reason'' GateDismissInput)]"

definition edge_decoders :: decoder_table where
  "edge_decoders = [
     (DependencyAddV1, decode2 ''blocked_id'' ''blocker_id'' DependencyAddInput),
     (DependencyAddV2, decode_claimed ''blocked_id'' ''blocker_id'' DependencyAddV2Input),
     (DependencyRemoveV1, decode2 ''blocked_id'' ''blocker_id'' DependencyRemoveInput),
     (DependencyRemoveV2, decode_claimed ''blocked_id'' ''blocker_id'' DependencyRemoveV2Input),
     (ReferenceBindV1, decode2 ''matter_id'' ''reference'' ReferenceBindInput),
     (ReferenceBindV2, decode_claimed ''matter_id'' ''reference'' ReferenceBindV2Input),
     (ReferenceUnbindV1, decode2 ''matter_id'' ''reference'' ReferenceUnbindInput),
     (ReferenceUnbindV2, decode_claimed ''matter_id'' ''reference'' ReferenceUnbindV2Input),
     (ReferenceRebindV1, decode3 ''matter_id'' ''from'' ''to'' ReferenceRebindInput),
     (ReferenceRebindV2, decode_rebind)]"

definition node_decoder :: "canonical \<Rightarrow> Input result" where
  "node_decoder = decode2 ''node_id'' ''reason'' NodeLifecycleInput"

definition lifecycle_decoders :: decoder_table where
  "lifecycle_decoders = [
     (GateExemptionRepairV1, decode_repair),
     (MatterStartV1, node_decoder), (MatterPauseV1, node_decoder), (MatterResumeV1, node_decoder), (MatterCancelV1, node_decoder),
     (StageStartV1, node_decoder), (StagePauseV1, node_decoder), (StageResumeV1, node_decoder), (StageCancelV1, node_decoder),
     (StageFinishV1, node_decoder),
     (StepPauseV1, decode1 ''step_id'' StepLifecycleInput), (StepResumeV1, decode1 ''step_id'' StepLifecycleInput),
     (StepCancelV1, decode2 ''step_id'' ''reason'' StepCancelInput),
     (ContentWriteOnceV1, decode2 ''subject_id'' ''kind'' ContentWriteInput),
     (FindingAppendV1, decode1 ''subject_id'' FindingAppendInput)]"

definition decoders :: decoder_table where
  "decoders = execution_decoders @ birth_decoders @ batch_decoders @ edge_decoders @ lifecycle_decoders"

definition commandDecodeInput :: "ID \<Rightarrow> canonical \<Rightarrow> Input result" where
  "commandDecodeInput ident v =
     (case List.find (\<lambda>(d, f). operation_of d = ident) decoders of
        Some (d, f) \<Rightarrow> f v
      | None \<Rightarrow> Inl (ERefused ''no canonical identity schema''))"

section \<open>The command\<close>

definition DecodeCanonicalCommand ::
  "(string \<Rightarrow> bool) \<Rightarrow> (string \<Rightarrow> url option) \<Rightarrow> (string \<Rightarrow> canonical result) \<Rightarrow> string \<Rightarrow> Command result" where
  "DecodeCanonicalCommand nfc urlParse unmarshal data =
     rbind (unmarshal data) (\<lambda>v.
     rbind (commandMap v [''schema'', ''command_id'', ''authority'', ''environment'', ''acted_at'', ''actor'', ''causation_command_id'',
       ''correlation_command_id'', ''operation'', ''context'', ''claim'', ''input'', ''blobs'']) (\<lambda>fs.
     rbind (commandString fs ''command_id'') (\<lambda>ident.
     rbind (commandString fs ''schema'') (\<lambda>schema.
     rbind (require (schema = commandIdentitySchema) (ERefused ''command schema'')) (\<lambda>_.
     rbind (commandString fs ''acted_at'') (\<lambda>actedAt.
     rbind (commandActor fs ''actor'') (\<lambda>actor.
     rbind (commandNullableString fs ''causation_command_id'') (\<lambda>causation.
     rbind (commandString fs ''correlation_command_id'') (\<lambda>correlation.
     rbind (commandMap (field fs ''authority'') [''domain_id'', ''expected_epoch'']) (\<lambda>authority.
     rbind (commandString authority ''domain_id'') (\<lambda>domain.
     rbind (commandUint authority ''expected_epoch'') (\<lambda>epoch.
     rbind (commandMap (field fs ''environment'') [''id'', ''sequence'']) (\<lambda>environment.
     rbind (commandString environment ''id'') (\<lambda>env.
     rbind (commandUint environment ''sequence'') (\<lambda>sequence.
     rbind (commandMap (field fs ''operation'') [''name'', ''version'']) (\<lambda>operation.
     rbind (commandString operation ''name'') (\<lambda>name.
     rbind (commandUint operation ''version'') (\<lambda>version.
     rbind (reject (version = 0 \<or> unat version > 2 ^ 16 - 1) ''operation version must be a positive uint16'') (\<lambda>_.
     rbind (commandMap (field fs ''context'') [''repo_id'', ''clone_id'', ''worktree_id'']) (\<lambda>cx.
     rbind (commandNullableString cx ''repo_id'') (\<lambda>repo.
     rbind (commandNullableString cx ''clone_id'') (\<lambda>clone.
     rbind (commandNullableString cx ''worktree_id'') (\<lambda>worktree.
     rbind (commandDecodeClaim (field fs ''claim'')) (\<lambda>claim.
     let op = \<lparr>id_Name = name, id_Version = ucast version\<rparr> in
     rbind (commandDecodeInput op (field fs ''input'')) (\<lambda>input.
     rbind (commandDecodeBlobs (field fs ''blobs'')) (\<lambda>blobs.
     let command = \<lparr>cm_ID = ident, cm_AuthorityDomainID = domain, cm_ExpectedAuthorityEpoch = epoch,
       cm_EnvironmentID = env, cm_EnvironmentSequence = sequence, cm_ActedAt = actedAt,
       cm_CausationCommandID = causation, cm_CorrelationCommandID = correlation,
       cm_Request = \<lparr>or_Operation = op, or_Actor = actor,
         or_Context = \<lparr>cx_Repo = repo, cx_Clone = clone, cx_Worktree = worktree\<rparr>,
         or_Claim = claim, or_Input = Some input, or_Blobs = blobs\<rparr>\<rparr> in
     rbind (CanonicalBytes nfc urlParse command) (\<lambda>canonical.
     if canonical \<noteq> data then Inl (ERefused ''command CBOR is not deterministic or canonical'')
     else Inr command)))))))))))))))))))))))))))"

end
