(* ===== verification/CommandLaws.thy ===== *)
theory CommandLaws
  imports DecodeLaws
begin

text \<open>
  The canonical bytes of a command and its decoding are inverse to each other. \<open>ordered\<close> is the
  command with its blobs in the order of their names, the only thing the bytes do not keep.
  What the program relies on of its CBOR library is the locale \<open>cbor_library\<close>; the reference
  decoder is an instance.
\<close>

section \<open>The table of decoders\<close>

lemma decoders_inverts: "\<forall>(d, f) \<in> set decoders. inverts (df_inputType d) f"
proof -
  have "list_all (\<lambda>(d, f). inverts (df_inputType d) f) execution_decoders"
    by (simp add: execution_decoders_def SchedulerOrchestrateV1_def RoleSpawnV1_def RoleCloseV1_def RunFinishV1_def SchedulerResumeV1_def
      inverts_hook inverts_forms inverts_shapes)
  moreover have "list_all (\<lambda>(d, f). inverts (df_inputType d) f) birth_decoders"
    by (simp add: birth_decoders_def MatterCreateV1_def StepCreateV1_def MatterCreateV2_def StageCreateV1_def StepCreateV2_def
      StepInsertV1_def StepReorderV1_def StepReplaceV1_def StepRemoveV1_def MatterLocatorRepairV1_def StepStartV1_def StepFinishV1_def
      MatterFinishV1_def inverts_forms inverts_shapes)
  moreover have "list_all (\<lambda>(d, f). inverts (df_inputType d) f) batch_decoders"
    by (simp add: batch_decoders_def BatchSweepAnonymousV1_def BatchCreateV1_def BatchJoinV1_def BatchLeaveV1_def BatchDismissV1_def
      GateDeclareV1_def GateCloseV1_def GateDismissV1_def inverts_forms inverts_shapes)
  moreover have "list_all (\<lambda>(d, f). inverts (df_inputType d) f) edge_decoders"
    by (simp add: edge_decoders_def DependencyAddV1_def DependencyAddV2_def DependencyRemoveV1_def DependencyRemoveV2_def
      ReferenceBindV1_def ReferenceBindV2_def ReferenceUnbindV1_def ReferenceUnbindV2_def ReferenceRebindV1_def ReferenceRebindV2_def
      inverts_claimed inverts_shapes)
  moreover have "list_all (\<lambda>(d, f). inverts (df_inputType d) f) lifecycle_decoders"
  proof -
    have "map (df_inputType \<circ> fst) lifecycle_decoders = ''GateExemptionRepairInput'' # replicate 9 ''NodeLifecycleInput''
      @ [''StepLifecycleInput'', ''StepLifecycleInput'', ''StepCancelInput'', ''ContentWriteInput'', ''FindingAppendInput'']"
      by code_simp
    then show ?thesis by (simp add: lifecycle_decoders_def inverts_forms inverts_shapes numeral_eq_Suc)
  qed
  ultimately show ?thesis unfolding decoders_def list_all_iff set_append ball_Un by blast
qed


lemma decoders_distinct: "distinct (map (operation_of \<circ> fst) decoders)"
  by code_simp

lemma decoders_complete: "set identity_definitions \<subseteq> set (map fst decoders)"
  by (simp add: decoders_def execution_decoders_def birth_decoders_def batch_decoders_def edge_decoders_def lifecycle_decoders_def
    definitions_def)

lemma commandDecodeInput_canonical:
  assumes "d \<in> set identity_definitions" "input_type i = df_inputType d" "explicit i"
  shows "commandDecodeInput (operation_of d) (norm (CMap (canonicalInput i))) = Inr i"
proof -
  obtain f where f: "(d, f) \<in> set decoders" using assms(1) decoders_complete by auto
  have "List.find (\<lambda>y. (operation_of \<circ> fst) y = (operation_of \<circ> fst) (d, f)) decoders = Some (d, f)"
    using decoders_distinct f by (rule find_by_key)
  then have "List.find (\<lambda>(e, g). operation_of e = operation_of d) decoders = Some (d, f)" by (simp add: case_prod_beta')
  moreover have "inverts (df_inputType d) f" using f decoders_inverts by blast
  ultimately show ?thesis using assms by (simp add: commandDecodeInput_def inverts_def)
qed

section \<open>Blobs in the order of their names\<close>

definition order_blobs :: "OpRequest \<Rightarrow> OpRequest" where
  "order_blobs req = req\<lparr>or_Blobs := sort_key bl_Name (or_Blobs req)\<rparr>"

definition ordered :: "Command \<Rightarrow> Command" where
  "ordered c = c\<lparr>cm_Request := order_blobs (cm_Request c)\<rparr>"

lemma order_blobs_simps [simp]:
  "or_Operation (order_blobs req) = or_Operation req" "or_Actor (order_blobs req) = or_Actor req"
  "or_Context (order_blobs req) = or_Context req" "or_Claim (order_blobs req) = or_Claim req"
  "or_Input (order_blobs req) = or_Input req" "or_Blobs (order_blobs req) = sort_key bl_Name (or_Blobs req)"
  by (simp_all add: order_blobs_def)

lemma ordered_simps [simp]:
  "cm_ID (ordered c) = cm_ID c" "cm_AuthorityDomainID (ordered c) = cm_AuthorityDomainID c"
  "cm_ExpectedAuthorityEpoch (ordered c) = cm_ExpectedAuthorityEpoch c" "cm_EnvironmentID (ordered c) = cm_EnvironmentID c"
  "cm_EnvironmentSequence (ordered c) = cm_EnvironmentSequence c" "cm_ActedAt (ordered c) = cm_ActedAt c"
  "cm_CausationCommandID (ordered c) = cm_CausationCommandID c" "cm_CorrelationCommandID (ordered c) = cm_CorrelationCommandID c"
  "cm_Request (ordered c) = order_blobs (cm_Request c)"
  by (simp_all add: ordered_def)

lemma sort_key_idem [simp]: "sort_key f (sort_key f xs) = sort_key f xs"
  by (rule sort_key_id_if_sorted) simp

lemma blobs_loop_Inr:
  "blobs_loop declared seen bs = Inr r \<longleftrightarrow>
     (\<forall>b \<in> set bs. bl_Name b \<in> set declared \<and> bl_Name b \<notin> set seen \<and> bl_Digest b \<noteq> [] \<and> 0 \<le> sint (bl_Size b))
     \<and> distinct (map bl_Name bs) \<and> r = rev (map bl_Name bs) @ seen"
  by (induction bs arbitrary: seen) (auto simp: res image_iff)

lemma reject_Inr_iff [res]: "reject b m = Inr u \<longleftrightarrow> \<not> b"
  by (simp add: reject_def)

lemma validateBlobs_Inr:
  "validateBlobs d bs = Inr u \<longleftrightarrow>
     (\<forall>b \<in> set bs. bl_Name b \<in> set (map bs_Name (blob_specs d)) \<and> bl_Digest b \<noteq> [] \<and> 0 \<le> sint (bl_Size b))
     \<and> distinct (map bl_Name bs)
     \<and> (\<forall>spec \<in> set (blob_specs d). bs_Required spec \<longrightarrow> bs_Name spec \<in> bl_Name ` set bs)"
  by (auto simp: validateBlobs_def res blobs_loop_Inr list_ex_iff)

lemma validateBlobs_ordered: "validateBlobs d (sort_key bl_Name bs) = Inr u \<longleftrightarrow> validateBlobs d bs = Inr u"
proof -
  have "distinct (map bl_Name (sort_key bl_Name bs)) \<longleftrightarrow> distinct (map bl_Name bs)" by (simp add: distinct_map)
  then show ?thesis unfolding validateBlobs_Inr by simp
qed

lemma order_blobs_id:
  assumes "sorted_wrt (<) (blob_names req)"
  shows "order_blobs req = req"
proof -
  have "sorted (map bl_Name (or_Blobs req))"
    using assms unfolding blob_names_def by (simp add: strict_sorted_iff)
  then show ?thesis by (simp add: order_blobs_def sort_key_id_if_sorted)
qed

lemma validate_actor_ordered [simp]:
  "validateRoleLifecycleRequest op r (order_blobs req) = validateRoleLifecycleRequest op r req"
  "validateRunFinishRequest run (order_blobs req) = validateRunFinishRequest run req"
  "validateRunResumeRequest run loc (order_blobs req) = validateRunResumeRequest run loc req"
  "validate_claim d (order_blobs req) = validate_claim d req"
  "validate_birth_claim d (order_blobs req) i = validate_birth_claim d req i"
  unfolding validateRoleLifecycleRequest_def validateRunFinishRequest_def validateRunResumeRequest_def validate_claim_def
    validate_birth_claim_def order_blobs_simps by (rule refl)+

lemma validate_input_ordered:
  assumes "validate_input nfc urlParse op req i = Inr u"
  shows "validate_input nfc urlParse op (order_blobs req) i = Inr u"
proof (cases i)
  case (SchedulerHookInput h)
  then have "sorted_wrt (<) (blob_names req)" using assms by (simp add: validateSchedulerHookInput_def res)
  then show ?thesis using assms order_blobs_id by simp
qed (use assms in simp_all)

lemma ValidateRequest_ordered:
  assumes "ValidateRequest nfc urlParse d req = Inr u"
  shows "ValidateRequest nfc urlParse d (order_blobs req) = Inr u"
  using assms
  by (auto simp: ValidateRequest_def res validate_input_ordered validateBlobs_ordered split: option.splits)

lemma validated_explicit:
  assumes "validate_input nfc urlParse op req i = Inr u"
  shows "explicit i"
  using assms by (cases i) (auto simp: res validateDependencyV2Input_def validateReferenceV2Input_def validateTargetClaims_def
    validateSchedulerHookInput_def split: if_splits)

lemma ValidateRequest_input:
  assumes "ValidateRequest nfc urlParse d req = Inr u"
  obtains i where "or_Input req = Some i" "input_type i = df_inputType d" "explicit i"
    "validate_input nfc urlParse (operation_of d) req i = Inr ()" "validateBlobs d (or_Blobs req) = Inr ()"
  using assms by (auto simp: ValidateRequest_def res validated_explicit split: option.splits)

section \<open>The canonical value of a command\<close>

definition blob_value :: "BlobInput \<Rightarrow> canonical" where
  "blob_value b = CMap [(''name'', CText (bl_Name b)), (''digest'', CText (bl_Digest b)), (''byte_length'', CUint (bl_Size b))]"

lemma canonical_blobs_loop_Inr:
  "canonical_blobs_loop p bs = Inr vs \<Longrightarrow> vs = map blob_value bs \<and> (\<forall>b \<in> set bs. 0 \<le> sint (bl_Size b))"
  by (induction bs arbitrary: p vs) (auto simp: res blob_value_def)


lemma unat_size:
  fixes w :: "64 word"
  assumes "0 \<le> sint w"
  shows "unat w \<le> 2 ^ 63 - 1"
proof -
  have "uint w = sint w" unfolding uint_sint using assms sint_lt[of w] by (simp add: take_bit_int_eq_self)
  then show ?thesis using sint_lt[of w] by (simp add: unat_eq_nat_uint)
qed

lemma decode_blobs_values:
  "\<forall>b \<in> set bs. 0 \<le> sint (bl_Size b) \<Longrightarrow> decode_blobs_loop (map (norm \<circ> blob_value) bs) = Inr bs"
proof (induction bs)
  case (Cons b bs)
  then have "unat (bl_Size b) \<le> 2 ^ 63 - 1" using unat_size by simp
  then show ?case using Cons by (simp add: blob_value_def read_field)
qed simp

lemma canonicalBlobs_Inr:
  assumes "canonicalBlobs bs = Inr vs"
  shows "vs = map blob_value (sort_key bl_Name bs)" "commandDecodeBlobs (norm (CArray vs)) = Inr (sort_key bl_Name bs)"
  using canonical_blobs_loop_Inr[of None "sort_key bl_Name bs" vs] assms
    decode_blobs_values[of "sort_key bl_Name bs"]
  by (simp_all add: canonicalBlobs_def commandDecodeBlobs_def)

lemma canonicalClaim_Inr:
  assumes "canonicalClaim claim = Inr v"
  shows "commandDecodeClaim (norm v) = Inr claim"
proof (cases claim)
  case None
  then show ?thesis using assms by (simp add: canonicalClaim_def commandDecodeClaim_def)
next
  case (Some c)
  then obtain epoch where "show_uint epoch = cc_Epoch c" "v = CMap [(''id'', CText (cc_ID c)), (''epoch'', CUint epoch)]"
    using assms by (auto simp: canonicalClaim_def res split: option.splits if_splits)
  then show ?thesis using Some by (simp add: commandDecodeClaim_def read_field)
qed

text \<open>What a command must satisfy for its canonical value to exist.\<close>

lemma canonicalValue_Inr:
  "canonicalValue nfc urlParse c = Inr v \<longleftrightarrow>
     (\<exists>d i blobs claim. validate_envelope c = Inr () \<and> commandIdentityDefinition (or_Operation (cm_Request c)) = Some d
        \<and> ValidateRequest nfc urlParse d (cm_Request c) = Inr () \<and> or_Input (cm_Request c) = Some i
        \<and> canonicalBlobs (or_Blobs (cm_Request c)) = Inr blobs \<and> canonicalClaim (or_Claim (cm_Request c)) = Inr claim
        \<and> v = CMap (command_fields c claim (canonicalInput i) blobs))"
  by (auto simp: canonicalValue_def res split: option.splits)

lemma canonicalValue_ordered:
  assumes "canonicalValue nfc urlParse c = Inr v"
  shows "canonicalValue nfc urlParse (ordered c) = Inr v"
proof -
  have "validate_envelope (ordered c) = validate_envelope c" "command_fields (ordered c) = command_fields c"
    by (simp_all add: validate_envelope_def command_fields_def fun_eq_iff)
  then show ?thesis
    using assms ValidateRequest_ordered[of nfc urlParse _ "cm_Request c"] unfolding canonicalValue_Inr
    by (fastforce simp: canonicalBlobs_def)
qed

lemma CanonicalBytes_ordered:
  assumes "CanonicalBytes nfc urlParse c = Inr b"
  shows "CanonicalBytes nfc urlParse (ordered c) = Inr b"
  using assms by (auto simp: CanonicalBytes_def res canonicalValue_ordered)

section \<open>Decoding\<close>

lemma identity_version: "d \<in> set identity_definitions \<Longrightarrow> id_Version (operation_of d) \<noteq> 0"
  using definitions_valid
  by (auto simp: list_all_iff define_operation_def ValidateMetadata_def ID_Validate_def operation_of_def res)

lemma eta: "\<lparr>id_Name = id_Name x, id_Version = id_Version x\<rparr> = x" "\<lparr>cx_Repo = cx_Repo y, cx_Clone = cx_Clone y, cx_Worktree = cx_Worktree y\<rparr> = y"
  by simp_all

lemma DecodeCanonicalCommand_value:
  assumes v: "canonicalValue nfc urlParse c = Inr v" and b: "CanonicalBytes nfc urlParse c = Inr data"
    and u: "unmarshal data = Inr (norm v)"
  shows "DecodeCanonicalCommand nfc urlParse unmarshal data = Inr (ordered c)"
proof -
  let ?r = "cm_Request c"
  obtain d i blobs claim where known: "commandIdentityDefinition (or_Operation ?r) = Some d" and parts: 
      "ValidateRequest nfc urlParse d ?r = Inr ()" "or_Input ?r = Some i" "canonicalBlobs (or_Blobs ?r) = Inr blobs"
      "canonicalClaim (or_Claim ?r) = Inr claim" "v = CMap (command_fields c claim (canonicalInput i) blobs)"
    using v unfolding canonicalValue_Inr by blast
  note d = known[unfolded commandIdentityDefinition_iff]
  have input: "commandDecodeInput (or_Operation ?r) (norm (CMap (canonicalInput i))) = Inr i"
    using commandDecodeInput_canonical[of d] ValidateRequest_input[OF parts(1)] d parts(2) by force
  have version: "id_Version (or_Operation ?r) \<noteq> 0" using identity_version[of d] d by simp
  have limit: "unat (id_Version (or_Operation ?r)) < 2 ^ 16"
    using unsigned_less[of "id_Version (or_Operation ?r)", where 'a = nat] by simp
  have wide: "unat (ucast (id_Version (or_Operation ?r)) :: 64 word) = unat (id_Version (or_Operation ?r))"
    using limit by (simp add: unsigned_ucast_eq take_bit_nat_eq_self)
  then have positive: "(ucast (id_Version (or_Operation ?r)) :: 64 word) \<noteq> 0" "unat (ucast (id_Version (or_Operation ?r)) :: 64 word) \<le> 2 ^ 16 - 1"
    using version limit by (auto simp: unat_eq_zero[symmetric] simp del: unat_eq_zero)
  have narrow: "ucast (ucast (id_Version (or_Operation ?r)) :: 64 word) = id_Version (or_Operation ?r)"
    by (rule ucast_up_ucast_id) (simp add: is_up)
  have whole: "\<lparr>cm_ID = cm_ID c, cm_AuthorityDomainID = cm_AuthorityDomainID c, cm_ExpectedAuthorityEpoch = cm_ExpectedAuthorityEpoch c,
      cm_EnvironmentID = cm_EnvironmentID c, cm_EnvironmentSequence = cm_EnvironmentSequence c, cm_ActedAt = cm_ActedAt c,
      cm_CausationCommandID = cm_CausationCommandID c, cm_CorrelationCommandID = cm_CorrelationCommandID c,
      cm_Request = \<lparr>or_Operation = or_Operation ?r, or_Actor = or_Actor ?r, or_Context = or_Context ?r, or_Claim = or_Claim ?r,
        or_Input = Some i, or_Blobs = sort_key bl_Name (or_Blobs ?r)\<rparr>\<rparr> = ordered c"
    using parts(2) by (simp add: ordered_def order_blobs_def)
  show ?thesis
    unfolding DecodeCanonicalCommand_def u rbind_simps parts(5) command_fields_def
    using positive CanonicalBytes_ordered[OF b]
    by (simp add: read_field canonicalBlobs_Inr(2)[OF parts(3)] canonicalClaim_Inr[OF parts(4)] input[unfolded norm_map] narrow
      eta whole commandActor_def require_def reject_def Let_def del: norm.simps(6))
qed

section \<open>Bytes that fit\<close>

lemma appendCanonical_nonempty: "appendCanonical nfc v = Inr b \<Longrightarrow> b \<noteq> []"
  by (cases v) (auto simp: res appendCanonical_map text_bytes_def split: if_splits)

lemma length_concat_ge: "\<forall>b \<in> set bs. b \<noteq> [] \<Longrightarrow> length bs \<le> length (concat bs)"
proof (induction bs)
  case (Cons b bs)
  then show ?case by (cases b) auto
qed simp

lemma length_member_concat: "b \<in> set bs \<Longrightarrow> length b \<le> length (concat bs)"
  by (induction bs) auto

text \<open>An encoding of fewer than \<open>2\<^sup>6\<^sup>4\<close> bytes only has lengths of that size.\<close>

lemma short_fits: "appendCanonical nfc v = Inr b \<Longrightarrow> length b < 2 ^ 64 \<Longrightarrow> fits v"
proof (induction v arbitrary: b rule: norm.induct)
  case (3 s)
  then show ?case by (auto simp: res text_bytes_def)
next
  case (6 vs)
  obtain bs where bs: "map (appendCanonical nfc) vs = map Inr bs" "b = appendCBORHead 4 (of_nat (length vs)) @ concat bs"
    using 6 by (auto simp: res)
  have each: "appendCanonical nfc (vs ! j) = Inr (bs ! j)" if "j < length vs" for j
    using bs(1) that by (metis length_map nth_map)
  have len: "length bs = length vs" using bs(1) by (metis length_map)
  have "\<forall>c \<in> set bs. c \<noteq> []" using each len appendCanonical_nonempty by (metis in_set_conv_nth)
  then have "length vs \<le> length (concat bs)" using length_concat_ge[of bs] len by simp
  moreover have "fits v" if v: "v \<in> set vs" for v
  proof -
    obtain j where j: "j < length vs" "vs ! j = v" using v by (auto simp: in_set_conv_nth)
    have "length (bs ! j) \<le> length (concat bs)" using j len by (intro length_member_concat) simp
    then have "length (bs ! j) < 2 ^ 64" using 6(3) bs(2) by simp
    then show ?thesis using 6(1)[OF v, of "bs ! j"] each[OF j(1)] j(2) by simp
  qed
  ultimately show ?case using 6(3) bs(2) by (simp add: list_all_iff)
next
  case (7 kvs)
  let ?kvs = "sort_key (\<lambda>(k, v). key_order k) kvs"
  obtain es where es: "list_all2 (\<lambda>(k, v) (k', c). k' = k \<and> appendCanonical nfc v = Inr c) ?kvs es"
      "b = appendCBORHead 5 (of_nat (length kvs)) @ concat (map (\<lambda>(k, c). text_bytes k @ c) es)"
    using 7(2) by (auto simp: appendCanonical_map)
  let ?bs = "map (\<lambda>(k, c). text_bytes k @ c) es"
  have len: "length es = length kvs" using list_all2_lengthD[OF es(1)] by simp
  have "\<forall>c \<in> set ?bs. c \<noteq> []" by (auto simp: text_bytes_def)
  then have "length kvs \<le> length (concat ?bs)" using length_concat_ge[of ?bs] len by simp
  moreover have "length k < 2 ^ 64 \<and> fits v" if kv: "(k, v) \<in> set kvs" for k v
  proof -
    have "(k, v) \<in> set ?kvs" using kv by simp
    then obtain j where j: "j < length ?kvs" "?kvs ! j = (k, v)" unfolding in_set_conv_nth by blast
    obtain k' c where e: "es ! j = (k', c)" by (cases "es ! j")
    have "k' = k" and c: "appendCanonical nfc v = Inr c" using list_all2_nthD[OF es(1) j(1)] j(2) e by auto
    then have "(k, c) \<in> set es" using e nth_mem[of j es] j(1) len by simp
    note c = this c
    from c have "length (text_bytes k @ c) \<le> length (concat ?bs)" by (intro length_member_concat) force
    then have "length k < 2 ^ 64" "length c < 2 ^ 64" using 7(3) es(2) by (auto simp: text_bytes_def)
    then show ?thesis using 7(1)[OF kv, of k v c] c(2) by simp
  qed
  ultimately show ?case using 7(3) es(2) by (auto simp: list_all_iff)
qed simp_all

lemma decode_CanonicalBytes:
  assumes "CanonicalBytes nfc urlParse c = Inr data" "length data < 2 ^ 64"
  shows "DecodeCanonicalCommand nfc urlParse decode data = Inr (ordered c)"
proof -
  obtain v where v: "canonicalValue nfc urlParse c = Inr v" "marshalCanonical nfc v = Inr data"
    using assms(1) by (auto simp: CanonicalBytes_def res)
  then have "decode data = Inr (norm v)"
    using decode_marshalCanonical short_fits assms(2) unfolding marshalCanonical_def by blast
  then show ?thesis using DecodeCanonicalCommand_value[OF v(1) assms(1)] by simp
qed

section \<open>The CBOR library\<close>

text \<open>What the options of the decoder allow: sixteen nested levels, arrays of 1024 elements, maps of
  256 entries with distinct keys.\<close>

fun limits :: "nat \<Rightarrow> canonical \<Rightarrow> bool" where
  "limits n (CArray vs) \<longleftrightarrow> 0 < n \<and> length vs \<le> 1024 \<and> list_all (limits (n - 1)) vs"
| "limits n (CMap kvs) \<longleftrightarrow> 0 < n \<and> length kvs \<le> 256 \<and> distinct (map fst kvs) \<and> list_all (\<lambda>(k, v). limits (n - 1) v) kvs"
| "limits n _ \<longleftrightarrow> True"

locale cbor_library =
  fixes nfc :: "string \<Rightarrow> bool" and unmarshal :: "string \<Rightarrow> canonical result"
  assumes unmarshal_marshal:
    "marshalCanonical nfc v = Inr b \<Longrightarrow> length b < 2 ^ 64 \<Longrightarrow> limits 16 v \<Longrightarrow> unmarshal b = Inr (norm v)"

lemma limits_nullable [simp]: "limits n (nullableIdentity s)" "limits n (nullableStringPointer p)"
  by (simp_all add: nullableIdentity_def nullableStringPointer_def split: option.split)

lemma limits_claims: "length cs \<le> 2 \<Longrightarrow> 2 \<le> n \<Longrightarrow> limits n (canonicalTargetClaims cs)"
  by (simp add: canonicalTargetClaims_def list_all_iff)

lemma limits_strings: "length ss \<le> 1024 \<Longrightarrow> 0 < n \<Longrightarrow> limits n (canonicalStrings ss)"
  by (simp add: canonicalStrings_def list_all_iff)

lemma limits_anchor: "0 < n \<Longrightarrow> limits n (canonical_anchor p)"
  by (simp add: canonical_anchor_def)

text \<open>The only list of a command whose length no check bounds is the order of the Steps.\<close>

fun decodable :: "Input \<Rightarrow> bool" where
  "decodable (StepReorderInput p order) \<longleftrightarrow> length order \<le> 1024"
| "decodable _ \<longleftrightarrow> True"

lemma limits_input:
  assumes "validate_input nfc urlParse op req i = Inr u" "decodable i"
  shows "limits 15 (CMap (canonicalInput i))"
proof (cases i)
  case (GateExemptionRepairInput g)
  then have "length (ge_EvidenceRefs g) \<le> 32" using assms(1) by (auto simp: validateGateExemptionRepairInput_def split: if_splits)
  then show ?thesis using GateExemptionRepairInput by (simp add: canonical_repair_def limits_strings)
qed (use assms validated_explicit[OF assms(1)] in
  \<open>simp_all add: canonical_role_def canonical_hook_def canonical_close_def limits_claims limits_strings limits_anchor\<close>)

lemma blobs_bounded:
  assumes "validateBlobs d bs = Inr u" "d \<in> set identity_definitions"
  shows "length bs \<le> 1024"
proof -
  have "list_all (\<lambda>d. length (blob_specs d) \<le> 1024) identity_definitions" by code_simp
  then have "length (blob_specs d) \<le> 1024" using assms(2) by (simp add: list_all_iff)
  moreover have "distinct (map bl_Name bs)" "set (map bl_Name bs) \<subseteq> set (map bs_Name (blob_specs d))"
    using assms(1) by (auto simp: validateBlobs_Inr)
  then have "length (map bl_Name bs) \<le> card (set (map bs_Name (blob_specs d)))"
    by (metis card_mono distinct_card finite_set)
  ultimately show ?thesis using card_length[of "map bs_Name (blob_specs d)"] by simp
qed

lemma canonicalValue_limits:
  assumes "canonicalValue nfc urlParse c = Inr v" "pred_option decodable (or_Input (cm_Request c))"
  shows "limits 16 v"
proof -
  let ?r = "cm_Request c"
  obtain d i blobs claim where parts: "commandIdentityDefinition (or_Operation ?r) = Some d"
      "ValidateRequest nfc urlParse d ?r = Inr ()" "or_Input ?r = Some i" "canonicalBlobs (or_Blobs ?r) = Inr blobs"
      "canonicalClaim (or_Claim ?r) = Inr claim" "v = CMap (command_fields c claim (canonicalInput i) blobs)"
    using assms(1) unfolding canonicalValue_Inr by blast
  obtain u where u: "validate_input nfc urlParse (operation_of d) ?r i = Inr u" "validateBlobs d (or_Blobs ?r) = Inr u"
    using ValidateRequest_input[OF parts(2)] parts(3) by force
  have input: "limits 15 (CMap (canonicalInput i))" using limits_input[OF u(1)] assms(2) parts(3) by simp
  have "length (or_Blobs ?r) \<le> 1024" using blobs_bounded[OF u(2)] parts(1) by (simp add: commandIdentityDefinition_iff)
  then have blobs: "limits 15 (CArray blobs)"
    by (auto simp: canonicalBlobs_Inr(1)[OF parts(4)] blob_value_def list_all_iff)
  have claim: "limits 15 claim" using parts(5) by (auto simp: canonicalClaim_def res split: option.splits if_splits)
  show ?thesis unfolding parts(6) using input blobs claim by (simp add: command_fields_def)
qed

context cbor_library
begin

lemma DecodeCanonicalCommand_inverts:
  assumes "CanonicalBytes nfc urlParse c = Inr data" "length data < 2 ^ 64" "pred_option decodable (or_Input (cm_Request c))"
  shows "DecodeCanonicalCommand nfc urlParse unmarshal data = Inr (ordered c)"
proof -
  obtain v where v: "canonicalValue nfc urlParse c = Inr v" "marshalCanonical nfc v = Inr data"
    using assms(1) by (auto simp: CanonicalBytes_def res)
  then have "unmarshal data = Inr (norm v)" using unmarshal_marshal canonicalValue_limits assms(2,3) by blast
  then show ?thesis using DecodeCanonicalCommand_value[OF v(1) assms(1)] by simp
qed

end

interpretation reference: cbor_library nfc decode
  by unfold_locales (simp add: decode_marshalCanonical short_fits marshalCanonical_def)

section \<open>What a decoded command satisfies\<close>

lemma DecodeCanonicalCommand_canonical:
  "DecodeCanonicalCommand nfc urlParse unmarshal data = Inr c \<Longrightarrow> CanonicalBytes nfc urlParse c = Inr data"
  unfolding DecodeCanonicalCommand_def Let_def by (simp only: rbind_Inr_iff if_Inl_Inr_iff) blast

section \<open>Request hashes\<close>

lemma hexadecimal_digit: "n < 16 \<Longrightarrow> hexadecimal (hex_digit n)"
proof -
  have "list_all (\<lambda>n. hexadecimal (hex_digit n)) [0..<16]" by code_simp
  then show "n < 16 \<Longrightarrow> hexadecimal (hex_digit n)" by (simp add: list_all_iff)
qed

lemma hexadecimal_encode: "list_all hexadecimal (hex_encode bs)"
proof -
  have "unat (b :: 8 word) div 16 < 16" for b
    using unsigned_less[of b, where 'a = nat] by (simp add: less_mult_imp_div_less)
  then show ?thesis by (induction bs) (simp_all add: hex_encode_def hexadecimal_digit)
qed

lemma digestPattern_sha256: "digestPattern (digestPrefix @ hex_encode (sha256 bs))"
  by (simp add: digestPattern_def digestPrefix_def hexadecimal_encode has_prefix_def)

lemma VerifyRequestHash_iff: "VerifyRequestHash nfc urlParse c h = Inr () \<longleftrightarrow> RequestHash nfc urlParse c = Inr h"
  using digestPattern_sha256 by (auto simp: VerifyRequestHash_def RequestHash_def res)

end
