(* ===== verification/Transport.thy ===== *)
theory Transport
  imports Operation
begin

text \<open>
  The types of the inputs and outputs of the operations and \<open>validateTransportType\<close>, the walk over
  them that runs when an operation is defined (\<open>internal/operation/metadata.go\<close>). A type is what
  \<open>reflect\<close> tells about it: its package path, its kind and its fields. No type of the program is
  recursive, so the walk is over finite trees and its memory of visited types is not needed.
\<close>

datatype gokind = KBool | KString | KInt64 | KUint8 | KUint16 | KUint64 | KFunc | KChan | KInterface

datatype gotype =
    GKind string gokind
  | GPointer gotype
  | GSlice gotype
  | GMap gotype gotype
  | GStruct string "(string \<times> gotype) list"

definition packagePath :: string where
  "packagePath = ''github.com/procrastivity/wip/internal/operation''"

primrec type_path :: "gotype \<Rightarrow> string" where
  "type_path (GKind p k) = p"
| "type_path (GPointer t) = []"
| "type_path (GSlice t) = []"
| "type_path (GMap k t) = []"
| "type_path (GStruct p fs) = p"

definition kind_of :: "gotype \<Rightarrow> gokind option" where
  "kind_of t = (case t of GKind p k \<Rightarrow> Some k | _ \<Rightarrow> None)"

definition exported :: "string \<Rightarrow> bool" where
  "exported name = (case name of c # _ \<Rightarrow> upper c | [] \<Rightarrow> False)"

definition foreign :: "gotype \<Rightarrow> bool" where
  "foreign t = (type_path t \<noteq> [] \<and> type_path t \<noteq> packagePath)"

lemma for_each_cong [fundef_cong]:
  "xs = ys \<Longrightarrow> s = t \<Longrightarrow> (\<And>x a. x \<in> set ys \<Longrightarrow> f x a = g x a) \<Longrightarrow> for_each f xs s = for_each g ys t"
proof (induction xs arbitrary: ys s t)
  case (Cons x xs)
  then show ?case by (cases "g x t") auto
qed auto

fun validateTransportType :: "bool \<Rightarrow> gotype \<Rightarrow> unit result" where
  "validateTransportType input (GKind p k) =
     (if foreign (GKind p k) then Inl (ERefused ''uses transport-coupled type'')
      else if k \<in> set [KFunc, KChan, KInterface] then Inl (ERefused ''uses non-representable kind'')
      else Inr ())"
| "validateTransportType input (GPointer t) = validateTransportType input t"
| "validateTransportType input (GSlice t) =
     (if input \<and> kind_of t = Some KUint8 then Inl (ERefused ''carries raw bytes; declare a staged BlobInput instead'')
      else validateTransportType input t)"
| "validateTransportType input (GMap k t) =
     (if kind_of k \<noteq> Some KString then Inl (ERefused ''has non-string map key'') else validateTransportType input t)"
| "validateTransportType input (GStruct p fs) =
     (if foreign (GStruct p fs) then Inl (ERefused ''uses transport-coupled type'')
      else for_each (\<lambda>(name, t) _.
        if \<not> exported name then Inl (ERefused ''is not exported'') else validateTransportType input t) fs ())"

section \<open>The types of the program\<close>

definition go_TargetClaim :: gotype where
  "go_TargetClaim = GStruct packagePath [(''MatterID'', (GKind [] KString)),
     (''ClaimID'', (GKind [] KString)),
     (''ClaimEpoch'', (GKind [] KUint64))]"

definition go_ClaimClosePrefix :: gotype where
  "go_ClaimClosePrefix = GStruct packagePath [(''EventCount'', (GKind [] KUint64)),
     (''EventID'', (GPointer (GKind [] KString))),
     (''Digest'', (GKind [] KString))]"

definition go_ClaimCloseReference :: gotype where
  "go_ClaimCloseReference = GStruct packagePath [(''ClaimID'', (GKind [] KString)),
     (''ClaimEpoch'', (GKind [] KUint64)),
     (''ReleaseCommandID'', (GKind [] KString)),
     (''ReleaseRequestHash'', (GKind [] KString)),
     (''TerminalReceiptDigest'', (GKind [] KString)),
     (''InstalledPrefixAnchor'', go_ClaimClosePrefix)]"

definition go_SchedulerPrefixAnchor :: gotype where
  "go_SchedulerPrefixAnchor = GStruct packagePath [(''EventCount'', (GKind [] KUint64)),
     (''EventID'', (GPointer (GKind [] KString))),
     (''Digest'', (GKind [] KString))]"

definition go_SchedulerHookStep :: gotype where
  "go_SchedulerHookStep = GStruct packagePath [(''Title'', (GKind [] KString))]"

definition go_MatterCreateInput :: gotype where
  "go_MatterCreateInput = GStruct packagePath [(''Title'', (GKind [] KString)),
     (''Locator'', (GKind [] KString))]"

definition go_StepCreateInput :: gotype where
  "go_StepCreateInput = GStruct packagePath [(''ParentID'', (GKind [] KString)),
     (''Title'', (GKind [] KString))]"

definition go_StepLifecycleInput :: gotype where
  "go_StepLifecycleInput = GStruct packagePath [(''StepID'', (GKind [] KString))]"

definition go_MatterFinishInput :: gotype where
  "go_MatterFinishInput = GStruct packagePath [(''MatterID'', (GKind [] KString))]"

definition go_BatchSweepAnonymousInput :: gotype where
  "go_BatchSweepAnonymousInput = GStruct packagePath [(''MatterID'', (GKind [] KString)),
     (''BatchID'', (GKind [] KString)),
     (''ClaimClose'', go_ClaimCloseReference)]"

definition go_BatchCreateInput :: gotype where
  "go_BatchCreateInput = GStruct packagePath [(''Name'', (GKind [] KString))]"

definition go_BatchMembershipInput :: gotype where
  "go_BatchMembershipInput = GStruct packagePath [(''BatchID'', (GKind [] KString)),
     (''MatterID'', (GKind [] KString))]"

definition go_BatchDismissInput :: gotype where
  "go_BatchDismissInput = GStruct packagePath [(''BatchID'', (GKind [] KString))]"

definition go_ContentWriteInput :: gotype where
  "go_ContentWriteInput = GStruct packagePath [(''SubjectID'', (GKind [] KString)),
     (''Kind'', (GKind [] KString))]"

definition go_FindingAppendInput :: gotype where
  "go_FindingAppendInput = GStruct packagePath [(''SubjectID'', (GKind [] KString))]"

definition go_GateExemptionRepairInput :: gotype where
  "go_GateExemptionRepairInput = GStruct packagePath [(''NodeID'', (GKind [] KString)),
     (''Gate'', (GKind [] KString)),
     (''EventCount'', (GKind [] KUint64)),
     (''HighWaterEventID'', (GKind [] KString)),
     (''PrefixDigest'', (GKind [] KString)),
     (''IncidentRef'', (GKind [] KString)),
     (''Reason'', (GKind [] KString)),
     (''EvidenceRefs'', (GSlice (GKind [] KString)))]"

definition go_GateDeclareInput :: gotype where
  "go_GateDeclareInput = GStruct packagePath [(''Gate'', (GKind [] KString)),
     (''Scale'', (GKind [] KString))]"

definition go_GateCloseInput :: gotype where
  "go_GateCloseInput = GStruct packagePath [(''Gate'', (GKind [] KString)),
     (''NodeID'', (GKind [] KString))]"

definition go_GateDismissInput :: gotype where
  "go_GateDismissInput = GStruct packagePath [(''Gate'', (GKind [] KString)),
     (''NodeID'', (GKind [] KString)),
     (''Reason'', (GKind [] KString))]"

definition go_NodeLifecycleInput :: gotype where
  "go_NodeLifecycleInput = GStruct packagePath [(''NodeID'', (GKind [] KString)),
     (''Reason'', (GKind [] KString))]"

definition go_StepCancelInput :: gotype where
  "go_StepCancelInput = GStruct packagePath [(''StepID'', (GKind [] KString)),
     (''Reason'', (GKind [] KString))]"

definition go_SchedulerHookInput :: gotype where
  "go_SchedulerHookInput = GStruct packagePath [(''Kind'', (GKind [] KString)),
     (''Version'', (GKind [] KUint64)),
     (''AdapterID'', (GKind [] KString)),
     (''AdapterVersion'', (GKind [] KUint64)),
     (''RunID'', (GKind [] KString)),
     (''MatterID'', (GKind [] KString)),
     (''TargetID'', (GKind [] KString)),
     (''TargetKind'', (GKind [] KString)),
     (''Role'', (GKind [] KString)),
     (''RoleID'', (GKind [] KString)),
     (''DispatchID'', (GKind [] KString)),
     (''Revision'', (GKind [] KString)),
     (''Reason'', (GKind [] KString)),
     (''Contention'', (GKind [] KString)),
     (''Blocked'', (GKind [] KString)),
     (''Failed'', (GKind [] KString)),
     (''TargetClaims'', (GSlice go_TargetClaim)),
     (''InstalledPrefix'', go_SchedulerPrefixAnchor)]"

definition go_RoleLifecycleInput :: gotype where
  "go_RoleLifecycleInput = GStruct packagePath [(''RunID'', (GKind [] KString)),
     (''RunLocator'', (GKind [] KString)),
     (''MatterID'', (GKind [] KString)),
     (''DispatchID'', (GKind [] KString)),
     (''RoleID'', (GKind [] KString)),
     (''Role'', (GKind [] KString)),
     (''Reason'', (GKind [] KString))]"

definition go_RunFinishInput :: gotype where
  "go_RunFinishInput = GStruct packagePath [(''RunID'', (GKind [] KString))]"

definition go_RunResumeInput :: gotype where
  "go_RunResumeInput = GStruct packagePath [(''RunID'', (GKind [] KString)),
     (''RunLocator'', (GKind [] KString))]"

definition go_StageCreateInput :: gotype where
  "go_StageCreateInput = GStruct packagePath [(''MatterID'', (GKind [] KString)),
     (''Title'', (GKind [] KString))]"

definition go_StepInsertInput :: gotype where
  "go_StepInsertInput = GStruct packagePath [(''ParentID'', (GKind [] KString)),
     (''Title'', (GKind [] KString)),
     (''AfterID'', (GKind [] KString)),
     (''BeforeID'', (GKind [] KString))]"

definition go_StepReorderInput :: gotype where
  "go_StepReorderInput = GStruct packagePath [(''ParentID'', (GKind [] KString)),
     (''Order'', (GSlice (GKind [] KString)))]"

definition go_StepReplaceInput :: gotype where
  "go_StepReplaceInput = GStruct packagePath [(''StepID'', (GKind [] KString)),
     (''Title'', (GKind [] KString))]"

definition go_StepRemoveInput :: gotype where
  "go_StepRemoveInput = GStruct packagePath [(''StepID'', (GKind [] KString)),
     (''Reason'', (GKind [] KString))]"

definition go_MatterLocatorRepairInput :: gotype where
  "go_MatterLocatorRepairInput = GStruct packagePath [(''MatterID'', (GKind [] KString)),
     (''AssignedLocator'', (GKind [] KString)),
     (''Action'', (GKind [] KString))]"

definition go_DependencyAddInput :: gotype where
  "go_DependencyAddInput = GStruct packagePath [(''BlockedID'', (GKind [] KString)),
     (''BlockerID'', (GKind [] KString))]"

definition go_DependencyRemoveInput :: gotype where
  "go_DependencyRemoveInput = GStruct packagePath [(''BlockedID'', (GKind [] KString)),
     (''BlockerID'', (GKind [] KString))]"

definition go_DependencyAddV2Input :: gotype where
  "go_DependencyAddV2Input = GStruct packagePath [(''BlockedID'', (GKind [] KString)),
     (''BlockerID'', (GKind [] KString)),
     (''TargetClaims'', (GSlice go_TargetClaim))]"

definition go_DependencyRemoveV2Input :: gotype where
  "go_DependencyRemoveV2Input = GStruct packagePath [(''BlockedID'', (GKind [] KString)),
     (''BlockerID'', (GKind [] KString)),
     (''TargetClaims'', (GSlice go_TargetClaim))]"

definition go_ReferenceBindInput :: gotype where
  "go_ReferenceBindInput = GStruct packagePath [(''MatterID'', (GKind [] KString)),
     (''Reference'', (GKind [] KString))]"

definition go_ReferenceBindV2Input :: gotype where
  "go_ReferenceBindV2Input = GStruct packagePath [(''MatterID'', (GKind [] KString)),
     (''Reference'', (GKind [] KString)),
     (''TargetClaims'', (GSlice go_TargetClaim))]"

definition go_ReferenceUnbindInput :: gotype where
  "go_ReferenceUnbindInput = GStruct packagePath [(''MatterID'', (GKind [] KString)),
     (''Reference'', (GKind [] KString))]"

definition go_ReferenceUnbindV2Input :: gotype where
  "go_ReferenceUnbindV2Input = GStruct packagePath [(''MatterID'', (GKind [] KString)),
     (''Reference'', (GKind [] KString)),
     (''TargetClaims'', (GSlice go_TargetClaim))]"

definition go_ReferenceRebindInput :: gotype where
  "go_ReferenceRebindInput = GStruct packagePath [(''MatterID'', (GKind [] KString)),
     (''From'', (GKind [] KString)),
     (''To'', (GKind [] KString))]"

definition go_ReferenceRebindV2Input :: gotype where
  "go_ReferenceRebindV2Input = GStruct packagePath [(''MatterID'', (GKind [] KString)),
     (''From'', (GKind [] KString)),
     (''To'', (GKind [] KString)),
     (''TargetClaims'', (GSlice go_TargetClaim))]"

definition go_MatterCreateOutput :: gotype where
  "go_MatterCreateOutput = GStruct packagePath [(''ID'', (GKind [] KString)),
     (''Locator'', (GKind [] KString)),
     (''Title'', (GKind [] KString))]"

definition go_StepCreateOutput :: gotype where
  "go_StepCreateOutput = GStruct packagePath [(''ID'', (GKind [] KString)),
     (''ParentID'', (GKind [] KString)),
     (''MatterID'', (GKind [] KString)),
     (''Locator'', (GKind [] KString)),
     (''Title'', (GKind [] KString)),
     (''SortKey'', (GKind [] KInt64)),
     (''State'', (GKind [] KString))]"

definition go_StepLifecycleOutput :: gotype where
  "go_StepLifecycleOutput = GStruct packagePath [(''StepID'', (GKind [] KString)),
     (''MatterID'', (GKind [] KString)),
     (''State'', (GKind [] KString))]"

definition go_MatterFinishOutput :: gotype where
  "go_MatterFinishOutput = GStruct packagePath [(''MatterID'', (GKind [] KString)),
     (''State'', (GKind [] KString)),
     (''BecameSealed'', (GKind [] KBool))]"

definition go_BatchCreateOutput :: gotype where
  "go_BatchCreateOutput = GStruct packagePath [(''ID'', (GKind [] KString)),
     (''Name'', (GKind [] KString))]"

definition go_BatchMembershipOutput :: gotype where
  "go_BatchMembershipOutput = GStruct packagePath [(''BatchID'', (GKind [] KString)),
     (''MatterID'', (GKind [] KString))]"

definition go_BatchDismissOutput :: gotype where
  "go_BatchDismissOutput = GStruct packagePath [(''BatchID'', (GKind [] KString))]"

definition go_BatchSweepAnonymousOutput :: gotype where
  "go_BatchSweepAnonymousOutput = GStruct packagePath [(''Outcome'', (GKind packagePath KString))]"

definition go_ContentSegmentOutput :: gotype where
  "go_ContentSegmentOutput = GStruct packagePath [(''ID'', (GKind [] KString)),
     (''SubjectID'', (GKind [] KString)),
     (''Kind'', (GKind [] KString)),
     (''BlobDigest'', (GKind [] KString)),
     (''ByteLength'', (GKind [] KInt64))]"

definition go_GateExemptionRepairOutput :: gotype where
  "go_GateExemptionRepairOutput = GStruct packagePath [(''Gate'', (GKind [] KString)),
     (''NodeID'', (GKind [] KString)),
     (''AlreadyExempt'', (GKind [] KBool))]"

definition go_GateDeclareOutput :: gotype where
  "go_GateDeclareOutput = GStruct packagePath [(''Gate'', (GKind [] KString)),
     (''Scale'', (GKind [] KString))]"

definition go_GateCloseOutput :: gotype where
  "go_GateCloseOutput = GStruct packagePath [(''Gate'', (GKind [] KString)),
     (''NodeID'', (GKind [] KString)),
     (''Scale'', (GKind [] KString))]"

definition go_GateDismissOutput :: gotype where
  "go_GateDismissOutput = GStruct packagePath [(''Gate'', (GKind [] KString)),
     (''NodeID'', (GKind [] KString)),
     (''Scale'', (GKind [] KString))]"

definition go_NodeLifecycleOutput :: gotype where
  "go_NodeLifecycleOutput = GStruct packagePath [(''NodeID'', (GKind [] KString)),
     (''MatterID'', (GKind [] KString)),
     (''State'', (GKind [] KString))]"

definition go_MatterLifecycleOutput :: gotype where
  "go_MatterLifecycleOutput = GStruct packagePath [(''MatterID'', (GKind [] KString)),
     (''State'', (GKind [] KString))]"

definition go_SchedulerHookOutput :: gotype where
  "go_SchedulerHookOutput = GStruct packagePath [(''Kind'', (GKind [] KString)),
     (''Version'', (GKind [] KUint64)),
     (''InputDigest'', (GKind [] KString)),
     (''ResultDigest'', (GKind [] KString)),
     (''Outcome'', (GKind [] KString)),
     (''Revision'', (GKind [] KString)),
     (''EvidenceRefs'', (GSlice (GKind [] KString))),
     (''ProblemCode'', (GKind [] KString)),
     (''Steps'', (GSlice go_SchedulerHookStep)),
     (''Handling'', (GKind [] KString))]"

definition go_RoleLifecycleOutput :: gotype where
  "go_RoleLifecycleOutput = GStruct packagePath [(''RunID'', (GKind [] KString)),
     (''MatterID'', (GKind [] KString)),
     (''DispatchID'', (GKind [] KString)),
     (''RoleID'', (GKind [] KString)),
     (''Role'', (GKind [] KString)),
     (''State'', (GKind [] KString))]"

definition go_RunFinishOutput :: gotype where
  "go_RunFinishOutput = GStruct packagePath [(''RunID'', (GKind [] KString)),
     (''State'', (GKind [] KString))]"

definition go_RunResumeOutput :: gotype where
  "go_RunResumeOutput = GStruct packagePath [(''RunID'', (GKind [] KString)),
     (''State'', (GKind [] KString))]"

definition go_MatterCreateV2Output :: gotype where
  "go_MatterCreateV2Output = GStruct packagePath [(''ID'', (GKind [] KString)),
     (''Title'', (GKind [] KString)),
     (''RequestedLocator'', (GKind [] KString)),
     (''AssignedLocator'', (GKind [] KString)),
     (''LocatorRepairRequired'', (GKind [] KBool))]"

definition go_StageCreateOutput :: gotype where
  "go_StageCreateOutput = GStruct packagePath [(''ID'', (GKind [] KString)),
     (''MatterID'', (GKind [] KString)),
     (''Locator'', (GKind [] KString)),
     (''Title'', (GKind [] KString)),
     (''SortKey'', (GKind [] KInt64)),
     (''State'', (GKind [] KString))]"

definition go_StepReorderOutput :: gotype where
  "go_StepReorderOutput = GStruct packagePath [(''ParentID'', (GKind [] KString)),
     (''Order'', (GSlice (GKind [] KString)))]"

definition go_StepReplaceOutput :: gotype where
  "go_StepReplaceOutput = GStruct packagePath [(''RemovedStepID'', (GKind [] KString)),
     (''Replacement'', go_StepCreateOutput)]"

definition go_StepRemoveOutput :: gotype where
  "go_StepRemoveOutput = GStruct packagePath [(''StepID'', (GKind [] KString))]"

definition go_MatterLocatorRepairOutput :: gotype where
  "go_MatterLocatorRepairOutput = GStruct packagePath [(''ID'', (GKind [] KString)),
     (''Action'', (GKind [] KString)),
     (''RequestedLocator'', (GKind [] KString)),
     (''PreviousLocator'', (GKind [] KString)),
     (''AssignedLocator'', (GKind [] KString))]"

definition go_DependencyOutput :: gotype where
  "go_DependencyOutput = GStruct packagePath [(''EdgeID'', (GKind [] KString)),
     (''BlockedID'', (GKind [] KString)),
     (''BlockerID'', (GKind [] KString))]"

definition go_ReferenceOutput :: gotype where
  "go_ReferenceOutput = GStruct packagePath [(''MatterID'', (GKind [] KString)),
     (''Reference'', (GKind [] KString)),
     (''PreviousReference'', (GKind [] KString))]"

definition input_types :: "(string \<times> gotype) list" where
  "input_types = [
     (''MatterCreateInput'', go_MatterCreateInput),
     (''StepCreateInput'', go_StepCreateInput),
     (''StepLifecycleInput'', go_StepLifecycleInput),
     (''MatterFinishInput'', go_MatterFinishInput),
     (''BatchSweepAnonymousInput'', go_BatchSweepAnonymousInput),
     (''BatchCreateInput'', go_BatchCreateInput),
     (''BatchMembershipInput'', go_BatchMembershipInput),
     (''BatchDismissInput'', go_BatchDismissInput),
     (''ContentWriteInput'', go_ContentWriteInput),
     (''FindingAppendInput'', go_FindingAppendInput),
     (''GateExemptionRepairInput'', go_GateExemptionRepairInput),
     (''GateDeclareInput'', go_GateDeclareInput),
     (''GateCloseInput'', go_GateCloseInput),
     (''GateDismissInput'', go_GateDismissInput),
     (''NodeLifecycleInput'', go_NodeLifecycleInput),
     (''StepCancelInput'', go_StepCancelInput),
     (''SchedulerHookInput'', go_SchedulerHookInput),
     (''RoleLifecycleInput'', go_RoleLifecycleInput),
     (''RunFinishInput'', go_RunFinishInput),
     (''RunResumeInput'', go_RunResumeInput),
     (''StageCreateInput'', go_StageCreateInput),
     (''StepInsertInput'', go_StepInsertInput),
     (''StepReorderInput'', go_StepReorderInput),
     (''StepReplaceInput'', go_StepReplaceInput),
     (''StepRemoveInput'', go_StepRemoveInput),
     (''MatterLocatorRepairInput'', go_MatterLocatorRepairInput),
     (''DependencyAddInput'', go_DependencyAddInput),
     (''DependencyRemoveInput'', go_DependencyRemoveInput),
     (''DependencyAddV2Input'', go_DependencyAddV2Input),
     (''DependencyRemoveV2Input'', go_DependencyRemoveV2Input),
     (''ReferenceBindInput'', go_ReferenceBindInput),
     (''ReferenceBindV2Input'', go_ReferenceBindV2Input),
     (''ReferenceUnbindInput'', go_ReferenceUnbindInput),
     (''ReferenceUnbindV2Input'', go_ReferenceUnbindV2Input),
     (''ReferenceRebindInput'', go_ReferenceRebindInput),
     (''ReferenceRebindV2Input'', go_ReferenceRebindV2Input)]"

definition output_types :: "(string \<times> gotype) list" where
  "output_types = [
     (''MatterCreateOutput'', go_MatterCreateOutput),
     (''StepCreateOutput'', go_StepCreateOutput),
     (''StepLifecycleOutput'', go_StepLifecycleOutput),
     (''MatterFinishOutput'', go_MatterFinishOutput),
     (''BatchCreateOutput'', go_BatchCreateOutput),
     (''BatchMembershipOutput'', go_BatchMembershipOutput),
     (''BatchDismissOutput'', go_BatchDismissOutput),
     (''BatchSweepAnonymousOutput'', go_BatchSweepAnonymousOutput),
     (''ContentSegmentOutput'', go_ContentSegmentOutput),
     (''GateExemptionRepairOutput'', go_GateExemptionRepairOutput),
     (''GateDeclareOutput'', go_GateDeclareOutput),
     (''GateCloseOutput'', go_GateCloseOutput),
     (''GateDismissOutput'', go_GateDismissOutput),
     (''NodeLifecycleOutput'', go_NodeLifecycleOutput),
     (''MatterLifecycleOutput'', go_MatterLifecycleOutput),
     (''SchedulerHookOutput'', go_SchedulerHookOutput),
     (''RoleLifecycleOutput'', go_RoleLifecycleOutput),
     (''RunFinishOutput'', go_RunFinishOutput),
     (''RunResumeOutput'', go_RunResumeOutput),
     (''MatterCreateV2Output'', go_MatterCreateV2Output),
     (''StageCreateOutput'', go_StageCreateOutput),
     (''StepReorderOutput'', go_StepReorderOutput),
     (''StepReplaceOutput'', go_StepReplaceOutput),
     (''StepRemoveOutput'', go_StepRemoveOutput),
     (''MatterLocatorRepairOutput'', go_MatterLocatorRepairOutput),
     (''DependencyOutput'', go_DependencyOutput),
     (''ReferenceOutput'', go_ReferenceOutput)]"

section \<open>Definitions\<close>

definition type_of :: "(string \<times> gotype) list \<Rightarrow> string \<Rightarrow> gotype result" where
  "type_of types name = of_option (ERefused ''unknown type'') (map_of types name)"

definition mustDefine :: "string \<Rightarrow> string \<Rightarrow> Metadata \<Rightarrow> Definition result" where
  "mustDefine inputType outputType m =
     rbind (define_operation inputType outputType m) (\<lambda>d.
     rbind (rbind (type_of input_types inputType) (validateTransportType True)) (\<lambda>_.
     rbind (rbind (type_of output_types outputType) (validateTransportType False)) (\<lambda>_. Inr d)))"

lemma types_valid:
  "list_all (\<lambda>(n, t). validateTransportType True t = Inr ()) input_types"
  "list_all (\<lambda>(n, t). validateTransportType False t = Inr ()) output_types"
  by code_simp+

lemma types_known:
  "list_all (\<lambda>d. df_inputType d \<in> set (map fst input_types) \<and> df_outputType d \<in> set (map fst output_types)) identity_definitions"
  by code_simp

lemma type_of_valid:
  assumes "n \<in> set (map fst ts)" "list_all (\<lambda>(n, t). validateTransportType b t = Inr ()) ts"
  shows "rbind (type_of ts n) (validateTransportType b) = Inr ()"
proof -
  obtain t where t: "map_of ts n = Some t" using assms(1) weak_map_of_SomeI by fastforce
  then show ?thesis using assms(2) map_of_SomeD[OF t] by (auto simp: type_of_def of_option_def list_all_iff)
qed

lemma mustDefine_total: "d \<in> set identity_definitions \<Longrightarrow> mustDefine (df_inputType d) (df_outputType d) (df_metadata d) = Inr d"
  using definitions_valid types_known types_valid unfolding list_all_iff[of _ identity_definitions]
  by (simp add: mustDefine_def type_of_valid)

end
