(* ===== verification/Dispatch.thy ===== *)
theory Dispatch
  imports Validate Transport
begin

text \<open>
  Results, their check \<open>ValidateResult\<close> (\<open>internal/operation/validate.go\<close>) and the registry that
  dispatches requests to handlers (\<open>internal/operation/dispatcher.go\<close>). A handler is a function of
  its context, the request and the state it works on. The registry's map is an association list
  in the order of registration; nothing depends on that order.
\<close>

section \<open>Results\<close>

record StepOutput =
  so_ID :: string
  so_ParentID :: string
  so_MatterID :: string
  so_Locator :: string
  so_Title :: string
  so_SortKey :: "64 word"
  so_State :: string

record HookOutput =
  ho_Kind :: string
  ho_Version :: "64 word"
  ho_InputDigest :: string
  ho_ResultDigest :: string
  ho_Outcome :: string
  ho_Revision :: string
  ho_EvidenceRefs :: "string list option"
  ho_ProblemCode :: string
  ho_Steps :: "string list option"
  ho_Handling :: string

text \<open>The fields of an output, in the order of its struct.\<close>

datatype Output =
    MatterCreateOutput string string string
  | StepCreateOutput StepOutput
  | StepLifecycleOutput string string string
  | MatterFinishOutput string string bool
  | BatchCreateOutput string string
  | BatchMembershipOutput string string
  | BatchDismissOutput string
  | BatchSweepAnonymousOutput string
  | ContentSegmentOutput string string string string "64 word"
  | GateExemptionRepairOutput string string bool
  | GateDeclareOutput string string
  | GateCloseOutput string string string
  | GateDismissOutput string string string
  | NodeLifecycleOutput string string string
  | MatterLifecycleOutput string string
  | MatterCreateV2Output string string string string bool
  | StageCreateOutput string string string string "64 word" string
  | StepReorderOutput string "string list"
  | StepReplaceOutput string StepOutput
  | StepRemoveOutput string
  | MatterLocatorRepairOutput string string string string string
  | DependencyOutput string string string
  | ReferenceOutput string string string
  | SchedulerHookOutput HookOutput
  | RoleLifecycleOutput string string string string string string
  | RunFinishOutput string string
  | RunResumeOutput string string

primrec output_type :: "Output \<Rightarrow> string" where
  "output_type (MatterCreateOutput _ _ _) = ''MatterCreateOutput''"
| "output_type (StepCreateOutput _) = ''StepCreateOutput''"
| "output_type (StepLifecycleOutput _ _ _) = ''StepLifecycleOutput''"
| "output_type (MatterFinishOutput _ _ _) = ''MatterFinishOutput''"
| "output_type (BatchCreateOutput _ _) = ''BatchCreateOutput''"
| "output_type (BatchMembershipOutput _ _) = ''BatchMembershipOutput''"
| "output_type (BatchDismissOutput _) = ''BatchDismissOutput''"
| "output_type (BatchSweepAnonymousOutput _) = ''BatchSweepAnonymousOutput''"
| "output_type (ContentSegmentOutput _ _ _ _ _) = ''ContentSegmentOutput''"
| "output_type (GateExemptionRepairOutput _ _ _) = ''GateExemptionRepairOutput''"
| "output_type (GateDeclareOutput _ _) = ''GateDeclareOutput''"
| "output_type (GateCloseOutput _ _ _) = ''GateCloseOutput''"
| "output_type (GateDismissOutput _ _ _) = ''GateDismissOutput''"
| "output_type (NodeLifecycleOutput _ _ _) = ''NodeLifecycleOutput''"
| "output_type (MatterLifecycleOutput _ _) = ''MatterLifecycleOutput''"
| "output_type (MatterCreateV2Output _ _ _ _ _) = ''MatterCreateV2Output''"
| "output_type (StageCreateOutput _ _ _ _ _ _) = ''StageCreateOutput''"
| "output_type (StepReorderOutput _ _) = ''StepReorderOutput''"
| "output_type (StepReplaceOutput _ _) = ''StepReplaceOutput''"
| "output_type (StepRemoveOutput _) = ''StepRemoveOutput''"
| "output_type (MatterLocatorRepairOutput _ _ _ _ _) = ''MatterLocatorRepairOutput''"
| "output_type (DependencyOutput _ _ _) = ''DependencyOutput''"
| "output_type (ReferenceOutput _ _ _) = ''ReferenceOutput''"
| "output_type (SchedulerHookOutput _) = ''SchedulerHookOutput''"
| "output_type (RoleLifecycleOutput _ _ _ _ _ _) = ''RoleLifecycleOutput''"
| "output_type (RunFinishOutput _ _) = ''RunFinishOutput''"
| "output_type (RunResumeOutput _ _) = ''RunResumeOutput''"

record Problem =
  pr_Code :: string
  pr_Message :: string

record OpResult =
  rs_Code :: string
  rs_Output :: "Output option"
  rs_Problem :: "Problem option"

definition ResultSucceeded :: string where "ResultSucceeded = ''result.succeeded''"
definition ResultRejected :: string where "ResultRejected = ''result.rejected''"
definition ResultRefused :: string where "ResultRefused = ''result.refused''"
definition ResultFailed :: string where "ResultFailed = ''result.failed''"

definition ProblemInvalidRequest :: string where "ProblemInvalidRequest = ''operation.invalid-request''"
definition ProblemUnknownOperation :: string where "ProblemUnknownOperation = ''operation.unknown''"
definition ProblemUnsupportedVersion :: string where "ProblemUnsupportedVersion = ''operation.unsupported-version''"
definition ProblemInvalidResult :: string where "ProblemInvalidResult = ''internal.invalid-result''"

definition ProblemBatchSweepTargetMissing :: string where "ProblemBatchSweepTargetMissing = ''refusal.batch-sweep-target-missing''"
definition ProblemBatchSweepClaimClose :: string where "ProblemBatchSweepClaimClose = ''refusal.batch-sweep-claim-close''"
definition ProblemBatchSweepNotEligible :: string where "ProblemBatchSweepNotEligible = ''refusal.batch-sweep-not-eligible''"
definition ProblemBatchSweepUnsupported :: string where "ProblemBatchSweepUnsupported = ''refusal.batch-sweep-unsupported-state''"
definition ProblemBatchTargetMissing :: string where "ProblemBatchTargetMissing = ''refusal.batch-target-missing''"
definition ProblemBatchCrossDomain :: string where "ProblemBatchCrossDomain = ''refusal.batch-cross-domain''"
definition ProblemBatchDismissed :: string where "ProblemBatchDismissed = ''refusal.batch-dismissed''"
definition ProblemBatchMembershipMissing :: string where "ProblemBatchMembershipMissing = ''refusal.batch-membership-missing''"

lemmas result_codes = ResultSucceeded_def ResultRejected_def ResultRefused_def ResultFailed_def
  ProblemInvalidRequest_def ProblemUnknownOperation_def ProblemUnsupportedVersion_def ProblemInvalidResult_def

section \<open>The check of a result\<close>

definition validLifecycleState :: "string \<Rightarrow> bool" where
  "validLifecycleState state = (state \<in> set [''in-progress'', ''done'', ''paused'', ''canceled''])"

definition validBatchSweepRefusal :: "string \<Rightarrow> bool" where
  "validBatchSweepRefusal code = (code \<in> set [ProblemBatchSweepTargetMissing, ProblemBatchSweepClaimClose,
     ProblemBatchSweepNotEligible, ProblemBatchSweepUnsupported])"

definition isNamedBatchMembershipOperation :: "ID \<Rightarrow> bool" where
  "isNamedBatchMembershipOperation ident =
     (ident = operation_of BatchJoinV1 \<or> ident = operation_of BatchLeaveV1 \<or> ident = operation_of BatchDismissV1)"

definition validNamedBatchRefusal :: "string \<Rightarrow> bool" where
  "validNamedBatchRefusal code = (code \<in> set [ProblemBatchTargetMissing, ProblemBatchCrossDomain, ProblemBatchDismissed,
     ProblemBatchMembershipMissing])"

definition problemPrefix :: "string \<Rightarrow> string" where
  "problemPrefix code =
     (case cut ''.'' code of
        None \<Rightarrow> []
      | Some (before, after) \<Rightarrow> if before = [] \<or> after = [] \<or> \<not> tokenPattern code then [] else before)"

definition hook_steps :: "HookOutput \<Rightarrow> string list" where
  "hook_steps out = (case ho_Steps out of Some ss \<Rightarrow> ss | None \<Rightarrow> [])"

definition hook_refs :: "HookOutput \<Rightarrow> string list" where
  "hook_refs out = (case ho_EvidenceRefs out of Some rs \<Rightarrow> rs | None \<Rightarrow> [])"

definition validateSchedulerHookOutput :: "HookOutput \<Rightarrow> unit result" where
  "validateSchedulerHookOutput out =
     (if \<not> digestPattern (ho_InputDigest out) \<or> \<not> digestPattern (ho_ResultDigest out)
      then Inl (ERefused ''scheduler hook output digests are invalid'')
      else if \<not> list_all digestPattern (hook_refs out) then Inl (ERefused ''scheduler hook evidence reference is invalid'')
      else if ho_Kind out = ''work'' then
        reject (ho_Version out \<noteq> 1 \<or> ho_Outcome out \<notin> set [''completed'', ''failed'', ''verified'', ''not-verified'']
          \<or> ho_Revision out = [] \<or> ho_Steps out \<noteq> None \<or> ho_Handling out \<noteq> []
          \<or> (ho_Outcome out = ''completed'' \<or> ho_Outcome out = ''verified'') \<and> ho_ProblemCode out \<noteq> []
          \<or> (ho_Outcome out = ''failed'' \<or> ho_Outcome out = ''not-verified'') \<and> ho_ProblemCode out = [])
          ''scheduler hook Work result is invalid''
      else if ho_Kind out = ''plan'' then
        (if ho_Version out \<noteq> 1 \<or> (ho_Outcome out \<noteq> ''planned'' \<and> ho_Outcome out \<noteq> ''failed'') \<or> ho_Revision out \<noteq> []
            \<or> ho_EvidenceRefs out \<noteq> None \<or> ho_Handling out \<noteq> []
            \<or> (ho_Outcome out = ''planned'' \<and> ho_ProblemCode out \<noteq> [])
            \<or> (ho_Outcome out = ''failed'' \<and> (ho_ProblemCode out = [] \<or> hook_steps out \<noteq> []))
            \<or> length (hook_steps out) > 128
         then Inl (ERefused ''scheduler hook Plan result is invalid'')
         else reject (\<not> list_all (\<lambda>t. trim_space t \<noteq> [] \<and> length t \<le> 240) (hook_steps out))
           ''scheduler hook Plan result contains an invalid Step title'')
      else if ho_Kind out = ''ask'' then
        reject (ho_Version out \<noteq> 1 \<or> (ho_Handling out \<noteq> ''skip'' \<and> ho_Handling out \<noteq> ''halt'') \<or> ho_Outcome out \<noteq> []
          \<or> ho_Revision out \<noteq> [] \<or> ho_EvidenceRefs out \<noteq> None \<or> ho_ProblemCode out \<noteq> [] \<or> ho_Steps out \<noteq> None)
          ''scheduler hook Ask result is invalid''
      else Inl (ERefused ''scheduler hook result kind is unsupported''))"

definition created_step :: "StepOutput \<Rightarrow> bool" where
  "created_step out = (ulidPattern (so_ID out) \<and> ulidPattern (so_ParentID out) \<and> ulidPattern (so_MatterID out)
     \<and> locatorPattern (so_Locator out) \<and> so_Title out \<noteq> [] \<and> 0 < sint (so_SortKey out) \<and> so_State out = ''planned'')"

definition provisional_step :: "StepOutput \<Rightarrow> bool" where
  "provisional_step out = (so_ID out = [] \<and> so_MatterID out = [] \<and> so_Locator out = [] \<and> so_SortKey out = 0 \<and> so_State out = [])"

definition valid_dependency :: "ID \<Rightarrow> string \<Rightarrow> string \<Rightarrow> string \<Rightarrow> unit result" where
  "valid_dependency op edge blocked blocker =
     (if \<not> ulidPattern blocked \<or> \<not> ulidPattern blocker \<or> blocked = blocker then Inl (ERefused ''dependency output is invalid'')
      else if op = operation_of DependencyAddV1 \<or> op = operation_of DependencyAddV2
      then reject (\<not> ulidPattern edge) ''dependency add output is missing its edge identity''
      else if op = operation_of DependencyRemoveV1 \<or> op = operation_of DependencyRemoveV2
      then reject (edge \<noteq> []) ''dependency remove output cannot carry an edge identity''
      else Inl (ERefused ''dependency output is invalid for the operation''))"

definition rebinds :: "ID \<Rightarrow> bool" where
  "rebinds op = (op = operation_of ReferenceRebindV1 \<or> op = operation_of ReferenceRebindV2)"

primrec validate_output :: "(string \<Rightarrow> bool) \<Rightarrow> ID \<Rightarrow> Output \<Rightarrow> unit result" where
  "validate_output nfc op (MatterCreateOutput ident locator title) = Inr ()"
| "validate_output nfc op (StepLifecycleOutput step matter state) =
     reject (\<not> ulidPattern step \<or> \<not> ulidPattern matter \<or> \<not> validLifecycleState state) ''step lifecycle output has invalid identity or state''"
| "validate_output nfc op (NodeLifecycleOutput node matter state) =
     reject (\<not> ulidPattern node \<or> \<not> ulidPattern matter \<or> \<not> validLifecycleState state) ''node lifecycle output has invalid identity or state''"
| "validate_output nfc op (MatterLifecycleOutput matter state) =
     reject (\<not> ulidPattern matter \<or> \<not> validLifecycleState state) ''matter lifecycle output has invalid identity or state''"
| "validate_output nfc op (MatterFinishOutput matter state sealed) =
     reject (\<not> ulidPattern matter \<or> state \<noteq> ''done'') ''matter finish output has invalid identity or state''"
| "validate_output nfc op (BatchSweepAnonymousOutput outcome) =
     reject (outcome \<noteq> ''swept'' \<and> outcome \<noteq> ''already-swept'') ''anonymous Batch sweep output has an unknown outcome''"
| "validate_output nfc op (BatchCreateOutput ident name) =
     reject (\<not> ulidPattern ident \<or> trim_space name = [] \<or> name \<noteq> trim_space name) ''named Batch output is invalid''"
| "validate_output nfc op (BatchMembershipOutput batch matter) =
     reject (\<not> ulidPattern batch \<or> \<not> ulidPattern matter) ''named Batch membership output is invalid''"
| "validate_output nfc op (BatchDismissOutput batch) = reject (\<not> ulidPattern batch) ''named Batch dismissal output is invalid''"
| "validate_output nfc op (GateDeclareOutput gate scale) =
     reject (trim_space gate = [] \<or> \<not> validGateScale scale) ''gate declaration output is invalid''"
| "validate_output nfc op (GateCloseOutput gate node scale) =
     reject (trim_space gate = [] \<or> \<not> ulidPattern node \<or> \<not> validGateScale scale) ''gate close output is invalid''"
| "validate_output nfc op (GateDismissOutput gate node scale) =
     reject (trim_space gate = [] \<or> \<not> ulidPattern node \<or> \<not> validGateScale scale) ''gate dismissal output is invalid''"
| "validate_output nfc op (GateExemptionRepairOutput gate node already) =
     reject (\<not> validRepairText nfc gate 1 256 False \<or> \<not> ulidPattern node) ''gate exemption repair output is invalid''"
| "validate_output nfc op (DependencyOutput edge blocked blocker) = valid_dependency op edge blocked blocker"
| "validate_output nfc op (ReferenceOutput matter ref previous) =
     reject (\<not> ulidPattern matter \<or> trim_space ref = [] \<or> (rebinds op \<and> trim_space previous = []) \<or> (\<not> rebinds op \<and> previous \<noteq> []))
       ''tracker reference output is invalid''"
| "validate_output nfc op (ContentSegmentOutput ident subject kind digest len) =
     reject (\<not> ulidPattern ident \<or> \<not> ulidPattern subject \<or> kind \<notin> set [''brief'', ''workplan'', ''body'', ''findings'']
       \<or> \<not> digestPattern digest \<or> sint len < 0
       \<or> (op = operation_of ContentWriteOnceV1 \<and> kind = ''findings'') \<or> (op = operation_of FindingAppendV1 \<and> kind \<noteq> ''findings''))
       ''content output has invalid identity, kind, or staged-blob metadata''"
| "validate_output nfc op (SchedulerHookOutput out) = validateSchedulerHookOutput out"
| "validate_output nfc op (RoleLifecycleOutput run matter dispatch roleID role state) =
     reject (\<not> ulidPattern run \<or> \<not> ulidPattern matter \<or> \<not> ulidPattern dispatch \<or> \<not> ulidPattern roleID \<or> role = []
       \<or> state \<noteq> (if op = operation_of RoleCloseV1 then ''closed'' else ''open'')) ''role lifecycle output has invalid identity or state''"
| "validate_output nfc op (RunFinishOutput run state) =
     reject (\<not> ulidPattern run \<or> state \<noteq> ''finished'') ''run finish output has invalid identity or state''"
| "validate_output nfc op (RunResumeOutput run state) =
     reject (\<not> ulidPattern run \<or> state \<noteq> ''resumed'') ''run resume output has invalid identity or state''"
| "validate_output nfc op (MatterCreateV2Output ident title requested assigned repair) =
     reject (\<not> ulidPattern ident \<or> title = [] \<or> \<not> locatorPattern requested \<or> \<not> locatorPattern assigned
       \<or> repair \<noteq> (requested \<noteq> assigned)) ''matter v2 output has invalid identity or locator''"
| "validate_output nfc op (StageCreateOutput ident matter locator title sortKey state) =
     reject (\<not> ulidPattern ident \<or> \<not> ulidPattern matter \<or> \<not> locatorPattern locator \<or> title = [] \<or> sint sortKey \<le> 0 \<or> state \<noteq> ''planned'')
       ''stage output has invalid identity, locator, or order''"
| "validate_output nfc op (StepCreateOutput out) =
     (if op = operation_of StepCreateV1 \<and> provisional_step out
      then reject (\<not> ulidPattern (so_ParentID out) \<or> trim_space (so_Title out) = []) ''provisional result has invalid parent or title''
      else reject (\<not> created_step out) ''step output has invalid identity, locator, or order'')"
| "validate_output nfc op (StepReorderOutput parent order) =
     (if \<not> ulidPattern parent \<or> order = [] then Inl (ERefused ''step reorder output has invalid parent or order'')
      else reject (\<not> list_all ulidPattern order) ''step reorder output has invalid step identity'')"
| "validate_output nfc op (StepReplaceOutput removed out) =
     reject (\<not> ulidPattern removed \<or> so_ID out = removed \<or> \<not> created_step out) ''step replacement output has invalid identity''"
| "validate_output nfc op (StepRemoveOutput step) = reject (\<not> ulidPattern step) ''step removal output has invalid identity''"
| "validate_output nfc op (MatterLocatorRepairOutput ident action requested previous assigned) =
     reject (\<not> ulidPattern ident \<or> (action \<noteq> ''rename'' \<and> action \<noteq> ''accept'') \<or> \<not> locatorPattern requested
       \<or> \<not> locatorPattern previous \<or> \<not> locatorPattern assigned) ''matter locator repair output is invalid''"

definition validate_problem :: "Definition \<Rightarrow> string \<Rightarrow> string \<Rightarrow> unit result" where
  "validate_problem d result code =
     (let prefix = problemPrefix code in
      if result = ResultRejected then
        reject (prefix \<noteq> ''operation'' \<and> prefix \<noteq> ''validation'' \<and> prefix \<noteq> ''not-found'') ''rejected result cannot carry the problem''
      else if result = ResultRefused then
        (if prefix \<noteq> ''refusal'' then Inl (ERefused ''refused result requires a refusal problem'')
         else if operation_of d = operation_of BatchSweepAnonymousV1 \<and> \<not> validBatchSweepRefusal code
         then Inl (ERefused ''batch.sweep-anonymous has unknown refusal code'')
         else reject (isNamedBatchMembershipOperation (operation_of d) \<and> \<not> validNamedBatchRefusal code) ''unknown refusal code'')
      else reject (prefix \<noteq> ''internal'') ''failed result requires an internal problem'')"

definition ValidateResult :: "(string \<Rightarrow> bool) \<Rightarrow> Definition \<Rightarrow> OpResult \<Rightarrow> unit result" where
  "ValidateResult nfc d r =
     (if rs_Code r = ResultSucceeded then
        (if rs_Problem r \<noteq> None then Inl (ERefused ''a succeeded result cannot carry a problem'')
         else case rs_Output r of
                None \<Rightarrow> Inl (ERefused ''output type'')
              | Some out \<Rightarrow> if output_type out \<noteq> df_outputType d then Inl (ERefused ''output type'')
                            else validate_output nfc (operation_of d) out)
      else if rs_Code r \<notin> set [ResultRejected, ResultRefused, ResultFailed] then Inl (ERefused ''result code is unknown'')
      else if rs_Output r \<noteq> None then Inl (ERefused ''a non-success result cannot carry output'')
      else case rs_Problem r of
             None \<Rightarrow> Inl (ERefused ''requires a problem'')
           | Some p \<Rightarrow> if pr_Message p = [] then Inl (ERefused ''problem has no message'')
                       else validate_problem d (rs_Code r) (pr_Code p))"

section \<open>The registry\<close>

type_synonym ('c, 's) handler = "'c \<Rightarrow> OpRequest \<Rightarrow> 's \<Rightarrow> OpResult \<times> 's"

record ('c, 's) Registration =
  rg_Definition :: Definition
  rg_Handler :: "('c, 's) handler"

type_synonym ('c, 's) Registry = "(ID \<times> ('c, 's) Registration) list"

definition NewRegistry :: "('c, 's) Registry" where
  "NewRegistry = []"

definition validateDefinition :: "Definition \<Rightarrow> unit result" where
  "validateDefinition d =
     rbind (ValidateMetadata (df_metadata d)) (\<lambda>_.
     rbind (rbind (type_of input_types (df_inputType d)) (validateTransportType True)) (\<lambda>_.
     rbind (type_of output_types (df_outputType d)) (validateTransportType False)))"

text \<open>A nil registry and a nil handler are \<open>None\<close>.\<close>

definition Register ::
  "('c, 's) Registry option \<Rightarrow> Definition \<Rightarrow> ('c, 's) handler option \<Rightarrow> ('c, 's) Registry result" where
  "Register r d handler =
     (case r of None \<Rightarrow> Inl (ERefused ''cannot register on a nil registry'')
      | Some regs \<Rightarrow>
          rbind (validateDefinition d) (\<lambda>_.
          case handler of None \<Rightarrow> Inl (ERefused ''cannot register with a nil handler'')
          | Some h \<Rightarrow>
              if map_of regs (operation_of d) \<noteq> None then Inl (ERefused ''duplicate registration'')
              else Inr (regs @ [(operation_of d, \<lparr>rg_Definition = d, rg_Handler = h\<rparr>)])))"

record ResolutionError =
  re_Operation :: ID
  re_Code :: string
  re_Message :: string

definition unknownOperation :: "ID \<Rightarrow> ResolutionError" where
  "unknownOperation ident = \<lparr>re_Operation = ident, re_Code = ProblemUnknownOperation, re_Message = ''operation is not registered''\<rparr>"

definition error_text :: "error \<Rightarrow> string" where
  "error_text e = (case e of ERefused m \<Rightarrow> m | _ \<Rightarrow> ''error'')"

definition Resolve :: "('c, 's) Registry option \<Rightarrow> ID \<Rightarrow> ResolutionError + ('c, 's) Registration" where
  "Resolve r ident =
     (case ID_Validate ident of
        Inl e \<Rightarrow> Inl \<lparr>re_Operation = ident, re_Code = ProblemInvalidRequest, re_Message = error_text e\<rparr>
      | Inr _ \<Rightarrow>
          (case r of None \<Rightarrow> Inl (unknownOperation ident)
           | Some regs \<Rightarrow>
               (case map_of regs ident of
                  Some g \<Rightarrow> Inr g
                | None \<Rightarrow>
                    if list_ex (\<lambda>(k, g). id_Name k = id_Name ident) regs
                    then Inl \<lparr>re_Operation = ident, re_Code = ProblemUnsupportedVersion, re_Message = ''operation is not registered''\<rparr>
                    else Inl (unknownOperation ident))))"

definition definition_order :: "Definition \<Rightarrow> string \<times> 16 word" where
  "definition_order d = (id_Name (operation_of d), id_Version (operation_of d))"

definition Definitions :: "('c, 's) Registry option \<Rightarrow> Definition list" where
  "Definitions r = (case r of None \<Rightarrow> [] | Some regs \<Rightarrow> sort_key definition_order (map (rg_Definition \<circ> snd) regs))"

definition rejectedResult :: "string \<Rightarrow> string \<Rightarrow> OpResult" where
  "rejectedResult code message = \<lparr>rs_Code = ResultRejected, rs_Output = None, rs_Problem = Some \<lparr>pr_Code = code, pr_Message = message\<rparr>\<rparr>"

definition failedResult :: "string \<Rightarrow> string \<Rightarrow> OpResult" where
  "failedResult code message = \<lparr>rs_Code = ResultFailed, rs_Output = None, rs_Problem = Some \<lparr>pr_Code = code, pr_Message = message\<rparr>\<rparr>"

definition Dispatch ::
  "(string \<Rightarrow> bool) \<Rightarrow> (string \<Rightarrow> url option) \<Rightarrow> ('c, 's) Registry option \<Rightarrow> 'c \<Rightarrow> OpRequest \<Rightarrow> 's \<Rightarrow> OpResult \<times> 's" where
  "Dispatch nfc urlParse r ctx request s =
     (case Resolve r (or_Operation request) of
        Inl e \<Rightarrow> (rejectedResult (re_Code e) (re_Message e), s)
      | Inr g \<Rightarrow>
          (case ValidateRequest nfc urlParse (rg_Definition g) request of
             Inl e \<Rightarrow> (rejectedResult ProblemInvalidRequest (error_text e), s)
           | Inr _ \<Rightarrow>
               (let (result, s') = rg_Handler g ctx request s in
                case ValidateResult nfc (rg_Definition g) result of
                  Inl e \<Rightarrow> (failedResult ProblemInvalidResult (error_text e), s')
                | Inr _ \<Rightarrow> (result, s'))))"

end
