(* ===== verification/DispatchLaws.thy ===== *)
theory DispatchLaws
  imports Dispatch
begin

text \<open>
  What dispatching promises: a registry only ever holds valid definitions under their own
  identities, and whatever a handler returns, the caller is given a result that is legal for the
  operation it asked for.
\<close>

section \<open>Refusals have a message\<close>

definition spoken :: "'a result \<Rightarrow> bool" where
  "spoken x \<longleftrightarrow> (\<forall>e. x = Inl e \<longrightarrow> error_text e \<noteq> [])"

lemma spoken_simps [simp]:
  "spoken (Inr a)"
  "spoken (Inl (ERefused m)) \<longleftrightarrow> m \<noteq> []"
  "m \<noteq> [] \<Longrightarrow> spoken (reject b m)"
  "spoken (require b (ERefused m)) \<longleftrightarrow> b \<or> m \<noteq> []"
  by (auto simp: spoken_def error_text_def reject_def require_def)

lemma spoken_rbind [simp]: "spoken x \<Longrightarrow> (\<And>a. x = Inr a \<Longrightarrow> spoken (f a)) \<Longrightarrow> spoken (rbind x f)"
  by (cases x) (simp_all add: spoken_def)

lemma spoken_if [simp]: "(b \<Longrightarrow> spoken x) \<Longrightarrow> (\<not> b \<Longrightarrow> spoken y) \<Longrightarrow> spoken (if b then x else y)"
  by simp

lemma spoken_validateULID [simp]: "spoken (validateULID s)"
  by (simp add: validateULID_def)

lemma spoken_loops [simp]: "spoken (target_claims_loop p cs)" "spoken (ordered_ulids xs)" "spoken (blobs_loop ds seen bs)"
proof -
  show "spoken (target_claims_loop p cs)" by (induction cs arbitrary: p) simp_all
  show "spoken (ordered_ulids xs)" by (induction xs) simp_all
  show "spoken (blobs_loop ds seen bs)" by (induction bs arbitrary: seen) simp_all
qed

lemma spoken_validate_input [simp]: "spoken (validate_input nfc urlParse op req i)"
  by (cases i) (simp_all add: validateSchedulerHookInput_def validate_work_hook_def validate_plan_hook_def validate_ask_hook_def
    validateRoleLifecycleRequest_def validateRunFinishRequest_def validateRunResumeRequest_def validate_claim_close_def Let_def
    validateDependencyV2Input_def validateReferenceV2Input_def validateTargetClaims_def validateGateExemptionRepairInput_def
    del: split_paired_All split: option.split)

lemma spoken_ValidateRequest: "spoken (ValidateRequest nfc urlParse d req)"
  by (simp add: ValidateRequest_def validate_claim_def validate_birth_claim_def validateBlobs_def split: option.split Input.split)

lemma spoken_validate_output: "spoken (validate_output nfc op out)"
  by (cases out) (simp_all add: validateSchedulerHookOutput_def valid_dependency_def)

lemma spoken_ValidateResult: "spoken (ValidateResult nfc d r)"
  by (simp add: ValidateResult_def validate_problem_def Let_def spoken_validate_output split: option.split)

lemma spoken_ID_Validate: "spoken (ID_Validate ident)"
  by (simp add: ID_Validate_def)

lemmas never_silent = spoken_ValidateRequest[unfolded spoken_def] spoken_ValidateResult[unfolded spoken_def] spoken_ID_Validate[unfolded spoken_def]

section \<open>The registry\<close>

inductive built :: "('c, 's) Registry \<Rightarrow> bool" where
  new: "built NewRegistry"
| register: "built regs \<Longrightarrow> Register (Some regs) d h = Inr regs' \<Longrightarrow> built regs'"

lemma Register_Inr:
  "Register (Some regs) d h = Inr regs' \<longleftrightarrow>
     (\<exists>f. h = Some f \<and> validateDefinition d = Inr () \<and> map_of regs (operation_of d) = None
        \<and> regs' = regs @ [(operation_of d, \<lparr>rg_Definition = d, rg_Handler = f\<rparr>)])"
  by (auto simp: Register_def res split: option.splits if_splits)

lemma built_keys: "built regs \<Longrightarrow> distinct (map fst regs)
    \<and> (\<forall>(k, g) \<in> set regs. k = operation_of (rg_Definition g) \<and> validateDefinition (rg_Definition g) = Inr ())"
proof (induction regs rule: built.induct)
  case (register regs d h regs')
  then show ?case by (auto simp: Register_Inr map_of_eq_None_iff)
qed (simp add: NewRegistry_def)

lemma Resolve_Inr:
  "Resolve (Some regs) ident = Inr g \<longleftrightarrow> ID_Validate ident = Inr () \<and> map_of regs ident = Some g"
  by (auto simp: Resolve_def split: sum.splits option.splits if_splits)

lemma Resolve_Register:
  assumes "Register (Some regs) d (Some h) = Inr regs'"
  shows "Resolve (Some regs') (operation_of d) = Inr \<lparr>rg_Definition = d, rg_Handler = h\<rparr>"
    and "ident \<noteq> operation_of d \<Longrightarrow> Resolve (Some regs) ident = Inr g \<Longrightarrow> Resolve (Some regs') ident = Inr g"
proof -
  have "ID_Validate (operation_of d) = Inr ()"
    using assms by (auto simp: Register_Inr validateDefinition_def ValidateMetadata_def operation_of_def res)
  then show "Resolve (Some regs') (operation_of d) = Inr \<lparr>rg_Definition = d, rg_Handler = h\<rparr>"
    using assms by (auto simp: Register_Inr Resolve_Inr map_add_def)
  show "ident \<noteq> operation_of d \<Longrightarrow> Resolve (Some regs) ident = Inr g \<Longrightarrow> Resolve (Some regs') ident = Inr g"
    using assms by (auto simp: Register_Inr Resolve_Inr map_add_def)
qed

section \<open>Dispatch\<close>

definition boundary_codes :: "string list" where
  "boundary_codes = [ProblemInvalidRequest, ProblemUnknownOperation, ProblemUnsupportedVersion]"

lemma problemPrefix_codes:
  "code \<in> set boundary_codes \<Longrightarrow> problemPrefix code = ''operation''" "problemPrefix ProblemInvalidResult = ''internal''"
proof -
  have "list_all (\<lambda>code. problemPrefix code = ''operation'') boundary_codes" by code_simp
  then show "code \<in> set boundary_codes \<Longrightarrow> problemPrefix code = ''operation''" by (simp add: list_all_iff)
  show "problemPrefix ProblemInvalidResult = ''internal''" by code_simp
qed

lemma rejectedResult_valid:
  "code \<in> set boundary_codes \<Longrightarrow> m \<noteq> [] \<Longrightarrow> ValidateResult nfc d (rejectedResult code m) = Inr ()"
  by (simp add: ValidateResult_def rejectedResult_def validate_problem_def problemPrefix_codes result_codes reject_def Let_def)

lemma failedResult_valid: "m \<noteq> [] \<Longrightarrow> ValidateResult nfc d (failedResult ProblemInvalidResult m) = Inr ()"
  by (simp add: ValidateResult_def failedResult_def validate_problem_def problemPrefix_codes ResultFailed_def ResultSucceeded_def
    ResultRejected_def ResultRefused_def reject_def Let_def)

lemma Resolve_Inl: "Resolve r ident = Inl e \<Longrightarrow> re_Code e \<in> set boundary_codes \<and> re_Message e \<noteq> []"
  using never_silent(3)[of ident]
  by (auto simp: Resolve_def unknownOperation_def boundary_codes_def split: sum.splits option.splits if_splits)

text \<open>A request that is not served leaves the state alone; one that is served was checked first, and
  its answer is legal for the operation.\<close>

definition served :: "(string \<Rightarrow> bool) \<Rightarrow> (string \<Rightarrow> url option) \<Rightarrow> ('c, 's) Registry \<Rightarrow> OpRequest \<Rightarrow> ('c, 's) Registration option" where
  "served nfc urlParse regs req =
     (case Resolve (Some regs) (or_Operation req) of
        Inl _ \<Rightarrow> None
      | Inr g \<Rightarrow> (case ValidateRequest nfc urlParse (rg_Definition g) req of Inl _ \<Rightarrow> None | Inr _ \<Rightarrow> Some g))"

lemma served_Some:
  assumes "built regs" "served nfc urlParse regs req = Some g"
  shows "operation_of (rg_Definition g) = or_Operation req" "ValidateRequest nfc urlParse (rg_Definition g) req = Inr ()"
    "validateDefinition (rg_Definition g) = Inr ()"
  using assms(2) built_keys[OF assms(1)] by (auto simp: served_def Resolve_Inr split: sum.splits dest!: map_of_SomeD)

lemma Dispatch_unserved:
  assumes "served nfc urlParse regs req = None" "Dispatch nfc urlParse (Some regs) ctx req s = (r, s')"
  shows "s' = s \<and> rs_Code r = ResultRejected \<and> (\<forall>d. ValidateResult nfc d r = Inr ())"
proof (cases "Resolve (Some regs) (or_Operation req)")
  case (Inl e)
  then show ?thesis using assms(2) Resolve_Inl[OF Inl] by (auto simp: Dispatch_def rejectedResult_valid) (simp add: rejectedResult_def)
next
  case (Inr g)
  then obtain e where e: "ValidateRequest nfc urlParse (rg_Definition g) req = Inl e"
    using assms(1) by (auto simp: served_def split: sum.splits)
  then have r: "s' = s" "r = rejectedResult ProblemInvalidRequest (error_text e)" using assms(2) Inr by (simp_all add: Dispatch_def)
  have "error_text e \<noteq> []" using never_silent(1) e by blast
  then show ?thesis using r rejectedResult_valid[of ProblemInvalidRequest] by (simp add: boundary_codes_def rejectedResult_def)
qed

lemma Dispatch_served:
  assumes "served nfc urlParse regs req = Some g" "Dispatch nfc urlParse (Some regs) ctx req s = (r, s')"
    "rg_Handler g ctx req s = (result, t)"
  shows "s' = t \<and> ValidateResult nfc (rg_Definition g) r = Inr ()
    \<and> (ValidateResult nfc (rg_Definition g) result = Inr () \<longrightarrow> r = result)"
proof (cases "ValidateResult nfc (rg_Definition g) result")
  case (Inl e)
  then have "error_text e \<noteq> []" using never_silent(2) by blast
  then show ?thesis using assms Inl failedResult_valid by (auto simp: Dispatch_def served_def split: sum.splits)
next
  case (Inr u)
  then show ?thesis using assms by (auto simp: Dispatch_def served_def split: sum.splits)
qed

end
