(* ===== verification/CborSize.thy ===== *)
theory CborSize
  imports Cbor
begin

text \<open>
  When the encoder succeeds (\<open>encodable\<close>), and a bound on the bytes it writes (\<open>weight\<close>): at most nine
  for a head, and the text itself.
\<close>

fun encodable :: "(string \<Rightarrow> bool) \<Rightarrow> canonical \<Rightarrow> bool" where
  "encodable nfc (CText s) \<longleftrightarrow> valid_utf8 s \<and> nfc s"
| "encodable nfc (CArray vs) \<longleftrightarrow> list_all (encodable nfc) vs"
| "encodable nfc (CMap kvs) \<longleftrightarrow> list_all (\<lambda>(k, v). valid_utf8 k \<and> nfc k \<and> encodable nfc v) kvs"
| "encodable nfc COther \<longleftrightarrow> False"
| "encodable nfc _ \<longleftrightarrow> True"

fun weight :: "canonical \<Rightarrow> nat" where
  "weight (CText s) = 9 + length s"
| "weight (CArray vs) = 9 + sum_list (map weight vs)"
| "weight (CMap kvs) = 9 + sum_list (map (\<lambda>(k, v). 9 + length k + weight v) kvs)"
| "weight _ = 9"

lemma validateCanonicalText_Inr: "validateCanonicalText nfc s = Inr u \<longleftrightarrow> valid_utf8 s \<and> nfc s"
  by (simp add: validateCanonicalText_def)

lemma length_head: "length (appendCBORHead m v) \<le> 9"
  by (simp add: appendCBORHead_def Let_def)

lemma length_text: "length (text_bytes s) \<le> 9 + length s"
  using length_head[of 3 "of_nat (length s)"] by (simp add: text_bytes_def)

lemma list_all2_exists: "(\<exists>ys. list_all2 P xs ys) \<longleftrightarrow> (\<forall>x \<in> set xs. \<exists>y. P x y)"
proof (induction xs)
  case (Cons x xs)
  then show ?case by (auto simp: list_all2_Cons1)
qed simp

lemma list_all2_weight:
  "list_all2 (\<lambda>x e. length (g e) \<le> f x) xs es \<Longrightarrow> length (concat (map g es)) \<le> sum_list (map f xs)"
  by (induction xs es rule: list_all2_induct) auto

lemma appendCanonical_array:
  "appendCanonical nfc (CArray vs) = Inr b \<longleftrightarrow>
     (\<exists>bs. list_all2 (\<lambda>v b. appendCanonical nfc v = Inr b) vs bs \<and> b = appendCBORHead 4 (of_nat (length vs)) @ concat bs)"
proof -
  have "map (appendCanonical nfc) vs = map Inr bs \<longleftrightarrow> list_all2 (\<lambda>v b. appendCanonical nfc v = Inr b) vs bs" for bs
    by (simp add: list_eq_iff_nth_eq list_all2_conv_all_nth) (metis length_map nth_map)
  then show ?thesis by (auto simp: res)
qed

theorem appendCanonical_total: "(\<exists>b. appendCanonical nfc v = Inr b) \<longleftrightarrow> encodable nfc v"
proof (induction v rule: norm.induct)
  case (6 vs)
  then show ?case unfolding appendCanonical_array using list_all2_exists[of "\<lambda>v b. appendCanonical nfc v = Inr b" vs]
    by (auto simp: list_all_iff)
next
  case (7 kvs)
  let ?kvs = "sort_key (\<lambda>(k, v). key_order k) kvs"
  let ?P = "\<lambda>(k, v) (k', c). k' = k \<and> appendCanonical nfc v = Inr c"
  have "(\<exists>es. list_all2 ?P ?kvs es) \<longleftrightarrow> (\<forall>kv \<in> set ?kvs. \<exists>e. ?P kv e)"
    by (rule list_all2_exists)
  also have "\<dots> \<longleftrightarrow> (\<forall>(k, v) \<in> set kvs. encodable nfc v)" using 7 by (auto split: prod.splits)
  finally show ?case unfolding appendCanonical_map by (auto simp: list_all_iff validateCanonicalText_Inr)
qed (auto simp: res validateCanonicalText_Inr)

lemma sum_list_sort_key: "sum_list (map f (sort_key g xs)) = sum_list (map f xs)" for f :: "'a \<Rightarrow> nat"
proof -
  have "mset (map f (sort_key g xs)) = mset (map f xs)" by simp
  then show ?thesis by (metis sum_mset_sum_list)
qed

theorem appendCanonical_weight: "appendCanonical nfc v = Inr b \<Longrightarrow> length b \<le> weight v"
proof (induction v arbitrary: b rule: norm.induct)
  case (3 s)
  then show ?case using length_text[of s] by (auto simp: res)
next
  case (4 v)
  then show ?case using length_head by auto
next
  case (5 v)
  then show ?case using length_head by (auto split: if_splits)
next
  case (6 vs)
  obtain bs where bs: "list_all2 (\<lambda>v b. appendCanonical nfc v = Inr b) vs bs" "b = appendCBORHead 4 (of_nat (length vs)) @ concat bs"
    using 6(2) unfolding appendCanonical_array by blast
  have "list_all2 (\<lambda>v b. length b \<le> weight v) vs bs"
    using bs(1) 6(1) by (auto simp: list_all2_conv_all_nth)
  then have "length (concat (map (\<lambda>b. b) bs)) \<le> sum_list (map weight vs)" by (rule list_all2_weight)
  then show ?case using bs(2) length_head[of 4 "of_nat (length vs)"] by simp
next
  case (7 kvs)
  let ?kvs = "sort_key (\<lambda>(k, v). key_order k) kvs"
  let ?w = "\<lambda>(k, v). 9 + length k + weight v"
  obtain es where es: "list_all2 (\<lambda>(k, v) (k', c). k' = k \<and> appendCanonical nfc v = Inr c) ?kvs es"
      "b = appendCBORHead 5 (of_nat (length kvs)) @ concat (map (\<lambda>(k, c). text_bytes k @ c) es)"
    using 7(2) unfolding appendCanonical_map by blast
  have "list_all2 (\<lambda>kv e. length ((\<lambda>(k, c). text_bytes k @ c) e) \<le> ?w kv) ?kvs es"
  proof (rule list.rel_mono_strong[OF es(1)])
    fix kv e assume kv: "kv \<in> set ?kvs" and "(case kv of (k, v) \<Rightarrow> \<lambda>(k', c). k' = k \<and> appendCanonical nfc v = Inr c) e"
    then obtain k v c where e: "kv = (k, v)" "e = (k, c)" "appendCanonical nfc v = Inr c" by (cases kv; cases e) auto
    then have "length c \<le> weight v" using 7(1)[of "(k, v)" k v c] kv by simp
    then show "length ((\<lambda>(k, c). text_bytes k @ c) e) \<le> ?w kv" using e length_text[of k] by simp
  qed
  then have "length (concat (map (\<lambda>(k, c). text_bytes k @ c) es)) \<le> sum_list (map ?w ?kvs)"
    by (rule list_all2_weight)
  then show ?case using es(2) length_head[of 5 "of_nat (length kvs)"] by (simp add: sum_list_sort_key)
qed simp_all

end
