(* ===== verification/DemoCommand.thy ===== *)
theory DemoCommand
  imports CommandLaws DispatchLaws CborSize
begin

text \<open>
  A command that writes a brief, and a registry that serves it: the example of the theorems about
  command identities and dispatching.
\<close>

definition brief_ulid :: "char \<Rightarrow> string" where
  "brief_ulid c = ''01ARZ3NDEKTSV4RRFFQ69G5FA'' @ [c]"

definition brief_digest :: string where
  "brief_digest = ''sha256:'' @ replicate 64 CHR ''a''"

definition brief_request :: OpRequest where
  "brief_request = \<lparr>or_Operation = operation_of ContentWriteOnceV1, or_Actor = ''human'',
     or_Context = \<lparr>cx_Repo = brief_ulid CHR ''0'', cx_Clone = brief_ulid CHR ''1'', cx_Worktree = brief_ulid CHR ''2''\<rparr>,
     or_Claim = Some \<lparr>cc_ID = brief_ulid CHR ''3'', cc_Epoch = ''7''\<rparr>,
     or_Input = Some (ContentWriteInput (brief_ulid CHR ''4'') ''brief''),
     or_Blobs = [\<lparr>bl_Name = ''content'', bl_Digest = brief_digest, bl_Size = 12\<rparr>]\<rparr>"

definition brief_command :: Command where
  "brief_command = \<lparr>cm_ID = brief_ulid CHR ''5'', cm_AuthorityDomainID = brief_ulid CHR ''6'', cm_ExpectedAuthorityEpoch = 1,
     cm_EnvironmentID = brief_ulid CHR ''7'', cm_EnvironmentSequence = 4, cm_ActedAt = ''2024-02-29T23:59:59.5Z'',
     cm_CausationCommandID = [], cm_CorrelationCommandID = brief_ulid CHR ''5'', cm_Request = brief_request\<rparr>"


lemma brief_digest_canonical: "digestPattern brief_digest"
  by code_simp

lemma brief_served:
  "ValidateRequest nfc urlParse ContentWriteOnceV1 brief_request = Inr ()"
proof -
  have "validate_claim ContentWriteOnceV1 brief_request = Inr ()"
    "validateBlobs ContentWriteOnceV1 (or_Blobs brief_request) = Inr ()"
    "validActor (or_Actor brief_request)" "ulidPattern (brief_ulid CHR ''4'')"
    "\<not> list_ex (\<lambda>dim. context_value (or_Context brief_request) dim = []) (required_context ContentWriteOnceV1)"
    "operation_of ContentWriteOnceV1 \<noteq> operation_of GateExemptionRepairV1"
    "md_Claim (df_metadata ContentWriteOnceV1) \<noteq> ClaimImplicitBirth" "df_inputType ContentWriteOnceV1 = ''ContentWriteInput''"
    by code_simp+
  moreover have "or_Operation brief_request = operation_of ContentWriteOnceV1"
    "or_Input brief_request = Some (ContentWriteInput (brief_ulid CHR ''4'') ''brief'')" by (simp_all add: brief_request_def)
  ultimately show ?thesis by (simp add: ValidateRequest_def reject_def validate_birth_claim_def validateULID_def require_def)
qed

lemma brief_command_bytes:
  obtains b where "CanonicalBytes (\<lambda>_. True) (\<lambda>_. None) brief_command = Inr b" "length b < 2 ^ 64"
proof -
  let ?claim = "CMap [(''id'', CText (brief_ulid CHR ''3'')), (''epoch'', CUint 7)]"
  let ?blobs = "[blob_value \<lparr>bl_Name = ''content'', bl_Digest = brief_digest, bl_Size = 12\<rparr>]"
  let ?v = "CMap (command_fields brief_command ?claim (canonicalInput (ContentWriteInput (brief_ulid CHR ''4'') ''brief'')) ?blobs)"
  have "validate_envelope brief_command = Inr ()" "ulidPattern (brief_ulid CHR ''3'')" "char_of (55 :: nat) = CHR ''7''" by code_simp+
  moreover have "commandIdentityDefinition (or_Operation brief_request) = Some ContentWriteOnceV1"
    unfolding commandIdentityDefinition_iff by (simp add: definitions_def brief_request_def)
  moreover have "canonicalBlobs (or_Blobs brief_request) = Inr ?blobs" by code_simp
  moreover have "canonicalClaim (or_Claim brief_request) = Inr ?claim"
    using calculation(2,3) by (simp add: brief_request_def canonicalClaim_def parse_uint_def number_def digit_def validateULID_def
      require_def show_uint_def digits.simps)
  ultimately have v: "canonicalValue (\<lambda>_. True) (\<lambda>_. None) brief_command = Inr ?v"
    unfolding canonicalValue_Inr using brief_served[of "\<lambda>_. True" "\<lambda>_. None"] by (simp add: brief_command_def brief_request_def)
  have "encodable (\<lambda>_. True) ?v" by code_simp
  then obtain b where b: "marshalCanonical (\<lambda>_. True) ?v = Inr b" unfolding appendCanonical_total[symmetric] marshalCanonical_def by blast
  have "weight ?v < 2000" by code_simp
  then have "length b < 2 ^ 64" using appendCanonical_weight[OF b[unfolded marshalCanonical_def]] by simp
  moreover have "or_Operation brief_request \<noteq> operation_of GateExemptionRepairV1" by code_simp
  ultimately show ?thesis using that[of b] v b by (simp add: CanonicalBytes_def brief_command_def)
qed

section \<open>A registry\<close>

definition brief_handler :: "(unit, nat) handler" where
  "brief_handler ctx req n =
     (\<lparr>rs_Code = ResultSucceeded,
       rs_Output = Some (ContentSegmentOutput (brief_ulid CHR ''8'') (brief_ulid CHR ''4'') ''brief'' brief_digest 12), rs_Problem = None\<rparr>, Suc n)"

definition brief_registry :: "(unit, nat) Registry" where
  "brief_registry = [(operation_of ContentWriteOnceV1, \<lparr>rg_Definition = ContentWriteOnceV1, rg_Handler = brief_handler\<rparr>)]"

lemma brief_registry_built: "built brief_registry"
proof (rule register[OF new])
  have "validateDefinition ContentWriteOnceV1 = Inr ()" by code_simp
  then show "Register (Some NewRegistry) ContentWriteOnceV1 (Some brief_handler) = Inr brief_registry"
    by (simp add: Register_Inr NewRegistry_def brief_registry_def)
qed

lemma brief_registry_serves:
  "served nfc urlParse brief_registry brief_request = Some \<lparr>rg_Definition = ContentWriteOnceV1, rg_Handler = brief_handler\<rparr>"
proof -
  have "ID_Validate (operation_of ContentWriteOnceV1) = Inr ()" by code_simp
  then have "Resolve (Some brief_registry) (or_Operation brief_request) = Inr \<lparr>rg_Definition = ContentWriteOnceV1, rg_Handler = brief_handler\<rparr>"
    by (simp add: Resolve_Inr brief_registry_def brief_request_def)
  then show ?thesis by (simp add: served_def brief_served)
qed

end
