(* ===== verification/Tracker.thy ===== *)
theory Tracker
  imports VerbLaws
begin

text \<open>
  The provider-neutral tracker boundary (\<open>internal/tracker\<close>): the flush of the
  approved outbox entries through a provider seam (\<open>flush.go\<close>), the registry of
  the provider factories and the resolution of the configured seam
  (\<open>registry.go\<close>, \<open>resolve.go\<close>), and the post-seal comparison of the live
  provider states with the aggregates of the store (\<open>state.go\<close>,
  \<open>alignment.go\<close>).

  The provider is code outside the repository's core and a parameter: a seam is
  a function of a world of any type, which \<open>Deliver\<close> may change, and answers
  with a result or with the text of its error. The order in which Go ranges over
  a map is the parameter \<open>order\<close>, and the rendering of an error (\<open>err.Error()\<close>) is
  the parameter \<open>msg\<close>. Between two of its own statements a flush sees no write of
  another process.
\<close>

section \<open>Entries, results, reports\<close>

record OutboxEntry =
  oe_ID :: string
  oe_Repo :: string
  oe_Kind :: string
  oe_State :: string
  oe_Subject :: string
  oe_Ref :: string
  oe_Lease :: string
  oe_IdempotencyKey :: string
  oe_Payload :: json
  oe_Reason :: string
  oe_Attempts :: int

text \<open>The row as \<open>View.Outbox\<close> scans it: a state entry carries the lease of the
  push record of its reference.\<close>

definition scanOutbox :: "db \<Rightarrow> outbox_row \<Rightarrow> OutboxEntry" where
  "scanOutbox s r = \<lparr>oe_ID = o_id r, oe_Repo = o_repo r, oe_Kind = o_kind r, oe_State = o_state r,
     oe_Subject = o_subject r, oe_Ref = coalesce (o_ref r),
     oe_Lease = (if o_kind r = ''state''
        then coalesce (map_option p_lease (List.find (\<lambda>p. o_ref r = Some (p_ref p)) (tracker_push_records s))) else []),
     oe_IdempotencyKey = o_key r, oe_Payload = o_payload r, oe_Reason = o_reason r, oe_Attempts = o_attempts r\<rparr>"

definition OutboxEntries :: "db \<Rightarrow> string \<Rightarrow> OutboxEntry list" where
  "OutboxEntries s repo = map (scanOutbox s) (Outbox s repo)"

definition Delivered :: string where [tokens]: "Delivered = ''delivered''"
definition Converged :: string where [tokens]: "Converged = ''converged''"
definition RetryableFailure :: string where [tokens]: "RetryableFailure = ''retryable-failure''"
definition LeaseMismatch :: string where [tokens]: "LeaseMismatch = ''lease-mismatch''"
definition PermanentRefusal :: string where [tokens]: "PermanentRefusal = ''permanent-refusal''"

record Result =
  rs_Outcome :: string
  rs_Ref :: string
  rs_Lease :: string
  rs_Reason :: string

type_synonym 'w seam = "'w \<Rightarrow> OutboxEntry \<Rightarrow> 'w \<times> (string + Result)"

record EntryResult =
  er_ID :: string
  er_State :: string
  er_Reason :: string

type_synonym stateCandidate = "OutboxEntry \<times> string"

definition stateDisposition :: "json \<Rightarrow> string result" where
  "stateDisposition payload =
     rbind (jstr ''disposition'' payload []) (\<lambda>d.
     if d \<in> set [TrackerActive, TrackerCompleted, TrackerCanceled] then Inr d
     else Inl (ERefused ''invalid disposition''))"

definition regresses :: "string \<Rightarrow> string \<Rightarrow> bool" where
  "regresses previous candidate = (if previous = TrackerActive then False else candidate \<noteq> previous)"

section \<open>Recording one result\<close>

text \<open>The tail shared by the malformed successes of a provider.\<close>

definition malformed_success :: "Actor \<Rightarrow> string \<Rightarrow> OutboxEntry \<Rightarrow> string \<Rightarrow> store \<Rightarrow> store \<times> (string \<times> string) result" where
  "malformed_success actor repo entry reason st =
     (case WithholdOutbox actor repo (oe_ID entry) reason True CauseMalformedProviderSuccess st of
        (st', Inl e) \<Rightarrow> (st', Inl e)
      | (st', Inr _) \<Rightarrow> (st', Inr (''withheld'', reason)))"

definition answered :: "string \<times> string \<Rightarrow> store \<times> unit result \<Rightarrow> store \<times> (string \<times> string) result" where
  "answered x r = (fst r, rbind (snd r) (\<lambda>_. Inr x))"

definition recordSuccess :: "Actor \<Rightarrow> string \<Rightarrow> OutboxEntry \<Rightarrow> Result \<Rightarrow> store \<Rightarrow> store \<times> (string \<times> string) result" where
  "recordSuccess actor repo entry result st =
     (let entryState = (if rs_Outcome result = Converged then ''converged'' else ''flushed'') in
      if oe_Kind entry = ''create'' then
        (if rs_Ref result = []
         then malformed_success actor repo entry ''provider returned creation success without a reference'' st
         else answered (entryState, []) (ConfirmBacklogDelegation actor repo (oe_ID entry) (rs_Ref result) st))
      else if oe_Kind entry = ''state'' then
        (case stateDisposition (oe_Payload entry) of
           Inl _ \<Rightarrow> malformed_success actor repo entry ''provider returned malformed state success'' st
         | Inr disp \<Rightarrow>
             if rs_Lease result = [] \<or> (rs_Ref result \<noteq> [] \<and> rs_Ref result \<noteq> oe_Ref entry)
             then malformed_success actor repo entry ''provider returned malformed state success'' st
             else if rs_Outcome result = Converged
             then answered (entryState, [])
                    (ObserveTrackerState actor repo (oe_ID entry) (oe_Ref entry) disp (rs_Lease result) st)
             else answered (entryState, [])
                    (PushTrackerState actor repo (oe_ID entry) (oe_Ref entry) disp (rs_Lease result) st))
      else if oe_Kind entry = ''comment''
      then answered (entryState, []) (FlushOutboxComment actor repo (oe_ID entry) st)
      else malformed_success actor repo entry ''provider returned success for an unknown outbox kind'' st)"

definition recordResult :: "Actor \<Rightarrow> string \<Rightarrow> OutboxEntry \<Rightarrow> Result \<Rightarrow> store \<Rightarrow> store \<times> (string \<times> string) result" where
  "recordResult actor repo entry result st =
     (if rs_Outcome result \<in> {Delivered, Converged} then recordSuccess actor repo entry result st
      else if rs_Outcome result = RetryableFailure then
        (let reason = (if rs_Reason result = [] then ''provider reported a retryable failure'' else rs_Reason result)
         in answered (''queued'', reason) (FailOutbox actor repo (oe_ID entry) reason st))
      else if rs_Outcome result \<in> {LeaseMismatch, PermanentRefusal} then
        (let reason = (if rs_Reason result = [] then ''provider refused the delivery'' else rs_Reason result);
             cause = (if rs_Outcome result = PermanentRefusal then CausePermanentRefusal else CauseLeaseMismatch)
         in answered (''withheld'', reason) (WithholdOutbox actor repo (oe_ID entry) reason True cause st))
      else let reason = ''provider returned an unknown outcome''
         in answered (''withheld'', reason) (WithholdOutbox actor repo (oe_ID entry) reason True CauseUnknownOutcome st))"

section \<open>Flush\<close>

text \<open>The locals of \<open>Flush\<close>: \<open>selected\<close> as the identities put in the set, \<open>groups\<close>
  as the entries of the map in the order of their first key, the report.\<close>

record 'w flushing =
  fl_store :: store
  fl_world :: 'w
  fl_selected :: "string list"
  fl_groups :: "(string \<times> stateCandidate list) list"
  fl_report :: "EntryResult list"

primrec each :: "('a \<Rightarrow> 's \<Rightarrow> 's \<times> unit result) \<Rightarrow> 'a list \<Rightarrow> 's \<Rightarrow> 's \<times> unit result" where
  "each f [] s = (s, Inr ())"
| "each f (x # xs) s = (case f x s of (s', Inl e) \<Rightarrow> (s', Inl e) | (s', Inr _) \<Rightarrow> each f xs s')"

definition reported :: "string \<Rightarrow> store \<times> (string \<times> string) result \<Rightarrow> 'w flushing \<Rightarrow> 'w flushing \<times> unit result" where
  "reported ident r f =
     (case r of
        (st', Inl e) \<Rightarrow> (f\<lparr>fl_store := st'\<rparr>, Inl e)
      | (st', Inr (state, reason)) \<Rightarrow>
          (f\<lparr>fl_store := st', fl_report := fl_report f @ [\<lparr>er_ID = ident, er_State = state, er_Reason = reason\<rparr>]\<rparr>, Inr ()))"

definition withhold :: "Actor \<Rightarrow> string \<Rightarrow> string \<Rightarrow> string \<Rightarrow> string \<Rightarrow> 'w flushing \<Rightarrow> 'w flushing \<times> unit result" where
  "withhold actor repo ident reason cause f =
     reported ident (answered (''withheld'', reason) (WithholdOutbox actor repo ident reason False cause (fl_store f))) f"

primrec add_candidate :: "string \<Rightarrow> 'c \<Rightarrow> (string \<times> 'c list) list \<Rightarrow> (string \<times> 'c list) list" where
  "add_candidate ref c [] = [(ref, [c])]"
| "add_candidate ref c (g # gs) = (if fst g = ref then (ref, snd g @ [c]) # gs else g # add_candidate ref c gs)"

definition classify :: "(error \<Rightarrow> string) \<Rightarrow> Actor \<Rightarrow> string \<Rightarrow> OutboxEntry \<Rightarrow> 'w flushing \<Rightarrow> 'w flushing \<times> unit result" where
  "classify msg actor repo entry f =
     (if oe_State entry \<noteq> ''approved'' then (f, Inr ())
      else if oe_Kind entry \<noteq> ''state'' then (f\<lparr>fl_selected := fl_selected f @ [oe_ID entry]\<rparr>, Inr ())
      else case stateDisposition (oe_Payload entry) of
        Inl e \<Rightarrow> withhold actor repo (oe_ID entry) (''malformed state candidate'' @ '': '' @ msg e) CauseMalformedCandidate f
      | Inr disp \<Rightarrow>
          if oe_Ref entry = []
          then withhold actor repo (oe_ID entry) ''malformed state candidate'' CauseMalformedCandidate f
          else (case FindTrackerPushRecord (st_db (fl_store f)) (oe_Ref entry) of
            Some record \<Rightarrow>
              if regresses (p_disposition record) disp
              then withhold actor repo (oe_ID entry)
                (''local regression: '' @ disp @ '' cannot follow '' @ p_disposition record) CauseLocalRegression f
              else (f\<lparr>fl_groups := add_candidate (oe_Ref entry) (entry, disp) (fl_groups f)\<rparr>, Inr ())
          | None \<Rightarrow> (f\<lparr>fl_groups := add_candidate (oe_Ref entry) (entry, disp) (fl_groups f)\<rparr>, Inr ())))"

definition supersede :: "Actor \<Rightarrow> string \<Rightarrow> string \<times> stateCandidate list \<Rightarrow> 'w flushing \<Rightarrow> 'w flushing \<times> unit result" where
  "supersede actor repo g f =
     (let newest = oe_ID (fst (last (snd g))) in
      each (\<lambda>candidate. withhold actor repo (oe_ID (fst candidate))
          (''superseded by newer approved state entry '' @ newest) CauseSuperseded)
        (butlast (snd g)) (f\<lparr>fl_selected := fl_selected f @ [newest]\<rparr>))"

definition deliver :: "'w seam \<Rightarrow> Actor \<Rightarrow> string \<Rightarrow> OutboxEntry \<Rightarrow> 'w flushing \<Rightarrow> 'w flushing \<times> unit result" where
  "deliver seam actor repo entry f =
     (if oe_ID entry \<notin> set (fl_selected f) then (f, Inr ())
      else case seam (fl_world f) entry of
        (w', answer) \<Rightarrow>
          let result = (case answer of
                Inl callErr \<Rightarrow> \<lparr>rs_Outcome = RetryableFailure, rs_Ref = [], rs_Lease = [], rs_Reason = callErr\<rparr>
              | Inr result \<Rightarrow> result)
          in reported (oe_ID entry) (recordResult actor repo entry result (fl_store f)) (f\<lparr>fl_world := w'\<rparr>))"

definition flush_begin :: "store \<Rightarrow> 'w \<Rightarrow> 'w flushing" where
  "flush_begin st w = \<lparr>fl_store = st, fl_world = w, fl_selected = [], fl_groups = [], fl_report = []\<rparr>"

definition after :: "('s \<Rightarrow> 's \<times> unit result) \<Rightarrow> 's \<times> unit result \<Rightarrow> 's \<times> unit result" where
  "after k r = (case r of (s, Inl e) \<Rightarrow> (s, Inl e) | (s, Inr _) \<Rightarrow> k s)"

definition run_flush ::
  "(error \<Rightarrow> string) \<Rightarrow> ((string \<times> stateCandidate list) list \<Rightarrow> (string \<times> stateCandidate list) list) \<Rightarrow> Actor \<Rightarrow> string
     \<Rightarrow> 'w seam \<Rightarrow> store \<Rightarrow> 'w \<Rightarrow> 'w flushing \<times> unit result" where
  "run_flush msg order actor repo seam st w =
     (let entries = OutboxEntries (st_db st) repo in
      after (\<lambda>f2. each (deliver seam actor repo) entries f2)
        (after (\<lambda>f1. each (supersede actor repo) (order (fl_groups f1)) f1)
          (each (classify msg actor repo) entries (flush_begin st w))))"

definition Flush ::
  "(error \<Rightarrow> string) \<Rightarrow> ((string \<times> stateCandidate list) list \<Rightarrow> (string \<times> stateCandidate list) list) \<Rightarrow> Actor \<Rightarrow> string
     \<Rightarrow> 'w seam option \<Rightarrow> store \<Rightarrow> 'w \<Rightarrow> store \<times> 'w \<times> EntryResult list \<times> unit result" where
  "Flush msg order actor repo seam st w =
     (case seam of
        None \<Rightarrow> (st, w, [], Inl (ERefused ''tracker: no provider seam configured''))
      | Some deliverTo \<Rightarrow>
          (case run_flush msg order actor repo deliverTo st w of
             (f, r) \<Rightarrow> (fl_store f, fl_world f, fl_report f, r)))"

end
