(* ===== verification/TrackerLaws.thy ===== *)
theory TrackerLaws
  imports Tracker ReadSurface "HOL-Library.Multiset"
begin

text \<open>
  What a flush does. A \<open>recorder\<close> is a verb that settles one approved outbox entry
  and changes no other; the contract is a locale, its instances are the verbs a
  flush calls and \<open>recordResult\<close> on every answer of a provider. Inside it the
  accounting of the report against the rows of the outbox is kept, so the three
  loops of \<open>Flush\<close> keep it; the rest of the theory says which entries each loop
  takes and which the provider is asked to deliver.
\<close>

section \<open>What one recorded result does to the outbox\<close>

definition same_entry :: "outbox_row \<Rightarrow> outbox_row \<Rightarrow> bool" where
  "same_entry r r' \<longleftrightarrow> o_id r' = o_id r \<and> o_repo r' = o_repo r \<and> o_kind r' = o_kind r \<and> o_subject r' = o_subject r
     \<and> o_ref r' = o_ref r \<and> o_key r' = o_key r \<and> o_payload r' = o_payload r \<and> o_birth r' = o_birth r"

text \<open>One approved entry of the Repo gets a state and a reason, and no other row changes.\<close>

definition moved :: "string \<Rightarrow> string \<Rightarrow> string \<Rightarrow> string \<Rightarrow> db \<Rightarrow> db \<Rightarrow> bool" where
  "moved repo ident state reason s s' \<longleftrightarrow>
     (\<exists>r \<in> set (outbox_entries s). o_id r = ident \<and> o_repo r = repo \<and> o_state r = ''approved'')
   \<and> list_all2 (\<lambda>r r'. if o_id r = ident then same_entry r r' \<and> o_state r' = state \<and> o_reason r' = reason else r' = r)
       (outbox_entries s) (outbox_entries s')"

lemma update_moved:
  assumes "update_outbox p f s = Inr (1, s')" "distinct (map o_id (outbox_entries s))"
    and "\<And>r. r \<in> set (outbox_entries s) \<Longrightarrow> p r \<Longrightarrow> o_id r = ident \<and> o_repo r = repo \<and> o_state r = ''approved''"
    and "\<And>r. same_entry r (f r) \<and> o_state (f r) = state \<and> o_reason (f r) = reason"
  shows "moved repo ident state reason s s' \<and> tracker_push_records s' = tracker_push_records s"
proof -
  have u: "hits p (outbox_entries s) = 1" "outbox_entries s' = upd_rows p f (outbox_entries s)"
      "tracker_push_records s' = tracker_push_records s"
    using assms(1) by (auto simp: update_outbox_def res)
  obtain r0 where r0: "r0 \<in> set (outbox_entries s)" "p r0" using hits_oneD[OF u(1)] by blast
  have "p r \<longleftrightarrow> o_id r = ident" if "r \<in> set (outbox_entries s)" for r
    using that r0 assms(2,3) by (metis distinct_mapD)
  then have "list_all2 (\<lambda>r r'. if o_id r = ident then same_entry r r' \<and> o_state r' = state \<and> o_reason r' = reason else r' = r)
      (outbox_entries s) (upd_rows p f (outbox_entries s))"
    using assms(4) by (auto simp: upd_rows_def list_all2_map2 list_all2_same)
  then show ?thesis using u r0 assms(3) by (auto simp: moved_def)
qed

lemma Commit_single_repo:
  assumes "Commit req decide st = (st', Inr [e])" "dr_Env d = None" "requiredDimensions (dr_Type d) = Inr rule" "et_Repo rule"
    and "\<And>m ds. decide (tx_of st) (st_db st) (st_mint st) = (m, Inr ds) \<Longrightarrow> ds = [d]"
  shows "ev_Repo e = env_Repo (rq_Env req)"
proof -
  obtain m m' ds evs s where dec: "decide (tx_of st) (st_db st) (st_mint st) = (m, Inr ds)"
    and "commit_loop req ds [] m (st_log st, st_db st) = (m', Inr ([e], evs, s))"
    using assms(1) by (auto simp: Commit_def tx_of_def split: if_splits sum.splits prod.splits)
  then have "commit_loop req [d] [] m (st_log st, st_db st) = (m', Inr ([e], evs, s))" using assms(5) by simp
  then obtain ident ev where "stamped req d rule ident = Inr ev" "chain [] d ev = Inr e"
    using assms(3) by (auto simp: stamp_def record_event_def res split: sum.splits prod.splits if_splits)
  then show ?thesis
    using assms(2,4) by (auto simp: stamped_def stamp_dimensions_def chain_def res Let_def split: if_splits)
qed

lemma outbox_dimensions:
  "requiredDimensions TypeOutboxWithheld = Inr (durable TypeOutboxWithheld FamilyTracker)"
  "requiredDimensions TypeOutboxDeliveryFailed = Inr (durable TypeOutboxDeliveryFailed FamilyTracker)"
  "requiredDimensions TypeOutboxFlushed = Inr (durable TypeOutboxFlushed FamilyTracker)"
  "requiredDimensions TypeTrackerItemCreated = Inr (durable TypeTrackerItemCreated FamilyTracker)"
  "requiredDimensions TypeTrackerStatePushed = Inr (durable TypeTrackerStatePushed FamilyTracker)"
  "requiredDimensions TypeTrackerStateObserved = Inr (durable TypeTrackerStateObserved FamilyTracker)"
  "et_Repo (durable ty fam)"
  by code_simp+

text \<open>A command of one draft about an outbox entry: the event it appends.\<close>

lemma one_draft_event:
  assumes "store_ok st" "Commit (request actor (repo_env repo)) (decides (one_draft (draft ty ident payload))) st = (st', Inr events)"
    and "requiredDimensions ty = Inr (durable ty FamilyTracker)"
  obtains e t where "ev_Type e = ty" "ev_Subject e = ident" "ev_Payload e = payload" "ev_Repo e = repo"
    "applyEvent t e (st_db st) = Inr (st_db st')"
proof -
  let ?d = "draft ty ident payload"
  let ?dec = "decides (one_draft ?d)"
  have one: "\<And>m ds. ?dec (tx_of st) (st_db st) (st_mint st) = (m, Inr ds) \<Longrightarrow> ds = [?d]"
    by (simp add: decides_def one_draft_def from_db_def)
  have m: "minting ?dec" by (intro minting_decides plan_laws)
  obtain e where e: "events = [e]" "ev_Type e = ty" "ev_Subject e = ident" "ev_Payload e = payload"
      "applyEvent \<lparr>tx_log = st_log st @ [e], tx_defer = False\<rparr> e (st_db st) = Inr (st_db st')"
    using Commit_single[where d = ?d, OF assms(1) m assms(2)] one by (simp add: draft_def) blast
  have "ev_Repo e = repo"
    using Commit_single_repo[where d = ?d, OF assms(2)[unfolded e(1)] _ _ _ one] assms(3) outbox_dimensions(7)
    by (simp add: draft_def request_def repo_env_def)
  then show thesis using e that by blast
qed

text \<open>The event types of a flush, folded.\<close>

lemma fold_outbox_event:
  "ev_Type e = TypeOutboxWithheld \<Longrightarrow> applyEvent t e s = withholdOutbox e s"
  "ev_Type e = TypeOutboxDeliveryFailed \<Longrightarrow> applyEvent t e s = failOutbox e s"
  "ev_Type e = TypeOutboxFlushed \<Longrightarrow> applyEvent t e s = flushOutboxComment e s"
  "ev_Type e = TypeTrackerItemCreated \<Longrightarrow> applyEvent t e s = recordTrackerItemCreated t e s"
  "ev_Type e = TypeTrackerStatePushed \<Longrightarrow> applyEvent t e s = recordTrackerStatePush e s"
  "ev_Type e = TypeTrackerStateObserved \<Longrightarrow> applyEvent t e s = recordTrackerStateObserved e s"
  by (simp_all add: applyEvent_def transition_types_def tokens)

lemma reachable_outbox_ids: "reachable st \<Longrightarrow> distinct (map o_id (outbox_entries (st_db st)))"
  using schema.reachable_keep[of st] by (simp add: schema_ok_def keys_ok_def)

abbreviation "drafted actor repo ty ident payload \<equiv>
  Commit (request actor (repo_env repo)) (decides (one_draft (draft ty ident payload)))"

lemma committed_withheld:
  assumes "reachable st" "drafted actor repo TypeOutboxWithheld ident
      (marshal_OutboxWithheld \<lparr>ow_Reason = reason, ow_Attempted = attempted, ow_Cause = cause\<rparr>) st = (st', Inr events)"
  shows "moved repo ident ''withheld'' reason (st_db st) (st_db st') \<and> tracker_push_records (st_db st') = tracker_push_records (st_db st)"
proof -
  obtain e t where e: "ev_Type e = TypeOutboxWithheld" "ev_Subject e = ident" "ev_Repo e = repo"
      "ev_Payload e = marshal_OutboxWithheld \<lparr>ow_Reason = reason, ow_Attempted = attempted, ow_Cause = cause\<rparr>"
      "applyEvent t e (st_db st) = Inr (st_db st')"
    using one_draft_event[OF reachable_ok[OF assms(1)] assms(2) outbox_dimensions(1)] by metis
  then show ?thesis
    using update_moved[OF _ reachable_outbox_ids[OF assms(1)]]
    by (auto simp: fold_outbox_event withholdOutbox_def payload_rt res same_entry_def split: if_splits)
qed

lemma committed_failed:
  assumes "reachable st" "drafted actor repo TypeOutboxDeliveryFailed ident
      (marshal_OutboxDeliveryFailed \<lparr>of_Reason = reason\<rparr>) st = (st', Inr events)"
  shows "moved repo ident ''queued'' reason (st_db st) (st_db st')"
proof -
  obtain e t where e: "ev_Type e = TypeOutboxDeliveryFailed" "ev_Subject e = ident" "ev_Repo e = repo"
      "ev_Payload e = marshal_OutboxDeliveryFailed \<lparr>of_Reason = reason\<rparr>"
      "applyEvent t e (st_db st) = Inr (st_db st')"
    using one_draft_event[OF reachable_ok[OF assms(1)] assms(2) outbox_dimensions(2)] by metis
  then show ?thesis
    using update_moved[OF _ reachable_outbox_ids[OF assms(1)]]
    by (auto simp: fold_outbox_event failOutbox_def payload_rt res same_entry_def split: if_splits)
qed

lemma committed_comment:
  assumes "reachable st" "drafted actor repo TypeOutboxFlushed ident [] st = (st', Inr events)"
  shows "moved repo ident ''flushed'' [] (st_db st) (st_db st')"
proof -
  obtain e t where e: "ev_Type e = TypeOutboxFlushed" "ev_Subject e = ident" "ev_Repo e = repo" "ev_Payload e = []"
      "applyEvent t e (st_db st) = Inr (st_db st')"
    using one_draft_event[OF reachable_ok[OF assms(1)] assms(2) outbox_dimensions(3)] by metis
  then show ?thesis
    using update_moved[OF _ reachable_outbox_ids[OF assms(1)]]
    by (auto simp: fold_outbox_event flushOutboxComment_def res same_entry_def split: if_splits)
qed

lemma flush_state_moved:
  assumes "flush_state_entry e ref s = Inr s'" "distinct (map o_id (outbox_entries s))"
  shows "moved (ev_Repo e) (ev_Subject e) ''flushed'' [] s s'"
  using assms(1) update_moved[OF _ assms(2)] by (auto simp: flush_state_entry_def res same_entry_def)

lemma moved_cong: "outbox_entries s'' = outbox_entries s' \<Longrightarrow> moved repo ident state reason s s' \<Longrightarrow> moved repo ident state reason s s''"
  by (simp add: moved_def)

lemma outbox_untouched:
  "upsert_push e p s = Inr (n, s') \<Longrightarrow> outbox_entries s' = outbox_entries s"
  "update_backlog t q f s = Inr (n, s') \<Longrightarrow> outbox_entries s' = outbox_entries s"
  by (auto simp: upsert_push_def update_push_def insert_push_def update_backlog_def res split: if_splits)

lemma committed_pushed:
  assumes "reachable st" "drafted actor repo TypeTrackerStatePushed ident
      (marshal_TrackerStatePushed \<lparr>tp_Ref = ref, tp_Disposition = disp, tp_Lease = lease\<rparr>) st = (st', Inr events)"
  shows "moved repo ident ''flushed'' [] (st_db st) (st_db st')"
proof -
  obtain e t where e: "ev_Type e = TypeTrackerStatePushed" "ev_Subject e = ident" "ev_Repo e = repo"
      "ev_Payload e = marshal_TrackerStatePushed \<lparr>tp_Ref = ref, tp_Disposition = disp, tp_Lease = lease\<rparr>"
      "applyEvent t e (st_db st) = Inr (st_db st')"
    using one_draft_event[OF reachable_ok[OF assms(1)] assms(2) outbox_dimensions(5)] by metis
  then obtain s1 p where s1: "flush_state_entry e ref (st_db st) = Inr s1" "upsert_push e p s1 = Inr (1, st_db st')"
    by (auto simp: fold_outbox_event recordTrackerStatePush_def payload_rt res split: if_splits)
  have "outbox_entries (st_db st') = outbox_entries s1"
    using s1(2) by (rule outbox_untouched)
  then show ?thesis
    using flush_state_moved[OF s1(1) reachable_outbox_ids[OF assms(1)]] e by (simp add: moved_cong)
qed

lemma committed_observed:
  assumes "reachable st" "drafted actor repo TypeTrackerStateObserved ident
      (marshal_TrackerStateObserved \<lparr>to_Ref = ref, to_Disposition = disp, to_Lease = lease\<rparr>) st = (st', Inr events)"
  shows "moved repo ident ''flushed'' [] (st_db st) (st_db st')"
proof -
  obtain e t where e: "ev_Type e = TypeTrackerStateObserved" "ev_Subject e = ident" "ev_Repo e = repo"
      "ev_Payload e = marshal_TrackerStateObserved \<lparr>to_Ref = ref, to_Disposition = disp, to_Lease = lease\<rparr>"
      "applyEvent t e (st_db st) = Inr (st_db st')"
    using one_draft_event[OF reachable_ok[OF assms(1)] assms(2) outbox_dimensions(6)] by metis
  then have "flush_state_entry e ref (st_db st) = Inr (st_db st')"
    by (auto simp: fold_outbox_event recordTrackerStateObserved_def payload_rt res split: if_splits)
  then show ?thesis using flush_state_moved[OF _ reachable_outbox_ids[OF assms(1)]] e by blast
qed

text \<open>A creation is confirmed while its entry is approved, which the verb has just checked.\<close>

lemma committed_created:
  assumes "reachable st" "drafted actor repo TypeTrackerItemCreated ident (marshal_TrackerItemCreated \<lparr>ti_Ref = ref\<rparr>) st = (st', Inr events)"
    and "view_OutboxEntry (st_db st) repo ident = Inr r" "o_state r = ''approved''"
  shows "moved repo ident ''flushed'' [] (st_db st) (st_db st')"
proof -
  let ?f = "\<lambda>e r. r\<lparr>o_state := ''flushed'', o_reason := [], o_attempts := o_attempts r + 1, o_last := ev_ID e\<rparr>"
  obtain e t where e: "ev_Type e = TypeTrackerItemCreated" "ev_Subject e = ident" "ev_Repo e = repo"
      "ev_Payload e = marshal_TrackerItemCreated \<lparr>ti_Ref = ref\<rparr>"
      "applyEvent t e (st_db st) = Inr (st_db st')"
    using one_draft_event[OF reachable_ok[OF assms(1)] assms(2) outbox_dimensions(4)] by metis
  then obtain s1 where s1: "update_outbox (creatable e) (?f e) (st_db st) = Inr (1, s1)"
      "outbox_entries (st_db st') = outbox_entries s1"
    by (auto simp: fold_outbox_event recordTrackerItemCreated_def payload_rt res dest: outbox_untouched(2) split: if_splits option.splits)
  have r: "r \<in> set (outbox_entries (st_db st))" "o_id r = ident"
    using assms(3) by (auto simp: view_OutboxEntry_def of_option_def find_Some_iff split: option.splits)
  have "moved repo ident ''flushed'' [] (st_db st) s1 \<and> tracker_push_records s1 = tracker_push_records (st_db st)"
  proof (rule update_moved[OF s1(1) reachable_outbox_ids[OF assms(1)]])
    fix q assume "q \<in> set (outbox_entries (st_db st))" "creatable e q"
    then show "o_id q = ident \<and> o_repo q = repo \<and> o_state q = ''approved''"
      using r assms(4) e distinct_mapD[OF reachable_outbox_ids[OF assms(1)]] by (auto simp: creatable_def)
  qed (simp add: same_entry_def)
  then show ?thesis using moved_cong s1(2) by blast
qed

section \<open>The contract of a recorder\<close>

text \<open>The report says \<open>converged\<close> of an entry whose row is \<open>flushed\<close>.\<close>

definition persisted :: "string \<Rightarrow> string" where
  "persisted state = (if state = ''converged'' then ''flushed'' else state)"

text \<open>Which row an entry of the report accounts for, and how.\<close>

definition accounts :: "EntryResult list \<Rightarrow> outbox_row \<Rightarrow> outbox_row \<Rightarrow> bool" where
  "accounts report r r' \<longleftrightarrow>
     (case List.find (\<lambda>x. er_ID x = o_id r) report of
        None \<Rightarrow> r' = r
      | Some x \<Rightarrow> same_entry r r' \<and> o_state r' = persisted (er_State x) \<and> o_reason r' = er_Reason x)"

definition approved_ids :: "db \<Rightarrow> string \<Rightarrow> string set" where
  "approved_ids s repo = {o_id r |r. r \<in> set (outbox_entries s) \<and> o_repo r = repo \<and> o_state r = ''approved''}"

definition accounted :: "string \<Rightarrow> store \<Rightarrow> 'w flushing \<Rightarrow> bool" where
  "accounted repo st0 f \<longleftrightarrow> reachable (fl_store f) \<and> distinct (map er_ID (fl_report f))
     \<and> er_ID ` set (fl_report f) \<subseteq> approved_ids (st_db st0) repo
     \<and> (\<forall>x \<in> set (fl_report f). persisted (er_State x) \<in> {''flushed'', ''withheld'', ''queued''})
     \<and> list_all2 (accounts (fl_report f)) (outbox_entries (st_db st0)) (outbox_entries (st_db (fl_store f)))"

locale recorder =
  fixes run :: "store \<Rightarrow> store \<times> (string \<times> string) result" and repo ident :: string
  assumes keeps: "reachable st \<Longrightarrow> reachable (fst (run st))"
    and undone: "reachable st \<Longrightarrow> run st = (st', Inl e) \<Longrightarrow> st_db st' = st_db st"
    and settles: "reachable st \<Longrightarrow> run st = (st', Inr (state, reason))
      \<Longrightarrow> moved repo ident (persisted state) reason (st_db st) (st_db st')
        \<and> persisted state \<in> {''flushed'', ''withheld'', ''queued''}"
begin

lemma fresh:
  assumes "accounted repo st0 f" "run (fl_store f) = (st', Inr (state, reason))"
  shows "ident \<notin> er_ID ` set (fl_report f) \<and> ident \<in> approved_ids (st_db st0) repo"
proof -
  have acc: "reachable (fl_store f)"
      "list_all2 (accounts (fl_report f)) (outbox_entries (st_db st0)) (outbox_entries (st_db (fl_store f)))"
      "\<forall>x \<in> set (fl_report f). persisted (er_State x) \<in> {''flushed'', ''withheld'', ''queued''}"
    using assms(1) by (simp_all add: accounted_def)
  obtain r' where r': "r' \<in> set (outbox_entries (st_db (fl_store f)))" "o_id r' = ident" "o_repo r' = repo" "o_state r' = ''approved''"
    using settles[OF acc(1) assms(2)] by (auto simp: moved_def)
  then obtain r where r: "r \<in> set (outbox_entries (st_db st0))" "accounts (fl_report f) r r'"
    using acc(2) by (metis in_set_conv_nth list_all2_conv_all_nth)
  show ?thesis
  proof (cases "List.find (\<lambda>x. er_ID x = o_id r) (fl_report f)")
    case None
    then have "r' = r" using r(2) by (simp add: accounts_def)
    then show ?thesis using None r(1) r' by (auto simp: find_None_iff approved_ids_def)
  next
    case (Some x)
    then have "x \<in> set (fl_report f)" by (auto simp: find_Some_iff)
    then show ?thesis using Some r r' acc(3) by (auto simp: accounts_def)
  qed
qed

lemma reports:
  assumes "accounted repo st0 f"
  shows "accounted repo st0 (fst (reported ident (run (fl_store f)) f))"
proof -
  have acc: "reachable (fl_store f)" "distinct (map er_ID (fl_report f))"
      "er_ID ` set (fl_report f) \<subseteq> approved_ids (st_db st0) repo"
      "list_all2 (accounts (fl_report f)) (outbox_entries (st_db st0)) (outbox_entries (st_db (fl_store f)))"
      "\<forall>x \<in> set (fl_report f). persisted (er_State x) \<in> {''flushed'', ''withheld'', ''queued''}"
    using assms by (simp_all add: accounted_def)
  obtain st' r where run: "run (fl_store f) = (st', r)" by fastforce
  have re: "reachable st'" using keeps[OF acc(1)] run by simp
  show ?thesis
  proof (cases r)
    case (Inl e)
    then show ?thesis using acc re run undone[OF acc(1)] by (auto simp: reported_def accounted_def)
  next
    case (Inr a)
    obtain state reason where a: "a = (state, reason)" by fastforce
    let ?x = "\<lparr>er_ID = ident, er_State = state, er_Reason = reason\<rparr>"
    have fr: "ident \<notin> er_ID ` set (fl_report f)" "ident \<in> approved_ids (st_db st0) repo"
      using fresh[OF assms] run Inr a by blast+
    have mv: "moved repo ident (persisted state) reason (st_db (fl_store f)) (st_db st')"
        "persisted state \<in> {''flushed'', ''withheld'', ''queued''}"
      using settles[OF acc(1)] run Inr a by blast+
    have "list_all2 (accounts (fl_report f @ [?x])) (outbox_entries (st_db st0)) (outbox_entries (st_db st'))"
    proof (rule list_all2_trans[OF _ acc(4)])
      show "list_all2 (\<lambda>r r'. if o_id r = ident then same_entry r r' \<and> o_state r' = persisted state \<and> o_reason r' = reason
          else r' = r) (outbox_entries (st_db (fl_store f))) (outbox_entries (st_db st'))"
        using mv by (simp add: moved_def)
      fix a b c
      assume ab: "accounts (fl_report f) a b" and bc: "if o_id b = ident then same_entry b c \<and> o_state c = persisted state \<and> o_reason c = reason else c = b"
      show "accounts (fl_report f @ [?x]) a c"
      proof (cases "List.find (\<lambda>x. er_ID x = o_id a) (fl_report f)")
        case None
        then have "b = a" using ab by (simp add: accounts_def)
        then show ?thesis using None bc by (auto simp: accounts_def find_snoc)
      next
        case (Some x)
        then have "x \<in> set (fl_report f)" "er_ID x = o_id a" by (auto simp: find_Some_iff)
        then have "o_id a \<noteq> ident" using fr(1) by force
        then show ?thesis using Some ab bc by (auto simp: accounts_def find_snoc same_entry_def)
      qed
    qed
    then show ?thesis using acc re run Inr a fr mv(2) by (auto simp: reported_def accounted_def)
  qed
qed

end

section \<open>The recorders of a flush\<close>

text \<open>What a verb of one draft may answer: an error that changed nothing, or the move.\<close>

definition settling :: "string \<Rightarrow> string \<Rightarrow> string \<Rightarrow> string \<Rightarrow> (store \<Rightarrow> store \<times> unit result) \<Rightarrow> bool" where
  "settling repo ident state reason run \<longleftrightarrow> (\<forall>st. reachable st \<longrightarrow>
     (case snd (run st) of
        Inl e \<Rightarrow> st_db (fst (run st)) = st_db st
      | Inr _ \<Rightarrow> moved repo ident state reason (st_db st) (st_db (fst (run st)))))"

lemma settling_guard:
  "settling repo ident state reason run \<Longrightarrow> settling repo ident state reason (\<lambda>st. if b then (st, Inl e) else run st)"
  by (simp add: settling_def)

lemma settling_commit:
  assumes "\<And>st st' events. reachable st \<Longrightarrow> drafted actor repo ty ident payload st = (st', Inr events)
      \<Longrightarrow> moved repo ident state reason (st_db st) (st_db st')"
  shows "settling repo ident state reason
    (commit_plan (request actor (repo_env repo)) (one_draft (draft ty ident payload)) (\<lambda>_ _. Inr ()))"
  unfolding settling_def
proof (intro allI impI)
  fix st assume "reachable st"
  obtain st' r where c: "drafted actor repo ty ident payload st = (st', r)" by fastforce
  show "case snd (commit_plan (request actor (repo_env repo)) (one_draft (draft ty ident payload)) (\<lambda>_ _. Inr ()) st) of
      Inl e \<Rightarrow> st_db (fst (commit_plan (request actor (repo_env repo)) (one_draft (draft ty ident payload)) (\<lambda>_ _. Inr ()) st)) = st_db st
    | Inr _ \<Rightarrow> moved repo ident state reason (st_db st)
        (st_db (fst (commit_plan (request actor (repo_env repo)) (one_draft (draft ty ident payload)) (\<lambda>_ _. Inr ()) st)))"
    using assms[OF \<open>reachable st\<close>, of st'] c Commit_error_db[of _ _ st st']
    by (cases r) (auto simp: commit_plan_def captured_def one_draft_def from_db_def)
qed

lemma moved_reads:
  assumes "moved repo ident state reason s s'"
  shows "\<exists>r. view_OutboxEntry s' repo ident = Inr r"
proof -
  obtain r where "r \<in> set (outbox_entries s)" "o_id r = ident" "o_repo r = repo" using assms by (auto simp: moved_def)
  then obtain i where i: "i < length (outbox_entries s)" "o_id (outbox_entries s ! i) = ident" "o_repo (outbox_entries s ! i) = repo"
    by (auto simp: in_set_conv_nth)
  then have "i < length (outbox_entries s')" "same_entry (outbox_entries s ! i) (outbox_entries s' ! i)"
    using assms by (auto simp: moved_def list_all2_conv_all_nth)
  then have "outbox_entries s' ! i \<in> set (outbox_entries s')" "o_id (outbox_entries s' ! i) = ident" "o_repo (outbox_entries s' ! i) = repo"
    using i by (auto simp: same_entry_def)
  then show ?thesis by (auto simp: view_OutboxEntry_def of_option_def find_None_iff split: option.splits)
qed

lemma settling_mutate:
  assumes "\<And>st st' events. reachable st \<Longrightarrow> drafted actor repo ty ident payload st = (st', Inr events)
      \<Longrightarrow> moved repo ident state reason (st_db st) (st_db st')"
  shows "settling repo ident state reason (\<lambda>st. only_error (mutateOutbox actor repo ident ty payload st))"
  unfolding settling_def
proof (intro allI impI)
  fix st assume re: "reachable st"
  obtain st' r where c: "drafted actor repo ty ident payload st = (st', r)" by fastforce
  show "case snd (only_error (mutateOutbox actor repo ident ty payload st)) of
      Inl e \<Rightarrow> st_db (fst (only_error (mutateOutbox actor repo ident ty payload st))) = st_db st
    | Inr _ \<Rightarrow> moved repo ident state reason (st_db st) (st_db (fst (only_error (mutateOutbox actor repo ident ty payload st))))"
  proof (cases r)
    case (Inl e)
    then show ?thesis using c Commit_error_db[of _ _ st st' e] by (auto simp: only_error_def mutateOutbox_def commit_plan_def)
  next
    case (Inr events)
    then have m: "moved repo ident state reason (st_db st) (st_db st')" using assms[OF re] c by blast
    then show ?thesis using Inr c moved_reads[OF m]
      by (auto simp: only_error_def mutateOutbox_def commit_plan_def captured_def one_draft_def from_db_def)
  qed
qed

lemma settling_verbs:
  "settling repo ident ''withheld'' reason (WithholdOutbox actor repo ident reason attempted cause)"
  "settling repo ident ''queued'' reason (FailOutbox actor repo ident reason)"
  "settling repo ident ''flushed'' [] (FlushOutboxComment actor repo ident)"
  "settling repo ident ''flushed'' [] (PushTrackerState actor repo ident ref disp lease)"
  "settling repo ident ''flushed'' [] (ObserveTrackerState actor repo ident ref disp lease)"
proof -
  show "settling repo ident ''withheld'' reason (WithholdOutbox actor repo ident reason attempted cause)"
    unfolding WithholdOutbox_def[abs_def] using committed_withheld by (intro settling_guard settling_mutate) blast
  show "settling repo ident ''queued'' reason (FailOutbox actor repo ident reason)"
    unfolding FailOutbox_def[abs_def] by (intro settling_guard settling_mutate committed_failed)
  show "settling repo ident ''flushed'' [] (FlushOutboxComment actor repo ident)"
    unfolding FlushOutboxComment_def[abs_def] by (intro settling_mutate committed_comment)
  show "settling repo ident ''flushed'' [] (PushTrackerState actor repo ident ref disp lease)"
    unfolding PushTrackerState_def[abs_def] by (intro settling_guard settling_commit committed_pushed)
  show "settling repo ident ''flushed'' [] (ObserveTrackerState actor repo ident ref disp lease)"
    unfolding ObserveTrackerState_def[abs_def] by (intro settling_guard settling_commit committed_observed)
qed

lemma settling_confirm: "settling repo ident ''flushed'' [] (ConfirmBacklogDelegation actor repo ident ref)"
  unfolding settling_def
proof (intro allI impI)
  fix st assume re: "reachable st"
  let ?pay = "marshal_TrackerItemCreated \<lparr>ti_Ref = ref\<rparr>"
  obtain st' r where c: "drafted actor repo TypeTrackerItemCreated ident ?pay st = (st', r)" by fastforce
  show "case snd (ConfirmBacklogDelegation actor repo ident ref st) of
      Inl e \<Rightarrow> st_db (fst (ConfirmBacklogDelegation actor repo ident ref st)) = st_db st
    | Inr _ \<Rightarrow> moved repo ident ''flushed'' [] (st_db st) (st_db (fst (ConfirmBacklogDelegation actor repo ident ref st)))"
    using committed_created[OF re, of actor repo ident ref st'] c Commit_error_db[of _ _ st st']
    by (cases r; cases "view_OutboxEntry (st_db st) repo ident")
      (auto simp: ConfirmBacklogDelegation_def commit_plan_def captured_def one_draft_def from_db_def)
qed

lemma recorder_answered:
  assumes "verb run" "settling repo ident (persisted state) reason run" "persisted state \<in> {''flushed'', ''withheld'', ''queued''}"
  shows "recorder (\<lambda>st. answered (state, reason) (run st)) repo ident"
proof
  fix st :: store assume re: "reachable st"
  show "reachable (fst (answered (state, reason) (run st)))"
    using verb.keeps_reachable[OF assms(1) re] by (simp add: answered_def)
  show "st_db st' = st_db st" if "answered (state, reason) (run st) = (st', Inl e)" for st' e
    using that assms(2) re by (cases "run st"; cases "snd (run st)") (auto simp: settling_def answered_def)
  show "moved repo ident (persisted state') reason' (st_db st) (st_db st') \<and> persisted state' \<in> {''flushed'', ''withheld'', ''queued''}"
    if "answered (state, reason) (run st) = (st', Inr (state', reason'))" for st' state' reason'
    using that assms(2,3) re by (cases "run st"; cases "snd (run st)") (auto simp: settling_def answered_def)
qed

lemma persisted_simps [simp]:
  "persisted ''withheld'' = ''withheld''" "persisted ''queued'' = ''queued''" "persisted ''flushed'' = ''flushed''"
  "persisted ''converged'' = ''flushed''"
  by (simp_all add: persisted_def)

interpretation withheld: recorder "\<lambda>st. answered (''withheld'', reason) (WithholdOutbox actor repo ident reason attempted cause st)" repo ident
  for actor repo ident reason attempted cause
  using settling_verbs(1) by (intro recorder_answered WithholdOutbox.verb_axioms) simp_all
interpretation failed: recorder "\<lambda>st. answered (''queued'', reason) (FailOutbox actor repo ident reason st)" repo ident
  for actor repo ident reason
  using settling_verbs(2) by (intro recorder_answered FailOutbox.verb_axioms) simp_all

lemma malformed_answered:
  "malformed_success actor repo entry reason st
     = answered (''withheld'', reason) (WithholdOutbox actor repo (oe_ID entry) reason True CauseMalformedProviderSuccess st)"
  by (auto simp: malformed_success_def answered_def split: prod.splits sum.splits)

lemma recorder_success:
  assumes "state \<in> {''flushed'', ''converged''}"
  shows "recorder (\<lambda>st. answered (state, []) (ConfirmBacklogDelegation actor repo ident ref st)) repo ident"
    "recorder (\<lambda>st. answered (state, []) (FlushOutboxComment actor repo ident st)) repo ident"
    "recorder (\<lambda>st. answered (state, []) (PushTrackerState actor repo ident ref disp lease st)) repo ident"
    "recorder (\<lambda>st. answered (state, []) (ObserveTrackerState actor repo ident ref disp lease st)) repo ident"
proof -
  have p: "persisted state = ''flushed''" using assms by auto
  show "recorder (\<lambda>st. answered (state, []) (ConfirmBacklogDelegation actor repo ident ref st)) repo ident"
    using settling_confirm p by (intro recorder_answered ConfirmBacklogDelegation.verb_axioms) simp_all
  show "recorder (\<lambda>st. answered (state, []) (FlushOutboxComment actor repo ident st)) repo ident"
    using settling_verbs(3) p by (intro recorder_answered FlushOutboxComment.verb_axioms) simp_all
  show "recorder (\<lambda>st. answered (state, []) (PushTrackerState actor repo ident ref disp lease st)) repo ident"
    using settling_verbs(4) p by (intro recorder_answered PushTrackerState.verb_axioms) simp_all
  show "recorder (\<lambda>st. answered (state, []) (ObserveTrackerState actor repo ident ref disp lease st)) repo ident"
    using settling_verbs(5) p by (intro recorder_answered ObserveTrackerState.verb_axioms) simp_all
qed

lemma recorder_if:
  "recorder run1 repo ident \<Longrightarrow> recorder run2 repo ident \<Longrightarrow> recorder (\<lambda>st. if b then run1 st else run2 st) repo ident"
  by (cases b) simp_all

lemma recorder_case:
  "recorder run1 repo ident \<Longrightarrow> (\<And>x. recorder (run2 x) repo ident)
    \<Longrightarrow> recorder (\<lambda>st. case r of Inl _ \<Rightarrow> run1 st | Inr x \<Rightarrow> run2 x st) repo ident"
  by (cases r) simp_all

interpretation success: recorder "recordSuccess actor repo entry result" repo "oe_ID entry" for actor repo entry result
proof -
  let ?s = "if rs_Outcome result = Converged then ''converged'' else ''flushed''"
  have s: "?s \<in> {''flushed'', ''converged''}" by simp
  show "recorder (recordSuccess actor repo entry result) repo (oe_ID entry)"
    unfolding recordSuccess_def[abs_def] Let_def malformed_answered
    by (intro recorder_if recorder_case recorder_success[OF s] withheld.recorder_axioms)
qed

interpretation result: recorder "recordResult actor repo entry result" repo "oe_ID entry" for actor repo entry result
  unfolding recordResult_def[abs_def] Let_def
  by (intro recorder_if success.recorder_axioms failed.recorder_axioms withheld.recorder_axioms)

section \<open>The loops of a flush\<close>

lemma each_invariant:
  "(\<And>x s. x \<in> set xs \<Longrightarrow> P s \<Longrightarrow> P (fst (f x s))) \<Longrightarrow> P s \<Longrightarrow> P (fst (each f xs s))"
proof (induction xs arbitrary: s)
  case (Cons x xs)
  have "P (fst (f x s))" using Cons.prems by simp
  then show ?case using Cons.IH Cons.prems(1) by (auto split: prod.splits sum.splits)
qed simp

lemma after_invariant: "P (fst r) \<Longrightarrow> (\<And>s. P s \<Longrightarrow> P (fst (k s))) \<Longrightarrow> P (fst (after k r))"
  by (auto simp: after_def split: prod.splits sum.splits)

lemma accounted_locals [simp]:
  "accounted repo st0 (f\<lparr>fl_selected := x\<rparr>) = accounted repo st0 f"
  "accounted repo st0 (f\<lparr>fl_groups := y\<rparr>) = accounted repo st0 f"
  "accounted repo st0 (f\<lparr>fl_world := w\<rparr>) = accounted repo st0 f"
  by (simp_all add: accounted_def)

lemma withhold_accounted [simp]: "accounted repo st0 f \<Longrightarrow> accounted repo st0 (fst (withhold actor repo ident reason cause f))"
  unfolding withhold_def by (rule withheld.reports)

lemma classify_accounted: "accounted repo st0 f \<Longrightarrow> accounted repo st0 (fst (classify msg actor repo e f))"
  by (auto simp: classify_def split: sum.splits option.splits)

lemma supersede_accounted: "accounted repo st0 f \<Longrightarrow> accounted repo st0 (fst (supersede actor repo g f))"
  unfolding supersede_def Let_def by (rule each_invariant) simp_all

lemma result_accounted:
  assumes "accounted repo st0 f"
  shows "accounted repo st0 (fst (reported (oe_ID e) (recordResult actor repo e r (fl_store f)) (f\<lparr>fl_world := w\<rparr>)))"
  using assms result.reports[where f = "f\<lparr>fl_world := w\<rparr>" and entry = e] by simp

lemma deliver_accounted: "accounted repo st0 f \<Longrightarrow> accounted repo st0 (fst (deliver seam actor repo e f))"
  by (simp add: deliver_def Let_def result_accounted split: prod.splits)

lemma accounts_nothing: "accounted repo st (flush_begin st w) \<longleftrightarrow> reachable st"
  by (auto simp: accounted_def flush_begin_def accounts_def intro: list.rel_refl)

lemma run_flush_accounted:
  assumes "reachable st"
  shows "accounted repo st (fst (run_flush msg order actor repo seam st w))"
proof -
  note inv = each_invariant[where P = "accounted repo st"] after_invariant[where P = "accounted repo st"]
  show ?thesis
    unfolding run_flush_def Let_def
    by (intro inv classify_accounted supersede_accounted deliver_accounted) (simp_all add: assms accounts_nothing)
qed

lemma accounted_settles:
  assumes "accounted repo st0 f" "approved_ids (st_db st0) repo \<subseteq> er_ID ` set (fl_report f)"
  shows "approved_ids (st_db (fl_store f)) repo = {}"
proof (rule ccontr)
  assume "approved_ids (st_db (fl_store f)) repo \<noteq> {}"
  then obtain r' where r': "r' \<in> set (outbox_entries (st_db (fl_store f)))" "o_repo r' = repo" "o_state r' = ''approved''"
    by (auto simp: approved_ids_def)
  then obtain r where r: "r \<in> set (outbox_entries (st_db st0))" "accounts (fl_report f) r r'"
    using assms(1) unfolding accounted_def by (metis in_set_conv_nth list_all2_conv_all_nth)
  show False
  proof (cases "List.find (\<lambda>x. er_ID x = o_id r) (fl_report f)")
    case None
    then have "r' = r" using r(2) by (simp add: accounts_def)
    then have "o_id r \<in> er_ID ` set (fl_report f)" using r(1) r' assms(2) by (auto simp: approved_ids_def)
    then show False using None by (auto simp: find_None_iff)
  next
    case (Some x)
    then have "x \<in> set (fl_report f)" by (auto simp: find_Some_iff)
    then show False using Some r r' assms(1) by (auto simp: accounts_def accounted_def)
  qed
qed

section \<open>Which entries are delivered\<close>

definition direct :: "OutboxEntry \<Rightarrow> bool" where
  "direct e \<longleftrightarrow> oe_State e = ''approved'' \<and> oe_Kind e \<noteq> ''state''"

text \<open>A state entry that is well formed and does not regress from the last push.\<close>

definition sendable :: "db \<Rightarrow> OutboxEntry \<Rightarrow> bool" where
  "sendable s e \<longleftrightarrow> oe_State e = ''approved'' \<and> oe_Kind e = ''state'' \<and> oe_Ref e \<noteq> []
     \<and> (case stateDisposition (oe_Payload e) of
          Inl _ \<Rightarrow> False
        | Inr d \<Rightarrow> (case FindTrackerPushRecord s (oe_Ref e) of None \<Rightarrow> True | Some p \<Rightarrow> p_disposition p \<in> {TrackerActive, d}))"

definition rejected :: "db \<Rightarrow> OutboxEntry \<Rightarrow> bool" where
  "rejected s e \<longleftrightarrow> oe_State e = ''approved'' \<and> oe_Kind e = ''state'' \<and> \<not> sendable s e"

definition candidate :: "OutboxEntry \<Rightarrow> stateCandidate" where
  "candidate e = (e, projr (stateDisposition (oe_Payload e)))"

abbreviation "grouping es gs \<equiv> fold (\<lambda>e. add_candidate (oe_Ref e) (candidate e)) es gs"

lemma withhold_Inr:
  assumes "withhold actor repo ident reason cause f = (f', Inr u)"
  shows "fl_selected f' = fl_selected f \<and> fl_groups f' = fl_groups f \<and> fl_world f' = fl_world f
    \<and> map er_ID (fl_report f') = map er_ID (fl_report f) @ [ident]"
  using assms by (auto simp: withhold_def reported_def split: prod.splits sum.splits)

lemma withhold_push:
  assumes "reachable (fl_store f)"
  shows "tracker_push_records (st_db (fl_store (fst (withhold actor repo ident reason cause f)))) = tracker_push_records (st_db (fl_store f))"
proof -
  let ?w = "WithholdOutbox actor repo ident reason False cause"
  obtain st' r where w: "?w (fl_store f) = (st', r)" by fastforce
  have "tracker_push_records (st_db st') = tracker_push_records (st_db (fl_store f))"
  proof (cases r)
    case (Inl e)
    then show ?thesis using settling_verbs(1)[unfolded settling_def, rule_format, OF assms, of actor repo ident reason False cause] w by simp
  next
    case (Inr u)
    then obtain events where "drafted actor repo TypeOutboxWithheld ident
        (marshal_OutboxWithheld \<lparr>ow_Reason = reason, ow_Attempted = False, ow_Cause = cause\<rparr>) (fl_store f) = (st', Inr events)"
      using w by (auto simp: WithholdOutbox_def only_error_def mutateOutbox_def commit_plan_def split: if_splits prod.splits sum.splits)
    then show ?thesis using committed_withheld[OF assms] by blast
  qed
  then show ?thesis using w by (cases r) (auto simp: withhold_def reported_def answered_def)
qed

text \<open>A withhold of the first two loops leaves the push records and the world alone.\<close>

definition calm :: "'w flushing \<Rightarrow> 'w flushing \<Rightarrow> bool" where
  "calm f f' \<longleftrightarrow> fl_world f' = fl_world f \<and> (reachable (fl_store f) \<longrightarrow> reachable (fl_store f')
     \<and> tracker_push_records (st_db (fl_store f')) = tracker_push_records (st_db (fl_store f)))"

lemma calm_refl [simp]: "calm f f" "calm f (f\<lparr>fl_selected := x\<rparr>)" "calm f (f\<lparr>fl_groups := y\<rparr>)"
  by (simp_all add: calm_def)

lemma calm_trans: "calm f f' \<Longrightarrow> calm f' f'' \<Longrightarrow> calm f f''"
  by (auto simp: calm_def)

lemma calm_withhold [simp]: "calm f (fst (withhold actor repo ident reason cause f))"
proof -
  have "fl_world (fst (withhold actor repo ident reason cause f)) = fl_world f"
    by (auto simp: withhold_def reported_def split: prod.splits sum.splits)
  moreover have "reachable (fl_store (fst (withhold actor repo ident reason cause f)))" if "reachable (fl_store f)"
    using WithholdOutbox.keeps_reachable[OF that] by (auto simp: withhold_def reported_def answered_def split: prod.splits sum.splits)
  ultimately show ?thesis by (simp add: calm_def withhold_push)
qed

lemma calm_each: "(\<And>x f. calm f (fst (k x f))) \<Longrightarrow> calm f (fst (each k xs f))"
  by (rule each_invariant[where P = "calm f"]) (auto intro: calm_trans)

lemma calm_classify: "calm f (fst (classify msg actor repo e f))"
  by (auto simp: classify_def split: sum.splits option.splits)

lemma calm_supersede: "calm f (fst (supersede actor repo g f))"
  unfolding supersede_def Let_def
  by (rule calm_trans[OF calm_refl(2)]) (rule calm_each, simp)

lemma sendable_cong: "tracker_push_records s' = tracker_push_records s \<Longrightarrow> sendable s' e = sendable s e"
  by (simp add: sendable_def FindTrackerPushRecord_def split: sum.split)

text \<open>One step of the classification, when it succeeds.\<close>

lemma classify_Inr:
  assumes "classify msg actor repo e f = (f', Inr u)"
  shows "fl_selected f' = fl_selected f @ (if direct e then [oe_ID e] else [])
    \<and> fl_groups f' = (if sendable (st_db (fl_store f)) e then add_candidate (oe_Ref e) (candidate e) (fl_groups f) else fl_groups f)
    \<and> map er_ID (fl_report f') = map er_ID (fl_report f) @ (if rejected (st_db (fl_store f)) e then [oe_ID e] else [])"
proof (cases "oe_State e = ''approved'' \<and> oe_Kind e = ''state''")
  case True
  then show ?thesis
    using assms withhold_Inr[of actor repo "oe_ID e" _ _ f f']
    by (cases "stateDisposition (oe_Payload e)"; cases "FindTrackerPushRecord (st_db (fl_store f)) (oe_Ref e)")
      (auto simp: classify_def direct_def sendable_def rejected_def candidate_def regresses_def split: if_splits)
next
  case False
  then show ?thesis using assms by (auto simp: classify_def direct_def sendable_def rejected_def split: if_splits)
qed

lemma classify_each:
  assumes "each (classify msg actor repo) es f = (f', Inr u)" "reachable (fl_store f)"
  shows "fl_selected f' = fl_selected f @ map oe_ID (filter direct es)
    \<and> fl_groups f' = grouping (filter (sendable (st_db (fl_store f))) es) (fl_groups f)
    \<and> map er_ID (fl_report f') = map er_ID (fl_report f) @ map oe_ID (filter (rejected (st_db (fl_store f))) es)"
  using assms
proof (induction es arbitrary: f)
  case (Cons e es)
  obtain f1 where f1: "classify msg actor repo e f = (f1, Inr ())" "each (classify msg actor repo) es f1 = (f', Inr u)"
    using Cons.prems(1) by (auto split: prod.splits sum.splits)
  have c: "reachable (fl_store f1)" "tracker_push_records (st_db (fl_store f1)) = tracker_push_records (st_db (fl_store f))"
    using calm_classify[of f msg actor repo e] Cons.prems(2) f1(1) by (simp_all add: calm_def)
  have "sendable (st_db (fl_store f1)) = sendable (st_db (fl_store f))" "rejected (st_db (fl_store f1)) = rejected (st_db (fl_store f))"
    using sendable_cong[OF c(2)] by (simp_all add: fun_eq_iff rejected_def)
  then show ?case using Cons.IH[OF f1(2) c(1)] classify_Inr[OF f1(1)] by simp
qed simp

lemma withhold_each:
  assumes "each (\<lambda>c. withhold actor repo (g c) reason cause) cs f = (f', Inr u)"
  shows "fl_selected f' = fl_selected f \<and> map er_ID (fl_report f') = map er_ID (fl_report f) @ map g cs"
  using assms by (induction cs arbitrary: f) (auto dest!: withhold_Inr split: prod.splits sum.splits)

lemma supersede_each:
  assumes "each (supersede actor repo) gs f = (f', Inr u)"
  shows "fl_selected f' = fl_selected f @ map (\<lambda>g. oe_ID (fst (last (snd g)))) gs
    \<and> map er_ID (fl_report f') = map er_ID (fl_report f) @ concat (map (\<lambda>g. map (oe_ID \<circ> fst) (butlast (snd g))) gs)"
  using assms
  by (induction gs arbitrary: f) (auto simp: supersede_def Let_def comp_def dest!: withhold_each split: prod.splits sum.splits)

text \<open>The third loop, with a seam whose world is the list of the calls it has had.\<close>

definition heard :: "(OutboxEntry list \<Rightarrow> OutboxEntry \<Rightarrow> string + Result) \<Rightarrow> OutboxEntry list seam" where
  "heard answer past e = (past @ [e], answer past e)"

lemma reported_keeps:
  "reported ident x f = (f', r) \<Longrightarrow> fl_selected f' = fl_selected f \<and> fl_world f' = fl_world f
    \<and> (r = Inr () \<longrightarrow> map er_ID (fl_report f') = map er_ID (fl_report f) @ [ident])"
  by (auto simp: reported_def split: prod.splits sum.splits)

lemma deliver_keeps:
  assumes "deliver seam actor repo e f = (f', r)"
  shows "fl_selected f' = fl_selected f
    \<and> (r = Inr () \<longrightarrow> map er_ID (fl_report f') = map er_ID (fl_report f) @ (if oe_ID e \<in> set (fl_selected f) then [oe_ID e] else []))"
  using assms by (auto simp: deliver_def Let_def dest!: reported_keeps split: if_splits prod.splits)

lemma deliver_reports:
  assumes "each (deliver seam actor repo) es f = (f', Inr u)"
  shows "map er_ID (fl_report f') = map er_ID (fl_report f) @ map oe_ID (filter (\<lambda>e. oe_ID e \<in> set (fl_selected f)) es)"
  using assms
proof (induction es arbitrary: f)
  case (Cons e es)
  obtain f1 where f1: "deliver seam actor repo e f = (f1, Inr ())" "each (deliver seam actor repo) es f1 = (f', Inr u)"
    using Cons.prems by (auto split: prod.splits sum.splits)
  then show ?case using Cons.IH[OF f1(2)] deliver_keeps[OF f1(1)] by simp
qed simp

lemma deliver_heard:
  assumes "deliver (heard answer) actor repo e f = (f', r)"
  shows "fl_world f' = fl_world f @ (if oe_ID e \<in> set (fl_selected f) then [e] else [])"
  using assms by (auto simp: deliver_def heard_def Let_def dest!: reported_keeps split: if_splits)

lemma deliver_calls:
  assumes "each (deliver (heard answer) actor repo) es f = (f', r)"
  shows "\<exists>sent left. filter (\<lambda>e. oe_ID e \<in> set (fl_selected f)) es = sent @ left
    \<and> fl_world f' = fl_world f @ sent \<and> (r = Inr () \<longrightarrow> left = [])"
  using assms
proof (induction es arbitrary: f)
  case (Cons e es)
  let ?one = "if oe_ID e \<in> set (fl_selected f) then [e] else []"
  obtain f1 r1 where f1: "deliver (heard answer) actor repo e f = (f1, r1)" by fastforce
  note k = deliver_keeps[OF f1] deliver_heard[OF f1]
  show ?case
  proof (cases r1)
    case (Inl x)
    then have "f' = f1" "r \<noteq> Inr ()" using Cons.prems f1 by auto
    then show ?thesis using k by (intro exI[of _ ?one] exI[of _ "filter (\<lambda>e. oe_ID e \<in> set (fl_selected f)) es"]) auto
  next
    case (Inr u)
    then have "each (deliver (heard answer) actor repo) es f1 = (f', r)" using Cons.prems f1 by simp
    then obtain sent left where c: "filter (\<lambda>e. oe_ID e \<in> set (fl_selected f)) es = sent @ left"
        "fl_world f' = fl_world f1 @ sent" "r = Inr () \<longrightarrow> left = []"
      using Cons.IH k by metis
    then show ?thesis using k by (intro exI[of _ "?one @ sent"] exI[of _ left]) auto
  qed
qed simp

section \<open>The groups of the state entries\<close>

lemma add_candidate_keys [simp]: "fst ` set (add_candidate ref c gs) = insert ref (fst ` set gs)"
  by (induction gs) auto

lemma add_candidate_distinct: "distinct (map fst gs) \<Longrightarrow> distinct (map fst (add_candidate ref c gs))"
proof (induction gs)
  case (Cons g gs)
  have "fst g \<notin> fst ` set (add_candidate ref c gs)" if "fst g \<noteq> ref" using that Cons.prems by auto
  then show ?case using Cons by auto
qed simp

lemma add_candidate_mem:
  "distinct (map fst gs) \<Longrightarrow> (k, cs) \<in> set (add_candidate ref c gs) \<longleftrightarrow>
     (if k = ref then (\<exists>old. (k, old) \<in> set gs \<and> cs = old @ [c]) \<or> (ref \<notin> fst ` set gs \<and> cs = [c]) else (k, cs) \<in> set gs)"
  by (induction gs) (auto simp: rev_image_eqI split: if_splits)

text \<open>A group holds the candidates of its reference, in the order of the entries.\<close>

lemma grouping_mem:
  "distinct (map fst (grouping es [])) \<and> ((ref, cs) \<in> set (grouping es []) \<longleftrightarrow>
     cs \<noteq> [] \<and> cs = map candidate (filter (\<lambda>e. oe_Ref e = ref) es))"
proof (induction es arbitrary: ref cs rule: rev_induct)
  case (snoc e es)
  have d: "distinct (map fst (grouping es []))" using snoc by blast
  note mem = snoc[THEN conjunct2]
  have key: "oe_Ref e \<in> fst ` set (grouping es []) \<longleftrightarrow> filter (\<lambda>x. oe_Ref x = oe_Ref e) es \<noteq> []"
  proof -
    have "oe_Ref e \<in> fst ` set (grouping es []) \<longleftrightarrow> (\<exists>cs. (oe_Ref e, cs) \<in> set (grouping es []))" by force
    then show ?thesis unfolding mem by auto
  qed
  have "(ref, cs) \<in> set (add_candidate (oe_Ref e) (candidate e) (grouping es [])) \<longleftrightarrow>
      cs \<noteq> [] \<and> cs = map candidate (filter (\<lambda>e. oe_Ref e = ref) (es @ [e]))"
  proof (cases "ref = oe_Ref e")
    case True
    then show ?thesis using key mem[of ref] by (simp add: add_candidate_mem[OF d]) blast
  next
    case False
    then show ?thesis using mem[of ref cs] by (auto simp: add_candidate_mem[OF d])
  qed
  then show ?case using add_candidate_distinct[OF d] by simp
qed simp

section \<open>What a flush delivers and reports\<close>

text \<open>The entries a flush may send: an approved creation or comment, and of the
  sendable state entries of a reference the newest.\<close>

definition deliverable :: "db \<Rightarrow> OutboxEntry list \<Rightarrow> OutboxEntry \<Rightarrow> bool" where
  "deliverable s es e \<longleftrightarrow> direct e \<or> (sendable s e \<and> last (filter (\<lambda>x. sendable s x \<and> oe_Ref x = oe_Ref e) es) = e)"

definition any_order :: "('g list \<Rightarrow> 'g list) \<Rightarrow> bool" where
  "any_order order \<longleftrightarrow> (\<forall>gs. mset (order gs) = mset gs)"

lemma any_order_set: "any_order order \<Longrightarrow> set (order gs) = set gs"
  unfolding any_order_def by (metis set_mset_mset)

lemma groups_sendable:
  assumes "any_order order"
  shows "g \<in> set (order (grouping (filter (sendable s) es) [])) \<longleftrightarrow>
    snd g \<noteq> [] \<and> snd g = map candidate (filter (\<lambda>x. sendable s x \<and> oe_Ref x = fst g) es)"
  using grouping_mem[of "filter (sendable s) es" "fst g" "snd g"]
  by (simp add: any_order_set[OF assms] conj_commute)

text \<open>The identities put in \<open>selected\<close> by the first two loops.\<close>

lemma selected_deliverable:
  assumes "any_order order" "distinct (map oe_ID es)" "e \<in> set es"
  shows "oe_ID e \<in> set (map oe_ID (filter direct es) @ map (\<lambda>g. oe_ID (fst (last (snd g)))) (order (grouping (filter (sendable s) es) [])))
    \<longleftrightarrow> deliverable s es e"
proof -
  let ?of = "\<lambda>ref. filter (\<lambda>x. sendable s x \<and> oe_Ref x = ref) es"
  have inj: "x = e" if "x \<in> set es" "oe_ID x = oe_ID e" for x using that assms(2,3) by (metis distinct_mapD)
  have newest: "last (?of ref) \<in> set es \<and> sendable s (last (?of ref)) \<and> oe_Ref (last (?of ref)) = ref" if "?of ref \<noteq> []" for ref
    using last_in_set[OF that] by auto
  have last: "fst (last (map candidate xs)) = last xs" if "xs \<noteq> []" for xs using that by (simp add: last_map candidate_def)
  have "(\<exists>g \<in> set (order (grouping (filter (sendable s) es) [])). oe_ID e = oe_ID (fst (last (snd g))))
      \<longleftrightarrow> (\<exists>ref. ?of ref \<noteq> [] \<and> oe_ID (last (?of ref)) = oe_ID e)" (is "?L \<longleftrightarrow> ?R")
  proof
    assume ?L
    then obtain g where g: "snd g \<noteq> []" "snd g = map candidate (?of (fst g))" "oe_ID e = oe_ID (fst (last (snd g)))"
      using groups_sendable[OF assms(1)] by blast
    then have "?of (fst g) \<noteq> []" by simp
    then show ?R using g(2,3) last[of "?of (fst g)"] by (intro exI[of _ "fst g"]) simp
  next
    assume ?R
    then obtain ref where r: "?of ref \<noteq> []" "oe_ID (last (?of ref)) = oe_ID e" by blast
    then have "(ref, map candidate (?of ref)) \<in> set (order (grouping (filter (sendable s) es) []))"
      using groups_sendable[OF assms(1)] by simp
    then show ?L using r last[OF r(1)] by (intro bexI[of _ "(ref, map candidate (?of ref))"]) simp_all
  qed
  also have "\<dots> \<longleftrightarrow> (\<exists>ref. ?of ref \<noteq> [] \<and> last (?of ref) = e)"
    by (intro iff_exI conj_cong refl iffI arg_cong[where f = oe_ID]) (blast dest: newest intro: inj, assumption)
  also have "\<dots> \<longleftrightarrow> sendable s e \<and> last (?of (oe_Ref e)) = e" 
  proof
    assume "\<exists>ref. ?of ref \<noteq> [] \<and> last (?of ref) = e"
    then obtain ref where r: "?of ref \<noteq> []" "last (?of ref) = e" by blast
    then have "oe_Ref e = ref" "sendable s e" using newest[OF r(1)] by simp_all
    then show "sendable s e \<and> last (?of (oe_Ref e)) = e" using r(2) by simp
  next
    assume "sendable s e \<and> last (?of (oe_Ref e)) = e"
    then show "\<exists>ref. ?of ref \<noteq> [] \<and> last (?of ref) = e" using assms(3) by (intro exI[of _ "oe_Ref e"]) (auto simp: filter_empty_conv)
  qed
  finally show ?thesis using inj assms(3) by (auto simp: deliverable_def)
qed

text \<open>Every approved entry is refused by the first loop, superseded by the second or sent by the third.\<close>

lemma approved_covered:
  assumes "any_order order" "distinct (map oe_ID es)" "e \<in> set es" "oe_State e = ''approved''"
  shows "e \<in> set (filter (rejected s) es) \<or> deliverable s es e
    \<or> oe_ID e \<in> set (concat (map (\<lambda>g. map (oe_ID \<circ> fst) (butlast (snd g))) (order (grouping (filter (sendable s) es) []))))"
proof (cases "sendable s e")
  case True
  let ?xs = "filter (\<lambda>x. sendable s x \<and> oe_Ref x = oe_Ref e) es"
  have e: "e \<in> set ?xs" using True assms(3) by simp
  then have "?xs \<noteq> []" by (metis empty_iff empty_set)
  then have g: "(oe_Ref e, map candidate ?xs) \<in> set (order (grouping (filter (sendable s) es) []))"
    using groups_sendable[OF assms(1), of "(oe_Ref e, map candidate ?xs)" s es] by simp
  show ?thesis
  proof (cases "last ?xs = e")
    case False
    then have "e \<in> set (butlast ?xs)" using e \<open>?xs \<noteq> []\<close> by (cases ?xs rule: rev_cases) auto
    then have "oe_ID e \<in> set (map (oe_ID \<circ> fst) (butlast (map candidate ?xs)))" by (force simp: map_butlast[symmetric] candidate_def)
    then show ?thesis using g by force
  qed (use True in \<open>simp add: deliverable_def\<close>)
next
  case False
  then show ?thesis using assms(3,4) by (auto simp: rejected_def direct_def deliverable_def)
qed

lemma entries_distinct: "reachable st \<Longrightarrow> distinct (map oe_ID (OutboxEntries (st_db st) repo))"
  using reachable_outbox_ids[of st] by (simp add: OutboxEntries_def Outbox_def scanOutbox_def comp_def distinct_map_filter)

lemma approved_entries: "approved_ids s repo = {oe_ID e |e. e \<in> set (OutboxEntries s repo) \<and> oe_State e = ''approved''}"
  by (force simp: approved_ids_def OutboxEntries_def Outbox_def scanOutbox_def)

text \<open>The state a flush is in before its third loop.\<close>

lemma run_flush_split:
  assumes "run_flush msg order actor repo seam st w = (f', r)" "reachable st"
  obtains (early) e where "r = Inl e" "fl_world f' = w"
  | (sending) f where "each (deliver seam actor repo) (OutboxEntries (st_db st) repo) f = (f', r)" "fl_world f = w"
      "fl_selected f = map oe_ID (filter direct (OutboxEntries (st_db st) repo))
         @ map (\<lambda>g. oe_ID (fst (last (snd g)))) (order (grouping (filter (sendable (st_db st)) (OutboxEntries (st_db st) repo)) []))"
      "map er_ID (fl_report f) = map oe_ID (filter (rejected (st_db st)) (OutboxEntries (st_db st) repo))
         @ concat (map (\<lambda>g. map (oe_ID \<circ> fst) (butlast (snd g)))
             (order (grouping (filter (sendable (st_db st)) (OutboxEntries (st_db st) repo)) [])))"
proof -
  let ?es = "OutboxEntries (st_db st) repo"
  obtain f1 r1 where c: "each (classify msg actor repo) ?es (flush_begin st w) = (f1, r1)" by fastforce
  obtain f2 r2 where s: "each (supersede actor repo) (order (fl_groups f1)) f1 = (f2, r2)" by fastforce
  have "calm (flush_begin st w) f1"
    using calm_each[where k = "classify msg actor repo" and f = "flush_begin st w" and xs = ?es] c by (simp add: calm_classify)
  moreover have "calm f1 f2" 
    using calm_each[where k = "supersede actor repo" and f = f1 and xs = "order (fl_groups f1)"] s by (simp add: calm_supersede)
  ultimately have w: "fl_world f1 = w" "fl_world f2 = w" by (simp_all add: calm_def flush_begin_def)
  show thesis
  proof (cases r1)
    case (Inl e)
    then show thesis using assms(1) c w(1) early by (auto simp: run_flush_def after_def)
  next
    case r1: (Inr u)
    show thesis
    proof (cases r2)
      case (Inl e)
      then show thesis using assms(1) c r1 s w(2) early by (auto simp: run_flush_def after_def)
    next
      case (Inr u')
      have d: "each (deliver seam actor repo) ?es f2 = (f', r)" using assms(1) c r1 s Inr by (simp add: run_flush_def after_def)
      have "reachable (fl_store (flush_begin st w))" using assms(2) by (simp add: flush_begin_def)
      note f1 = classify_each[OF c[unfolded r1] this]
      show thesis
        using sending[OF d w(2)] f1 supersede_each[OF s[unfolded Inr]] by (simp add: flush_begin_def)
    qed
  qed
qed

lemma run_flush_covers:
  assumes "reachable st" "any_order order" "run_flush msg order actor repo seam st w = (f', Inr u)"
  shows "approved_ids (st_db st) repo \<subseteq> er_ID ` set (fl_report f')"
  using assms(3,1)
proof (cases rule: run_flush_split)
  case (sending f)
  let ?es = "OutboxEntries (st_db st) repo"
  note d = entries_distinct[OF assms(1), of repo]
  have sel: "oe_ID e \<in> set (fl_selected f) \<longleftrightarrow> deliverable (st_db st) ?es e" if "e \<in> set ?es" for e
    using selected_deliverable[OF assms(2) d that] sending(3) by simp
  have ids: "er_ID ` set (fl_report f') = set (map er_ID (fl_report f)) \<union> oe_ID ` set (filter (\<lambda>e. oe_ID e \<in> set (fl_selected f)) ?es)"
    using arg_cong[OF deliver_reports[OF sending(1)], of set] by simp
  have "oe_ID e \<in> er_ID ` set (fl_report f')" if "e \<in> set ?es" "oe_State e = ''approved''" for e
    using approved_covered[OF assms(2) d that, of "st_db st"] sel[OF that(1)] that(1) unfolding ids sending(4) by auto
  then show ?thesis by (auto simp: approved_entries)
qed simp

lemma run_flush_calls:
  assumes "reachable st" "any_order order" "run_flush msg order actor repo (heard answer) st [] = (f', r)"
  shows "\<exists>left. filter (deliverable (st_db st) (OutboxEntries (st_db st) repo)) (OutboxEntries (st_db st) repo) = fl_world f' @ left
    \<and> (r = Inr () \<longrightarrow> left = [])"
  using assms(3,1)
proof (cases rule: run_flush_split)
  case (sending f)
  let ?es = "OutboxEntries (st_db st) repo"
  have "filter (\<lambda>e. oe_ID e \<in> set (fl_selected f)) ?es = filter (deliverable (st_db st) ?es) ?es"
    using selected_deliverable[OF assms(2) entries_distinct[OF assms(1)]] sending(3) by (intro filter_cong refl) simp
  then show ?thesis using deliver_calls[OF sending(1)] sending(2) by auto
qed simp

end
