(* ===== verification/DemoFlush.thy ===== *)
theory DemoFlush
  imports DemoTracker TrackerLaws
begin

text \<open>
  The life of \<open>DemoTracker\<close> stopped at the approval of its state entry, and a flush
  of it: a provider that says it delivered, with a lease. The flush asks it once and
  records the push.
\<close>

definition demo_approve_decide :: decision where
  "demo_approve_decide t s m = (m, Inr [demo_draft15, demo_draft16])"

definition demo_approved :: store where
  "demo_approved = \<lparr>st_log = demo_log16, st_db = demo_db16, st_version = Some ''11'', st_mint = demo_mint16\<rparr>"

lemma demo_approve_commit:
  "Commit demo_request demo_approve_decide demo_watch = (demo_approved, Inr [demo_event15, demo_event16])"
proof -
  have w: "st_log demo_watch = demo_log14" "st_db demo_watch = demo_db14"
    by (simp_all add: demo_watch_def demo_later_def demo_log14_def)
  show ?thesis using demo_human demo_stamp15 demo_stamp16 demo_record15 demo_record16
    by (simp add: Commit_def demo_approve_decide_def w) (simp add: demo_watch_def demo_later_def demo_approved_def)
qed

lemma demo_approved_reachable: "reachable demo_approved"
proof -
  let ?rds = "[(1014, replicate 10 14), (1015, replicate 10 15), (1016, replicate 10 16)] :: reading list"
  have "wf_reading rd" if "rd \<in> set ?rds" for rd
    using that by (auto simp: wf_reading_def)
  then have "op demo_later demo_watch"
    using op_tick[of ?rds demo_later] by (simp add: demo_watch_def demo_later_def)
  moreover have "minting demo_approve_decide" by (simp add: minting_def demo_approve_decide_def mints_refl)
  then have "op demo_watch demo_approved"
    using op_commit[of demo_approve_decide demo_watch demo_request] by (simp add: demo_approve_commit)
  ultimately have "op\<^sup>*\<^sup>* demo_later demo_approved" by (metis rtranclp.simps)
  then show ?thesis using demo_later_reachable(1) by (rule reachable_ops)
qed

definition demo_answer :: Result where
  "demo_answer = \<lparr>rs_Outcome = Delivered, rs_Ref = [], rs_Lease = ''v1'', rs_Reason = []\<rparr>"

definition demo_sent :: OutboxEntry where
  "demo_sent = \<lparr>oe_ID = demo_out, oe_Repo = id_R, oe_Kind = ''state'', oe_State = ''approved'', oe_Subject = id_R,
     oe_Ref = ''o/r#1'', oe_Lease = [], oe_IdempotencyKey = demo_key, oe_Payload = [(''disposition'', JS TrackerActive)],
     oe_Reason = [], oe_Attempts = 0\<rparr>"

text \<open>The push as a command of its own.\<close>

definition demo_event17a :: event where
  "demo_event17a = demo_event17\<lparr>ev_Causation := ev_ID demo_event17, ev_Correlation := ev_ID demo_event17\<rparr>"

definition demo_flushed :: store where
  "demo_flushed = \<lparr>st_log = demo_log16 @ [demo_event17a], st_db = demo_db17, st_version = Some ''11'', st_mint = demo_mint17\<rparr>"

lemma demo_entries: "OutboxEntries demo_db16 id_R = [demo_sent]" "FindTrackerPushRecord demo_db16 ref = None"
  by (simp_all add: OutboxEntries_def Outbox_def scanOutbox_def demo_db16_def demo_no_outbox demo_entry16_def demo_entry15_def
      demo_sent_def FindTrackerPushRecord_def)

lemma demo_apply17a:
  "applyEvent \<lparr>tx_log = demo_log16 @ [demo_event17a], tx_defer = False\<rparr> demo_event17a demo_db16 = Inr demo_db17"
proof -
  have "flush_state_entry demo_event17a = flush_state_entry demo_event17" "upsert_push demo_event17a = upsert_push demo_event17"
      "ev_Payload demo_event17a = ev_Payload demo_event17"
    by (simp_all add: fun_eq_iff flush_state_entry_def upsert_push_def demo_event17a_def)
  then have "recordTrackerStatePush demo_event17a demo_db16 = recordTrackerStatePush demo_event17 demo_db16"
    by (simp only: recordTrackerStatePush_def)
  then show ?thesis using demo_apply17 by (simp add: fold_outbox_event demo_event17_fields demo_event17a_def)
qed

lemma demo_append17a: "appendEvent demo_log16 demo_event17a = Inr (demo_log16 @ [demo_event17a])"
  using demo_below17 demo_clock17 id_R_shape human_valid
  by (simp add: appendEvent_def dimensions_match_def demo_dimensions_tracker durable_def opt_dim_def demo_event17a_def
      demo_event17_def)

lemma demo_push_verb:
  "PushTrackerState ActorHuman id_R demo_out ''o/r#1'' TrackerActive ''v1'' demo_approved = (demo_flushed, Inr ())"
proof -
  let ?req = "request ActorHuman (repo_env id_R)"
  let ?pay = "marshal_TrackerStatePushed \<lparr>tp_Ref = ''o/r#1'', tp_Disposition = TrackerActive, tp_Lease = ''v1''\<rparr>"
  let ?d = "draft TypeTrackerStatePushed demo_out ?pay"
  let ?ev = "demo_event17\<lparr>ev_Causation := [], ev_Correlation := []\<rparr>"
  have st: "stamp ?req ?d demo_mint16 = (demo_mint17, Inr ?ev)"
    using demo_new17 demo_clock17 id_R_shape
    by (simp add: demo_stamping demo_dimensions_tracker demo_types_tracker demo_event17_def demo_draft17_def draft_def
        request_def repo_env_def)
  have "record_event [] ?d ?ev (demo_log16, demo_db16) = Inr (demo_event17a, demo_log16 @ [demo_event17a], demo_db17)"
    using demo_append17a demo_apply17a by (simp add: record_event_def chain_def demo_event17a_def)
  moreover have "Actor_Role ActorHuman = None" by code_simp
  moreover have "decides (one_draft ?d) t s m = (m, Inr [?d])" for t s m
    by (simp add: decides_def one_draft_def from_db_def)
  ultimately have "drafted ActorHuman id_R TypeTrackerStatePushed demo_out ?pay demo_approved = (demo_flushed, Inr [demo_event17a])"
    using st human_valid
    by (simp add: Commit_def demo_approved_def demo_flushed_def check_actor_def) (simp add: request_def)
  then show ?thesis
    by (simp add: PushTrackerState_def commit_plan_def captured_def one_draft_def from_db_def)
qed

theorem demo_flush:
  "Flush msg (\<lambda>gs. gs) ActorHuman id_R (Some (heard (\<lambda>_ _. Inr demo_answer))) demo_approved []
    = (demo_flushed, [demo_sent], [\<lparr>er_ID = demo_out, er_State = ''flushed'', er_Reason = []\<rparr>], Inr ())"
proof -
  have d: "stateDisposition (oe_Payload demo_sent) = Inr TrackerActive"
    by (simp add: stateDisposition_def demo_sent_def tokens)
  have db: "st_db demo_approved = demo_db16" by (simp add: demo_approved_def)
  let ?f = "(flush_begin demo_approved ([] :: OutboxEntry list))\<lparr>fl_groups := [(''o/r#1'', [(demo_sent, TrackerActive)])]\<rparr>"
  have c: "classify msg ActorHuman id_R demo_sent (flush_begin demo_approved []) = (?f, Inr ())"
    unfolding classify_def d by (simp add: demo_sent_def flush_begin_def db demo_entries)
  have s: "supersede ActorHuman id_R (''o/r#1'', [(demo_sent, TrackerActive)]) ?f = (?f\<lparr>fl_selected := [demo_out]\<rparr>, Inr ())"
    by (simp add: supersede_def flush_begin_def demo_sent_def)
  have r: "recordResult ActorHuman id_R demo_sent demo_answer demo_approved = (demo_flushed, Inr (''flushed'', []))"
    unfolding recordResult_def recordSuccess_def d
    using demo_push_verb by (simp add: demo_answer_def demo_sent_def answered_def tokens)
  have "deliver (heard (\<lambda>_ _. Inr demo_answer)) ActorHuman id_R demo_sent (?f\<lparr>fl_selected := [demo_out]\<rparr>)
      = (?f\<lparr>fl_selected := [demo_out], fl_world := [demo_sent], fl_store := demo_flushed,
           fl_report := [\<lparr>er_ID = demo_out, er_State = ''flushed'', er_Reason = []\<rparr>]\<rparr>, Inr ())"
    unfolding deliver_def using r by (simp add: heard_def reported_def flush_begin_def) (simp add: demo_sent_def)
  then show ?thesis
    using c s by (simp add: Flush_def run_flush_def after_def db demo_entries flush_begin_def)
qed

end
