(* ===== verification/Alignment.thy ===== *)
theory Alignment
  imports Tracker
begin

text \<open>
  The registry of the tracker providers (\<open>internal/tracker/registry.go\<close>), the
  resolution of the seam a Repo configures (\<open>resolve.go\<close>) and the comparison of
  the live provider states with the store after a seal (\<open>state.go\<close>,
  \<open>alignment.go\<close>).

  A seam is a value of any type; \<open>reader\<close> is the type assertion to
  \<open>StateReader\<close>, and a read may change the world and fails with the text of its
  error. \<open>quoted\<close> is the verb \<open>%q\<close> and \<open>msg\<close> is \<open>err.Error()\<close>: they only enter the
  reasons shown to the operator.
\<close>

section \<open>Providers\<close>

record Repo =
  rp_ID :: string
  rp_RemoteURL :: string
  rp_IdentityRemote :: string
  rp_Label :: string

definition view_Repo :: "db \<Rightarrow> string \<Rightarrow> Repo result" where
  "view_Repo s ident = of_option (ERefused ''no repo'')
     (map_option (\<lambda>r. \<lparr>rp_ID = r_id r, rp_RemoteURL = coalesce (r_remote_url r),
        rp_IdentityRemote = coalesce (r_identity_remote r), rp_Label = coalesce (r_label r)\<rparr>)
       (List.find (\<lambda>r. r_id r = ident) (repos s)))"

record FactoryInput =
  fi_Repo :: Repo
  fi_Target :: string
  fi_CanceledLabel :: string
  fi_Project :: string

text \<open>The map of a registry, by the order of the registrations.\<close>

type_synonym 's providers = "(string \<times> (FactoryInput \<Rightarrow> string + 's)) list"

definition tracker_NewRegistry :: "'s providers" where
  "tracker_NewRegistry = []"

text \<open>\<open>None\<close> is a panic.\<close>

definition tracker_Register :: "string \<Rightarrow> (FactoryInput \<Rightarrow> string + 's) option \<Rightarrow> 's providers \<Rightarrow> 's providers option" where
  "tracker_Register name factory r =
     (let name = trim_space name in
      case factory of
        None \<Rightarrow> None
      | Some f \<Rightarrow> if name = [] then None
                  else if map_of r name \<noteq> None then None
                  else Some (r @ [(name, f)]))"

definition tracker_Names :: "'s providers option \<Rightarrow> string list" where
  "tracker_Names r = (case r of None \<Rightarrow> [] | Some fs \<Rightarrow> sort (map fst fs))"

datatype seam_error = ErrNoBackend | ReadFailed error | NotRegistered string | Construction string

definition tracker_Resolve :: "'s providers option \<Rightarrow> string \<Rightarrow> FactoryInput \<Rightarrow> seam_error + 's" where
  "tracker_Resolve r name input =
     (case r of
        None \<Rightarrow> Inl (NotRegistered name)
      | Some fs \<Rightarrow> (case map_of fs name of
          None \<Rightarrow> Inl (NotRegistered name)
        | Some factory \<Rightarrow> (case factory input of Inl e \<Rightarrow> Inl (Construction e) | Inr seam \<Rightarrow> Inr seam)))"

section \<open>The configured seam\<close>

definition TrackerTargetKey :: string where [tokens]: "TrackerTargetKey = ''tracker.target''"
definition TrackerCanceledLabelKey :: string where [tokens]: "TrackerCanceledLabelKey = ''tracker.canceled-label''"
definition TrackerProjectKey :: string where [tokens]: "TrackerProjectKey = ''tracker.project''"

record SeamConfig =
  sc_Backend :: string
  sc_Target :: string
  sc_CanceledLabel :: string
  sc_Project :: string
  sc_Repo :: Repo

definition zero_Repo :: Repo where
  "zero_Repo = \<lparr>rp_ID = [], rp_RemoteURL = [], rp_IdentityRemote = [], rp_Label = []\<rparr>"

definition zero_SeamConfig :: SeamConfig where
  "zero_SeamConfig = \<lparr>sc_Backend = [], sc_Target = [], sc_CanceledLabel = [], sc_Project = [], sc_Repo = zero_Repo\<rparr>"

definition backendConfigured :: "string \<Rightarrow> bool" where
  "backendConfigured backend = (backend \<noteq> [] \<and> backend \<noteq> ''none'')"

definition Configured :: "SeamConfig \<Rightarrow> bool" where
  "Configured c = backendConfigured (sc_Backend c)"

definition ReadSeamConfig :: "db \<Rightarrow> string \<Rightarrow> SeamConfig result" where
  "ReadSeamConfig s repoID =
     (let backend = coalesce (view_Config s repoID TrackerBackendKey);
          config = zero_SeamConfig\<lparr>sc_Backend := trim_space backend\<rparr> in
      if \<not> backendConfigured (sc_Backend config) then Inr config
      else rbind (view_Repo s repoID) (\<lambda>repo.
        Inr (config\<lparr>sc_Target := coalesce (view_Config s repoID TrackerTargetKey),
          sc_CanceledLabel := coalesce (view_Config s repoID TrackerCanceledLabelKey),
          sc_Project := coalesce (view_Config s repoID TrackerProjectKey), sc_Repo := repo\<rparr>)))"

definition ResolveSeam :: "db \<Rightarrow> 's providers option \<Rightarrow> string \<Rightarrow> SeamConfig \<times> (seam_error + 's)" where
  "ResolveSeam s providers repoID =
     (case ReadSeamConfig s repoID of
        Inl e \<Rightarrow> (zero_SeamConfig, Inl (ReadFailed e))
      | Inr c \<Rightarrow>
          if \<not> backendConfigured (sc_Backend c) then (c, Inl ErrNoBackend)
          else (c, tracker_Resolve providers (sc_Backend c)
            \<lparr>fi_Repo = sc_Repo c, fi_Target = sc_Target c, fi_CanceledLabel = sc_CanceledLabel c,
             fi_Project = sc_Project c\<rparr>))"

section \<open>Live states and alignments\<close>

definition LiveBacklog :: string where [tokens]: "LiveBacklog = ''backlog''"
definition LiveActive :: string where [tokens]: "LiveActive = ''active''"
definition LiveNonterminal :: string where [tokens]: "LiveNonterminal = ''nonterminal''"
definition LiveCompleted :: string where [tokens]: "LiveCompleted = ''completed''"
definition LiveCanceled :: string where [tokens]: "LiveCanceled = ''canceled''"
definition LiveTerminal :: string where [tokens]: "LiveTerminal = ''terminal''"

record LiveState =
  lv_Class :: string
  lv_Display :: string
  lv_Lease :: string

definition AlignmentAligned :: string where [tokens]: "AlignmentAligned = ''aligned''"
definition AlignmentAhead :: string where [tokens]: "AlignmentAhead = ''ahead''"
definition AlignmentBehind :: string where [tokens]: "AlignmentBehind = ''behind''"
definition AlignmentConflict :: string where [tokens]: "AlignmentConflict = ''conflict''"
definition AlignmentUnavailable :: string where [tokens]: "AlignmentUnavailable = ''unavailable''"

record Alignment =
  al_Reference :: string
  al_Classification :: string
  al_Expected :: string
  al_Observed :: string
  al_ObservedClass :: string
  al_Lease :: string
  al_Offer :: string
  al_Reason :: string

definition Visible :: "Alignment list \<Rightarrow> bool" where
  "Visible items = list_ex (\<lambda>item. al_Classification item \<noteq> AlignmentAligned) items"

definition alignment_lines :: "Alignment \<Rightarrow> string list" where
  "alignment_lines item =
     (if al_Classification item = AlignmentAligned then []
      else if al_Classification item = AlignmentAhead then
        [''tracker '' @ al_Reference item @ '' is ahead: expected '' @ al_Expected item @ '', observed '' @ al_Observed item]
      else if al_Classification item = AlignmentBehind then
        [''tracker '' @ al_Reference item @ '' is behind: expected '' @ al_Expected item @ '', observed '' @ al_Observed item
           @ '' (offer: move to '' @ al_Offer item @ '')'']
      else if al_Classification item = AlignmentConflict then
        [''tracker '' @ al_Reference item @ '' conflicts: expected '' @ al_Expected item @ '', observed '' @ al_Observed item]
      else if al_Classification item = AlignmentUnavailable then
        [''tracker '' @ (if al_Reference item = [] then ''state'' else al_Reference item) @ '' is unavailable: ''
           @ al_Reason item]
      else [])"

definition Lines :: "Alignment list \<Rightarrow> string list" where
  "Lines items = concat (map alignment_lines items)"

definition unavailable :: "string \<Rightarrow> string \<Rightarrow> Alignment" where
  "unavailable ref reason = \<lparr>al_Reference = ref, al_Classification = AlignmentUnavailable, al_Expected = [],
     al_Observed = [], al_ObservedClass = [], al_Lease = [], al_Offer = [], al_Reason = reason\<rparr>"

definition unavailableForRefs :: "string list \<Rightarrow> string \<Rightarrow> Alignment list" where
  "unavailableForRefs refs reason = map (\<lambda>ref. unavailable ref reason) refs"

definition validateLiveState :: "(string \<Rightarrow> string) \<Rightarrow> LiveState \<Rightarrow> string + unit" where
  "validateLiveState quoted live =
     (if lv_Class live \<notin> set [LiveBacklog, LiveActive, LiveNonterminal, LiveCompleted, LiveCanceled, LiveTerminal]
      then Inl (''provider returned unknown live-state class '' @ quoted (lv_Class live))
      else if trim_space (lv_Display live) = [] \<or> trim_space (lv_Lease live) = []
      then Inl ''provider returned live state without a display state and lease''
      else Inr ())"

definition classifyAlignment :: "(string \<Rightarrow> string) \<Rightarrow> string \<Rightarrow> string \<Rightarrow> LiveState \<Rightarrow> Alignment" where
  "classifyAlignment quoted ref expected live =
     (let item = \<lparr>al_Reference = ref, al_Classification = [], al_Expected = expected, al_Observed = lv_Display live,
            al_ObservedClass = lv_Class live, al_Lease = lv_Lease live, al_Offer = [], al_Reason = []\<rparr>;
          behind = item\<lparr>al_Classification := AlignmentBehind, al_Offer := expected\<rparr>;
          class = lv_Class live in
      if expected = TrackerActive then
        (if class = LiveActive \<or> class = LiveNonterminal then item\<lparr>al_Classification := AlignmentAligned\<rparr>
         else if class = LiveBacklog then behind
         else if class = LiveCompleted then item\<lparr>al_Classification := AlignmentAhead\<rparr>
         else item\<lparr>al_Classification := AlignmentConflict\<rparr>)
      else if expected = TrackerCompleted then
        (if class = LiveCompleted then item\<lparr>al_Classification := AlignmentAligned\<rparr>
         else if class \<in> set [LiveBacklog, LiveActive, LiveNonterminal] then behind
         else item\<lparr>al_Classification := AlignmentConflict\<rparr>)
      else if expected = TrackerCanceled then
        (if class = LiveCanceled then item\<lparr>al_Classification := AlignmentAligned\<rparr>
         else if class \<in> set [LiveBacklog, LiveActive, LiveNonterminal] then behind
         else item\<lparr>al_Classification := AlignmentConflict\<rparr>)
      else unavailable ref (''unknown expected tracker disposition '' @ quoted expected))"

section \<open>The post-seal check\<close>

type_synonym 'w reader = "'w \<Rightarrow> string \<Rightarrow> 'w \<times> (string + LiveState)"

definition align_one ::
  "(error \<Rightarrow> string) \<Rightarrow> (string \<Rightarrow> string) \<Rightarrow> tx \<Rightarrow> db \<Rightarrow> 'w reader \<Rightarrow> string \<Rightarrow> 'w \<Rightarrow> 'w \<times> Alignment" where
  "align_one msg quoted t s ReadState ref w =
     (case TrackerAggregate t s ref of
        Inl e \<Rightarrow> (w, unavailable ref (msg e))
      | Inr None \<Rightarrow> (w, unavailable ref ''reference has no active local binding'')
      | Inr (Some expected) \<Rightarrow>
          (case ReadState w ref of
             (w', Inl readErr) \<Rightarrow> (w', unavailable ref readErr)
           | (w', Inr live) \<Rightarrow>
               (case validateLiveState quoted live of
                  Inl reason \<Rightarrow> (w', unavailable ref reason)
                | Inr _ \<Rightarrow> (w', classifyAlignment quoted ref expected live))))"

primrec align_loop ::
  "(error \<Rightarrow> string) \<Rightarrow> (string \<Rightarrow> string) \<Rightarrow> tx \<Rightarrow> db \<Rightarrow> 'w reader \<Rightarrow> string list \<Rightarrow> 'w \<Rightarrow> 'w \<times> Alignment list" where
  "align_loop msg quoted t s ReadState [] w = (w, [])"
| "align_loop msg quoted t s ReadState (ref # refs) w =
     (case align_one msg quoted t s ReadState ref w of
        (w', item) \<Rightarrow> (case align_loop msg quoted t s ReadState refs w' of (w'', items) \<Rightarrow> (w'', item # items)))"

definition seam_error_text :: "(error \<Rightarrow> string) \<Rightarrow> (string \<Rightarrow> string) \<Rightarrow> seam_error \<Rightarrow> string" where
  "seam_error_text msg quoted e =
     (case e of
        ErrNoBackend \<Rightarrow> ''tracker: no provider seam configured''
      | ReadFailed x \<Rightarrow> msg x
      | NotRegistered name \<Rightarrow> ''tracker: backend '' @ quoted name @ '' is not registered''
      | Construction x \<Rightarrow> x)"

definition alignRefs ::
  "(error \<Rightarrow> string) \<Rightarrow> (string \<Rightarrow> string) \<Rightarrow> 's providers option \<Rightarrow> ('s \<Rightarrow> 'w reader option) \<Rightarrow> tx \<Rightarrow> db \<Rightarrow> string
     \<Rightarrow> string list \<Rightarrow> 'w \<Rightarrow> 'w \<times> Alignment list" where
  "alignRefs msg quoted providers reader t s repo refs w =
     (case ResolveSeam s providers repo of
        (_, Inl ErrNoBackend) \<Rightarrow> (w, unavailableForRefs refs ''tracker backend is none'')
      | (_, Inl e) \<Rightarrow> (w, unavailableForRefs refs (seam_error_text msg quoted e))
      | (c, Inr seam) \<Rightarrow>
          (case reader seam of
             None \<Rightarrow> (w, unavailableForRefs refs
               (''tracker backend '' @ quoted (sc_Backend c) @ '' does not support live-state reads''))
           | Some ReadState \<Rightarrow> align_loop msg quoted t s ReadState refs w))"

definition Check ::
  "(error \<Rightarrow> string) \<Rightarrow> (string \<Rightarrow> string) \<Rightarrow> 's providers option \<Rightarrow> ('s \<Rightarrow> 'w reader option) \<Rightarrow> tx \<Rightarrow> db \<Rightarrow> string
     \<Rightarrow> 'w \<Rightarrow> 'w \<times> Alignment list" where
  "Check msg quoted providers reader t s matterID w =
     (case view_Node s matterID of
        Inl e \<Rightarrow> (w, [unavailable [] (msg e)])
      | Inr matter \<Rightarrow>
          if N_Kind matter \<noteq> ScaleMatter then (w, [])
          else case view_NodeCompletion t s matter of
            Inl e \<Rightarrow> (w, [unavailable [] (msg e)])
          | Inr completion \<Rightarrow>
              if \<not> nc_Sealed completion then (w, [])
              else let refs = TrackerReferences s (N_ID matter) in
                if refs = [] then (w, [])
                else alignRefs msg quoted providers reader t s (N_Repo matter) refs w)"

section \<open>What the check says\<close>

text \<open>An offer moves a reference forward, from a state the provider may still leave to the
  aggregate of the store.\<close>

definition forward :: "tx \<Rightarrow> db \<Rightarrow> Alignment \<Rightarrow> bool" where
  "forward t s item \<longleftrightarrow> al_Offer item \<noteq> [] \<longrightarrow> al_Classification item = AlignmentBehind
     \<and> TrackerAggregate t s (al_Reference item) = Inr (Some (al_Offer item))
     \<and> al_ObservedClass item \<in> {LiveBacklog, LiveActive, LiveNonterminal}"

lemma align_one_says:
  assumes "align_one msg quoted t s ReadState ref w = (w', item)"
  shows "al_Reference item = ref \<and> forward t s item"
proof (cases "TrackerAggregate t s ref")
  case (Inl e)
  then show ?thesis using assms by (auto simp: align_one_def unavailable_def forward_def)
next
  case (Inr a)
  then show ?thesis using assms
    by (cases a) (auto simp: align_one_def unavailable_def classifyAlignment_def forward_def Let_def split: prod.splits sum.splits if_splits)
qed

lemma align_loop_says:
  "align_loop msg quoted t s ReadState refs w = (w', items) \<Longrightarrow> map al_Reference items = refs \<and> list_all (forward t s) items"
proof (induction refs arbitrary: w w' items)
  case (Cons ref refs)
  obtain w1 item items' where i: "align_one msg quoted t s ReadState ref w = (w1, item)"
      "align_loop msg quoted t s ReadState refs w1 = (w', items')" "items = item # items'"
    using Cons.prems by (auto split: prod.splits)
  then show ?case using Cons.IH[OF i(2)] align_one_says[OF i(1)] by simp
qed simp

lemma alignRefs_says:
  assumes "alignRefs msg quoted providers reader t s repo refs w = (w', items)"
  shows "map al_Reference items = refs \<and> list_all (forward t s) items"
proof -
  have un: "map al_Reference (unavailableForRefs refs reason) = refs \<and> list_all (forward t s) (unavailableForRefs refs reason)" for reason
    by (auto simp: unavailableForRefs_def unavailable_def forward_def comp_def list_all_iff)
  obtain c r where r: "ResolveSeam s providers repo = (c, r)" by fastforce
  show ?thesis
  proof (cases r)
    case (Inl e)
    then show ?thesis using assms r un by (cases e) (auto simp: alignRefs_def)
  next
    case (Inr seam)
    show ?thesis
    proof (cases "reader seam")
      case None
      then show ?thesis using assms r Inr un by (auto simp: alignRefs_def)
    next
      case (Some ReadState)
      then have "align_loop msg quoted t s ReadState refs w = (w', items)" using assms r Inr by (simp add: alignRefs_def)
      then show ?thesis by (rule align_loop_says)
    qed
  qed
qed

text \<open>A duplicate or malformed registration panics; otherwise the names stay distinct and
  sorted, and the new factory answers under its trimmed name.\<close>

lemma tracker_Register_answers:
  assumes "tracker_Register name (Some f) r = Some r'" "distinct (map fst r)"
  shows "distinct (map fst r') \<and> sorted_wrt (<) (tracker_Names (Some r')) \<and> map_of r' (trim_space name) = Some f
    \<and> (\<forall>n. n \<noteq> trim_space name \<longrightarrow> map_of r' n = map_of r n)"
proof -
  have r': "r' = r @ [(trim_space name, f)]" "map_of r (trim_space name) = None"
    using assms(1) by (auto simp: tracker_Register_def Let_def split: if_splits)
  have d: "distinct (map fst r')" using assms(2) r' by (auto simp: map_of_eq_None_iff)
  moreover have "sorted_wrt (<) (tracker_Names (Some r'))" using d by (simp add: tracker_Names_def strict_sorted_iff)
  ultimately show ?thesis using r' by (simp add: map_add_def split: option.splits)
qed

section \<open>A sealed Matter\<close>

text \<open>A Repo with a backend and one Matter that is done, has no gate and one reference.\<close>

definition aligned_db :: db where
  "aligned_db = empty_db\<lparr>
     repos := [\<lparr>r_id = ''r'', r_remote_url = Some ''u'', r_identity_remote = None, r_label = None, r_birth = ''1'', r_last = ''1''\<rparr>],
     nodes := [\<lparr>n_id = ''m'', n_kind = ScaleMatter, n_repo = ''r'', n_matter = ''m'', n_parent = None, n_locator = ''m'',
       n_title = ''M'', n_lifecycle = Done, n_sort_key = 0, n_external_ref = None, n_birth = ''2'', n_last = ''3'', n_tombstone = None\<rparr>],
     config := [\<lparr>cf_repo = ''r'', cf_key = TrackerBackendKey, cf_value = ''gh''\<rparr>],
     tracker_references := [\<lparr>t_matter = ''m'', t_ref = ''o/r#1'', t_removed = None, t_birth = ''4'', t_last = ''4''\<rparr>]\<rparr>"

definition aligned_matter :: Node where
  "aligned_matter = \<lparr>N_ID = ''m'', N_Kind = ScaleMatter, N_Repo = ''r'', N_Matter = ''m'', N_Parent = [], N_Locator = ''m'',
     N_Title = ''M'', N_Lifecycle = Done, N_SortKey = 0, N_ExternalRef = []\<rparr>"

definition aligned_sealed :: NodeCompletion where
  "aligned_sealed = projr (view_NodeCompletion \<lparr>tx_log = [], tx_defer = False\<rparr> aligned_db aligned_matter)"

text \<open>A provider that shows the reference open and counts its reads.\<close>

definition aligned_out :: "nat \<times> Alignment list" where
  "aligned_out = Check (\<lambda>_. ''error'') (\<lambda>q. q) (Some [(''gh'', \<lambda>_. Inr ())])
     (\<lambda>_. Some (\<lambda>w ref. (Suc w, Inr \<lparr>lv_Class = LiveActive, lv_Display = ''open'', lv_Lease = ''v7''\<rparr>)))
     \<lparr>tx_log = [], tx_defer = False\<rparr> aligned_db ''m'' 0"

end
