(* ===== verification/Scheduler.thy ===== *)
theory Scheduler
  imports Frontier VerbsExec
begin

text \<open>
  The Orchestrator loop (\<open>internal/scheduler/loop.go\<close>, \<open>resume.go\<close>): one pass over
  one open Run. A pass spawns the Orchestrator on the worktree's plain bracket,
  engages ready work under per-Matter claims until nothing is selected or the
  policy halts it, and settles the members: it parks the ones that wait for a
  gate, skips the blocked ones, and finishes the Run when every member is
  through.

  The hooks are code outside the engine and parameters: each may change its
  world and, through the verbs, the store. The run lock is the parameter
  \<open>lock\<close>. The pass is a function of its state with errors as values; \<open>then_do\<close> is the
  sequencing of statements with the early return on an error. The two loops that
  have no bound of their own have fuel: \<open>completeContainers\<close> a round per node and one
  more, \<open>engage\<close> the argument of the pass. A pass that ran out of it has not come to its
  end, and is \<open>None\<close>; \<open>SchedulerEnds\<close> shows that some fuel is enough.
\<close>

section \<open>Policies, hooks, outcomes\<close>

datatype Handling = HandleSkip | HandleHalt | HandleAsk

record Policy =
  po_Contention :: Handling
  po_Blocked :: Handling
  po_Failed :: Handling

text \<open>A \<open>StepSpec\<close> is its title. \<open>None\<close> is a nil hook; the error of a hook is its text.\<close>

record 'w Hooks =
  hk_Work :: "('w \<Rightarrow> store \<Rightarrow> Node \<Rightarrow> 'w \<times> store \<times> string option) option"
  hk_Plan :: "('w \<Rightarrow> store \<Rightarrow> Node \<Rightarrow> 'w \<times> store \<times> (string + string list)) option"
  hk_Ask :: "('w \<Rightarrow> store \<Rightarrow> Node \<Rightarrow> string \<Rightarrow> 'w \<times> store \<times> Handling) option"
  hk_PostSeal :: "('w \<Rightarrow> store \<Rightarrow> Node \<Rightarrow> 'w \<times> store) option"

definition StateFinished :: string where [tokens]: "StateFinished = ''finished''"
definition StateStandingBy :: string where [tokens]: "StateStandingBy = ''standing-by''"
definition StateHalted :: string where [tokens]: "StateHalted = ''halted''"

record Skip =
  sk_Matter :: Node
  sk_Reason :: string

record Outcome =
  oc_State :: string
  oc_HaltedOn :: "Skip option"
  oc_Worked :: "Node list"
  oc_Skipped :: "Skip list"
  oc_Parked :: "Node list"

text \<open>What does not change during a pass, and what does. The maps \<open>claims\<close> and \<open>skipped\<close> are
  lists of their entries.\<close>

record 'w engine =
  en_driver :: Actor
  en_env :: Env
  en_run :: run_row
  en_cap :: int
  en_policy :: Policy
  en_hooks :: "'w Hooks"
  en_resume :: bool

record 'w pass =
  pa_store :: store
  pa_world :: 'w
  pa_orchestrator :: string
  pa_claims :: "(string \<times> string) list"
  pa_skipped :: "string list"
  pa_out :: Outcome
  pa_spent :: bool

section \<open>Statements\<close>

definition then_do :: "('p \<Rightarrow> 'p \<times> 'a result) \<Rightarrow> ('a \<Rightarrow> 'p \<Rightarrow> 'p \<times> 'b result) \<Rightarrow> 'p \<Rightarrow> 'p \<times> 'b result" where
  "then_do m k p = (case m p of (p', Inl e) \<Rightarrow> (p', Inl e) | (p', Inr x) \<Rightarrow> k x p')"

definition return :: "'a \<Rightarrow> 'p \<Rightarrow> 'p \<times> 'a result" where
  "return x p = (p, Inr x)"

definition viewing :: "(tx \<Rightarrow> db \<Rightarrow> 'a result) \<Rightarrow> 'w pass \<Rightarrow> 'w pass \<times> 'a result" where
  "viewing f p = (p, f (tx_of (pa_store p)) (st_db (pa_store p)))"

definition changing :: "('w pass \<Rightarrow> 'w pass) \<Rightarrow> 'w pass \<Rightarrow> 'w pass \<times> unit result" where
  "changing f p = (f p, Inr ())"

definition committing :: "'w engine \<Rightarrow> Actor \<Rightarrow> 'c plan \<Rightarrow> 'w pass \<Rightarrow> 'w pass \<times> 'c result" where
  "committing g actor plan p =
     (case commit_plan (request actor (en_env g)) plan (\<lambda>c _. Inr c) (pa_store p) of
        (st', r) \<Rightarrow> (p\<lparr>pa_store := st'\<rparr>, r))"

definition outcome :: "(Outcome \<Rightarrow> Outcome) \<Rightarrow> 'w pass \<Rightarrow> 'w pass" where
  "outcome f p = p\<lparr>pa_out := f (pa_out p)\<rparr>"

definition halted :: "'w pass \<Rightarrow> bool" where
  "halted p = (oc_State (pa_out p) = StateHalted)"

text \<open>Running out of fuel: the flag says that the pass of the program has not come to its end here.\<close>

definition spent :: "'w pass \<Rightarrow> 'w pass \<times> 'a result" where
  "spent p = (p\<lparr>pa_spent := True\<rparr>, Inl (ERefused ''out of fuel''))"

section \<open>Roles and claims\<close>

definition spawning :: "string \<Rightarrow> RoleName \<Rightarrow> string plan" where
  "spawning dispatch name = from_id (\<lambda>t s ident.
     Inr ([draft TypeRoleSpawned ident (marshal_RoleSpawned \<lparr>rl_Dispatch = dispatch, rl_Name = name\<rparr>)], ident))"

definition pass_spawnRole :: "'w engine \<Rightarrow> Actor \<Rightarrow> string \<Rightarrow> RoleName \<Rightarrow> 'w pass \<Rightarrow> 'w pass \<times> string result" where
  "pass_spawnRole g actor dispatch name = committing g actor (spawning dispatch name)"

definition pass_closeRole :: "'w engine \<Rightarrow> string \<Rightarrow> RoleName \<Rightarrow> 'w pass \<Rightarrow> 'w pass \<times> unit result" where
  "pass_closeRole g ident name =
     then_do (viewing (\<lambda>t s. view_Role s ident)) (\<lambda>role.
     if role_state role \<noteq> ''open'' then return ()
     else committing g (RoleActor name)
       (one_draft (draft TypeRoleClosed ident (marshal_RoleClosed \<lparr>rc_Reason = RoleCloseCompleted\<rparr>))))"

definition pass_skip :: "'w engine \<Rightarrow> Node \<Rightarrow> string \<Rightarrow> Handling \<Rightarrow> 'w pass \<Rightarrow> 'w pass \<times> unit result" where
  "pass_skip g matter reason handling p =
     (let (p1, handling) =
        (if handling = HandleAsk then
           (case hk_Ask (en_hooks g) of
              Some ask \<Rightarrow> (case ask (pa_world p) (pa_store p) matter reason of
                  (w', st', h) \<Rightarrow> (p\<lparr>pa_world := w', pa_store := st'\<rparr>, h))
            | None \<Rightarrow> (p, HandleHalt))
         else (p, handling)) in
      then_do (committing g (RoleActor RoleOrchestrator)
          (one_draft (draft TypeRunSkipped (N_ID matter)
            (marshal_RunSkipped \<lparr>rk_Run = ru_id (en_run g), rk_Reason = reason\<rparr>)))) (\<lambda>_.
        changing (\<lambda>p. let entry = \<lparr>sk_Matter = matter, sk_Reason = reason\<rparr>;
            p' = (outcome (\<lambda>out. out\<lparr>oc_Skipped := oc_Skipped out @ [entry]\<rparr>) p)\<lparr>pa_skipped := pa_skipped p @ [N_ID matter]\<rparr>
          in if handling = HandleHalt
             then outcome (\<lambda>out. out\<lparr>oc_State := StateHalted, oc_HaltedOn := Some entry\<rparr>) p' else p')) p1)"

definition claiming :: "string \<Rightarrow> string \<Rightarrow> string plan" where
  "claiming run matter = from_id (\<lambda>t s ident.
     Inr ([draft TypeDispatchOpened ident (marshal_DispatchOpened \<lparr>do_Run = run, do_Matter = matter\<rparr>)], ident))"

text \<open>The empty identity says that the Matter was skipped, or the pass halted.\<close>

definition openClaim :: "'w engine \<Rightarrow> Node \<Rightarrow> 'w pass \<Rightarrow> 'w pass \<times> string result" where
  "openClaim g matter p =
     (case committing g (RoleActor RoleOrchestrator) (claiming (ru_id (en_run g)) (N_ID matter)) p of
        (p', Inl e) \<Rightarrow>
          if e = ERefused ''refusal.dispatch-contention''
          then then_do (pass_skip g matter RunSkipContention (po_Contention (en_policy g))) (\<lambda>_. return []) p'
          else (p', Inl e)
      | (p', Inr ident) \<Rightarrow> (p', Inr ident))"

definition closeClaim :: "'w engine \<Rightarrow> string \<Rightarrow> 'w pass \<Rightarrow> 'w pass \<times> unit result" where
  "closeClaim g matterID p =
     (case map_of (pa_claims p) matterID of
        None \<Rightarrow> (p, Inr ())
      | Some claim \<Rightarrow> committing g (RoleActor RoleOrchestrator)
          (one_draft (draft TypeDispatchClosed claim (marshal_DispatchClosed \<lparr>dx_Reason = CloseCompleted\<rparr>)))
          (p\<lparr>pa_claims := filter (\<lambda>c. fst c \<noteq> matterID) (pa_claims p)\<rparr>))"

section \<open>Planning, starting, finishing\<close>

fun decimal :: "nat \<Rightarrow> string" where
  "decimal n = (if n < 10 then [char_of (n + 48)] else decimal (n div 10) @ [char_of (n mod 10 + 48)])"

definition step_locator :: "nat \<Rightarrow> string" where
  "step_locator i = ''step-'' @ (if i + 1 < 10 then ''0'' else []) @ decimal (i + 1)"

definition authoring :: "Node \<Rightarrow> nat \<Rightarrow> string \<Rightarrow> unit plan" where
  "authoring matter i title = from_id (\<lambda>t s ident.
     Inr ([draft TypeStepCreated ident (marshal_NodeBirth \<lparr>nb_Title = title, nb_Locator = step_locator i,
        nb_Parent = N_ID matter, nb_SortKey = NextSortKey s (N_ID matter)\<rparr>)], ()))"

primrec author_loop :: "'w engine \<Rightarrow> Node \<Rightarrow> nat \<Rightarrow> string list \<Rightarrow> 'w pass \<Rightarrow> 'w pass \<times> unit result" where
  "author_loop g matter i [] = return ()"
| "author_loop g matter i (title # titles) =
     then_do (committing g (RoleActor RoleResearcher) (authoring matter i title)) (\<lambda>_.
     author_loop g matter (Suc i) titles)"

definition pass_plan ::
  "'w engine \<Rightarrow> ('w \<Rightarrow> store \<Rightarrow> Node \<Rightarrow> 'w \<times> store \<times> (string + string list)) \<Rightarrow> Node \<Rightarrow> string \<Rightarrow> 'w pass \<Rightarrow> 'w pass \<times> bool result" where
  "pass_plan g Plan matter claim p =
     (case Plan (pa_world p) (pa_store p) matter of
        (w', st', r) \<Rightarrow>
          let p1 = p\<lparr>pa_world := w', pa_store := st'\<rparr> in
          (case r of
             Inl e \<Rightarrow> (p1, Inl (ERefused e))
           | Inr [] \<Rightarrow> (p1, Inr False)
           | Inr specs \<Rightarrow>
               then_do (pass_spawnRole g (RoleActor RoleOrchestrator) claim RoleResearcher) (\<lambda>researcher.
               then_do (author_loop g matter 0 specs) (\<lambda>_.
               then_do (pass_closeRole g researcher RoleResearcher) (\<lambda>_. return True))) p1))"

definition startEvent :: "Scale \<Rightarrow> string" where
  "startEvent kind = (if kind = ScaleMatter then TypeMatterStarted else if kind = ScaleStage then TypeStageStarted
     else TypeStepStarted)"

definition finishEvent :: "Scale \<Rightarrow> string" where
  "finishEvent kind = (if kind = ScaleMatter then TypeMatterFinished else if kind = ScaleStage then TypeStageFinished
     else TypeStepFinished)"

definition transition :: "Lifecycle \<Rightarrow> Lifecycle \<Rightarrow> bool \<Rightarrow> json" where
  "transition a b cascade = marshal_Transition \<lparr>tr_From = a, tr_To = b, tr_Cascade = cascade, tr_TrackerPushLevel = [], tr_Reason = []\<rparr>"

definition starting :: "string \<Rightarrow> unit plan" where
  "starting node = from_db (\<lambda>t s.
     rbind (view_Node s node) (\<lambda>fresh.
     if N_Lifecycle fresh \<noteq> Planned then Inl (ERefused ''not Planned'')
     else rbind (ancestorsRootFirst s fresh) (\<lambda>ancestors.
       Inr (map (\<lambda>a. draft (startEvent (N_Kind a)) (N_ID a) (transition Planned InProgress True))
              (filter (\<lambda>a. N_Lifecycle a = Planned) ancestors)
            @ [draft (startEvent (N_Kind fresh)) (N_ID fresh) (transition Planned InProgress False)], ()))))"

definition pass_start :: "'w engine \<Rightarrow> Node \<Rightarrow> 'w pass \<Rightarrow> 'w pass \<times> unit result" where
  "pass_start g node = committing g (RoleActor RoleOrchestrator) (starting (N_ID node))"

definition pass_finish :: "'w engine \<Rightarrow> Node \<Rightarrow> Actor \<Rightarrow> 'w pass \<Rightarrow> 'w pass \<times> unit result" where
  "pass_finish g node actor =
     then_do (committing g actor (one_draft (draft (finishEvent (N_Kind node)) (N_ID node) (transition InProgress Done False)))) (\<lambda>_.
     changing (\<lambda>p. case (if N_Kind node = ScaleMatter then hk_PostSeal (en_hooks g) else None) of
        None \<Rightarrow> p
      | Some postSeal \<Rightarrow> (case postSeal (pa_world p) (pa_store p) node of (w', st') \<Rightarrow> p\<lparr>pa_world := w', pa_store := st'\<rparr>)))"

definition interiorDone :: "db \<Rightarrow> string \<Rightarrow> bool" where
  "interiorDone s parent = (let children = Children s parent in
     list_all (\<lambda>c. N_Lifecycle c = Done \<or> N_Lifecycle c = Canceled) children \<and> children \<noteq> [])"

text \<open>One round over the nodes; it says whether it finished one.\<close>

primrec containers_round ::
  "'w engine \<Rightarrow> Node \<Rightarrow> (string \<Rightarrow> bool) \<Rightarrow> Node list \<Rightarrow> bool \<Rightarrow> 'w pass \<Rightarrow> 'w pass \<times> bool result" where
  "containers_round g matter hasChild [] moved_on = return moved_on"
| "containers_round g matter hasChild (n # ns) moved_on =
     then_do (viewing (\<lambda>t s. view_Node s (N_ID n))) (\<lambda>fresh.
     if N_Lifecycle fresh \<noteq> InProgress \<or> \<not> hasChild (N_ID fresh) then containers_round g matter hasChild ns moved_on
     else then_do (viewing (\<lambda>t s. Inr (interiorDone s (N_ID fresh)))) (\<lambda>through.
       if \<not> through then containers_round g matter hasChild ns moved_on
       else then_do (pass_finish g fresh (RoleActor RoleOrchestrator)) (\<lambda>_.
         then_do (if N_ID fresh = N_ID matter then closeClaim g (N_ID matter) else return ()) (\<lambda>_.
         containers_round g matter hasChild ns True))))"

primrec containers_loop ::
  "nat \<Rightarrow> 'w engine \<Rightarrow> Node \<Rightarrow> (string \<Rightarrow> bool) \<Rightarrow> Node list \<Rightarrow> 'w pass \<Rightarrow> 'w pass \<times> unit result" where
  "containers_loop 0 g matter hasChild ns = spent"
| "containers_loop (Suc k) g matter hasChild ns =
     then_do (containers_round g matter hasChild ns False) (\<lambda>moved_on.
     if \<not> moved_on then return () else containers_loop k g matter hasChild ns)"

definition completeContainers :: "'w engine \<Rightarrow> Node \<Rightarrow> 'w pass \<Rightarrow> 'w pass \<times> unit result" where
  "completeContainers g matter =
     then_do (viewing (\<lambda>t s. Inr (MatterNodes s (N_ID matter)))) (\<lambda>ns.
     containers_loop (Suc (length ns)) g matter (\<lambda>i. list_ex (\<lambda>n. N_Parent n \<noteq> [] \<and> N_Parent n = i) ns) ns)"

section \<open>Engaging\<close>

text \<open>The claim of the Matter, or none when it was skipped.\<close>

definition with_claim :: "'w engine \<Rightarrow> Node \<Rightarrow> 'w pass \<Rightarrow> 'w pass \<times> string option result" where
  "with_claim g matter p =
     (case map_of (pa_claims p) (N_ID matter) of
        Some claim \<Rightarrow> (p, Inr (Some claim))
      | None \<Rightarrow> then_do (openClaim g matter) (\<lambda>claim.
          if claim = [] then return None
          else then_do (changing (\<lambda>p. p\<lparr>pa_claims := pa_claims p @ [(N_ID matter, claim)]\<rparr>)) (\<lambda>_. return (Some claim))) p)"

text \<open>The two ends of a turn of work.\<close>

definition work_failed :: "'w engine \<Rightarrow> Node \<Rightarrow> 'w pass \<Rightarrow> 'w pass \<times> bool result" where
  "work_failed g matter =
     then_do (closeClaim g (N_ID matter)) (\<lambda>_.
     then_do (pass_skip g matter RunSkipFailed (po_Failed (en_policy g))) (\<lambda>_. return True))"

definition work_done :: "'w engine \<Rightarrow> Node \<Rightarrow> Node \<Rightarrow> string \<Rightarrow> 'w pass \<Rightarrow> 'w pass \<times> bool result" where
  "work_done g matter node builder =
     then_do (pass_finish g node (RoleActor RoleBuilder)) (\<lambda>_.
     then_do (pass_closeRole g builder RoleBuilder) (\<lambda>_.
     then_do (changing (outcome (\<lambda>out. out\<lparr>oc_Worked := oc_Worked out @ [node]\<rparr>))) (\<lambda>_.
     then_do (if N_ID node = N_ID matter then closeClaim g (N_ID matter) else completeContainers g matter) (\<lambda>_. return True))))"

definition turn ::
  "'w engine \<Rightarrow> ('w \<Rightarrow> store \<Rightarrow> Node \<Rightarrow> 'w \<times> store \<times> string option) \<Rightarrow> Node \<Rightarrow> Node \<Rightarrow> string \<Rightarrow> 'w pass \<Rightarrow> 'w pass \<times> bool result" where
  "turn g Work matter node builder p =
     (case Work (pa_world p) (pa_store p) node of
        (w', st', workErr) \<Rightarrow>
          (if workErr \<noteq> None then work_failed g matter else work_done g matter node builder)
            (p\<lparr>pa_world := w', pa_store := st'\<rparr>))"

definition working ::
  "'w engine \<Rightarrow> ('w \<Rightarrow> store \<Rightarrow> Node \<Rightarrow> 'w \<times> store \<times> string option) \<Rightarrow> Node \<Rightarrow> Node \<Rightarrow> string \<Rightarrow> 'w pass \<Rightarrow> 'w pass \<times> bool result" where
  "working g Work matter node claim =
     then_do (if N_Lifecycle node = Planned then pass_start g node else return ()) (\<lambda>_.
     then_do (pass_spawnRole g (RoleActor RoleOrchestrator) claim RoleBuilder) (\<lambda>builder.
     turn g Work matter node builder))"

definition engageOne ::
  "'w engine \<Rightarrow> ('w \<Rightarrow> store \<Rightarrow> Node \<Rightarrow> 'w \<times> store \<times> string option) \<Rightarrow> Node \<Rightarrow> 'w pass \<Rightarrow> 'w pass \<times> bool result" where
  "engageOne g Work node =
     then_do (viewing (\<lambda>t s. view_Node s (N_Matter node))) (\<lambda>matter.
     then_do (with_claim g matter) (\<lambda>held.
     case held of None \<Rightarrow> return True
     | Some claim \<Rightarrow> then_do (case hk_Plan (en_hooks g) of
              Some Plan \<Rightarrow> if N_ID node = N_ID matter \<and> N_Lifecycle matter = Planned
                            then pass_plan g Plan matter claim else return False
            | None \<Rightarrow> return False) (\<lambda>planned.
          if planned then return True else working g Work matter node claim)))"

primrec engage_selected ::
  "'w engine \<Rightarrow> ('w \<Rightarrow> store \<Rightarrow> Node \<Rightarrow> 'w \<times> store \<times> string option) \<Rightarrow> Node list \<Rightarrow> 'w pass \<Rightarrow> 'w pass \<times> unit result" where
  "engage_selected g Work [] = return ()"
| "engage_selected g Work (node # ns) =
     then_do (engageOne g Work node) (\<lambda>progressed p.
     if halted p \<or> progressed then (p, Inr ()) else engage_selected g Work ns p)"

definition selection :: "'w engine \<Rightarrow> 'w pass \<Rightarrow> RunFrontier \<Rightarrow> Node list" where
  "selection g p fr =
     (let free = filter (\<lambda>n. N_Matter n \<notin> set (pa_skipped p));
          slots = max 0 (wrap64 (en_cap g - int (length (free (fr_Engaged fr)))));
          selected = Select (free (fr_Ready fr)) slots
      in if en_resume g then free (fr_Engaged fr) @ selected else selected)"

primrec engage ::
  "nat \<Rightarrow> 'w engine \<Rightarrow> ('w \<Rightarrow> store \<Rightarrow> Node \<Rightarrow> 'w \<times> store \<times> string option) \<Rightarrow> 'w pass \<Rightarrow> 'w pass \<times> unit result" where
  "engage 0 g Work = spent"
| "engage (Suc k) g Work =
     then_do (viewing (\<lambda>t s. Derive t s (en_run g) (en_cap g))) (\<lambda>fr p.
     if selection g p fr = [] then (p, Inr ())
     else then_do (engage_selected g Work (selection g p fr)) (\<lambda>_ p.
       if halted p then (p, Inr ()) else engage k g Work p) p)"

section \<open>Settling\<close>

text \<open>The loop over the members; the result says whether the loop came to its end and whether
  every member is through.\<close>

primrec settle_loop :: "'w engine \<Rightarrow> string list \<Rightarrow> bool \<Rightarrow> 'w pass \<Rightarrow> 'w pass \<times> bool option result" where
  "settle_loop g [] allDone = return (Some allDone)"
| "settle_loop g (ident # ids) allDone =
     then_do (viewing (\<lambda>t s. view_Node s ident)) (\<lambda>matter.
     if N_Lifecycle matter = Done then
       then_do (viewing (\<lambda>t s. view_NodeCompletion t s matter)) (\<lambda>completion.
       then_do (if \<not> nc_Sealed completion
                then changing (outcome (\<lambda>out. out\<lparr>oc_Parked := oc_Parked out @ [matter]\<rparr>)) else return ()) (\<lambda>_.
       then_do (closeClaim g (N_ID matter)) (\<lambda>_. settle_loop g ids allDone)))
     else if N_Lifecycle matter = Canceled then
       then_do (closeClaim g (N_ID matter)) (\<lambda>_. settle_loop g ids allDone)
     else (\<lambda>p. if N_ID matter \<in> set (pa_skipped p)
       then then_do (closeClaim g (N_ID matter)) (\<lambda>_. settle_loop g ids False) p
       else then_do (pass_skip g matter RunSkipBlocked (po_Blocked (en_policy g))) (\<lambda>_ p.
         if halted p then (p, Inr None)
         else then_do (closeClaim g (N_ID matter)) (\<lambda>_. settle_loop g ids False) p) p))"

definition settle :: "'w engine \<Rightarrow> 'w pass \<Rightarrow> 'w pass \<times> unit result" where
  "settle g =
     then_do (viewing (\<lambda>t s. Inr (RunMatters s (ru_id (en_run g))))) (\<lambda>members.
     then_do (settle_loop g members True) (\<lambda>ended p.
       case ended of
         None \<Rightarrow> (p, Inr ())
       | Some allDone \<Rightarrow>
           if \<not> allDone \<or> oc_Parked (pa_out p) \<noteq> []
           then (outcome (\<lambda>out. out\<lparr>oc_State := StateStandingBy\<rparr>) p, Inr ())
           else committing g (RoleActor RoleOrchestrator) (one_draft (draft TypeRunFinished (ru_id (en_run g)) []))
                  (outcome (\<lambda>out. out\<lparr>oc_State := StateFinished\<rparr>) p)))"

section \<open>A pass\<close>

text \<open>\<open>run.resumed\<close> and the orphans it reaps, in one command.\<close>

definition reaping :: "string \<Rightarrow> unit plan" where
  "reaping run = from_db (\<lambda>t s.
     rbind (stand_down_drafts s (OpenDispatchesForRun s run)) (\<lambda>rest.
       Inr (draft TypeRunResumed run [] # rest, ())))"

definition reapOrphans :: "'w engine \<Rightarrow> 'w pass \<Rightarrow> 'w pass \<times> unit result" where
  "reapOrphans g = committing g (RoleActor RoleOrchestrator) (reaping (ru_id (en_run g)))"

text \<open>\<open>execute\<close> and \<open>executeResume\<close>, which differ in the orphans. The deferred close of the
  Orchestrator runs on every path after its spawn, and its error is dropped.\<close>

definition execute ::
  "nat \<Rightarrow> 'w engine \<Rightarrow> ('w \<Rightarrow> store \<Rightarrow> Node \<Rightarrow> 'w \<times> store \<times> string option) \<Rightarrow> 'w pass \<Rightarrow> 'w pass \<times> unit result" where
  "execute k g Work p =
     (case view_OpenDispatch (st_db (pa_store p)) (env_Worktree (en_env g)) of
        None \<Rightarrow> (p, Inl (EWip ''validation.no-open-dispatch''))
      | Some bracket \<Rightarrow>
          then_do (pass_spawnRole g (en_driver g) (di_id bracket) RoleOrchestrator) (\<lambda>orchestrator p.
            (case then_do (if en_resume g then reapOrphans g else return ()) (\<lambda>_.
                  then_do (engage k g Work) (\<lambda>_ p. if halted p then (p, Inr ()) else settle g p))
                (p\<lparr>pa_orchestrator := orchestrator\<rparr>) of
               (p', r) \<Rightarrow> (fst (pass_closeRole g orchestrator RoleOrchestrator p'), r))) p)"

definition no_outcome :: Outcome where
  "no_outcome = \<lparr>oc_State = [], oc_HaltedOn = None, oc_Worked = [], oc_Skipped = [], oc_Parked = []\<rparr>"

definition start_pass :: "store \<Rightarrow> 'w \<Rightarrow> 'w pass" where
  "start_pass st w = \<lparr>pa_store = st, pa_world = w, pa_orchestrator = [], pa_claims = [], pa_skipped = [], pa_out = no_outcome, pa_spent = False\<rparr>"

definition run_pass ::
  "bool \<Rightarrow> nat \<Rightarrow> lock_answer \<Rightarrow> Actor \<Rightarrow> Env \<Rightarrow> string \<Rightarrow> int \<Rightarrow> Policy \<Rightarrow> 'w Hooks \<Rightarrow> store \<Rightarrow> 'w
     \<Rightarrow> 'w pass \<times> unit result" where
  "run_pass resume k lock driver env runID runCap policy hooks st w =
     (let refuse = (\<lambda>code. (start_pass st w, Inl (EWip code))) in
      if runCap < 1 then refuse ''validation.invalid-cap''
      else case hk_Work hooks of
        None \<Rightarrow> refuse ''validation.no-work-hook''
      | Some Work \<Rightarrow>
          (case view_Run (st_db st) runID of
             Inl _ \<Rightarrow> refuse ''validation.unknown-run''
           | Inr run \<Rightarrow>
               if ru_state run \<noteq> ''open'' then refuse ''refusal.run-closed''
               else if ru_clone run \<noteq> env_Clone env then refuse ''refusal.run-stranded''
               else (case lock of
                 LockHeld \<Rightarrow> refuse ''refusal.run-live''
               | LockUnknown \<Rightarrow> (start_pass st w, Inl (ERefused ''the run lock is not available''))
               | LockAcquired \<Rightarrow>
                   execute k \<lparr>en_driver = driver, en_env = env, en_run = run, en_cap = runCap, en_policy = policy,
                     en_hooks = hooks, en_resume = resume\<rparr> Work (start_pass st w))))"

definition Orchestrate ::
  "nat \<Rightarrow> lock_answer \<Rightarrow> Actor \<Rightarrow> Env \<Rightarrow> string \<Rightarrow> int \<Rightarrow> Policy \<Rightarrow> 'w Hooks \<Rightarrow> store \<Rightarrow> 'w
     \<Rightarrow> (store \<times> 'w \<times> Outcome \<times> unit result) option" where
  "Orchestrate k lock driver env runID runCap policy hooks st w =
     (case run_pass False k lock driver env runID runCap policy hooks st w of
        (p, r) \<Rightarrow> if pa_spent p then None else Some (pa_store p, pa_world p, pa_out p, r))"

definition ResumeRun ::
  "nat \<Rightarrow> lock_answer \<Rightarrow> Actor \<Rightarrow> Env \<Rightarrow> string \<Rightarrow> int \<Rightarrow> Policy \<Rightarrow> 'w Hooks \<Rightarrow> store \<Rightarrow> 'w
     \<Rightarrow> (store \<times> 'w \<times> Outcome \<times> unit result) option" where
  "ResumeRun k lock driver env runID runCap policy hooks st w =
     (case run_pass True k lock driver env runID runCap policy hooks st w of
        (p, r) \<Rightarrow> if pa_spent p then None else Some (pa_store p, pa_world p, pa_out p, r))"

end
