(* ===== verification/SchedulerLaws.thy ===== *)
theory SchedulerLaws
  imports Scheduler Standing
begin

text \<open>
  What a pass does to the store. Its commands are read through the events they append:
  \<open>same_work\<close> of the events that leave the nodes and gates alone, \<open>advance\<close> of all but the
  authored Steps. The locales \<open>pass_relation\<close>, \<open>pass_relation_working\<close>,
  \<open>pass_relation_planning\<close> and \<open>pass_relation_whole\<close> carry a preorder from the elementary
  statements to the operations of the loop, in the order in which the loop builds them;
  their interpretations give the step relations \<open>work_step\<close> and \<open>pass_step\<close>, and that a pass
  whose hooks keep stores reachable does so too.
\<close>

section \<open>What a command does to the projection\<close>

lemma stamp_fields:
  assumes "stamp req d m = (m', Inr ev)"
  shows "ev_Type ev = dr_Type d \<and> ev_Subject ev = dr_Subject d \<and> ev_Payload ev = dr_Payload d \<and> length (dr_Subject d) = IDLen"
  using assms
  by (auto simp: stamp_def stamped_def stamp_dimensions_def res Let_def split: sum.splits if_splits prod.splits)

lemma record_event_fields:
  assumes "record_event es d ev (evs, s) = Inr (ev', evs', s')"
  shows "ev_Type ev' = ev_Type ev \<and> ev_Subject ev' = ev_Subject ev \<and> ev_Payload ev' = ev_Payload ev
    \<and> (\<exists>t. applyEvent t ev' s = Inr s')"
  using assms by (auto simp: record_event_def chain_def res split: if_splits)

text \<open>A reflexive and transitive relation that each event of a command keeps, the command keeps.\<close>

lemma commit_loop_effect:
  assumes "commit_loop req ds es m (evs, s) = (m', Inr (es', evs', s'))"
    and "\<And>d e t a b. d \<in> set ds \<Longrightarrow> ev_Type e = dr_Type d \<Longrightarrow> ev_Subject e = dr_Subject d \<Longrightarrow> ev_Payload e = dr_Payload d
      \<Longrightarrow> applyEvent t e a = Inr b \<Longrightarrow> R a b"
    and "reflp R" "transp R"
  shows "R s s' \<and> (\<forall>d \<in> set ds. length (dr_Subject d) = IDLen)"
  using assms(1,2)
proof (induction ds arbitrary: es m evs s)
  case Nil
  then show ?case using assms(3) by (simp add: reflpD)
next
  case (Cons d ds)
  obtain m1 ev where st: "stamp req d m = (m1, Inr ev)" using Cons.prems(1) by (auto split: prod.splits sum.splits)
  obtain ev' evs1 s1 where rec: "record_event es d ev (evs, s) = Inr (ev', evs1, s1)"
      "commit_loop req ds (es @ [ev']) m1 (evs1, s1) = (m', Inr (es', evs', s'))"
    using Cons.prems(1) st by (auto split: sum.splits)
  have "R s s1" using stamp_fields[OF st] record_event_fields[OF rec(1)] Cons.prems(2)[of d ev'] by auto
  moreover have "R s1 s' \<and> (\<forall>d \<in> set ds. length (dr_Subject d) = IDLen)"
    using Cons.IH[OF rec(2)] Cons.prems(2) by (meson list.set_intros(2))
  ultimately show ?case using assms(4) stamp_fields[OF st] by (auto dest: transpD)
qed

lemma Commit_effect:
  assumes "Commit req decide st = (st', r)"
    and "\<And>m ds d e t a b. decide (tx_of st) (st_db st) (st_mint st) = (m, Inr ds) \<Longrightarrow> d \<in> set ds \<Longrightarrow> ev_Type e = dr_Type d
      \<Longrightarrow> ev_Subject e = dr_Subject d \<Longrightarrow> ev_Payload e = dr_Payload d \<Longrightarrow> applyEvent t e a = Inr b \<Longrightarrow> R a b"
    and "reflp R" "transp R"
  shows "R (st_db st) (st_db st')"
proof (cases r)
  case (Inl e)
  then show ?thesis using Commit_error_db assms(1,3) by (metis reflpD)
next
  case (Inr events)
  obtain m ds m' evs s where d: "decide (tx_of st) (st_db st) (st_mint st) = (m, Inr ds)"
      "commit_loop req ds [] m (st_log st, st_db st) = (m', Inr (events, evs, s))" "st_db st' = s"
    using assms(1) Inr by (auto simp: Commit_def tx_of_def split: if_splits sum.splits prod.splits)
  show ?thesis using commit_loop_effect[OF d(2) _ assms(3,4)] assms(2)[OF d(1)] d(3) by blast
qed

section \<open>The events of a pass\<close>

text \<open>Events that leave the work itself alone: the nodes, the gates, the frozen sets.\<close>

definition same_work :: "db \<Rightarrow> db \<Rightarrow> bool" where
  "same_work s s' \<longleftrightarrow> nodes s' = nodes s \<and> gate_state s' = gate_state s \<and> gate_declarations s' = gate_declarations s
     \<and> gate_exemptions s' = gate_exemptions s \<and> run_matters s' = run_matters s"

definition idle_types :: "string list" where
  "idle_types = [TypeDispatchOpened, TypeDispatchClosed, TypeRoleSpawned, TypeRoleClosed, TypeRunSkipped, TypeRunFinished, TypeRunResumed]"

lemma same_work_refl [simp]: "same_work s s" "reflp same_work" "transp same_work"
  by (auto simp: same_work_def reflp_def transp_def)

lemma idle_statements:
  "insert_dispatch t r s = Inr s' \<Longrightarrow> same_work s s'" "insert_role t r' s = Inr s' \<Longrightarrow> same_work s s'"
  "update_roles p f s = Inr (n, s') \<Longrightarrow> same_work s s'" "update_dispatches q h s = Inr (n, s') \<Longrightarrow> same_work s s'"
  "update_runs b k s = Inr (n, s') \<Longrightarrow> same_work s s'"
  by (auto simp: insert_dispatch_def insert_role_def update_roles_def update_dispatches_def update_runs_def same_work_def res)

lemma contention_Inr_iff [simp]: "contention index u = Inr s' \<longleftrightarrow> u = Inr s'" "role_contention u = Inr s' \<longleftrightarrow> u = Inr s'"
  by (auto simp: contention_def role_contention_def split: sum.splits error.splits sql_error.splits)

lemma idle_folds:
  "openDispatch t e s = Inr s' \<Longrightarrow> same_work s s'" "closeDispatch e s = Inr s' \<Longrightarrow> same_work s s'"
  "spawnRole t e s = Inr s' \<Longrightarrow> same_work s s'" "closeRole e s = Inr s' \<Longrightarrow> same_work s s'"
  "validateRunSkipped e s = Inr s' \<Longrightarrow> same_work s s'" "finishRun e reason s = Inr s' \<Longrightarrow> same_work s s'"
  "resumeRun e s = Inr s' \<Longrightarrow> same_work s s'"
proof -
  have tr: "same_work a b \<Longrightarrow> same_work b c \<Longrightarrow> same_work a c" for a b c by (simp add: same_work_def)
  show "openDispatch t e s = Inr s' \<Longrightarrow> same_work s s'"
    by (auto simp: openDispatch_def res split: if_splits dest: idle_statements(1))
  show "same_work s s'" if c: "closeDispatch e s = Inr s'"
  proof -
    obtain p f n1 s1 q h where "update_roles p f s = Inr (n1, s1)" "update_dispatches q h s1 = Inr (1, s')"
      using c by (auto simp: closeDispatch_def res split: if_splits)
    then show ?thesis by (blast dest: idle_statements(3,4) intro: tr)
  qed
  show "spawnRole t e s = Inr s' \<Longrightarrow> same_work s s'"
    by (auto simp: spawnRole_def res split: if_splits dest: idle_statements(2))
  show "closeRole e s = Inr s' \<Longrightarrow> same_work s s'"
    by (auto simp: closeRole_def res split: if_splits dest: idle_statements(3))
  show "finishRun e reason s = Inr s' \<Longrightarrow> same_work s s'"
    by (auto simp: finishRun_def close_run_def res dest: idle_statements(5))
qed (auto simp: validateRunSkipped_def resumeRun_def res split: if_splits)

lemma idle_event: "ev_Type e \<in> set idle_types \<Longrightarrow> applyEvent t e s = Inr s' \<Longrightarrow> same_work s s'"
  by (auto simp: idle_types_def applyEvent_def transition_types_def tokens dest: idle_folds)

text \<open>A transition of the pass, and a Step it authors.\<close>

lemma transition_event:
  assumes "ev_Type e \<in> set transition_types" "ev_Payload e = transition a b c" "a \<noteq> []" "b \<noteq> []" "applyEvent t e s = Inr s'"
  shows "nodes s' = upd_rows (\<lambda>r. n_id r = ev_Subject e \<and> n_lifecycle r = a \<and> n_live r)
      (\<lambda>r. r\<lparr>n_lifecycle := b, n_last := ev_ID e\<rparr>) (nodes s)
    \<and> hits (\<lambda>r. n_id r = ev_Subject e \<and> n_lifecycle r = a \<and> n_live r) (nodes s) = 1 \<and> run_matters s' = run_matters s"
proof -
  let ?p = "\<lparr>tr_From = a, tr_To = b, tr_Cascade = c, tr_TrackerPushLevel = [], tr_Reason = []\<rparr>"
  have d: "decode_Transition (ev_Payload e) = Inr ?p" using assms(2) by (simp add: transition_def payload_rt)
  have "rbind (applyTransition e s) (projectTransitionCandidates t e) = Inr s'"
    using assms(1,5) by (auto simp: applyEvent_def transition_types_def tokens)
  then have "applyTransition e s = Inr s'"
    using d by (auto simp: res projectTransitionCandidates_def)
  then show ?thesis using d assms(3,4) by (auto simp: applyTransition_def update_nodes_def res)
qed

definition row_kept :: "node_row \<Rightarrow> node_row \<Rightarrow> bool" where
  "row_kept r r' \<longleftrightarrow> n_id r' = n_id r \<and> n_kind r' = n_kind r \<and> n_repo r' = n_repo r \<and> n_matter r' = n_matter r
     \<and> n_parent r' = n_parent r \<and> n_tombstone r' = n_tombstone r \<and> (n_lifecycle r = Done \<longrightarrow> n_lifecycle r' = Done)"

definition advance :: "db \<Rightarrow> db \<Rightarrow> bool" where
  "advance s s' \<longleftrightarrow> list_all2 row_kept (nodes s) (nodes s') \<and> run_matters s' = run_matters s"

lemma row_kept_trans: "row_kept a b \<Longrightarrow> row_kept b c \<Longrightarrow> row_kept a c"
  by (simp add: row_kept_def)

lemma advance_refl [simp]: "advance s s" "reflp advance" "transp advance"
proof -
  show r: "advance s s" for s by (auto simp: advance_def row_kept_def intro: list.rel_refl)
  then show "reflp advance" by (simp add: reflp_def)
  show "transp advance" unfolding transp_def advance_def using list_all2_trans[of row_kept row_kept row_kept] row_kept_trans by metis
qed

lemma advance_trans: "advance a b \<Longrightarrow> advance b c \<Longrightarrow> advance a c"
  using transpD[OF advance_refl(3)] .

lemma same_work_advance: "same_work s s' \<Longrightarrow> advance s s'"
  by (simp add: same_work_def advance_def list_all2_same row_kept_def)

definition base_draft :: "Draft \<Rightarrow> bool" where
  "base_draft d \<longleftrightarrow> dr_Type d \<in> set idle_types \<or> (dr_Type d \<in> set transition_types
     \<and> (\<exists>a b c. dr_Payload d = transition a b c \<and> (a = Planned \<and> b = InProgress \<or> a = InProgress \<and> b = Done)))"

definition base_decision :: "decision \<Rightarrow> bool" where
  "base_decision decide \<longleftrightarrow> minting decide \<and> (\<forall>t s m m' ds. decide t s m = (m', Inr ds) \<longrightarrow> (\<forall>d \<in> set ds. base_draft d))"

lemma base_event:
  assumes "base_draft d" "ev_Type e = dr_Type d" "ev_Payload e = dr_Payload d" "applyEvent t e s = Inr s'"
  shows "advance s s'"
proof (cases "dr_Type d \<in> set idle_types")
  case True
  then show ?thesis using idle_event assms same_work_advance by metis
next
  case False
  then obtain a b c where d: "ev_Type e \<in> set transition_types" "ev_Payload e = transition a b c" "a \<noteq> Done" "a \<noteq> []" "b \<noteq> []"
    using assms(1-3) by (auto simp: base_draft_def tokens)
  show ?thesis using transition_event[OF d(1,2,4,5) assms(4)] d(3)
    by (auto simp: advance_def row_kept_def upd_rows_def list_all2_map2 list_all2_same)
qed

lemma base_commit:
  assumes "base_decision decide"
  shows "advance (st_db st) (st_db (fst (Commit req decide st)))"
proof -
  have "advance a b" if "decide (tx_of st) (st_db st) (st_mint st) = (m, Inr ds)" "d \<in> set ds" "ev_Type e = dr_Type d"
      "ev_Payload e = dr_Payload d" "applyEvent t e a = Inr b" for m ds d e t a b
  proof -
    have "base_draft d" using assms that(1,2) unfolding base_decision_def by blast
    then show ?thesis using base_event that(3-5) by blast
  qed
  moreover obtain st' r where "Commit req decide st = (st', r)" by fastforce
  ultimately show ?thesis using Commit_effect[where R = advance] by (metis advance_refl(2,3) fst_conv)
qed

lemma base_from_id:
  assumes "\<And>t s i ds c. f t s i = Inr (ds, c) \<Longrightarrow> \<forall>d \<in> set ds. base_draft d"
  shows "base_decision (decides (from_id f))"
  using minting_decides[OF sound_from_id, of f] assms
  by (fastforce simp: base_decision_def decides_def from_id_def split: prod.splits sum.splits)

lemma base_from_db:
  assumes "\<And>t s ds c. f t s = Inr (ds, c) \<Longrightarrow> \<forall>d \<in> set ds. base_draft d"
  shows "base_decision (decides (from_db f))"
  using minting_decides[OF sound_from_db, of f] assms
  by (fastforce simp: base_decision_def decides_def from_db_def split: prod.splits sum.splits)

lemma idle_draft: "ty \<in> set idle_types \<Longrightarrow> base_draft (draft ty subject payload)"
  by (simp add: base_draft_def draft_def)

lemma idle_type_simps [simp]:
  "TypeDispatchOpened \<in> set idle_types" "TypeDispatchClosed \<in> set idle_types" "TypeRoleSpawned \<in> set idle_types"
  "TypeRoleClosed \<in> set idle_types" "TypeRunSkipped \<in> set idle_types" "TypeRunFinished \<in> set idle_types"
  "TypeRunResumed \<in> set idle_types"
  by (simp_all add: idle_types_def)

lemma base_plans:
  "base_decision (decides (spawning dispatch name))" "base_decision (decides (claiming run matter))"
  "base_draft d \<Longrightarrow> base_decision (decides (one_draft d))" "base_decision (decides (starting node))"
  "base_decision (decides (reaping run))"
proof -
  show "base_decision (decides (spawning dispatch name))" "base_decision (decides (claiming run matter))"
    unfolding spawning_def claiming_def by (rule base_from_id, simp add: idle_draft)+
  show "base_draft d \<Longrightarrow> base_decision (decides (one_draft d))"
    unfolding one_draft_def by (rule base_from_db) auto
  have "startEvent k \<in> set transition_types" for k by (simp add: startEvent_def transition_types_def)
  then have start: "base_draft (draft (startEvent k) i (transition Planned InProgress c))" for k i c
    by (auto simp: base_draft_def draft_def)
  show "base_decision (decides (starting node))"
    unfolding starting_def by (rule base_from_db) (auto simp: res start split: if_splits)
  have "\<forall>d \<in> set ds. base_draft d" if "stand_down_drafts s os = Inr ds" for s os ds
    using that by (induction os arbitrary: ds) (auto simp: res base_draft_def draft_def)
  then show "base_decision (decides (reaping run))"
    unfolding reaping_def by (intro base_from_db) (auto simp: res idle_draft)
qed

lemma finishing_draft: "base_draft (draft (finishEvent k) i (transition InProgress Done c))"
  by (auto simp: base_draft_def draft_def finishEvent_def transition_types_def)

section \<open>Relations a pass keeps\<close>

definition upholds :: "('w pass \<Rightarrow> 'w pass \<Rightarrow> bool) \<Rightarrow> ('w pass \<Rightarrow> 'w pass \<times> 'a result) \<Rightarrow> bool" where
  "upholds R m \<longleftrightarrow> (\<forall>p. R p (fst (m p)))"

lemma upholdsD: "upholds R m \<Longrightarrow> m p = (p', r) \<Longrightarrow> R p p'"
  unfolding upholds_def by (metis fst_conv)

definition skip_entry :: "Node \<Rightarrow> string \<Rightarrow> Handling \<Rightarrow> 'w pass \<Rightarrow> 'w pass" where
  "skip_entry matter reason handling p =
     (let entry = \<lparr>sk_Matter = matter, sk_Reason = reason\<rparr>;
          p' = (outcome (\<lambda>out. out\<lparr>oc_Skipped := oc_Skipped out @ [entry]\<rparr>) p)\<lparr>pa_skipped := pa_skipped p @ [N_ID matter]\<rparr>
      in if handling = HandleHalt
         then outcome (\<lambda>out. out\<lparr>oc_State := StateHalted, oc_HaltedOn := Some entry\<rparr>) p' else p')"

text \<open>A skip is its command and its entry, after the question when the policy asks.\<close>

definition skip_command :: "'w engine \<Rightarrow> Node \<Rightarrow> string \<Rightarrow> Handling \<Rightarrow> 'w pass \<Rightarrow> 'w pass \<times> unit result" where
  "skip_command g matter reason handling =
     then_do (committing g (RoleActor RoleOrchestrator) (one_draft (draft TypeRunSkipped (N_ID matter)
       (marshal_RunSkipped \<lparr>rk_Run = ru_id (en_run g), rk_Reason = reason\<rparr>)))) (\<lambda>_. changing (skip_entry matter reason handling))"

lemma pass_skip_split:
  obtains (silent) h where "pass_skip g matter reason handling p = skip_command g matter reason h p"
  | (asked) ask w' st' h where "hk_Ask (en_hooks g) = Some ask" "ask (pa_world p) (pa_store p) matter reason = (w', st', h)"
      "pass_skip g matter reason handling p = skip_command g matter reason h (p\<lparr>pa_world := w', pa_store := st'\<rparr>)"
proof (cases "handling = HandleAsk \<and> hk_Ask (en_hooks g) \<noteq> None")
  case True
  then obtain ask where h: "hk_Ask (en_hooks g) = Some ask" by blast
  obtain w' st' h' where "ask (pa_world p) (pa_store p) matter reason = (w', st', h')"
    by (cases "ask (pa_world p) (pa_store p) matter reason") auto
  then show thesis using asked[OF h] True h by (simp add: pass_skip_def skip_command_def skip_entry_def[abs_def])
next
  case False
  then show thesis
    using silent[of "if handling = HandleAsk then HandleHalt else handling"]
    by (auto simp: pass_skip_def skip_command_def skip_entry_def[abs_def])
qed

text \<open>A preorder on the states of a pass that its elementary statements keep is kept by the
  operations built from them. This level has no loop with fuel and no turn of work.\<close>

locale pass_relation =
  fixes R :: "'w pass \<Rightarrow> 'w pass \<Rightarrow> bool" and g :: "'w engine"
  assumes refl: "R p p" and trans: "R a b \<Longrightarrow> R b c \<Longrightarrow> R a c"
    and commit: "base_decision decide \<Longrightarrow> R p (p\<lparr>pa_store := fst (Commit req decide (pa_store p))\<rparr>)"
    and ask: "hk_Ask (en_hooks g) = Some h1 \<Longrightarrow> h1 (pa_world p) (pa_store p) node reason = (w', st', h)
      \<Longrightarrow> R p (p\<lparr>pa_world := w', pa_store := st'\<rparr>)"
    and seal: "hk_PostSeal (en_hooks g) = Some h2 \<Longrightarrow> h2 (pa_world p) (pa_store p) node = (w', st')
      \<Longrightarrow> R p (p\<lparr>pa_world := w', pa_store := st'\<rparr>)"
    and claims: "R p (p\<lparr>pa_claims := cs\<rparr>)"
    and skipping: "R p (skip_entry matter reason handling p)"
    and parking: "R p (outcome (\<lambda>out. out\<lparr>oc_Parked := x\<rparr>) p)"
    and stating: "R p (outcome (\<lambda>out. out\<lparr>oc_State := y\<rparr>) p)"
begin

lemma upholds_then:
  assumes "upholds R m" "\<And>x. upholds R (k x)"
  shows "upholds R (then_do m k)"
  unfolding upholds_def
proof
  fix p
  obtain p' r where m: "m p = (p', r)" by fastforce
  have "R p p'" using upholdsD[OF assms(1) m] .
  moreover have "R p' (fst (k x p'))" for x using assms(2) by (simp add: upholds_def)
  ultimately show "R p (fst (then_do m k p))"
    using m trans by (cases r) (auto simp: then_do_def)
qed

lemma upholds_simple: "upholds R (return x)" "upholds R (viewing f)" "upholds R (\<lambda>p. (p, r))"
  by (simp_all add: upholds_def return_def viewing_def refl)

lemma upholds_changing: "(\<And>p. R p (f p)) \<Longrightarrow> upholds R (changing f)"
  by (simp add: upholds_def changing_def)

lemma upholds_if: "upholds R m \<Longrightarrow> upholds R m' \<Longrightarrow> upholds R (if b then m else m')"
  by simp

lemma upholds_if_state: "upholds R m \<Longrightarrow> upholds R m' \<Longrightarrow> upholds R (\<lambda>p. if b p then m p else m' p)"
  by (simp add: upholds_def)

lemma upholds_option: "upholds R m \<Longrightarrow> (\<And>x. upholds R (k x)) \<Longrightarrow> upholds R (case h of None \<Rightarrow> m | Some x \<Rightarrow> k x)"
  by (cases h) simp_all

lemma upholds_after: "upholds R m \<Longrightarrow> R p q \<Longrightarrow> R p (fst (m q))"
  using trans unfolding upholds_def by blast

lemma upholds_committing:
  assumes "base_decision (decides plan)"
  shows "upholds R (committing g actor plan)"
  using commit[OF assms] by (simp add: upholds_def committing_def split_beta fst_commit_plan)

lemmas pass_rules = upholds_then upholds_if upholds_if_state upholds_simple upholds_changing upholds_committing
  base_plans idle_draft idle_type_simps

lemma uphold_roles: "upholds R (pass_spawnRole g actor dispatch name)" "upholds R (pass_closeRole g ident name)"
  unfolding pass_spawnRole_def pass_closeRole_def by (intro pass_rules)+

lemma uphold_skip: "upholds R (pass_skip g matter reason handling)"
  unfolding upholds_def
proof
  fix p
  have m: "upholds R (skip_command g matter reason h)" for h
    unfolding skip_command_def by (intro pass_rules skipping)
  show "R p (fst (pass_skip g matter reason handling p))"
    by (cases rule: pass_skip_split[of g matter reason handling p])
      (use upholds_after[OF m] refl ask in auto)
qed

lemma uphold_openClaim: "upholds R (openClaim g matter)"
  unfolding upholds_def
proof
  fix p
  let ?c = "committing g (RoleActor RoleOrchestrator) (claiming (ru_id (en_run g)) (N_ID matter))"
  let ?k = "then_do (pass_skip g matter RunSkipContention (po_Contention (en_policy g))) (\<lambda>_. return ([] :: string))"
  have c: "upholds R ?c" by (intro pass_rules)
  have k: "upholds R ?k" by (intro pass_rules uphold_skip)
  obtain p' r where cp: "?c p = (p', r)" by fastforce
  then show "R p (fst (openClaim g matter p))"
    using upholdsD[OF c cp] upholds_after[OF k upholdsD[OF c cp]] by (cases r) (simp_all add: openClaim_def)
qed

lemma uphold_closeClaim: "upholds R (closeClaim g matterID)"
proof -
  have "upholds R (committing g (RoleActor RoleOrchestrator)
      (one_draft (draft TypeDispatchClosed claim (marshal_DispatchClosed \<lparr>dx_Reason = CloseCompleted\<rparr>))))" for claim
    by (intro pass_rules)
  then show ?thesis
    unfolding upholds_def[of R "closeClaim g matterID"] closeClaim_def
    using upholds_after[OF _ claims] refl by (auto split: option.splits)
qed

lemma uphold_with_claim: "upholds R (with_claim g matter)"
proof -
  have "upholds R (then_do (openClaim g matter) (\<lambda>claim. if claim = [] then return None
      else then_do (changing (\<lambda>p. p\<lparr>pa_claims := pa_claims p @ [(N_ID matter, claim)]\<rparr>)) (\<lambda>_. return (Some claim))))"
    by (intro pass_rules uphold_openClaim claims)
  then show ?thesis unfolding upholds_def with_claim_def by (auto simp: refl split: option.splits)
qed

lemma uphold_start: "upholds R (pass_start g node)"
  unfolding pass_start_def by (intro pass_rules)

lemma uphold_finish: "upholds R (pass_finish g node actor)"
  unfolding pass_finish_def
proof (intro upholds_then upholds_changing upholds_committing base_plans finishing_draft)
  fix p :: "'w pass"
  show "R p (case (if N_Kind node = ScaleMatter then hk_PostSeal (en_hooks g) else None) of
      None \<Rightarrow> p | Some postSeal \<Rightarrow> (case postSeal (pa_world p) (pa_store p) node of (w', st') \<Rightarrow> p\<lparr>pa_world := w', pa_store := st'\<rparr>))"
    using refl seal[of _ p node] by (auto split: option.splits prod.splits)
qed

lemma uphold_settle_loop: "upholds R (settle_loop g ids allDone)"
proof (induction ids arbitrary: allDone)
  case (Cons ident ids)
  have parked: "upholds R (changing (outcome (\<lambda>out. out\<lparr>oc_Parked := oc_Parked out @ [m]\<rparr>)))" for m
    by (intro upholds_changing) (use parking in \<open>simp add: outcome_def\<close>)
  show ?case
    unfolding settle_loop.simps by (intro pass_rules uphold_closeClaim uphold_skip parked Cons.IH)
qed (simp add: upholds_simple)

lemma uphold_settle: "upholds R (settle g)"
proof -
  have fin: "upholds R (committing g (RoleActor RoleOrchestrator) (one_draft (draft TypeRunFinished (ru_id (en_run g)) [])))"
    by (intro pass_rules)
  then have "upholds R (\<lambda>p. case ended of None \<Rightarrow> (p, Inr ()) | Some allDone \<Rightarrow>
      if \<not> allDone \<or> oc_Parked (pa_out p) \<noteq> [] then (outcome (\<lambda>out. out\<lparr>oc_State := StateStandingBy\<rparr>) p, Inr ())
      else committing g (RoleActor RoleOrchestrator) (one_draft (draft TypeRunFinished (ru_id (en_run g)) []))
             (outcome (\<lambda>out. out\<lparr>oc_State := StateFinished\<rparr>) p))" for ended
    using upholds_after[OF fin stating] stating refl
    by (cases ended) (simp_all add: upholds_def[of R "\<lambda>p. _ p"])
  then show ?thesis unfolding settle_def by (intro upholds_then upholds_simple uphold_settle_loop)
qed

lemma uphold_round: "upholds R (containers_round g matter hasChild ns b)"
proof (induction ns arbitrary: b)
  case (Cons n ns)
  then show ?case unfolding containers_round.simps by (intro pass_rules uphold_finish uphold_closeClaim)
qed (simp add: upholds_simple)

lemma containers_by_spending:
  assumes "\<And>p. R p (p\<lparr>pa_spent := True\<rparr>)"
  shows "upholds R (completeContainers g matter)"
proof -
  have "upholds R (containers_loop k g matter hasChild ns)" for k hasChild ns
  proof (induction k)
    case (Suc k)
    then show ?case unfolding containers_loop.simps by (intro pass_rules uphold_round)
  qed (simp add: upholds_def spent_def assms)
  then show ?thesis unfolding completeContainers_def by (intro pass_rules)
qed

end

text \<open>The turns of work, with the containers they complete.\<close>

locale pass_relation_working = pass_relation R g
  for R and g :: "'w engine" +
  fixes Work :: "'w \<Rightarrow> store \<Rightarrow> Node \<Rightarrow> 'w \<times> store \<times> string option"
  assumes work: "Work (pa_world p) (pa_store p) node = (w', st', e) \<Longrightarrow> R p (p\<lparr>pa_world := w', pa_store := st'\<rparr>)"
    and worked: "R p (outcome (\<lambda>out. out\<lparr>oc_Worked := x\<rparr>) p)"
    and containers: "upholds R (completeContainers g matter)"
begin

lemma uphold_work_ends: "upholds R (work_failed g matter)" "upholds R (work_done g matter node builder)"
proof -
  show "upholds R (work_failed g matter)"
    unfolding work_failed_def by (intro pass_rules uphold_closeClaim uphold_skip)
  have w: "R p (outcome (\<lambda>out. out\<lparr>oc_Worked := oc_Worked out @ [n]\<rparr>) p)" for p n
    using worked by (simp add: outcome_def)
  show "upholds R (work_done g matter node builder)"
    unfolding work_done_def by (intro pass_rules uphold_finish uphold_roles uphold_closeClaim containers w)
qed

lemma uphold_turn: "upholds R (turn g Work matter node builder)"
  unfolding upholds_def
proof
  fix p :: "'w pass"
  obtain w' st' e where wk: "Work (pa_world p) (pa_store p) node = (w', st', e)"
    by (cases "Work (pa_world p) (pa_store p) node") auto
  show "R p (fst (turn g Work matter node builder p))"
    using upholds_after[OF uphold_work_ends(1) work[OF wk]] upholds_after[OF uphold_work_ends(2) work[OF wk]] wk
    by (simp add: turn_def)
qed

lemma uphold_working: "upholds R (working g Work matter node claim)"
  unfolding working_def by (intro pass_rules uphold_start uphold_roles uphold_turn)

end

text \<open>With the Steps the pass authors and the planning hook.\<close>

locale pass_relation_planning = pass_relation_working R g Work
  for R and g :: "'w engine" and Work +
  assumes author: "R p (p\<lparr>pa_store := fst (Commit req (decides (authoring matter i title)) (pa_store p))\<rparr>)"
    and plan: "hk_Plan (en_hooks g) = Some h3 \<Longrightarrow> h3 (pa_world p) (pa_store p) node = (w', st', ss)
      \<Longrightarrow> R p (p\<lparr>pa_world := w', pa_store := st'\<rparr>)"
begin

lemma uphold_author: "upholds R (author_loop g matter i titles)"
proof (induction titles arbitrary: i)
  case (Cons title titles)
  have "upholds R (committing g (RoleActor RoleResearcher) (authoring matter i title))"
    using author by (simp add: upholds_def committing_def split_beta fst_commit_plan)
  then show ?case using Cons.IH unfolding author_loop.simps by (intro upholds_then)
qed (simp add: upholds_simple)

lemma uphold_plan:
  assumes "hk_Plan (en_hooks g) = Some Plan"
  shows "upholds R (pass_plan g Plan matter claim)"
  unfolding upholds_def
proof
  fix p :: "'w pass"
  obtain w' st' r where pl: "Plan (pa_world p) (pa_store p) matter = (w', st', r)"
    by (cases "Plan (pa_world p) (pa_store p) matter") auto
  note R1 = plan[OF assms pl]
  have k: "upholds R (then_do (pass_spawnRole g (RoleActor RoleOrchestrator) claim RoleResearcher) (\<lambda>researcher.
      then_do (author_loop g matter 0 specs) (\<lambda>_. then_do (pass_closeRole g researcher RoleResearcher) (\<lambda>_. return True))))" for specs
    by (intro pass_rules uphold_roles uphold_author)
  show "R p (fst (pass_plan g Plan matter claim p))"
    using R1 upholds_after[OF k R1] pl by (auto simp: pass_plan_def Let_def simp del: author_loop.simps split: sum.splits list.splits)
qed

lemma uphold_engageOne: "upholds R (engageOne g Work node)"
proof -
  have "upholds R (case hk_Plan (en_hooks g) of
      Some Plan \<Rightarrow> if b then pass_plan g Plan matter claim else return False | None \<Rightarrow> return False)" for b matter claim
    using uphold_plan by (cases "hk_Plan (en_hooks g)") (simp_all add: upholds_simple)
  then show ?thesis
    unfolding engageOne_def
    by (intro pass_rules upholds_option[where h = held for held :: "string option"] uphold_with_claim uphold_working)
qed

end

text \<open>The whole pass, fuel that ran out included.\<close>

locale pass_relation_whole = pass_relation_planning R g Work
  for R and g :: "'w engine" and Work +
  assumes spending: "R p (p\<lparr>pa_spent := True\<rparr>)"
    and spawned: "R p (p\<lparr>pa_orchestrator := x\<rparr>)"
begin

lemma uphold_engage: "upholds R (engage k g Work)"
proof -
  have sel: "upholds R (engage_selected g Work ns)" for ns
  proof (induction ns)
    case (Cons n ns)
    then show ?case unfolding engage_selected.simps by (intro pass_rules uphold_engageOne)
  qed (simp add: upholds_simple)
  show ?thesis
  proof (induction k)
    case (Suc k)
    have "upholds R (then_do (engage_selected g Work ns) (\<lambda>_ p. if halted p then (p, Inr ()) else engage k g Work p))" for ns
      using sel Suc by (intro pass_rules)
    then show ?case
      unfolding engage.simps by (intro upholds_then upholds_simple) (simp add: upholds_def refl)
  qed (simp add: upholds_def spent_def spending)
qed

lemma uphold_execute: "upholds R (execute k g Work)"
proof -
  let ?body = "then_do (if en_resume g then reapOrphans g else return ()) (\<lambda>_.
      then_do (engage k g Work) (\<lambda>_ p. if halted p then (p, Inr ()) else settle g p))"
  have body: "upholds R ?body"
    unfolding reapOrphans_def by (intro pass_rules uphold_engage uphold_settle)
  have "R q (fst (case ?body (q\<lparr>pa_orchestrator := x\<rparr>) of (p', r) \<Rightarrow> (fst (pass_closeRole g x RoleOrchestrator p'), r)))" for q x
    using upholds_after[OF uphold_roles(2) upholds_after[OF body spawned]] by (simp add: split_beta)
  then have "upholds R (then_do (pass_spawnRole g (en_driver g) d RoleOrchestrator) (\<lambda>x p. case ?body (p\<lparr>pa_orchestrator := x\<rparr>) of
      (p', r) \<Rightarrow> (fst (pass_closeRole g x RoleOrchestrator p'), r)))" for d
    by (intro upholds_then uphold_roles) (simp add: upholds_def)
  then show ?thesis
    unfolding upholds_def execute_def by (auto simp: refl split: option.splits)
qed

end

section \<open>The steps of a pass\<close>

text \<open>What a pass does to the store, one step at a time: a command of its own, a hook, or a Step
  authored. \<open>work_step\<close> leaves out the planning.\<close>

inductive work_step for g :: "'w engine" and Work where
  step_commit: "base_decision decide \<Longrightarrow> work_step g Work st (fst (Commit req decide st))"
| step_ask: "hk_Ask (en_hooks g) = Some h1 \<Longrightarrow> h1 w st node reason = (w', st', h) \<Longrightarrow> work_step g Work st st'"
| step_seal: "hk_PostSeal (en_hooks g) = Some h2 \<Longrightarrow> h2 w st node = (w', st') \<Longrightarrow> work_step g Work st st'"
| step_work: "Work w st node = (w', st', e) \<Longrightarrow> work_step g Work st st'"

inductive pass_step for g :: "'w engine" and Work where
  step_base: "work_step g Work st st' \<Longrightarrow> pass_step g Work st st'"
| step_author: "pass_step g Work st (fst (Commit req (decides (authoring matter i title)) st))"
| step_plan: "hk_Plan (en_hooks g) = Some h3 \<Longrightarrow> h3 w st node = (w', st', ss) \<Longrightarrow> pass_step g Work st st'"

lemma skip_entry_simps [simp]:
  "pa_store (skip_entry m r h p) = pa_store p" "pa_spent (skip_entry m r h p) = pa_spent p"
  "oc_Worked (pa_out (skip_entry m r h p)) = oc_Worked (pa_out p)" "pa_skipped (skip_entry m r h p) = pa_skipped p @ [N_ID m]"
  "pa_world (skip_entry m r h p) = pa_world p" "oc_Parked (pa_out (skip_entry m r h p)) = oc_Parked (pa_out p)"
  by (simp_all add: skip_entry_def outcome_def Let_def)

lemma outcome_simps [simp]:
  "pa_store (outcome f p) = pa_store p" "pa_spent (outcome f p) = pa_spent p" "pa_out (outcome f p) = f (pa_out p)"
  "pa_skipped (outcome f p) = pa_skipped p" "pa_claims (outcome f p) = pa_claims p" "pa_world (outcome f p) = pa_world p"
  by (simp_all add: outcome_def)

interpretation turn: pass_relation "\<lambda>p p'. (work_step g Work)\<^sup>*\<^sup>* (pa_store p) (pa_store p')" g for g Work
  by unfold_locales (auto intro: rtranclp_trans work_step.intros r_into_rtranclp)

interpretation turns: pass_relation_working "\<lambda>p p'. (work_step g Work)\<^sup>*\<^sup>* (pa_store p) (pa_store p')" g Work for g Work
  by unfold_locales (auto intro: turn.containers_by_spending work_step.intros r_into_rtranclp)

interpretation single: pass_relation "\<lambda>p p'. (pass_step g Work)\<^sup>*\<^sup>* (pa_store p) (pa_store p')" g for g Work
  by unfold_locales (auto intro: rtranclp_trans work_step.intros step_base r_into_rtranclp)

interpretation overall: pass_relation_whole "\<lambda>p p'. (pass_step g Work)\<^sup>*\<^sup>* (pa_store p) (pa_store p')" g Work for g Work
  by unfold_locales (auto intro: single.containers_by_spending work_step.intros pass_step.intros r_into_rtranclp)

interpretation fuelled: pass_relation "\<lambda>p p'. pa_spent p' = pa_spent p" g for g :: "'w engine"
  by unfold_locales auto

lemma run_pass_steps:
  assumes "run_pass resume k lock driver env runID runCap policy hooks st w = (p, r)" "hk_Work hooks = Some Work"
  shows "\<exists>run. (pass_step \<lparr>en_driver = driver, en_env = env, en_run = run, en_cap = runCap, en_policy = policy,
      en_hooks = hooks, en_resume = resume\<rparr> Work)\<^sup>*\<^sup>* st (pa_store p)"
proof -
  have e: "(pass_step g Work)\<^sup>*\<^sup>* st (pa_store (fst (execute k g Work (start_pass st w))))" for g
    using overall.uphold_execute[of g Work k, unfolded upholds_def, rule_format, of "start_pass st w"] by (simp add: start_pass_def)
  have "pa_store (start_pass st w) = st" by (simp add: start_pass_def)
  then show ?thesis
    using assms e by (auto simp: run_pass_def Let_def split: if_splits sum.splits lock_answer.splits) (metis fst_conv)
qed

text \<open>Hooks that keep to a relation on the store, as those do that write through the verbs.\<close>

definition hooks_keep :: "(store \<Rightarrow> store \<Rightarrow> bool) \<Rightarrow> 'w Hooks \<Rightarrow> bool" where
  "hooks_keep Q hooks \<longleftrightarrow>
     (\<forall>h w st n w' st' e. hk_Work hooks = Some h \<longrightarrow> h w st n = (w', st', e) \<longrightarrow> Q st st')
   \<and> (\<forall>h w st n w' st' x. hk_Plan hooks = Some h \<longrightarrow> h w st n = (w', st', x) \<longrightarrow> Q st st')
   \<and> (\<forall>h w st n r w' st' a. hk_Ask hooks = Some h \<longrightarrow> h w st n r = (w', st', a) \<longrightarrow> Q st st')
   \<and> (\<forall>h w st n w' st'. hk_PostSeal hooks = Some h \<longrightarrow> h w st n = (w', st') \<longrightarrow> Q st st')"

lemma hooks_keepD:
  assumes "hooks_keep Q hooks"
  shows "hk_Work hooks = Some h1 \<Longrightarrow> h1 w st n = (w', st', e) \<Longrightarrow> Q st st'"
    and "hk_Plan hooks = Some h2 \<Longrightarrow> h2 w st n = (w', st', x) \<Longrightarrow> Q st st'"
    and "hk_Ask hooks = Some h3 \<Longrightarrow> h3 w st n r = (w', st', a) \<Longrightarrow> Q st st'"
    and "hk_PostSeal hooks = Some h4 \<Longrightarrow> h4 w st n = (w', st') \<Longrightarrow> Q st st'"
  using assms unfolding hooks_keep_def by metis+

lemma pass_step_cases:
  assumes "pass_step g Work st st'" "hooks_keep Q (en_hooks g)" "hk_Work (en_hooks g) = Some Work"
  obtains (commits) req decide where "base_decision decide" "st' = fst (Commit req decide st)"
  | (authors) req matter i title where "st' = fst (Commit req (decides (authoring matter i title)) st)"
  | (hooks) "Q st st'"
  using assms(1)
proof cases
  case step_base
  then show thesis
    using commits hooks hooks_keepD[OF assms(2)] assms(3) by cases metis+
next
  case (step_author req matter i title)
  then show thesis using authors by blast
next
  case step_plan
  then show thesis using hooks hooks_keepD(2)[OF assms(2)] by metis
qed

lemma pass_step_reachable:
  assumes "hooks_keep (\<lambda>a b. reachable a \<longrightarrow> reachable b) (en_hooks g)" "hk_Work (en_hooks g) = Some Work"
    and "(pass_step g Work)\<^sup>*\<^sup>* st st'" "reachable st"
  shows "reachable st'"
  using assms(3,4)
proof (induction rule: rtranclp_induct)
  case (step a b)
  from step(2) assms(1,2) show ?case
  proof (cases rule: pass_step_cases)
    case (commits req decide)
    then show ?thesis using step(3,4) by (auto simp: base_decision_def intro: reachable_ops op_commit r_into_rtranclp)
  next
    case (authors req matter i title)
    have "minting (decides (authoring matter i title))" unfolding authoring_def by (intro minting_decides sound_from_id)
    then show ?thesis using authors step(3,4) by (auto intro: reachable_ops op_commit r_into_rtranclp)
  next
    case hooks
    then show ?thesis using step(3,4) by blast
  qed
qed

end
