(* ===== verification/SchedulerSettle.thy ===== *)
theory SchedulerSettle
  imports SchedulerLaws ReadSurface
begin

text \<open>
  When a pass reports a finished Run. \<open>settle\<close> finishes the Run after a loop over its
  members that skipped none and parked none; the claims it closes on the way leave
  the work alone, so what the loop read of each member still holds in the store the
  pass ends with: the member is a live node that is canceled or sealed, and the Run
  is closed as completed.
\<close>

section \<open>A member that is through\<close>

definition through :: "db \<Rightarrow> string \<Rightarrow> bool" where
  "through s ident \<longleftrightarrow> (\<exists>r \<in> set (nodes s). n_id r = ident \<and> n_live r
     \<and> (n_lifecycle r = Canceled \<or> sealed no_overlay s r))"

lemma encloses_same:
  assumes "nodes s' = nodes s" "encloses s r a"
  shows "encloses s' r a"
  using assms(2,1) by induction (auto intro: encloses.intros)

lemma through_same:
  assumes "same_work s s'" "through s ident"
  shows "through s' ident"
proof -
  have same: "nodes s' = nodes s" "nodes s = nodes s'" "gate_state s' = gate_state s" "gate_exemptions s' = gate_exemptions s"
      "gate_declarations s' = gate_declarations s"
    using assms(1) by (simp_all add: same_work_def)
  have "gates_met no_overlay s' repo a = gates_met no_overlay s repo a" for repo a
    by (simp add: gates_met_def same GateSatisfied_def gate_row_exists_def GateExempt_def)
  then have "sealed no_overlay s' r = sealed no_overlay s r" for r
    using encloses_same[OF same(1), of r] encloses_same[OF same(2), of r] by (auto simp: sealed_def)
  then show ?thesis using assms(2) by (simp add: through_def same(1))
qed

text \<open>A walk up the parent chain that answers has read live nodes only.\<close>

lemma gate_walk_live:
  assumes "keys_ok s" "checks_ok s"
    and "gate_walk t s target n (scanNode r) = Inr reqs" "n_live r" "encloses s r a"
  shows "n_live a"
  using assms(3-5)
proof (induction n arbitrary: r reqs)
  case (Suc n)
  from Suc.prems(3) show ?case
  proof cases
    case (encloses_parent q)
    have "n_id q \<noteq> []"
      using assms(2) encloses_parent(1) by (auto simp: checks_ok_def node_check_def list_all_iff sql_length_def)
    then obtain parent rest where w: "view_Node s (n_id q) = Inr parent" "gate_walk t s target n parent = Inr rest"
      using Suc.prems(1) encloses_parent(2) by (auto simp: res Let_def scanNode_def split: if_splits)
    obtain q' where q': "live_row s (n_id q) = Some q'" "parent = scanNode q'"
      using w(1) by (auto simp: view_Node_def of_option_def split: option.splits)
    have "q' = q"
      using live_row_Some[OF q'(1)] encloses_parent(1) assms(1) by (auto simp: keys_ok_def intro: distinct_mapD)
    then show ?thesis using Suc.IH[OF w(2)[unfolded q'(2)]] live_row_Some[OF q'(1)] encloses_parent(3) by simp
  qed (use Suc.prems in simp)
qed simp

lemma completion_read:
  assumes "readable t s" "live_row s ident = Some r" "view_NodeCompletion t s (scanNode r) = Inr c"
  shows "nc_Sealed c = sealed no_overlay s r"
proof -
  have r: "r \<in> set (nodes s)" "n_live r" using live_row_Some[OF assms(2)] by auto
  obtain reqs where "gate_walk t s (scanNode r) 3 (scanNode r) = Inr reqs"
    using assms(3) by (auto simp: view_NodeCompletion_def NodeCompletionWithOverlay_def EffectiveGateRequirements_def res)
  then have "n_live a" if "encloses s r a" for a
    using gate_walk_live[of s t _ 3 r reqs a] assms(1) r(2) that by (auto simp: readable_def schema_ok_def)
  then show ?thesis using completion_total[OF assms(1) r(1), of no_overlay] assms(3) by (auto simp: view_NodeCompletion_def)
qed

section \<open>Commands that leave the work alone\<close>

lemma committing_idle:
  assumes "committing g actor (one_draft d) p = (p', r)" "dr_Type d \<in> set idle_types"
  shows "same_work (st_db (pa_store p)) (st_db (pa_store p')) \<and> pa_out p' = pa_out p \<and> pa_skipped p' = pa_skipped p"
proof -
  let ?req = "request actor (en_env g)"
  obtain st' x where c: "Commit ?req (decides (one_draft d)) (pa_store p) = (st', x)" by fastforce
  have "pa_store p' = st'" using assms(1) c fst_commit_plan[of ?req "one_draft d" "\<lambda>c _. Inr c" "pa_store p"]
    by (auto simp: committing_def split: prod.splits)
  moreover have "same_work (st_db (pa_store p)) (st_db st')"
  proof (rule Commit_effect[OF c])
    fix m ds d' e t a b
    assume "decides (one_draft d) (tx_of (pa_store p)) (st_db (pa_store p)) (st_mint (pa_store p)) = (m, Inr ds)" "d' \<in> set ds"
      and e: "ev_Type e = dr_Type d'" "applyEvent t e a = Inr b"
    then have "d' = d" by (auto simp: decides_def one_draft_def from_db_def)
    then show "same_work a b" using idle_event e assms(2) by metis
  qed simp_all
  ultimately show ?thesis using assms(1) by (auto simp: committing_def split: prod.splits)
qed

lemma closeClaim_idle:
  assumes "closeClaim g matter p = (p', r)"
  shows "same_work (st_db (pa_store p)) (st_db (pa_store p')) \<and> pa_out p' = pa_out p \<and> pa_skipped p' = pa_skipped p"
proof (cases "map_of (pa_claims p) matter")
  case None
  then show ?thesis using assms by (simp add: closeClaim_def)
next
  case (Some claim)
  then show ?thesis using assms committing_idle[of g _ _ "p\<lparr>pa_claims := _\<rparr>" p' r] by (auto simp: closeClaim_def draft_def)
qed

lemma committing_reachable:
  assumes "committing g actor plan p = (p', r)" "base_decision (decides plan)" "reachable (pa_store p)"
  shows "reachable (pa_store p')"
proof -
  let ?req = "request actor (en_env g)"
  have "pa_store p' = fst (Commit ?req (decides plan) (pa_store p))"
    using assms(1) fst_commit_plan[of ?req plan "\<lambda>c _. Inr c" "pa_store p"] by (auto simp: committing_def split: prod.splits)
  moreover have "op (pa_store p) (fst (Commit ?req (decides plan) (pa_store p)))"
    using assms(2) by (auto simp: base_decision_def intro: op_commit)
  ultimately show ?thesis using assms(3) by (metis reachable_ops r_into_rtranclp)
qed

lemma closeClaim_reachable:
  assumes "closeClaim g matter p = (p', r)" "reachable (pa_store p)"
  shows "reachable (pa_store p')"
  using assms committing_reachable[of g _ _ "p\<lparr>pa_claims := _\<rparr>" p' r]
  by (auto simp: closeClaim_def base_plans idle_draft split: option.splits)

text \<open>The skip of a member, in \<open>settle\<close> or before, never makes it through.\<close>

lemma settle_loop_None: "settle_loop g ids allDone p = (p', Inr None) \<Longrightarrow> halted p'"
proof (induction ids arbitrary: allDone p)
  case (Cons ident ids)
  from Cons.prems show ?case
    by (auto simp: then_do_def viewing_def return_def changing_def dest: Cons.IH split: prod.splits sum.splits if_splits)
qed (simp add: return_def)

lemma settle_loop_False: "settle_loop g ids False p = (p', Inr (Some b)) \<Longrightarrow> \<not> b"
proof (induction ids arbitrary: p)
  case (Cons ident ids)
  from Cons.prems show ?case
    by (auto simp: then_do_def viewing_def return_def changing_def dest: Cons.IH split: prod.splits sum.splits if_splits)
qed (simp add: return_def)

lemma pass_skip_parked: "pass_skip g matter reason handling p = (p', r) \<Longrightarrow> oc_Parked (pa_out p') = oc_Parked (pa_out p)"
  by (auto simp: pass_skip_def then_do_def committing_def changing_def outcome_def Let_def
      split: prod.splits sum.splits if_splits option.splits)

lemma settle_loop_parked:
  "settle_loop g ids b p = (p', r) \<Longrightarrow> oc_Parked (pa_out p') = [] \<Longrightarrow> oc_Parked (pa_out p) = []"
proof (induction ids arbitrary: b p)
  case (Cons ident ids)
  have close: "oc_Parked (pa_out p1) = oc_Parked (pa_out p2)" if "closeClaim g m p2 = (p1, x)" for m p1 p2 x
    using closeClaim_idle[OF that] by simp
  from Cons.prems show ?case
    by (auto simp: then_do_def viewing_def return_def changing_def dest!: close pass_skip_parked dest: Cons.IH
        split: prod.splits sum.splits if_splits)
qed (simp add: return_def)

section \<open>The loop over the members\<close>

lemma settle_loop_through:
  assumes "settle_loop g ids allDone p = (p', Inr (Some True))" "oc_Parked (pa_out p') = []"
    and "reachable (pa_store p)"
  shows "same_work (st_db (pa_store p)) (st_db (pa_store p')) \<and> reachable (pa_store p')
    \<and> (\<forall>ident \<in> set ids. through (st_db (pa_store p')) ident)"
  using assms(1,3)
proof (induction ids arbitrary: allDone p)
  case (Cons ident ids)
  obtain matter where m: "view_Node (st_db (pa_store p)) ident = Inr matter"
    using Cons.prems(1) by (auto simp: then_do_def viewing_def split: sum.splits)
  then obtain r where r: "live_row (st_db (pa_store p)) ident = Some r" "matter = scanNode r"
    by (auto simp: view_Node_def of_option_def split: option.splits)
  have lc: "N_Lifecycle matter = n_lifecycle r" "N_ID matter = ident"
    using live_row_Some[OF r(1)] by (simp_all add: r(2) scanNode_def)
  obtain p1 q where p1: "closeClaim g ident q = (p1, Inr ())" "settle_loop g ids allDone p1 = (p', Inr (Some True))"
      "pa_store q = pa_store p" "n_lifecycle r = Canceled \<or> sealed no_overlay (st_db (pa_store p)) r"
  proof (cases "N_Lifecycle matter = Done")
    case True
    obtain c where c: "view_NodeCompletion (tx_of (pa_store p)) (st_db (pa_store p)) matter = Inr c"
      using Cons.prems(1) m True by (auto simp: then_do_def viewing_def split: sum.splits)
    have sealed: "nc_Sealed c = sealed no_overlay (st_db (pa_store p)) r"
      using completion_read[OF _ r(1), of "tx_of (pa_store p)"] readable_reachable[OF Cons.prems(2)] c r(2)
      by (simp add: tx_of_def)
    show thesis
    proof (cases "nc_Sealed c")
      case True
      then show thesis using that[of p] Cons.prems(1) m c \<open>N_Lifecycle matter = Done\<close> lc(2) sealed
        by (auto simp: then_do_def viewing_def return_def split: prod.splits sum.splits)
    next
      case False
      let ?q = "outcome (\<lambda>out. out\<lparr>oc_Parked := oc_Parked out @ [matter]\<rparr>) p"
      obtain p2 where "closeClaim g ident ?q = (p2, Inr ())" "settle_loop g ids allDone p2 = (p', Inr (Some True))"
        using Cons.prems(1) m c True False lc(2) \<open>N_Lifecycle matter = Done\<close>
        by (auto simp: then_do_def viewing_def return_def changing_def split: prod.splits sum.splits)
      moreover from this have "oc_Parked (pa_out p2) \<noteq> []" using closeClaim_idle[of g ident ?q p2] by simp
      ultimately show thesis using settle_loop_parked assms(2) by blast
    qed
  next
    case False
    show thesis
    proof (cases "N_Lifecycle matter = Canceled")
      case True
      then show thesis using that[of p] Cons.prems(1) m lc False
        by (auto simp: then_do_def viewing_def split: prod.splits sum.splits)
    next
      case nC: False
      have "False"
        using Cons.prems(1) m False nC
        by (auto simp: then_do_def viewing_def dest: settle_loop_False split: prod.splits sum.splits if_splits)
      then show thesis ..
    qed
  qed
  have c: "same_work (st_db (pa_store p)) (st_db (pa_store p1))" "reachable (pa_store p1)"
    using closeClaim_idle[OF p1(1)] closeClaim_reachable[OF p1(1)] Cons.prems(2) p1(3) by simp_all
  have "through (st_db (pa_store p)) ident" using p1(4) live_row_Some[OF r(1)] by (auto simp: through_def)
  moreover note IH = Cons.IH[OF p1(2) c(2)]
  ultimately have "through (st_db (pa_store p')) ident" using through_same c(1) by blast
  then show ?case using IH c(1) by (auto simp: same_work_def)
qed (simp add: return_def)

section \<open>The end of a finished Run\<close>

lemma find_updated:
  assumes "List.find P rs = Some r" "\<And>x. P (f x) = P x"
  shows "List.find P (upd_rows q f rs) = Some (if q r then f r else r)"
  using assms by (induction rs) (auto simp: upd_rows_def split: if_splits)

lemma update_runs_rows: "update_runs q f s = Inr (n, s') \<Longrightarrow> runs s' = upd_rows q f (runs s)"
  by (auto simp: update_runs_def res)

lemma finishing_closes:
  assumes "committing g actor (one_draft (draft TypeRunFinished run [])) p = (p', Inr x)" "store_ok (pa_store p)"
  shows "\<exists>row. view_Run (st_db (pa_store p')) run = Inr row \<and> ru_state row = ''closed'' \<and> ru_close_reason row = Some ''completed''"
proof -
  let ?plan = "one_draft (draft TypeRunFinished run [])" and ?st = "pa_store p" and ?st' = "pa_store p'"
  have "commit_plan (request actor (en_env g)) ?plan (\<lambda>c _. Inr c) ?st = (?st', Inr x)"
    using assms(1) by (auto simp: committing_def split: prod.splits)
  then obtain events where c: "Commit (request actor (en_env g)) (decides ?plan) ?st = (?st', Inr events)"
    by (rule commit_plan_Inr)
  have "minting (decides ?plan)" unfolding one_draft_def by (intro minting_decides sound_from_db)
  then obtain t e where e: "ev_Type e = TypeRunFinished" "ev_Subject e = run" "applyEvent t e (st_db ?st) = Inr (st_db ?st')"
    using Commit_single[OF assms(2) _ c, of "draft TypeRunFinished run []"]
    by (auto simp: decides_def one_draft_def from_db_def draft_def)
  have "finishRun e ''completed'' (st_db ?st) = Inr (st_db ?st')"
    using e(3) by (simp add: applyEvent_def transition_types_def tokens e(1))
  then obtain row where f: "List.find (\<lambda>r. ru_id r = run) (runs (st_db ?st)) = Some row" "ru_state row = ''open''"
      and close: "close_run e ''completed'' (st_db ?st) = Inr (st_db ?st')"
    by (auto simp: finishRun_def validateRunContext_def find_run_def of_option_def res e(2) split: if_splits option.splits)
  let ?f = "\<lambda>r. r\<lparr>ru_state := ''closed'', ru_close_reason := Some ''completed'', ru_closed_at := Some (ev_OccurredAt e), ru_last := ev_ID e\<rparr>"
    and ?q = "\<lambda>r. ru_id r = run \<and> ru_state r = ''open''"
  have "ru_id row = run" using f(1) by (auto simp: find_Some_iff)
  then have "List.find (\<lambda>r. ru_id r = run) (upd_rows ?q ?f (runs (st_db ?st))) = Some (?f row)"
    using find_updated[OF f(1), of ?f ?q] f(2) by simp
  moreover have "runs (st_db ?st') = upd_rows ?q ?f (runs (st_db ?st))"
    using close update_runs_rows by (fastforce simp: close_run_def one_row_def res e(2))
  ultimately show ?thesis by (simp add: view_Run_def of_option_def)
qed

definition run_completed :: "db \<Rightarrow> string \<Rightarrow> bool" where
  "run_completed s run \<longleftrightarrow> (\<forall>ident \<in> set (RunMatters s run). through s ident)
     \<and> (\<exists>row. view_Run s run = Inr row \<and> ru_state row = ''closed'' \<and> ru_close_reason row = Some ''completed'')"

lemma settle_finishes:
  assumes "settle g p = (p', Inr ())" "oc_State (pa_out p') = StateFinished" "reachable (pa_store p)"
  shows "run_completed (st_db (pa_store p')) (ru_id (en_run g))"
proof -
  let ?members = "RunMatters (st_db (pa_store p)) (ru_id (en_run g))"
    and ?fin = "one_draft (draft TypeRunFinished (ru_id (en_run g)) [])"
  obtain q ended where q: "settle_loop g ?members True p = (q, Inr ended)"
    using assms(1) by (auto simp: settle_def then_do_def viewing_def split: prod.splits sum.splits)
  let ?q = "outcome (\<lambda>out. out\<lparr>oc_State := StateFinished\<rparr>) q"
  have halt: "ended = None \<Longrightarrow> halted q" using settle_loop_None q by blast
  have ne: "StateStandingBy \<noteq> StateFinished" "StateHalted \<noteq> StateFinished" by (simp_all add: tokens)
  have e: "ended = Some True" "oc_Parked (pa_out q) = []" "committing g (RoleActor RoleOrchestrator) ?fin ?q = (p', Inr ())"
    using assms(1,2) q halt ne
    by (auto simp: settle_def then_do_def viewing_def halted_def split: option.splits if_splits)
  have loop: "same_work (st_db (pa_store p)) (st_db (pa_store q))" "\<forall>ident \<in> set ?members. through (st_db (pa_store q)) ident"
      "reachable (pa_store q)"
    using settle_loop_through[OF q[unfolded e(1)] e(2) assms(3)] by simp_all
  have fin: "same_work (st_db (pa_store q)) (st_db (pa_store p'))" using committing_idle[OF e(3)] by (simp add: draft_def)
  have "store_ok (pa_store ?q)" using loop(3) by (simp add: reachable_ok)
  moreover have "RunMatters (st_db (pa_store p')) run = RunMatters (st_db (pa_store p)) run" for run
    using loop(1) fin by (simp add: RunMatters_def same_work_def)
  ultimately show ?thesis using finishing_closes[OF e(3)] loop(2) through_same[OF fin] by (auto simp: run_completed_def)
qed

section \<open>The whole pass\<close>

lemma closeRole_runs: "closeRole e s = Inr s' \<Longrightarrow> runs s' = runs s"
  by (auto simp: closeRole_def update_roles_def one_row_def res split: if_splits)

lemma pass_closeRole_keeps:
  assumes "pass_closeRole g ident name p = (p', r)" "run_completed (st_db (pa_store p)) run"
  shows "run_completed (st_db (pa_store p')) run"
proof -
  let ?R = "\<lambda>a b. same_work a b \<and> runs b = runs a"
  let ?plan = "one_draft (draft TypeRoleClosed ident (marshal_RoleClosed \<lparr>rc_Reason = RoleCloseCompleted\<rparr>))"
    and ?req = "request (RoleActor name) (en_env g)"
  obtain st' x where c: "Commit ?req (decides ?plan) (pa_store p) = (st', x)" by fastforce
  have "pa_store p' = pa_store p \<or> pa_store p' = st'"
    using assms(1) c fst_commit_plan[of ?req ?plan "\<lambda>c _. Inr c" "pa_store p"]
    by (auto simp: pass_closeRole_def then_do_def viewing_def return_def committing_def split: prod.splits sum.splits if_splits)
  moreover have "?R (st_db (pa_store p)) (st_db st')"
  proof (rule Commit_effect[OF c])
    fix m ds d' e t a b
    assume "decides ?plan (tx_of (pa_store p)) (st_db (pa_store p)) (st_mint (pa_store p)) = (m, Inr ds)" "d' \<in> set ds"
      and e: "ev_Type e = dr_Type d'" "applyEvent t e a = Inr b"
    then have "ev_Type e = TypeRoleClosed" by (auto simp: decides_def one_draft_def from_db_def draft_def)
    then have "closeRole e a = Inr b" using e(2) by (simp add: applyEvent_def transition_types_def tokens)
    then show "?R a b" using closeRole_runs idle_folds(4) by blast
  qed (auto simp: reflp_def transp_def same_work_def)
  ultimately have R: "?R (st_db (pa_store p)) (st_db (pa_store p'))" by auto
  then have "RunMatters (st_db (pa_store p')) run = RunMatters (st_db (pa_store p)) run"
    by (simp add: RunMatters_def same_work_def)
  then show ?thesis using R assms(2) through_same by (auto simp: run_completed_def view_Run_def)
qed

lemma pass_closeRole_out: "pa_out (fst (pass_closeRole g ident name p)) = pa_out p"
  by (auto simp: pass_closeRole_def then_do_def viewing_def return_def committing_def split: prod.splits sum.splits)

lemma execute_finishes:
  assumes "execute k g Work p = (p', Inr ())" "oc_State (pa_out p') = StateFinished" "reachable (pa_store p)"
    and hooks: "hooks_keep (\<lambda>a b. reachable a \<longrightarrow> reachable b) (en_hooks g)" "hk_Work (en_hooks g) = Some Work"
  shows "run_completed (st_db (pa_store p')) (ru_id (en_run g))"
proof -
  have keep: "reachable (pa_store b)" if "upholds (\<lambda>p p'. (pass_step g Work)\<^sup>*\<^sup>* (pa_store p) (pa_store p')) m" "m a = (b, x)"
      "reachable (pa_store a)" for m :: "'a pass \<Rightarrow> 'a pass \<times> 'c result" and a b x
    using pass_step_reachable[OF hooks upholdsD[OF that(1,2)] that(3)] .
  obtain bracket where b: "view_OpenDispatch (st_db (pa_store p)) (env_Worktree (en_env g)) = Some bracket"
    using assms(1) by (auto simp: execute_def split: option.splits)
  obtain p1 orch where p1: "pass_spawnRole g (en_driver g) (di_id bracket) RoleOrchestrator p = (p1, Inr orch)"
    using assms(1) b by (auto simp: execute_def then_do_def split: prod.splits sum.splits)
  let ?p1 = "p1\<lparr>pa_orchestrator := orch\<rparr>"
  let ?reap = "if en_resume g then reapOrphans g else return ()"
  obtain p2 where p2: "?reap ?p1 = (p2, Inr ())"
    using assms(1) b p1 by (auto simp: execute_def then_do_def split: prod.splits sum.splits)
  obtain p3 where p3: "engage k g Work p2 = (p3, Inr ())"
    using assms(1) b p1 p2 by (auto simp: execute_def then_do_def split: prod.splits sum.splits)
  obtain p4 where p4: "(if halted p3 then (p3, Inr ()) else settle g p3) = (p4, Inr ())"
      "p' = fst (pass_closeRole g orch RoleOrchestrator p4)"
    using assms(1) b p1 p2 p3 by (auto simp: execute_def then_do_def split: prod.splits)
  have "oc_State (pa_out p4) = StateFinished" using assms(2) p4(2) pass_closeRole_out by metis
  then have settled: "settle g p3 = (p4, Inr ())" using p4(1) by (auto simp: halted_def tokens split: if_splits)
  have "reachable (pa_store ?p1)" using keep[OF single.uphold_roles(1) p1 assms(3)] by simp
  moreover have reap: "upholds (\<lambda>p p'. (pass_step g Work)\<^sup>*\<^sup>* (pa_store p) (pa_store p')) ?reap"
    unfolding reapOrphans_def by (intro single.pass_rules)
  ultimately have "reachable (pa_store p3)" using keep[OF overall.uphold_engage p3] keep[of ?reap, OF reap p2] by blast
  then have "run_completed (st_db (pa_store p4)) (ru_id (en_run g))"
    using settle_finishes[OF settled] \<open>oc_State (pa_out p4) = StateFinished\<close> by blast
  then show ?thesis using pass_closeRole_keeps p4(2) by (metis prod.collapse)
qed

lemma run_pass_finishes:
  assumes "run_pass resume k lock driver env runID runCap policy hooks st w = (p, Inr ())"
    and "oc_State (pa_out p) = StateFinished" "reachable st" "hooks_keep (\<lambda>a b. reachable a \<longrightarrow> reachable b) hooks"
  shows "run_completed (st_db (pa_store p)) runID"
proof -
  obtain Work run where r: "hk_Work hooks = Some Work" "view_Run (st_db st) runID = Inr run"
    and e: "execute k \<lparr>en_driver = driver, en_env = env, en_run = run, en_cap = runCap, en_policy = policy,
      en_hooks = hooks, en_resume = resume\<rparr> Work (start_pass st w) = (p, Inr ())"
    using assms(1) by (auto simp: run_pass_def Let_def split: if_splits option.splits sum.splits lock_answer.splits)
  have "ru_id run = runID" using r(2) by (auto simp: view_Run_def of_option_def find_Some_iff split: option.splits)
  then show ?thesis using execute_finishes[OF e assms(2)] assms(3,4) r(1) by (simp add: start_pass_def)
qed

end
