(* ===== verification/SchedulerEnds.thy ===== *)
theory SchedulerEnds
  imports SchedulerSettle
begin

text \<open>
  A pass comes to its end. Between two looks at the frontier a pass plans a Matter that
  had no Steps, brings a node to Done, or skips a member it had not skipped; \<open>room\<close> counts
  what is left of the three, and each turn of \<open>engage\<close> lowers it lexicographically. The
  rounds of \<open>completeContainers\<close> each bring a node of the Matter to Done, so that a round
  per node is enough. The hooks may do anything but move nodes or change the frozen set.
\<close>

section \<open>Hooks that leave the nodes alone\<close>

definition leaves_nodes :: "store \<Rightarrow> store \<Rightarrow> bool" where
  "leaves_nodes a b \<longleftrightarrow> (reachable a \<longrightarrow> reachable b) \<and> nodes (st_db b) = nodes (st_db a)
     \<and> run_matters (st_db b) = run_matters (st_db a)"

lemma leaves_nodes_refl [simp]: "leaves_nodes a a"
  by (simp add: leaves_nodes_def)

lemma hooks_keep_mono:
  assumes "hooks_keep Q hooks" "\<And>a b. Q a b \<Longrightarrow> Q' a b"
  shows "hooks_keep Q' hooks"
  unfolding hooks_keep_def[of Q'] using hooks_keepD[OF assms(1)] assms(2) by (intro conjI allI impI) metis+

section \<open>Counting\<close>

lemma length_filter_list_all2: "list_all2 (\<lambda>a b. P b \<longrightarrow> Q a) xs ys \<Longrightarrow> length (filter P ys) \<le> length (filter Q xs)"
  by (induction rule: list_all2_induct) auto

lemma length_filter_strict:
  assumes "\<And>x. x \<in> set xs \<Longrightarrow> P x \<Longrightarrow> Q x" "y \<in> set xs" "Q y" "\<not> P y"
  shows "length (filter P xs) < length (filter Q xs)"
proof -
  have "filter P xs = filter P (filter Q xs)" using assms(1) by (auto intro: filter_cong)
  then show ?thesis using length_filter_less[of y "filter Q xs" P] assms(2-4) by simp
qed

text \<open>A node other than a Step that has no child.\<close>

definition childless :: "node_row list \<Rightarrow> node_row \<Rightarrow> bool" where
  "childless ns r \<longleftrightarrow> (\<forall>c \<in> set ns. n_live c \<longrightarrow> n_parent c \<noteq> Some (n_id r))"

definition bare :: "node_row list \<Rightarrow> node_row \<Rightarrow> bool" where
  "bare ns r \<longleftrightarrow> n_live r \<and> n_kind r \<noteq> ScaleStep \<and> childless ns r"

definition bares :: "db \<Rightarrow> nat" where
  "bares s = length (filter (bare (nodes s)) (nodes s))"

definition undone :: "db \<Rightarrow> nat" where
  "undone s = length (filter (\<lambda>r. n_lifecycle r \<noteq> Done) (nodes s))"

definition unskipped :: "db \<Rightarrow> string \<Rightarrow> string list \<Rightarrow> nat" where
  "unskipped s run skipped = length (filter (\<lambda>i. i \<notin> set skipped) (RunMatters s run))"

definition room :: "'w engine \<Rightarrow> 'w pass \<Rightarrow> nat \<times> nat \<times> nat" where
  "room g p = (bares (st_db (pa_store p)), undone (st_db (pa_store p)),
     unskipped (st_db (pa_store p)) (ru_id (en_run g)) (pa_skipped p))"

lemma advance_counts:
  assumes "advance s s'"
  shows "bares s' \<le> bares s" "undone s' \<le> undone s" "RunMatters s' run = RunMatters s run"
proof -
  have rows: "list_all2 row_kept (nodes s) (nodes s')" using assms by (simp add: advance_def)
  have kept: "childless (nodes s') r' \<longrightarrow> childless (nodes s) r" if "row_kept r r'" for r r'
  proof -
    have "\<exists>c' \<in> set (nodes s'). row_kept c c'" if "c \<in> set (nodes s)" for c
      using rows that by (auto simp: list_all2_conv_all_nth in_set_conv_nth[of _ "nodes s"]) (metis nth_mem)
    then show ?thesis using that unfolding childless_def by (metis row_kept_def n_live_def)
  qed
  have "list_all2 (\<lambda>a b. bare (nodes s') b \<longrightarrow> bare (nodes s) a) (nodes s) (nodes s')"
    using rows
  proof (rule list.rel_mono_strong)
    fix r r'
    assume "row_kept r r'"
    then show "bare (nodes s') r' \<longrightarrow> bare (nodes s) r" using kept[of r r'] by (simp add: bare_def row_kept_def n_live_def)
  qed
  then show "bares s' \<le> bares s" unfolding bares_def by (rule length_filter_list_all2)
  have "list_all2 (\<lambda>a b. n_lifecycle b \<noteq> Done \<longrightarrow> n_lifecycle a \<noteq> Done) (nodes s) (nodes s')"
    using rows by (auto elim!: list.rel_mono_strong simp: row_kept_def)
  then show "undone s' \<le> undone s" unfolding undone_def by (rule length_filter_list_all2)
  show "RunMatters s' run = RunMatters s run" using assms by (simp add: advance_def RunMatters_def)
qed

section \<open>What the steps of a pass keep\<close>

lemma leaves_nodes_advance: "leaves_nodes a b \<Longrightarrow> advance (st_db a) (st_db b)"
  by (simp add: leaves_nodes_def advance_def list_all2_same row_kept_def)

lemma work_steps_keep:
  assumes "hooks_keep leaves_nodes (en_hooks g)" "hk_Work (en_hooks g) = Some Work"
    and "(work_step g Work)\<^sup>*\<^sup>* st st'" "reachable st"
  shows "reachable st' \<and> advance (st_db st) (st_db st')"
  using assms(3,4)
proof (induction rule: rtranclp_induct)
  case (step a b)
  have hook: "reachable b \<and> advance (st_db a) (st_db b)" if "leaves_nodes a b"
    using that leaves_nodes_advance step(3,4) by (simp add: leaves_nodes_def)
  from step(2) have "reachable b \<and> advance (st_db a) (st_db b)"
  proof cases
    case (step_commit decide req)
    then show ?thesis using base_commit step(3,4) by (auto simp: base_decision_def intro: reachable_ops op_commit r_into_rtranclp)
  qed (use hook hooks_keepD[OF assms(1)] assms(2) in metis)+
  then show ?case using step(3,4) advance_trans by blast
qed simp

section \<open>A Step the pass authors\<close>

lemma author_commit:
  assumes "Commit req (decides (authoring matter i title)) st = (st', Inr events)" "store_ok st"
  shows "\<exists>row. nodes (st_db st') = nodes (st_db st) @ [row] \<and> run_matters (st_db st') = run_matters (st_db st)
    \<and> n_kind row = ScaleStep \<and> n_live row \<and> n_parent row = Some (N_ID matter)"
proof -
  let ?decide = "decides (authoring matter i title)"
  obtain m ds where "?decide (tx_of st) (st_db st) (st_mint st) = (m, Inr ds)"
    using assms(1) by (auto simp: Commit_def tx_of_def split: if_splits sum.splits prod.splits)
  then obtain ident where ds: "?decide (tx_of st) (st_db st) (st_mint st) = (m, Inr [draft TypeStepCreated ident
      (marshal_NodeBirth \<lparr>nb_Title = title, nb_Locator = step_locator i, nb_Parent = N_ID matter,
        nb_SortKey = NextSortKey (st_db st) (N_ID matter)\<rparr>)])"
    by (auto simp: authoring_def from_id_def decides_def split: prod.splits sum.splits)
  have "minting ?decide" unfolding authoring_def by (intro minting_decides sound_from_id)
  then obtain t e where e: "ev_Type e = TypeStepCreated" "ev_Payload e = marshal_NodeBirth \<lparr>nb_Title = title, nb_Locator = step_locator i,
        nb_Parent = N_ID matter, nb_SortKey = NextSortKey (st_db st) (N_ID matter)\<rparr>"
      "applyEvent t e (st_db st) = Inr (st_db st')"
    using Commit_single[OF assms(2) _ assms(1)] ds by (fastforce simp: draft_def)
  then have "insertNode t e ScaleStep (st_db st) = Inr (st_db st')"
    by (simp add: applyEvent_def transition_types_def tokens)
  then obtain p matter' where p: "decode_NodeBirth (ev_Payload e) = Inr p" "matterOf (st_db st) ScaleStep (ev_Subject e) (nb_Parent p) = Inr matter'"
      and ins: "insert_nodes t \<lparr>n_id = ev_Subject e, n_kind = ScaleStep, n_repo = ev_Repo e, n_matter = matter',
       n_parent = nullable (nb_Parent p), n_locator = nb_Locator p, n_title = nb_Title p,
       n_lifecycle = Planned, n_sort_key = nb_SortKey p, n_external_ref = None,
       n_birth = ev_ID e, n_last = ev_ID e, n_tombstone = None\<rparr> (st_db st) = Inr (st_db st')" (is "insert_nodes t ?row _ = _")
    by (auto simp: insertNode_def res)
  have "nb_Parent p = N_ID matter" using p(1) by (auto simp: e(2) decode_NodeBirth_def marshal_NodeBirth_def res split: if_splits)
  moreover have "nb_Parent p \<noteq> []" using p(2) by (auto simp: matterOf_def tokens split: if_splits)
  ultimately have "n_parent ?row = Some (N_ID matter)" by (simp add: nullable_def)
  moreover have "nodes s' = nodes s @ [row] \<and> run_matters s' = run_matters s" if "insert_nodes t row s = Inr s'" for row s s'
    using that by (auto simp: insert_nodes_def res)
  ultimately show ?thesis using ins by (fastforce simp: n_live_def)
qed

lemma bare_snoc: "bare (ns @ [row]) r \<Longrightarrow> bare ns r"
  by (auto simp: bare_def childless_def)

lemma author_keeps:
  assumes "reachable st" "Commit req (decides (authoring matter i title)) st = (st', r)"
  shows "reachable st'" "bares (st_db st') \<le> bares (st_db st)" "RunMatters (st_db st') run = RunMatters (st_db st) run"
proof -
  have m: "minting (decides (authoring matter i title))" unfolding authoring_def by (intro minting_decides sound_from_id)
  show "reachable st'" using reachable_ops[OF r_into_rtranclp assms(1), of st'] op_commit[OF m, of st req] assms(2) by simp
  have "bares (st_db st') \<le> bares (st_db st) \<and> run_matters (st_db st') = run_matters (st_db st)"
  proof (cases r)
    case (Inl a)
    then show ?thesis using Commit_error_db assms(2) by auto
  next
    case (Inr events)
    obtain row where row: "nodes (st_db st') = nodes (st_db st) @ [row]" "run_matters (st_db st') = run_matters (st_db st)"
        "n_kind row = ScaleStep"
      using author_commit assms Inr reachable_ok by blast
    then have eq: "bares (st_db st') = length (filter (bare (nodes (st_db st'))) (nodes (st_db st)))"
      by (simp add: bares_def) (simp add: bare_def)
    show ?thesis
      unfolding eq unfolding bares_def row(1) using row(2)
      by (auto simp: list_all2_same intro!: length_filter_list_all2 intro: bare_snoc)
  qed
  then show "bares (st_db st') \<le> bares (st_db st)" "RunMatters (st_db st') run = RunMatters (st_db st) run"
    by (simp_all add: RunMatters_def)
qed

lemma author_lowers:
  assumes "reachable st" "Commit req (decides (authoring matter i title)) st = (st', Inr events)"
    and x: "x \<in> set (nodes (st_db st))" "n_id x = N_ID matter" "n_live x" "childless (nodes (st_db st)) x"
  shows "bares (st_db st') < bares (st_db st)"
proof -
  obtain row where row: "nodes (st_db st') = nodes (st_db st) @ [row]" "n_kind row = ScaleStep" "n_live row" "n_parent row = Some (N_ID matter)"
    using author_commit assms(1,2) reachable_ok by blast
  then have eq: "bares (st_db st') = length (filter (bare (nodes (st_db st'))) (nodes (st_db st)))"
    by (simp add: bares_def) (simp add: bare_def)
  have ok: "tree_ok (st_db st')" "keys_ok (st_db st')"
    using schema.reachable_keep[OF author_keeps(1)[OF assms(1,2)]] by (auto simp: schema_ok_def)
  then obtain q where q: "q \<in> set (nodes (st_db st'))" "under row q"
    using row(1,4) by (auto simp: tree_ok_def placed_def list_ex_iff)
  then have "q = x" using ok(2) x(1,2) row(1,4) by (auto simp: under_def keys_ok_def intro: distinct_mapD)
  then have "n_kind x \<noteq> ScaleStep" using q(2) by (auto simp: under_def tokens)
  then have "bare (nodes (st_db st)) x" "\<not> bare (nodes (st_db st')) x"
    using x row by (auto simp: bare_def childless_def)
  then show ?thesis unfolding eq unfolding bares_def
    using length_filter_strict[of "nodes (st_db st)" "bare (nodes (st_db st'))" "bare (nodes (st_db st))"] x(1) bare_snoc row(1) by metis
qed

section \<open>A node the pass finishes\<close>

definition is_done :: "db \<Rightarrow> string \<Rightarrow> bool" where
  "is_done s ident \<longleftrightarrow> (\<exists>r \<in> set (nodes s). n_id r = ident \<and> n_lifecycle r = Done)"

lemma is_done_advance:
  assumes "advance s s'" "is_done s ident"
  shows "is_done s' ident"
proof -
  obtain i where "i < length (nodes s)" "n_id (nodes s ! i) = ident" "n_lifecycle (nodes s ! i) = Done"
    using assms(2) by (auto simp: is_done_def in_set_conv_nth)
  then show ?thesis using assms(1)
    by (auto simp: is_done_def advance_def list_all2_conv_all_nth row_kept_def intro!: bexI[of _ "nodes s' ! i"])
qed

lemma transition_lowers:
  assumes "nodes s' = upd_rows q (\<lambda>r. r\<lparr>n_lifecycle := Done, n_last := v\<rparr>) (nodes s)" "hits q (nodes s) = 1"
    and "\<And>r. q r \<Longrightarrow> n_id r = ident \<and> n_lifecycle r \<noteq> Done"
  shows "is_done s' ident \<and> undone s' < undone s"
proof -
  have "filter q (nodes s) \<noteq> []" using assms(2) by (auto simp: hits_def)
  then obtain y where y: "y \<in> set (nodes s)" "q y" by (auto simp: filter_empty_conv)
  have "undone s' = length (filter (\<lambda>r. \<not> q r \<and> n_lifecycle r \<noteq> Done) (nodes s))"
    unfolding undone_def assms(1) upd_rows_def filter_map length_map by (auto intro!: arg_cong[where f = length] filter_cong split: if_splits)
  also have "\<dots> < undone s"
    unfolding undone_def by (rule length_filter_strict[of _ _ _ y]) (use y assms(3) in auto)
  finally have "undone s' < undone s" .
  moreover have "y\<lparr>n_lifecycle := Done, n_last := v\<rparr> \<in> set (nodes s')" using y by (auto simp: assms(1) upd_rows_def)
  ultimately show ?thesis
    using assms(3)[OF y(2)] unfolding is_done_def by (auto intro!: bexI[of _ "y\<lparr>n_lifecycle := Done, n_last := v\<rparr>"])
qed

lemma finishing_lowers:
  assumes "committing g actor (one_draft (draft (finishEvent k) ident (transition InProgress Done False))) p = (p', Inr x)"
    and "store_ok (pa_store p)"
  shows "is_done (st_db (pa_store p')) ident \<and> undone (st_db (pa_store p')) < undone (st_db (pa_store p))"
proof -
  let ?d = "draft (finishEvent k) ident (transition InProgress Done False)"
  have "commit_plan (request actor (en_env g)) (one_draft ?d) (\<lambda>c _. Inr c) (pa_store p) = (pa_store p', Inr x)"
    using assms(1) by (auto simp: committing_def split: prod.splits)
  then obtain events where c: "Commit (request actor (en_env g)) (decides (one_draft ?d)) (pa_store p) = (pa_store p', Inr events)"
    by (rule commit_plan_Inr)
  have "minting (decides (one_draft ?d))" unfolding one_draft_def by (intro minting_decides sound_from_db)
  then obtain t e where e: "ev_Type e = finishEvent k" "ev_Subject e = ident" "ev_Payload e = transition InProgress Done False"
      "applyEvent t e (st_db (pa_store p)) = Inr (st_db (pa_store p'))"
    using Commit_single[OF assms(2) _ c, of ?d] by (auto simp: decides_def one_draft_def from_db_def draft_def)
  have "ev_Type e \<in> set transition_types" by (simp add: e(1) finishEvent_def transition_types_def)
  from transition_event[OF this e(3) _ _ e(4)] show ?thesis
    by (intro transition_lowers[where q = "\<lambda>r. n_id r = ident \<and> n_lifecycle r = InProgress \<and> n_live r" and v = "ev_ID e"])
      (auto simp: e(2) tokens)
qed

text \<open>The fixed hypotheses on the hooks, and what a statement of the pass without planning keeps.\<close>

definition tame :: "'w engine \<Rightarrow> ('w \<Rightarrow> store \<Rightarrow> Node \<Rightarrow> 'w \<times> store \<times> string option) \<Rightarrow> bool" where
  "tame g Work \<longleftrightarrow> hooks_keep leaves_nodes (en_hooks g) \<and> hk_Work (en_hooks g) = Some Work"

lemma turn_keeps:
  assumes "tame g Work" "upholds (\<lambda>p p'. (work_step g Work)\<^sup>*\<^sup>* (pa_store p) (pa_store p')) m" "m p = (p', r)" "reachable (pa_store p)"
  shows "reachable (pa_store p') \<and> advance (st_db (pa_store p)) (st_db (pa_store p'))"
  using work_steps_keep upholdsD[OF assms(2,3)] assms(1,4) by (auto simp: tame_def)

lemma finish_lowers:
  assumes "tame g Work" "pass_finish g node actor p = (p', Inr ())" "reachable (pa_store p)"
  shows "is_done (st_db (pa_store p')) (N_ID node) \<and> undone (st_db (pa_store p')) < undone (st_db (pa_store p))"
proof -
  obtain q x where q: "committing g actor (one_draft (draft (finishEvent (N_Kind node)) (N_ID node) (transition InProgress Done False))) p = (q, Inr x)"
    and p': "p' = (case (if N_Kind node = ScaleMatter then hk_PostSeal (en_hooks g) else None) of
        None \<Rightarrow> q
      | Some postSeal \<Rightarrow> (case postSeal (pa_world q) (pa_store q) node of (w', st') \<Rightarrow> q\<lparr>pa_world := w', pa_store := st'\<rparr>))"
    using assms(2) by (auto simp: pass_finish_def then_do_def changing_def split: prod.splits sum.splits)
  have "leaves_nodes (pa_store q) (pa_store p')"
    using hooks_keepD(4)[of leaves_nodes "en_hooks g"] assms(1)
    by (auto simp: p' tame_def split: prod.splits option.splits if_splits)
  then have "nodes (st_db (pa_store p')) = nodes (st_db (pa_store q))" by (simp add: leaves_nodes_def)
  then show ?thesis using finishing_lowers[OF q] assms(3) reachable_ok by (simp add: is_done_def undone_def)
qed

section \<open>The rounds over the containers end\<close>

definition owing :: "db \<Rightarrow> Node list \<Rightarrow> nat" where
  "owing s ns = length (filter (\<lambda>n. \<not> is_done s (N_ID n)) ns)"

lemma advance_owing: "advance s s' \<Longrightarrow> owing s' ns \<le> owing s ns"
  unfolding owing_def by (rule length_filter_list_all2) (auto simp: list_all2_same dest: is_done_advance)

lemma owing_strict: "advance s s' \<Longrightarrow> n \<in> set ns \<Longrightarrow> \<not> is_done s (N_ID n) \<Longrightarrow> is_done s' (N_ID n) \<Longrightarrow> owing s' ns < owing s ns"
  unfolding owing_def by (rule length_filter_strict[of _ _ _ n]) (auto dest: is_done_advance)

lemma round_lowers:
  assumes "tame g Work" "containers_round g matter hasChild ns0 b p = (p', Inr c)" "reachable (pa_store p)" "set ns0 \<subseteq> set ns" "c" "\<not> b"
  shows "owing (st_db (pa_store p')) ns < owing (st_db (pa_store p)) ns"
  using assms(2,4,6)
proof (induction ns0)
  case Nil
  then show ?case using assms(5) by (simp add: return_def)
next
  case (Cons n ns0)
  obtain fresh where f: "view_Node (st_db (pa_store p)) (N_ID n) = Inr fresh"
    using Cons.prems(1) by (auto simp: then_do_def viewing_def split: sum.splits)
  show ?case
  proof (cases "N_Lifecycle fresh \<noteq> InProgress \<or> \<not> hasChild (N_ID fresh) \<or> \<not> interiorDone (st_db (pa_store p)) (N_ID fresh)")
    case True
    then have "containers_round g matter hasChild ns0 b p = (p', Inr c)"
      using Cons.prems(1) f by (auto simp: then_do_def viewing_def split: if_splits)
    then show ?thesis using Cons.IH Cons.prems(2,3) by simp
  next
    case False
    obtain q x where q: "pass_finish g fresh (RoleActor RoleOrchestrator) p = (q, Inr x)"
      and rest: "then_do (if N_ID fresh = N_ID matter then closeClaim g (N_ID matter) else return ()) (\<lambda>_.
         containers_round g matter hasChild ns0 True) q = (p', Inr c)"
      using Cons.prems(1) f False by (auto simp: then_do_def[of "viewing _"] then_do_def[of "pass_finish _ _ _"] viewing_def split: prod.splits sum.splits)
    obtain r where r: "live_row (st_db (pa_store p)) (N_ID n) = Some r" "fresh = scanNode r"
      using f by (auto simp: view_Node_def of_option_def split: option.splits)
    have rn: "r \<in> set (nodes (st_db (pa_store p)))" "n_id r = N_ID n" "n_lifecycle r = InProgress" "N_ID fresh = N_ID n"
      using live_row_Some[OF r(1)] r(2) False by (simp_all add: scanNode_def)
    have "keys_ok (st_db (pa_store p))" using schema.reachable_keep[OF assms(3)] by (simp add: schema_ok_def)
    then have no: "\<not> is_done (st_db (pa_store p)) (N_ID n)"
      using rn by (auto simp: is_done_def keys_ok_def tokens dest: distinct_mapD[of n_id])
    have q1: "reachable (pa_store q)" "advance (st_db (pa_store p)) (st_db (pa_store q))"
      using turn_keeps[OF assms(1) turn.uphold_finish q assms(3)] by simp_all
    have done1: "is_done (st_db (pa_store q)) (N_ID n)"
      using finish_lowers[OF assms(1) _ assms(3), of fresh "RoleActor RoleOrchestrator" q] q rn(4) by simp
    have "upholds (\<lambda>p p'. (work_step g Work)\<^sup>*\<^sup>* (pa_store p) (pa_store p'))
        (then_do (if N_ID fresh = N_ID matter then closeClaim g (N_ID matter) else return ()) (\<lambda>_.
         containers_round g matter hasChild ns0 True))"
      by (intro turn.pass_rules turn.uphold_closeClaim turn.uphold_round)
    from turn_keeps[OF assms(1) this rest q1(1)]
    have "owing (st_db (pa_store p')) ns \<le> owing (st_db (pa_store q)) ns" by (simp add: advance_owing)
    also have "\<dots> < owing (st_db (pa_store p)) ns" using owing_strict[OF q1(2) _ no done1] Cons.prems(2) by simp
    finally show ?thesis .
  qed
qed

lemma containers_end:
  assumes "tame g Work" "reachable (pa_store p)" "owing (st_db (pa_store p)) ns < k" "\<not> pa_spent p"
  shows "\<not> pa_spent (fst (containers_loop k g matter hasChild ns p))"
  using assms(2-4)
proof (induction k arbitrary: p)
  case (Suc k)
  obtain q r where q: "containers_round g matter hasChild ns False p = (q, r)" by fastforce
  have s: "\<not> pa_spent q" using upholdsD[OF fuelled.uphold_round q] Suc.prems(3) by simp
  show ?case
  proof (cases "r = Inr True")
    case True
    have "reachable (pa_store q)" using turn_keeps[OF assms(1) turn.uphold_round q Suc.prems(1)] by simp
    moreover have "owing (st_db (pa_store q)) ns < k"
      using round_lowers[OF assms(1) q[unfolded True] Suc.prems(1), of ns] Suc.prems(2) by simp
    ultimately show ?thesis using Suc.IH[of q] s q True by (simp add: then_do_def)
  next
    case False
    then show ?thesis using q s by (cases r) (auto simp: then_do_def return_def)
  qed
qed simp

lemma completeContainers_ends:
  assumes "tame g Work" "reachable (pa_store p)" "\<not> pa_spent p"
  shows "\<not> pa_spent (fst (completeContainers g matter p))"
proof -
  let ?ns = "MatterNodes (st_db (pa_store p)) (N_ID matter)"
  have "owing (st_db (pa_store p)) ?ns < Suc (length ?ns)" by (simp add: owing_def less_Suc_eq_le)
  from containers_end[OF assms(1,2) this assms(3)] show ?thesis
    unfolding completeContainers_def by (simp add: then_do_def viewing_def)
qed

section \<open>A member the pass skips\<close>

interpretation skip: pass_relation "\<lambda>p p'. set (pa_skipped p) \<subseteq> set (pa_skipped p')" g for g :: "'w engine"
  by unfold_locales auto

interpretation skips: pass_relation_planning "\<lambda>p p'. set (pa_skipped p) \<subseteq> set (pa_skipped p')" g Work for g :: "'w engine" and Work
  by unfold_locales (auto intro: skip.containers_by_spending)

lemma in_frozen_member:
  assumes "in_frozen_set s run matter"
  shows "\<exists>r \<in> set (run_matters s). rmt_run r = run \<and> rmt_matter r = matter"
proof -
  have "filter (\<lambda>r. rmt_run r = run \<and> rmt_matter r = matter) (run_matters s) \<noteq> []"
    using assms by (auto simp: in_frozen_set_def hits_def)
  then show ?thesis by (simp add: filter_empty_conv)
qed

lemma skip_commits:
  assumes "skip_command g matter reason h p = (p', Inr ())" "store_ok (pa_store p)"
  shows "N_ID matter \<in> set (pa_skipped p') \<and> N_ID matter \<in> set (RunMatters (st_db (pa_store p')) (ru_id (en_run g)))"
proof -
  let ?d = "draft TypeRunSkipped (N_ID matter) (marshal_RunSkipped \<lparr>rk_Run = ru_id (en_run g), rk_Reason = reason\<rparr>)"
  obtain q x where q: "committing g (RoleActor RoleOrchestrator) (one_draft ?d) p = (q, Inr x)" "p' = skip_entry matter reason h q"
    using assms(1) by (auto simp: skip_command_def then_do_def changing_def split: prod.splits sum.splits)
  have "commit_plan (request (RoleActor RoleOrchestrator) (en_env g)) (one_draft ?d) (\<lambda>c _. Inr c) (pa_store p) = (pa_store q, Inr x)"
    using q(1) by (auto simp: committing_def split: prod.splits)
  then obtain events where c: "Commit (request (RoleActor RoleOrchestrator) (en_env g)) (decides (one_draft ?d)) (pa_store p) = (pa_store q, Inr events)"
    by (rule commit_plan_Inr)
  have "minting (decides (one_draft ?d))" unfolding one_draft_def by (intro minting_decides sound_from_db)
  then obtain t e where e: "ev_Type e = TypeRunSkipped" "ev_Subject e = N_ID matter"
      "ev_Payload e = marshal_RunSkipped \<lparr>rk_Run = ru_id (en_run g), rk_Reason = reason\<rparr>"
      "applyEvent t e (st_db (pa_store p)) = Inr (st_db (pa_store q))"
    using Commit_single[OF assms(2) _ c, of ?d] by (auto simp: decides_def one_draft_def from_db_def draft_def)
  have v: "validateRunSkipped e (st_db (pa_store p)) = Inr (st_db (pa_store q))"
    using e(4) by (simp add: applyEvent_def transition_types_def tokens e(1))
  then have "in_frozen_set (st_db (pa_store p)) (ru_id (en_run g)) (N_ID matter)" "st_db (pa_store q) = st_db (pa_store p)"
    by (auto simp: validateRunSkipped_def res e(2,3) payload_rt split: if_splits)
  moreover from this obtain r where "r \<in> set (run_matters (st_db (pa_store p)))" "rmt_run r = ru_id (en_run g)" "rmt_matter r = N_ID matter"
    using in_frozen_member by blast
  ultimately show ?thesis by (auto simp: q(2) RunMatters_def image_iff)
qed

lemma skip_lowers:
  assumes "tame g Work" "pass_skip g matter reason handling p = (p', Inr ())" "reachable (pa_store p)"
  shows "N_ID matter \<in> set (pa_skipped p') \<and> N_ID matter \<in> set (RunMatters (st_db (pa_store p')) (ru_id (en_run g)))"
proof (cases rule: pass_skip_split[of g matter reason handling p])
  case (silent h)
  then show ?thesis using skip_commits assms(2,3) reachable_ok by metis
next
  case (asked ask w' st' h)
  have "leaves_nodes (pa_store p) st'" using hooks_keepD(3)[OF _ asked(1,2), of leaves_nodes] assms(1) by (simp add: tame_def)
  then have "store_ok (pa_store (p\<lparr>pa_world := w', pa_store := st'\<rparr>))" using assms(3) by (simp add: leaves_nodes_def reachable_ok)
  then show ?thesis using skip_commits assms(2) asked(3) by metis
qed

section \<open>What each turn lowers\<close>

definition lowers_room :: "'w engine \<Rightarrow> 'w pass \<Rightarrow> 'w pass \<Rightarrow> bool" where
  "lowers_room g p' p \<longleftrightarrow> (room g p', room g p) \<in> less_than <*lex*> less_than <*lex*> less_than"

lemma lower_planned: "bares (st_db (pa_store p')) < bares (st_db (pa_store p)) \<Longrightarrow> lowers_room g p' p"
  by (simp add: lowers_room_def room_def)

lemma lower_finished:
  "advance (st_db (pa_store p)) (st_db (pa_store p')) \<Longrightarrow> undone (st_db (pa_store p')) < undone (st_db (pa_store p)) \<Longrightarrow> lowers_room g p' p"
  using advance_counts(1)[of "st_db (pa_store p)" "st_db (pa_store p')"] by (auto simp: lowers_room_def room_def)

lemma lower_skipped:
  assumes "advance (st_db (pa_store p)) (st_db (pa_store p'))" "set (pa_skipped p) \<subseteq> set (pa_skipped p')"
    and i: "i \<in> set (RunMatters (st_db (pa_store p')) (ru_id (en_run g)))" "i \<in> set (pa_skipped p')" "i \<notin> set (pa_skipped p)"
  shows "lowers_room g p' p"
proof -
  note counts = advance_counts[OF assms(1)]
  have "unskipped (st_db (pa_store p')) (ru_id (en_run g)) (pa_skipped p') < unskipped (st_db (pa_store p)) (ru_id (en_run g)) (pa_skipped p)"
    using i assms(2) unfolding unskipped_def counts(3) by (intro length_filter_strict[of _ _ _ i]) auto
  then show ?thesis using counts(1,2) by (auto simp: lowers_room_def room_def)
qed

text \<open>A turn of work: it finishes the node or skips its Matter.\<close>

lemma work_failed_skips:
  assumes "tame g Work" "work_failed g matter p = (p', Inr b)" "reachable (pa_store p)"
  shows "b \<and> N_ID matter \<in> set (pa_skipped p') \<and> N_ID matter \<in> set (RunMatters (st_db (pa_store p')) (ru_id (en_run g)))"
proof -
  obtain q where q: "closeClaim g (N_ID matter) p = (q, Inr ())"
      "pass_skip g matter RunSkipFailed (po_Failed (en_policy g)) q = (p', Inr ())" "b"
    using assms(2) by (auto simp: work_failed_def then_do_def return_def split: prod.splits sum.splits)
  then show ?thesis using skip_lowers[OF assms(1) q(2)] closeClaim_reachable[OF q(1) assms(3)] by simp
qed

lemma work_done_finishes:
  assumes "tame g Work" "work_done g matter node builder p = (p', Inr b)" "reachable (pa_store p)"
  shows "b \<and> undone (st_db (pa_store p')) < undone (st_db (pa_store p))"
proof -
  let ?rest = "then_do (pass_closeRole g builder RoleBuilder) (\<lambda>_.
     then_do (changing (outcome (\<lambda>out. out\<lparr>oc_Worked := oc_Worked out @ [node]\<rparr>))) (\<lambda>_.
     then_do (if N_ID node = N_ID matter then closeClaim g (N_ID matter) else completeContainers g matter) (\<lambda>_. return True)))"
  obtain q where q: "pass_finish g node (RoleActor RoleBuilder) p = (q, Inr ())" "?rest q = (p', Inr b)"
    using assms(2) by (auto simp: work_done_def then_do_def[of "pass_finish _ _ _"] split: prod.splits sum.splits)
  have "b" using q(2) by (auto simp: then_do_def return_def split: prod.splits sum.splits)
  have "upholds (\<lambda>p p'. (work_step g Work)\<^sup>*\<^sup>* (pa_store p) (pa_store p')) ?rest"
    by (intro turn.pass_rules turn.uphold_roles turn.uphold_closeClaim turns.containers) simp
  from turn_keeps[OF assms(1) this q(2)] turn_keeps[OF assms(1) turn.uphold_finish q(1) assms(3)]
  have "undone (st_db (pa_store p')) \<le> undone (st_db (pa_store q))" by (simp add: advance_counts(2))
  then show ?thesis using finish_lowers[OF assms(1) q(1) assms(3)] \<open>b\<close> by simp
qed

lemma working_lowers:
  assumes "tame g Work" "working g Work matter node claim p = (p', Inr b)" "reachable (pa_store p)"
  shows "b \<and> (undone (st_db (pa_store p')) < undone (st_db (pa_store p))
    \<or> N_ID matter \<in> set (pa_skipped p') \<and> N_ID matter \<in> set (RunMatters (st_db (pa_store p')) (ru_id (en_run g))))"
proof -
  let ?start = "if N_Lifecycle node = Planned then pass_start g node else return ()"
  obtain q1 where q1: "?start p = (q1, Inr ())"
    using assms(2) by (auto simp: working_def then_do_def split: prod.splits sum.splits if_splits)
  obtain q2 builder where q2: "pass_spawnRole g (RoleActor RoleOrchestrator) claim RoleBuilder q1 = (q2, Inr builder)"
      "turn g Work matter node builder q2 = (p', Inr b)"
    using assms(2) q1 by (auto simp: working_def then_do_def split: prod.splits sum.splits)
  have "upholds (\<lambda>p p'. (work_step g Work)\<^sup>*\<^sup>* (pa_store p) (pa_store p')) ?start"
    by (intro turn.pass_rules turn.uphold_start)
  note k1 = turn_keeps[OF assms(1) this q1 assms(3)]
  note k2 = turn_keeps[OF assms(1) turn.uphold_roles(1) q2(1) conjunct1[OF k1]]
  obtain w' st' e where wk: "Work (pa_world q2) (pa_store q2) node = (w', st', e)"
    by (cases "Work (pa_world q2) (pa_store q2) node") auto
  let ?q3 = "q2\<lparr>pa_world := w', pa_store := st'\<rparr>"
  have "leaves_nodes (pa_store q2) st'" using hooks_keepD(1)[of leaves_nodes "en_hooks g" Work, OF _ _ wk] assms(1) by (simp add: tame_def)
  then have k3: "reachable (pa_store ?q3)" "advance (st_db (pa_store p)) (st_db (pa_store ?q3))"
    using k1 k2 leaves_nodes_advance[of "pa_store q2" st'] advance_trans by (simp add: leaves_nodes_def, simp, metis)
  show ?thesis
  proof (cases "e = None")
    case True
    then have "work_done g matter node builder ?q3 = (p', Inr b)" using q2(2) wk by (simp add: turn_def)
    from work_done_finishes[OF assms(1) this k3(1)] show ?thesis using advance_counts(2)[OF k3(2)] by simp
  next
    case False
    then have "work_failed g matter ?q3 = (p', Inr b)" using q2(2) wk by (simp add: turn_def)
    from work_failed_skips[OF assms(1) this k3(1)] show ?thesis by simp
  qed
qed

text \<open>The relation of the states of a pass that still has its fuel. Its laws hold of hooks that are
  tame; the containers are the one place where fuel could run out.\<close>

definition lasts :: "'w engine \<Rightarrow> ('w \<Rightarrow> store \<Rightarrow> Node \<Rightarrow> 'w \<times> store \<times> string option) \<Rightarrow> 'w pass \<Rightarrow> 'w pass \<Rightarrow> bool" where
  "lasts g Work p p' \<longleftrightarrow> (tame g Work \<and> reachable (pa_store p) \<and> \<not> pa_spent p \<longrightarrow> reachable (pa_store p') \<and> \<not> pa_spent p')"

lemma lasts_hook:
  "(tame g Work \<Longrightarrow> leaves_nodes (pa_store p) st') \<Longrightarrow> lasts g Work p (p\<lparr>pa_world := w', pa_store := st'\<rparr>)"
  by (simp add: lasts_def leaves_nodes_def)

interpretation last: pass_relation "lasts g Work" g for g :: "'w engine" and Work
proof unfold_locales
  fix decide req and p :: "'w pass"
  assume "base_decision decide"
  then show "lasts g Work p (p\<lparr>pa_store := fst (Commit req decide (pa_store p))\<rparr>)"
    by (auto simp: lasts_def base_decision_def intro: reachable_ops op_commit r_into_rtranclp)
next
  fix h1 and p :: "'w pass" and node reason w' st' h
  assume "hk_Ask (en_hooks g) = Some h1" "h1 (pa_world p) (pa_store p) node reason = (w', st', h)"
  then show "lasts g Work p (p\<lparr>pa_world := w', pa_store := st'\<rparr>)"
    by (intro lasts_hook) (metis tame_def hooks_keepD(3))
next
  fix h2 and p :: "'w pass" and node w' st'
  assume "hk_PostSeal (en_hooks g) = Some h2" "h2 (pa_world p) (pa_store p) node = (w', st')"
  then show "lasts g Work p (p\<lparr>pa_world := w', pa_store := st'\<rparr>)"
    by (intro lasts_hook) (metis tame_def hooks_keepD(4))
qed (auto simp: lasts_def)

lemma containers_last: "upholds (lasts g Work) (completeContainers g matter)"
  unfolding upholds_def
proof
  fix p
  obtain p' r where c: "completeContainers g matter p = (p', r)" by fastforce
  have "reachable (pa_store p') \<and> \<not> pa_spent p'" if "tame g Work" "reachable (pa_store p)" "\<not> pa_spent p"
    using turn_keeps[OF that(1) turns.containers c that(2)] completeContainers_ends[OF that] c by (metis fst_conv)
  then show "lasts g Work p (fst (completeContainers g matter p))" by (simp add: lasts_def c)
qed

interpretation lasting: pass_relation_planning "lasts g Work" g Work for g :: "'w engine" and Work
proof unfold_locales
  fix req matter i title and p :: "'w pass"
  show "lasts g Work p (p\<lparr>pa_store := fst (Commit req (decides (authoring matter i title)) (pa_store p))\<rparr>)"
    using author_keeps(1)[of "pa_store p" req matter i title] by (auto simp: lasts_def split: prod.splits) (metis prod.collapse)
next
  fix p :: "'w pass" and node w' st' e
  assume "Work (pa_world p) (pa_store p) node = (w', st', e)"
  then show "lasts g Work p (p\<lparr>pa_world := w', pa_store := st'\<rparr>)"
    by (intro lasts_hook) (auto simp: tame_def dest: hooks_keepD(1))
next
  fix h3 and p :: "'w pass" and node w' st' ss
  assume "hk_Plan (en_hooks g) = Some h3" "h3 (pa_world p) (pa_store p) node = (w', st', ss)"
  then show "lasts g Work p (p\<lparr>pa_world := w', pa_store := st'\<rparr>)"
    by (intro lasts_hook) (auto simp: tame_def dest: hooks_keepD(2))
qed (auto simp: lasts_def containers_last)

section \<open>Claims and plans\<close>

lemma commit_plan_captures:
  assumes "commit_plan req plan (\<lambda>c _. Inr c) st = (st', Inr c)"
  obtains m ds events where "plan (tx_of st) (st_db st) (st_mint st) = (m, Inr (ds, c))" "Commit req (decides plan) st = (st', Inr events)"
  using assms
  by (cases "plan (tx_of st) (st_db st) (st_mint st)")
    (auto simp: commit_plan_def captured_def res split: prod.splits sum.splits)

lemma claiming_ident:
  assumes "committing g actor (claiming run matter) p = (p', Inr ident)"
  shows "ident \<noteq> []"
proof -
  let ?req = "request actor (en_env g)" and ?st = "pa_store p" and ?plan = "claiming run matter"
  have "commit_plan ?req ?plan (\<lambda>c _. Inr c) ?st = (pa_store p', Inr ident)"
    using assms by (auto simp: committing_def split: prod.splits)
  then obtain m ds events where d: "?plan (tx_of ?st) (st_db ?st) (st_mint ?st) = (m, Inr (ds, ident))"
      "Commit ?req (decides ?plan) ?st = (pa_store p', Inr events)"
    by (rule commit_plan_captures)
  then obtain m' evs s where "commit_loop ?req ds [] m (st_log ?st, st_db ?st) = (m', Inr (events, evs, s))"
    by (auto simp: Commit_def decides_def tx_of_def split: if_splits sum.splits prod.splits)
  from commit_loop_effect[where R = "\<lambda>_ _. True", OF this] have "\<forall>d \<in> set ds. length (dr_Subject d) = IDLen"
    by (simp add: reflp_def transp_def)
  moreover have "\<exists>d \<in> set ds. dr_Subject d = ident"
    using d(1) by (auto simp: claiming_def from_id_def draft_def split: prod.splits sum.splits)
  ultimately show ?thesis by (auto simp: IDLen_def)
qed

lemma with_claim_skips:
  assumes "tame g Work" "with_claim g matter p = (p', Inr None)" "reachable (pa_store p)"
  shows "N_ID matter \<in> set (pa_skipped p') \<and> N_ID matter \<in> set (RunMatters (st_db (pa_store p')) (ru_id (en_run g)))"
proof -
  let ?c = "committing g (RoleActor RoleOrchestrator) (claiming (ru_id (en_run g)) (N_ID matter))"
  have "openClaim g matter p = (p', Inr [])"
    using assms(2) by (auto simp: with_claim_def then_do_def return_def changing_def split: option.splits prod.splits sum.splits if_splits)
  then obtain q e where q: "?c p = (q, Inl e)" "pass_skip g matter RunSkipContention (po_Contention (en_policy g)) q = (p', Inr ())"
    by (auto simp: openClaim_def then_do_def return_def dest: claiming_ident split: prod.splits sum.splits if_splits)
  then show ?thesis using skip_lowers[OF assms(1) q(2)] committing_reachable[OF q(1) base_plans(2) assms(3)] by simp
qed

text \<open>A live node with no child, as the frontier selects them.\<close>

definition leaf :: "db \<Rightarrow> string \<Rightarrow> bool" where
  "leaf s ident \<longleftrightarrow> (\<exists>x \<in> set (nodes s). n_id x = ident \<and> n_live x \<and> childless (nodes s) x)"

lemma leaf_advance:
  assumes "advance s s'" "leaf s ident"
  shows "leaf s' ident"
proof -
  have rows: "length (nodes s) = length (nodes s')" "\<And>i. i < length (nodes s') \<Longrightarrow> row_kept (nodes s ! i) (nodes s' ! i)"
    using assms(1) by (auto simp: advance_def list_all2_conv_all_nth)
  obtain i where i: "i < length (nodes s')" "n_id (nodes s ! i) = ident" "n_live (nodes s ! i)" "childless (nodes s) (nodes s ! i)"
    using assms(2) rows(1) by (auto simp: leaf_def in_set_conv_nth)
  have "childless (nodes s') (nodes s' ! i)"
    unfolding childless_def
  proof (intro ballI impI notI)
    fix c
    assume "c \<in> set (nodes s')" "n_live c" "n_parent c = Some (n_id (nodes s' ! i))"
    then obtain j where j: "j < length (nodes s')" "n_live (nodes s' ! j)" "n_parent (nodes s' ! j) = Some (n_id (nodes s' ! i))"
      by (auto simp: in_set_conv_nth)
    then have "nodes s ! j \<in> set (nodes s)" "n_live (nodes s ! j)" "n_parent (nodes s ! j) = Some (n_id (nodes s ! i))"
      using rows(1) rows(2)[OF j(1)] rows(2)[OF i(1)] by (auto simp: row_kept_def n_live_def)
    then show False using i(4) by (auto simp: childless_def)
  qed
  then show ?thesis using i rows(2)[OF i(1)] by (auto simp: leaf_def row_kept_def n_live_def intro!: bexI[of _ "nodes s' ! i"])
qed

lemma pass_steps_bares:
  assumes "hooks_keep leaves_nodes (en_hooks g)" "hk_Work (en_hooks g) = Some Work"
    and "(pass_step g Work)\<^sup>*\<^sup>* st st'" "reachable st"
  shows "reachable st' \<and> bares (st_db st') \<le> bares (st_db st)"
  using assms(3,4)
proof (induction rule: rtranclp_induct)
  case (step a b)
  have "reachable b" using pass_step_reachable[OF _ assms(2) r_into_rtranclp[of "pass_step g Work", OF step(2)]] step(3,4)
      hooks_keep_mono[OF assms(1), of "\<lambda>a b. reachable a \<longrightarrow> reachable b"] by (simp add: leaves_nodes_def)
  moreover have "bares (st_db b) \<le> bares (st_db a)"
    using step(2) assms(1,2)
  proof (cases rule: pass_step_cases)
    case (commits req decide)
    then show ?thesis using advance_counts(1)[OF base_commit] by simp
  next
    case (authors req matter i title)
    then show ?thesis using author_keeps(2)[of a req matter i title] step(3,4) by (metis prod.collapse)
  next
    case hooks
    then show ?thesis by (simp add: leaves_nodes_def bares_def)
  qed
  ultimately show ?case using step(3,4) by simp
qed simp

lemma plan_lowers:
  assumes "tame g Work" "hk_Plan (en_hooks g) = Some Plan" "pass_plan g Plan matter claim p = (p', Inr True)" "reachable (pa_store p)"
    and "leaf (st_db (pa_store p)) (N_ID matter)"
  shows "bares (st_db (pa_store p')) < bares (st_db (pa_store p))"
proof -
  obtain w' st' r where h: "Plan (pa_world p) (pa_store p) matter = (w', st', r)"
    by (cases "Plan (pa_world p) (pa_store p) matter") auto
  let ?p1 = "p\<lparr>pa_world := w', pa_store := st'\<rparr>"
  obtain title titles where specs: "r = Inr (title # titles)"
    using assms(3) h by (auto simp: pass_plan_def Let_def split: sum.splits list.splits)
  obtain p2 role where p2: "pass_spawnRole g (RoleActor RoleOrchestrator) claim RoleResearcher ?p1 = (p2, Inr role)"
    using assms(3) h specs by (auto simp: pass_plan_def then_do_def split: prod.splits sum.splits)
  let ?author = "committing g (RoleActor RoleResearcher) (authoring matter 0 title)"
    and ?rest = "then_do (author_loop g matter 1 titles) (\<lambda>_. then_do (pass_closeRole g role RoleResearcher) (\<lambda>_. return True))"
  obtain p3 where p3: "?author p2 = (p3, Inr ())"
    using assms(3) h specs p2 by (auto simp: pass_plan_def then_do_def split: prod.splits sum.splits)
  have rest: "?rest p3 = (p', Inr True)"
    using assms(3) h specs p2 p3 by (auto simp: pass_plan_def then_do_def split: prod.splits sum.splits)
  have tame: "hooks_keep leaves_nodes (en_hooks g)" "hk_Work (en_hooks g) = Some Work" using assms(1) by (simp_all add: tame_def)
  have "leaves_nodes (pa_store p) st'" using hooks_keepD(2)[OF tame(1) assms(2) h] .
  then have k1: "reachable (pa_store ?p1)" "advance (st_db (pa_store p)) (st_db (pa_store ?p1))"
    using assms(4) leaves_nodes_advance by (auto simp: leaves_nodes_def)
  then have k2: "reachable (pa_store p2)" "advance (st_db (pa_store p)) (st_db (pa_store p2))"
    using turn_keeps[OF assms(1) turn.uphold_roles(1) p2] advance_trans by blast+
  obtain x where x: "x \<in> set (nodes (st_db (pa_store p2)))" "n_id x = N_ID matter" "n_live x" "childless (nodes (st_db (pa_store p2))) x"
    using leaf_advance[OF k2(2) assms(5)] by (auto simp: leaf_def)
  have "commit_plan (request (RoleActor RoleResearcher) (en_env g)) (authoring matter 0 title) (\<lambda>c _. Inr c) (pa_store p2) = (pa_store p3, Inr ())"
    using p3 by (auto simp: committing_def split: prod.splits)
  then obtain events where c: "Commit (request (RoleActor RoleResearcher) (en_env g)) (decides (authoring matter 0 title)) (pa_store p2) = (pa_store p3, Inr events)"
    by (rule commit_plan_Inr)
  have "upholds (\<lambda>p p'. (pass_step g Work)\<^sup>*\<^sup>* (pa_store p) (pa_store p')) ?rest"
    by (intro single.pass_rules overall.uphold_author single.uphold_roles)
  from upholdsD[OF this rest] have "bares (st_db (pa_store p')) \<le> bares (st_db (pa_store p3))"
    using pass_steps_bares[OF tame] author_keeps(1)[OF k2(1) c] by blast
  also have "\<dots> < bares (st_db (pa_store p2))" using author_lowers[OF k2(1) c x] .
  also have "\<dots> \<le> bares (st_db (pa_store p))" using advance_counts(1)[OF k2(2)] .
  finally show ?thesis .
qed

lemma plan_declines:
  assumes "hooks_keep leaves_nodes (en_hooks g)" "hk_Plan (en_hooks g) = Some Plan" "pass_plan g Plan matter claim p = (p', Inr False)"
  shows "leaves_nodes (pa_store p) (pa_store p') \<and> pa_skipped p' = pa_skipped p"
proof -
  obtain w' st' r where h: "Plan (pa_world p) (pa_store p) matter = (w', st', r)"
    by (cases "Plan (pa_world p) (pa_store p) matter") auto
  have "r = Inr []" "p' = p\<lparr>pa_world := w', pa_store := st'\<rparr>"
    using assms(3) h by (auto simp: pass_plan_def then_do_def return_def Let_def split: sum.splits list.splits prod.splits)
  then show ?thesis using hooks_keepD(2)[OF assms(1,2) h] by simp
qed

section \<open>A turn of the loop\<close>

lemma derive_loop_leaves:
  assumes "derive_loop t s ms = Inr (members, ready, engaged)" "n \<in> set ready \<union> set engaged"
  shows "\<exists>i. n \<in> set (MatterNodes s i) \<and> \<not> hasLiveChild (MatterNodes s i) n"
  using assms
proof (induction ms arbitrary: members ready engaged)
  case (Cons i ms)
  obtain satisfied members' ready' engaged' where d: "derive_loop t s ms = Inr (members', ready', engaged')"
      "ready = filter (member_ready (MatterNodes s i) satisfied) (MatterNodes s i) @ ready'"
      "engaged = filter (member_engaged (MatterNodes s i)) (MatterNodes s i) @ engaged'"
    using Cons.prems(1) by (auto simp: res Let_def)
  then show ?case using Cons.IH[OF d(1)] Cons.prems(2) by (auto simp: member_ready_def member_engaged_def)
qed simp

lemma selection_leaf:
  assumes "Derive (tx_of (pa_store p)) (st_db (pa_store p)) (en_run g) cap = Inr fr" "n \<in> set (selection g p fr)" "reachable (pa_store p)"
  shows "leaf (st_db (pa_store p)) (N_ID n) \<and> N_Matter n \<notin> set (pa_skipped p)"
proof -
  let ?s = "st_db (pa_store p)"
  have "n \<in> set (fr_Ready fr) \<union> set (fr_Engaged fr)" and skip: "N_Matter n \<notin> set (pa_skipped p)"
    using assms(2) by (auto simp: selection_def Select_def Let_def split: if_splits dest: in_set_takeD)
  then obtain i where i: "n \<in> set (MatterNodes ?s i)" "\<not> hasLiveChild (MatterNodes ?s i) n"
    using assms(1) derive_loop_leaves by (fastforce simp: Derive_def res)
  then obtain r where r: "r \<in> set (rows_of ?s i)" "n = scanNode r" by (auto simp: MatterNodes_rows)
  have ok: "schema_ok ?s" using schema.reachable_keep[OF assms(3)] .
  have "childless (nodes ?s) r"
    unfolding childless_def
  proof (intro ballI impI notI)
    fix c
    assume c: "c \<in> set (nodes ?s)" "n_live c" "n_parent c = Some (n_id r)"
    obtain q where q: "q \<in> set (nodes ?s)" "under c q" using parent_row[OF ok c(1,3)] by blast
    then have "q = r" using ok r(1) c(3) by (auto simp: under_def set_rows_of schema_ok_def keys_ok_def intro: distinct_mapD)
    then have "c \<in> set (rows_of ?s i)" using q(2) c r(1) by (auto simp: under_def set_rows_of)
    moreover have "n_id r \<noteq> []"
      using ok r(1) by (auto simp: set_rows_of schema_ok_def checks_ok_def node_check_def list_all_iff sql_length_def)
    ultimately show False using i(2) c(3) r(2) by (auto simp: hasLiveChild_def MatterNodes_rows list_ex_iff scanNode_def)
  qed
  then show ?thesis using r skip by (auto simp: leaf_def set_rows_of scanNode_def)
qed

lemma engageOne_lowers:
  assumes "tame g Work" "engageOne g Work node p = (p', Inr b)" "reachable (pa_store p)"
    and "leaf (st_db (pa_store p)) (N_ID node)" "N_Matter node \<notin> set (pa_skipped p)"
  shows "b \<and> lowers_room g p' p"
proof -
  obtain matter where m: "view_Node (st_db (pa_store p)) (N_Matter node) = Inr matter"
    using assms(2) by (auto simp: engageOne_def then_do_def viewing_def split: sum.splits)
  then have id: "N_ID matter = N_Matter node"
    by (auto simp: view_Node_def of_option_def scanNode_def dest: live_row_Some split: option.splits)
  obtain p1 held where p1: "with_claim g matter p = (p1, Inr held)"
    using assms(2) m by (auto simp: engageOne_def then_do_def viewing_def split: sum.splits prod.splits)
  note k1 = turn_keeps[OF assms(1) turn.uphold_with_claim p1 assms(3)]
  have s1: "set (pa_skipped p) \<subseteq> set (pa_skipped p1)" using upholdsD[OF skip.uphold_with_claim p1] .
  show ?thesis
  proof (cases held)
    case None
    then have "p' = p1" "b" using assms(2) m p1 by (auto simp: engageOne_def then_do_def viewing_def return_def)
    then show ?thesis
      using lower_skipped[of p p1 "N_ID matter" g] with_claim_skips[OF assms(1) p1[unfolded None] assms(3)] k1 s1 assms(5) id by simp
  next
    case (Some claim)
    let ?plan = "case hk_Plan (en_hooks g) of
        Some Plan \<Rightarrow> if N_ID node = N_ID matter \<and> N_Lifecycle matter = Planned then pass_plan g Plan matter claim else return False
      | None \<Rightarrow> return False"
    obtain p2 planned where p2: "?plan p1 = (p2, Inr planned)" "(if planned then return True else working g Work matter node claim) p2 = (p', Inr b)"
      using assms(2) m p1 Some by (auto simp: engageOne_def then_do_def viewing_def split: sum.splits prod.splits)
    show ?thesis
    proof (cases planned)
      case True
      then obtain Plan where P: "hk_Plan (en_hooks g) = Some Plan" "N_ID node = N_ID matter" "pass_plan g Plan matter claim p1 = (p2, Inr True)"
        using p2(1) by (auto simp: return_def split: option.splits if_splits)
      have "leaf (st_db (pa_store p1)) (N_ID matter)" using leaf_advance[OF conjunct2[OF k1] assms(4)] P(2) by simp
      from plan_lowers[OF assms(1) P(1,3) conjunct1[OF k1] this] show ?thesis
        using advance_counts(1)[OF conjunct2[OF k1]] p2(2) True by (auto simp: return_def intro!: lower_planned)
    next
      case False
      have k2: "reachable (pa_store p2)" "advance (st_db (pa_store p)) (st_db (pa_store p2))" "set (pa_skipped p) \<subseteq> set (pa_skipped p2)"
      proof -
        have "leaves_nodes (pa_store p1) (pa_store p2) \<and> pa_skipped p2 = pa_skipped p1"
          using p2(1) False plan_declines[of g] assms(1)
          by (auto simp: return_def tame_def split: option.splits if_splits)
        then show "reachable (pa_store p2)" "advance (st_db (pa_store p)) (st_db (pa_store p2))" "set (pa_skipped p) \<subseteq> set (pa_skipped p2)"
          using k1 s1 leaves_nodes_advance[of "pa_store p1" "pa_store p2"] advance_trans by (simp add: leaves_nodes_def, metis, simp)
      qed
      have w: "working g Work matter node claim p2 = (p', Inr b)" using p2(2) False by simp
      note k3 = turn_keeps[OF assms(1) turns.uphold_working w k2(1)]
      have adv: "advance (st_db (pa_store p)) (st_db (pa_store p'))" using k2(2) k3 advance_trans by blast
      have skips: "set (pa_skipped p) \<subseteq> set (pa_skipped p')" using k2(3) upholdsD[OF skips.uphold_working w] by blast
      from working_lowers[OF assms(1) w k2(1)] show ?thesis
        using lower_finished[OF adv] lower_skipped[OF adv skips] advance_counts(2)[OF k2(2)] assms(5) id by fastforce
    qed
  qed
qed

section \<open>The loop ends\<close>

lemma engage_turn:
  assumes "Derive (tx_of (pa_store p)) (st_db (pa_store p)) (en_run g) (en_cap g) = Inr fr" "selection g p fr = node # ns"
    and "engageOne g Work node p = (q, r)" "r \<noteq> Inr False"
  shows "engage (Suc k) g Work p = (case r of Inl e \<Rightarrow> (q, Inl e) | Inr _ \<Rightarrow> if halted q then (q, Inr ()) else engage k g Work q)"
  using assms by (auto simp: then_do_def viewing_def split: sum.splits)

lemma engage_ends:
  assumes "tame g Work" "reachable (pa_store p)" "\<not> pa_spent p"
  shows "\<exists>k. \<not> pa_spent (fst (engage k g Work p))"
proof -
  have "wf {(p', p). lowers_room g p' p}"
    unfolding lowers_room_def by (rule wf_subset[OF wf_inv_image[of "less_than <*lex*> less_than <*lex*> less_than" "room g"]])
      (auto simp: inv_image_def intro: wf_lex_prod)
  then show ?thesis using assms(2,3)
  proof (induction p rule: wf_induct_rule)
    case (less p)
    let ?D = "Derive (tx_of (pa_store p)) (st_db (pa_store p)) (en_run g) (en_cap g)"
    have stop: "engage 1 g Work p = (p, x) \<Longrightarrow> ?case" for x using less.prems(2) by (intro exI[of _ 1]) simp
    show ?case
    proof (cases ?D)
      case (Inl e)
      then show ?thesis by (intro stop) (simp add: then_do_def viewing_def)
    next
      case (Inr fr)
      show ?thesis
      proof (cases "selection g p fr")
        case Nil
        then show ?thesis using Inr by (intro stop) (simp add: then_do_def viewing_def)
      next
        case (Cons node ns)
        obtain q r where q: "engageOne g Work node p = (q, r)" by fastforce
        have k: "reachable (pa_store q)" "\<not> pa_spent q"
          using upholdsD[OF lasting.uphold_engageOne q] less.prems assms(1) by (simp_all add: lasts_def)
        have leaf: "leaf (st_db (pa_store p)) (N_ID node)" "N_Matter node \<notin> set (pa_skipped p)"
          using selection_leaf[OF Inr] Cons less.prems(1) by simp_all
        have low: "r = Inr b \<Longrightarrow> b \<and> lowers_room g q p" for b
          using engageOne_lowers[OF assms(1) _ less.prems(1) leaf] q by simp
        have turn: "engage (Suc k) g Work p = (case r of Inl e \<Rightarrow> (q, Inl e) | Inr _ \<Rightarrow> if halted q then (q, Inr ()) else engage k g Work q)" for k
          using engage_turn[OF Inr Cons q] low by blast
        show ?thesis
        proof (cases "r \<in> range Inl \<or> halted q")
          case True
          then have "fst (engage (Suc 0) g Work p) = q" unfolding turn by (auto split: sum.splits)
          then show ?thesis using k(2) by metis
        next
          case False
          then obtain b where b: "r = Inr b" by (cases r) auto
          then obtain j where "\<not> pa_spent (fst (engage j g Work q))" using less.IH[of q] low k by blast
          then have "\<not> pa_spent (fst (engage (Suc j) g Work p))" unfolding turn using b False by simp
          then show ?thesis by blast
        qed
      qed
    qed
  qed
qed

lemma engage_split: "(\<exists>y. \<forall>k. engage (Suc k) g Work p = y) \<or> (\<exists>q. \<forall>k. engage (Suc k) g Work p = engage k g Work q)"
proof (cases "Derive (tx_of (pa_store p)) (st_db (pa_store p)) (en_run g) (en_cap g)")
  case (Inl e)
  then show ?thesis by (simp add: then_do_def viewing_def)
next
  case (Inr fr)
  obtain q r where q: "engage_selected g Work (selection g p fr) p = (q, r)" by fastforce
  show ?thesis
  proof (cases "selection g p fr = [] \<or> r \<in> range Inl \<or> halted q")
    case True
    then show ?thesis using Inr q by (auto simp: then_do_def viewing_def split: sum.splits)
  next
    case False
    then have "engage (Suc k) g Work p = engage k g Work q" for k using Inr q by (cases r) (auto simp: then_do_def viewing_def)
    then show ?thesis by blast
  qed
qed

lemma engage_more:
  assumes "\<not> pa_spent (fst (engage k g Work p))" "k \<le> n"
  shows "engage n g Work p = engage k g Work p"
  using assms
proof (induction k arbitrary: p n)
  case (Suc k)
  obtain n' where n: "n = Suc n'" "k \<le> n'" using Suc.prems(2) by (cases n) auto
  from engage_split[of g Work p] Suc.prems(1) n(2) show ?case
    unfolding n(1) using Suc.IH[of _ n'] by (metis (full_types))
qed (simp add: spent_def)

lemma execute_ends:
  assumes "tame g Work" "reachable (pa_store p)" "\<not> pa_spent p"
  shows "\<exists>k y. \<forall>n \<ge> k. execute n g Work p = y \<and> \<not> pa_spent (fst y)"
proof (cases "view_OpenDispatch (st_db (pa_store p)) (env_Worktree (en_env g))")
  case None
  then show ?thesis using assms(3) by (auto simp: execute_def)
next
  case (Some bracket)
  obtain p1 r1 where p1: "pass_spawnRole g (en_driver g) (di_id bracket) RoleOrchestrator p = (p1, r1)" by fastforce
  have k1: "reachable (pa_store p1)" "\<not> pa_spent p1"
    using upholdsD[OF last.uphold_roles(1) p1, of Work] assms by (simp_all add: lasts_def)
  show ?thesis
  proof (cases r1)
    case (Inl e)
    then show ?thesis using Some p1 k1 by (auto simp: execute_def then_do_def)
  next
    case (Inr orch)
    let ?p1 = "p1\<lparr>pa_orchestrator := orch\<rparr>" and ?reap = "if en_resume g then reapOrphans g else return ()"
    obtain p2 r2 where p2: "?reap ?p1 = (p2, r2)" by fastforce
    have "upholds (lasts g Work) ?reap" unfolding reapOrphans_def by (intro last.pass_rules)
    from upholdsD[OF this p2] have k2: "reachable (pa_store p2)" "\<not> pa_spent p2" using k1 assms(1) by (simp_all add: lasts_def)
    obtain k where k: "\<not> pa_spent (fst (engage k g Work p2))" using engage_ends[OF assms(1) k2] by blast
    obtain p3 r3 where p3: "engage k g Work p2 = (p3, r3)" by fastforce
    have more: "engage n g Work p2 = (p3, r3)" if "k \<le> n" for n using engage_more[OF k that] p3 by simp
    define y where "y = execute k g Work p"
    have same: "execute n g Work p = y" if "k \<le> n" for n
      unfolding y_def using Some p1 Inr p2 more[OF that] p3 by (auto simp: execute_def then_do_def split: sum.splits)
    have settle: "\<not> pa_spent (fst (settle g p3))" using fuelled.uphold_settle[of g, unfolded upholds_def] k p3 by simp
    have close: "\<not> pa_spent q \<Longrightarrow> \<not> pa_spent (fst (pass_closeRole g orch RoleOrchestrator q))" for q
      using fuelled.uphold_roles(2)[of g, unfolded upholds_def] by simp
    have "\<not> pa_spent (fst y)"
      unfolding y_def using Some p1 Inr p2 p3 k k2(2) settle
      by (auto simp: execute_def then_do_def intro!: close split: sum.splits prod.splits)
    then show ?thesis using same by blast
  qed
qed

lemma run_pass_cases:
  obtains (refused) e where "\<And>n. run_pass resume n lock driver env runID runCap policy hooks st w = (start_pass st w, Inl e)"
  | (executed) Work run where "hk_Work hooks = Some Work"
    "\<And>n. run_pass resume n lock driver env runID runCap policy hooks st w = execute n \<lparr>en_driver = driver, en_env = env, en_run = run,
      en_cap = runCap, en_policy = policy, en_hooks = hooks, en_resume = resume\<rparr> Work (start_pass st w)"
proof (cases "runCap < 1 \<or> hk_Work hooks = None \<or> view_Run (st_db st) runID \<in> range Inl")
  case True
  then show thesis by (cases "runCap < 1"; cases "hk_Work hooks") (auto simp: run_pass_def Let_def intro: refused)
next
  case False
  then obtain Work run where r: "hk_Work hooks = Some Work" "view_Run (st_db st) runID = Inr run"
    by (cases "view_Run (st_db st) runID") auto
  show thesis
  proof (cases "ru_state run = ''open'' \<and> ru_clone run = env_Clone env \<and> lock = LockAcquired")
    case True
    then show thesis using executed[OF r(1), of run] r False by (simp add: run_pass_def)
  next
    case no: False
    show thesis
      by (cases lock; cases "ru_state run = ''open''"; cases "ru_clone run = env_Clone env")
        (use no False r in \<open>auto simp: run_pass_def intro: refused\<close>)
  qed
qed

lemma run_pass_ends:
  assumes "reachable st" "hooks_keep leaves_nodes hooks"
  shows "\<exists>k y. \<forall>n \<ge> k. run_pass resume n lock driver env runID runCap policy hooks st w = y \<and> \<not> pa_spent (fst y)"
proof (cases rule: run_pass_cases[of resume lock driver env runID runCap policy hooks st w])
  case (refused e)
  then show ?thesis by (auto simp: start_pass_def)
next
  case (executed Work run)
  show ?thesis unfolding executed(2)
    by (rule execute_ends) (use assms executed(1) in \<open>simp_all add: tame_def start_pass_def\<close>)
qed

lemma run_pass_reachable:
  assumes "reachable st" "hooks_keep (\<lambda>a b. reachable a \<longrightarrow> reachable b) hooks"
    and "run_pass resume n lock driver env runID runCap policy hooks st w = (p, r)"
  shows "reachable (pa_store p)"
proof (cases rule: run_pass_cases[of resume lock driver env runID runCap policy hooks st w])
  case (refused e)
  then show ?thesis using assms(1,3) by (auto simp: start_pass_def)
next
  case (executed Work run)
  let ?g = "\<lambda>run. \<lparr>en_driver = driver, en_env = env, en_run = run, en_cap = runCap, en_policy = policy, en_hooks = hooks, en_resume = resume\<rparr>"
  obtain run' where "(pass_step (?g run') Work)\<^sup>*\<^sup>* st (pa_store p)" using run_pass_steps[OF assms(3) executed(1)] by blast
  from pass_step_reachable[OF _ _ this assms(1)] show ?thesis using assms(2) executed(1) by simp
qed

end
