(* ===== verification/DemoPass.thy ===== *)
theory DemoPass
  imports DemoRun SchedulerEnds
begin

text \<open>
  A fourth continuation of the life of \<open>Demo\<close>: a Run over the second Matter is started, the
  Matter is finished and its gate closed. A pass over the Run then finishes it.
\<close>

definition demo_pass_readings :: "reading list" where
  "demo_pass_readings = [(1014, replicate 10 14), (1015, replicate 10 15), (1016, replicate 10 16), (1017, replicate 10 17),
     (1018, replicate 10 18), (1019, replicate 10 19), (1020, replicate 10 20), (1021, replicate 10 21)]"

definition demo_clocked :: store where
  "demo_clocked = demo_later\<lparr>st_mint := demo_mint14\<lparr>mi_readings := demo_pass_readings\<rparr>\<rparr>"

definition demo_seal_drafts :: "Draft list" where
  "demo_seal_drafts = [demo_draft_batch,
     draft TypeRunStarted id_U (marshal_RunStarted \<lparr>rs_Batch = id_Q, rs_Locator = ''run-01'', rs_Matters = [id_B]\<rparr>),
     draft TypeMatterFinished id_B (transition InProgress Done False),
     draft TypeGateClosed id_B (marshal_GateClosed \<lparr>gc_Gate = ''reviewed'', gc_Scale = ScaleMatter, gc_TrackerPushLevel = []\<rparr>)]"

definition demo_seal_decide :: decision where
  "demo_seal_decide t s m = (m, Inr demo_seal_drafts)"

definition demo_sealed :: store where
  "demo_sealed = fst (Commit demo_request demo_seal_decide demo_clocked)"

text \<open>Hooks whose work succeeds and leaves the store alone; no other seam is wired.\<close>

definition demo_hooks :: "unit Hooks" where
  "demo_hooks = \<lparr>hk_Work = Some (\<lambda>w st n. (w, st, None)), hk_Plan = None, hk_Ask = None, hk_PostSeal = None\<rparr>"

definition demo_policy :: Policy where
  "demo_policy = \<lparr>po_Contention = HandleSkip, po_Blocked = HandleSkip, po_Failed = HandleSkip\<rparr>"

definition demo_outcome :: "(store \<times> unit \<times> Outcome \<times> unit result) option" where
  "demo_outcome = Orchestrate 1 LockAcquired ActorHuman demo_env id_U 2 demo_policy demo_hooks demo_sealed ()"

lemma demo_hooks_keep: "(\<And>a. Q a a) \<Longrightarrow> hooks_keep Q demo_hooks"
  by (simp add: hooks_keep_def demo_hooks_def)

lemma demo_sealed_reachable: "reachable demo_sealed"
proof -
  have "wf_reading rd" if "rd \<in> set demo_pass_readings" for rd
    using that by (auto simp: demo_pass_readings_def wf_reading_def)
  then have "op demo_later demo_clocked"
    using op_tick[of demo_pass_readings demo_later] by (simp add: demo_clocked_def demo_later_def)
  moreover have "minting demo_seal_decide" by (simp add: minting_def demo_seal_decide_def mints_refl)
  then have "op demo_clocked demo_sealed" unfolding demo_sealed_def by (rule op_commit)
  ultimately have "op\<^sup>*\<^sup>* demo_later demo_sealed" by (metis rtranclp.simps)
  then show ?thesis using reachable_ops demo_later_reachable(1) by blast
qed

lemma demo_pass_finishes:
  "(case demo_outcome of None \<Rightarrow> False
    | Some (st', w', out, r) \<Rightarrow> oc_State out = StateFinished \<and> r = Inr () \<and> RunMatters (st_db st') id_U = [id_B])"
  by code_simp

end
