(* ===== verification/Spec2Isabelle.thy ===== *)
theory Spec2Isabelle
  imports DemoCursor Standing DemoCommand DemoFlush Alignment DemoPass
begin

text \<open>
  A verification library for wip, a work tracker kept in one SQLite file: an append-only log of
  events and a projection of tables folded from it, read and written through a set of verbs.

  \<^bold>\<open>The program and the theories.\<close>

  \<^item> \<open>internal/store\<close>, the log and its projection. \<open>Taxonomy\<close>: event types, dimensions, lifecycles,
    scales, gate owners (\<open>taxonomy.go\<close>). \<open>Ulid\<close>: identities, their codec, the monotonic source and
    the wait of \<open>NewID\<close> (\<open>ulid.go\<close>). \<open>Sha256\<close>: the digest the outbox keys use. \<open>Payloads\<close>: one
    record, encoder and decoder per event payload (\<open>payloads.go\<close>). \<open>Tables\<close>, \<open>Statements\<close>: the
    tables of the schema, and every insert and update with its checks, triggers, unique indexes
    and foreign keys (\<open>schema_v*.go\<close>). \<open>View\<close>: the reads (\<open>view.go\<close>, \<open>gates.go\<close>, \<open>config.go\<close>).
    \<open>ProjectNodes\<close>, \<open>ProjectTracker\<close>, \<open>ProjectExec\<close>: the fold of one event (\<open>project.go\<close>,
    \<open>edges.go\<close>, \<open>content.go\<close>). \<open>Store\<close>: \<open>Commit\<close>, the insert into the log, \<open>Rebuild\<close>, reopening
    (\<open>store.go\<close>, \<open>migrations.go\<close>). \<open>Cycle\<close>: the graph of the dependencies (\<open>cycle.go\<close>).
  \<^item> \<open>internal/writesurface\<close> and \<open>internal/guards\<close>, the verbs. \<open>Verbs\<close>: resolution, births, lifecycle,
    seal sweep, amendment, dependencies, references. \<open>VerbsGate\<close>: gates, their order, configuration.
    \<open>VerbsExec\<close>: batches, roles, runs, backlog, outbox, tracker.
  \<^item> \<open>internal/readsurface\<close> and \<open>internal/scheduler\<close>, the derivations. \<open>Frontier\<close>: what is ready and
    blocked, what a Run may engage. \<open>ReadSurface\<close>: addresses, waiting work, the content of a Repo,
    the next view, the hand-off, and the two writes of the cursor. \<open>Scheduler\<close>: the Orchestrator loop,
    one first or resumed pass over a Run (\<open>loop.go\<close>, \<open>resume.go\<close>); its hooks and the run lock are
    parameters.

  \<^item> \<open>internal/operation\<close>, the boundary a command crosses on its way to an authority. \<open>Cbor\<close>: the
    deterministic encoding (\<open>canonical_cbor.go\<close>). \<open>Operation\<close>: metadata, its checks, all definitions
    and catalogues (\<open>metadata.go\<close>, \<open>catalog.go\<close>, \<open>step*.go\<close>, \<open>gates.go\<close>, \<open>lifecycle_variants.go\<close>).
    \<open>Transport\<close>: the types of inputs and outputs and the walk over them. \<open>Requests\<close>, \<open>Validate\<close>: requests
    and \<open>ValidateRequest\<close>. \<open>Identity\<close>: canonical values, bytes and request hashes
    (\<open>command_identity.go\<close>). \<open>Decode\<close>: \<open>DecodeCanonicalCommand\<close>. \<open>Dispatch\<close>: results, \<open>ValidateResult\<close>, the
    registry and \<open>Dispatch\<close> (\<open>dispatcher.go\<close>).

  \<^item> \<open>internal/tracker\<close>, the boundary to an issue tracker. \<open>Tracker\<close>: the flush of the approved outbox
    entries through a provider and the recording of its answers (\<open>flush.go\<close>). \<open>Alignment\<close>: the registry
    of providers, the configured seam, the comparison with live provider states after a seal
    (\<open>registry.go\<close>, \<open>resolve.go\<close>, \<open>alignment.go\<close>).

  A store is the record of its log, its tables, its recorded version and its source of
  identities. The clock and the entropy are a list of readings in that source; every theorem
  holds for all of them. A transaction (\<open>tx\<close>) carries the log it sees and whether foreign keys
  are deferred, which is the one difference between a commit and a rebuild. A verb is a
  function from a store to a store and a result; errors are values, and a refusal that the
  program gives a token to is \<open>EWip\<close>.

  \<^bold>\<open>The lemmas.\<close>

  \<^item> \<open>Steps\<close> turns every fold into a sequence of statements, with the rule that allows each one to
    move a row; \<open>Schema\<close>, \<open>History\<close> and \<open>Replay\<close> prove once, per statement, what all folds keep:
    the constraints of the schema, the laws of every machine, independence of the rest of the
    log. The locales there are interpreted on the schema, on the references and on the machines.
  \<^item> \<open>StoreLaws\<close> carries these over \<open>Commit\<close>, \<open>Rebuild\<close> and reopening to every \<open>reachable\<close> store.
  \<^item> \<open>VerbLaws\<close>: the locale \<open>verb\<close> is the contract of a verb, and every verb is an interpretation;
    \<open>calls\<close> is a life of verb calls. \<open>Standing\<close>: along such a life only Steps are removed.
  \<^item> \<open>Completion\<close> is the reference for gates and completion, \<open>Frontier\<close> holds the reference for what
    may be worked on; the derivations of the program are proved to compute exactly these.
  \<^item> \<open>Cbor\<close> has a reference decoder that inverts the encoder, \<open>CborSize\<close> says when it succeeds and how
    much it writes. \<open>DecodeLaws\<close>: every decoder of an input inverts its canonical value.
    \<open>CommandLaws\<close>: the same for whole commands; the locale \<open>cbor_library\<close> is what the program relies on
    of its CBOR package, interpreted on the reference decoder. \<open>DispatchLaws\<close>: registries and
    dispatching. \<open>DemoCommand\<close> is their example.
  \<^item> \<open>TrackerLaws\<close>: the locale \<open>recorder\<close> is the contract of what a flush calls to settle an entry,
    interpreted on the verbs and on \<open>recordResult\<close>; from it follow that a flush is accountable for the
    outbox and what it asks of the provider. \<open>DemoFlush\<close> is its example.
  \<^item> \<open>SchedulerLaws\<close>: the locales \<open>pass_relation\<close> to \<open>pass_relation_whole\<close> carry a preorder from the
    elementary statements of a pass to the whole of it; their interpretations give the steps of a
    pass on the store and that stores stay reachable. \<open>SchedulerSettle\<close>: what a finished Run means.
    \<open>SchedulerEnds\<close>: a lexicographic measure every turn of the loop lowers. \<open>DemoPass\<close> is their example.
  \<^item> \<open>Demo\<close>, \<open>DemoTracker\<close>, \<open>DemoClose\<close>, \<open>DemoRun\<close>, \<open>DemoCursor\<close>: a concrete life of a store, evaluated
    step by step, on which the hypotheses of the theorems hold.

  \<^bold>\<open>Bounds.\<close> Walks up the parent chain (\<open>gate_walk\<close>, \<open>ancestor_loop\<close>, \<open>covered\<close>, \<open>chainClear\<close>,
  \<open>under_blocked\<close> and the like) have fuel 3: a tree is a Matter, a Stage and a Step deep, which
  the schema enforces (\<open>rank\<close>), and the theorems about them show that the walk returns. The
  search for a cycle and the enumeration of cycles end by a measure on the unvisited nodes.
  \<open>completeContainers\<close> has a round per node and one more, \<open>engage\<close> the fuel of its pass; a pass that runs
  out of it is \<open>None\<close>, and \<open>pass_comes_to_its_end\<close> shows that enough fuel gives its result. Where the
  Go specification leaves open whether the outcome is read before or after \<open>settle\<close>, it is read after.

  \<^bold>\<open>Not modelled.\<close> JSON text (a payload is its list of fields), the SQL of migrations from older
  schemas, the bytes of content blobs, git and the file system (the tiers, run locks, manifests),
  the processes and network calls of the scheduler hook and of the tracker providers, the output
  formats of the verbs, and the remote authority (\<open>wipd\<close>) with its journals. Unicode normal form,
  \<open>net/url\<close>, the CBOR package and the tracker providers are arguments of the definitions that use them.
\<close>

section \<open>The store\<close>

text \<open>C1: throwing the projection away and folding the whole log over an empty one, with
  the foreign keys deferred and the whole log in sight, succeeds on every store
  the program can reach and reproduces the live projection exactly.\<close>

theorem Rebuild_reproduces_live:
  assumes "reachable st"
  shows "Rebuild st = (st, Inr ())"
  using reachable_ok[OF assms] by (rule Rebuild_ok)

theorem Rebuild_reproduces_live_witness: "Rebuild demo_store = (demo_store, Inr ())"
  by (rule Rebuild_reproduces_live[OF demo_reachable])

text \<open>C2: a command is all or nothing. If \<open>Commit\<close> returns an error, neither the log nor
  the projection has changed; if it returns events, there is at least one, the
  log has grown by exactly these, the first is the origin of the chain, every
  one is correlated to it and every later one caused by an earlier one of the
  same command, and each names the actor of the request.\<close>

theorem Commit_all_or_nothing:
  assumes "reachable st" "minting decide" "Commit req decide st = (st', r)"
  shows "case r of
      Inl e \<Rightarrow> st_log st' = st_log st \<and> st_db st' = st_db st
    | Inr events \<Rightarrow> events \<noteq> [] \<and> st_log st' = st_log st @ events \<and> chain_ok events
        \<and> (\<forall>e \<in> set events. ev_Actor e = rq_Actor req)"
  using reachable_ok[OF assms(1)] assms(2)
proof (cases rule: Commit_cases[where req = req])
  case (written m drafts m' events s)
  then have "events \<noteq> []" by (metis map_is_Nil_conv)
  with written assms(3) show ?thesis by auto
qed (use assms(3) in auto)

theorem Commit_all_or_nothing_witness:
  "st_log demo_later = st_log demo_ticked @ [demo_event14] \<and> chain_ok [demo_event14]
   \<and> ev_Actor demo_event14 = RoleActor RoleBuilder"
  using Commit_all_or_nothing[OF demo_later_reachable(2) builder_minting builder_commit]
  by (simp add: builder_request_def)

text \<open>C3: the log of a reachable store is totally ordered by event identity, which ascends
  strictly; every event carries exactly the tier dimensions its type requires
  and a valid actor, and its causation and correlation name that event itself
  or an earlier one.\<close>

theorem log_laws:
  assumes "reachable st" "i < length (st_log st)"
  shows "sorted_wrt (<) (map ev_ID (st_log st))
    \<and> dimensions_match (st_log st ! i) \<and> Actor_valid (ev_Actor (st_log st ! i))
    \<and> (\<exists>j \<le> i. ev_ID (st_log st ! j) = ev_Causation (st_log st ! i))
    \<and> (\<exists>j \<le> i. ev_ID (st_log st ! j) = ev_Correlation (st_log st ! i))"
  using reachable_ok[OF assms(1)] assms(2) log_ok_ascending log_ok_nth unfolding store_ok_def by blast

theorem log_laws_witness:
  "sorted_wrt (<) (map ev_ID (st_log demo_store)) \<and> dimensions_match (st_log demo_store ! 12)"
  using log_laws[OF demo_reachable, of 12] by (simp add: demo_store_def demo_log13_def)

text \<open>C4: the log is append-only over any sequence of commits, rebuilds and reopenings.\<close>

theorem log_append_only:
  assumes "reachable st" "op\<^sup>*\<^sup>* st st'"
  shows "\<exists>new. st_log st' = st_log st @ new"
  using ops_ok[OF assms(2) reachable_ok[OF assms(1)]] by simp

theorem log_append_only_witness: "\<exists>new. st_log demo_later = st_log demo_store @ new"
  by (rule log_append_only[OF demo_reachable demo_life])



text \<open>C6: a role actor speaks only while it is spawned. A command whose actor is
  \<open>role:name\<close> commits only if the projection holds an open role of that name,
  in the request's worktree if it names one, and on a dispatch that is open.\<close>

theorem role_actor_is_spawned:
  assumes "reachable st" "minting decide" "Commit req decide st = (st', Inr events)"
    and "Actor_Role (rq_Actor req) = Some name"
  shows "\<exists>r \<in> set (roles (st_db st)). role_state r = ''open'' \<and> role_name r = name
    \<and> (\<exists>d \<in> set (dispatches (st_db st)). di_id d = role_dispatch r \<and> di_state d = ''open''
        \<and> (env_Worktree (rq_Env req) \<noteq> [] \<longrightarrow> di_worktree d = env_Worktree (rq_Env req)))"
proof -
  have "check_actor req (st_db st) = Inr ()"
    using reachable_ok[OF assms(1)] assms(2) by (cases rule: Commit_cases[where req = req]) (use assms(3) in auto)
  then obtain r d where r: "r \<in> set (roles (st_db st))" "role_state r = ''open''" "role_name r = name"
    and d: "d \<in> set (dispatches (st_db st))" "di_id d = role_dispatch r"
      "env_Worktree (rq_Env req) \<noteq> [] \<longrightarrow> di_worktree d = env_Worktree (rq_Env req)"
    using assms(4) by (auto simp: check_actor_def verifyRoleActor_def res list_ex_iff)
  have ok: "schema_ok (st_db st)" using assms(1) by (rule schema.reachable_keep)
  then obtain d' where "d' \<in> set (dispatches (st_db st))" "di_id d' = role_dispatch r" "di_state d' = ''open''"
    using r by (auto simp: schema_ok_def roles_ok_def list_all_iff open_dispatch_def list_ex_iff)
  moreover from this have "d' = d"
    using d ok by (auto simp: schema_ok_def keys_ok_def intro: distinct_mapD)
  ultimately show ?thesis using r d by blast
qed

theorem role_actor_is_spawned_witness:
  "\<exists>r \<in> set (roles demo_db13). role_state r = ''open'' \<and> role_name r = RoleBuilder"
  using role_actor_is_spawned[OF demo_later_reachable(2) builder_minting builder_commit, of RoleBuilder]
  by (auto simp: demo_ticked_def demo_store_def builder_request_def RoleActor_def Actor_Role_def has_prefix_def
      RoleBuilder_def)

text \<open>C7: identity is permanent. Over any part of a store's life every node keeps its
  identity, kind, Repo, Matter, parent, locator, title and birth, and a node
  once removed never changes again.\<close>

theorem node_identity_permanent:
  assumes "reachable st" "op\<^sup>*\<^sup>* st st'" "r \<in> set (nodes (st_db st))"
  shows "\<exists>r' \<in> set (nodes (st_db st')). node_kept r r'"
  using node_history.life_order[OF assms(1,2)] assms(3)
  by (auto simp: nodes_kept_def carried_def list_all_iff list_ex_iff)

theorem node_identity_permanent_witness:
  "\<exists>r' \<in> set (nodes demo_db14). n_id r' = id_T \<and> \<not> n_live r'"
proof -
  have "demo_row9 \<in> set (nodes (st_db demo_store))"
    by (simp add: demo_store_def demo_db13_def)
  then obtain r where "r \<in> set (nodes (st_db demo_later))" "node_kept demo_row9 r"
    using node_identity_permanent[OF demo_reachable demo_life] by blast
  moreover have "n_id demo_row9 = id_T" "\<not> n_live demo_row9"
    by (simp_all add: demo_row9_def demo_row8_def n_live_def)
  ultimately show ?thesis by (intro bexI[of _ r]) (simp_all add: demo_later_def node_kept_def)
qed

text \<open>a removed dependency stays removed: an edge keeps its two ends, and once
  tombstoned never comes back.\<close>

theorem edge_removal_permanent:
  assumes "reachable st" "op\<^sup>*\<^sup>* st st'" "e \<in> set (edges (st_db st))"
  shows "\<exists>e' \<in> set (edges (st_db st')). edge_kept e e'"
  using edge_history.life_order[OF assms(1,2)] assms(3)
  by (auto simp: edges_kept_def carried_def list_all_iff list_ex_iff)

theorem edge_removal_permanent_witness:
  "\<exists>e' \<in> set (edges demo_db14). e_id e' = id_E \<and> e_blocked e' = id_A \<and> e_blocker e' = id_B"
proof -
  have "demo_row10 \<in> set (edges (st_db demo_store))"
    by (simp add: demo_store_def demo_db13_def)
  then obtain e where "e \<in> set (edges (st_db demo_later))" "edge_kept demo_row10 e"
    using edge_removal_permanent[OF demo_reachable demo_life] by blast
  then show ?thesis
    by (intro bexI[of _ e]) (simp_all add: demo_later_def edge_kept_def demo_row10_def)
qed

section \<open>What is never taken back\<close>

text \<open>C8: an outbox entry lives a machine. It keeps its identity, kind, subject, reference, key
  and payload for ever, its state only moves along the edges queued - approved - flushed,
  withheld or failed and back by retry, its attempts never decrease, and an entry that is
  flushed or declined never changes again.\<close>

theorem outbox_entry_life:
  assumes "reachable st" "op\<^sup>*\<^sup>* st st'" "r \<in> set (outbox_entries (st_db st))"
  shows "\<exists>r' \<in> set (outbox_entries (st_db st')). outbox_kept1 r r'"
  using outbox_history.life_order[OF assms(1,2)] assms(3) by (simp add: outbox_kept_def)

theorem outbox_entry_life_witness:
  "demo_entry17 \<in> set (outbox_entries (st_db (fst (Commit demo_request demo_push_decide demo_pushed))))"
proof -
  have "demo_entry17 \<in> set (outbox_entries (st_db demo_pushed))"
    by (simp add: demo_pushed_def demo_db17_def)
  moreover have "op demo_pushed (fst (Commit demo_request demo_push_decide demo_pushed))"
    using demo_push_minting by (rule op_commit)
  ultimately show ?thesis
    using outbox_entry_life[OF demo_pushed_reachable r_into_rtranclp] by (fastforce simp: outbox_kept1_def demo_entry17_def)
qed

text \<open>C9: content segments, gate closures and dismissals, gate declarations and gate exemptions
  are only ever added: no command, rebuild or reopening takes one back.\<close>

theorem records_permanent:
  assumes "reachable st" "op\<^sup>*\<^sup>* st st'"
  shows "set (content (st_db st)) \<subseteq> set (content (st_db st'))
    \<and> set (gate_state (st_db st)) \<subseteq> set (gate_state (st_db st'))
    \<and> set (gate_declarations (st_db st)) \<subseteq> set (gate_declarations (st_db st'))
    \<and> set (gate_exemptions (st_db st)) \<subseteq> set (gate_exemptions (st_db st'))"
  using record_history.life_order[OF assms] by (simp add: records_kept_def)

theorem records_permanent_witness:
  "demo_row4 \<in> set (gate_declarations (st_db demo_pushed))"
proof -
  have "demo_row4 \<in> set (gate_declarations (st_db demo_later))"
    by (simp add: demo_later_def demo_db14_def demo_db13_def)
  then show ?thesis using records_permanent[OF demo_later_reachable(1) demo_push_life] by blast
qed

text \<open>A backlog entry keeps what it was entered with, and leaves the backlog at most once: the
  exit it took, and the Matter or outbox entry it exited to, stay.\<close>

theorem backlog_exits_once:
  assumes "reachable st" "op\<^sup>*\<^sup>* st st'" "b \<in> set (backlog_entries (st_db st))"
  shows "\<exists>b' \<in> set (backlog_entries (st_db st')). backlog_kept1 b b'"
  using backlog_history.life_order[OF assms(1,2)] assms(3)
  by (auto simp: backlog_kept_def carried_def list_all_iff list_ex_iff)

theorem backlog_exits_once_witness:
  "\<exists>b' \<in> set (backlog_entries (st_db demo_pushed)). b_id b' = id_K \<and> b_title b' = ''k''"
proof -
  have "demo_row11 \<in> set (backlog_entries (st_db demo_later))"
    by (simp add: demo_later_def demo_db14_def demo_db13_def)
  from backlog_exits_once[OF demo_later_reachable(1) demo_push_life this] show ?thesis
    by (auto simp: backlog_kept1_def demo_row11_def)
qed

text \<open>C10: a tracker item recorded as completed or canceled is never recorded as active again.\<close>

theorem push_disposition_final:
  assumes "reachable st" "op\<^sup>*\<^sup>* st st'" "p \<in> set (tracker_push_records (st_db st))"
  shows "\<exists>p' \<in> set (tracker_push_records (st_db st')). p_ref p' = p_ref p \<and> p_birth p' = p_birth p
    \<and> (p_disposition p \<noteq> TrackerActive \<longrightarrow> p_disposition p' = p_disposition p)"
  using push_history.life_order[OF assms(1,2)] assms(3)
  by (auto simp: pushes_kept_def push_kept1_def carried_def list_all_iff list_ex_iff)

theorem push_disposition_final_witness:
  "\<exists>p' \<in> set (tracker_push_records (st_db demo_pushed)). p_ref p' = p_ref demo_push"
proof -
  have "demo_push \<in> set (tracker_push_records (st_db demo_pushed))"
    by (simp add: demo_pushed_def demo_db17_def)
  from push_disposition_final[OF demo_pushed_reachable _ this, of demo_pushed] show ?thesis by auto
qed

text \<open>C11: a batch that is closed, a run that is over, a dispatch that is closed and a role that is
  closed stay in the projection exactly as they were closed.\<close>

theorem closed_work_final:
  assumes "reachable st" "op\<^sup>*\<^sup>* st st'"
  shows "(\<forall>b \<in> set (batches (st_db st)). ba_state b \<noteq> ''live'' \<longrightarrow> b \<in> set (batches (st_db st')))
    \<and> (\<forall>r \<in> set (runs (st_db st)). ru_state r \<noteq> ''open'' \<longrightarrow> r \<in> set (runs (st_db st')))
    \<and> (\<forall>d \<in> set (dispatches (st_db st)). di_state d \<noteq> ''open'' \<longrightarrow> d \<in> set (dispatches (st_db st')))
    \<and> (\<forall>r \<in> set (roles (st_db st)). role_state r \<noteq> ''open'' \<longrightarrow> r \<in> set (roles (st_db st')))"
  using work_history.life_order[OF assms] unfolding work_kept_def by (elim conjE, intro conjI) (erule carried_final)+

theorem closed_work_final_witness:
  "demo_dispatch_closed \<in> set (dispatches (st_db (fst (Commit demo_request demo_push_decide demo_closed))))
   \<and> demo_role_reaped \<in> set (roles (st_db (fst (Commit demo_request demo_push_decide demo_closed))))"
proof -
  have "op demo_closed (fst (Commit demo_request demo_push_decide demo_closed))"
    using demo_push_minting by (rule op_commit)
  note laws = closed_work_final[OF demo_watch_reachable(2) r_into_rtranclp, OF this]
  have "demo_dispatch_closed \<in> set (dispatches (st_db demo_closed))" "di_state demo_dispatch_closed \<noteq> ''open''"
    "demo_role_reaped \<in> set (roles (st_db demo_closed))" "role_state demo_role_reaped \<noteq> ''open''"
    by (simp_all add: demo_closed_def demo_db_close_def demo_dispatch_closed_def demo_role_reaped_def reap_role_def)
  then show ?thesis using laws by blast
qed

section \<open>Completion\<close>

text \<open>C12: completion as the code computes it is completion as it is meant. For every node of a
  reachable store whose enclosing nodes are live the query returns, the node counts as locally
  complete exactly when it is done and each gate declared at its scale is closed, dismissed or
  exempt there, and as sealed exactly when this holds of the gates of every node that encloses
  it too.\<close>

theorem completion_computes:
  assumes "reachable st" "r \<in> set (nodes (st_db st))" "\<And>a. encloses (st_db st) r a \<Longrightarrow> n_live a"
  shows "\<exists>c. NodeCompletionWithOverlay (tx_of st) (st_db st) (scanNode r) ov = Inr c
    \<and> nc_Sealed c = sealed ov (st_db st) r \<and> nc_LocallyComplete c = locally_complete ov (st_db st) r"
  using completion_total[OF readable_reachable[OF assms(1)] assms(2,3)] by (simp add: tx_of_def)

theorem completion_computes_witness:
  "\<exists>c. NodeCompletionWithOverlay (tx_of demo_later) demo_db14 (scanNode demo_row5) no_overlay = Inr c \<and> \<not> nc_Sealed c"
proof -
  have "demo_row5 \<in> set (nodes (st_db demo_later))" by (simp add: demo_later_def) code_simp
  moreover have "n_live a" if "encloses (st_db demo_later) demo_row5 a" for a
    using that by cases (simp_all add: demo_row5_def n_live_def)
  ultimately obtain c where "NodeCompletionWithOverlay (tx_of demo_later) (st_db demo_later) (scanNode demo_row5) no_overlay = Inr c"
      "nc_Sealed c = sealed no_overlay (st_db demo_later) demo_row5"
    using completion_computes[OF demo_later_reachable(1), of demo_row5 no_overlay] by blast
  moreover have "\<not> finished no_overlay demo_row5" by code_simp
  ultimately show ?thesis by (auto simp: demo_later_def sealed_def)
qed

text \<open>C13: the archive is the sealed Matters of the Repo, in the order of their births, and reading
  it never fails.\<close>

theorem ArchivedMatters_are_sealed:
  assumes "reachable st"
  shows "ArchivedMatters (tx_of st) (st_db st) repo
    = Inr (map scanNode (filter (sealed no_overlay (st_db st)) (matter_rows (st_db st) repo)))"
  using ArchivedMatters_spec[OF readable_reachable[OF assms]] by (simp add: tx_of_def)

theorem ArchivedMatters_are_sealed_witness: "ArchivedMatters (tx_of demo_later) demo_db14 id_R = Inr []"
proof -
  have "list_all (\<lambda>r. n_lifecycle r \<noteq> Done \<and> n_id r \<noteq> []) (nodes demo_db14)" by code_simp
  then have "filter (sealed no_overlay demo_db14) (matter_rows demo_db14 id_R) = []"
    by (auto simp: filter_empty_conv matter_rows_def sealed_def finished_def no_overlay_def list_all_iff)
  then show ?thesis using ArchivedMatters_are_sealed[OF demo_later_reachable(1), of id_R] by (simp add: demo_later_def)
qed

text \<open>C14: what a tracker item bound to several Matters should say: nothing while all are planned,
  active while one that is not canceled is not sealed, then completed if one is not canceled,
  else canceled.\<close>

theorem TrackerAggregate_is_disposition:
  assumes "reachable st"
  shows "TrackerAggregate (tx_of st) (st_db st) ref = Inr
    (if bound_rows (st_db st) ref = [] then None
     else if list_all (\<lambda>m. n_lifecycle m = Planned) (bound_rows (st_db st) ref) then Some []
     else Some (disposition (st_db st) (bound_rows (st_db st) ref)))"
  using TrackerAggregate_spec[OF readable_reachable[OF assms]] by (simp add: tx_of_def list_all_iff)

theorem TrackerAggregate_is_disposition_witness:
  "TrackerAggregate (tx_of demo_pushed) demo_db17 ''o/r#1'' = Inr None"
  using TrackerAggregate_is_disposition[OF demo_pushed_reachable, of "''o/r#1''"] 
  by (simp add: demo_pushed_def bound_rows_def demo_db17_def demo_db14_def demo_db13_def empty_db_def)



section \<open>Dependencies\<close>

lemma demo_graph: "liveEdgeGraph demo_db14 = [(id_A, id_B)]"
  by code_simp

text \<open>C16: the audit of the dependency graph is exact. It lists the simple cycles of the edges in
  force, each once and rotated to its least node, and is empty exactly when the graph is
  acyclic.\<close>

theorem Cycles_audit:
  assumes "reachable st"
  shows "set (Cycles (st_db st)) = {c. is_cycle (liveEdgeGraph (st_db st)) c} \<and> distinct (Cycles (st_db st))
    \<and> (Cycles (st_db st) = [] \<longleftrightarrow> acyclic (set (liveEdgeGraph (st_db st))))"
  using Cycles_spec schema.reachable_keep[OF assms] by (simp add: schema_ok_def)

theorem Cycles_audit_witness: "Cycles demo_db14 = [] \<and> acyclic {(id_A, id_B)}"
proof -
  have "Cycles demo_db14 = []" by code_simp
  then show ?thesis using Cycles_audit[OF demo_later_reachable(1)] by (simp add: demo_later_def demo_graph)
qed

text \<open>C17: whatever verbs of the write surface are called, in any order and with any arguments, a
  store without a dependency cycle stays without one.\<close>

theorem dependencies_stay_acyclic:
  assumes "reachable st" "Cycles (st_db st) = []" "calls st st'"
  shows "Cycles (st_db st') = []"
proof -
  have "reachable st'" using reachable_ops[OF guarded_ops[OF calls_guarded[OF assms(3)]] assms(1)] .
  then show ?thesis
    using guarded_keeps_acyclic[OF calls_guarded[OF assms(3)] assms(1)] assms(1,2) Cycles_spec
      schema.reachable_keep[of st] schema.reachable_keep[of st'] by (simp add: schema_ok_def)
qed

theorem dependencies_stay_acyclic_witness:
  "Cycles (st_db (fst (DependAdd ActorHuman id_R ''b'' ''a/step-01'' demo_later))) = []"
proof -
  let ?st = "fst (DependAdd ActorHuman id_R ''b'' ''a/step-01'' demo_later)"
  have "Cycles (st_db demo_later) = []" by (simp add: demo_later_def) code_simp
  moreover have "called demo_later (token (snd (DependAdd ActorHuman id_R ''b'' ''a/step-01'' demo_later))) ?st"
    by (rule called_DependAdd) simp
  then have "calls demo_later ?st" unfolding calls_def by (intro r_into_rtranclp) blast
  ultimately show ?thesis by (rule dependencies_stay_acyclic[OF demo_later_reachable(1)])
qed

text \<open>C18: adding a dependency of a node on itself, or one that closes a path of dependencies in
  force, is refused and leaves the store as it was.\<close>

theorem DependAdd_refuses_cycle:
  assumes "ResolveNode (st_db st) repo a = Inr blocked" "ResolveNode (st_db st) repo b = Inr blocker"
    and "N_ID blocked = N_ID blocker \<or> (N_ID blocker, N_ID blocked) \<in> (set (liveEdgeGraph (st_db st)))\<^sup>+"
  shows "DependAdd actor repo a b st = (st, Inl (EWip ''refusal.blocked-by-cycle''))"
  using assms by (auto simp: DependAdd_def Let_def WouldCycle_def reaches_iff)

theorem DependAdd_refuses_cycle_witness:
  "DependAdd ActorHuman id_R ''b'' ''a'' demo_later = (demo_later, Inl (EWip ''refusal.blocked-by-cycle''))"
proof -
  have "ResolveNode demo_db14 id_R ''b'' = Inr (scanNode (nodes demo_db14 ! 1))" by code_simp
  moreover have "ResolveNode demo_db14 id_R ''a'' = Inr (scanNode (nodes demo_db14 ! 0))" by code_simp
  moreover have "n_id (nodes demo_db14 ! 1) = id_B" "n_id (nodes demo_db14 ! 0) = id_A" by code_simp+
  ultimately show ?thesis
    by (intro DependAdd_refuses_cycle) (auto simp: demo_later_def demo_graph)
qed

section \<open>Verbs\<close>

text \<open>C27: a verb that is refused with a token has written nothing: neither an event nor a row.\<close>

theorem refusal_writes_nothing:
  assumes "called st (Some code) st'"
  shows "st_log st' = st_log st \<and> st_db st' = st_db st"
  using called_laws[OF assms] by simp

theorem refusal_writes_nothing_witness:
  "called demo_later (Some ''refusal.blocked-by-cycle'') demo_later
   \<and> st_log demo_later = st_log demo_later \<and> st_db demo_later = st_db demo_later"
proof -
  have "WouldCycle demo_db14 id_B id_A" by code_simp
  moreover have "ResolveNode demo_db14 id_R ''b'' = Inr (scanNode (nodes demo_db14 ! 1))" by code_simp
  moreover have "ResolveNode demo_db14 id_R ''a'' = Inr (scanNode (nodes demo_db14 ! 0))" by code_simp
  moreover have "n_id (nodes demo_db14 ! 1) = id_B" "n_id (nodes demo_db14 ! 0) = id_A" by code_simp+
  ultimately have "DependAdd ActorHuman id_R ''b'' ''a'' demo_later
      = (demo_later, Inl (EWip ''refusal.blocked-by-cycle''))"
    by (simp add: DependAdd_def Let_def demo_later_def)
  from called_DependAdd[OF this] have called: "called demo_later (Some ''refusal.blocked-by-cycle'') demo_later"
    by (simp add: token_def)
  then show ?thesis using refusal_writes_nothing[OF called] by (rule conjI)
qed

section \<open>What may be worked on\<close>

text \<open>C26: whatever verbs are called, in any order, nothing but Steps is ever removed: Matters and
  Stages can be canceled, and stay.\<close>

theorem only_steps_removed:
  assumes "reachable st" "standing (st_db st)" "calls st st'"
  shows "standing (st_db st')"
  using calls_standing[OF assms(3,1,2)] .

lemma demo_standing: "standing demo_db14" "standing demo_db_run"
proof -
  have "list_all (\<lambda>r. n_live r \<or> n_kind r = ScaleStep) (nodes demo_db14)" by code_simp
  then show "standing demo_db14" by (simp add: standing_def list_all_iff)
  then show "standing demo_db_run" by (simp add: standing_def demo_db_run_def)
qed

theorem only_steps_removed_witness:
  "standing (st_db (fst (RemoveStep ActorHuman id_R ''a'' ''gone'' demo_later)))"
proof -
  let ?st = "fst (RemoveStep ActorHuman id_R ''a'' ''gone'' demo_later)"
  have "called demo_later (token (snd (RemoveStep ActorHuman id_R ''a'' ''gone'' demo_later))) ?st"
    by (rule called_RemoveStep) simp
  then have "calls demo_later ?st" unfolding calls_def by (intro r_into_rtranclp) blast
  moreover have "standing (st_db demo_later)" using demo_standing by (simp add: demo_later_def)
  ultimately show ?thesis using only_steps_removed[OF demo_later_reachable(1)] by blast
qed

text \<open>C25: the frontier is exact and always computed. A planned node is ready when every node it
  depends on by an edge in force is locally complete, in the order of birth; every other
  planned node is listed as blocked, with exactly those of its blockers that are not locally
  complete.\<close>

theorem Frontier_is_exact:
  assumes "reachable st" "standing (st_db st)"
  shows "Frontier (tx_of st) (st_db st) = Inr
    (map scanNode (filter (unblocked (st_db st)) (planned_rows (st_db st))),
     map (\<lambda>r. \<lparr>B_Node = scanNode r,
         B_Blockers = map scanNode (filter (\<lambda>b. \<not> locally_complete no_overlay (st_db st) b) (blockers (st_db st) r))\<rparr>)
       (filter (\<lambda>r. \<not> unblocked (st_db st) r) (planned_rows (st_db st))))"
  using Frontier_spec[OF readable_reachable[OF assms(1)] assms(2)] by (simp add: tx_of_def)

lemma demo_incomplete: "\<not> locally_complete no_overlay s (node_of demo_db14 id_B)"
proof -
  have "n_lifecycle (node_of demo_db14 id_B) = InProgress \<and> n_id (node_of demo_db14 id_B) = id_B" by code_simp
  then show ?thesis by (simp add: locally_complete_def finished_def no_overlay_def id_B_def tokens)
qed

lemma demo_unblocked: "unblocked demo_db14 demo_row7" "\<not> unblocked demo_db14 demo_row5"
proof -
  have e: "edges_in_force demo_db14 = [demo_row10]" by code_simp
  show "unblocked demo_db14 demo_row7" by (simp add: unblocked_def e demo_row10_def demo_row7_def id_A_def id_S_def)
  show "\<not> unblocked demo_db14 demo_row5"
    using demo_incomplete by (simp add: unblocked_def e demo_row10_def demo_row5_def)
qed

lemma demo_unblocked_run: "\<not> unblocked demo_db_run demo_row5"
proof -
  have "edges_in_force demo_db_run = edges_in_force demo_db14" "node_of demo_db_run id_B = node_of demo_db14 id_B"
    by (simp_all add: demo_db_run_def edges_in_force_def is_live_def node_of_def live_row_def)
  moreover have "edges_in_force demo_db14 = [demo_row10]" by code_simp
  ultimately show ?thesis using demo_incomplete by (simp add: unblocked_def demo_row10_def demo_row5_def)
qed

lemma demo_planned: "planned_rows demo_db14 = [demo_row5, demo_row7]"
  by code_simp

theorem Frontier_is_exact_witness:
  "rbind (Frontier (tx_of demo_later) demo_db14) (\<lambda>(ready, blocked). Inr (ready, map B_Node blocked))
     = Inr ([scanNode demo_row7], [scanNode demo_row5])"
proof -
  have eq: "st_db demo_later = demo_db14" by (simp add: demo_later_def)
  show ?thesis
    using Frontier_is_exact[OF demo_later_reachable(1), unfolded eq, OF demo_standing(1)] by (simp add: demo_planned demo_unblocked)
qed

text \<open>C19: the scheduler is exact and always computes. What a Run may engage are the planned nodes
  of its Matters that have no live child, that are not blocked and do not lie in anything
  blocked, and whose ancestors are all planned or in progress; what it has engaged are the
  childless nodes in progress. Both lists are in the order of identity.\<close>

theorem Derive_is_exact:
  assumes "reachable st" "standing (st_db st)" "list_all (is_live (st_db st)) (RunMatters (st_db st) (ru_id run))"
  shows "\<exists>f. Derive (tx_of st) (st_db st) run cap = Inr f
    \<and> set (fr_Ready f) = scanNode ` {r \<in> set (nodes (st_db st)). n_matter r \<in> set (RunMatters (st_db st) (ru_id run))
        \<and> engageable (st_db st) r}
    \<and> set (fr_Engaged f) = scanNode ` {r \<in> set (nodes (st_db st)). n_matter r \<in> set (RunMatters (st_db st) (ru_id run))
        \<and> workable (st_db st) r \<and> n_lifecycle r = InProgress}
    \<and> sorted_wrt (<) (map N_ID (fr_Ready f)) \<and> sorted_wrt (<) (map N_ID (fr_Engaged f))"
  using Derive_spec[OF readable_reachable[OF assms(1)] assms(2,3), of cap] by (auto simp: tx_of_def)

lemma demo_members: "list_all (is_live demo_db_run) (RunMatters demo_db_run id_U)"
  by code_simp

theorem Derive_is_exact_witness:
  "\<exists>f. Derive (tx_of demo_running) demo_db_run demo_run 2 = Inr f \<and> scanNode demo_row7 \<notin> set (fr_Ready f)"
proof -
  have mem: "demo_row7 \<in> set (nodes demo_db_run)" "demo_row5 \<in> set (nodes demo_db_run)" by code_simp+
  have b: "\<not> unblocked demo_db_run demo_row5"
    using demo_unblocked_run .
  have "n_parent demo_row7 = Some (n_id demo_row5)" by code_simp
  then have "encloses demo_db_run demo_row7 demo_row5" by (rule encloses_parent[OF mem(2) _ encloses_self])
  then have no: "\<not> engageable demo_db_run demo_row7" using b by (auto simp: engageable_def)
  have eq: "st_db demo_running = demo_db_run" "ru_id demo_run = id_U" by (simp_all add: demo_running_def demo_run_def)
  have "r = demo_row7" if "r \<in> set (nodes demo_db_run)" "scanNode demo_row7 = scanNode r" for r
    using scanNode_inj[OF keys.reachable_keep[OF demo_running_reachable, unfolded eq] that(1) mem(1)] that(2) by simp
  then have "scanNode demo_row7 \<notin> scanNode ` {r \<in> set (nodes demo_db_run). n_matter r \<in> set (RunMatters demo_db_run id_U) \<and> engageable demo_db_run r}"
    using no by blast
  then show ?thesis
    using Derive_is_exact[OF demo_running_reachable, of demo_run 2, unfolded eq, OF demo_standing(2) demo_members] by metis
qed

text \<open>C20: a read never disagrees with the scheduler: what a Run may engage is ready on the
  frontier, and never among the blocked.\<close>

theorem scheduler_within_frontier:
  assumes "reachable st" "standing (st_db st)" "list_all (is_live (st_db st)) (RunMatters (st_db st) (ru_id run))"
    and "Derive (tx_of st) (st_db st) run cap = Inr f" "Frontier (tx_of st) (st_db st) = Inr (ready, blocked)"
  shows "set (fr_Ready f) \<subseteq> set ready \<and> set (fr_Ready f) \<inter> B_Node ` set blocked = {}"
proof -
  have ready: "ready = map scanNode (filter (unblocked (st_db st)) (planned_rows (st_db st)))"
    and blocked: "B_Node ` set blocked = scanNode ` set (filter (\<lambda>r. \<not> unblocked (st_db st) r) (planned_rows (st_db st)))"
    using Frontier_spec[OF readable_reachable[OF assms(1)] assms(2)] assms(5) by (simp_all add: tx_of_def) (auto simp: image_image)
  have set: "set (fr_Ready f) \<subseteq> scanNode ` {r \<in> set (nodes (st_db st)). engageable (st_db st) r}"
    using Derive_spec[OF readable_reachable[OF assms(1)] assms(2,3), of cap] assms(4) by (auto simp: tx_of_def)
  have "r = q" if "r \<in> set (nodes (st_db st))" "q \<in> set (nodes (st_db st))" "scanNode r = scanNode q" for r q
    using scanNode_inj[OF keys.reachable_keep[OF assms(1)]] that by blast
  moreover have "set (planned_rows (st_db st)) \<subseteq> set (nodes (st_db st))" by (auto simp: planned_rows_def)
  ultimately show ?thesis
    using set engageable_planned[of "st_db st"] unfolding ready blocked set_map set_filter by blast
qed

theorem scheduler_within_frontier_witness:
  "rbind (Derive (tx_of demo_running) demo_db_run demo_run 2) (\<lambda>f. rbind (Frontier (tx_of demo_running) demo_db_run)
     (\<lambda>(ready, blocked). Inr (set (fr_Ready f) \<subseteq> set ready))) = Inr True"
proof -
  have s: "standing (st_db demo_running)" "list_all (is_live (st_db demo_running)) (RunMatters (st_db demo_running) (ru_id demo_run))"
    using demo_standing(2) demo_members by (simp_all add: demo_running_def demo_run_def)
  note facts = scheduler_within_frontier[OF demo_running_reachable s]
  obtain f where f: "Derive (tx_of demo_running) (st_db demo_running) demo_run 2 = Inr f"
    using Derive_spec[OF readable_reachable[OF demo_running_reachable] s, of 2] by (auto simp: tx_of_def)
  obtain ready blocked where fr: "Frontier (tx_of demo_running) (st_db demo_running) = Inr (ready, blocked)"
    using Frontier_spec[OF readable_reachable[OF demo_running_reachable] s(1)] by (auto simp: tx_of_def)
  show ?thesis using facts[OF f fr] f fr by (simp add: demo_running_def)
qed

text \<open>C21: the concurrency cap holds: what is engaged and what is selected together stay within the
  cap (unless more is engaged already), the selection is as large as the cap allows, and it is
  a prefix of the ready list.\<close>

theorem selection_within_cap:
  assumes "Derive t s run cap = Inr f" "0 \<le> cap" "cap < 2 ^ 63" "int (length (fr_Engaged f)) < 2 ^ 63"
  shows "int (length (fr_Engaged f) + length (Select (fr_Ready f) (fr_Slots f))) \<le> max cap (int (length (fr_Engaged f)))
    \<and> int (length (Select (fr_Ready f) (fr_Slots f))) = min (int (length (fr_Ready f))) (max 0 (cap - int (length (fr_Engaged f))))
    \<and> Select (fr_Ready f) (fr_Slots f) = take (length (Select (fr_Ready f) (fr_Slots f))) (fr_Ready f)"
proof -
  have "fr_Slots f = max 0 (cap - int (length (fr_Engaged f)))"
    using assms by (auto simp: Derive_def res wrap64_def)
  then show ?thesis using Select_within_cap[OF assms] Select_prefix by (simp add: length_Select)
qed

lemma demo_derived:
  "rbind (Derive (tx_of demo_running) demo_db_run demo_run 2) (\<lambda>f. Inr (map N_ID (fr_Ready f), map N_ID (fr_Engaged f), fr_Slots f))
     = Inr ([], [id_B], 1)"
  by code_simp

theorem selection_within_cap_witness:
  "\<exists>f. Derive (tx_of demo_running) demo_db_run demo_run 2 = Inr f
    \<and> int (length (fr_Engaged f) + length (Select (fr_Ready f) (fr_Slots f))) \<le> 2"
proof -
  obtain f where f: "Derive (tx_of demo_running) demo_db_run demo_run 2 = Inr f" "map N_ID (fr_Engaged f) = [id_B]"
    using demo_derived by (auto simp: res)
  have "length (fr_Engaged f) = 1" using arg_cong[OF f(2), of length] by simp
  then show ?thesis using selection_within_cap[OF f(1)] f(1) by auto
qed

text \<open>C22: presentation selects nothing: replacing the sort key of every node, by any function,
  changes neither what is ready nor what is selected.\<close>

theorem selection_ignores_presentation:
  assumes "reachable st" "standing (st_db st)" "list_all (is_live (st_db st)) (RunMatters (st_db st) (ru_id run))"
  shows "\<exists>f g. Derive (tx_of st) (st_db st) run cap = Inr f \<and> Derive (tx_of st) (resorted k (st_db st)) run cap = Inr g
    \<and> map N_ID (Select (fr_Ready g) (fr_Slots g)) = map N_ID (Select (fr_Ready f) (fr_Slots f))"
proof -
  have "map N_ID (Select ns i) = (if i \<le> 0 then [] else if int (length ns) \<le> i then map N_ID ns else take (nat i) (map N_ID ns))" for ns i
    by (simp add: Select_def take_map)
  then show ?thesis
    using Derive_ignores_sort_keys[OF readable_reachable[OF assms(1)] assms(2,3), of cap k] unfolding tx_of_def by (metis length_map)
qed

theorem selection_ignores_presentation_witness:
  "\<exists>f g. Derive (tx_of demo_running) demo_db_run demo_run 2 = Inr f
    \<and> Derive (tx_of demo_running) (resorted (\<lambda>_. 0) demo_db_run) demo_run 2 = Inr g
    \<and> map N_ID (Select (fr_Ready g) (fr_Slots g)) = map N_ID (Select (fr_Ready f) (fr_Slots f))"
proof -
  have eq: "st_db demo_running = demo_db_run" "ru_id demo_run = id_U" by (simp_all add: demo_running_def demo_run_def)
  show ?thesis
    using selection_ignores_presentation[OF demo_running_reachable, of demo_run, unfolded eq, OF demo_standing(2) demo_members] by blast
qed

section \<open>The cursor and the next view\<close>

text \<open>C28: the cursor is where it was put. When the cursor of a worktree is set on a locator, the
  locator resolved to a node of the store, reading the cursor gives that node, and the node
  itself still reads the same.\<close>

theorem setCursor_roundtrip:
  assumes "reachable st" "setCursor actor cur locator st = (st', Inr target)"
  shows "resolveLocator (st_db st) (cur_Repo cur) locator = Inr target
    \<and> Cursor (st_db st') (cur_Clone cur) (cur_Worktree cur) = Some (N_ID target)
    \<and> view_Node (st_db st') (N_ID target) = Inr target"
proof -
  have reads: "Cursor (st_db st') (cur_Clone cur) (cur_Worktree cur) = nullable (N_ID target)"
      "nodes (st_db st') = nodes (st_db st)" "resolveLocator (st_db st) (cur_Repo cur) locator = Inr target"
    using setCursor_reads_back[OF reachable_ok[OF assms(1)] assms(2)] by auto
  obtain r where r: "r \<in> set (nodes (st_db st))" "n_live r" "target = scanNode r"
    using resolveLocator_row[OF reads(3)] by blast
  have ok: "schema_ok (st_db st)" by (rule schema.reachable_keep[OF assms(1)])
  then have "N_ID target \<noteq> []"
    using r by (auto simp: schema_ok_def checks_ok_def node_check_def list_all_iff sql_length_def)
  moreover have "view_Node (st_db st) (N_ID target) = Inr target"
    using view_Node_row[of "st_db st" r] ok r by (simp add: schema_ok_def)
  then have "view_Node (st_db st') (N_ID target) = Inr target"
    using reads(2) by (simp add: view_Node_def live_row_def)
  ultimately show ?thesis using reads by (simp add: nullable_def)
qed

theorem setCursor_roundtrip_witness:
  "Cursor (st_db demo_pointed) id_C id_W = Some id_B \<and> view_Node (st_db demo_pointed) id_B = Inr (scanNode (nodes demo_db14 ! 1))"
  using setCursor_roundtrip[OF demo_watch_reachable(1) demo_set_cursor] demo_second(1) by (simp add: demo_current_def)

text \<open>C29: the answer that everything is sealed is never given while there is work: as long as one
  node of the Repo is planned, ready or not, or in progress, the next view is another one.\<close>

theorem EverythingSealed_no_work:
  assumes "reachable st" "standing (st_db st)" "r \<in> set (nodes (st_db st))" "n_live r" "n_repo r = cur_Repo cur"
    and "n_lifecycle r = Planned \<or> n_lifecycle r = InProgress"
  shows "read_next (tx_of st) (st_db st) cur \<noteq> Inr (EverythingSealed k)"
  using everything_sealed[OF readable_reachable[OF assms(1)] assms(2) _ assms(3-5)] assms(6)
  by (auto simp: tx_of_def)

theorem EverythingSealed_no_work_witness: "read_next (tx_of demo_pointed) demo_db_cursor demo_current \<noteq> Inr (EverythingSealed 0)"
proof -
  have eq: "st_db demo_pointed = demo_db_cursor" by (simp add: demo_pointed_def)
  have "standing demo_db_cursor" by code_simp
  moreover have "demo_row5 \<in> set (nodes demo_db_cursor)" "n_live demo_row5" "n_repo demo_row5 = cur_Repo demo_current"
    "n_lifecycle demo_row5 = Planned" by code_simp+
  ultimately show ?thesis
    using EverythingSealed_no_work[OF demo_pointed_reachable, unfolded eq] by blast
qed

text \<open>C30: the hand-off after a write and the next view never disagree about the cursor: the hand-off
  reports that the work of the cursor has ended exactly when the next view asks to choose, and
  both name the same node and the same reason.\<close>

theorem handoff_agrees_with_next:
  assumes "read_next t s cur = Inr v" "EndedCursor t s (cur_Clone cur) (cur_Worktree cur) = Inr ended"
  shows "case ended of
      None \<Rightarrow> \<not> (\<exists>n reason cs ip ws. v = ChooseNext n reason cs ip ws)
    | Some e \<Rightarrow> \<exists>cs ip ws. v = ChooseNext (ce_Target e) (ce_Reason e) cs ip ws"
  by (rule EndedCursor_agrees[OF assms])

definition demo_db_gone :: db where
  "demo_db_gone = demo_db_cursor\<lparr>nodes := map (\<lambda>r. r\<lparr>n_lifecycle := Canceled\<rparr>) (nodes demo_db_cursor)\<rparr>"

theorem handoff_agrees_with_next_witness:
  "\<exists>cs ip ws. read_next \<lparr>tx_log = [], tx_defer = False\<rparr> demo_db_gone demo_current
     = Inr (ChooseNext (Some (scanNode (nodes demo_db_gone ! 1))) ''canceled'' cs ip ws)"
proof -
  let ?t = "\<lparr>tx_log = [], tx_defer = False\<rparr>"
  have "isl (read_next ?t demo_db_gone demo_current) = False" by code_simp
  then obtain v where v: "read_next ?t demo_db_gone demo_current = Inr v" by (auto simp: isl_def) (metis sum.exhaust)
  have "EndedCursor ?t demo_db_gone id_C id_W
      = Inr (Some \<lparr>ce_Reason = ''canceled'', ce_Target = Some (scanNode (nodes demo_db_gone ! 1)), ce_Suggested = None\<rparr>)"
    by code_simp
  then show ?thesis using handoff_agrees_with_next[OF v, of "Some \<lparr>ce_Reason = ''canceled'',
      ce_Target = Some (scanNode (nodes demo_db_gone ! 1)), ce_Suggested = None\<rparr>"] v by (simp add: demo_current_def)
qed

text \<open>A Repo whose only work is paused is answered with everything sealed.\<close>

definition demo_db_paused :: db where
  "demo_db_paused = demo_db14\<lparr>nodes := map (\<lambda>r. r\<lparr>n_lifecycle := Paused\<rparr>) (nodes demo_db14)\<rparr>"

lemma paused_answers_sealed:
  "read_next \<lparr>tx_log = [], tx_defer = False\<rparr> demo_db_paused demo_current = Inr (EverythingSealed 1)"
  by code_simp

section \<open>Command identities and dispatch\<close>



text \<open>C34: canonical bytes and commands correspond one to one. Whatever the CBOR library does, two byte
  strings the decoder accepts are equal exactly when the commands it answers are equal up to the
  order of their blobs; and the bytes it accepts are the canonical bytes of its answer, so the
  request hash of the answer is the hash of the bytes received.\<close>
theorem decoded_commands_faithful:
  assumes "DecodeCanonicalCommand nfc urlParse unmarshal data = Inr c" "length data < 2 ^ 64"
    "DecodeCanonicalCommand nfc urlParse unmarshal data' = Inr c'" "length data' < 2 ^ 64"
  shows "(data = data' \<longleftrightarrow> ordered c = ordered c')
    \<and> VerifyRequestHash nfc urlParse c (digestPrefix @ hex_encode (sha256 (string_bytes (requestHashDomain @ data)))) = Inr ()"
proof -
  note c = DecodeCanonicalCommand_canonical[OF assms(1)] and c' = DecodeCanonicalCommand_canonical[OF assms(3)]
  have "ordered c = ordered c'" if "data = data'"
    using decode_CanonicalBytes[OF c assms(2)] decode_CanonicalBytes[OF c' assms(4)] that by simp
  moreover have "data = data'" if "ordered c = ordered c'"
    using CanonicalBytes_ordered[OF c] CanonicalBytes_ordered[OF c'] that by simp
  moreover have "VerifyRequestHash nfc urlParse c (digestPrefix @ hex_encode (sha256 (string_bytes (requestHashDomain @ data)))) = Inr ()"
    unfolding VerifyRequestHash_iff RequestHash_def c by (simp only: rbind_simps)
  ultimately show ?thesis by blast
qed

theorem decoded_commands_faithful_witness:
  "\<exists>data c. DecodeCanonicalCommand (\<lambda>_. True) (\<lambda>_. None) decode data = Inr c
     \<and> VerifyRequestHash (\<lambda>_. True) (\<lambda>_. None) c (digestPrefix @ hex_encode (sha256 (string_bytes (requestHashDomain @ data)))) = Inr ()"
proof -
  obtain b where b: "CanonicalBytes (\<lambda>_. True) (\<lambda>_. None) brief_command = Inr b" "length b < 2 ^ 64" by (rule brief_command_bytes)
  have d: "DecodeCanonicalCommand (\<lambda>_. True) (\<lambda>_. None) decode b = Inr (ordered brief_command)" using decode_CanonicalBytes[OF b] .
  show ?thesis using decoded_commands_faithful[OF d b(2) d b(2)] d by blast
qed

text \<open>C35: dispatching is typed. On a registry built by registrations, a request is either not served,
  and then the handler never ran, the state is untouched and the answer is a rejection; or it was
  valid for the registered definition of exactly its operation, the handler ran once on it, and the
  answer is legal for that definition, whatever the handler returned: a handler's legal result is
  passed on, an illegal one is replaced.\<close>
theorem Dispatch_typed:
  assumes "built regs" "Dispatch nfc urlParse (Some regs) ctx req s = (r, s')"
  shows "case served nfc urlParse regs req of
      None \<Rightarrow> s' = s \<and> rs_Code r = ResultRejected \<and> (\<forall>d. ValidateResult nfc d r = Inr ())
    | Some g \<Rightarrow> operation_of (rg_Definition g) = or_Operation req
        \<and> ValidateRequest nfc urlParse (rg_Definition g) req = Inr ()
        \<and> s' = snd (rg_Handler g ctx req s)
        \<and> ValidateResult nfc (rg_Definition g) r = Inr ()
        \<and> (ValidateResult nfc (rg_Definition g) (fst (rg_Handler g ctx req s)) = Inr () \<longrightarrow> r = fst (rg_Handler g ctx req s))"
proof (cases "served nfc urlParse regs req")
  case None
  then show ?thesis using Dispatch_unserved[OF None assms(2)] by simp
next
  case (Some g)
  then show ?thesis using served_Some[OF assms(1) Some] Dispatch_served[OF Some assms(2)] by (cases "rg_Handler g ctx req s") simp
qed

theorem Dispatch_typed_witness:
  "snd (Dispatch (\<lambda>_. True) (\<lambda>_. None) (Some brief_registry) () brief_request 4) = 5
     \<and> ValidateResult (\<lambda>_. True) ContentWriteOnceV1 (fst (Dispatch (\<lambda>_. True) (\<lambda>_. None) (Some brief_registry) () brief_request 4)) = Inr ()"
  using Dispatch_typed[OF brief_registry_built prod.collapse[symmetric], of "\<lambda>_. True" "\<lambda>_. None" "()" brief_request 4]
  by (simp add: brief_registry_serves brief_handler_def)

text \<open>C36: the program starts. None of the definitions of its catalogues panics: metadata, input and
  output types all pass their checks; no two definitions share an operation, so the identity of a
  command selects exactly one; and registering a definition makes exactly its operation resolvable.\<close>
theorem catalogue_sound:
  "(\<forall>d \<in> set identity_definitions. mustDefine (df_inputType d) (df_outputType d) (df_metadata d) = Inr d)
   \<and> (\<forall>d ident. commandIdentityDefinition ident = Some d \<longleftrightarrow> d \<in> set identity_definitions \<and> operation_of d = ident)
   \<and> (\<forall>d \<in> set identity_definitions. \<forall>h. map_of regs (operation_of d) = None \<longrightarrow>
        (\<exists>regs'. Register (Some regs) d (Some h) = Inr regs'
           \<and> Resolve (Some regs') (operation_of d) = Inr \<lparr>rg_Definition = d, rg_Handler = h\<rparr>))"
proof -
  have checked: "validateDefinition d = Inr ()" if "d \<in> set identity_definitions" for d
    using mustDefine_total[OF that] by (auto simp: mustDefine_def define_operation_def validateDefinition_def res)
  have "\<exists>regs'. Register (Some regs) d (Some h) = Inr regs' \<and> Resolve (Some regs') (operation_of d) = Inr \<lparr>rg_Definition = d, rg_Handler = h\<rparr>"
    if "d \<in> set identity_definitions" "map_of regs (operation_of d) = None" for d and h :: "('a, 'b) handler"
  proof -
    note d = that
    obtain regs' where "Register (Some regs) d (Some h) = Inr regs'" using checked[OF d(1)] d(2) by (auto simp: Register_Inr)
    then show ?thesis using Resolve_Register(1) by blast
  qed
  then show ?thesis using mustDefine_total commandIdentityDefinition_iff by blast
qed

theorem catalogue_sound_witness:
  "mustDefine ''ContentWriteInput'' ''ContentSegmentOutput'' (df_metadata ContentWriteOnceV1) = Inr ContentWriteOnceV1
   \<and> (\<exists>regs'. Register (Some []) ContentWriteOnceV1 (Some brief_handler) = Inr regs')"
proof -
  have "ContentWriteOnceV1 \<in> set identity_definitions" by (simp add: definitions_def)
  moreover have "df_inputType ContentWriteOnceV1 = ''ContentWriteInput''" "df_outputType ContentWriteOnceV1 = ''ContentSegmentOutput''"
    by (simp_all add: ContentWriteOnceV1_def)
  ultimately show ?thesis using catalogue_sound[of "[] :: (unit, nat) Registry"] by force
qed

text \<open>C37: the encoding is exact. The encoder succeeds exactly on values whose text is valid UTF-8 in normal
  form C; what it writes is read back by the reference decoder as the same value, up to the order
  of map entries and the sign of numbers that have none; and it writes at most \<open>weight\<close> bytes.\<close>
theorem canonical_cbor_exact:
  "((\<exists>b. marshalCanonical nfc v = Inr b) \<longleftrightarrow> encodable nfc v)
   \<and> (\<forall>b. marshalCanonical nfc v = Inr b \<longrightarrow> length b \<le> weight v \<and> (weight v < 2 ^ 64 \<longrightarrow> decode b = Inr (norm v)))"
proof (intro conjI allI impI)
  show "(\<exists>b. marshalCanonical nfc v = Inr b) \<longleftrightarrow> encodable nfc v" unfolding marshalCanonical_def by (rule appendCanonical_total)
  fix b assume b: "marshalCanonical nfc v = Inr b"
  show w: "length b \<le> weight v" using b unfolding marshalCanonical_def by (rule appendCanonical_weight)
  assume "weight v < 2 ^ 64"
  then have "fits v" using short_fits[of nfc v b] b w unfolding marshalCanonical_def by simp
  then show "decode b = Inr (norm v)" using decode_marshalCanonical[OF b] by simp
qed

theorem canonical_cbor_exact_witness:
  "\<exists>b. marshalCanonical (\<lambda>_. True) (CMap [(''b'', CUint 300), (''a'', CArray [CText ''x'', CNull])]) = Inr b
     \<and> decode b = Inr (norm (CMap [(''b'', CUint 300), (''a'', CArray [CText ''x'', CNull])]))"
proof -
  let ?v = "CMap [(''b'', CUint 300), (''a'', CArray [CText ''x'', CNull])]"
  have "encodable (\<lambda>_. True) ?v" by code_simp
  moreover have "weight ?v < 2 ^ 64" by simp
  ultimately show ?thesis using canonical_cbor_exact[of "\<lambda>_. True" ?v] by blast
qed

section \<open>The tracker boundary\<close>



text \<open>C39: The provider is asked for the right entries. Seen by a seam that writes down its calls and answers
  as it likes, a flush that ends without an error has delivered, once each and in the order of their birth,
  the approved creations and comments, and of the well-formed approved state entries of a reference that do
  not regress from its last push the newest; one that ends early has delivered a beginning of that list.\<close>

theorem Flush_delivers:
  assumes "reachable st" "any_order order"
    and "Flush msg order actor repo (Some (heard answer)) st [] = (st', sent, report, r)"
  shows "\<exists>left. filter (deliverable (st_db st) (OutboxEntries (st_db st) repo)) (OutboxEntries (st_db st) repo) = sent @ left
    \<and> (r = Inr () \<longrightarrow> left = [])"
proof -
  obtain f where "run_flush msg order actor repo (heard answer) st [] = (f, r)" "sent = fl_world f"
    using assms(3) by (auto simp: Flush_def split: prod.splits)
  then show ?thesis using run_flush_calls[OF assms(1,2)] by simp
qed

theorem Flush_delivers_witness:
  "filter (deliverable (st_db demo_approved) (OutboxEntries (st_db demo_approved) id_R)) (OutboxEntries (st_db demo_approved) id_R)
    = [demo_sent]"
  using Flush_delivers[OF demo_approved_reachable _ demo_flush] by (auto simp: any_order_def)

text \<open>C40: The post-seal check asks about sealed Matters only and never offers a step back. For any other node it
  answers nothing and leaves the provider alone; for a sealed Matter it answers once for each of its active
  references, in their order, whatever the configuration and the provider do. An offer is always the current
  aggregate of the store, made only while the provider shows a state that is not terminal.\<close>

theorem Check_aligns:
  assumes "Check msg quoted providers reader t s matterID w = (w', items)"
    and "view_Node s matterID = Inr matter" "view_NodeCompletion t s matter = Inr c"
  shows "(if N_Kind matter = ScaleMatter \<and> nc_Sealed c then map al_Reference items = TrackerReferences s (N_ID matter)
      else items = [] \<and> w' = w) \<and> list_all (forward t s) items"
proof (cases "N_Kind matter = ScaleMatter \<and> nc_Sealed c \<and> TrackerReferences s (N_ID matter) \<noteq> []")
  case True
  then have "alignRefs msg quoted providers reader t s (N_Repo matter) (TrackerReferences s (N_ID matter)) w = (w', items)"
    using assms by (simp add: Check_def)
  from alignRefs_says[OF this] show ?thesis using True by simp
next
  case False
  then show ?thesis using assms by (auto simp: Check_def Let_def split: if_splits)
qed

theorem Check_aligns_witness:
  "map al_Reference (snd aligned_out) = [''o/r#1''] \<and> map al_Offer (snd aligned_out) = [TrackerCompleted]
    \<and> list_all (forward \<lparr>tx_log = [], tx_defer = False\<rparr> aligned_db) (snd aligned_out)"
proof -
  let ?t = "\<lparr>tx_log = [], tx_defer = False\<rparr>"
  have s: "view_Node aligned_db ''m'' = Inr aligned_matter" "view_NodeCompletion ?t aligned_db aligned_matter = Inr aligned_sealed"
      "N_Kind aligned_matter = ScaleMatter" "nc_Sealed aligned_sealed" "TrackerReferences aligned_db (N_ID aligned_matter) = [''o/r#1'']"
      "map al_Offer (snd aligned_out) = [TrackerCompleted]"
    by code_simp+
  obtain w' items where out: "aligned_out = (w', items)" by fastforce
  show ?thesis
    using Check_aligns[OF out[unfolded aligned_out_def] s(1,2)] s(3-6) by (simp add: out)
qed

section \<open>The Orchestrator loop\<close>

text \<open>C23: a pass of the Orchestrator that reports a finished Run is right about it: in the
  store it leaves, every member of the frozen set is a live node that is canceled or
  sealed, and the Run is closed as completed. It holds of a first pass and of a resumed
  one, for hooks that may do anything a command can.\<close>

theorem Run_finished_is_through:
  assumes "reachable st" "hooks_keep (\<lambda>a b. reachable a \<longrightarrow> reachable b) hooks"
    and "go = Orchestrate \<or> go = ResumeRun"
    and "go k lock driver env runID runCap policy hooks st w = Some (st', w', out, Inr ())" "oc_State out = StateFinished"
  shows "(\<forall>ident \<in> set (RunMatters (st_db st') runID). \<exists>r \<in> set (nodes (st_db st')). n_id r = ident \<and> n_live r
      \<and> (n_lifecycle r = Canceled \<or> sealed no_overlay (st_db st') r))
    \<and> (\<exists>row. view_Run (st_db st') runID = Inr row \<and> ru_state row = ''closed'' \<and> ru_close_reason row = Some ''completed'')"
proof -
  obtain resume p where p: "run_pass resume k lock driver env runID runCap policy hooks st w = (p, Inr ())" "st' = pa_store p" "out = pa_out p"
    using assms(3,4) by (auto simp: Orchestrate_def ResumeRun_def split: prod.splits if_splits)
  from run_pass_finishes[OF p(1) _ assms(1,2)] have "run_completed (st_db st') runID" using assms(5) p(2,3) by simp
  then show ?thesis by (simp add: run_completed_def through_def)
qed

theorem Run_finished_is_through_witness:
  "\<exists>st' out row. Orchestrate 1 LockAcquired ActorHuman demo_env id_U 2 demo_policy demo_hooks demo_sealed () = Some (st', (), out, Inr ())
    \<and> oc_State out = StateFinished \<and> view_Run (st_db st') id_U = Inr row \<and> ru_close_reason row = Some ''completed''
    \<and> (\<exists>r \<in> set (nodes (st_db st')). n_id r = id_B \<and> (n_lifecycle r = Canceled \<or> sealed no_overlay (st_db st') r))"
proof -
  obtain st' out where o: "Orchestrate 1 LockAcquired ActorHuman demo_env id_U 2 demo_policy demo_hooks demo_sealed () = Some (st', (), out, Inr ())"
      "oc_State out = StateFinished" "RunMatters (st_db st') id_U = [id_B]"
    using demo_pass_finishes by (auto simp: demo_outcome_def split: option.splits)
  have "hooks_keep (\<lambda>a b. reachable a \<longrightarrow> reachable b) demo_hooks" by (rule demo_hooks_keep) simp
  from Run_finished_is_through[of demo_sealed demo_hooks Orchestrate, OF demo_sealed_reachable this _ o(1,2)] show ?thesis using o by auto
qed



end
